(* ===== verification/Prelude.thy ===== *)
theory Prelude
  imports Complex_Main "HOL-Library.Word"
begin

text \<open>
  Shared vocabulary of the development: the program type (state passing with JavaScript
  exceptions as values of a sum type, where a throw keeps the state changes made before it),
  its combinators and their inversion lemmas, the fault model of external I/O, and the
  string helpers the services use.
\<close>

named_theorems prog_simps \<open>unfolding rules of the program combinators\<close>
named_theorems keeps_intro \<open>introduction rules for invariants of programs\<close>

section \<open>Exceptions and programs\<close>

text \<open>
  A JavaScript \<open>Error\<close>, with the \<open>status\<close> and \<open>code\<close> properties the services attach by
  \<open>Object.assign(new Error(m), { status, code })\<close>. Characters outside ASCII in a message are
  written as their ASCII look-alikes.
\<close>

datatype failure = Failure (fmsg: string) (fstatus: "nat option") (fcode: "string option")

abbreviation plainErr :: "string \<Rightarrow> failure" where
  "plainErr m \<equiv> Failure m None None"

abbreviation statusErr :: "string \<Rightarrow> nat \<Rightarrow> failure" where
  "statusErr m s \<equiv> Failure m (Some s) None"

abbreviation codedErr :: "string \<Rightarrow> nat \<Rightarrow> string \<Rightarrow> failure" where
  "codedErr m s c \<equiv> Failure m (Some s) (Some c)"

type_synonym ('s, 'a) prog = "'s \<Rightarrow> (failure + 'a) \<times> 's"

definition ret :: "'a \<Rightarrow> ('s, 'a) prog" where
  "ret x s = (Inr x, s)"

definition raise :: "failure \<Rightarrow> ('s, 'a) prog" where
  "raise e s = (Inl e, s)"

definition andThen :: "('s, 'a) prog \<Rightarrow> ('a \<Rightarrow> ('s, 'b) prog) \<Rightarrow> ('s, 'b) prog" where
  "andThen m k s = (case m s of (Inl e, t) \<Rightarrow> (Inl e, t) | (Inr x, t) \<Rightarrow> k x t)"

definition gets :: "('s \<Rightarrow> 'a) \<Rightarrow> ('s, 'a) prog" where
  "gets f s = (Inr (f s), s)"

definition modify :: "('s \<Rightarrow> 's) \<Rightarrow> ('s, unit) prog" where
  "modify f s = (Inr (), f s)"

definition require :: "bool \<Rightarrow> failure \<Rightarrow> ('s, unit) prog" where
  "require b e s = ((if b then Inr () else Inl e), s)"

definition tryCatch :: "('s, 'a) prog \<Rightarrow> (failure \<Rightarrow> ('s, 'a) prog) \<Rightarrow> ('s, 'a) prog" where
  "tryCatch m h s = (case m s of (Inl e, t) \<Rightarrow> h e t | (Inr x, t) \<Rightarrow> (Inr x, t))"

definition ofOption :: "'a option \<Rightarrow> failure \<Rightarrow> ('s, 'a) prog" where
  "ofOption x e s = ((case x of None \<Rightarrow> Inl e | Some v \<Rightarrow> Inr v), s)"

definition whenP :: "bool \<Rightarrow> ('s, unit) prog \<Rightarrow> ('s, unit) prog" where
  "whenP b m = (if b then m else ret ())"

lemmas prog_defs = ret_def raise_def andThen_def gets_def modify_def require_def
  tryCatch_def ofOption_def whenP_def

lemma ret_run [simp]: "ret x s = (Inr x, s)"
  by (simp add: ret_def)

lemma raise_run [simp]: "raise e s = (Inl e, s)"
  by (simp add: raise_def)

lemma gets_run [simp]: "gets f s = (Inr (f s), s)"
  by (simp add: gets_def)

lemma modify_run [simp]: "modify f s = (Inr (), f s)"
  by (simp add: modify_def)

lemma require_True [simp]: "require True e s = (Inr (), s)"
  by (simp add: require_def)

lemma require_False [simp]: "require False e s = (Inl e, s)"
  by (simp add: require_def)

lemma ofOption_Some [simp]: "ofOption (Some x) e s = (Inr x, s)"
  by (simp add: ofOption_def)

lemma ofOption_None [simp]: "ofOption None e s = (Inl e, s)"
  by (simp add: ofOption_def)

lemma whenP_True [simp]: "whenP True m = m"
  by (simp add: whenP_def)

lemma whenP_False [simp]: "whenP False m = ret ()"
  by (simp add: whenP_def)

text \<open>Running a sequence whose first part is known.\<close>

lemma andThen_Inr [simp]: "m s = (Inr x, t) \<Longrightarrow> andThen m k s = k x t"
  by (simp add: andThen_def)

lemma andThen_Inl [simp]: "m s = (Inl e, t) \<Longrightarrow> andThen m k s = (Inl e, t)"
  by (simp add: andThen_def)

lemma tryCatch_Inr [simp]: "m s = (Inr x, t) \<Longrightarrow> tryCatch m h s = (Inr x, t)"
  by (simp add: tryCatch_def)

lemma tryCatch_Inl [simp]: "m s = (Inl e, t) \<Longrightarrow> tryCatch m h s = h e t"
  by (simp add: tryCatch_def)

lemma andThen_ofOption [simp]:
  "andThen (ofOption (Some x) e) k s = k x s" "andThen (ofOption None e) k s = (Inl e, s)"
  by (simp_all add: andThen_def ofOption_def)

lemma andThen_gets [simp]: "andThen (gets f) k s = k (f s) s"
  by (simp add: andThen_def)

lemma andThen_unit [simp]:
  "andThen (modify g) k s = k () (g s)" "andThen (require True e) k s = k () s"
  "andThen (require False e) k s = (Inl e, s)"
  by (simp_all add: andThen_def)

lemma andThen_raise [simp]: "andThen (raise e) k s = (Inl e, s)"
  by (simp add: andThen_def)

text \<open>Inversion: what a successful run of a sequence did.\<close>

lemma andThen_InrE:
  assumes "andThen m k s = (Inr y, u)"
  obtains x t where "m s = (Inr x, t)" and "k x t = (Inr y, u)"
  using assms by (auto simp: andThen_def split: prod.splits sum.splits)

lemma andThen_Inr_iff:
  "andThen m k s = (Inr y, u) \<longleftrightarrow> (\<exists>x t. m s = (Inr x, t) \<and> k x t = (Inr y, u))"
  by (auto simp: andThen_def split: prod.splits sum.splits)

lemma require_Inr_iff [simp]: "require b e s = (Inr y, t) \<longleftrightarrow> b \<and> t = s"
  by (auto simp: require_def)

lemma ofOption_Inr_iff [simp]: "ofOption x e s = (Inr y, t) \<longleftrightarrow> x = Some y \<and> t = s"
  by (auto simp: ofOption_def split: option.splits)

lemma andThen_ret [simp]: "andThen (ret x) k = k x"
  by (simp add: andThen_def fun_eq_iff)

lemma andThen_assoc: "andThen (andThen m k) h = andThen m (\<lambda>x. andThen (k x) h)"
  by (auto simp: andThen_def fun_eq_iff split: prod.splits sum.splits)

text \<open>The reply of a route: a JSON body with status 200 (or 201), or an error status with its message and code.\<close>

datatype 'a reply = Reply 'a | ReplyErr nat string "string option"

section \<open>Invariants of programs\<close>

text \<open>
  \<open>keeps P m\<close>: whatever \<open>m\<close> does, returning or throwing, \<open>P\<close> still holds of the state.
\<close>

definition keeps :: "('s \<Rightarrow> bool) \<Rightarrow> ('s, 'a) prog \<Rightarrow> bool" where
  "keeps P m \<longleftrightarrow> (\<forall>s. P s \<longrightarrow> P (snd (m s)))"

lemma keepsI: "(\<And>s. P s \<Longrightarrow> P (snd (m s))) \<Longrightarrow> keeps P m"
  by (simp add: keeps_def)

lemma keepsD: "keeps P m \<Longrightarrow> P s \<Longrightarrow> P (snd (m s))"
  by (simp add: keeps_def)

lemma keeps_ret [keeps_intro]: "keeps P (ret x)"
  by (simp add: keeps_def)

lemma keeps_raise [keeps_intro]: "keeps P (raise e)"
  by (simp add: keeps_def)

lemma keeps_gets [keeps_intro]: "keeps P (gets f)"
  by (simp add: keeps_def)

lemma keeps_require [keeps_intro]: "keeps P (require b e)"
  by (simp add: keeps_def require_def)

lemma keeps_ofOption [keeps_intro]: "keeps P (ofOption x e)"
  by (simp add: keeps_def ofOption_def)

lemma keeps_modify: "(\<And>s. P s \<Longrightarrow> P (f s)) \<Longrightarrow> keeps P (modify f)"
  by (simp add: keeps_def)

lemma keeps_andThen [keeps_intro]:
  assumes "keeps P m" and "\<And>x. keeps P (k x)"
  shows "keeps P (andThen m k)"
proof (rule keepsI)
  fix s
  assume "P s"
  then have t: "P (snd (m s))"
    using assms(1) by (rule keepsD [rotated])
  show "P (snd (andThen m k s))"
    using t assms(2) by (auto simp: andThen_def keeps_def split: prod.splits sum.splits)
qed

lemma keeps_tryCatch [keeps_intro]:
  assumes "keeps P m" and "\<And>e. keeps P (h e)"
  shows "keeps P (tryCatch m h)"
proof (rule keepsI)
  fix s
  assume "P s"
  then have t: "P (snd (m s))"
    using assms(1) by (rule keepsD [rotated])
  show "P (snd (tryCatch m h s))"
    using t assms(2) by (auto simp: tryCatch_def keeps_def split: prod.splits sum.splits)
qed

lemma keeps_whenP [keeps_intro]: "keeps P m \<Longrightarrow> keeps P (whenP b m)"
  by (simp add: whenP_def keeps_ret)

lemma keeps_if [keeps_intro]: "keeps P m \<Longrightarrow> keeps P n \<Longrightarrow> keeps P (if b then m else n)"
  by simp

lemma keeps_case_option [keeps_intro]:
  "keeps P m \<Longrightarrow> (\<And>x. keeps P (f x)) \<Longrightarrow> keeps P (case v of None \<Rightarrow> m | Some x \<Rightarrow> f x)"
  by (simp split: option.split)

lemma keeps_case_prod [keeps_intro]:
  "(\<And>x y. keeps P (f x y)) \<Longrightarrow> keeps P (case v of (x, y) \<Rightarrow> f x y)"
  by (simp split: prod.split)

section \<open>Outcomes of programs\<close>

text \<open>
  \<open>triple P m Q X\<close>: from a state with \<open>P\<close>, \<open>m\<close> returns in a state with \<open>Q\<close> of the result, or throws in a
  state with \<open>X\<close>.
\<close>

definition triple :: "('s \<Rightarrow> bool) \<Rightarrow> ('s, 'a) prog \<Rightarrow> ('a \<Rightarrow> 's \<Rightarrow> bool) \<Rightarrow> ('s \<Rightarrow> bool) \<Rightarrow> bool" where
  "triple P m Q X \<longleftrightarrow> (\<forall>s. P s \<longrightarrow> (case m s of (Inr x, t) \<Rightarrow> Q x t | (Inl e, t) \<Rightarrow> X t))"

lemma tripleI:
  assumes "\<And>s x t. P s \<Longrightarrow> m s = (Inr x, t) \<Longrightarrow> Q x t" and "\<And>s e t. P s \<Longrightarrow> m s = (Inl e, t) \<Longrightarrow> X t"
  shows "triple P m Q X"
  using assms unfolding triple_def by (simp split: prod.split sum.split)

lemma triple_InrD: "triple P m Q X \<Longrightarrow> P s \<Longrightarrow> m s = (Inr x, t) \<Longrightarrow> Q x t"
  unfolding triple_def by fastforce

lemma triple_InlD: "triple P m Q X \<Longrightarrow> P s \<Longrightarrow> m s = (Inl e, t) \<Longrightarrow> X t"
  unfolding triple_def by fastforce

lemma triple_andThen: "triple P m R X \<Longrightarrow> (\<And>x. triple (R x) (k x) Q X) \<Longrightarrow> triple P (andThen m k) Q X"
proof (rule tripleI)
  assume m: "triple P m R X" and k: "\<And>x. triple (R x) (k x) Q X"
  fix s y t
  assume s: "P s"
  show "Q y t" if "andThen m k s = (Inr y, t)"
    using that by (rule andThen_InrE) (use triple_InrD [OF m s] triple_InrD [OF k] in blast)
next
  assume m: "triple P m R X" and k: "\<And>x. triple (R x) (k x) Q X"
  fix s e t
  assume s: "P s" and run: "andThen m k s = (Inl e, t)"
  obtain r u where u: "m s = (r, u)" by fastforce
  show "X t"
  proof (cases r)
    case (Inl e')
    then show ?thesis using run u triple_InlD [OF m s] by simp
  next
    case (Inr x)
    then show ?thesis using run u triple_InlD [OF k] triple_InrD [OF m s] by simp
  qed
qed

lemma triple_keeps: "keeps P m \<Longrightarrow> (\<And>s. P s \<Longrightarrow> X s) \<Longrightarrow> triple P m (\<lambda>_. P) X"
  by (rule tripleI) (use keepsD in fastforce)+

lemma triple_conseq:
  "triple P m Q X \<Longrightarrow> (\<And>s. P' s \<Longrightarrow> P s) \<Longrightarrow> (\<And>x s. Q x s \<Longrightarrow> Q' x s) \<Longrightarrow> (\<And>s. X s \<Longrightarrow> X' s) \<Longrightarrow> triple P' m Q' X'"
  unfolding triple_def by (fastforce split: prod.splits sum.splits)

lemma triple_ret: "(\<And>s. P s \<Longrightarrow> Q x s) \<Longrightarrow> triple P (ret x) Q X"
  by (simp add: triple_def)

lemma triple_raise: "(\<And>s. P s \<Longrightarrow> X s) \<Longrightarrow> triple P (raise e) Q X"
  by (simp add: triple_def)

lemma triple_require: "(\<And>s. P s \<Longrightarrow> X s) \<Longrightarrow> (b \<Longrightarrow> triple P (k ()) Q X) \<Longrightarrow> triple P (andThen (require b e) k) Q X"
  unfolding triple_def andThen_def require_def by auto

lemma triple_ofOption:
  "(\<And>s. P s \<Longrightarrow> X s) \<Longrightarrow> (\<And>v. x = Some v \<Longrightarrow> triple P (k v) Q X) \<Longrightarrow> triple P (andThen (ofOption x e) k) Q X"
  unfolding triple_def andThen_def ofOption_def by (cases x) auto

lemma triple_skip:
  "keeps P m \<Longrightarrow> (\<And>s. P s \<Longrightarrow> X s) \<Longrightarrow> (\<And>x. triple P (k x) Q X) \<Longrightarrow> triple P (andThen m k) Q X"
  by (rule triple_andThen, rule triple_keeps)

section \<open>External I/O and its faults\<close>

text \<open>
  Every await of the services on the network (an RPC call, a database query) may fail. The
  oracle \<open>net\<close> of the state says how the next calls go: \<open>Delivered\<close>; \<open>Lost\<close>, nothing
  happened and the call throws; or \<open>Unacked\<close>, the effect took place but the caller sees an
  exception (a timeout after the request was processed). An empty oracle means no further
  faults. \<open>clock\<close> is \<open>Date.now()\<close> in milliseconds, constant during one handler.
\<close>

datatype net = Delivered | Lost | Unacked

record io =
  net :: "net list"
  clock :: int

definition nextNet :: "net list \<Rightarrow> net \<times> net list" where
  "nextNet ns = (case ns of [] \<Rightarrow> (Delivered, []) | n # ms \<Rightarrow> (n, ms))"

definition networkErr :: failure where
  "networkErr = plainErr ''network error''"

text \<open>
  \<open>io f\<close> performs the external action \<open>f\<close>, which may itself reject (\<open>Inl\<close>: a contract revert,
  a violated constraint) and then has no effect.
\<close>

definition io :: "('r io_scheme \<Rightarrow> failure + ('a \<times> 'r io_scheme)) \<Rightarrow> ('r io_scheme, 'a) prog" where
  "io f s = (let (o1, rest) = nextNet (net s); s1 = s\<lparr>net := rest\<rparr> in
     case o1 of
       Lost \<Rightarrow> (Inl networkErr, s1)
     | Delivered \<Rightarrow> (case f s1 of Inl e \<Rightarrow> (Inl e, s1) | Inr (x, s2) \<Rightarrow> (Inr x, s2))
     | Unacked \<Rightarrow> (case f s1 of Inl e \<Rightarrow> (Inl e, s1) | Inr (x, s2) \<Rightarrow> (Inl networkErr, s2)))"

text \<open>A read-only query, and a write that no constraint rejects.\<close>

definition readIO :: "('r io_scheme \<Rightarrow> 'a) \<Rightarrow> ('r io_scheme, 'a) prog" where
  "readIO f = io (\<lambda>s. Inr (f s, s))"

definition writeIO :: "('r io_scheme \<Rightarrow> 'r io_scheme) \<Rightarrow> ('r io_scheme, unit) prog" where
  "writeIO f = io (\<lambda>s. Inr ((), f s))"

lemma net_update_same: "net s = ns \<Longrightarrow> s\<lparr>net := ns\<rparr> = s"
  by (cases s) simp

lemma io_calm:
  "net s = [] \<Longrightarrow> io f s = (case f s of Inl e \<Rightarrow> (Inl e, s) | Inr (x, t) \<Rightarrow> (Inr x, t))"
  by (simp add: io_def nextNet_def net_update_same)

lemma readIO_calm [simp]: "net s = [] \<Longrightarrow> readIO f s = (Inr (f s), s)"
  by (simp add: readIO_def io_calm)

lemma writeIO_calm [simp]: "net s = [] \<Longrightarrow> writeIO f s = (Inr (), f s)"
  by (simp add: writeIO_def io_calm)

text \<open>
  An invariant that the oracle does not appear in is kept by an external action whose
  accepted effect keeps it.
\<close>

definition net_free :: "('r io_scheme \<Rightarrow> bool) \<Rightarrow> bool" where
  "net_free P \<longleftrightarrow> (\<forall>s ns. P (s\<lparr>net := ns\<rparr>) = P s)"

lemma net_freeD: "net_free P \<Longrightarrow> P (s\<lparr>net := ns\<rparr>) = P s"
  by (simp add: net_free_def)

lemma keeps_io:
  assumes "net_free P" and "\<And>s x t. P s \<Longrightarrow> f s = Inr (x, t) \<Longrightarrow> P t"
  shows "keeps P (io f)"
proof (rule keepsI)
  fix s
  assume s: "P s"
  obtain o1 rest where n: "nextNet (net s) = (o1, rest)"
    by fastforce
  have s1: "P (s\<lparr>net := rest\<rparr>)"
    using s assms(1) by (simp add: net_freeD)
  show "P (snd (io f s))"
    using s1 assms(2) [OF s1] by (auto simp: io_def Let_def n split: net.splits sum.splits prod.splits)
qed

lemma keeps_readIO [keeps_intro]: "net_free P \<Longrightarrow> keeps P (readIO f)"
  unfolding readIO_def by (rule keeps_io) auto

lemma keeps_writeIO: "net_free P \<Longrightarrow> (\<And>s. P s \<Longrightarrow> P (f s)) \<Longrightarrow> keeps P (writeIO f)"
  unfolding writeIO_def by (rule keeps_io) auto

text \<open>What a successful external call did, whatever the oracle.\<close>

lemma io_InrD:
  assumes "io f s = (Inr x, t)"
  shows "\<exists>rest. f (s\<lparr>net := rest\<rparr>) = Inr (x, t)"
  using assms by (auto simp: io_def Let_def split: prod.splits net.splits sum.splits)

lemma readIO_InrD: "readIO f s = (Inr x, t) \<Longrightarrow> \<exists>rest. t = s\<lparr>net := rest\<rparr> \<and> x = f t"
  unfolding readIO_def by (drule io_InrD) auto

lemma writeIO_InrD: "writeIO f s = (Inr x, t) \<Longrightarrow> \<exists>rest. t = f (s\<lparr>net := rest\<rparr>)"
  unfolding writeIO_def by (drule io_InrD) auto

text \<open>
  \<open>db.transaction(fn)\<close>: the effects of the body are kept if it returns and the COMMIT is processed, and
  undone if it throws or the COMMIT is lost.
\<close>

definition transaction :: "('r io_scheme, 'a) prog \<Rightarrow> ('r io_scheme, 'a) prog" where
  "transaction m s = (case m s of
     (Inl e, t) \<Rightarrow> (Inl e, s\<lparr>net := net t\<rparr>)
   | (Inr x, t) \<Rightarrow> (case nextNet (net t) of
       (Delivered, r) \<Rightarrow> (Inr x, t\<lparr>net := r\<rparr>)
     | (Lost, r) \<Rightarrow> (Inl networkErr, s\<lparr>net := r\<rparr>)
     | (Unacked, r) \<Rightarrow> (Inl networkErr, t\<lparr>net := r\<rparr>)))"

lemma keeps_transaction: "net_free P \<Longrightarrow> keeps P m \<Longrightarrow> keeps P (transaction m)"
proof (rule keepsI)
  fix s
  assume P: "net_free P" and m: "keeps P m" and s: "P s"
  obtain r t where mt: "m s = (r, t)" by fastforce
  have "P t" using keepsD [OF m s] mt by simp
  then show "P (snd (transaction m s))"
    using s P mt by (auto simp: transaction_def net_freeD split: sum.split prod.split net.split)
qed

lemma transaction_InrD: "transaction m s = (Inr x, t) \<Longrightarrow> \<exists>u rest. m s = (Inr x, u) \<and> t = u\<lparr>net := rest\<rparr>"
  by (auto simp: transaction_def split: prod.splits sum.splits net.splits)

lemma transaction_calm: "m s = (Inr x, t) \<Longrightarrow> net t = [] \<Longrightarrow> transaction m s = (Inr x, t)"
  by (simp add: transaction_def nextNet_def net_update_same)

text \<open>Reading a chain of steps that returned, after elimination with \<open>andThen_InrE\<close>.\<close>

lemmas steps_inv = split_paired_all prod.case require_Inr_iff ofOption_Inr_iff ret_run gets_run raise_run prod.inject sum.inject

section \<open>Addresses and strings\<close>

text \<open>
  A hex address denotes a 160-bit word; comparing two of them after \<open>toLowerCase()\<close> compares
  the words.
\<close>

type_synonym address = "160 word"

definition upperChar :: "char \<Rightarrow> char" where
  "upperChar c = (let n = (of_char c :: nat) in
     if 97 \<le> n \<and> n \<le> 122 then char_of (n - 32) else c)"

definition lowerChar :: "char \<Rightarrow> char" where
  "lowerChar c = (let n = (of_char c :: nat) in
     if 65 \<le> n \<and> n \<le> 90 then char_of (n + 32) else c)"

definition toUpper :: "string \<Rightarrow> string" where
  "toUpper s = map upperChar s"

definition toLower :: "string \<Rightarrow> string" where
  "toLower s = map lowerChar s"

lemma toUpper_simps [simp]:
  "toUpper [] = []" "toUpper (c # s) = upperChar c # toUpper s"
  by (simp_all add: toUpper_def)

lemma toLower_simps [simp]:
  "toLower [] = []" "toLower (c # s) = lowerChar c # toLower s"
  by (simp_all add: toLower_def)

lemma upperChar_idem [simp]: "upperChar (upperChar c) = upperChar c"
  by (auto simp: upperChar_def Let_def)

lemma toUpper_idem [simp]: "toUpper (toUpper s) = toUpper s"
  by (simp add: toUpper_def)

text \<open>\<open>String.prototype.trim\<close> on ASCII white space.\<close>

definition isSpace :: "char \<Rightarrow> bool" where
  "isSpace c \<longleftrightarrow> (let n = (of_char c :: nat) in n = 32 \<or> (9 \<le> n \<and> n \<le> 13))"

definition trim :: "string \<Rightarrow> string" where
  "trim s = rev (dropWhile isSpace (rev (dropWhile isSpace s)))"

definition isDigit :: "char \<Rightarrow> bool" where
  "isDigit c \<longleftrightarrow> (let n = (of_char c :: nat) in 48 \<le> n \<and> n \<le> 57)"

text \<open>\<open>t.startsWith(p)\<close> and \<open>t.includes(p)\<close>.\<close>

definition startsWith :: "string \<Rightarrow> string \<Rightarrow> bool" where
  "startsWith t p \<longleftrightarrow> take (length p) t = p"

fun hasText :: "string \<Rightarrow> string \<Rightarrow> bool" where
  "hasText [] p \<longleftrightarrow> p = []"
| "hasText (c # t) p \<longleftrightarrow> startsWith (c # t) p \<or> hasText t p"

text \<open>\<open>x ?? d\<close> and \<open>x || d\<close> on strings.\<close>

definition orElse :: "'a option \<Rightarrow> 'a \<Rightarrow> 'a" where
  "orElse x d = (case x of None \<Rightarrow> d | Some v \<Rightarrow> v)"

definition orEmpty :: "string option \<Rightarrow> string \<Rightarrow> string" where
  "orEmpty x d = (case x of None \<Rightarrow> d | Some v \<Rightarrow> if v = [] then d else v)"

lemma orElse_simps [simp]: "orElse None d = d" "orElse (Some v) d = v"
  by (simp_all add: orElse_def)

section \<open>Lists of rows\<close>

text \<open>\<open>UPDATE ... WHERE\<close> on a table held as a list of rows.\<close>

definition updWhere :: "('r \<Rightarrow> bool) \<Rightarrow> ('r \<Rightarrow> 'r) \<Rightarrow> 'r list \<Rightarrow> 'r list" where
  "updWhere P f rows = map (\<lambda>r. if P r then f r else r) rows"

lemma updWhere_simps [simp]:
  "updWhere P f [] = []"
  "updWhere P f (r # rs) = (if P r then f r else r) # updWhere P f rs"
  by (simp_all add: updWhere_def)

lemma length_updWhere [simp]: "length (updWhere P f rows) = length rows"
  by (simp add: updWhere_def)

lemma updWhere_none: "(\<And>r. r \<in> set rows \<Longrightarrow> \<not> P r) \<Longrightarrow> updWhere P f rows = rows"
  by (induction rows) auto

lemma updWhere_ex:
  assumes "\<And>r. Q r \<Longrightarrow> Q (f r)" and "\<exists>r\<in>set rows. Q r"
  shows "\<exists>r\<in>set (updWhere P f rows). Q r"
  using assms by (auto simp: updWhere_def)

lemma find_SomeD: "find P xs = Some x \<Longrightarrow> P x \<and> x \<in> set xs"
  by (induction xs) (auto split: if_splits)

lemma find_updWhere_key:
  assumes "\<And>r. key (f r) = key r"
  shows "find (\<lambda>r. key r = k) (updWhere P f rows)
    = map_option (\<lambda>r. if P r then f r else r) (find (\<lambda>r. key r = k) rows)"
  using assms by (induction rows) auto

end
