(* ===== verification/Solidity.thy ===== *)
theory Solidity
  imports Prelude
begin

text \<open>
  What the contracts under \<open>src/src\<close> use of Solidity 0.8: \<open>uint256\<close> values as \<open>nat\<close> with checked
  arithmetic (an overflow reverts with a Panic), \<open>bytes32\<close> keys, and reverts as values of a sum
  type; a revert discards every state change of the call.
\<close>

type_synonym bytes32 = "256 word"

datatype revert =
    ZeroAddress | ZeroAmount | InvalidCurrency | Panic | NotAuthorized | EnforcedPause | ExpectedPause
  | InsufficientBalance nat nat
  | InsufficientVaultTokenBalance nat nat
  | NotRegisteredParty address
  | RemittanceLocked | RemittanceNotLocked | KycLevelInsufficient nat nat
  | DestinationNotAllowed
  | TokenAlreadyRegistered address | TokenNotSupported address
  | FeeTooHigh nat | NoYield
  | ERC20Failed
  | AccountBlacklisted address | AccountNotWhitelisted address
  | SenderNotVerified address | RecipientNotVerified address | CrossBorderNotAllowed
  | InsufficientUnfrozenBalance nat nat | FreezeExceedsBalance nat nat | AmountExceedsFrozen nat nat
  | SessionInactive address address | SessionExpired address address | DeadlineExpired
  | AmountExceedsCap nat nat | DailyCapExceeded nat nat
  | InvalidSessionSignature | VaultTransferFailed | SafeReverted

definition sbind :: "'e + 'a \<Rightarrow> ('a \<Rightarrow> 'e + 'b) \<Rightarrow> 'e + 'b" where
  "sbind m k = (case m of Inl e \<Rightarrow> Inl e | Inr x \<Rightarrow> k x)"

definition guard :: "bool \<Rightarrow> revert \<Rightarrow> revert + unit" where
  "guard b e = (if b then Inr () else Inl e)"

lemma sbind_simps [simp]: "sbind (Inr x) k = k x" "sbind (Inl e) k = Inl e"
  by (simp_all add: sbind_def)

lemma guard_simps [simp]: "guard True e = Inr ()" "guard False e = Inl e"
  by (simp_all add: guard_def)

lemma sbind_Inr_iff: "sbind m k = Inr y \<longleftrightarrow> (\<exists>x. m = Inr x \<and> k x = Inr y)"
  by (cases m) auto

lemma guard_Inr_iff [simp]: "guard b e = Inr u \<longleftrightarrow> b"
  by (cases u) (simp add: guard_def)

lemma sbind_guard_Inr_iff: "sbind (guard b e) k = Inr y \<longleftrightarrow> b \<and> k () = Inr y"
  by (cases b) auto

definition uintLimit :: nat where
  "uintLimit = 2 ^ 256"

definition add256 :: "nat \<Rightarrow> nat \<Rightarrow> revert + nat" where
  "add256 a b = (if a + b < uintLimit then Inr (a + b) else Inl Panic)"

definition sub256 :: "nat \<Rightarrow> nat \<Rightarrow> revert + nat" where
  "sub256 a b = (if b \<le> a then Inr (a - b) else Inl Panic)"

definition mul256 :: "nat \<Rightarrow> nat \<Rightarrow> revert + nat" where
  "mul256 a b = (if a * b < uintLimit then Inr (a * b) else Inl Panic)"

lemma add256_Inr_iff [simp]: "add256 a b = Inr c \<longleftrightarrow> c = a + b \<and> a + b < uintLimit"
  by (auto simp: add256_def)

lemma sub256_Inr_iff [simp]: "sub256 a b = Inr c \<longleftrightarrow> b \<le> a \<and> c = a - b"
  by (auto simp: sub256_def)

lemma mul256_Inr_iff [simp]: "mul256 a b = Inr c \<longleftrightarrow> c = a * b \<and> a * b < uintLimit"
  by (auto simp: mul256_def)

text \<open>Rounding up: \<open>a div b\<close>, plus one when the remainder (\<open>mulmod\<close>) is not zero.\<close>

definition ceilDiv :: "nat \<Rightarrow> nat \<Rightarrow> nat" where
  "ceilDiv a b = (if a mod b = 0 then a div b else a div b + 1)"

lemma ceilDiv_mult:
  "ceilDiv a b * b = (if a mod b = 0 then a div b * b else a div b * b + b)"
  by (simp add: ceilDiv_def)

lemma ceilDiv_bounds:
  assumes "0 < b"
  shows "a \<le> ceilDiv a b * b" and "ceilDiv a b * b < a + b"
proof -
  have up: "q + r = a \<Longrightarrow> r < b \<Longrightarrow> a \<le> (if r = 0 then q else q + b)"
    and lo: "q + r = a \<Longrightarrow> r < b \<Longrightarrow> (if r = 0 then q else q + b) < a + b" for q r
    by auto
  have d: "a div b * b + a mod b = a" by (rule div_mult_mod_eq)
  have m: "a mod b < b" using assms by simp
  show "a \<le> ceilDiv a b * b" unfolding ceilDiv_mult by (rule up [OF d m])
  show "ceilDiv a b * b < a + b" unfolding ceilDiv_mult by (rule lo [OF d m])
qed

lemma ceilDiv_le: "0 < b \<Longrightarrow> a \<le> c * b \<Longrightarrow> ceilDiv a b \<le> c"
proof (rule ccontr)
  assume b: "0 < b" and ac: "a \<le> c * b" and "\<not> ceilDiv a b \<le> c"
  then have "Suc c * b \<le> ceilDiv a b * b" by (intro mult_right_mono) auto
  with ceilDiv_bounds(2) [OF b, of a] ac show False by simp
qed

lemma le_div_iff: "0 < (b::nat) \<Longrightarrow> c \<le> a div b \<longleftrightarrow> c * b \<le> a"
  by (rule less_eq_div_iff_mult_less_eq)

end
