(* ===== verification/Ledger.thy ===== *)
theory Ledger
  imports Main
begin

text \<open>
  What the services rely on from a ledger of balances: \<open>share_ledger\<close> (a debit takes at least its
  amount from its account and nothing from the others, a credit takes nothing from anyone) and
  \<open>exact_ledger\<close> (credits and debits move exactly their amounts). An exact ledger is a share ledger.
  The Vault provides both: the first for every currency whose shares add up, the second for the
  spend-cash currencies, where a share is worth one unit.
\<close>

locale share_ledger =
  fixes bal :: "'s \<Rightarrow> 'u \<Rightarrow> 'c \<Rightarrow> nat"
    and sound :: "'s \<Rightarrow> 'c \<Rightarrow> bool"
    and cred :: "'u \<Rightarrow> 'c \<Rightarrow> nat \<Rightarrow> 's \<Rightarrow> 'e + 's"
    and deb :: "'u \<Rightarrow> 'c \<Rightarrow> nat \<Rightarrow> 's \<Rightarrow> 'e + 's"
  assumes cred_sound: "cred u c a s = Inr t \<Longrightarrow> sound s d \<Longrightarrow> sound t d"
    and deb_sound: "deb u c a s = Inr t \<Longrightarrow> sound s d \<Longrightarrow> sound t d"
    and cred_keeps: "cred u c a s = Inr t \<Longrightarrow> sound s d \<Longrightarrow> w \<noteq> u \<or> d \<noteq> c \<Longrightarrow> bal s w d \<le> bal t w d"
    and deb_keeps: "deb u c a s = Inr t \<Longrightarrow> sound s d \<Longrightarrow> w \<noteq> u \<or> d \<noteq> c \<Longrightarrow> bal s w d \<le> bal t w d"
    and deb_self: "deb u c a s = Inr t \<Longrightarrow> sound s c \<Longrightarrow> bal t u c + a \<le> bal s u c"
begin

lemma deb_covered: "deb u c a s = Inr t \<Longrightarrow> sound s c \<Longrightarrow> a \<le> bal s u c"
  using deb_self by fastforce

lemma deb_twice:
  "deb u c a s = Inr t \<Longrightarrow> deb u c b t = Inr v \<Longrightarrow> sound s c \<Longrightarrow> a + b \<le> bal s u c"
  using deb_self [of u c a s t] deb_self [of u c b t v] deb_sound [of u c a s t c] by simp

lemma exchange_keeps:
  assumes "deb u c a s = Inr t" and "cred w d b t = Inr v" and "sound s e"
    and "x \<noteq> u \<or> e \<noteq> c" and "x \<noteq> w \<or> e \<noteq> d"
  shows "bal s x e \<le> bal v x e"
  using deb_keeps [OF assms(1,3,4)] cred_keeps [OF assms(2) deb_sound [OF assms(1,3)] assms(5)] by simp

end

locale exact_ledger =
  fixes bal :: "'s \<Rightarrow> 'u \<Rightarrow> 'c \<Rightarrow> nat"
    and sound :: "'s \<Rightarrow> 'c \<Rightarrow> bool"
    and cred :: "'u \<Rightarrow> 'c \<Rightarrow> nat \<Rightarrow> 's \<Rightarrow> 'e + 's"
    and deb :: "'u \<Rightarrow> 'c \<Rightarrow> nat \<Rightarrow> 's \<Rightarrow> 'e + 's"
  assumes cred_exact: "cred u c a s = Inr t \<Longrightarrow> sound s d \<Longrightarrow>
      sound t d \<and> bal t w d = bal s w d + (if w = u \<and> d = c then a else 0)"
    and deb_exact: "deb u c a s = Inr t \<Longrightarrow> sound s d \<Longrightarrow>
      sound t d \<and> bal t w d = bal s w d - (if w = u \<and> d = c then a else 0)"
    and deb_enough: "deb u c a s = Inr t \<Longrightarrow> sound s c \<Longrightarrow> a \<le> bal s u c"
begin

text \<open>A debit followed by a credit of the same amount moves it, and conserves every sum.\<close>

lemma move_exact:
  assumes "deb u c a s = Inr t" and "cred w c a t = Inr v" and "sound s c"
  shows "bal v x c = (if u = w then bal s x c else if x = u then bal s x c - a
      else if x = w then bal s x c + a else bal s x c)"
  using deb_exact [OF assms(1,3), of x] cred_exact [OF assms(2) conjunct1 [OF deb_exact [OF assms(1,3), of x]], of x]
    deb_enough [OF assms(1,3)]
  by auto

lemma move_total:
  assumes "deb u c a s = Inr t" and "cred w c a t = Inr v" and "sound s c"
    and "finite A" and "u \<in> A" and "w \<in> A"
  shows "(\<Sum>x\<in>A. bal v x c) = (\<Sum>x\<in>A. bal s x c)"
proof (cases "u = w")
  case True
  then show ?thesis using move_exact [OF assms(1-3)] by simp
next
  case False
  have le: "a \<le> bal s u c" by (rule deb_enough [OF assms(1,3)])
  have rest: "(\<Sum>x\<in>A - {u} - {w}. bal v x c) = (\<Sum>x\<in>A - {u} - {w}. bal s x c)"
    using move_exact [OF assms(1-3)] False by (intro sum.cong) auto
  have split: "(\<Sum>x\<in>A. f x) = f u + (f w + (\<Sum>x\<in>A - {u} - {w}. f x))" for f :: "'u \<Rightarrow> nat"
    using assms(4-6) False by (simp add: sum.remove [of A u f] sum.remove [of "A - {u}" w f])
  show ?thesis
    unfolding split rest using move_exact [OF assms(1-3)] False le by simp
qed

end

sublocale exact_ledger \<subseteq> share_ledger bal sound cred deb
proof unfold_locales
  show "cred u c a s = Inr t \<Longrightarrow> sound s d \<Longrightarrow> sound t d" for u c a s t d
    using cred_exact by blast
  show "deb u c a s = Inr t \<Longrightarrow> sound s d \<Longrightarrow> sound t d" for u c a s t d
    using deb_exact by blast
  show "cred u c a s = Inr t \<Longrightarrow> sound s d \<Longrightarrow> w \<noteq> u \<or> d \<noteq> c \<Longrightarrow> bal s w d \<le> bal t w d" for u c a s t d w
    using cred_exact [of u c a s t d w] by simp
  show "deb u c a s = Inr t \<Longrightarrow> sound s d \<Longrightarrow> w \<noteq> u \<or> d \<noteq> c \<Longrightarrow> bal s w d \<le> bal t w d" for u c a s t d w
    using deb_exact [of u c a s t d w] by auto
  show "deb u c a s = Inr t \<Longrightarrow> sound s c \<Longrightarrow> bal t u c + a \<le> bal s u c" for u c a s t
    using deb_exact [of u c a s t c u] deb_enough [of u c a s t] by simp
qed

end
