(* ===== verification/Vault.thy ===== *)
theory Vault
  imports Solidity Ledger
begin

text \<open>
  The unified balance ledger of \<open>src/src/Vault.sol\<close>: a share ledger per currency in the style of
  ERC-4626. A user holds shares; the spendable balance is the shares' part of \<open>totalAssets\<close>.
  The record holds the contract's storage, one definition per function, with the guards in
  the order of the source. The Consumer registry (\<open>isRegistered\<close>, \<open>getKycLevel\<close>) is read
  through functions of the state, and token balances live in \<open>Chain\<close>.
\<close>

record vault =
  shares :: "address \<Rightarrow> bytes32 \<Rightarrow> nat"
  totalShares :: "bytes32 \<Rightarrow> nat"
  totalAssets :: "bytes32 \<Rightarrow> nat"
  tokenCurrency :: "address \<Rightarrow> bytes32"
  currencyTokens :: "bytes32 \<Rightarrow> address list"
  currencyTreasuryToken :: "bytes32 \<Rightarrow> address"
  remittanceLocked :: "address \<Rightarrow> bool"
  trustedCounterparty :: "address \<Rightarrow> bool"
  platformReserveAssets :: "bytes32 \<Rightarrow> nat"
  isAllowedDestination :: "bytes32 \<Rightarrow> bool"
  allowedDestinations :: "bytes32 list"
  consumerContract :: address
  swapRouter :: address
  usdcToken :: address
  isExecutor :: "address \<Rightarrow> bool"
  isAdmin :: "address \<Rightarrow> bool"
  isSettlement :: "address \<Rightarrow> bool"
  vaultPaused :: bool

section \<open>Share arithmetic\<close>

definition convertToShares :: "vault \<Rightarrow> bytes32 \<Rightarrow> nat \<Rightarrow> bool \<Rightarrow> revert + nat" where
  "convertToShares v c assets roundUp =
    (let ts = totalShares v c; ta = totalAssets v c in
     if ts = 0 \<or> ta = 0 then Inr assets
     else sbind (mul256 assets ts) (\<lambda>p.
       if roundUp \<and> p mod ta \<noteq> 0 then add256 (p div ta) 1 else Inr (p div ta)))"

definition convertToAssets :: "vault \<Rightarrow> bytes32 \<Rightarrow> nat \<Rightarrow> bool \<Rightarrow> revert + nat" where
  "convertToAssets v c sh roundUp =
    (let ts = totalShares v c; ta = totalAssets v c in
     if ts = 0 then Inr 0
     else sbind (mul256 sh ta) (\<lambda>p.
       if roundUp \<and> p mod ts \<noteq> 0 then add256 (p div ts) 1 else Inr (p div ts)))"

definition unifiedBalance :: "vault \<Rightarrow> address \<Rightarrow> bytes32 \<Rightarrow> revert + nat" where
  "unifiedBalance v user c = convertToAssets v c (shares v user c) False"

definition setShares :: "address \<Rightarrow> bytes32 \<Rightarrow> nat \<Rightarrow> vault \<Rightarrow> vault" where
  "setShares user c n v = v\<lparr>shares := (shares v)(user := (shares v user)(c := n))\<rparr>"

definition setPool :: "bytes32 \<Rightarrow> nat \<Rightarrow> nat \<Rightarrow> vault \<Rightarrow> vault" where
  "setPool c ts ta v = v\<lparr>totalShares := (totalShares v)(c := ts), totalAssets := (totalAssets v)(c := ta)\<rparr>"

definition creditAssets :: "address \<Rightarrow> bytes32 \<Rightarrow> nat \<Rightarrow> vault \<Rightarrow> revert + vault" where
  "creditAssets user c assets v =
    sbind (convertToShares v c assets False) (\<lambda>newShares.
    sbind (add256 (shares v user c) newShares) (\<lambda>us.
    sbind (add256 (totalShares v c) newShares) (\<lambda>ts.
    sbind (add256 (totalAssets v c) assets) (\<lambda>ta.
      Inr (setPool c ts ta (setShares user c us v))))))"

definition debitAssets :: "address \<Rightarrow> bytes32 \<Rightarrow> nat \<Rightarrow> vault \<Rightarrow> revert + vault" where
  "debitAssets user c assets v =
    (let userShares = shares v user c in
     sbind (convertToAssets v c userShares False) (\<lambda>bal.
     sbind (guard (assets \<le> bal) (InsufficientBalance bal assets)) (\<lambda>_.
     sbind (if assets = bal then Inr userShares else convertToShares v c assets True) (\<lambda>b0.
       let burnShares = (if userShares < b0 then userShares else b0) in
       sbind (sub256 (totalShares v c) burnShares) (\<lambda>ts.
       sbind (sub256 (totalAssets v c) assets) (\<lambda>ta.
         Inr (setPool c ts ta (setShares user c (userShares - burnShares) v))))))))"

section \<open>Entry points of the ledger\<close>

definition adminCredit :: "address \<Rightarrow> address \<Rightarrow> nat \<Rightarrow> bytes32 \<Rightarrow> vault \<Rightarrow> revert + vault" where
  "adminCredit sender user amount c v =
    sbind (guard (isExecutor v sender) NotAuthorized) (\<lambda>_.
    sbind (guard (user \<noteq> 0) ZeroAddress) (\<lambda>_.
    sbind (guard (amount \<noteq> 0) ZeroAmount) (\<lambda>_.
    sbind (guard (c \<noteq> 0) InvalidCurrency) (\<lambda>_.
      creditAssets user c amount v))))"

definition adminDebit :: "address \<Rightarrow> address \<Rightarrow> nat \<Rightarrow> bytes32 \<Rightarrow> vault \<Rightarrow> revert + vault" where
  "adminDebit sender user amount c v =
    sbind (guard (isExecutor v sender) NotAuthorized) (\<lambda>_.
    sbind (guard (user \<noteq> 0) ZeroAddress) (\<lambda>_.
    sbind (guard (amount \<noteq> 0) ZeroAmount) (\<lambda>_.
      debitAssets user c amount v)))"

definition credit :: "address \<Rightarrow> address \<Rightarrow> nat \<Rightarrow> bytes32 \<Rightarrow> vault \<Rightarrow> revert + vault" where
  "credit sender user amount c v =
    sbind (guard (isSettlement v sender) NotAuthorized) (\<lambda>_.
    sbind (guard (user \<noteq> 0) ZeroAddress) (\<lambda>_.
    sbind (guard (amount \<noteq> 0) ZeroAmount) (\<lambda>_.
    sbind (guard (c \<noteq> 0) InvalidCurrency) (\<lambda>_.
      creditAssets user c amount v))))"

text \<open>
  \<open>transfer\<close>: \<open>from\<close> is \<open>msg.sender\<close>; \<open>reg\<close> is \<open>consumerContract.isRegistered\<close>. The gate is inert
  while no Consumer contract is set.
\<close>

definition transfer ::
  "(address \<Rightarrow> bool) \<Rightarrow> address \<Rightarrow> address \<Rightarrow> nat \<Rightarrow> bytes32 \<Rightarrow> vault \<Rightarrow> revert + vault" where
  "transfer reg from to amount c v =
    sbind (guard (\<not> vaultPaused v) EnforcedPause) (\<lambda>_.
    sbind (guard (to \<noteq> 0) ZeroAddress) (\<lambda>_.
    sbind (guard (amount \<noteq> 0) ZeroAmount) (\<lambda>_.
    let fromShares = shares v from c in
    sbind (convertToAssets v c fromShares False) (\<lambda>bal.
    sbind (guard (amount \<le> bal) (InsufficientBalance bal amount)) (\<lambda>_.
    sbind (guard (consumerContract v = 0 \<or> trustedCounterparty v from \<or> reg from)
      (NotRegisteredParty from)) (\<lambda>_.
    sbind (guard (consumerContract v = 0 \<or> trustedCounterparty v to \<or> reg to)
      (NotRegisteredParty to)) (\<lambda>_.
    sbind (convertToShares v c amount True) (\<lambda>m0.
      let moveShares = (if fromShares < m0 then fromShares else m0);
          v1 = setShares from c (fromShares - moveShares) v in
      sbind (add256 (shares v1 to c) moveShares) (\<lambda>n.
        Inr (setShares to c n v1))))))))))"

definition setTrustedCounterparty :: "address \<Rightarrow> address \<Rightarrow> bool \<Rightarrow> vault \<Rightarrow> revert + vault" where
  "setTrustedCounterparty sender account trusted v =
    sbind (guard (isExecutor v sender) NotAuthorized) (\<lambda>_.
    sbind (guard (account \<noteq> 0) ZeroAddress) (\<lambda>_.
      Inr (v\<lparr>trustedCounterparty := (trustedCounterparty v)(account := trusted)\<rparr>)))"

definition recordPlatformReserve :: "address \<Rightarrow> bytes32 \<Rightarrow> nat \<Rightarrow> vault \<Rightarrow> revert + vault" where
  "recordPlatformReserve sender c amount v =
    sbind (guard (isExecutor v sender) NotAuthorized) (\<lambda>_.
    sbind (guard (c \<noteq> 0) InvalidCurrency) (\<lambda>_.
    sbind (guard (amount \<noteq> 0) ZeroAmount) (\<lambda>_.
    sbind (add256 (platformReserveAssets v c) amount) (\<lambda>r.
      Inr (v\<lparr>platformReserveAssets := (platformReserveAssets v)(c := r)\<rparr>)))))"

definition reconcileTotalAssets :: "address \<Rightarrow> bytes32 \<Rightarrow> nat \<Rightarrow> vault \<Rightarrow> revert + vault" where
  "reconcileTotalAssets sender c newTotal v =
    sbind (guard (isAdmin v sender) NotAuthorized) (\<lambda>_.
    sbind (guard (c \<noteq> 0) InvalidCurrency) (\<lambda>_.
      Inr (v\<lparr>totalAssets := (totalAssets v)(c := newTotal)\<rparr>)))"

definition startRemittance :: "(address \<Rightarrow> nat) \<Rightarrow> address \<Rightarrow> address \<Rightarrow> vault \<Rightarrow> revert + vault" where
  "startRemittance kycLevel sender user v =
    sbind (guard (isExecutor v sender) NotAuthorized) (\<lambda>_.
    sbind (guard (user \<noteq> 0) ZeroAddress) (\<lambda>_.
    sbind (guard (\<not> remittanceLocked v user) RemittanceLocked) (\<lambda>_.
    sbind (guard (consumerContract v = 0 \<or> 1 \<le> kycLevel user)
      (KycLevelInsufficient (kycLevel user) 1)) (\<lambda>_.
      Inr (v\<lparr>remittanceLocked := (remittanceLocked v)(user := True)\<rparr>)))))"

text \<open>
  \<open>payRemittance\<close> up to the external burn: the debit and the cleared lock. The burn of the
  TreasuryToken follows in \<open>Chain\<close> and reverts the whole call when it fails.
\<close>

definition payRemittanceLedger ::
  "address \<Rightarrow> address \<Rightarrow> nat \<Rightarrow> bytes32 \<Rightarrow> bytes32 \<Rightarrow> vault \<Rightarrow> revert + vault" where
  "payRemittanceLedger sender from amount c dest v =
    sbind (guard (isExecutor v sender) NotAuthorized) (\<lambda>_.
    sbind (guard (remittanceLocked v from) RemittanceNotLocked) (\<lambda>_.
    sbind (guard (amount \<noteq> 0) ZeroAmount) (\<lambda>_.
    sbind (guard (isAllowedDestination v dest) DestinationNotAllowed) (\<lambda>_.
    sbind (debitAssets from c amount v) (\<lambda>v1.
      Inr (v1\<lparr>remittanceLocked := (remittanceLocked v1)(from := False)\<rparr>))))))"

section \<open>The pool of a currency\<close>

text \<open>
  \<open>poolOk\<close>: the shares of the holders add up to \<open>totalShares\<close>. \<open>parity\<close>: one share is worth one
  unit, the state of a spend-cash currency. \<open>balanceOf\<close> is the value \<open>unifiedBalance\<close> returns
  when its product does not overflow.
\<close>

definition holders :: "vault \<Rightarrow> bytes32 \<Rightarrow> address set" where
  "holders v c = {u. shares v u c \<noteq> 0}"

definition poolOk :: "vault \<Rightarrow> bytes32 \<Rightarrow> bool" where
  "poolOk v c \<longleftrightarrow> (\<Sum>u\<in>UNIV. shares v u c) = totalShares v c"

definition parity :: "vault \<Rightarrow> bytes32 \<Rightarrow> bool" where
  "parity v c \<longleftrightarrow> totalShares v c = totalAssets v c"

definition assetsOf :: "vault \<Rightarrow> bytes32 \<Rightarrow> nat \<Rightarrow> nat" where
  "assetsOf v c s = s * totalAssets v c div totalShares v c"

definition balanceOf :: "vault \<Rightarrow> address \<Rightarrow> bytes32 \<Rightarrow> nat" where
  "balanceOf v u c = assetsOf v c (shares v u c)"

lemma convertToAssets_InrD: "convertToAssets v c s False = Inr x \<Longrightarrow> x = assetsOf v c s"
  by (auto simp: convertToAssets_def assetsOf_def Let_def sbind_Inr_iff split: if_splits)

lemma unifiedBalance_InrD: "unifiedBalance v u c = Inr x \<Longrightarrow> x = balanceOf v u c"
  unfolding unifiedBalance_def balanceOf_def by (rule convertToAssets_InrD)

lemma setShares_sel [simp]:
  "shares (setShares u c n v) w d = (if w = u \<and> d = c then n else shares v w d)"
  "totalShares (setShares u c n v) = totalShares v"
  "totalAssets (setShares u c n v) = totalAssets v"
  by (auto simp: setShares_def)

lemma setPool_sel [simp]:
  "shares (setPool c ts ta v) = shares v"
  "totalShares (setPool c ts ta v) d = (if d = c then ts else totalShares v d)"
  "totalAssets (setPool c ts ta v) d = (if d = c then ta else totalAssets v d)"
  by (auto simp: setPool_def)

text \<open>The administrative fields of the contract, which no ledger move touches.\<close>

definition sameAdmin :: "vault \<Rightarrow> vault \<Rightarrow> bool" where
  "sameAdmin v w \<longleftrightarrow> isExecutor w = isExecutor v \<and> isAdmin w = isAdmin v \<and> isSettlement w = isSettlement v
    \<and> tokenCurrency w = tokenCurrency v \<and> currencyTokens w = currencyTokens v
    \<and> currencyTreasuryToken w = currencyTreasuryToken v \<and> usdcToken w = usdcToken v
    \<and> trustedCounterparty w = trustedCounterparty v \<and> consumerContract w = consumerContract v
    \<and> vaultPaused w = vaultPaused v \<and> platformReserveAssets w = platformReserveAssets v"

lemma sameAdmin_refl [simp]: "sameAdmin v v"
  by (simp add: sameAdmin_def)

lemma sameAdmin_trans: "sameAdmin u v \<Longrightarrow> sameAdmin v w \<Longrightarrow> sameAdmin u w"
  by (simp add: sameAdmin_def)

lemma sameAdmin_set [simp]:
  "sameAdmin v (setPool c ts ta w) = sameAdmin v w"
  "sameAdmin v (setShares u c n w) = sameAdmin v w"
  by (auto simp: sameAdmin_def setPool_def setShares_def)

text \<open>Addresses are 160-bit words, so sums over all holders are finite.\<close>

lemma sum_shares_set:
  "(\<Sum>w\<in>UNIV. shares (setShares u c n v) w c) + shares v u c = (\<Sum>w\<in>UNIV. shares v w c) + n"
proof -
  have "(\<Sum>w\<in>UNIV. shares v w c) = shares v u c + (\<Sum>w\<in>UNIV - {u}. shares v w c)"
    by (rule sum.remove) auto
  moreover have "(\<Sum>w\<in>UNIV. shares (setShares u c n v) w c)
      = n + (\<Sum>w\<in>UNIV - {u}. shares (setShares u c n v) w c)"
    by (subst sum.remove [of UNIV u]) auto
  moreover have "(\<Sum>w\<in>UNIV - {u}. shares (setShares u c n v) w c) = (\<Sum>w\<in>UNIV - {u}. shares v w c)"
    by (rule sum.cong) auto
  ultimately show ?thesis by simp
qed

lemma sum_shares_other: "d \<noteq> c \<Longrightarrow> (\<Sum>w\<in>UNIV. shares (setShares u c n v) w d) = (\<Sum>w\<in>UNIV. shares v w d)"
  by (rule sum.cong) auto

lemma poolOk_le: "poolOk v c \<Longrightarrow> shares v u c \<le> totalShares v c"
  unfolding poolOk_def by (metis UNIV_I finite member_le_sum zero_le)

lemma balanceOf_parity: "poolOk v c \<Longrightarrow> parity v c \<Longrightarrow> balanceOf v u c = shares v u c"
  using poolOk_le [of v c u] by (simp add: balanceOf_def assetsOf_def parity_def)

section \<open>Credits\<close>

definition mintedShares :: "vault \<Rightarrow> bytes32 \<Rightarrow> nat \<Rightarrow> nat" where
  "mintedShares v c a = (if totalShares v c = 0 \<or> totalAssets v c = 0 then a
     else a * totalShares v c div totalAssets v c)"

lemma creditAssets_InrD:
  assumes "creditAssets u c a v = Inr v'"
  shows "v' = setPool c (totalShares v c + mintedShares v c a) (totalAssets v c + a)
    (setShares u c (shares v u c + mintedShares v c a) v)"
  using assms
  by (auto simp: creditAssets_def convertToShares_def mintedShares_def Let_def sbind_Inr_iff split: if_splits)

lemma convertToShares_down:
  "a * totalShares v c < uintLimit \<Longrightarrow> convertToShares v c a False = Inr (mintedShares v c a)"
  by (simp add: convertToShares_def mintedShares_def mul256_def Let_def)

lemma creditAssets_ok:
  assumes "shares v u c + mintedShares v c a < uintLimit" "totalShares v c + mintedShares v c a < uintLimit"
    "totalAssets v c + a < uintLimit" "a * totalShares v c < uintLimit"
  shows "creditAssets u c a v = Inr (setPool c (totalShares v c + mintedShares v c a) (totalAssets v c + a)
    (setShares u c (shares v u c + mintedShares v c a) v))"
  using assms by (simp add: creditAssets_def convertToShares_down add256_def)

lemma minted_bound: "totalAssets v c \<noteq> 0 \<Longrightarrow> totalShares v c \<noteq> 0 \<Longrightarrow>
    mintedShares v c a * totalAssets v c \<le> a * totalShares v c"
  by (simp add: mintedShares_def)

lemma creditAssets_poolOk:
  assumes "creditAssets u c a v = Inr v'" and "poolOk v d"
  shows "poolOk v' d"
proof (cases "d = c")
  case True
  then show ?thesis
    using assms sum_shares_set [of u c "shares v u c + mintedShares v c a" v]
    by (simp add: creditAssets_InrD [OF assms(1)] poolOk_def)
next
  case False
  then show ?thesis
    using assms(2) sum_shares_other [of d c u "shares v u c + mintedShares v c a" v]
    by (simp add: creditAssets_InrD [OF assms(1)] poolOk_def)
qed

lemma creditAssets_sameAdmin: "creditAssets u c a v = Inr v' \<Longrightarrow> sameAdmin v v'"
  by (drule creditAssets_InrD) simp

lemma creditAssets_other_currency:
  "creditAssets u c a v = Inr v' \<Longrightarrow> d \<noteq> c \<Longrightarrow> balanceOf v' w d = balanceOf v w d"
  by (drule creditAssets_InrD) (simp add: balanceOf_def assetsOf_def)

section \<open>Debits\<close>

lemma if_less_min: "(if u < b then u else b) = min b (u::nat)"
  by (simp add: min_def)

lemma debitAssets_InrD:
  assumes "debitAssets u c a v = Inr v'"
  obtains b where "v' = setPool c (totalShares v c - b) (totalAssets v c - a) (setShares u c (shares v u c - b) v)"
    and "a \<le> balanceOf v u c" and "b \<le> shares v u c" and "b \<le> totalShares v c" and "a \<le> totalAssets v c"
    and "a * totalShares v c \<le> b * totalAssets v c"
    and "a = balanceOf v u c \<longrightarrow> b = shares v u c"
    and "a \<noteq> balanceOf v u c \<longrightarrow> b * totalAssets v c < a * totalShares v c + totalAssets v c"
proof -
  let ?ts = "totalShares v c" and ?ta = "totalAssets v c" and ?us = "shares v u c"
  let ?bal = "balanceOf v u c"
  let ?b0 = "ceilDiv (a * ?ts) ?ta"
  from assms have "\<exists>b1. a \<le> ?bal \<and> (if a = ?bal then Inr ?us else convertToShares v c a True) = Inr b1
      \<and> v' = setPool c (?ts - min b1 ?us) (?ta - a) (setShares u c (?us - min b1 ?us) v)
      \<and> min b1 ?us \<le> ?ts \<and> a \<le> ?ta"
    unfolding debitAssets_def Let_def sbind_Inr_iff if_less_min balanceOf_def
    by - (elim exE conjE, drule convertToAssets_InrD, auto)
  then obtain b1 where bal: "a \<le> ?bal"
    and b1: "(if a = ?bal then Inr ?us else convertToShares v c a True) = Inr b1"
    and v': "v' = setPool c (?ts - min b1 ?us) (?ta - a) (setShares u c (?us - min b1 ?us) v)"
    and le: "min b1 ?us \<le> ?ts" "a \<le> ?ta"
    by blast
  have pos: "0 < ?ts \<and> 0 < ?ta" if "a \<noteq> ?bal"
    using bal that by (cases "?ts = 0"; cases "?ta = 0") (auto simp: balanceOf_def assetsOf_def)
  have up: "b1 = ?b0" if "a \<noteq> ?bal"
    using b1 that pos [OF that]
    by (auto simp: convertToShares_def Let_def sbind_Inr_iff ceilDiv_def split: if_splits)
  have balmul: "?bal * ?ts \<le> ?us * ?ta"
    by (simp add: balanceOf_def assetsOf_def)
  then have amul: "a * ?ts \<le> ?us * ?ta"
    using bal by (meson le_trans mult_le_mono1)
  have cap: "min b1 ?us = (if a = ?bal then ?us else ?b0)"
    using up b1 ceilDiv_le [of ?ta "a * ?ts" ?us] amul pos by (auto simp: min_def)
  let ?b = "min b1 ?us"
  show thesis
  proof (rule that [of ?b])
    show "a * ?ts \<le> ?b * ?ta"
      unfolding cap using amul pos ceilDiv_bounds(1) [of ?ta "a * ?ts"] by auto
    show "a \<noteq> ?bal \<longrightarrow> ?b * ?ta < a * ?ts + ?ta"
      unfolding cap using pos ceilDiv_bounds(2) [of ?ta "a * ?ts"] by simp
  qed (use v' bal le cap in auto)
qed

section \<open>Rounding never takes value from the other holders\<close>

lemma div_le_cross: "0 < b' \<Longrightarrow> x * b' \<le> y * b \<Longrightarrow> x div b \<le> y div (b'::nat)"
proof (cases "b = 0")
  case False
  assume b': "0 < b'" and le: "x * b' \<le> y * b"
  have "(x div b * b') * b \<le> x * b'"
    by (metis div_times_less_eq_dividend mult.assoc mult.commute mult_le_mono1)
  also note le
  finally have "x div b * b' \<le> y"
    using False by simp
  then show ?thesis
    using b' by (simp add: le_div_iff)
qed simp

lemma share_price_mono:
  "0 < ts' \<Longrightarrow> ta * ts' \<le> ta' * ts \<Longrightarrow> s * ta div ts \<le> s * ta' div (ts'::nat)"
  by (rule div_le_cross) (simp_all add: mult.assoc)

lemma credit_self_arith:
  fixes s m ta a ts :: nat
  assumes "s \<le> ts" and "m * ta \<le> a * ts" and "0 < ts"
  shows "(s + m) * (ta + a) div (ts + m) \<le> s * ta div ts + a"
proof -
  obtain r where ts: "ts = s + r" using assms(1) by (auto simp: le_iff_add)
  obtain e where e: "a * ts = m * ta + e" using assms(2) by (auto simp: le_iff_add)
  have "(s * ta + a * ts) * (ts + m) = (s + m) * (ta + a) * ts + r * e"
    using e unfolding ts by algebra
  then have "(s + m) * (ta + a) div (ts + m) \<le> (s * ta + a * ts) div ts"
    using assms(3) by (intro div_le_cross) auto
  then show ?thesis using assms(3) by simp
qed

lemma debit_self_arith:
  fixes us b ta a ts :: nat
  assumes "us \<le> ts" and "b \<le> us" and "a \<le> ta" and "a * ts \<le> b * ta" and "b < ts"
  shows "(us - b) * (ta - a) div (ts - b) + a \<le> us * ta div ts"
proof -
  obtain k where us: "us = b + k" using assms(2) by (auto simp: le_iff_add)
  obtain r where ts: "ts = b + k + r" using assms(1) us by (auto simp: le_iff_add)
  obtain q where ta: "ta = a + q" using assms(3) by (auto simp: le_iff_add)
  have "a * (k + r) \<le> b * q"
    using assms(4) unfolding ts ta by (simp add: algebra_simps)
  then obtain e where e: "b * q = a * (k + r) + e" by (auto simp: le_iff_add)
  have "us * ta * (k + r) = (k * q + a * (k + r)) * ts + r * e"
    using e unfolding ts ta us by algebra
  moreover have n: "0 < k + r" using assms(5) ts by simp
  ultimately have "(k * q + a * (k + r)) div (k + r) \<le> us * ta div ts"
    using assms(5) by (intro div_le_cross) auto
  then show ?thesis
    using n by (simp add: us ts ta div_mult_self1)
qed

lemma poolOk_two: "poolOk v c \<Longrightarrow> w \<noteq> u \<Longrightarrow> shares v w c + shares v u c \<le> totalShares v c"
proof -
  assume p: "poolOk v c" and wu: "w \<noteq> u"
  have "(\<Sum>x\<in>{w, u}. shares v x c) \<le> (\<Sum>x\<in>UNIV. shares v x c)"
    by (rule sum_mono2) auto
  with p wu show ?thesis by (simp add: poolOk_def)
qed

lemma creditAssets_others:
  assumes "creditAssets u c a v = Inr v'" and "w \<noteq> u"
  shows "balanceOf v w c \<le> balanceOf v' w c"
proof (cases "totalShares v c = 0 \<or> totalAssets v c = 0")
  case False
  then have "totalAssets v c * (totalShares v c + mintedShares v c a) \<le> (totalAssets v c + a) * totalShares v c"
    using minted_bound [of v c a] by (simp add: algebra_simps)
  then show ?thesis
    using False assms(2) by (simp add: creditAssets_InrD [OF assms(1)] balanceOf_def assetsOf_def share_price_mono)
qed (auto simp: balanceOf_def assetsOf_def)

lemma creditAssets_self:
  assumes "creditAssets u c a v = Inr v'" and "poolOk v c" and "totalShares v c \<noteq> 0 \<or> totalAssets v c = 0"
  shows "balanceOf v' u c \<le> balanceOf v u c + a"
proof (cases "totalShares v c = 0")
  case True
  then have "shares v u c = 0" using poolOk_le [OF assms(2), of u] by simp
  then show ?thesis
    using True assms(3)
    by (simp add: creditAssets_InrD [OF assms(1)] balanceOf_def assetsOf_def mintedShares_def)
next
  case False
  have "mintedShares v c a * totalAssets v c \<le> a * totalShares v c"
    using False minted_bound [of v c a] by (cases "totalAssets v c = 0") auto
  then show ?thesis
    using False poolOk_le [OF assms(2), of u]
    by (simp add: creditAssets_InrD [OF assms(1)] balanceOf_def assetsOf_def credit_self_arith)
qed

lemma debitAssets_poolOk:
  assumes "debitAssets u c a v = Inr v'" and "poolOk v d"
  shows "poolOk v' d"
proof -
  obtain b where v': "v' = setPool c (totalShares v c - b) (totalAssets v c - a) (setShares u c (shares v u c - b) v)"
    and "b \<le> shares v u c" and "b \<le> totalShares v c"
    using assms(1) by (rule debitAssets_InrD)
  then show ?thesis
    using assms(2) sum_shares_set [of u c "shares v u c - b" v]
      sum_shares_other [of d c u "shares v u c - b" v]
    by (cases "d = c") (auto simp: v' poolOk_def)
qed

lemma debitAssets_others:
  assumes "debitAssets u c a v = Inr v'" and "poolOk v c" and "w \<noteq> u"
  shows "balanceOf v w c \<le> balanceOf v' w c"
proof -
  obtain b where v': "v' = setPool c (totalShares v c - b) (totalAssets v c - a) (setShares u c (shares v u c - b) v)"
    and bu: "b \<le> shares v u c" and bt: "b \<le> totalShares v c" and at: "a \<le> totalAssets v c"
    and ab: "a * totalShares v c \<le> b * totalAssets v c"
    using assms(1) by (rule debitAssets_InrD)
  show ?thesis
  proof (cases "shares v w c = 0")
    case False
    then have "0 < totalShares v c - b"
      using poolOk_two [OF assms(2,3)] bu by simp
    moreover have "totalAssets v c * (totalShares v c - b) \<le> (totalAssets v c - a) * totalShares v c"
      using ab by (simp add: diff_mult_distrib diff_mult_distrib2 mult.commute)
    ultimately show ?thesis
      using assms(3) by (simp add: v' balanceOf_def assetsOf_def share_price_mono)
  qed (simp add: balanceOf_def assetsOf_def)
qed

lemma debitAssets_self:
  assumes "debitAssets u c a v = Inr v'" and "poolOk v c"
  shows "balanceOf v' u c + a \<le> balanceOf v u c"
proof -
  obtain b where v': "v' = setPool c (totalShares v c - b) (totalAssets v c - a) (setShares u c (shares v u c - b) v)"
    and bal: "a \<le> balanceOf v u c" and bu: "b \<le> shares v u c" and bt: "b \<le> totalShares v c"
    and at: "a \<le> totalAssets v c" and ab: "a * totalShares v c \<le> b * totalAssets v c"
    using assms(1) by (rule debitAssets_InrD)
  show ?thesis
  proof (cases "b < totalShares v c")
    case True
    then show ?thesis
      using debit_self_arith [OF poolOk_le [OF assms(2), of u] bu at ab True]
      by (simp add: v' balanceOf_def assetsOf_def)
  next
    case False
    then show ?thesis using bal bt by (simp add: v' balanceOf_def assetsOf_def)
  qed
qed

lemma debitAssets_sameAdmin: "debitAssets u c a v = Inr v' \<Longrightarrow> sameAdmin v v'"
  by (erule debitAssets_InrD) simp

lemma debitAssets_totalAssets: "debitAssets u c a v = Inr v' \<Longrightarrow> totalAssets v' d =
    (if d = c then totalAssets v c - a else totalAssets v d) \<and> a \<le> totalAssets v c"
  by (erule debitAssets_InrD) simp

lemma creditAssets_totalAssets: "creditAssets u c a v = Inr v' \<Longrightarrow> totalAssets v' d =
    (if d = c then totalAssets v c + a else totalAssets v d)"
  by (drule creditAssets_InrD) simp

lemma debitAssets_other_currency:
  "debitAssets u c a v = Inr v' \<Longrightarrow> d \<noteq> c \<Longrightarrow> balanceOf v' w d = balanceOf v w d"
  by (erule debitAssets_InrD) (simp add: balanceOf_def assetsOf_def)

lemma solvency:
  assumes "poolOk v c"
  shows "(\<Sum>u\<in>UNIV. balanceOf v u c) \<le> totalAssets v c"
proof (cases "totalShares v c = 0")
  case False
  have "(\<Sum>u\<in>UNIV. balanceOf v u c) * totalShares v c \<le> (\<Sum>u\<in>UNIV. shares v u c * totalAssets v c)"
    unfolding sum_distrib_right by (rule sum_mono) (simp add: balanceOf_def assetsOf_def)
  also have "\<dots> = totalShares v c * totalAssets v c"
    using assms by (simp add: poolOk_def sum_distrib_right [symmetric])
  finally show ?thesis using False by simp
qed (simp add: balanceOf_def assetsOf_def)

section \<open>Spend-cash currencies: exact balances\<close>

lemma creditAssets_parity:
  assumes "creditAssets u c a v = Inr v'" and "parity v c"
  shows "parity v' c" and "shares v' w d = shares v w d + (if w = u \<and> d = c then a else 0)"
  using assms creditAssets_InrD [OF assms(1)] by (auto simp: parity_def mintedShares_def)

lemma debitAssets_parity:
  assumes "debitAssets u c a v = Inr v'" and "parity v c" and "poolOk v c"
  shows "parity v' c" and "a \<le> shares v u c"
    and "shares v' w d = shares v w d - (if w = u \<and> d = c then a else 0)"
proof -
  obtain b where v': "v' = setPool c (totalShares v c - b) (totalAssets v c - a) (setShares u c (shares v u c - b) v)"
    and bal: "a \<le> balanceOf v u c" and bu: "b \<le> shares v u c" and bt: "b \<le> totalShares v c"
    and at: "a \<le> totalAssets v c" and ab: "a * totalShares v c \<le> b * totalAssets v c"
    and eq: "a = balanceOf v u c \<longrightarrow> b = shares v u c"
    and lt: "a \<noteq> balanceOf v u c \<longrightarrow> b * totalAssets v c < a * totalShares v c + totalAssets v c"
    using assms(1) by (rule debitAssets_InrD)
  have bo: "balanceOf v u c = shares v u c"
    using assms(2,3) by (simp add: balanceOf_parity)
  have b: "b = a"
  proof (cases "a = balanceOf v u c")
    case True
    then show ?thesis using eq bo by simp
  next
    case False
    then have p: "0 < totalAssets v c"
      using bal bo bu poolOk_le [OF assms(3), of u] assms(2) by (auto simp: parity_def)
    have "a \<le> b" using ab p assms(2) by (simp add: parity_def)
    moreover have "b * totalAssets v c < (a + 1) * totalAssets v c"
      using lt False assms(2) by (simp add: parity_def)
    then have "b < a + 1" using mult_less_cancel2 by blast
    ultimately show ?thesis by simp
  qed
  show "parity v' c" "a \<le> shares v u c" "shares v' w d = shares v w d - (if w = u \<and> d = c then a else 0)"
    using assms(2) bal bo by (auto simp: v' b parity_def)
qed

section \<open>Transfers\<close>

definition moveShares :: "address \<Rightarrow> address \<Rightarrow> bytes32 \<Rightarrow> nat \<Rightarrow> vault \<Rightarrow> vault" where
  "moveShares from to c m v = (let v1 = setShares from c (shares v from c - m) v in
     setShares to c (shares v1 to c + m) v1)"

lemma moveShares_sel [simp]:
  "totalShares (moveShares f t c m v) = totalShares v"
  "totalAssets (moveShares f t c m v) = totalAssets v"
  "sameAdmin v (moveShares f t c m v)"
  by (auto simp: moveShares_def Let_def)

lemma shares_moveShares:
  "f \<noteq> t \<Longrightarrow> shares (moveShares f t c m v) w d =
     (if d \<noteq> c then shares v w d else if w = f then shares v f c - m
      else if w = t then shares v t c + m else shares v w c)"
  "m \<le> shares v f c \<Longrightarrow> shares (moveShares f f c m v) w d = shares v w d"
  by (auto simp: moveShares_def Let_def)

lemma transfer_InrD:
  assumes "transfer reg f t a c v = Inr v'"
  obtains m where "v' = moveShares f t c m v" and "m \<le> shares v f c" and "a \<le> balanceOf v f c"
    and "a * totalShares v c \<le> m * totalAssets v c" and "0 < totalShares v c"
    and "a \<noteq> 0" and "t \<noteq> 0" and "\<not> vaultPaused v"
proof -
  let ?ts = "totalShares v c" and ?ta = "totalAssets v c" and ?sf = "shares v f c"
  from assms have "\<exists>b1. a \<le> balanceOf v f c \<and> convertToShares v c a True = Inr b1
      \<and> v' = moveShares f t c (min b1 ?sf) v \<and> a \<noteq> 0 \<and> t \<noteq> 0 \<and> \<not> vaultPaused v"
    unfolding transfer_def Let_def sbind_Inr_iff if_less_min balanceOf_def moveShares_def
    by - (elim exE conjE, drule convertToAssets_InrD, auto)
  then obtain b1 where bal: "a \<le> balanceOf v f c" and b1: "convertToShares v c a True = Inr b1"
    and v': "v' = moveShares f t c (min b1 ?sf) v" and a: "a \<noteq> 0" and g: "t \<noteq> 0" "\<not> vaultPaused v"
    by blast
  have pos: "0 < ?ts \<and> 0 < ?ta"
    using bal a by (cases "?ts = 0"; cases "?ta = 0") (auto simp: balanceOf_def assetsOf_def)
  then have up: "b1 = ceilDiv (a * ?ts) ?ta"
    using b1 by (auto simp: convertToShares_def Let_def sbind_Inr_iff ceilDiv_def split: if_splits)
  have "balanceOf v f c * ?ts \<le> ?sf * ?ta"
    by (simp add: balanceOf_def assetsOf_def)
  then have amul: "a * ?ts \<le> ?sf * ?ta"
    using bal by (meson le_trans mult_le_mono1)
  have cap: "min b1 ?sf = b1"
    using ceilDiv_le [of ?ta "a * ?ts" ?sf] amul pos up by (simp add: min_def)
  show thesis
    by (rule that [OF v' _ bal]) (use pos up cap a g ceilDiv_bounds(1) [of ?ta "a * ?ts"] in auto)
qed

lemma transfer_poolOk:
  assumes "transfer reg f t a c v = Inr v'" and "poolOk v d"
  shows "poolOk v' d"
proof -
  obtain m where v': "v' = moveShares f t c m v" and m: "m \<le> shares v f c"
    using assms(1) by (rule transfer_InrD)
  let ?v1 = "setShares f c (shares v f c - m) v"
  show ?thesis
    using assms(2) m sum_shares_set [of f c "shares v f c - m" v]
      sum_shares_set [of t c "shares ?v1 t c + m" ?v1]
      sum_shares_other [of d c f "shares v f c - m" v]
      sum_shares_other [of d c t "shares ?v1 t c + m" ?v1]
    by (cases "d = c") (simp_all add: v' poolOk_def moveShares_def)
qed

lemma transfer_sameAdmin: "transfer reg f t a c v = Inr v' \<Longrightarrow> sameAdmin v v'"
  by (erule transfer_InrD) simp

lemma transfer_totals: "transfer reg f t a c v = Inr v' \<Longrightarrow>
    totalShares v' = totalShares v \<and> totalAssets v' = totalAssets v"
  by (erule transfer_InrD) simp

lemma transfer_sender:
  assumes "transfer reg f t a c v = Inr v'" and "f \<noteq> t"
  shows "balanceOf v' f c + a \<le> balanceOf v f c"
proof -
  obtain m where v': "v' = moveShares f t c m v" and m: "m \<le> shares v f c"
    and am: "a * totalShares v c \<le> m * totalAssets v c" and p: "0 < totalShares v c"
    using assms(1) by (rule transfer_InrD)
  have "(shares v f c - m) * totalAssets v c + a * totalShares v c \<le> shares v f c * totalAssets v c"
  proof -
    obtain k where "shares v f c = m + k" using m by (auto simp: le_iff_add)
    then show ?thesis using am by (simp add: algebra_simps)
  qed
  then have "((shares v f c - m) * totalAssets v c + a * totalShares v c) div totalShares v c
      \<le> shares v f c * totalAssets v c div totalShares v c"
    by (rule div_le_mono)
  then show ?thesis
    using p assms(2) by (simp add: v' balanceOf_def assetsOf_def shares_moveShares)
qed

lemma transfer_recipient:
  assumes "transfer reg f t a c v = Inr v'" and "f \<noteq> t"
  shows "balanceOf v t c + a \<le> balanceOf v' t c"
proof -
  obtain m where v': "v' = moveShares f t c m v" and m: "m \<le> shares v f c"
    and bal: "a \<le> balanceOf v f c"
    and am: "a * totalShares v c \<le> m * totalAssets v c" and p: "0 < totalShares v c"
    using assms(1) by (rule transfer_InrD)
  have "(shares v t c * totalAssets v c + a * totalShares v c) div totalShares v c
      \<le> (shares v t c + m) * totalAssets v c div totalShares v c"
    by (rule div_le_mono) (use am in \<open>simp add: algebra_simps\<close>)
  then show ?thesis
    using p assms(2) by (simp add: v' balanceOf_def assetsOf_def shares_moveShares)
qed

lemma transfer_others:
  assumes "transfer reg f t a c v = Inr v'" and "w \<noteq> f" and "w \<noteq> t"
  shows "balanceOf v' w d = balanceOf v w d"
proof -
  obtain m where "v' = moveShares f t c m v" using assms(1) by (rule transfer_InrD)
  then show ?thesis
    using assms(2,3) by (auto simp: balanceOf_def assetsOf_def moveShares_def Let_def)
qed

lemma transfer_self:
  "transfer reg f f a c v = Inr v' \<Longrightarrow> balanceOf v' w d = balanceOf v w d"
  by (erule transfer_InrD) (simp add: balanceOf_def assetsOf_def shares_moveShares)

lemma transfer_parity:
  assumes "transfer reg f t a c v = Inr v'" and "parity v d" and "poolOk v d"
  shows "parity v' d"
  using transfer_totals [OF assms(1)] assms(2) by (simp add: parity_def)

text \<open>The facts of one ledger move, for the components that call it.\<close>

lemmas credit_facts = creditAssets_poolOk creditAssets_sameAdmin creditAssets_other_currency
  creditAssets_others creditAssets_self creditAssets_totalAssets
lemmas debit_facts = debitAssets_poolOk debitAssets_sameAdmin debitAssets_other_currency
  debitAssets_others debitAssets_self debitAssets_totalAssets
lemmas transfer_facts = transfer_poolOk transfer_sameAdmin transfer_totals transfer_sender
  transfer_recipient transfer_others transfer_self

section \<open>The Vault as a ledger\<close>

interpretation pool: share_ledger balanceOf poolOk creditAssets debitAssets
proof unfold_locales
  show "creditAssets u c a s = Inr t \<Longrightarrow> poolOk s d \<Longrightarrow> poolOk t d" for u c a s t d
    by (rule creditAssets_poolOk)
  show "debitAssets u c a s = Inr t \<Longrightarrow> poolOk s d \<Longrightarrow> poolOk t d" for u c a s t d
    by (rule debitAssets_poolOk)
  show "creditAssets u c a s = Inr t \<Longrightarrow> poolOk s d \<Longrightarrow> w \<noteq> u \<or> d \<noteq> c \<Longrightarrow> balanceOf s w d \<le> balanceOf t w d" for u c a s t d w
    using creditAssets_others [of u c a s t w] creditAssets_other_currency [of u c a s t d w] by (cases "d = c") auto
  show "debitAssets u c a s = Inr t \<Longrightarrow> poolOk s d \<Longrightarrow> w \<noteq> u \<or> d \<noteq> c \<Longrightarrow> balanceOf s w d \<le> balanceOf t w d" for u c a s t d w
    using debitAssets_others [of u c a s t w] debitAssets_other_currency [of u c a s t d w] by (cases "d = c") auto
  show "debitAssets u c a s = Inr t \<Longrightarrow> poolOk s c \<Longrightarrow> balanceOf t u c + a \<le> balanceOf s u c" for u c a s t
    by (rule debitAssets_self)
qed

definition cashSound :: "vault \<Rightarrow> bytes32 \<Rightarrow> bool" where
  "cashSound v c \<longleftrightarrow> poolOk v c \<and> parity v c"

lemma balanceOf_cash: "cashSound v c \<Longrightarrow> balanceOf v u c = shares v u c"
  by (simp add: cashSound_def balanceOf_parity)

lemma credit_cashSound: "creditAssets u c a v = Inr v' \<Longrightarrow> cashSound v d \<Longrightarrow> cashSound v' d"
  using creditAssets_poolOk [of u c a v v' d] creditAssets_parity(1) [of u c a v v'] creditAssets_InrD [of u c a v v']
  by (cases "d = c") (auto simp: cashSound_def parity_def)

lemma debit_cashSound: "debitAssets u c a v = Inr v' \<Longrightarrow> cashSound v d \<Longrightarrow> cashSound v' d"
  using debitAssets_poolOk [of u c a v v' d] debitAssets_parity(1) [of u c a v v']
  by (cases "d = c") (auto simp: cashSound_def parity_def elim!: debitAssets_InrD)

interpretation cash: exact_ledger balanceOf cashSound creditAssets debitAssets
proof unfold_locales
  show "creditAssets u c a s = Inr t \<Longrightarrow> cashSound s d \<Longrightarrow>
      cashSound t d \<and> balanceOf t w d = balanceOf s w d + (if w = u \<and> d = c then a else 0)" for u c a s t d w
    using credit_cashSound [of u c a s t d] creditAssets_parity(2) [of u c a s t w d]
      creditAssets_other_currency [of u c a s t d w]
    by (cases "d = c") (auto simp: balanceOf_cash, auto simp: cashSound_def)
  show "debitAssets u c a s = Inr t \<Longrightarrow> cashSound s d \<Longrightarrow>
      cashSound t d \<and> balanceOf t w d = balanceOf s w d - (if w = u \<and> d = c then a else 0)" for u c a s t d w
    using debit_cashSound [of u c a s t d] debitAssets_parity(3) [of u c a s t w d]
      debitAssets_other_currency [of u c a s t d w]
    by (cases "d = c") (auto simp: balanceOf_cash, auto simp: cashSound_def)
  show "debitAssets u c a s = Inr t \<Longrightarrow> cashSound s c \<Longrightarrow> a \<le> balanceOf s u c" for u c a s t
    by (simp add: pool.deb_covered cashSound_def)
qed

text \<open>
  One move in a spend-cash currency, over every account and every currency: the ledger of \<open>c\<close> at parity is
  all that is asked.
\<close>

lemma credit_exact:
  assumes "creditAssets u c a s = Inr t" and "cashSound s c"
  shows "balanceOf t w d = balanceOf s w d + (if w = u \<and> d = c then a else 0)"
  using cash.cred_exact [OF assms, of w] creditAssets_other_currency [OF assms(1), of d w] by (cases "d = c") auto

lemma debit_exact:
  assumes "debitAssets u c a s = Inr t" and "cashSound s c"
  shows "balanceOf t w d = balanceOf s w d - (if w = u \<and> d = c then a else 0)"
  using cash.deb_exact [OF assms, of w] debitAssets_other_currency [OF assms(1), of d w] by (cases "d = c") auto

lemma cash_move:
  assumes "debitAssets u c a s = Inr t" and "creditAssets w c a t = Inr v" and "cashSound s c" and "u \<noteq> w"
  shows "a \<le> balanceOf s u c"
    and "balanceOf v x d = (if x = u \<and> d = c then balanceOf s x d - a else if x = w \<and> d = c then balanceOf s x d + a
      else balanceOf s x d)"
  using cash.deb_enough [OF assms(1,3)] debit_exact [OF assms(1,3), of x d] assms(4)
    credit_exact [OF assms(2) debit_cashSound [OF assms(1,3)], of x d] by auto

lemma transfer_other_currency:
  assumes "transfer reg f t a c v = Inr v'" and "d \<noteq> c"
  shows "balanceOf v' w d = balanceOf v w d"
proof -
  obtain m where "v' = moveShares f t c m v" using assms(1) by (rule transfer_InrD)
  then show ?thesis
    using assms(2) by (auto simp: balanceOf_def assetsOf_def moveShares_def Let_def)
qed

end
