(* ===== verification/TreasuryToken.thy ===== *)
theory TreasuryToken
  imports Solidity
begin

text \<open>
  \<open>src/src/TreasuryToken.sol\<close>: the compliance gates around the ERC-20 balances of a treasury
  token. The balance move itself is \<open>super._update\<close> of OpenZeppelin's ERC20, code outside the
  repository: it is the parameter \<open>oz\<close> of the definitions, and \<open>ozLaw\<close> states its documented
  behaviour. The Consumer registry is read through \<open>reg\<close> (registered?) and \<open>ctry\<close> (country code).
\<close>

record ttoken =
  bal :: "address \<Rightarrow> nat"
  frozenTokens :: "address \<Rightarrow> nat"
  blacklisted :: "address \<Rightarrow> bool"
  whitelisted :: "address \<Rightarrow> bool"
  whitelistEnabled :: bool
  complianceEnabled :: bool
  hasConsumer :: bool
  ttPaused :: bool
  isMinter :: "address \<Rightarrow> bool"
  isCompliance :: "address \<Rightarrow> bool"
  isPauser :: "address \<Rightarrow> bool"
  isTokenAdmin :: "address \<Rightarrow> bool"

type_synonym ozUpdate = "address \<Rightarrow> address \<Rightarrow> nat \<Rightarrow> (address \<Rightarrow> nat) \<Rightarrow> (address \<Rightarrow> nat) option"

definition moved :: "address \<Rightarrow> address \<Rightarrow> nat \<Rightarrow> (address \<Rightarrow> nat) \<Rightarrow> address \<Rightarrow> nat" where
  "moved f t a b = (let b1 = (if f = 0 then b else b(f := b f - a)) in
     if t = 0 then b1 else b1(t := b1 t + a))"

text \<open>
  What \<open>_update\<close> of OpenZeppelin promises: a mint (from the zero address), a burn (to it) or a move,
  reverting when the sender has too little; a burn or a move that is covered never reverts.
\<close>

definition ozLaw :: "ozUpdate \<Rightarrow> bool" where
  "ozLaw oz \<longleftrightarrow> (\<forall>f t a b b'. oz f t a b = Some b' \<longrightarrow> b' = moved f t a b \<and> (f \<noteq> 0 \<longrightarrow> a \<le> b f))
     \<and> (\<forall>f t a b. f \<noteq> 0 \<longrightarrow> a \<le> b f \<longrightarrow> oz f t a b \<noteq> None)"

definition ozExample :: ozUpdate where
  "ozExample f t a b = (if f \<noteq> 0 \<and> b f < a then None else Some (moved f t a b))"

lemma ozLaw_example: "ozLaw ozExample"
  by (auto simp: ozLaw_def ozExample_def split: if_splits)

lemma ozLaw_SomeD: "ozLaw oz \<Longrightarrow> oz f t a b = Some b' \<Longrightarrow> b' = moved f t a b \<and> (f \<noteq> 0 \<longrightarrow> a \<le> b f)"
  unfolding ozLaw_def by blast

lemma ozLaw_ok: "ozLaw oz \<Longrightarrow> f \<noteq> 0 \<Longrightarrow> a \<le> b f \<Longrightarrow> oz f t a b = Some (moved f t a b)"
  unfolding ozLaw_def by (metis not_None_eq)

definition checkTreasuryCompliance ::
  "(address \<Rightarrow> bool) \<Rightarrow> (address \<Rightarrow> bytes32) \<Rightarrow> ttoken \<Rightarrow> address \<Rightarrow> address \<Rightarrow> revert + unit" where
  "checkTreasuryCompliance reg ctry t from to =
    sbind (guard (whitelisted t from \<or> reg from) (SenderNotVerified from)) (\<lambda>_.
    sbind (guard (whitelisted t to \<or> reg to) (RecipientNotVerified to)) (\<lambda>_.
      guard (whitelisted t from \<or> whitelisted t to \<or> ctry from = ctry to) CrossBorderNotAllowed))"

text \<open>\<open>_update\<close>: \<open>forced\<close> is the flag \<open>_forcedTransferInProgress\<close>.\<close>

definition updateGates ::
  "(address \<Rightarrow> bool) \<Rightarrow> (address \<Rightarrow> bytes32) \<Rightarrow> address \<Rightarrow> address \<Rightarrow> ttoken \<Rightarrow> revert + unit" where
  "updateGates reg ctry from to t =
    sbind (guard (\<not> ttPaused t) EnforcedPause) (\<lambda>_.
    sbind (guard (\<not> (from \<noteq> 0 \<and> blacklisted t from)) (AccountBlacklisted from)) (\<lambda>_.
    sbind (guard (\<not> (to \<noteq> 0 \<and> blacklisted t to)) (AccountBlacklisted to)) (\<lambda>_.
    if from \<noteq> 0 \<and> to \<noteq> 0 then
      sbind (guard (\<not> whitelistEnabled t \<or> whitelisted t from) (AccountNotWhitelisted from)) (\<lambda>_.
      sbind (guard (\<not> whitelistEnabled t \<or> whitelisted t to) (AccountNotWhitelisted to)) (\<lambda>_.
        if complianceEnabled t \<and> hasConsumer t then checkTreasuryCompliance reg ctry t from to
        else Inr ()))
    else Inr ())))"

definition updateFrozen :: "bool \<Rightarrow> address \<Rightarrow> address \<Rightarrow> nat \<Rightarrow> ttoken \<Rightarrow> revert + ttoken" where
  "updateFrozen forced from to a t =
    (if from \<noteq> 0 \<and> frozenTokens t from \<noteq> 0 then
       if to \<noteq> 0 \<and> \<not> forced then
         sbind (sub256 (bal t from) (frozenTokens t from)) (\<lambda>available.
         sbind (guard (a \<le> available) (InsufficientUnfrozenBalance available a)) (\<lambda>_. Inr t))
       else sbind (sub256 (bal t from) a) (\<lambda>remaining.
         Inr (if remaining < frozenTokens t from
              then t\<lparr>frozenTokens := (frozenTokens t)(from := remaining)\<rparr> else t))
     else Inr t)"

definition tokenUpdate ::
  "ozUpdate \<Rightarrow> (address \<Rightarrow> bool) \<Rightarrow> (address \<Rightarrow> bytes32) \<Rightarrow> bool \<Rightarrow> address \<Rightarrow> address \<Rightarrow> nat \<Rightarrow> ttoken \<Rightarrow> revert + ttoken" where
  "tokenUpdate oz reg ctry forced from to a t =
    sbind (if forced then Inr () else updateGates reg ctry from to t) (\<lambda>_.
    sbind (updateFrozen forced from to a t) (\<lambda>t1.
      case oz from to a (bal t1) of None \<Rightarrow> Inl ERC20Failed | Some b \<Rightarrow> Inr (t1\<lparr>bal := b\<rparr>)))"

definition ttMint :: "ozUpdate \<Rightarrow> address \<Rightarrow> address \<Rightarrow> nat \<Rightarrow> ttoken \<Rightarrow> revert + ttoken" where
  "ttMint oz sender to a t =
    sbind (guard (isMinter t sender) NotAuthorized) (\<lambda>_.
    sbind (guard (to \<noteq> 0) ZeroAddress) (\<lambda>_.
    sbind (guard (a \<noteq> 0) ZeroAmount) (\<lambda>_.
    sbind (guard (\<not> blacklisted t to) (AccountBlacklisted to)) (\<lambda>_.
      tokenUpdate oz (\<lambda>_. False) (\<lambda>_. 0) False 0 to a t))))"

definition ttBurn :: "ozUpdate \<Rightarrow> address \<Rightarrow> address \<Rightarrow> nat \<Rightarrow> ttoken \<Rightarrow> revert + ttoken" where
  "ttBurn oz sender from a t =
    sbind (guard (isMinter t sender) NotAuthorized) (\<lambda>_.
    sbind (guard (from \<noteq> 0) ZeroAddress) (\<lambda>_.
    sbind (guard (a \<noteq> 0) ZeroAmount) (\<lambda>_.
    sbind (guard (\<not> blacklisted t from) (AccountBlacklisted from)) (\<lambda>_.
      tokenUpdate oz (\<lambda>_. False) (\<lambda>_. 0) False from 0 a t))))"

definition ttTransfer ::
  "ozUpdate \<Rightarrow> (address \<Rightarrow> bool) \<Rightarrow> (address \<Rightarrow> bytes32) \<Rightarrow> address \<Rightarrow> address \<Rightarrow> nat \<Rightarrow> ttoken \<Rightarrow> revert + ttoken" where
  "ttTransfer oz reg ctry from to a t =
    sbind (guard (from \<noteq> 0 \<and> to \<noteq> 0) ERC20Failed) (\<lambda>_. tokenUpdate oz reg ctry False from to a t)"

definition ttForcedTransfer :: "ozUpdate \<Rightarrow> address \<Rightarrow> address \<Rightarrow> address \<Rightarrow> nat \<Rightarrow> ttoken \<Rightarrow> revert + ttoken" where
  "ttForcedTransfer oz sender from to a t =
    sbind (guard (isCompliance t sender) NotAuthorized) (\<lambda>_.
    sbind (guard (from \<noteq> 0 \<and> to \<noteq> 0) ZeroAddress) (\<lambda>_.
    sbind (guard (a \<noteq> 0) ZeroAmount) (\<lambda>_.
      tokenUpdate oz (\<lambda>_. False) (\<lambda>_. 0) True from to a t)))"

definition ttAddToWhitelist :: "address \<Rightarrow> address \<Rightarrow> ttoken \<Rightarrow> revert + ttoken" where
  "ttAddToWhitelist sender account t =
    sbind (guard (isCompliance t sender) NotAuthorized) (\<lambda>_.
    sbind (guard (account \<noteq> 0) ZeroAddress) (\<lambda>_.
      Inr (t\<lparr>whitelisted := (whitelisted t)(account := True)\<rparr>)))"

definition freezePartialTokens :: "address \<Rightarrow> address \<Rightarrow> nat \<Rightarrow> ttoken \<Rightarrow> revert + ttoken" where
  "freezePartialTokens sender account a t =
    sbind (guard (isCompliance t sender) NotAuthorized) (\<lambda>_.
    sbind (guard (account \<noteq> 0) ZeroAddress) (\<lambda>_.
    sbind (guard (a \<noteq> 0) ZeroAmount) (\<lambda>_.
    sbind (add256 (frozenTokens t account) a) (\<lambda>newFrozen.
    sbind (guard (newFrozen \<le> bal t account) (FreezeExceedsBalance (bal t account) newFrozen)) (\<lambda>_.
      Inr (t\<lparr>frozenTokens := (frozenTokens t)(account := newFrozen)\<rparr>))))))"

definition unfreezePartialTokens :: "address \<Rightarrow> address \<Rightarrow> nat \<Rightarrow> ttoken \<Rightarrow> revert + ttoken" where
  "unfreezePartialTokens sender account a t =
    sbind (guard (isCompliance t sender) NotAuthorized) (\<lambda>_.
    sbind (guard (account \<noteq> 0) ZeroAddress) (\<lambda>_.
    sbind (guard (a \<noteq> 0) ZeroAmount) (\<lambda>_.
    sbind (guard (a \<le> frozenTokens t account) (AmountExceedsFrozen (frozenTokens t account) a)) (\<lambda>_.
      Inr (t\<lparr>frozenTokens := (frozenTokens t)(account := frozenTokens t account - a)\<rparr>)))))"

section \<open>The frozen part of a balance is always held\<close>

definition frozenHeld :: "ttoken \<Rightarrow> bool" where
  "frozenHeld t \<longleftrightarrow> (\<forall>w. frozenTokens t w \<le> bal t w)"

lemma updateFrozen_InrD:
  assumes "updateFrozen forced from to a t = Inr t1" and "frozenHeld t"
  shows "bal t1 = bal t" and "frozenTokens t1 w \<le> frozenTokens t w"
    and "from \<noteq> 0 \<Longrightarrow> frozenTokens t1 from \<le> bal t from - a"
proof -
  have le: "frozenTokens t from \<le> bal t from"
    using assms(2) by (simp add: frozenHeld_def)
  show "bal t1 = bal t" and "frozenTokens t1 w \<le> frozenTokens t w"
    and "from \<noteq> 0 \<Longrightarrow> frozenTokens t1 from \<le> bal t from - a"
    using assms(1) le unfolding updateFrozen_def by (auto simp: sbind_Inr_iff split: if_splits)
qed

lemma tokenUpdate_bal:
  assumes "tokenUpdate oz reg ctry forced from to a t = Inr t'" and "ozLaw oz" and "frozenHeld t"
  shows "bal t' = moved from to a (bal t)" and "from \<noteq> 0 \<Longrightarrow> a \<le> bal t from"
proof -
  obtain t1 b where t1: "updateFrozen forced from to a t = Inr t1"
    and b: "oz from to a (bal t1) = Some b" and t': "t' = t1\<lparr>bal := b\<rparr>"
    using assms(1) by (auto simp: tokenUpdate_def sbind_Inr_iff split: option.splits)
  show "bal t' = moved from to a (bal t)" and "from \<noteq> 0 \<Longrightarrow> a \<le> bal t from"
    using ozLaw_SomeD [OF assms(2) b] updateFrozen_InrD(1) [OF t1 assms(3)] by (auto simp: t')
qed

lemma moved_other: "w \<noteq> f \<Longrightarrow> b w \<le> moved f t a b w"
  by (auto simp: moved_def Let_def)

lemma moved_from: "b f - a \<le> moved f t a b f"
  by (auto simp: moved_def Let_def)

lemma moved_ge: "t \<noteq> 0 \<Longrightarrow> f \<noteq> t \<Longrightarrow> moved f t a b t = b t + a"
  by (auto simp: moved_def Let_def)

lemma tokenUpdate_frozenHeld:
  assumes "tokenUpdate oz reg ctry forced from to a t = Inr t'" and "ozLaw oz" and "frozenHeld t"
  shows "frozenHeld t'"
proof -
  obtain t1 b where t1: "updateFrozen forced from to a t = Inr t1"
    and b: "oz from to a (bal t1) = Some b" and t': "t' = t1\<lparr>bal := b\<rparr>"
    using assms(1) by (auto simp: tokenUpdate_def sbind_Inr_iff split: option.splits)
  note fz = updateFrozen_InrD [OF t1 assms(3)]
  have bm: "b = moved from to a (bal t)"
    using ozLaw_SomeD [OF assms(2) b] fz(1) by simp
  have "frozenTokens t1 w \<le> b w" for w
  proof (cases "w = from \<and> from \<noteq> 0")
    case True
    then show ?thesis using fz(3) moved_from [of "bal t" "from" a to] bm by (auto intro: le_trans)
  next
    case False
    then have "bal t w \<le> b w"
      using moved_other [of w "from" "bal t" to a] by (auto simp: bm moved_def Let_def)
    then show ?thesis
      using fz(2) [of w] assms(3) unfolding frozenHeld_def by (meson le_trans)
  qed
  then show ?thesis by (simp add: frozenHeld_def t')
qed

lemma ttMint_InrD:
  assumes "ttMint oz sender to a t = Inr t'" and "ozLaw oz" and "frozenHeld t"
  shows "bal t' = (bal t)(to := bal t to + a)" and "frozenHeld t'"
    and "isMinter t sender" and "to \<noteq> 0" and "a \<noteq> 0"
proof -
  have u: "tokenUpdate oz (\<lambda>_. False) (\<lambda>_. 0) False 0 to a t = Inr t'"
    and g: "isMinter t sender" "to \<noteq> 0" "a \<noteq> 0"
    using assms(1) by (auto simp: ttMint_def sbind_guard_Inr_iff)
  show "bal t' = (bal t)(to := bal t to + a)"
    using tokenUpdate_bal(1) [OF u assms(2,3)] g by (simp add: moved_def Let_def)
  show "frozenHeld t'" by (rule tokenUpdate_frozenHeld [OF u assms(2,3)])
  show "isMinter t sender" "to \<noteq> 0" "a \<noteq> 0" by (rule g)+
qed

lemma ttBurn_frozenHeld:
  "ttBurn oz sender from a t = Inr t' \<Longrightarrow> ozLaw oz \<Longrightarrow> frozenHeld t \<Longrightarrow> frozenHeld t'"
  by (auto simp: ttBurn_def sbind_guard_Inr_iff intro: tokenUpdate_frozenHeld)

lemma ttTransfer_InrD:
  assumes "ttTransfer oz reg ctry from to a t = Inr t'" and "ozLaw oz" and "frozenHeld t"
  shows "bal t' = moved from to a (bal t)" and "a \<le> bal t from" and "frozenHeld t'"
    and "from \<noteq> 0" and "to \<noteq> 0"
  using assms tokenUpdate_bal [OF _ assms(2,3)] tokenUpdate_frozenHeld [OF _ assms(2,3)]
  by (auto simp: ttTransfer_def sbind_guard_Inr_iff)

lemma ttForcedTransfer_InrD:
  assumes "ttForcedTransfer oz sender from to a t = Inr t'" and "ozLaw oz" and "frozenHeld t"
  shows "bal t' = moved from to a (bal t)" and "a \<le> bal t from" and "frozenHeld t'"
    and "isCompliance t sender" and "to \<noteq> 0" and "from \<noteq> 0"
  using assms tokenUpdate_bal [OF _ assms(2,3)] tokenUpdate_frozenHeld [OF _ assms(2,3)]
  by (auto simp: ttForcedTransfer_def sbind_guard_Inr_iff)

lemma freeze_frozenHeld:
  "freezePartialTokens sender u a t = Inr t' \<Longrightarrow> frozenHeld t \<Longrightarrow> frozenHeld t'"
  by (auto simp: freezePartialTokens_def frozenHeld_def sbind_Inr_iff)

lemma unfreeze_frozenHeld:
  "unfreezePartialTokens sender u a t = Inr t' \<Longrightarrow> frozenHeld t \<Longrightarrow> frozenHeld t'"
  by (auto simp: unfreezePartialTokens_def frozenHeld_def sbind_Inr_iff) (meson diff_le_self le_trans)

text \<open>
  A peer transfer under compliance between two holders that are not whitelisted is domestic
  and between registered consumers, and never touches the frozen part.
\<close>

lemma ttTransfer_compliant:
  assumes "ttTransfer oz reg ctry from to a t = Inr t'"
  shows "\<not> ttPaused t" and "\<not> blacklisted t from" and "\<not> blacklisted t to"
    and "complianceEnabled t \<Longrightarrow> hasConsumer t \<Longrightarrow> whitelisted t from \<or> reg from"
    and "complianceEnabled t \<Longrightarrow> hasConsumer t \<Longrightarrow> whitelisted t to \<or> reg to"
    and "complianceEnabled t \<Longrightarrow> hasConsumer t \<Longrightarrow> \<not> whitelisted t from \<Longrightarrow> \<not> whitelisted t to \<Longrightarrow> ctry from = ctry to"
    and "frozenTokens t from \<noteq> 0 \<Longrightarrow> frozenTokens t from + a \<le> bal t from"
  using assms
  by (auto simp: ttTransfer_def tokenUpdate_def updateGates_def checkTreasuryCompliance_def updateFrozen_def
      sbind_Inr_iff split: if_splits)

end
