(* ===== verification/Chain.thy ===== *)
theory Chain
  imports Vault TreasuryToken
begin

text \<open>
  The chain the server talks to: the Vault, the treasury tokens, the other ERC-20 tokens and the
  Consumer registry as one state, the calls that touch several contracts (\<open>withdrawToExternal\<close>,
  \<open>payRemittance\<close>, \<open>harvest\<close> of \<open>src/src/Vault.sol\<close>), and \<open>sendTx\<close>, a transaction of the server:
  it reverts without effect, or takes effect and returns a receipt whose hash is fresh.

  Code outside the repository is the record \<open>env\<close>: the ERC-20 moves of OpenZeppelin and of the
  external tokens, \<open>ethers.id\<close>, SHA-256, \<open>ethers.parseUnits\<close>, \<open>ethers.getAddress\<close>, \<open>ethers.formatUnits\<close>, and the configuration read
  from the environment by \<open>config.ts\<close> (an empty address string is \<open>None\<close>).
\<close>

record env =
  idHash :: "string \<Rightarrow> bytes32"
  sha256 :: "string \<Rightarrow> bytes32"
  oz :: ozUpdate
  erc20 :: "address \<Rightarrow> ozUpdate"
  parseUnits :: "string \<Rightarrow> nat \<Rightarrow> int option"
  formatUnits :: "int \<Rightarrow> nat \<Rightarrow> string"
  vaultAddr :: "address option"
  signer :: "address option"
  ttZA :: "address option"
  ttZW :: "address option"
  treasuryAddr :: "address option"
  escrowAddr :: "address option"
  harvestFeeBps :: nat
  cashCurrencies :: "string list"
  getAddr :: "string \<Rightarrow> address option"
  consumerAddr :: "address option"
  fxApiKey :: bool
  fxCacheTtl :: int

record chain = io +
  vault :: vault
  erc :: "address \<Rightarrow> address \<Rightarrow> nat"
  tts :: "address \<Rightarrow> ttoken option"
  isRegistered :: "address \<Rightarrow> bool"
  countryCodeOf :: "address \<Rightarrow> bytes32"
  kycLevelOf :: "address \<Rightarrow> nat"
  txCount :: nat

type_synonym txHash = nat

section \<open>Tokens\<close>

definition tokenBalance :: "'r chain_scheme \<Rightarrow> address \<Rightarrow> address \<Rightarrow> nat" where
  "tokenBalance s token holder = (case tts s token of Some t \<Rightarrow> bal t holder | None \<Rightarrow> erc s token holder)"

lemma tokenBalance_frame [simp]:
  "tokenBalance (s\<lparr>net := ns\<rparr>) = tokenBalance s"
  "tokenBalance (s\<lparr>vault := v\<rparr>) = tokenBalance s"
  "tokenBalance (s\<lparr>txCount := n\<rparr>) = tokenBalance s"
  by (simp_all add: tokenBalance_def fun_eq_iff split: option.split)

definition onVault :: "(vault \<Rightarrow> revert + vault) \<Rightarrow> 'r chain_scheme \<Rightarrow> revert + 'r chain_scheme" where
  "onVault f s = sbind (f (vault s)) (\<lambda>v. Inr (s\<lparr>vault := v\<rparr>))"

text \<open>A call on the contract at \<open>token\<close>, which fails when there is none.\<close>

definition onTT :: "address \<Rightarrow> (ttoken \<Rightarrow> revert + ttoken) \<Rightarrow> 'r chain_scheme \<Rightarrow> revert + 'r chain_scheme" where
  "onTT token f s = (case tts s token of None \<Rightarrow> Inl ERC20Failed
     | Some t \<Rightarrow> sbind (f t) (\<lambda>t'. Inr (s\<lparr>tts := (tts s)(token := Some t')\<rparr>)))"

definition tokenTransfer ::
  "env \<Rightarrow> address \<Rightarrow> address \<Rightarrow> address \<Rightarrow> nat \<Rightarrow> 'r chain_scheme \<Rightarrow> revert + 'r chain_scheme" where
  "tokenTransfer E token from to a s = (case tts s token of
      Some t \<Rightarrow> sbind (ttTransfer (oz E) (isRegistered s) (countryCodeOf s) from to a t)
        (\<lambda>t'. Inr (s\<lparr>tts := (tts s)(token := Some t')\<rparr>))
    | None \<Rightarrow> (case erc20 E token from to a (erc s token) of
        None \<Rightarrow> Inl ERC20Failed | Some b \<Rightarrow> Inr (s\<lparr>erc := (erc s)(token := b)\<rparr>)))"

section \<open>Vault entry points that move tokens\<close>

definition withdrawExternal ::
  "env \<Rightarrow> address \<Rightarrow> address \<Rightarrow> address \<Rightarrow> address \<Rightarrow> address \<Rightarrow> nat \<Rightarrow> 'r chain_scheme \<Rightarrow> revert + 'r chain_scheme" where
  "withdrawExternal E this sender from recipient token amount s =
    sbind (guard (isExecutor (vault s) sender) NotAuthorized) (\<lambda>_.
    sbind (guard (from \<noteq> 0) ZeroAddress) (\<lambda>_.
    sbind (guard (recipient \<noteq> 0) ZeroAddress) (\<lambda>_.
    sbind (guard (token \<noteq> 0) ZeroAddress) (\<lambda>_.
    sbind (guard (amount \<noteq> 0) ZeroAmount) (\<lambda>_.
    let c = tokenCurrency (vault s) token in
    sbind (guard (c \<noteq> 0) (TokenNotSupported token)) (\<lambda>_.
    sbind (debitAssets from c amount (vault s)) (\<lambda>v.
      tokenTransfer E token this recipient amount (s\<lparr>vault := v\<rparr>))))))))"

definition payRemittance ::
  "env \<Rightarrow> address \<Rightarrow> address \<Rightarrow> address \<Rightarrow> nat \<Rightarrow> bytes32 \<Rightarrow> bytes32 \<Rightarrow> 'r chain_scheme \<Rightarrow> revert + 'r chain_scheme" where
  "payRemittance E this sender from amount c dest s =
    sbind (onVault (payRemittanceLedger sender from amount c dest) s) (\<lambda>s1.
      let tt = currencyTreasuryToken (vault s1) c in
      if tt = 0 then Inr s1 else onTT tt (ttBurn (oz E) this from amount) s1)"

fun actualHoldings :: "'r chain_scheme \<Rightarrow> address \<Rightarrow> address list \<Rightarrow> nat \<Rightarrow> revert + nat" where
  "actualHoldings s this [] acc = Inr acc"
| "actualHoldings s this (t # ts) acc =
    sbind (add256 acc (tokenBalance s t this)) (actualHoldings s this ts)"

definition harvestableYield :: "address \<Rightarrow> bytes32 \<Rightarrow> 'r chain_scheme \<Rightarrow> revert + nat" where
  "harvestableYield this c s =
    sbind (actualHoldings s this (currencyTokens (vault s) c) 0) (\<lambda>actual.
    sbind (add256 (totalAssets (vault s) c) (platformReserveAssets (vault s) c)) (\<lambda>liabilities.
      if liabilities < actual then sub256 actual liabilities else Inr 0))"

definition payCut ::
  "env \<Rightarrow> address \<Rightarrow> bytes32 \<Rightarrow> address \<Rightarrow> nat \<Rightarrow> 'r chain_scheme \<Rightarrow> revert + 'r chain_scheme" where
  "payCut E this c treasury platformCut s =
    (if 0 < platformCut then
      (case currencyTokens (vault s) c of [] \<Rightarrow> Inl InvalidCurrency
       | token # _ \<Rightarrow> sbind (guard (token \<noteq> 0) InvalidCurrency) (\<lambda>_.
           tokenTransfer E token this treasury platformCut s))
     else Inr s)"

definition harvest ::
  "env \<Rightarrow> address \<Rightarrow> address \<Rightarrow> bytes32 \<Rightarrow> address \<Rightarrow> nat \<Rightarrow> 'r chain_scheme \<Rightarrow> revert + (nat \<times> nat) \<times> 'r chain_scheme" where
  "harvest E this sender c treasury feeBps s =
    sbind (guard (isExecutor (vault s) sender) NotAuthorized) (\<lambda>_.
    sbind (guard (treasury \<noteq> 0) ZeroAddress) (\<lambda>_.
    sbind (guard (feeBps \<le> 10000) (FeeTooHigh feeBps)) (\<lambda>_.
    sbind (actualHoldings s this (currencyTokens (vault s) c) 0) (\<lambda>actual.
    let recorded = totalAssets (vault s) c in
    sbind (add256 recorded (platformReserveAssets (vault s) c)) (\<lambda>liabilities.
    sbind (guard (liabilities < actual) NoYield) (\<lambda>_.
    let delta = actual - liabilities in
    sbind (mul256 delta feeBps) (\<lambda>p.
    let platformCut = p div 10000 in
    sbind (sub256 delta platformCut) (\<lambda>userYield.
    sbind (add256 recorded userYield) (\<lambda>ta.
    let s1 = s\<lparr>vault := (vault s)\<lparr>totalAssets := (totalAssets (vault s))(c := ta)\<rparr>\<rparr> in
    sbind (payCut E this c treasury platformCut s1) (\<lambda>s2.
      Inr ((userYield, platformCut), s2)))))))))))"

section \<open>Transactions\<close>

definition revertErr :: "revert \<Rightarrow> failure" where
  "revertErr r = plainErr ''execution reverted''"

definition sendTx :: "('r chain_scheme \<Rightarrow> revert + 'r chain_scheme) \<Rightarrow> ('r chain_scheme, txHash) prog" where
  "sendTx f = io (\<lambda>s. case f s of Inl r \<Rightarrow> Inl (revertErr r)
     | Inr t \<Rightarrow> Inr (txCount t, t\<lparr>txCount := txCount t + 1\<rparr>))"

definition callView :: "('r chain_scheme \<Rightarrow> revert + 'a) \<Rightarrow> ('r chain_scheme, 'a) prog" where
  "callView f = io (\<lambda>s. case f s of Inl r \<Rightarrow> Inl (revertErr r) | Inr x \<Rightarrow> Inr (x, s))"

text \<open>A \<open>bigint\<close> passed as a \<open>uint256\<close> argument: ethers rejects it when it is out of range.\<close>

definition uintArg :: "int \<Rightarrow> ('s, nat) prog" where
  "uintArg a = (if 0 \<le> a \<and> a < 2 ^ 256 then ret (nat a) else raise (plainErr ''value out-of-bounds''))"

lemma sendTx_calm: "net s = [] \<Longrightarrow> sendTx f s = (case f s of Inl r \<Rightarrow> (Inl (revertErr r), s)
    | Inr t \<Rightarrow> (Inr (txCount t), t\<lparr>txCount := txCount t + 1\<rparr>))"
  by (simp add: sendTx_def io_calm split: sum.splits)

lemma callView_calm: "net s = [] \<Longrightarrow> callView f s = (case f s of Inl r \<Rightarrow> (Inl (revertErr r), s)
    | Inr x \<Rightarrow> (Inr x, s))"
  by (simp add: callView_def io_calm split: sum.splits)

lemma sendTx_InrD:
  "sendTx f s = (Inr h, t) \<Longrightarrow> \<exists>rest u. f (s\<lparr>net := rest\<rparr>) = Inr u \<and> t = u\<lparr>txCount := txCount u + 1\<rparr>"
  unfolding sendTx_def
  by (drule io_InrD, elim exE, rename_tac rest, case_tac "f (s\<lparr>net := rest\<rparr>)") auto

lemma keeps_sendTx:
  assumes "net_free P" and "\<And>s t. P s \<Longrightarrow> f s = Inr t \<Longrightarrow> P (t\<lparr>txCount := txCount t + 1\<rparr>)"
  shows "keeps P (sendTx f)"
  unfolding sendTx_def by (rule keeps_io) (use assms in \<open>auto split: sum.splits\<close>)

lemma keeps_callView [keeps_intro]: "net_free P \<Longrightarrow> keeps P (callView f)"
  unfolding callView_def by (rule keeps_io) (auto split: sum.splits)

lemma uintArg_Inr_iff [simp]: "uintArg a s = (Inr n, t) \<longleftrightarrow> 0 \<le> a \<and> a < 2 ^ 256 \<and> n = nat a \<and> t = s"
  by (auto simp: uintArg_def)

lemma uintArg_ok [simp]: "0 \<le> a \<Longrightarrow> a < 2 ^ 256 \<Longrightarrow> uintArg a s = (Inr (nat a), s)"
  by (simp add: uintArg_def)

lemma keeps_uintArg [keeps_intro]: "keeps P (uintArg a)"
  by (simp add: uintArg_def keeps_ret keeps_raise)

lemma onVault_Inr_iff: "onVault f s = Inr t \<longleftrightarrow> (\<exists>v. f (vault s) = Inr v \<and> t = s\<lparr>vault := v\<rparr>)"
  by (auto simp: onVault_def sbind_Inr_iff)

lemma onTT_Inr_iff: "onTT a f s = Inr u \<longleftrightarrow>
    (\<exists>t t'. tts s a = Some t \<and> f t = Inr t' \<and> u = s\<lparr>tts := (tts s)(a := Some t')\<rparr>)"
  by (auto simp: onTT_def sbind_Inr_iff split: option.splits)

text \<open>What a token transfer leaves alone.\<close>

lemma tokenTransfer_frame:
  "tokenTransfer E token f t a s = Inr s' \<Longrightarrow> vault s' = vault s \<and> net s' = net s \<and> txCount s' = txCount s
     \<and> chain.more s' = chain.more s \<and> clock s' = clock s"
  by (auto simp: tokenTransfer_def sbind_Inr_iff split: option.splits)

section \<open>Remittance and harvest\<close>

lemma payRemittance_poolOk:
  assumes "payRemittance E this sender u a c dest s = Inr s'" and "poolOk (vault s) d"
  shows "poolOk (vault s') d"
proof -
  obtain s1 where s1: "onVault (payRemittanceLedger sender u a c dest) s = Inr s1"
    and s': "(let tt = currencyTreasuryToken (vault s1) c in
      if tt = 0 then Inr s1 else onTT tt (ttBurn (oz E) this u a) s1) = Inr s'"
    using assms(1) unfolding payRemittance_def sbind_Inr_iff by blast
  have same: "vault s' = vault s1"
    using s' by (auto simp: Let_def onTT_Inr_iff split: if_split_asm)
  obtain v1 where "debitAssets u c a (vault s) = Inr v1"
    and "vault s1 = v1\<lparr>remittanceLocked := (remittanceLocked v1)(u := False)\<rparr>"
    using s1 unfolding onVault_Inr_iff payRemittanceLedger_def sbind_Inr_iff
    by (elim exE conjE) simp
  then have "debitAssets u c a (vault s) = Inr v1" and "shares (vault s') = shares v1"
    and "totalShares (vault s') = totalShares v1"
    by (simp_all add: same)
  then show ?thesis
    using debitAssets_poolOk [OF _ assms(2)] by (auto simp: poolOk_def)
qed

lemma payCut_frame: "payCut E this c treasury x s = Inr s' \<Longrightarrow> vault s' = vault s"
  by (auto simp: payCut_def sbind_guard_Inr_iff split: if_splits list.splits dest!: tokenTransfer_frame)

lemma cut_le: "b \<le> 10000 \<Longrightarrow> d * b div 10000 \<le> (d::nat)"
  by (metis div_le_mono mult_le_mono2 nonzero_mult_div_cancel_right zero_neq_numeral)

lemma harvest_InrD:
  assumes "harvest E this sender c treasury bps s = Inr ((uy, pc), s')"
  obtains actual where "actualHoldings s this (currencyTokens (vault s) c) 0 = Inr actual"
    and "totalAssets (vault s) c + platformReserveAssets (vault s) c < actual"
    and "uy + pc = actual - (totalAssets (vault s) c + platformReserveAssets (vault s) c)"
    and "pc = (uy + pc) * bps div 10000" and "bps \<le> 10000"
    and "vault s' = (vault s)\<lparr>totalAssets := (totalAssets (vault s))(c := totalAssets (vault s) c + uy)\<rparr>"
proof -
  let ?liab = "totalAssets (vault s) c + platformReserveAssets (vault s) c"
  let ?s1 = "s\<lparr>vault := (vault s)\<lparr>totalAssets := (totalAssets (vault s))(c := totalAssets (vault s) c + uy)\<rparr>\<rparr>"
  from assms obtain actual where a: "actualHoldings s this (currencyTokens (vault s) c) 0 = Inr actual"
    and l: "?liab < actual" and b: "bps \<le> 10000"
    and pc: "pc = (actual - ?liab) * bps div 10000" and uy: "uy = actual - ?liab - pc"
    and p: "payCut E this c treasury pc ?s1 = Inr s'"
    unfolding harvest_def Let_def sbind_Inr_iff
    by (elim exE conjE) (auto simp del: diff_diff_left)
  have sum: "uy + pc = actual - ?liab"
    using cut_le [OF b, of "actual - ?liab"] uy pc by linarith
  have v: "vault s' = (vault s)\<lparr>totalAssets := (totalAssets (vault s))(c := totalAssets (vault s) c + uy)\<rparr>"
    using payCut_frame [OF p] by simp
  show thesis
    by (rule that [OF a l sum _ b v], subst sum, rule pc)
qed

text \<open>A harvest never lowers a balance, and at 10000 basis points it moves none.\<close>

lemma harvest_balance:
  assumes "harvest E this sender c treasury bps s = Inr ((uy, pc), s')"
  shows "balanceOf (vault s) w d \<le> balanceOf (vault s') w d"
    and "bps = 10000 \<Longrightarrow> vault s' = vault s"
proof -
  obtain actual where v: "vault s' = (vault s)\<lparr>totalAssets := (totalAssets (vault s))(c := totalAssets (vault s) c + uy)\<rparr>"
    and pc: "pc = (uy + pc) * bps div 10000"
    using assms by (rule harvest_InrD)
  show "balanceOf (vault s) w d \<le> balanceOf (vault s') w d"
    by (simp add: v balanceOf_def assetsOf_def div_le_mono)
  show "vault s' = vault s" if "bps = 10000"
  proof -
    have "pc = uy + pc"
      using pc unfolding that by simp
    then show ?thesis using v by simp
  qed
qed

end
