(* ===== verification/JsNumber.thy ===== *)
theory JsNumber
  imports Prelude
begin

text \<open>
  JavaScript numbers. A finite IEEE 754 binary64 value is a rational, and every arithmetic
  operation of the source rounds its exact result to the nearest representable value, ties to
  even (\<open>fl\<close>). Subnormal results are covered; results of magnitude \<open>2^1024\<close> and above (which
  JavaScript turns into an infinity) are outside the model and far outside the amounts the
  services handle. \<open>BigInt\<close> values are \<open>int\<close>.
\<close>

section \<open>Rounding\<close>

fun bits :: "nat \<Rightarrow> nat" where
  "bits n = (if n = 0 then 0 else Suc (bits (n div 2)))"

declare bits.simps [simp del]

lemma bits_0 [simp]: "bits 0 = 0"
  by (simp add: bits.simps)

lemma bits_pos: "0 < n \<Longrightarrow> bits n = Suc (bits (n div 2))"
  by (subst bits.simps) simp

lemma bits_bounds: "0 < n \<Longrightarrow> 2 ^ bits n \<le> 2 * n \<and> n < 2 ^ bits n"
proof (induction n rule: bits.induct)
  case (1 n)
  show ?case
  proof (cases "n = 1")
    case True
    then show ?thesis by (simp add: bits.simps)
  next
    case False
    with "1.prems" have h: "0 < n div 2" and "n \<noteq> 0" by auto
    with "1.IH" have "2 ^ bits (n div 2) \<le> 2 * (n div 2) \<and> n div 2 < 2 ^ bits (n div 2)"
      by simp
    then show ?thesis
      using "1.prems" by (auto simp: bits_pos [of n])
  qed
qed

text \<open>\<open>2^k\<close> for an integer exponent.\<close>

definition pow2 :: "int \<Rightarrow> rat" where
  "pow2 k = (if 0 \<le> k then 2 ^ nat k else 1 / 2 ^ nat (- k))"

lemma pow2_pos [simp]: "0 < pow2 k"
  by (simp add: pow2_def)

lemma pow2_nonzero [simp]: "pow2 k \<noteq> 0"
  using pow2_pos [of k] by linarith

lemma pow2_nonneg [simp]: "0 \<le> pow2 k"
  using pow2_pos [of k] by linarith

lemma pow2_powi: "pow2 k = 2 powi k"
  by (simp only: pow2_def power_int_def divide_inverse power_inverse mult_1)

lemma pow2_add: "pow2 (j + k) = pow2 j * pow2 k"
  by (simp add: pow2_powi power_int_add)

lemma pow2_mono: "j \<le> k \<Longrightarrow> pow2 j \<le> pow2 k"
  by (simp add: pow2_powi power_int_increasing)

lemma pow2_less_iff [simp]: "pow2 j < pow2 k \<longleftrightarrow> j < k"
proof
  assume "pow2 j < pow2 k"
  then show "j < k"
    using pow2_mono [of k j] by (meson leD leI)
next
  assume "j < k"
  then show "pow2 j < pow2 k"
    by (simp add: pow2_powi power_int_strict_increasing)
qed

lemma pow2_nat: "pow2 (int n) = 2 ^ n"
  by (simp add: pow2_def)

lemma pow2_numerals: "pow2 0 = 1" "pow2 1 = 2" "pow2 (k + 1) = 2 * pow2 k"
  by (simp_all add: pow2_add) (simp_all add: pow2_def)

text \<open>The binary exponent: \<open>pow2 (expo x) \<le> \<bar>x\<bar> < pow2 (expo x + 1)\<close> for \<open>x \<noteq> 0\<close>.\<close>

definition expo :: "rat \<Rightarrow> int" where
  "expo x = (case quotient_of x of (n, d) \<Rightarrow>
     let k = int (bits (nat \<bar>n\<bar>)) - int (bits (nat d))
     in if pow2 k \<le> \<bar>x\<bar> then k else k - 1)"

lemma bits_ratio:
  assumes "0 < n" and "0 < d"
  shows "pow2 (int (bits n) - int (bits d) - 1) < of_nat n / of_nat d"
    and "of_nat n / of_nat d < pow2 (int (bits n) - int (bits d) + 1)"
proof -
  have n1: "(2::rat) ^ bits n \<le> 2 * of_nat n" "(of_nat n :: rat) < 2 ^ bits n"
    using bits_bounds [OF assms(1)]
    by (metis (mono_tags) of_nat_le_iff of_nat_mult of_nat_numeral of_nat_power)
       (metis (mono_tags) assms(1) bits_bounds of_nat_less_iff of_nat_numeral of_nat_power)
  have d1: "(2::rat) ^ bits d \<le> 2 * of_nat d" "(of_nat d :: rat) < 2 ^ bits d"
    using bits_bounds [OF assms(2)]
    by (metis (mono_tags) of_nat_le_iff of_nat_mult of_nat_numeral of_nat_power)
       (metis (mono_tags) assms(2) bits_bounds of_nat_less_iff of_nat_numeral of_nat_power)
  have p: "pow2 (int a - int b) = 2 ^ a / 2 ^ b" for a b
    using pow2_add [of "int a - int b" "int b"] by (simp add: pow2_nat field_simps)
  have dpos: "(0::rat) < of_nat d" using assms(2) by simp
  have npos: "(0::rat) < of_nat n" using assms(1) by simp
  have "(2::rat) ^ bits n * of_nat d < 2 * of_nat n * 2 ^ bits d"
    using n1(1) d1(2) dpos npos
    by (intro mult_le_less_imp_less) auto
  moreover have "pow2 (int (bits n) - int (bits d) - 1) = 2 ^ bits n / 2 ^ bits d / 2"
    using pow2_numerals(3) [of "int (bits n) - int (bits d) - 1"] by (simp add: p)
  ultimately have "2 ^ bits d * (of_nat d * pow2 (int (bits n) - int (bits d) - 1)) < 2 ^ bits d * of_nat n"
    by (simp add: mult_ac)
  then have "of_nat d * pow2 (int (bits n) - int (bits d) - 1) < of_nat n"
    by (rule mult_left_less_imp_less) simp
  then show "pow2 (int (bits n) - int (bits d) - 1) < of_nat n / of_nat d"
    using dpos by (simp add: pos_less_divide_eq mult.commute)
  have "of_nat n * (2::rat) ^ bits d < 2 ^ bits n * (2 * of_nat d)"
    using n1(2) d1(1) dpos npos by (intro mult_less_le_imp_less) auto
  moreover have "pow2 (int (bits n) - int (bits d) + 1) = 2 * (2 ^ bits n / 2 ^ bits d)"
    by (simp add: pow2_numerals p)
  ultimately have "2 ^ bits d * of_nat n < 2 ^ bits d * (of_nat d * pow2 (int (bits n) - int (bits d) + 1))"
    by (simp add: mult_ac)
  then have "of_nat n < of_nat d * pow2 (int (bits n) - int (bits d) + 1)"
    by (rule mult_left_less_imp_less) simp
  then show "of_nat n / of_nat d < pow2 (int (bits n) - int (bits d) + 1)"
    using dpos by (simp add: pos_divide_less_eq mult.commute)
qed

lemma expo_bounds:
  assumes "x \<noteq> 0"
  shows "pow2 (expo x) \<le> \<bar>x\<bar>" and "\<bar>x\<bar> < pow2 (expo x + 1)"
proof -
  obtain n d where q: "quotient_of x = (n, d)" by fastforce
  have d: "0 < d" using quotient_of_denom_pos [OF q] .
  have x: "x = of_int n / of_int d" using quotient_of_div [OF q] .
  have n: "n \<noteq> 0" using assms x by auto
  let ?a = "nat \<bar>n\<bar>" and ?b = "nat d"
  have ab: "0 < ?a" "0 < ?b" using n d by auto
  have nd: "(of_nat ?a :: rat) = \<bar>of_int n\<bar>" "(of_nat ?b :: rat) = of_int d"
    using d by simp_all
  have ax: "\<bar>x\<bar> = of_nat ?a / of_nat ?b"
    using d unfolding nd by (simp add: x)
  have lo: "pow2 (int (bits ?a) - int (bits ?b) - 1) < \<bar>x\<bar>"
    unfolding ax by (rule bits_ratio(1) [OF ab])
  have hi: "\<bar>x\<bar> < pow2 (int (bits ?a) - int (bits ?b) + 1)"
    unfolding ax by (rule bits_ratio(2) [OF ab])
  have e: "expo x = (if pow2 (int (bits ?a) - int (bits ?b)) \<le> \<bar>x\<bar>
      then int (bits ?a) - int (bits ?b) else int (bits ?a) - int (bits ?b) - 1)"
    by (simp add: expo_def q Let_def)
  show "pow2 (expo x) \<le> \<bar>x\<bar>"
    using lo by (simp add: e)
  show "\<bar>x\<bar> < pow2 (expo x + 1)"
    using hi by (simp add: e)
qed

lemma expo_uminus [simp]: "expo (- x) = expo x"
  by (simp add: expo_def rat_uminus_code Let_def split: prod.split)

lemma expo_mono:
  assumes "x \<noteq> 0" and "\<bar>x\<bar> \<le> \<bar>y\<bar>"
  shows "expo x \<le> expo y"
proof -
  have y: "y \<noteq> 0" using assms by auto
  have "pow2 (expo x) < pow2 (expo y + 1)"
    using expo_bounds(1) [OF assms(1)] expo_bounds(2) [OF y] assms(2) by linarith
  then show ?thesis by simp
qed

text \<open>Round half to even, and the rounding of a real result to binary64.\<close>

definition rne :: "rat \<Rightarrow> int" where
  "rne y = (let f = \<lfloor>y\<rfloor>; r = y - of_int f in
     if r < 1/2 then f else if 1/2 < r then f + 1 else if even f then f else f + 1)"

definition ulpExp :: "rat \<Rightarrow> int" where
  "ulpExp x = max (expo x - 52) (- 1074)"

definition fl :: "rat \<Rightarrow> rat" where
  "fl x = (if x = 0 then 0 else of_int (rne (x / pow2 (ulpExp x))) * pow2 (ulpExp x))"

lemma rne_of_int [simp]: "rne (of_int k) = k"
  by (simp add: rne_def)

lemma rne_bounds: "\<bar>of_int (rne y) - y\<bar> \<le> 1/2"
proof -
  have "of_int \<lfloor>y\<rfloor> \<le> y" "y < of_int \<lfloor>y\<rfloor> + 1" by linarith+
  then show ?thesis by (auto simp: rne_def Let_def)
qed

lemma rne_mono:
  assumes "x \<le> y"
  shows "rne x \<le> rne y"
proof (cases "\<lfloor>x\<rfloor> = \<lfloor>y\<rfloor>")
  case True
  then show ?thesis
    using assms by (auto simp: rne_def Let_def)
next
  case False
  then have "\<lfloor>x\<rfloor> + 1 \<le> \<lfloor>y\<rfloor>"
    using floor_mono [OF assms] by linarith
  moreover have "rne x \<le> \<lfloor>x\<rfloor> + 1" "\<lfloor>y\<rfloor> \<le> rne y"
    by (auto simp: rne_def Let_def)
  ultimately show ?thesis by linarith
qed

lemma rne_uminus: "rne (- y) = - rne y"
proof (cases "y = of_int \<lfloor>y\<rfloor>")
  case True
  then show ?thesis
    by (metis of_int_minus rne_of_int)
next
  case False
  then have f: "\<lfloor>- y\<rfloor> = - \<lfloor>y\<rfloor> - 1"
    by (intro floor_unique) linarith+
  show ?thesis
    unfolding rne_def Let_def f by auto
qed

lemma fl_0 [simp]: "fl 0 = 0"
  by (simp add: fl_def)

lemma ulpExp_uminus [simp]: "ulpExp (- x) = ulpExp x"
  by (simp add: ulpExp_def)

lemma fl_uminus [simp]: "fl (- x) = - fl x"
  by (simp add: fl_def rne_uminus)

text \<open>Multiples of the last place bound the rounded value from both sides.\<close>

lemma fl_le_grid: "x \<noteq> 0 \<Longrightarrow> x \<le> of_int m * pow2 (ulpExp x) \<Longrightarrow> fl x \<le> of_int m * pow2 (ulpExp x)"
proof -
  assume "x \<noteq> 0" and "x \<le> of_int m * pow2 (ulpExp x)"
  then have "x / pow2 (ulpExp x) \<le> of_int m"
    by (simp add: pos_divide_le_eq)
  then have "rne (x / pow2 (ulpExp x)) \<le> m"
    using rne_mono [of "x / pow2 (ulpExp x)" "of_int m"] by simp
  then show ?thesis
    using \<open>x \<noteq> 0\<close> by (simp add: fl_def)
qed

lemma fl_ge_grid: "x \<noteq> 0 \<Longrightarrow> of_int m * pow2 (ulpExp x) \<le> x \<Longrightarrow> of_int m * pow2 (ulpExp x) \<le> fl x"
proof -
  assume "x \<noteq> 0" and "of_int m * pow2 (ulpExp x) \<le> x"
  then have "of_int m \<le> x / pow2 (ulpExp x)"
    by (simp add: pos_le_divide_eq)
  then have "m \<le> rne (x / pow2 (ulpExp x))"
    using rne_mono [of "of_int m" "x / pow2 (ulpExp x)"] by simp
  then show ?thesis
    using \<open>x \<noteq> 0\<close> by (simp add: fl_def)
qed

lemma pow2_grid:
  assumes "j \<le> k"
  obtains m :: int where "pow2 k = of_int m * pow2 j"
proof
  have "pow2 k = pow2 (k - j) * pow2 j"
    using pow2_add [of "k - j" j] by simp
  then show "pow2 k = of_int (2 ^ nat (k - j)) * pow2 j"
    using assms by (simp add: pow2_def [of "k - j"])
qed

lemma fl_nonneg: "0 \<le> x \<Longrightarrow> 0 \<le> fl x"
  using fl_ge_grid [of x 0] by (cases "x = 0") auto

lemma fl_mono_pos:
  assumes "0 < x" and "x \<le> y"
  shows "fl x \<le> fl y"
proof (cases "ulpExp x = ulpExp y")
  case True
  have "x / pow2 (ulpExp y) \<le> y / pow2 (ulpExp y)"
    using assms(2) by (simp add: divide_right_mono)
  then show ?thesis
    using assms True rne_mono by (auto simp: fl_def intro!: mult_right_mono)
next
  case False
  have e: "expo x \<le> expo y" using assms by (intro expo_mono) auto
  with False have lt: "expo x < expo y" "ulpExp x < ulpExp y" "ulpExp y = expo y - 52"
    by (auto simp: ulpExp_def)
  have "x < pow2 (expo x + 1)" using expo_bounds(2) [of x] assms(1) by simp
  also have "\<dots> \<le> pow2 (expo y)" using lt(1) by (intro pow2_mono) simp
  finally have xy: "x \<le> pow2 (expo y)" by simp
  obtain m where m: "pow2 (expo y) = of_int m * pow2 (ulpExp x)"
    using lt by (auto intro: pow2_grid [of "ulpExp x" "expo y"])
  obtain l where l: "pow2 (expo y) = of_int l * pow2 (ulpExp y)"
    using lt by (auto intro: pow2_grid [of "ulpExp y" "expo y"])
  have "fl x \<le> pow2 (expo y)"
    unfolding m using xy m assms(1) by (intro fl_le_grid) auto
  also have "\<dots> \<le> fl y"
    unfolding l using expo_bounds(1) [of y] l assms by (intro fl_ge_grid) auto
  finally show ?thesis .
qed

lemma fl_mono: "x \<le> y \<Longrightarrow> fl x \<le> fl y"
proof -
  assume xy: "x \<le> y"
  consider "0 < x" | "x \<le> 0" "0 \<le> y" | "y < 0" by linarith
  then show ?thesis
  proof cases
    case 1
    then show ?thesis using xy by (rule fl_mono_pos)
  next
    case 2
    then have "fl x \<le> 0" using fl_nonneg [of "- x"] by simp
    also have "0 \<le> fl y" using 2 by (simp add: fl_nonneg)
    finally show ?thesis .
  next
    case 3
    then show ?thesis using fl_mono_pos [of "- y" "- x"] xy by simp
  qed
qed

text \<open>The representable values are the fixed points.\<close>

definition isDouble :: "rat \<Rightarrow> bool" where
  "isDouble v \<longleftrightarrow> (\<exists>m e. v = of_int m * pow2 e \<and> \<bar>m\<bar> \<le> 2 ^ 53 \<and> - 1074 \<le> e)"

lemma fl_grid_id: "v = of_int m * pow2 (ulpExp v) \<Longrightarrow> fl v = v"
  using fl_le_grid [of v m] fl_ge_grid [of v m] by (cases "v = 0") auto

lemma fl_isDouble: "isDouble v \<Longrightarrow> fl v = v"
proof -
  assume "isDouble v"
  then obtain m e where v: "v = of_int m * pow2 e" and m: "\<bar>m\<bar> \<le> 2 ^ 53" and e: "- 1074 \<le> e"
    by (auto simp: isDouble_def)
  show ?thesis
  proof (cases "v = 0")
    case False
    show ?thesis
    proof (cases "ulpExp v \<le> e")
      case True
      then obtain l where "pow2 e = of_int l * pow2 (ulpExp v)"
        by (rule pow2_grid)
      then have "v = of_int (m * l) * pow2 (ulpExp v)"
        by (simp add: v mult.assoc)
      then show ?thesis by (rule fl_grid_id)
    next
      case lt: False
      then have u: "ulpExp v = expo v - 52"
        using e by (simp add: ulpExp_def)
      have m': "(of_int \<bar>m\<bar> :: rat) \<le> 2 ^ 53"
        using m by (metis of_int_le_iff of_int_numeral of_int_power)
      have av: "\<bar>v\<bar> = of_int \<bar>m\<bar> * pow2 e"
        by (simp add: v abs_mult)
      also have "\<dots> \<le> 2 ^ 53 * pow2 e"
        using m' by (intro mult_right_mono) auto
      also have "\<dots> = pow2 (53 + e)"
        using pow2_nat [of 53] by (simp add: pow2_add)
      finally have "pow2 (expo v) \<le> pow2 (53 + e)"
        using expo_bounds(1) [OF False] by linarith
      then have "expo v \<le> 53 + e"
        by (metis linorder_not_less pow2_less_iff)
      then have ee: "expo v = 53 + e"
        using lt u by linarith
      have "(2 ^ 53 :: rat) * pow2 e \<le> of_int \<bar>m\<bar> * pow2 e"
        using expo_bounds(1) [OF False] pow2_nat [of 53] av by (simp add: ee pow2_add)
      then have "(2 ^ 53 :: rat) \<le> of_int \<bar>m\<bar>"
        by (rule mult_right_le_imp_le) simp
      then have "2 ^ 53 \<le> \<bar>m\<bar>"
        by (metis of_int_le_iff of_int_numeral of_int_power)
      then have "even m"
        using m by (metis (no_types) abs_le_iff abs_of_nonneg abs_of_nonpos antisym dvd_minus_iff
            even_numeral even_power linorder_linear minus_minus pos2 zero_less_numeral)
      then obtain l where "m = 2 * l" by blast
      moreover have "ulpExp v = e + 1" using ee u by simp
      ultimately have "v = of_int l * pow2 (ulpExp v)"
        by (simp add: v pow2_numerals)
      then show ?thesis by (rule fl_grid_id)
    qed
  qed simp
qed

lemma isDouble_fl: "isDouble (fl x)"
proof (cases "x = 0")
  case True
  then show ?thesis
    by (auto simp: isDouble_def intro!: exI [of _ 0])
next
  case False
  let ?u = "ulpExp x"
  have "\<bar>x\<bar> < pow2 (expo x + 1)" by (rule expo_bounds(2) [OF False])
  also have "\<dots> \<le> pow2 (53 + ?u)" by (intro pow2_mono) (simp add: ulpExp_def)
  also have "\<dots> = of_int (2 ^ 53) * pow2 ?u" using pow2_nat [of 53] by (simp add: pow2_add)
  finally have b: "\<bar>x\<bar> < of_int (2 ^ 53) * pow2 ?u" .
  then have "x \<le> of_int (2 ^ 53) * pow2 ?u" "of_int (- (2 ^ 53)) * pow2 ?u \<le> x"
    by (auto simp: abs_less_iff)
  then have "x / pow2 ?u \<le> of_int (2 ^ 53)" "of_int (- (2 ^ 53)) \<le> x / pow2 ?u"
    by (simp_all only: pos_divide_le_eq pos_le_divide_eq pow2_pos)
  then have "rne (x / pow2 ?u) \<le> 2 ^ 53" "- (2 ^ 53) \<le> rne (x / pow2 ?u)"
    using rne_mono rne_of_int by metis+
  then have "\<bar>rne (x / pow2 ?u)\<bar> \<le> 2 ^ 53" by linarith
  moreover have "- 1074 \<le> ?u" by (simp add: ulpExp_def)
  ultimately show ?thesis
    using False by (auto simp: fl_def isDouble_def)
qed

lemma fl_idem [simp]: "fl (fl x) = fl x"
  by (rule fl_isDouble [OF isDouble_fl])

lemma isDouble_int: "\<bar>n\<bar> \<le> 2 ^ 53 \<Longrightarrow> isDouble (of_int n)"
  unfolding isDouble_def by (rule exI [of _ n], rule exI [of _ 0]) (simp add: pow2_numerals)

lemma fl_int: "\<bar>n\<bar> \<le> 2 ^ 53 \<Longrightarrow> fl (of_int n) = of_int n"
  by (rule fl_isDouble [OF isDouble_int])

lemma fl_error: "\<bar>fl x - x\<bar> \<le> pow2 (ulpExp x) / 2"
proof (cases "x = 0")
  case False
  let ?u = "pow2 (ulpExp x)"
  have "\<bar>of_int (rne (x / ?u)) - x / ?u\<bar> \<le> 1/2" by (rule rne_bounds)
  then have "\<bar>of_int (rne (x / ?u)) - x / ?u\<bar> * ?u \<le> 1/2 * ?u"
    by (intro mult_right_mono) auto
  moreover have "\<bar>of_int (rne (x / ?u)) - x / ?u\<bar> * ?u = \<bar>(of_int (rne (x / ?u)) - x / ?u) * ?u\<bar>"
    by (simp add: abs_mult)
  moreover have "(of_int (rne (x / ?u)) - x / ?u) * ?u = fl x - x"
    using False by (simp add: fl_def left_diff_distrib)
  ultimately show ?thesis by simp
qed simp

section \<open>The operations the services use\<close>

text \<open>
  \<open>Number(b)\<close> of a \<open>BigInt\<close>, the four arithmetic operators, and the \<open>Math\<close> functions, whose
  integral results are given as \<open>int\<close> (\<open>Math.round\<close> rounds halves up).
\<close>

definition numOfBig :: "int \<Rightarrow> rat" where
  "numOfBig n = fl (of_int n)"

definition jsAdd :: "rat \<Rightarrow> rat \<Rightarrow> rat" where
  "jsAdd a b = fl (a + b)"

definition jsSub :: "rat \<Rightarrow> rat \<Rightarrow> rat" where
  "jsSub a b = fl (a - b)"

definition jsMul :: "rat \<Rightarrow> rat \<Rightarrow> rat" where
  "jsMul a b = fl (a * b)"

definition jsDiv :: "rat \<Rightarrow> rat \<Rightarrow> rat" where
  "jsDiv a b = fl (a / b)"

definition jsFloor :: "rat \<Rightarrow> int" where
  "jsFloor x = \<lfloor>x\<rfloor>"

definition jsCeil :: "rat \<Rightarrow> int" where
  "jsCeil x = \<lceil>x\<rceil>"

definition jsRound :: "rat \<Rightarrow> int" where
  "jsRound x = \<lfloor>x + 1/2\<rfloor>"

lemma jsRound_mono: "x \<le> y \<Longrightarrow> jsRound x \<le> jsRound y"
  by (simp add: jsRound_def floor_mono)

lemma jsRound_of_int [simp]: "jsRound (of_int n) = n"
  by (simp add: jsRound_def floor_eq_iff)

text \<open>
  \<open>x.toFixed(d)\<close> as the integer number of \<open>10^-d\<close> steps: the nearest one, the larger of two
  equally near ones, of the magnitude; the sign is put in front.
\<close>

definition toFixed :: "nat \<Rightarrow> rat \<Rightarrow> int" where
  "toFixed d x = (if x < 0 then - \<lfloor>- x * 10 ^ d + 1/2\<rfloor> else \<lfloor>x * 10 ^ d + 1/2\<rfloor>)"

text \<open>Division of two \<open>bigint\<close>s truncates towards zero.\<close>

definition bigDiv :: "int \<Rightarrow> int \<Rightarrow> int" where
  "bigDiv a b = (if (a < 0) = (b < 0) then \<bar>a\<bar> div \<bar>b\<bar> else - (\<bar>a\<bar> div \<bar>b\<bar>))"

lemma bigDiv_nonneg [simp]: "0 \<le> a \<Longrightarrow> 0 < b \<Longrightarrow> bigDiv a b = a div b"
  by (simp add: bigDiv_def)

text \<open>The absolute rounding error below a power of two.\<close>

lemma fl_error_below:
  assumes "\<bar>x\<bar> < 2 ^ k" and "k \<le> 1000"
  shows "\<bar>fl x - x\<bar> \<le> pow2 (int k - 54)"
proof (cases "x = 0")
  case False
  have "pow2 (expo x) < pow2 (int k)"
    using expo_bounds(1) [OF False] assms(1) by (simp add: pow2_nat)
  then have "ulpExp x \<le> int k - 53"
    using assms(2) by (simp add: ulpExp_def)
  then have "pow2 (ulpExp x) \<le> pow2 (int k - 54 + 1)"
    by (intro pow2_mono) simp
  then show ?thesis
    using fl_error [of x] unfolding pow2_numerals by linarith
qed simp

text \<open>Evaluating a rounding: dyadic values are themselves, others are checked against their neighbours.\<close>

lemma fl_dyadic: "x * 2 ^ k = of_int n \<Longrightarrow> \<bar>n\<bar> \<le> 2 ^ 53 \<Longrightarrow> k \<le> 1074 \<Longrightarrow> fl x = x"
proof (rule fl_isDouble)
  assume x: "x * 2 ^ k = of_int n" and n: "\<bar>n\<bar> \<le> 2 ^ 53" and k: "k \<le> 1074"
  have p: "pow2 (- int k) = 1 / 2 ^ k" by (simp add: pow2_def)
  have "x = of_int n * pow2 (- int k)"
    unfolding p x [symmetric] by simp
  then show "isDouble x"
    using n k unfolding isDouble_def by (intro exI [of _ n] exI [of _ "- int k"]) auto
qed

lemma fl_eqI:
  assumes "pow2 e \<le> x" and "x < pow2 (e + 1)" and "- 1022 \<le> e"
    and "\<bar>x - of_int n * pow2 (e - 52)\<bar> < pow2 (e - 53)"
  shows "fl x = of_int n * pow2 (e - 52)"
proof -
  have x: "0 < x" using assms(1) pow2_pos [of e] by linarith
  have "expo x = e"
  proof (rule antisym)
    have "pow2 (expo x) < pow2 (e + 1)" using expo_bounds(1) [of x] x assms(2) by linarith
    then show "expo x \<le> e" by simp
    have "pow2 e < pow2 (expo x + 1)" using expo_bounds(2) [of x] x assms(1) by linarith
    then show "e \<le> expo x" by simp
  qed
  then have u: "ulpExp x = e - 52" using assms(3) by (simp add: ulpExp_def)
  have h: "pow2 (e - 53) = pow2 (e - 52) / 2"
    using pow2_numerals(3) [of "e - 53"] by simp
  have "(x / pow2 (e - 52) - of_int n) * pow2 (e - 52) = x - of_int n * pow2 (e - 52)"
    by (simp add: left_diff_distrib)
  moreover have "\<bar>(x / pow2 (e - 52) - of_int n) * pow2 (e - 52)\<bar> = \<bar>x / pow2 (e - 52) - of_int n\<bar> * pow2 (e - 52)"
    by (simp add: abs_mult)
  ultimately have "\<bar>x / pow2 (e - 52) - of_int n\<bar> * pow2 (e - 52) < (1/2) * pow2 (e - 52)"
    using assms(4) unfolding h by simp
  then have d: "\<bar>x / pow2 (e - 52) - of_int n\<bar> < 1/2"
    by (simp only: mult_less_cancel_right_pos [OF pow2_pos])
  have r: "rne y = n" if "\<bar>y - of_int n\<bar> < 1/2" for y :: rat
  proof -
    have "rne y < n + 1" "n - 1 < rne y"
      using rne_bounds [of y] that by linarith+
    then show ?thesis by simp
  qed
  show ?thesis using x r [OF d] by (simp add: fl_def u)
qed

section \<open>What the conversions need of a rounding\<close>

text \<open>
  The services only rely on rounding being monotone and leaving representable values alone.
\<close>

locale rounding =
  fixes rnd :: "rat \<Rightarrow> rat"
  assumes rnd_mono: "x \<le> y \<Longrightarrow> rnd x \<le> rnd y"
    and rnd_idem: "rnd (rnd x) = rnd x"
    and rnd_int: "\<bar>n\<bar> \<le> 2 ^ 53 \<Longrightarrow> rnd (of_int n) = of_int n"
begin

lemma rnd_0: "rnd 0 = 0"
  using rnd_int [of 0] by simp

lemma rnd_1: "rnd 1 = 1"
  using rnd_int [of 1] by simp

lemma rnd_nonneg: "0 \<le> x \<Longrightarrow> 0 \<le> rnd x"
  using rnd_mono [of 0 x] rnd_0 by simp

lemma rnd_le_1: "x \<le> 1 \<Longrightarrow> rnd x \<le> 1"
  using rnd_mono [of x 1] rnd_1 by simp

text \<open>Scaling a representable value by a factor of at most 1 never exceeds it.\<close>

lemma rnd_shrink: "0 \<le> x \<Longrightarrow> rnd x = x \<Longrightarrow> f \<le> 1 \<Longrightarrow> rnd (x * f) \<le> x"
  using rnd_mono [of "x * f" x] mult_left_mono [of f 1 x] by simp

lemma rnd_scale_mono: "0 \<le> k \<Longrightarrow> x \<le> y \<Longrightarrow> rnd (x * k) \<le> rnd (y * k)"
  by (intro rnd_mono mult_right_mono)

lemma rnd_div_mono: "0 < k \<Longrightarrow> x \<le> y \<Longrightarrow> rnd (x / k) \<le> rnd (y / k)"
  by (intro rnd_mono divide_right_mono) auto

end

interpretation b64: rounding fl
  by unfold_locales (auto simp: fl_mono fl_int)

end
