(* ===== verification/JsText.thy ===== *)
theory JsText
  imports JsNumber
begin

text \<open>
  Numbers as text: \<open>BigInt.prototype.toString\<close>, the readings \<open>BigInt(s)\<close>, \<open>Number(s)\<close> and
  \<open>parseInt(s, 10)\<close> on decimal text (the form of numeric columns and of the services' own output),
  \<open>Number(s)\<close> on the text a client sends, with its exponent and radix forms, and the text PostgreSQL
  returns for a NUMERIC column of a given scale.
\<close>

definition digitChar :: "nat \<Rightarrow> char" where
  "digitChar n = char_of (48 + n)"

definition digitVal :: "char \<Rightarrow> nat" where
  "digitVal c = of_char c - 48"

fun showNat :: "nat \<Rightarrow> string" where
  "showNat n = (if n < 10 then [digitChar n] else showNat (n div 10) @ [digitChar (n mod 10)])"

declare showNat.simps [simp del]

definition showInt :: "int \<Rightarrow> string" where
  "showInt i = (if i < 0 then CHR ''-'' # showNat (nat (- i)) else showNat (nat i))"

definition natOfDigits :: "string \<Rightarrow> nat" where
  "natOfDigits s = foldl (\<lambda>a c. 10 * a + digitVal c) 0 s"

definition allDigits :: "string \<Rightarrow> bool" where
  "allDigits s \<longleftrightarrow> s \<noteq> [] \<and> list_all isDigit s"

definition splitSign :: "string \<Rightarrow> int \<times> string" where
  "splitSign s = (case s of [] \<Rightarrow> (1, []) | c # r \<Rightarrow>
     if c = CHR ''-'' then (-1, r) else if c = CHR ''+'' then (1, r) else (1, s))"

text \<open>\<open>BigInt(s)\<close>: a fraction or any other character is a SyntaxError (\<open>None\<close>).\<close>

definition bigIntOf :: "string \<Rightarrow> int option" where
  "bigIntOf s0 = (let s = trim s0; (sg, d) = splitSign s in
     if s = [] then Some 0 else if allDigits d then Some (sg * int (natOfDigits d)) else None)"

text \<open>\<open>parseInt(s, 10)\<close>: the longest prefix of digits after white space and a sign.\<close>

definition parseIntOf :: "string \<Rightarrow> int option" where
  "parseIntOf s0 = (let (sg, d) = splitSign (dropWhile isSpace s0); p = takeWhile isDigit d in
     if p = [] then None else Some (sg * int (natOfDigits p)))"

text \<open>\<open>s.split('.')[0]\<close> and what follows the first dot.\<close>

definition beforeDot :: "string \<Rightarrow> string" where
  "beforeDot s = takeWhile (\<lambda>c. c \<noteq> CHR ''.'') s"

definition afterDot :: "string \<Rightarrow> string" where
  "afterDot s = drop 1 (dropWhile (\<lambda>c. c \<noteq> CHR ''.'') s)"

text \<open>\<open>Number(s)\<close> on decimal text: the double nearest to the value written; \<open>None\<close> is NaN.\<close>

definition decimalValue :: "string \<Rightarrow> string \<Rightarrow> rat" where
  "decimalValue i f = rat_of_nat (natOfDigits (i @ f)) / 10 ^ length f"

definition numberOf :: "string \<Rightarrow> rat option" where
  "numberOf s0 = (let s = trim s0; (sg, d) = splitSign s; i = beforeDot d; f = afterDot d in
     if s = [] then Some 0
     else if list_all isDigit i \<and> list_all isDigit f \<and> i @ f \<noteq> []
          then Some (fl (of_int sg * decimalValue i f)) else None)"

text \<open>The text of \<open>n / 10 ^ scale\<close> in a column NUMERIC(_, scale), \<open>n\<close> the value in units of its last place.\<close>

definition padZeros :: "nat \<Rightarrow> string \<Rightarrow> string" where
  "padZeros w s = replicate (w - length s) (CHR ''0'') @ s"

definition numericText :: "nat \<Rightarrow> nat \<Rightarrow> string" where
  "numericText scale n = (if scale = 0 then showNat n
     else showNat (n div 10 ^ scale) @ CHR ''.'' # padZeros scale (showNat (n mod 10 ^ scale)))"

section \<open>Round trips\<close>

lemma of_char_digitChar: "n < 10 \<Longrightarrow> (of_char (digitChar n) :: nat) = 48 + n"
  by (simp add: digitChar_def of_char_of)

lemma digit_simps [simp]:
  assumes "n < 10"
  shows "isDigit (digitChar n)" and "digitVal (digitChar n) = n" and "\<not> isSpace (digitChar n)"
  using assms by (auto simp: isDigit_def digitVal_def isSpace_def of_char_digitChar Let_def)

lemma digitChar_not [simp]: "n < 10 \<Longrightarrow> digitChar n \<noteq> CHR ''-''" "n < 10 \<Longrightarrow> digitChar n \<noteq> CHR ''+''"
    "n < 10 \<Longrightarrow> digitChar n \<noteq> CHR ''.''"
  by (auto dest!: arg_cong [where f = "of_char :: char \<Rightarrow> nat"] simp: of_char_digitChar)

lemma natOfDigits_snoc [simp]: "natOfDigits (s @ [c]) = 10 * natOfDigits s + digitVal c"
  by (simp add: natOfDigits_def)

lemma natOfDigits_Nil [simp]: "natOfDigits [] = 0"
  by (simp add: natOfDigits_def)

lemma allDigits_snoc: "allDigits s \<Longrightarrow> isDigit c \<Longrightarrow> allDigits (s @ [c])"
  by (simp add: allDigits_def)

lemma showNat_digits: "allDigits (showNat n)"
proof (induction n rule: showNat.induct)
  case (1 n)
  then show ?case
    by (cases "n < 10") (simp_all add: showNat.simps [of n] allDigits_snoc, simp add: allDigits_def)
qed

lemma natOfDigits_showNat [simp]: "natOfDigits (showNat n) = n"
proof (induction n rule: showNat.induct)
  case (1 n)
  then show ?case
    by (cases "n < 10") (simp_all add: showNat.simps [of n] natOfDigits_def)
qed

lemma showNat_not_Nil [simp]: "showNat n \<noteq> []"
  using showNat_digits [of n] by (simp add: allDigits_def)

lemma isDigit_not_space: "isDigit c \<Longrightarrow> \<not> isSpace c"
  by (auto simp: isDigit_def isSpace_def Let_def)

lemma isDigit_not: "isDigit c \<Longrightarrow> c \<noteq> CHR ''-'' \<and> c \<noteq> CHR ''+'' \<and> c \<noteq> CHR ''.''"
  by (auto simp: isDigit_def Let_def)

lemma dropWhile_hd: "s \<noteq> [] \<Longrightarrow> \<not> P (hd s) \<Longrightarrow> dropWhile P s = s"
  by (cases s) auto

lemma trim_id: "s \<noteq> [] \<Longrightarrow> \<not> isSpace (hd s) \<Longrightarrow> \<not> isSpace (last s) \<Longrightarrow> trim s = s"
  by (simp add: trim_def dropWhile_hd hd_rev)

lemma allDigits_hd_last: "allDigits s \<Longrightarrow> isDigit (hd s) \<and> isDigit (last s)"
  by (auto simp: allDigits_def list_all_iff)

lemma trim_digits: "allDigits s \<Longrightarrow> trim s = s"
  using allDigits_hd_last [of s] by (auto simp: trim_id isDigit_not_space allDigits_def)

lemma splitSign_digits: "allDigits s \<Longrightarrow> splitSign s = (1, s)"
  by (cases s) (auto simp: splitSign_def allDigits_def dest: isDigit_not)

lemma bigIntOf_digits: "allDigits s \<Longrightarrow> bigIntOf s = Some (int (natOfDigits s))"
  by (simp add: bigIntOf_def trim_digits splitSign_digits)

lemma bigIntOf_showNat [simp]: "bigIntOf (showNat n) = Some (int n)"
  by (simp add: bigIntOf_digits showNat_digits)

lemma bigIntOf_showInt [simp]: "bigIntOf (showInt i) = Some i"
proof (cases "i < 0")
  case True
  have "trim (CHR ''-'' # showNat (nat (- i))) = CHR ''-'' # showNat (nat (- i))"
    using allDigits_hd_last [OF showNat_digits [of "nat (- i)"]]
    by (intro trim_id) (auto simp: isDigit_not_space, simp add: isSpace_def)
  then show ?thesis
    using True by (simp add: showInt_def bigIntOf_def splitSign_def showNat_digits)
qed (simp add: showInt_def)

text \<open>The text of a numeric column with a fraction is not a \<open>BigInt\<close> literal.\<close>

lemma numericText_dot: "0 < scale \<Longrightarrow> CHR ''.'' \<in> set (numericText scale n)"
  by (simp add: numericText_def)

lemma padZeros_last: "s \<noteq> [] \<Longrightarrow> padZeros w s \<noteq> [] \<and> last (padZeros w s) = last s"
  by (simp add: padZeros_def)

lemma numericText_trim: "trim (numericText scale n) = numericText scale n"
proof (cases "scale = 0")
  case False
  let ?i = "showNat (n div 10 ^ scale)" and ?f = "showNat (n mod 10 ^ scale)"
  have "isDigit (hd ?i)" "isDigit (last ?f)"
    using allDigits_hd_last showNat_digits by blast+
  moreover have "padZeros scale ?f \<noteq> []" "last (padZeros scale ?f) = last ?f"
    using padZeros_last [of ?f scale] by auto
  ultimately show ?thesis
    using False by (intro trim_id) (auto simp: numericText_def isDigit_not_space)
qed (simp add: numericText_def trim_digits showNat_digits)

lemma bigIntOf_numericText: "0 < scale \<Longrightarrow> bigIntOf (numericText scale n) = None"
proof -
  assume s: "0 < scale"
  have h: "isDigit (hd (numericText scale n))"
    using allDigits_hd_last [OF showNat_digits [of "n div 10 ^ scale"]] s by (simp add: numericText_def)
  have ne: "numericText scale n \<noteq> []" using s by (simp add: numericText_def)
  then have "splitSign (numericText scale n) = (1, numericText scale n)"
    using h isDigit_not by (cases "numericText scale n") (auto simp: splitSign_def)
  moreover have "\<not> allDigits (numericText scale n)"
    using numericText_dot [OF s, of n] isDigit_not unfolding allDigits_def list_all_iff by blast
  ultimately show ?thesis
    using ne by (simp add: bigIntOf_def numericText_trim)
qed

text \<open>\<open>Number\<close> of the text of a numeric column is the double nearest to the column's value.\<close>

lemma natOfDigits_append: "natOfDigits (a @ b) = natOfDigits a * 10 ^ length b + natOfDigits b"
proof (induction b rule: rev_induct)
  case (snoc x xs)
  then show ?case by (simp add: append_assoc [symmetric] algebra_simps del: append_assoc)
qed simp

lemma natOfDigits_zeros [simp]: "natOfDigits (replicate k (CHR ''0'') @ s) = natOfDigits s"
proof -
  have "natOfDigits (replicate k (CHR ''0'')) = 0"
    by (induction k) (simp_all add: natOfDigits_def digitVal_def)
  then show ?thesis by (simp add: natOfDigits_append)
qed

lemma showNat_length: "n < 10 ^ d \<Longrightarrow> 0 < d \<Longrightarrow> length (showNat n) \<le> d"
proof (induction n arbitrary: d rule: showNat.induct)
  case (1 n)
  show ?case
  proof (cases "n < 10")
    case True
    then show ?thesis using 1(3) by (simp add: showNat.simps [of n])
  next
    case False
    obtain e where d: "d = Suc e" using 1(3) by (cases d) auto
    then have "n div 10 < 10 ^ e" and "0 < e"
      using 1(2) False by (auto simp: less_mult_imp_div_less mult.commute intro: Nat.gr0I)
    then have "length (showNat (n div 10)) \<le> e" using 1(1) False by blast
    then show ?thesis using False d by (simp add: showNat.simps [of n])
  qed
qed

lemma allDigits_split: "list_all isDigit i \<Longrightarrow> beforeDot (i @ CHR ''.'' # f) = i \<and> afterDot (i @ CHR ''.'' # f) = f"
  by (induction i) (auto simp: beforeDot_def afterDot_def dest: isDigit_not)

lemma allDigits_nodot: "list_all isDigit i \<Longrightarrow> beforeDot i = i \<and> afterDot i = []"
  by (induction i) (auto simp: beforeDot_def afterDot_def dest: isDigit_not)

lemma numberOf_numericText: "numberOf (numericText d n) = Some (fl (of_nat n / 10 ^ d))"
proof -
  let ?i = "showNat (n div 10 ^ d)" and ?g = "showNat (n mod 10 ^ d)"
  let ?f = "padZeros d ?g"
  have di: "list_all isDigit ?i" "list_all isDigit ?g"
    using showNat_digits by (auto simp: allDigits_def)
  have hd: "isDigit (hd (numericText d n))" and ne: "numericText d n \<noteq> []"
    using allDigits_hd_last [OF showNat_digits] by (auto simp: numericText_def)
  have sg: "splitSign (numericText d n) = (1, numericText d n)"
    using hd ne isDigit_not by (cases "numericText d n") (auto simp: splitSign_def)
  show ?thesis
  proof (cases "d = 0")
    case True
    then have "beforeDot (numericText d n) = showNat n" "afterDot (numericText d n) = []"
      using allDigits_nodot [of "showNat n"] showNat_digits [of n] by (auto simp: numericText_def allDigits_def)
    then show ?thesis
      using True sg di(1) ne by (simp add: numberOf_def numericText_trim decimalValue_def Let_def)
  next
    case False
    have len: "length ?f = d"
      using showNat_length [of "n mod 10 ^ d" d] False by (simp add: padZeros_def)
    have df: "list_all isDigit ?f"
      using di(2) by (auto simp: padZeros_def list_all_iff isDigit_def Let_def)
    have "natOfDigits ?f = n mod 10 ^ d" by (simp add: padZeros_def)
    then have "natOfDigits (?i @ ?f) = n"
      using div_mult_mod_eq [of n "10 ^ d"] by (simp only: natOfDigits_append len natOfDigits_showNat)
    moreover have "beforeDot (numericText d n) = ?i" "afterDot (numericText d n) = ?f"
      using allDigits_split [OF di(1)] False by (auto simp: numericText_def)
    ultimately show ?thesis
      using sg di(1) df len ne by (simp add: numberOf_def numericText_trim decimalValue_def Let_def)
  qed
qed

section \<open>Hexadecimal text\<close>

definition isHexDigit :: "char \<Rightarrow> bool" where
  "isHexDigit c \<longleftrightarrow> (let n = (of_char c :: nat) in (48 \<le> n \<and> n \<le> 57) \<or> (97 \<le> n \<and> n \<le> 102) \<or> (65 \<le> n \<and> n \<le> 70))"

definition hexVal :: "char \<Rightarrow> nat" where
  "hexVal c = (let n = (of_char c :: nat) in if n \<le> 57 then n - 48 else if 97 \<le> n then n - 87 else n - 55)"

text \<open>\<open>/^0x[0-9a-fA-F]{40}$/\<close>.\<close>

definition isHexAddress :: "string \<Rightarrow> bool" where
  "isHexAddress s \<longleftrightarrow> take 2 s = ''0x'' \<and> length s = 42 \<and> list_all isHexDigit (drop 2 s)"

lemma hexVal_bound: "isHexDigit c \<Longrightarrow> hexVal c < 16"
  by (auto simp: isHexDigit_def hexVal_def Let_def)

section \<open>\<open>Number(s)\<close> on any text\<close>

text \<open>
  The exponent form and the prefixed radix forms of the numeric text grammar, for text that a client
  sends. The text \<open>Infinity\<close> and values beyond the range of a double are left out (\<open>None\<close>, as NaN).
\<close>

definition isExpChar :: "char \<Rightarrow> bool" where
  "isExpChar c \<longleftrightarrow> c = CHR ''e'' \<or> c = CHR ''E''"

definition expNumber :: "string \<Rightarrow> rat option" where
  "expNumber s0 =
    (let (sg, d) = splitSign (trim s0); m = takeWhile (\<lambda>c. \<not> isExpChar c) d;
         (es, e) = splitSign (drop 1 (dropWhile (\<lambda>c. \<not> isExpChar c) d));
         i = beforeDot m; f = afterDot m in
     if list_all isDigit i \<and> list_all isDigit f \<and> i @ f \<noteq> [] \<and> allDigits e
     then Some (fl (of_int sg * decimalValue i f * (if 0 < es then 10 ^ natOfDigits e else 1 / 10 ^ natOfDigits e)))
     else None)"

definition radixNumber :: "string \<Rightarrow> rat option" where
  "radixNumber s0 =
    (let s = trim s0; p = toLower (take 2 s); r = drop 2 s;
         b = (if p = ''0x'' then 16 else if p = ''0o'' then 8 else if p = ''0b'' then 2 else 0) in
     if b \<noteq> 0 \<and> r \<noteq> [] \<and> list_all (\<lambda>c. isHexDigit c \<and> hexVal c < b) r
     then Some (fl (of_nat (foldl (\<lambda>a c. b * a + hexVal c) 0 r))) else None)"

definition jsNumberOf :: "string \<Rightarrow> rat option" where
  "jsNumberOf s = (case numberOf s of Some x \<Rightarrow> Some x
     | None \<Rightarrow> (case expNumber s of Some x \<Rightarrow> Some x | None \<Rightarrow> radixNumber s))"

lemma jsNumberOf_decimal: "numberOf s = Some x \<Longrightarrow> jsNumberOf s = Some x"
  by (simp add: jsNumberOf_def)

end
