(* ===== verification/Platform.thy ===== *)
theory Platform
  imports Chain JsText
begin

text \<open>
  The data the services share: the reference tables of the database (countries, currencies,
  stablecoins, consumers, merchants, KYC levels, settings) and the two in-process caches, as a record
  that extends the chain; then the lookups of \<open>treasuryDeployService.ts\<close> and \<open>currencyHelper.ts\<close> on
  them. A table is a list of rows in the order a scan returns them; a query without ORDER BY may
  meet them in any order, and the list is arbitrary.
\<close>

record country =
  countryCode :: string
  countryCurrency :: string
  countryActive :: bool

record currency =
  currencyCode :: string
  baseCurrency :: string
  currencySym :: "string option"
  currencyDec :: "nat option"

record stablecoin =
  internalCode :: string
  isTreasuryToken :: bool
  isDeployed :: bool
  contractAddress :: "address option"
  isPrimary :: "bool option"

record consumerRow =
  consumerId :: string
  consumerWallet :: "address option"
  consumerCountry :: string
  consumerKycLevel :: "nat option"
  consumerActive :: bool
  consumerGlobalId :: "int option"
  consumerTag :: "string option"

record merchantRow =
  merchantId :: string
  merchantWallet :: "address option"
  merchantCountry :: string
  merchantName :: string
  merchantCurrency :: string
  merchantSettleCur :: "string option"
  merchantSettleType :: "string option"
  merchantActive :: bool

record kycLevel =
  levelId :: nat
  levelName :: string
  maxSingleTx :: "string option"
  maxDailySend :: "string option"
  maxMonthlySpend :: "string option"

datatype spendType = P2p | Purchase | WithdrawalSpend | EscrowSpend | Remittance

text \<open>The column holds a wallet or, for value sent to a phone, its number.\<close>

datatype counterparty = ToWallet address | ToPhone string

record spendEvent =
  seConsumer :: string
  seWallet :: address
  seType :: spendType
  seCurrency :: string
  seAmount :: int
  seLimitUnits :: int
  seCounterparty :: "counterparty option"
  seTx :: "txHash option"
  seAt :: int

record revenueConfig =
  fxSpreadBps :: int
  settlementFeeBps :: int
  withdrawalFeeBps :: int

text \<open>A field of a JSON reply, as far as the FX service looks at it.\<close>

datatype jsonVal = JNull | JNum rat | JOther

datatype zimReply = ZimError nat | ZimBody jsonVal jsonVal
datatype majorsReply = MajorsError nat | MajorsBody "string \<Rightarrow> jsonVal"

datatype fxSource = FxOverride | FxZimrate | FxMajors | FxUnavailable

record fxEntry =
  fxeRate :: rat
  fxeSource :: fxSource
  fxeExpires :: int
  fxeAsOf :: int

record platform = chain +
  countries :: "country list"
  currencies :: "currency list"
  stablecoins :: "stablecoin list"
  consumers :: "consumerRow list"
  merchants :: "merchantRow list"
  kycLevels :: "kycLevel list"
  spendEvents :: "spendEvent list"
  appConfig :: "(string \<times> string) list"
  revenueCache :: "(revenueConfig \<times> int) option"
  fxOverrides :: "((string \<times> string) \<times> rat) list"
  fxCache :: "string \<Rightarrow> fxEntry option"
  zimFeed :: "string \<Rightarrow> zimReply"
  majorsFeed :: "string \<Rightarrow> majorsReply"

section \<open>Treasury tokens of a corridor\<close>

text \<open>The address of a row is not null by the query's last condition, and \<open>headOpt\<close> is \<open>LIMIT 1\<close>.\<close>

definition headOpt :: "'a list \<Rightarrow> 'a option" where
  "headOpt xs = (case xs of [] \<Rightarrow> None | x # _ \<Rightarrow> Some x)"

lemma headOpt_simps [simp]: "headOpt [] = None" "headOpt (x # xs) = Some x"
  by (simp_all add: headOpt_def)

definition deployedTreasury :: "stablecoin \<Rightarrow> bool" where
  "deployedTreasury sc \<longleftrightarrow> isTreasuryToken sc \<and> isDeployed sc \<and> contractAddress sc \<noteq> None"

definition treasuryTokenAddressForCountry :: "string \<Rightarrow> ('r platform_scheme, address option) prog" where
  "treasuryTokenAddressForCountry country = readIO (\<lambda>s. headOpt
     [the (contractAddress sc). sc \<leftarrow> stablecoins s, c \<leftarrow> currencies s, co \<leftarrow> countries s,
        currencyCode c = internalCode sc \<and> countryCurrency co = baseCurrency c
        \<and> countryCode co = toUpper country \<and> deployedTreasury sc])"

definition treasuryTokenAddressForFiat :: "env \<Rightarrow> string \<Rightarrow> ('r platform_scheme, address option) prog" where
  "treasuryTokenAddressForFiat E fiat =
    andThen (readIO (\<lambda>s. headOpt [the (contractAddress sc). sc \<leftarrow> stablecoins s, c \<leftarrow> currencies s,
        currencyCode c = internalCode sc \<and> baseCurrency c = toUpper fiat \<and> deployedTreasury sc])) (\<lambda>r.
    ret (case r of Some a \<Rightarrow> Some a
      | None \<Rightarrow> (let f = toUpper fiat in
          if f = ''ZAR'' then ttZA E
          else if f = ''ZWL'' \<or> f = ''ZIG'' then ttZW E
          else None)))"

section \<open>currencyHelper.ts\<close>

definition currencyDecimals :: "string \<Rightarrow> nat" where
  "currencyDecimals c = (if toUpper c = ''USDC'' then 6 else 2)"

text \<open>Characters outside ASCII are their UTF-8 bytes.\<close>

definition symbolFallback :: "string \<Rightarrow> string option" where
  "symbolFallback c =
    (if c = ''ZAR'' then Some ''R'' else if c = ''USD'' then Some ''$'' else if c = ''USDC'' then Some ''$''
     else if c = ''MWK'' then Some ''MK'' else if c = ''EUR'' then Some [CHR 0xE2, CHR 0x82, CHR 0xAC]
     else if c = ''GBP'' then Some [CHR 0xC2, CHR 0xA3] else None)"

definition currencySymbol :: "string \<Rightarrow> string option \<Rightarrow> string" where
  "currencySymbol code fromDb =
    (case fromDb of
       Some t \<Rightarrow> if trim t \<noteq> [] then trim t else orElse (symbolFallback (toUpper code)) (toUpper code)
     | None \<Rightarrow> orElse (symbolFallback (toUpper code)) (toUpper code))"

record spendCurrency =
  scCode :: string
  scSymbol :: string
  scDecimals :: nat

definition spendCurrencyForCountry :: "string \<Rightarrow> ('r platform_scheme, spendCurrency) prog" where
  "spendCurrencyForCountry country =
    andThen (readIO (\<lambda>s. headOpt [(countryCurrency co, currencySym cu, currencyDec cu).
        co \<leftarrow> countries s, cu \<leftarrow> currencies s,
        currencyCode cu = countryCurrency co \<and> countryCode co = toUpper country])) (\<lambda>r.
    ret (case r of
        None \<Rightarrow> \<lparr>scCode = ''ZAR'', scSymbol = ''R'', scDecimals = 2\<rparr>
      | Some (cc, sy, d) \<Rightarrow> \<lparr>scCode = cc, scSymbol = currencySymbol cc sy, scDecimals = orElse d 2\<rparr>))"

text \<open>\<open>ORDER BY is_primary DESC NULLS LAST\<close>.\<close>

definition primaryRank :: "bool option \<Rightarrow> nat" where
  "primaryRank p = (case p of Some True \<Rightarrow> 0 | Some False \<Rightarrow> 1 | None \<Rightarrow> 2)"

definition treasuryCorridorForFiat :: "string \<Rightarrow> ('r platform_scheme, string option) prog" where
  "treasuryCorridorForFiat fiat = readIO (\<lambda>s. map_option internalCode (headOpt (sort_key (primaryRank \<circ> isPrimary)
     [sc. sc \<leftarrow> stablecoins s, cu \<leftarrow> currencies s,
        currencyCode cu = internalCode sc \<and> isTreasuryToken sc \<and> baseCurrency cu = toUpper fiat])))"

definition currencyForCountry :: "string \<Rightarrow> ('r platform_scheme, string) prog" where
  "currencyForCountry country =
    andThen (readIO (\<lambda>s. find (\<lambda>co. countryCode co = toUpper country) (countries s))) (\<lambda>r.
    andThen (ofOption r (statusErr ''Unknown country'' 400)) (\<lambda>co. ret (countryCurrency co)))"

lemma currencyDecimals_pos: "currencyDecimals c = 2 \<or> currencyDecimals c = 6"
  by (simp add: currencyDecimals_def)

lemma currencyDecimals_upper [simp]: "currencyDecimals (toUpper c) = currencyDecimals c"
  by (simp add: currencyDecimals_def)

lemma headOpt_SomeD: "headOpt xs = Some x \<Longrightarrow> x \<in> set xs"
  by (cases xs) auto

text \<open>An address the database yields for a corridor is a deployed treasury token of that corridor.\<close>

lemma treasuryTokenAddressForCountry_sound:
  assumes "treasuryTokenAddressForCountry cc s = (Inr (Some a), t)"
  shows "\<exists>sc\<in>set (stablecoins t). \<exists>c\<in>set (currencies t). \<exists>co\<in>set (countries t).
    deployedTreasury sc \<and> contractAddress sc = Some a \<and> currencyCode c = internalCode sc
    \<and> baseCurrency c = countryCurrency co \<and> countryCode co = toUpper cc"
  using assms unfolding treasuryTokenAddressForCountry_def
  by (auto dest!: readIO_InrD sym [of "Some a"] headOpt_SomeD simp: deployedTreasury_def)

lemma spendCurrency_default:
  "net s = [] \<Longrightarrow> countries s = [] \<Longrightarrow>
    spendCurrencyForCountry cc s = (Inr \<lparr>scCode = ''ZAR'', scSymbol = ''R'', scDecimals = 2\<rparr>, s)"
  by (simp add: spendCurrencyForCountry_def)

end
