(* ===== verification/Treasury.thy ===== *)
theory Treasury
  imports Platform
begin

text \<open>
  \<open>treasuryService.ts\<close>: the on-chain actions of the backend signer, each a program over the
  platform state. Amounts are \<open>bigint\<close>s (\<open>int\<close>); a call passes them through \<open>uintArg\<close>. A transaction
  is one external action (\<open>sendTx\<close>): sent, mined and awaited.
\<close>

definition currencyHash :: "env \<Rightarrow> string \<Rightarrow> bytes32" where
  "currencyHash E code = idHash E (toUpper code)"

definition noVault :: failure where
  "noVault = plainErr ''No vault address configured''"

definition noSigner :: failure where
  "noSigner = plainErr ''No backend signer configured''"

section \<open>Ledger moves\<close>

definition vaultWriter :: "env \<Rightarrow> ('s, address) prog" where
  "vaultWriter E = andThen (ofOption (vaultAddr E) noVault) (\<lambda>_. ofOption (signer E) noSigner)"

definition vaultBalanceOf :: "env \<Rightarrow> address \<Rightarrow> string \<Rightarrow> ('r chain_scheme, int) prog" where
  "vaultBalanceOf E wallet cur =
    andThen (ofOption (vaultAddr E) noVault) (\<lambda>_.
    andThen (callView (\<lambda>s. unifiedBalance (vault s) wallet (currencyHash E cur))) (\<lambda>n. ret (int n)))"

definition vaultAdminCredit :: "env \<Rightarrow> address \<Rightarrow> int \<Rightarrow> string \<Rightarrow> ('r chain_scheme, txHash) prog" where
  "vaultAdminCredit E wallet amount cur =
    andThen (vaultWriter E) (\<lambda>sg.
    andThen (uintArg amount) (\<lambda>n.
    sendTx (onVault (adminCredit sg wallet n (currencyHash E cur)))))"

definition vaultAdminDebit :: "env \<Rightarrow> address \<Rightarrow> int \<Rightarrow> string \<Rightarrow> ('r chain_scheme, txHash) prog" where
  "vaultAdminDebit E wallet amount cur =
    andThen (vaultWriter E) (\<lambda>sg.
    andThen (uintArg amount) (\<lambda>n.
    sendTx (onVault (adminDebit sg wallet n (currencyHash E cur)))))"

section \<open>Treasury tokens\<close>

definition mintTreasuryToken :: "env \<Rightarrow> address \<Rightarrow> int \<Rightarrow> string \<Rightarrow> ('r platform_scheme, txHash) prog" where
  "mintTreasuryToken E to amount fiat =
    andThen (treasuryTokenAddressForFiat E fiat) (\<lambda>ta.
    andThen (ofOption ta (plainErr (''No treasury token configured for '' @ toUpper fiat))) (\<lambda>token.
    andThen (ofOption (signer E) noSigner) (\<lambda>sg.
    andThen (uintArg amount) (\<lambda>n.
    sendTx (onTT token (ttMint (oz E) sg to n))))))"

definition treasuryTokenForCountry :: "env \<Rightarrow> string \<Rightarrow> address option" where
  "treasuryTokenForCountry E cc =
    (if toUpper cc = ''ZA'' then ttZA E else if toUpper cc = ''ZW'' then ttZW E else None)"

definition resolveTreasuryToken :: "env \<Rightarrow> string \<Rightarrow> ('r platform_scheme, address option) prog" where
  "resolveTreasuryToken E cc =
    andThen (treasuryTokenAddressForCountry cc) (\<lambda>fromDb. case fromDb of
      Some a \<Rightarrow> ret (Some a) | None \<Rightarrow> ret (treasuryTokenForCountry E cc))"

definition noTreasuryToken :: "string \<Rightarrow> failure" where
  "noTreasuryToken cc = plainErr (''No treasury token configured for '' @ toUpper cc)"

definition treasuryTokenBalanceOf :: "env \<Rightarrow> address \<Rightarrow> string \<Rightarrow> ('r platform_scheme, int) prog" where
  "treasuryTokenBalanceOf E holder cc =
    andThen (resolveTreasuryToken E cc) (\<lambda>ta.
    andThen (ofOption ta (noTreasuryToken cc)) (\<lambda>token.
    readIO (\<lambda>s. int (tokenBalance s token holder))))"

definition countryCodeForFiat :: "string \<Rightarrow> ('r platform_scheme, string) prog" where
  "countryCodeForFiat fiat =
    andThen (readIO (\<lambda>s. find (\<lambda>co. countryCurrency co = toUpper fiat \<and> countryActive co) (countries s))) (\<lambda>r.
    andThen (ofOption r (plainErr (''No country configured for currency '' @ toUpper fiat))) (\<lambda>co.
    ret (countryCode co)))"

definition consumerWallets :: "'r platform_scheme \<Rightarrow> address list" where
  "consumerWallets s = List.map_filter consumerWallet (consumers s)"

definition merchantWallets :: "'r platform_scheme \<Rightarrow> address list" where
  "merchantWallets s = List.map_filter merchantWallet (merchants s)"

text \<open>The loop over the wallets: a balance that cannot be read is skipped.\<close>

fun sumClaimsLoop :: "env \<Rightarrow> string \<Rightarrow> address list \<Rightarrow> int \<Rightarrow> ('r platform_scheme, int) prog" where
  "sumClaimsLoop E fiat [] acc = ret acc"
| "sumClaimsLoop E fiat (w # ws) acc =
    andThen (tryCatch (andThen (vaultBalanceOf E w fiat) (\<lambda>b. ret (acc + b))) (\<lambda>_. ret acc))
      (sumClaimsLoop E fiat ws)"

definition sumAllUserFiatClaimsOnChain :: "env \<Rightarrow> string \<Rightarrow> ('r platform_scheme, int) prog" where
  "sumAllUserFiatClaimsOnChain E fiat =
    andThen (readIO consumerWallets) (\<lambda>cons.
    andThen (readIO merchantWallets) (\<lambda>merch.
    sumClaimsLoop E fiat (cons @ merch) 0))"

definition unallocatedTreasuryBacking :: "env \<Rightarrow> string \<Rightarrow> ('r platform_scheme, int) prog" where
  "unallocatedTreasuryBacking E fiat = (case vaultAddr E of None \<Rightarrow> ret 0
    | Some va \<Rightarrow>
      andThen (countryCodeForFiat fiat) (\<lambda>cc.
      andThen (treasuryTokenBalanceOf E va cc) (\<lambda>vaultTt.
      andThen (sumAllUserFiatClaimsOnChain E fiat) (\<lambda>userClaims.
      ret (if userClaims < vaultTt then vaultTt - userClaims else 0)))))"

record backedCredit =
  bcCreditTx :: txHash
  bcMintTx :: "txHash option"
  bcMintAmount :: "int option"

definition creditFiatWithTreasuryBacking :: "env \<Rightarrow> address \<Rightarrow> int \<Rightarrow> string \<Rightarrow> ('r platform_scheme, backedCredit) prog" where
  "creditFiatWithTreasuryBacking E wallet amountUnits fiat =
    andThen (ofOption (vaultAddr E) noVault) (\<lambda>va.
    andThen (unallocatedTreasuryBacking E fiat) (\<lambda>unallocated.
    let mintNeeded = (if unallocated < amountUnits then amountUnits - unallocated else 0) in
    andThen (if 0 < mintNeeded
       then andThen (mintTreasuryToken E va mintNeeded fiat) (\<lambda>h. ret (Some h)) else ret None) (\<lambda>mintTx.
    andThen (vaultAdminCredit E wallet amountUnits fiat) (\<lambda>creditTx.
    ret \<lparr>bcCreditTx = creditTx, bcMintTx = mintTx,
         bcMintAmount = (if 0 < mintNeeded then Some mintNeeded else None)\<rparr>))))"

definition sweepTreasuryFromVault :: "env \<Rightarrow> address \<Rightarrow> int \<Rightarrow> string \<Rightarrow> ('r platform_scheme, txHash) prog" where
  "sweepTreasuryFromVault E toAddress amount cc =
    andThen (vaultWriter E) (\<lambda>sg.
    andThen (resolveTreasuryToken E cc) (\<lambda>ta.
    andThen (ofOption ta (noTreasuryToken cc)) (\<lambda>token.
    andThen (ofOption (vaultAddr E) noVault) (\<lambda>va.
    andThen (treasuryTokenBalanceOf E va cc) (\<lambda>reserve.
    andThen (require (amount \<le> reserve) (plainErr (''Insufficient treasury backing in vault reserve: have ''
       @ showInt reserve @ '' units, need '' @ showInt amount))) (\<lambda>_.
    andThen (uintArg amount) (\<lambda>n.
    sendTx (onTT token (ttForcedTransfer (oz E) sg va toAddress n)))))))))"

section \<open>Withdrawals and reserves\<close>

definition tokenAt0 :: "vault \<Rightarrow> bytes32 \<Rightarrow> address" where
  "tokenAt0 v c = (case currencyTokens v c of [] \<Rightarrow> 0 | t # _ \<Rightarrow> t)"

definition vaultBackingTokenForCurrency :: "env \<Rightarrow> string \<Rightarrow> ('r chain_scheme, address) prog" where
  "vaultBackingTokenForCurrency E cur =
    andThen (ofOption (vaultAddr E) noVault) (\<lambda>_.
    andThen (readIO (\<lambda>s. tokenAt0 (vault s) (currencyHash E cur))) (\<lambda>token.
    andThen (require (token \<noteq> 0) (plainErr (''No vault backing token registered for '' @ cur))) (\<lambda>_.
    ret token)))"

definition withdrawToExternal ::
  "env \<Rightarrow> address \<Rightarrow> address \<Rightarrow> address \<Rightarrow> int \<Rightarrow> ('r chain_scheme, txHash) prog" where
  "withdrawToExternal E fromWallet recipient token amount =
    andThen (vaultWriter E) (\<lambda>sg.
    andThen (ofOption (vaultAddr E) noVault) (\<lambda>va.
    andThen (uintArg amount) (\<lambda>n.
    sendTx (withdrawExternal E va sg fromWallet recipient token n))))"

text \<open>\<open>mint\<close> of the mock USDC token, code outside the repository: a move from the zero address.\<close>

definition mockMint :: "env \<Rightarrow> address \<Rightarrow> address \<Rightarrow> nat \<Rightarrow> 'r chain_scheme \<Rightarrow> revert + 'r chain_scheme" where
  "mockMint E token to a s = (case erc20 E token 0 to a (erc s token) of
     None \<Rightarrow> Inl ERC20Failed | Some b \<Rightarrow> Inr (s\<lparr>erc := (erc s)(token := b)\<rparr>))"

definition mintUsdcToVault :: "env \<Rightarrow> int \<Rightarrow> ('r chain_scheme, txHash \<times> address \<times> txHash option) prog" where
  "mintUsdcToVault E amount =
    andThen (vaultWriter E) (\<lambda>sg.
    andThen (ofOption (vaultAddr E) noVault) (\<lambda>va.
    andThen (readIO (\<lambda>s. usdcToken (vault s))) (\<lambda>usdc.
    andThen (require (usdc \<noteq> 0) (plainErr ''Vault has no USDC token configured'')) (\<lambda>_.
    andThen (uintArg amount) (\<lambda>n.
    andThen (sendTx (mockMint E usdc va n)) (\<lambda>mintTx.
    andThen (tryCatch (andThen (sendTx (onVault (Vault.recordPlatformReserve sg (currencyHash E ''USDC'') n)))
         (\<lambda>h. ret (Some h))) (\<lambda>_. ret None)) (\<lambda>reserveTx.
    ret (mintTx, usdc, reserveTx))))))))"

definition recordReserve :: "env \<Rightarrow> string \<Rightarrow> int \<Rightarrow> ('r chain_scheme, txHash) prog" where
  "recordReserve E cur amount =
    andThen (vaultWriter E) (\<lambda>sg.
    andThen (uintArg amount) (\<lambda>n.
    sendTx (onVault (Vault.recordPlatformReserve sg (currencyHash E cur) n))))"

definition vaultErc20Balance :: "env \<Rightarrow> address \<Rightarrow> ('r chain_scheme, int) prog" where
  "vaultErc20Balance E token =
    andThen (ofOption (vaultAddr E) noVault) (\<lambda>va. readIO (\<lambda>s. int (tokenBalance s token va)))"

definition usdcReserveUnits :: "env \<Rightarrow> ('r chain_scheme, int) prog" where
  "usdcReserveUnits E = (case vaultAddr E of None \<Rightarrow> ret 0
    | Some va \<Rightarrow> andThen (readIO (\<lambda>s. usdcToken (vault s))) (\<lambda>usdc.
        if usdc = 0 then ret 0 else readIO (\<lambda>s. int (tokenBalance s usdc va))))"

section \<open>Merchant registration on chain\<close>

datatype whitelistResult = WlResult (wlSet: bool) (wlTx: "txHash option") (wlAlready: bool) (wlReason: "string option")

definition whitelistMerchant :: "env \<Rightarrow> address \<Rightarrow> string \<Rightarrow> ('r platform_scheme, whitelistResult) prog" where
  "whitelistMerchant E wallet cc =
    andThen (resolveTreasuryToken E cc) (\<lambda>ta. case ta of
      None \<Rightarrow> ret (WlResult False None False (Some (''No treasury token configured for '' @ toUpper cc)))
    | Some token \<Rightarrow> (case signer E of
        None \<Rightarrow> ret (WlResult False None False (Some ''No backend signer configured''))
      | Some sg \<Rightarrow>
        andThen (callView (\<lambda>s. case tts s token of None \<Rightarrow> Inl ERC20Failed | Some t \<Rightarrow> Inr (whitelisted t wallet))) (\<lambda>already.
        if already then ret (WlResult True None True None)
        else andThen (sendTx (onTT token (ttAddToWhitelist sg wallet))) (\<lambda>h.
          ret (WlResult True (Some h) False None)))))"

definition setVaultTrusted :: "env \<Rightarrow> address \<Rightarrow> ('r platform_scheme, whitelistResult) prog" where
  "setVaultTrusted E wallet = (case vaultAddr E of
      None \<Rightarrow> ret (WlResult False None False (Some ''No vault address configured''))
    | Some va \<Rightarrow> (case signer E of
        None \<Rightarrow> ret (WlResult False None False (Some ''No backend signer configured''))
      | Some sg \<Rightarrow>
        andThen (readIO (\<lambda>s. trustedCounterparty (vault s) wallet)) (\<lambda>already.
        if already then ret (WlResult True None True None)
        else andThen (sendTx (onVault (setTrustedCounterparty sg wallet True))) (\<lambda>h.
          ret (WlResult True (Some h) False None)))))"

definition registerMerchantOnchain :: "env \<Rightarrow> address \<Rightarrow> string \<Rightarrow> ('r platform_scheme, whitelistResult \<times> whitelistResult) prog" where
  "registerMerchantOnchain E wallet cc =
    andThen (tryCatch (whitelistMerchant E wallet cc) (\<lambda>e. ret (WlResult False None False (Some (fmsg e))))) (\<lambda>t.
    andThen (tryCatch (setVaultTrusted E wallet) (\<lambda>e. ret (WlResult False None False (Some (fmsg e))))) (\<lambda>v.
    ret (t, v)))"

section \<open>Yield\<close>

record harvestResult =
  hrTx :: txHash
  hrUserYield :: string
  hrPlatformCut :: string
  hrTreasury :: address
  hrFeeBps :: nat

definition getHarvestableYield :: "env \<Rightarrow> string \<Rightarrow> ('r chain_scheme, string) prog" where
  "getHarvestableYield E cur =
    andThen (ofOption (vaultAddr E) noVault) (\<lambda>va.
    andThen (callView (harvestableYield va (currencyHash E cur))) (\<lambda>n. ret (showNat n)))"

text \<open>The transaction's event gives the split; \<open>uint16\<close> bounds the fee argument.\<close>

definition harvestYield :: "env \<Rightarrow> string \<Rightarrow> address option \<Rightarrow> nat option \<Rightarrow> ('r chain_scheme, harvestResult) prog" where
  "harvestYield E cur optTreasury optFee =
    andThen (ofOption (vaultAddr E) noVault) (\<lambda>va.
    andThen (ofOption (signer E) noSigner) (\<lambda>sg.
    andThen (ofOption (case optTreasury of Some a \<Rightarrow> Some a | None \<Rightarrow> treasuryAddr E)
      (plainErr ''No platform treasury configured (set PLATFORM_TREASURY_ADDRESS or DEPLOYER_ADMIN_ADDRESS)'')) (\<lambda>treasury.
    let isCash = toUpper cur \<in> set (cashCurrencies E);
        feeBps = (if isCash then 10000 else orElse optFee (harvestFeeBps E)) in
    andThen (require (feeBps < 2 ^ 16) (plainErr ''value out-of-bounds'')) (\<lambda>_.
    andThen (io (\<lambda>s. case harvest E va sg (currencyHash E cur) treasury feeBps s of
        Inl r \<Rightarrow> Inl (revertErr r)
      | Inr (split, t) \<Rightarrow> Inr ((txCount t, split), t\<lparr>txCount := txCount t + 1\<rparr>))) (\<lambda>(h, userYield, platformCut).
    ret \<lparr>hrTx = h, hrUserYield = showNat userYield, hrPlatformCut = showNat platformCut,
         hrTreasury = treasury, hrFeeBps = feeBps\<rparr>)))))"

section \<open>Outcomes of a ledger move\<close>

text \<open>
  Whatever the network does, a ledger move either left the chain alone or took effect exactly once;
  when the program returns, it took effect. The state around the Vault is never touched.
\<close>

definition ledgerDone :: "'r chain_scheme \<Rightarrow> vault \<Rightarrow> 'r chain_scheme \<Rightarrow> bool" where
  "ledgerDone s v t \<longleftrightarrow> (\<exists>rest. t = s\<lparr>net := rest, vault := v, txCount := txCount s + 1\<rparr>)"

definition ledgerUndone :: "'r chain_scheme \<Rightarrow> 'r chain_scheme \<Rightarrow> bool" where
  "ledgerUndone s t \<longleftrightarrow> (\<exists>rest. t = s\<lparr>net := rest\<rparr>)"

lemma adminCredit_InrD: "adminCredit sg w n c v = Inr v' \<Longrightarrow>
    creditAssets w c n v = Inr v' \<and> w \<noteq> 0 \<and> n \<noteq> 0 \<and> c \<noteq> 0 \<and> isExecutor v sg"
  by (simp add: adminCredit_def sbind_guard_Inr_iff)

lemma adminDebit_InrD: "adminDebit sg w n c v = Inr v' \<Longrightarrow>
    debitAssets w c n v = Inr v' \<and> w \<noteq> 0 \<and> n \<noteq> 0 \<and> isExecutor v sg"
  by (simp add: adminDebit_def sbind_guard_Inr_iff)

lemma ledgerUndone_net [simp]: "ledgerUndone s (s\<lparr>net := ns\<rparr>)" "ledgerUndone s s"
  unfolding ledgerUndone_def by (blast, rule exI [of _ "net s"], simp)

lemma sendTx_cases:
  assumes "sendTx f s = (r, t)"
  obtains rest where "t = s\<lparr>net := rest\<rparr>" and "\<exists>e. r = Inl e"
  | rest u where "f (s\<lparr>net := rest\<rparr>) = Inr u" and "t = u\<lparr>txCount := txCount u + 1\<rparr>"
      and "r = Inr (txCount u) \<or> r = Inl networkErr"
  using assms
  by (auto simp: sendTx_def io_def Let_def split: prod.splits net.splits sum.splits)

lemma ledger_tx_cases:
  assumes "sendTx (onVault f) s = (r, t)"
  obtains "ledgerUndone s t" and "\<exists>e. r = Inl e"
  | v where "f (vault s) = Inr v" and "ledgerDone s v t" and "r = Inr (txCount s) \<or> r = Inl networkErr"
  using assms
proof (cases rule: sendTx_cases)
  case (1 rest)
  then show thesis using that(1) by simp
next
  case (2 rest u)
  then show thesis
    using that(2) unfolding onVault_Inr_iff ledgerDone_def by fastforce
qed

lemma vaultAdminCredit_cases:
  assumes "vaultAdminCredit E w a cur s = (r, t)"
  obtains "ledgerUndone s t" and "\<exists>e. r = Inl e"
  | v where "creditAssets w (currencyHash E cur) (nat a) (vault s) = Inr v" and "ledgerDone s v t"
      and "r = Inr (txCount s) \<or> r = Inl networkErr" and "0 < a"
proof (cases "vaultAddr E = None \<or> signer E = None \<or> \<not> (0 \<le> a \<and> a < 2 ^ 256)")
  case True
  then have "t = s" "\<exists>e. r = Inl e"
    using assms unfolding vaultAdminCredit_def vaultWriter_def uintArg_def
    by (auto simp: andThen_def ofOption_def raise_def ret_def split: option.splits if_splits)
  then show thesis using that(1) by simp
next
  case False
  then obtain sg where "sendTx (onVault (adminCredit sg w (nat a) (currencyHash E cur))) s = (r, t)"
    using assms unfolding vaultAdminCredit_def vaultWriter_def by auto
  then show thesis
  proof (cases rule: ledger_tx_cases)
    case (2 v)
    then show thesis using that(2) [of v] False by (auto dest!: adminCredit_InrD)
  qed (rule that(1))
qed

lemma vaultAdminDebit_cases:
  assumes "vaultAdminDebit E w a cur s = (r, t)"
  obtains "ledgerUndone s t" and "\<exists>e. r = Inl e"
  | v where "debitAssets w (currencyHash E cur) (nat a) (vault s) = Inr v" and "ledgerDone s v t"
      and "r = Inr (txCount s) \<or> r = Inl networkErr" and "0 < a"
proof (cases "vaultAddr E = None \<or> signer E = None \<or> \<not> (0 \<le> a \<and> a < 2 ^ 256)")
  case True
  then have "t = s" "\<exists>e. r = Inl e"
    using assms unfolding vaultAdminDebit_def vaultWriter_def uintArg_def
    by (auto simp: andThen_def ofOption_def raise_def ret_def split: option.splits if_splits)
  then show thesis using that(1) by simp
next
  case False
  then obtain sg where "sendTx (onVault (adminDebit sg w (nat a) (currencyHash E cur))) s = (r, t)"
    using assms unfolding vaultAdminDebit_def vaultWriter_def by auto
  then show thesis
  proof (cases rule: ledger_tx_cases)
    case (2 v)
    then show thesis using that(2) [of v] False by (auto dest!: adminDebit_InrD)
  qed (rule that(1))
qed

lemma vaultAdminCredit_InrD:
  assumes "vaultAdminCredit E w a cur s = (Inr h, t)"
  shows "\<exists>v rest. creditAssets w (currencyHash E cur) (nat a) (vault s) = Inr v \<and> 0 < a \<and> h = txCount s
    \<and> t = s\<lparr>net := rest, vault := v, txCount := txCount s + 1\<rparr>"
  using assms by (cases rule: vaultAdminCredit_cases) (auto simp: ledgerDone_def)

lemma vaultAdminDebit_InrD:
  assumes "vaultAdminDebit E w a cur s = (Inr h, t)"
  shows "\<exists>v rest. debitAssets w (currencyHash E cur) (nat a) (vault s) = Inr v \<and> 0 < a \<and> h = txCount s
    \<and> t = s\<lparr>net := rest, vault := v, txCount := txCount s + 1\<rparr>"
  using assms by (cases rule: vaultAdminDebit_cases) (auto simp: ledgerDone_def)

text \<open>A calm network stays calm.\<close>

lemma nextNet_rest: "nextNet ns = (o1, rest) \<Longrightarrow> rest = tl ns"
  by (cases ns) (auto simp: nextNet_def)

lemma sendTx_onVault_net: "sendTx (onVault f) s = (r, t) \<Longrightarrow> net t = tl (net s)"
  by (auto simp: sendTx_def io_def Let_def onVault_def sbind_def dest!: nextNet_rest
      split: prod.splits net.splits sum.splits)

lemma vaultAdminCredit_net: "vaultAdminCredit E w a cur s = (Inr h, t) \<Longrightarrow> net s = [] \<Longrightarrow> net t = []"
  unfolding vaultAdminCredit_def vaultWriter_def by (auto simp: andThen_Inr_iff dest!: sendTx_onVault_net)

lemma vaultAdminDebit_net: "vaultAdminDebit E w a cur s = (Inr h, t) \<Longrightarrow> net s = [] \<Longrightarrow> net t = []"
  unfolding vaultAdminDebit_def vaultWriter_def by (auto simp: andThen_Inr_iff dest!: sendTx_onVault_net)

text \<open>
  The token a currency's look-up finds in the tables, whatever the network does.
\<close>

definition corridorToken :: "env \<Rightarrow> string \<Rightarrow> 'r platform_scheme \<Rightarrow> address option" where
  "corridorToken E fiat s = (case fst (treasuryTokenAddressForFiat E fiat (s\<lparr>net := []\<rparr>)) of Inl e \<Rightarrow> None | Inr a \<Rightarrow> a)"

lemma corridorToken_found:
  assumes "treasuryTokenAddressForFiat E fiat s = (Inr (Some token), t)"
  shows "corridorToken E fiat s = Some token" and "\<exists>rest. t = s\<lparr>net := rest\<rparr>"
proof -
  let ?look = "\<lambda>r. (case r of Some a \<Rightarrow> Some a
      | None \<Rightarrow> (let f = toUpper fiat in if f = ''ZAR'' then ttZA E else if f = ''ZWL'' \<or> f = ''ZIG'' then ttZW E else None))"
  let ?rows = "\<lambda>s :: 'a platform_scheme. headOpt [the (contractAddress sc). sc \<leftarrow> stablecoins s, c \<leftarrow> currencies s,
        currencyCode c = internalCode sc \<and> baseCurrency c = toUpper fiat \<and> deployedTreasury sc]"
  obtain r where r: "readIO ?rows s = (Inr r, t)" and l: "?look r = Some token"
    using assms unfolding treasuryTokenAddressForFiat_def by (elim andThen_InrE) auto
  obtain rest where t: "t = s\<lparr>net := rest\<rparr>" and rr: "r = ?rows s"
    using readIO_InrD [OF r] by auto
  have "fst (treasuryTokenAddressForFiat E fiat (s\<lparr>net := []\<rparr>)) = Inr (?look (?rows s))"
    by (simp add: treasuryTokenAddressForFiat_def)
  then show "corridorToken E fiat s = Some token"
    using l unfolding rr corridorToken_def by simp
  show "\<exists>rest. t = s\<lparr>net := rest\<rparr>" using t by blast
qed

lemma mintTreasuryToken_InrD:
  assumes "mintTreasuryToken E to a fiat s = (Inr h, t)"
  shows "\<exists>token t0 t1 sg. corridorToken E fiat s = Some token \<and> tts s token = Some t0 \<and> ttMint (oz E) sg to (nat a) t0 = Inr t1
    \<and> tts t = (tts s)(token := Some t1) \<and> vault t = vault s \<and> erc t = erc s"
proof -
  obtain token sg s1 where r: "treasuryTokenAddressForFiat E fiat s = (Inr (Some token), s1)"
    and tx: "sendTx (onTT token (ttMint (oz E) sg to (nat a))) s1 = (Inr h, t)"
    using assms unfolding mintTreasuryToken_def by (elim andThen_InrE) (auto simp: andThen_Inr_iff)
  obtain rest where "s1 = s\<lparr>net := rest\<rparr>" using corridorToken_found(2) [OF r] by blast
  then show ?thesis
    using sendTx_InrD [OF tx] corridorToken_found(1) [OF r] by (fastforce simp: onTT_Inr_iff)
qed

lemma vaultBalanceOf_InrD:
  "vaultBalanceOf E w cur s = (Inr x, t) \<Longrightarrow>
    x = int (balanceOf (vault s) w (currencyHash E cur)) \<and> (\<exists>rest. t = s\<lparr>net := rest\<rparr>)"
  unfolding vaultBalanceOf_def callView_def
  by (auto simp: andThen_Inr_iff dest!: io_InrD unifiedBalance_InrD split: sum.splits)

lemma vaultBalanceOf_Inl: "vaultBalanceOf E w cur s = (Inl e, t) \<Longrightarrow> \<exists>rest. t = s\<lparr>net := rest\<rparr>"
  unfolding vaultBalanceOf_def callView_def
  by (cases "vaultAddr E")
    (auto simp: andThen_def io_def Let_def split: prod.splits net.splits sum.splits intro: exI [of _ "net s"])

section \<open>Every server action keeps the share ledger sound\<close>

text \<open>
  \<open>vaultSound\<close>: in every currency the shares of the holders add up to the total. It depends on the
  ledger only, and each action keeps it, whether it returns, throws, or loses an acknowledgement.
\<close>

definition vaultSound :: "'r chain_scheme \<Rightarrow> bool" where
  "vaultSound s \<longleftrightarrow> (\<forall>c. poolOk (vault s) c)"

lemma vaultSound_cong: "shares (vault t) = shares (vault s) \<Longrightarrow> totalShares (vault t) = totalShares (vault s) \<Longrightarrow>
    vaultSound t = vaultSound s"
  by (simp add: vaultSound_def poolOk_def)

lemma vaultSound_net [simp]: "net_free vaultSound"
  by (auto simp: net_free_def vaultSound_def)

named_theorems keeps_sound \<open>actions that keep \<open>vaultSound\<close>\<close>

lemma keeps_sound_read [keeps_sound]: "keeps vaultSound (readIO f)"
  by (rule keeps_readIO) simp

lemma keeps_sound_view [keeps_sound]: "keeps vaultSound (callView f)"
  by (rule keeps_callView) simp

lemma vaultAdminCredit_sound [keeps_sound]: "keeps vaultSound (vaultAdminCredit E w a cur)"
proof (rule keepsI)
  fix s :: "'a chain_scheme"
  assume s: "vaultSound s"
  obtain r t where run: "vaultAdminCredit E w a cur s = (r, t)" by fastforce
  then have "vaultSound t"
    by (cases rule: vaultAdminCredit_cases)
      (use s creditAssets_poolOk in \<open>auto simp: vaultSound_def ledgerDone_def ledgerUndone_def\<close>)
  then show "vaultSound (snd (vaultAdminCredit E w a cur s))" using run by simp
qed

lemma vaultAdminDebit_sound [keeps_sound]: "keeps vaultSound (vaultAdminDebit E w a cur)"
proof (rule keepsI)
  fix s :: "'a chain_scheme"
  assume s: "vaultSound s"
  obtain r t where run: "vaultAdminDebit E w a cur s = (r, t)" by fastforce
  then have "vaultSound t"
    by (cases rule: vaultAdminDebit_cases)
      (use s debitAssets_poolOk in \<open>auto simp: vaultSound_def ledgerDone_def ledgerUndone_def\<close>)
  then show "vaultSound (snd (vaultAdminDebit E w a cur s))" using run by simp
qed

lemma sendTx_TT_sound [keeps_sound]: "keeps vaultSound (sendTx (onTT token f))"
  by (rule keeps_sendTx) (auto simp: onTT_Inr_iff vaultSound_def)

lemma withdrawExternal_pool:
  assumes "withdrawExternal E this sg f rc tok n s = Inr t"
  shows "\<exists>v. debitAssets f (tokenCurrency (vault s) tok) n (vault s) = Inr v \<and> vault t = v
    \<and> tokenTransfer E tok this rc n (s\<lparr>vault := v\<rparr>) = Inr t"
  using assms unfolding withdrawExternal_def Let_def
  by (clarsimp simp: sbind_guard_Inr_iff sbind_Inr_iff) (frule tokenTransfer_frame, simp)

lemma withdrawToExternal_sound [keeps_sound]: "keeps vaultSound (withdrawToExternal E f rc tok a)"
  unfolding withdrawToExternal_def vaultWriter_def
  by (intro keeps_intro keeps_sendTx vaultSound_net)
    (auto simp: vaultSound_def dest!: withdrawExternal_pool dest: debitAssets_poolOk)

lemma recordPlatformReserve_pool:
  "Vault.recordPlatformReserve sg c n v = Inr v' \<Longrightarrow> shares v' = shares v \<and> totalShares v' = totalShares v"
  by (auto simp: Vault.recordPlatformReserve_def sbind_Inr_iff)

lemma setTrusted_pool:
  "setTrustedCounterparty sg w b v = Inr v' \<Longrightarrow> shares v' = shares v \<and> totalShares v' = totalShares v"
  by (auto simp: setTrustedCounterparty_def sbind_Inr_iff)

lemma sendTx_reserve_sound [keeps_sound]: "keeps vaultSound (sendTx (onVault (Vault.recordPlatformReserve sg c n)))"
  by (rule keeps_sendTx)
    (auto simp: onVault_Inr_iff vaultSound_def poolOk_def dest!: recordPlatformReserve_pool)

lemma sendTx_trusted_sound [keeps_sound]: "keeps vaultSound (sendTx (onVault (setTrustedCounterparty sg w b)))"
  by (rule keeps_sendTx) (auto simp: onVault_Inr_iff vaultSound_def poolOk_def dest!: setTrusted_pool)

lemma sendTx_mock_sound [keeps_sound]: "keeps vaultSound (sendTx (mockMint E tok to n))"
  by (rule keeps_sendTx) (auto simp: mockMint_def vaultSound_def split: option.splits)

lemma treasury_reads_sound [keeps_sound]:
  "keeps vaultSound (treasuryTokenAddressForCountry cc)"
  "keeps vaultSound (treasuryTokenAddressForFiat E fiat)"
  "keeps vaultSound (resolveTreasuryToken E cc)"
  "keeps vaultSound (treasuryTokenBalanceOf E h cc)"
  "keeps vaultSound (countryCodeForFiat fiat)"
  "keeps vaultSound (vaultBalanceOf E w cur)"
  "keeps vaultSound (vaultBackingTokenForCurrency E cur)"
  "keeps vaultSound (usdcReserveUnits E)"
  "keeps vaultSound (vaultErc20Balance E tok)"
  unfolding treasuryTokenAddressForCountry_def treasuryTokenAddressForFiat_def resolveTreasuryToken_def
    treasuryTokenBalanceOf_def countryCodeForFiat_def vaultBalanceOf_def vaultBackingTokenForCurrency_def
    usdcReserveUnits_def vaultErc20Balance_def
  by (intro keeps_intro keeps_sound_read keeps_sound_view vaultSound_net)+

lemma sumClaimsLoop_sound [keeps_sound]: "keeps vaultSound (sumClaimsLoop E fiat ws acc)"
  by (induction ws arbitrary: acc) (simp_all, (intro keeps_intro keeps_sound)+)

lemma treasury_actions_sound [keeps_sound]:
  "keeps vaultSound (mintTreasuryToken E to a fiat)"
  "keeps vaultSound (sumAllUserFiatClaimsOnChain E fiat)"
  "keeps vaultSound (unallocatedTreasuryBacking E fiat)"
  "keeps vaultSound (sweepTreasuryFromVault E to a cc)"
  unfolding mintTreasuryToken_def sumAllUserFiatClaimsOnChain_def unallocatedTreasuryBacking_def
    sweepTreasuryFromVault_def vaultWriter_def
  by (intro keeps_intro keeps_sound vaultSound_net)+

lemma creditFiat_sound [keeps_sound]: "keeps vaultSound (creditFiatWithTreasuryBacking E w a fiat)"
  unfolding creditFiatWithTreasuryBacking_def Let_def by (intro keeps_intro keeps_sound)

lemma merchant_actions_sound [keeps_sound]:
  "keeps vaultSound (whitelistMerchant E w cc)"
  "keeps vaultSound (setVaultTrusted E w)"
  unfolding whitelistMerchant_def setVaultTrusted_def by (intro keeps_intro keeps_sound vaultSound_net)+

section \<open>Programs that leave the ledger alone\<close>

definition vaultIs :: "vault \<Rightarrow> 'r chain_scheme \<Rightarrow> bool" where
  "vaultIs v s \<longleftrightarrow> vault s = v"

named_theorems keeps_vault \<open>actions that leave the Vault alone\<close>

lemma vaultIs_net [simp]: "net_free (vaultIs v)"
  by (simp add: net_free_def vaultIs_def)

lemma keeps_vault_read [keeps_vault]: "keeps (vaultIs v) (readIO f)"
  by (rule keeps_readIO) simp

lemma keeps_vault_view [keeps_vault]: "keeps (vaultIs v) (callView f)"
  by (rule keeps_callView) simp

lemma keeps_vault_TT [keeps_vault]: "keeps (vaultIs v) (sendTx (onTT token f))"
  by (rule keeps_sendTx) (auto simp: onTT_Inr_iff vaultIs_def)

lemma keeps_vault_write: "(\<And>s. vault (f s) = vault s) \<Longrightarrow> keeps (vaultIs v) (writeIO f)"
  by (rule keeps_writeIO) (simp_all add: vaultIs_def)

lemma vault_reads [keeps_vault]:
  "keeps (vaultIs v) (treasuryTokenAddressForCountry cc)"
  "keeps (vaultIs v) (treasuryTokenAddressForFiat E fiat)"
  "keeps (vaultIs v) (resolveTreasuryToken E cc)"
  "keeps (vaultIs v) (treasuryTokenBalanceOf E h cc)"
  "keeps (vaultIs v) (countryCodeForFiat fiat)"
  "keeps (vaultIs v) (vaultBalanceOf E w cur)"
  "keeps (vaultIs v) (vaultBackingTokenForCurrency E cur)"
  "keeps (vaultIs v) (usdcReserveUnits E)"
  "keeps (vaultIs v) (vaultErc20Balance E tok)"
  "keeps (vaultIs v) (spendCurrencyForCountry cc)"
  "keeps (vaultIs v) (treasuryCorridorForFiat fiat)"
  "keeps (vaultIs v) (currencyForCountry cc)"
  unfolding treasuryTokenAddressForCountry_def treasuryTokenAddressForFiat_def resolveTreasuryToken_def
    treasuryTokenBalanceOf_def countryCodeForFiat_def vaultBalanceOf_def vaultBackingTokenForCurrency_def
    usdcReserveUnits_def vaultErc20Balance_def spendCurrencyForCountry_def treasuryCorridorForFiat_def
    currencyForCountry_def
  by (intro keeps_intro keeps_vault_read keeps_vault_view vaultIs_net)+

lemma sumClaimsLoop_vault [keeps_vault]: "keeps (vaultIs v) (sumClaimsLoop E fiat ws acc)"
  by (induction ws arbitrary: acc) (simp_all, (intro keeps_intro keeps_vault)+)

lemma treasury_mint_vault [keeps_vault]:
  "keeps (vaultIs v) (mintTreasuryToken E to a fiat)"
  "keeps (vaultIs v) (sumAllUserFiatClaimsOnChain E fiat)"
  "keeps (vaultIs v) (unallocatedTreasuryBacking E fiat)"
  "keeps (vaultIs v) (sweepTreasuryFromVault E to a cc)"
  "keeps (vaultIs v) (whitelistMerchant E w cc)"
  unfolding mintTreasuryToken_def sumAllUserFiatClaimsOnChain_def unallocatedTreasuryBacking_def
    sweepTreasuryFromVault_def vaultWriter_def whitelistMerchant_def
  by (intro keeps_intro keeps_vault vaultIs_net)+

text \<open>The outcomes of the three moves, from a known Vault.\<close>

lemma credit_triple:
  "triple (vaultIs v) (vaultAdminCredit E w a cur)
     (\<lambda>_ t. 0 < a \<and> creditAssets w (currencyHash E cur) (nat a) v = Inr (vault t))
     (\<lambda>t. vault t = v \<or> (0 < a \<and> creditAssets w (currencyHash E cur) (nat a) v = Inr (vault t)))"
proof (rule tripleI)
  fix s x t
  assume s: "vaultIs v s" and run: "vaultAdminCredit E w a cur s = (Inr x, t)"
  show "0 < a \<and> creditAssets w (currencyHash E cur) (nat a) v = Inr (vault t)"
    using vaultAdminCredit_InrD [OF run] s by (auto simp: vaultIs_def)
next
  fix s e t
  assume s: "vaultIs v s" and run: "vaultAdminCredit E w a cur s = (Inl e, t)"
  from run show "vault t = v \<or> (0 < a \<and> creditAssets w (currencyHash E cur) (nat a) v = Inr (vault t))"
    by (cases rule: vaultAdminCredit_cases)
      (use s in \<open>auto simp: vaultIs_def ledgerUndone_def ledgerDone_def\<close>)
qed

lemma debit_triple:
  "triple (vaultIs v) (vaultAdminDebit E w a cur)
     (\<lambda>_ t. 0 < a \<and> debitAssets w (currencyHash E cur) (nat a) v = Inr (vault t))
     (\<lambda>t. vault t = v \<or> (0 < a \<and> debitAssets w (currencyHash E cur) (nat a) v = Inr (vault t)))"
proof (rule tripleI)
  fix s x t
  assume s: "vaultIs v s" and run: "vaultAdminDebit E w a cur s = (Inr x, t)"
  show "0 < a \<and> debitAssets w (currencyHash E cur) (nat a) v = Inr (vault t)"
    using vaultAdminDebit_InrD [OF run] s by (auto simp: vaultIs_def)
next
  fix s e t
  assume s: "vaultIs v s" and run: "vaultAdminDebit E w a cur s = (Inl e, t)"
  from run show "vault t = v \<or> (0 < a \<and> debitAssets w (currencyHash E cur) (nat a) v = Inr (vault t))"
    by (cases rule: vaultAdminDebit_cases)
      (use s in \<open>auto simp: vaultIs_def ledgerUndone_def ledgerDone_def\<close>)
qed

lemma creditFiat_triple:
  "triple (vaultIs v) (creditFiatWithTreasuryBacking E w a fiat)
     (\<lambda>_ t. 0 < a \<and> creditAssets w (currencyHash E fiat) (nat a) v = Inr (vault t))
     (\<lambda>t. vault t = v \<or> (0 < a \<and> creditAssets w (currencyHash E fiat) (nat a) v = Inr (vault t)))"
  unfolding creditFiatWithTreasuryBacking_def Let_def
proof (rule triple_ofOption)
  fix va
  show "triple (vaultIs v)
     (andThen (unallocatedTreasuryBacking E fiat) (\<lambda>unallocated.
        andThen (if 0 < (if unallocated < a then a - unallocated else 0)
          then andThen (mintTreasuryToken E va (if unallocated < a then a - unallocated else 0) fiat) (\<lambda>h. ret (Some h))
          else ret None) (\<lambda>mintTx.
        andThen (vaultAdminCredit E w a fiat) (\<lambda>creditTx.
        ret \<lparr>bcCreditTx = creditTx, bcMintTx = mintTx,
          bcMintAmount = if 0 < (if unallocated < a then a - unallocated else 0)
            then Some (if unallocated < a then a - unallocated else 0) else None\<rparr>))))
     (\<lambda>_ t. 0 < a \<and> creditAssets w (currencyHash E fiat) (nat a) v = Inr (vault t))
     (\<lambda>t. vault t = v \<or> (0 < a \<and> creditAssets w (currencyHash E fiat) (nat a) v = Inr (vault t)))"
    by (intro triple_skip [OF _ _ triple_skip] keeps_intro keeps_vault triple_andThen [OF credit_triple] triple_ret)
      (auto simp: vaultIs_def)
qed (auto simp: vaultIs_def)

end
