(* ===== verification/Fixtures.thy ===== *)
theory Fixtures
  imports Treasury
begin

text \<open>
  A small concrete deployment, at which the witnesses of the properties are evaluated: a Vault at
  address 1, the backend signer 2, a ZAR treasury token at 3, the USDC token at 4, the platform
  treasury 5 and escrow account 6, two consumers (wallets 10 and 11) and a merchant (wallet 20).
  The parameters are concrete functions that satisfy their laws.
\<close>

definition idExample :: "string \<Rightarrow> bytes32" where
  "idExample s = of_nat (foldl (\<lambda>a c. 256 * a + of_char c) 1 s)"

definition formatExample :: "int \<Rightarrow> nat \<Rightarrow> string" where
  "formatExample n d = (if n < 0 then CHR ''-'' # numericText d (nat (- n)) else numericText d (nat n))"

text \<open>\<open>parseUnits\<close>: at most \<open>d\<close> digits after the dot.\<close>

definition parseExample :: "string \<Rightarrow> nat \<Rightarrow> int option" where
  "parseExample s d = (let i = beforeDot s; f = afterDot s in
     if list_all isDigit i \<and> list_all isDigit f \<and> i @ f \<noteq> [] \<and> length f \<le> d
     then Some (int (natOfDigits (i @ f @ replicate (d - length f) (CHR ''0'')))) else None)"

text \<open>\<open>getAddress\<close> on lower-case hex addresses.\<close>

definition addrExample :: "string \<Rightarrow> address option" where
  "addrExample t = (if take 2 t = ''0x'' \<and> length t = 42 \<and> list_all isHexDigit (drop 2 t)
     then Some (of_nat (foldl (\<lambda>a c. 16 * a + hexVal c) 0 (drop 2 t))) else None)"

definition demoEnv :: env where
  "demoEnv = \<lparr>idHash = idExample, sha256 = idExample, oz = ozExample, erc20 = (\<lambda>_. ozExample), parseUnits = parseExample,
     formatUnits = formatExample, vaultAddr = Some 1, signer = Some 2, ttZA = Some 3, ttZW = None,
     treasuryAddr = Some 5, escrowAddr = Some 6, harvestFeeBps = 1000, cashCurrencies = [''ZAR''],
     getAddr = addrExample, consumerAddr = Some 7, fxApiKey = False, fxCacheTtl = 60000\<rparr>"

definition zarHash :: bytes32 where "zarHash = currencyHash demoEnv ''ZAR''"
definition usdcHash :: bytes32 where "usdcHash = currencyHash demoEnv ''USDC''"

definition demoShares :: "address \<Rightarrow> bytes32 \<Rightarrow> nat" where
  "demoShares u c =
    (if c = zarHash then (if u = 10 then 50000 else if u = 6 then 20000 else 0)
     else if c = usdcHash then (if u = 10 then 30000000 else 0) else 0)"

definition demoVault :: vault where
  "demoVault = \<lparr>shares = demoShares,
     totalShares = (\<lambda>c. if c = zarHash then 70000 else if c = usdcHash then 30000000 else 0),
     totalAssets = (\<lambda>c. if c = zarHash then 70000 else if c = usdcHash then 30000000 else 0),
     tokenCurrency = (\<lambda>t. if t = 4 then usdcHash else if t = 3 then zarHash else 0),
     currencyTokens = (\<lambda>c. if c = usdcHash then [4] else if c = zarHash then [3] else []),
     currencyTreasuryToken = (\<lambda>_. 0), remittanceLocked = (\<lambda>_. False),
     trustedCounterparty = (\<lambda>u. u = 6 \<or> u = 20), platformReserveAssets = (\<lambda>_. 0),
     isAllowedDestination = (\<lambda>_. False), allowedDestinations = [], consumerContract = 0, swapRouter = 9, usdcToken = 4,
     isExecutor = (\<lambda>u. u = 2), isAdmin = (\<lambda>u. u = 2), isSettlement = (\<lambda>u. u = 2), vaultPaused = False\<rparr>"

definition demoToken :: ttoken where
  "demoToken = \<lparr>bal = (\<lambda>u. if u = 1 then 70000 else 0), frozenTokens = (\<lambda>_. 0), blacklisted = (\<lambda>_. False),
     whitelisted = (\<lambda>_. False), whitelistEnabled = False, complianceEnabled = False, hasConsumer = False,
     ttPaused = False, isMinter = (\<lambda>u. u = 2), isCompliance = (\<lambda>u. u = 2),
     isPauser = (\<lambda>u. u = 2), isTokenAdmin = (\<lambda>u. u = 2)\<rparr>"

definition demoPlatform :: platform where
  "demoPlatform = \<lparr>net = [], clock = 1700000000000, vault = demoVault,
     erc = (\<lambda>t u. if t = 4 \<and> u = 1 then 100000000 else 0),
     tts = (\<lambda>t. if t = 3 then Some demoToken else None), isRegistered = (\<lambda>u. u = 10 \<or> u = 11),
     countryCodeOf = (\<lambda>_. 0), kycLevelOf = (\<lambda>_. 1), txCount = 0,
     countries = [\<lparr>countryCode = ''ZA'', countryCurrency = ''ZAR'', countryActive = True\<rparr>],
     currencies = [\<lparr>currencyCode = ''ZAR'', baseCurrency = ''ZAR'', currencySym = Some ''R'', currencyDec = Some 2\<rparr>,
       \<lparr>currencyCode = ''TTZA'', baseCurrency = ''ZAR'', currencySym = None, currencyDec = Some 2\<rparr>],
     stablecoins = [\<lparr>internalCode = ''TTZA'', isTreasuryToken = True, isDeployed = True, contractAddress = Some 3, isPrimary = Some True\<rparr>],
     consumers = [\<lparr>consumerId = ''c1'', consumerWallet = Some 10, consumerCountry = ''ZA'', consumerKycLevel = Some 1,
         consumerActive = True, consumerGlobalId = Some 1001, consumerTag = Some ''ann''\<rparr>,
       \<lparr>consumerId = ''c2'', consumerWallet = Some 11, consumerCountry = ''ZA'', consumerKycLevel = Some 1,
         consumerActive = True, consumerGlobalId = Some 1002, consumerTag = Some ''bob''\<rparr>],
     merchants = [\<lparr>merchantId = ''m1'', merchantWallet = Some 20, merchantCountry = ''ZA'',
       merchantName = ''Shop'', merchantCurrency = ''ZAR'', merchantSettleCur = None, merchantSettleType = Some ''ONCHAIN'', merchantActive = True\<rparr>],
     kycLevels = [\<lparr>levelId = 1, levelName = ''basic'', maxSingleTx = Some ''500000'', maxDailySend = Some ''1000000'', maxMonthlySpend = None\<rparr>],
     spendEvents = [], appConfig = [(''revenue.fx_spread_bps'', ''2500'')], revenueCache = None, fxOverrides = [((''ZAR'', ''USD''), 1/16), ((''USD'', ''ZAR''), 16)],
     fxCache = (\<lambda>_. None), zimFeed = (\<lambda>_. ZimError 500), majorsFeed = (\<lambda>_. MajorsError 500)\<rparr>"

section \<open>The laws hold of the example\<close>

lemma demoEnv_sel [simp]:
  "idHash demoEnv = idExample" "sha256 demoEnv = idExample" "oz demoEnv = ozExample" "erc20 demoEnv = (\<lambda>_. ozExample)"
  "parseUnits demoEnv = parseExample" "formatUnits demoEnv = formatExample" "vaultAddr demoEnv = Some 1"
  "signer demoEnv = Some 2" "ttZA demoEnv = Some 3" "treasuryAddr demoEnv = Some 5" "escrowAddr demoEnv = Some 6"
  "harvestFeeBps demoEnv = 1000" "cashCurrencies demoEnv = [''ZAR'']" "getAddr demoEnv = addrExample" "consumerAddr demoEnv = Some 7" "fxApiKey demoEnv = False" "fxCacheTtl demoEnv = 60000"
  by (simp_all add: demoEnv_def)

lemma hash_values [simp]: "zarHash = 0x15A4152" "usdcHash = 0x155534443"
  by (simp_all add: zarHash_def usdcHash_def currencyHash_def idExample_def upperChar_def)

lemma hash_distinct: "zarHash \<noteq> usdcHash" "zarHash \<noteq> 0" "usdcHash \<noteq> 0"
  by simp_all

lemma currencyHash_demo [simp]: "currencyHash demoEnv ''ZAR'' = 0x15A4152" "currencyHash demoEnv ''USDC'' = 0x155534443"
  by (simp_all add: currencyHash_def idExample_def upperChar_def)

lemma ozLaw_demo [simp]: "ozLaw (oz demoEnv)" "ozLaw (erc20 demoEnv t)"
  by (simp_all add: ozLaw_example)

lemma format_demo: "0 \<le> n \<Longrightarrow> numberOf (formatUnits demoEnv n d) = Some (fl (of_int n / 10 ^ d))"
  by (simp add: formatExample_def numberOf_numericText)

lemma demo_sums: "(\<Sum>u\<in>UNIV. demoShares u zarHash) = 70000" "(\<Sum>u\<in>UNIV. demoShares u usdcHash) = 30000000"
proof -
  have "(\<Sum>u\<in>UNIV. demoShares u zarHash) = (\<Sum>u\<in>{10, 6}. demoShares u zarHash)"
    by (rule sum.mono_neutral_right) (auto simp: demoShares_def)
  then show "(\<Sum>u\<in>UNIV. demoShares u zarHash) = 70000"
    by (simp add: demoShares_def)
  have "(\<Sum>u\<in>UNIV. demoShares u usdcHash) = (\<Sum>u\<in>{10}. demoShares u usdcHash)"
    by (rule sum.mono_neutral_right) (auto simp: demoShares_def)
  then show "(\<Sum>u\<in>UNIV. demoShares u usdcHash) = 30000000"
    by (simp add: demoShares_def)
qed

lemma demo_poolOk [simp]: "poolOk demoVault c"
proof -
  consider "c = zarHash" | "c = usdcHash" | "c \<noteq> zarHash" "c \<noteq> usdcHash" by blast
  then show ?thesis
  proof cases
    case 3
    then show ?thesis by (simp add: poolOk_def demoVault_def demoShares_def)
  qed (use demo_sums in \<open>simp_all add: poolOk_def demoVault_def\<close>)
qed

lemma demo_cash [simp]: "cashSound demoVault c"
proof -
  have "totalAssets demoVault = totalShares demoVault" by (simp add: demoVault_def)
  then show ?thesis by (simp add: cashSound_def parity_def)
qed

lemma demo_platform_sel [simp]:
  "net demoPlatform = []" "vault demoPlatform = demoVault" "tts demoPlatform 3 = Some demoToken" "txCount demoPlatform = 0"
  "clock demoPlatform = 1700000000000"
  by (simp_all add: demoPlatform_def)

lemma demo_token [simp]: "frozenHeld demoToken"
  by (simp add: frozenHeld_def demoToken_def)

lemma demo_vaultSound: "vaultSound demoPlatform"
  by (simp add: vaultSound_def)

end
