(* ===== verification/TreasuryProps.thy ===== *)
theory TreasuryProps
  imports Fixtures
begin

text \<open>
  The properties of the Vault ledger and of \<open>treasuryService.ts\<close>, each with its witness at the
  deployment of \<open>Fixtures\<close>.
\<close>

section \<open>Fiat credits stay backed\<close>

definition claims :: "vault \<Rightarrow> bytes32 \<Rightarrow> address list \<Rightarrow> nat" where
  "claims v c ws = (\<Sum>w\<leftarrow>ws. balanceOf v w c)"

definition userWallets :: "'r platform_scheme \<Rightarrow> address list" where
  "userWallets s = consumerWallets s @ merchantWallets s"

text \<open>\<open>corridor\<close>: the treasury token that the look-ups by currency and by its country find.\<close>

definition corridor :: "env \<Rightarrow> string \<Rightarrow> address \<Rightarrow> 'r platform_scheme \<Rightarrow> bool" where
  "corridor E fiat token s \<longleftrightarrow> treasuryTokenAddressForFiat E fiat s = (Inr (Some token), s)
     \<and> (case find (\<lambda>co. countryCurrency co = toUpper fiat \<and> countryActive co) (countries s) of None \<Rightarrow> False
        | Some co \<Rightarrow> resolveTreasuryToken E (countryCode co) s = (Inr (Some token), s))"

lemma unifiedBalance_ok:
  assumes "cashSound v c" and "totalShares v c * totalAssets v c < uintLimit"
  shows "unifiedBalance v w c = Inr (balanceOf v w c)"
proof -
  have "shares v w c * totalAssets v c \<le> totalShares v c * totalAssets v c"
    using poolOk_le [of v c w] assms(1) by (intro mult_le_mono1) (simp add: cashSound_def)
  then have "shares v w c * totalAssets v c < uintLimit" using assms(2) by (rule le_less_trans)
  then show ?thesis
    by (simp add: unifiedBalance_def convertToAssets_def balanceOf_def assetsOf_def Let_def mul256_def)
qed

lemma vaultBalanceOf_calm:
  assumes "net s = []" and "vaultAddr E = Some va" and "unifiedBalance (vault s) w (currencyHash E cur) = Inr b"
  shows "vaultBalanceOf E w cur s = (Inr (int b), s)"
  using assms by (simp add: vaultBalanceOf_def callView_calm)

lemma sumClaimsLoop_calm:
  assumes "net s = []" and "vaultAddr E = Some va" and "cashSound (vault s) (currencyHash E fiat)"
    and "totalShares (vault s) (currencyHash E fiat) * totalAssets (vault s) (currencyHash E fiat) < uintLimit"
  shows "sumClaimsLoop E fiat ws acc s = (Inr (acc + int (claims (vault s) (currencyHash E fiat) ws)), s)"
proof (induction ws arbitrary: acc)
  case (Cons w ws)
  then show ?case
    using vaultBalanceOf_calm [OF assms(1,2) unifiedBalance_ok [OF assms(3,4)], of w]
    by (simp add: claims_def)
qed (simp add: claims_def)

lemma unallocated_calm:
  assumes "net s = []" and "vaultAddr E = Some va" and "cashSound (vault s) (currencyHash E fiat)"
    and "totalShares (vault s) (currencyHash E fiat) * totalAssets (vault s) (currencyHash E fiat) < uintLimit"
    and "corridor E fiat token s"
  shows "unallocatedTreasuryBacking E fiat s = (Inr (int (tokenBalance s token va - claims (vault s) (currencyHash E fiat) (userWallets s))), s)"
  using assms sumClaimsLoop_calm [OF assms(1-4), of "userWallets s" 0]
  by (auto simp: unallocatedTreasuryBacking_def corridor_def countryCodeForFiat_def treasuryTokenBalanceOf_def
      sumAllUserFiatClaimsOnChain_def userWallets_def of_nat_diff split: option.splits)

lemma creditFiat_run:
  assumes calm: "net s = []" and va: "vaultAddr E = Some va" and cash: "cashSound (vault s) (currencyHash E fiat)"
    and nov: "totalShares (vault s) (currencyHash E fiat) * totalAssets (vault s) (currencyHash E fiat) < uintLimit"
    and cor: "corridor E fiat token s" and tk: "tts s token = Some tok" and fz: "frozenHeld tok" and law: "ozLaw (oz E)"
    and run: "creditFiatWithTreasuryBacking E w amt fiat s = (Inr r, t)"
  shows "tokenBalance t token va = tokenBalance s token va + (nat amt - (tokenBalance s token va - claims (vault s) (currencyHash E fiat) (userWallets s)))"
    and "creditAssets w (currencyHash E fiat) (nat amt) (vault s) = Inr (vault t)" and "0 < amt" and "net t = []"
proof -
  let ?c = "currencyHash E fiat"
  let ?un = "tokenBalance s token va - claims (vault s) ?c (userWallets s)"
  note un = unallocated_calm [OF calm va cash nov cor]
  have "\<exists>s1 h. (if int ?un < amt then andThen (mintTreasuryToken E va (amt - int ?un) fiat) (\<lambda>h. ret (Some h)) else ret None) s = (Inr h, s1)
      \<and> vaultAdminCredit E w amt fiat s1 = (Inr (bcCreditTx r), t)"
    using run va un by (auto simp: creditFiatWithTreasuryBacking_def andThen_Inr_iff Let_def split: if_splits)
  then obtain s1 h where m: "(if int ?un < amt then andThen (mintTreasuryToken E va (amt - int ?un) fiat) (\<lambda>h. ret (Some h)) else ret None) s = (Inr h, s1)"
    and cr: "vaultAdminCredit E w amt fiat s1 = (Inr (bcCreditTx r), t)"
    by blast
  have s1: "vault s1 = vault s \<and> net s1 = [] \<and> tokenBalance s1 token va = tokenBalance s token va + (nat amt - ?un)"
  proof (cases "int ?un < amt")
    case True
    obtain sg where "sendTx (onTT token (ttMint (oz E) sg va (nat (amt - int ?un)))) s = (Inr (the h), s1)"
      using m True cor unfolding corridor_def
      by (auto simp: mintTreasuryToken_def andThen_Inr_iff)
    then obtain t' where t': "ttMint (oz E) sg va (nat (amt - int ?un)) tok = Inr t'"
      and s1: "s1 = s\<lparr>tts := (tts s)(token := Some t'), txCount := txCount s + 1\<rparr>"
      using tk calm by (auto simp: sendTx_calm onTT_def sbind_def split: sum.splits)
    have "bal t' va = bal tok va + nat (amt - int ?un)"
      using ttMint_InrD(1) [OF t' law fz] by simp
    then show ?thesis
      using True calm tk by (simp add: s1 tokenBalance_def nat_diff_distrib')
  next
    case False
    then show ?thesis using m calm by auto
  qed
  obtain v rest where v: "creditAssets w ?c (nat amt) (vault s1) = Inr v" and pos: "0 < amt"
    and t: "t = s1\<lparr>net := rest, vault := v, txCount := txCount s1 + 1\<rparr>"
    using vaultAdminCredit_InrD [OF cr] by blast
  show "tokenBalance t token va = tokenBalance s token va + (nat amt - ?un)"
    using s1 by (simp add: t)
  show "creditAssets w ?c (nat amt) (vault s) = Inr (vault t)" "0 < amt"
    using v pos s1 by (simp_all add: t)
  show "net t = []"
    using vaultAdminCredit_net [OF cr] s1 by simp
qed

lemma claims_credit:
  assumes "creditAssets w c n v = Inr v'" and "cashSound v c" and "distinct ws" and "w \<in> set ws"
  shows "claims v' c ws = claims v c ws + n"
proof -
  have eq: "balanceOf v' u c = balanceOf v u c + (if u = w then n else 0)" for u
    using cash.cred_exact [OF assms(1,2), of u] by simp
  have "claims v' c ws = claims v c ws + (\<Sum>u\<leftarrow>ws. if u = w then n else 0)"
    by (simp add: claims_def eq sum_list_addf)
  also have "(\<Sum>u\<leftarrow>ws. if u = w then n else 0) = n"
    using assms(3,4) by (simp add: sum_list_distinct_conv_sum_set)
  finally show ?thesis .
qed

text \<open>
  C1. On a network without failures, with a corridor whose treasury token the look-ups by currency and by country
  agree on, and in a currency at parity (a share is worth one unit, \<open>cashSound\<close>) whose ledger does not
  overflow 256 bits, a fiat credit of the server (\<open>creditFiatWithTreasuryBacking\<close>) to one of the
  recorded wallets, no two of which are equal, mints exactly the shortfall of treasury tokens: when the
  treasury tokens in the Vault cover the claims of all wallets, they still do after the credit, and the
  recipient's claim grows by exactly the amount credited. Without the condition on the network this is
  false: \<open>credit_after_failed_read\<close> below.
\<close>

theorem creditFiat_stays_backed:
  assumes "creditFiatWithTreasuryBacking E w amt fiat s = (Inr r, t)"
    and "net s = []" and "vaultAddr E = Some va" and "cashSound (vault s) (currencyHash E fiat)"
    and "totalShares (vault s) (currencyHash E fiat) * totalAssets (vault s) (currencyHash E fiat) < uintLimit"
    and "corridor E fiat token s" and "tts s token = Some tok" and "frozenHeld tok" and "ozLaw (oz E)"
    and "distinct (userWallets s)" and "w \<in> set (userWallets s)"
    and "claims (vault s) (currencyHash E fiat) (userWallets s) \<le> tokenBalance s token va"
  shows "claims (vault t) (currencyHash E fiat) (userWallets s) \<le> tokenBalance t token va
    \<and> balanceOf (vault t) w (currencyHash E fiat) = balanceOf (vault s) w (currencyHash E fiat) + nat amt
    \<and> tokenBalance t token va = max (tokenBalance s token va)
        (claims (vault s) (currencyHash E fiat) (userWallets s) + nat amt)"
proof -
  note run = creditFiat_run [OF assms(2-9,1)]
  show ?thesis
    using run(1) claims_credit [OF run(2) assms(4,10,11)] cash.cred_exact [OF run(2) assms(4), of w] assms(12)
    by auto
qed

section \<open>The run at the example deployment\<close>

lemma demo_userWallets: "userWallets demoPlatform = [10, 11, 20]"
  by (simp add: userWallets_def consumerWallets_def merchantWallets_def demoPlatform_def List.map_filter_def)

lemma demo_corridor: "corridor demoEnv ''ZAR'' 3 demoPlatform"
  by (simp add: corridor_def treasuryTokenAddressForFiat_def resolveTreasuryToken_def
      treasuryTokenAddressForCountry_def demoPlatform_def deployedTreasury_def upperChar_def)

lemma demo_nov: "totalShares demoVault (currencyHash demoEnv ''ZAR'') * totalAssets demoVault (currencyHash demoEnv ''ZAR'') < uintLimit"
  by (simp add: demoVault_def uintLimit_def)

lemma demo_claims: "claims demoVault (currencyHash demoEnv ''ZAR'') [10, 11, 20] = 50000"
  by (simp add: claims_def balanceOf_def assetsOf_def demoVault_def demoShares_def)

lemma demo_backing: "tokenBalance demoPlatform 3 1 = 70000"
  by (simp add: tokenBalance_def demoToken_def)

lemma demo_unallocated: "unallocatedTreasuryBacking demoEnv ''ZAR'' demoPlatform = (Inr 20000, demoPlatform)"
  using unallocated_calm [OF _ _ _ _ demo_corridor, of 1] demo_nov
  by (simp add: demo_backing demo_claims demo_userWallets del: currencyHash_demo)

lemma demo_credit_run:
  obtains v where "creditFiatWithTreasuryBacking demoEnv 11 5000 ''ZAR'' demoPlatform
      = (Inr \<lparr>bcCreditTx = 0, bcMintTx = None, bcMintAmount = None\<rparr>, demoPlatform\<lparr>vault := v, txCount := 1\<rparr>)"
    and "totalAssets v (currencyHash demoEnv ''ZAR'') = 75000"
proof -
  obtain v where v: "adminCredit 2 11 5000 (currencyHash demoEnv ''ZAR'') demoVault = Inr v"
    and ta: "totalAssets v (currencyHash demoEnv ''ZAR'') = 75000"
    by (simp add: adminCredit_def creditAssets_def convertToShares_def demoVault_def demoShares_def mul256_def
        add256_def uintLimit_def setPool_def setShares_def)
  show thesis
    by (rule that [OF _ ta])
      (use v demo_unallocated in \<open>simp add: creditFiatWithTreasuryBacking_def vaultAdminCredit_def
        vaultWriter_def sendTx_calm onVault_def\<close>)
qed

lemma creditFiat_stays_backed_witness:
  "\<exists>r t. creditFiatWithTreasuryBacking demoEnv 11 5000 ''ZAR'' demoPlatform = (Inr r, t)
    \<and> claims (vault t) (currencyHash demoEnv ''ZAR'') [10, 11, 20] \<le> tokenBalance t 3 1"
proof -
  obtain v where run: "creditFiatWithTreasuryBacking demoEnv 11 5000 ''ZAR'' demoPlatform
      = (Inr \<lparr>bcCreditTx = 0, bcMintTx = None, bcMintAmount = None\<rparr>, demoPlatform\<lparr>vault := v, txCount := 1\<rparr>)"
    by (rule demo_credit_run)
  show ?thesis
    using creditFiat_stays_backed [OF run, of 1 3 demoToken] demo_nov demo_corridor demo_claims demo_backing
      demo_userWallets run
    by (simp add: ozLaw_example del: currencyHash_demo)
qed

text \<open>
  The condition on the network is needed: \<open>sumAllUserFiatClaimsOnChain\<close> swallows a failed balance read and
  counts the wallet as empty. Here the read of the wallet with 500.00 is lost, and a credit of 650.00 is
  issued without a mint: the tokens in the Vault no longer cover the claims.
\<close>

lemma unallocated_lost:
  "unallocatedTreasuryBacking demoEnv ''ZAR'' (demoPlatform\<lparr>net := [Delivered, Delivered, Delivered, Delivered, Delivered, Lost]\<rparr>)
    = (Inr 70000, demoPlatform)"
proof -
  let ?n = "\<lambda>ns. demoPlatform\<lparr>net := ns\<rparr>"
  have rd: "readIO f (?n (Delivered # ns)) = (Inr (f (?n ns)), ?n ns)" for f :: "platform \<Rightarrow> 'x" and ns
    by (simp add: readIO_def io_def nextNet_def Let_def)
  have nil: "?n [] = demoPlatform" by (simp add: demoPlatform_def)
  have lost: "vaultBalanceOf demoEnv 10 ''ZAR'' (?n [Lost]) = (Inl networkErr, demoPlatform)"
    by (simp add: vaultBalanceOf_def callView_def andThen_def io_def nextNet_def Let_def nil)
  have zero: "claims demoVault (currencyHash demoEnv ''ZAR'') [11, 20] = 0"
    by (simp add: claims_def balanceOf_def assetsOf_def demoVault_def demoShares_def)
  have rest: "sumClaimsLoop demoEnv ''ZAR'' [11, 20] 0 demoPlatform = (Inr 0, demoPlatform)"
    using sumClaimsLoop_calm [of demoPlatform demoEnv 1 "''ZAR''" "[11, 20]" 0] demo_nov zero
    by (simp del: currencyHash_demo sumClaimsLoop.simps)
  have step: "sumClaimsLoop demoEnv ''ZAR'' [10, 11, 20] 0 (?n [Lost]) = (Inr 0, demoPlatform)"
    using rest lost by (subst sumClaimsLoop.simps(2)) (simp add: andThen_def tryCatch_def ret_def del: sumClaimsLoop.simps)
  have wallets: "consumerWallets (?n ns) = [10, 11]" "merchantWallets (?n ns) = [20]" for ns
    by (simp_all add: consumerWallets_def merchantWallets_def List.map_filter_def demoPlatform_def)
  have claims: "sumAllUserFiatClaimsOnChain demoEnv ''ZAR'' (?n [Delivered, Delivered, Lost]) = (Inr 0, demoPlatform)"
    using step by (simp add: sumAllUserFiatClaimsOnChain_def rd wallets andThen_def del: sumClaimsLoop.simps)
  have cc: "countryCodeForFiat ''ZAR'' (?n (Delivered # ns)) = (Inr ''ZA'', ?n ns)" for ns
    by (simp add: countryCodeForFiat_def andThen_def rd) (simp add: demoPlatform_def upperChar_def)
  have token: "treasuryTokenAddressForCountry ''ZA'' (?n (Delivered # ns)) = (Inr (Some 3), ?n ns)" for ns
    by (simp add: treasuryTokenAddressForCountry_def andThen_def rd) (simp add: demoPlatform_def deployedTreasury_def upperChar_def)
  show ?thesis
    using claims demo_backing by (simp add: unallocatedTreasuryBacking_def treasuryTokenBalanceOf_def resolveTreasuryToken_def andThen_def cc token rd)
qed

lemma credit_after_failed_read:
  "\<exists>r t. creditFiatWithTreasuryBacking demoEnv 11 65000 ''ZAR'' (demoPlatform\<lparr>net := [Delivered, Delivered, Delivered, Delivered, Delivered, Lost]\<rparr>) = (Inr r, t)
    \<and> claims (vault demoPlatform) (currencyHash demoEnv ''ZAR'') [10, 11, 20] \<le> tokenBalance demoPlatform 3 1
    \<and> tokenBalance t 3 1 < claims (vault t) (currencyHash demoEnv ''ZAR'') [10, 11, 20]"
proof -
  let ?s = "demoPlatform\<lparr>net := [Delivered, Delivered, Delivered, Delivered, Delivered, Lost]\<rparr>"
  obtain v where v: "adminCredit 2 11 65000 (currencyHash demoEnv ''ZAR'') demoVault = Inr v"
    and c: "claims v (currencyHash demoEnv ''ZAR'') [10, 11, 20] = 115000"
    by (simp add: adminCredit_def creditAssets_def convertToShares_def demoVault_def demoShares_def mul256_def
        add256_def uintLimit_def setPool_def setShares_def claims_def balanceOf_def assetsOf_def)
  have "creditFiatWithTreasuryBacking demoEnv 11 65000 ''ZAR'' ?s
      = (Inr \<lparr>bcCreditTx = 0, bcMintTx = None, bcMintAmount = None\<rparr>, demoPlatform\<lparr>vault := v, txCount := 1\<rparr>)"
    using v unallocated_lost by (simp add: creditFiatWithTreasuryBacking_def vaultAdminCredit_def vaultWriter_def sendTx_calm onVault_def del: currencyHash_demo)
  then show ?thesis
    using c demo_claims demo_backing by (simp add: tokenBalance_def demoToken_def del: currencyHash_demo)
qed

text \<open>
  C2. The backing check counts the wallets of consumers and merchants only: the value the platform
  holds in escrow for unclaimed vouchers is a claim on the same treasury tokens and is left out, so
  a credit can be issued against it. From a deployment whose treasury tokens cover every recorded
  claim, one fiat credit leads to one where they do not.
\<close>

theorem creditFiat_ignores_escrow:
  "\<exists>r t. creditFiatWithTreasuryBacking demoEnv 11 5000 ''ZAR'' demoPlatform = (Inr r, t)
    \<and> totalAssets (vault demoPlatform) (currencyHash demoEnv ''ZAR'') = tokenBalance demoPlatform 3 1
    \<and> balanceOf (vault demoPlatform) 6 (currencyHash demoEnv ''ZAR'') = 20000 \<and> escrowAddr demoEnv = Some 6
    \<and> tokenBalance t 3 1 < totalAssets (vault t) (currencyHash demoEnv ''ZAR'')"
proof -
  obtain v where run: "creditFiatWithTreasuryBacking demoEnv 11 5000 ''ZAR'' demoPlatform
      = (Inr \<lparr>bcCreditTx = 0, bcMintTx = None, bcMintAmount = None\<rparr>, demoPlatform\<lparr>vault := v, txCount := 1\<rparr>)"
    and ta: "totalAssets v (currencyHash demoEnv ''ZAR'') = 75000"
    by (rule demo_credit_run)
  have "totalAssets demoVault (currencyHash demoEnv ''ZAR'') = 70000"
    "balanceOf demoVault 6 (currencyHash demoEnv ''ZAR'') = 20000"
    by (simp_all add: demoVault_def balanceOf_def assetsOf_def demoShares_def)
  then show ?thesis
    using run ta demo_backing by (simp del: currencyHash_demo)
qed

section \<open>Yield\<close>

lemma showNat_0: "showNat 0 = ''0''"
  by code_simp

lemma upper_zar: "toUpper ''zar'' = ''ZAR''"
  by code_simp

text \<open>
  Harvesting a spend-cash currency takes the whole yield for the platform, whatever fee the
  caller asks for, and leaves the ledger exactly as it was: no consumer balance moves.
\<close>

theorem harvest_cash_flat:
  assumes "harvestYield E cur ot fee s = (Inr r, t)" and "toUpper cur \<in> set (cashCurrencies E)"
  shows "vault t = vault s \<and> hrFeeBps r = 10000 \<and> hrUserYield r = ''0''"
proof -
  obtain va sg treasury rest uy pc u where h: "harvest E va sg (currencyHash E cur) treasury 10000 (s\<lparr>net := rest\<rparr>) = Inr ((uy, pc), u)"
    and t: "t = u\<lparr>txCount := txCount u + 1\<rparr>" and r: "hrFeeBps r = 10000" "hrUserYield r = showNat uy"
    using assms unfolding harvestYield_def
    by (auto simp: andThen_Inr_iff Let_def dest!: io_InrD split: sum.splits prod.splits)
  have v: "vault u = vault (s\<lparr>net := rest\<rparr>)"
    using harvest_balance(2) [OF h] by simp
  obtain actual where "pc = (uy + pc) * 10000 div 10000"
    using h by (rule harvest_InrD)
  then have "uy = 0" by simp
  then show ?thesis
    using v t r by (simp add: showNat_0)
qed

lemma demo_harvest:
  "\<exists>r t. harvestYield demoEnv ''zar'' None (Some 250) (demoPlatform\<lparr>tts := (tts demoPlatform)(3 := Some (demoToken\<lparr>bal := (\<lambda>u. if u = 1 then 70900 else 0)\<rparr>))\<rparr>) = (Inr r, t)"
  by (simp add: harvestYield_def io_calm harvest_def actualHoldings.simps demoVault_def tokenBalance_def demoToken_def
      add256_def sub256_def mul256_def uintLimit_def payCut_def tokenTransfer_def ttTransfer_def tokenUpdate_def
      updateGates_def updateFrozen_def ozExample_def currencyHash_def idExample_def upperChar_def demoPlatform_def)

lemma harvest_cash_flat_witness:
  "\<exists>r t. harvestYield demoEnv ''zar'' None (Some 250) (demoPlatform\<lparr>tts := (tts demoPlatform)(3 := Some (demoToken\<lparr>bal := (\<lambda>u. if u = 1 then 70900 else 0)\<rparr>))\<rparr>) = (Inr r, t)
    \<and> vault t = demoVault"
proof -
  obtain r t where run: "harvestYield demoEnv ''zar'' None (Some 250) (demoPlatform\<lparr>tts := (tts demoPlatform)(3 := Some (demoToken\<lparr>bal := (\<lambda>u. if u = 1 then 70900 else 0)\<rparr>))\<rparr>) = (Inr r, t)"
    using demo_harvest by blast
  then show ?thesis
    using harvest_cash_flat [OF run] by (simp add: upper_zar del: toUpper_simps)
qed

section \<open>Registering a merchant\<close>

lemma tryCatch_total: "(\<And>e s. \<exists>x u. h e s = (Inr x, u)) \<Longrightarrow> \<exists>x u. tryCatch m h s = (Inr x, u)"
  by (auto simp: tryCatch_def split: prod.splits sum.splits)

text \<open>
  Registering a merchant on chain never throws, whatever the network does: a failed leg is
  reported in its result, and the ledger's balances are untouched.
\<close>

theorem registerMerchant_total:
  "\<exists>tr vr t. registerMerchantOnchain E w cc s = (Inr (tr, vr), t)"
proof -
  obtain x u where "tryCatch (whitelistMerchant E w cc) (\<lambda>e. ret (WlResult False None False (Some (fmsg e)))) s = (Inr x, u)"
    using tryCatch_total [of "\<lambda>e. ret (WlResult False None False (Some (fmsg e)))"] by fastforce
  moreover obtain y v where "tryCatch (setVaultTrusted E w) (\<lambda>e. ret (WlResult False None False (Some (fmsg e)))) u = (Inr y, v)"
    using tryCatch_total [of "\<lambda>e. ret (WlResult False None False (Some (fmsg e)))"] by fastforce
  ultimately show ?thesis by (simp add: registerMerchantOnchain_def)
qed

end
