(* ===== verification/OneShot.thy ===== *)
theory OneShot
  imports Main
begin

text \<open>
  A store whose keys can be consumed once: unique voucher references, login nonces, WebAuthn
  challenges. A request carries a key (\<open>key q\<close>) beside whatever else it asks for, so that two
  requests may share a key and differ in everything else. \<open>attempts\<close> runs a sequence of requests, by
  whichever clients, in the order the store sees them.
\<close>

fun attempts :: "('q \<Rightarrow> 's \<Rightarrow> bool \<times> 's) \<Rightarrow> 'q list \<Rightarrow> 's \<Rightarrow> bool list \<times> 's" where
  "attempts tk [] s = ([], s)"
| "attempts tk (q # qs) s = (let (b, t) = tk q s; (bs, u) = attempts tk qs t in (b # bs, u))"

text \<open>The number of requests with the key \<open>k\<close> that succeeded.\<close>

definition successes :: "('q \<Rightarrow> 'k) \<Rightarrow> 'k \<Rightarrow> 'q list \<Rightarrow> bool list \<Rightarrow> nat" where
  "successes key k qs bs = length (filter (\<lambda>(q, b). key q = k \<and> b) (zip qs bs))"

lemma successes_simps [simp]:
  "successes key k [] bs = 0"
  "successes key k (q # qs) (b # bs) = (if key q = k \<and> b then 1 else 0) + successes key k qs bs"
  by (simp_all add: successes_def)

locale one_shot =
  fixes used :: "'s \<Rightarrow> 'k \<Rightarrow> bool"
    and key :: "'q \<Rightarrow> 'k"
    and tk :: "'q \<Rightarrow> 's \<Rightarrow> bool \<times> 's"
  assumes tk_ok: "tk q s = (True, t) \<Longrightarrow> \<not> used s (key q) \<and> used t (key q)"
    and tk_mono: "tk q s = (b, t) \<Longrightarrow> used s j \<Longrightarrow> used t j"
begin

lemma used_never: "used s k \<Longrightarrow> successes key k qs (fst (attempts tk qs s)) = 0"
proof (induction qs arbitrary: s)
  case (Cons q qs)
  obtain b t where q: "tk q s = (b, t)" by fastforce
  have "used t k" using tk_mono [OF q Cons.prems] .
  moreover have "\<not> (key q = k \<and> b)" using tk_ok [of q s t] q Cons.prems by auto
  ultimately show ?case
    using Cons.IH [of t] q by (auto split: prod.splits)
qed simp

lemma at_most_once: "successes key k qs (fst (attempts tk qs s)) \<le> 1"
proof (induction qs arbitrary: s)
  case (Cons q qs)
  obtain b t where q: "tk q s = (b, t)" by fastforce
  obtain bs u where rest: "attempts tk qs t = (bs, u)" by fastforce
  show ?case
  proof (cases "key q = k \<and> b")
    case True
    then have "used t k" using tk_ok [of q s t] q by auto
    then show ?thesis
      using used_never [of t k qs] True q rest by simp
  next
    case False
    then show ?thesis
      using Cons.IH [of t] q rest by auto
  qed
qed simp

lemma second_fails: "tk q s = (True, t) \<Longrightarrow> key p = key q \<Longrightarrow> fst (tk p t) = False"
  using tk_ok [of q s t] tk_ok [of p t] by (cases "tk p t") auto

end

end
