(* ===== verification/CashIn.thy ===== *)
theory CashIn
  imports TreasuryProps OneShot
begin

text \<open>
  \<open>cashInService.ts\<close>: a simulated fiat deposit. The reference is inserted first under a unique
  constraint, then the treasury token is minted into the Vault and the wallet's claim credited.
\<close>

text \<open>The columns \<open>kind\<close> and \<open>source\<close> of the table, which change vouchers also write to.\<close>

datatype depositKind = VoucherKind | BankDeposit | ChangeVoucherKind
datatype depositSource = ConsumerSource | AdminSource | MerchantSource

record depositRef =
  drReference :: string
  drKind :: depositKind
  drSource :: depositSource
  drWallet :: address
  drAmount :: int
  drCurrency :: string
  drMintTx :: "txHash option"
  drCreditTx :: "txHash option"

record cashInDb = platform +
  depositRefs :: "depositRef list"

record cashInInput =
  ciWallet :: address
  ciAmount :: int
  ciCurrency :: string
  ciReference :: string
  ciKind :: depositKind
  ciSource :: depositSource

text \<open>A violated unique constraint: SQLSTATE 23505.\<close>

definition uniqueViolation :: failure where
  "uniqueViolation = Failure ''duplicate key value violates unique constraint'' None (Some ''23505'')"

definition alreadyUsed :: failure where
  "alreadyUsed = statusErr ''That voucher/reference has already been used'' 409"

text \<open>The row's id is its position in the table.\<close>

definition reserveReference :: "cashInInput \<Rightarrow> ('r cashInDb_scheme, nat) prog" where
  "reserveReference p = tryCatch
    (io (\<lambda>s. if \<exists>r\<in>set (depositRefs s). drReference r = ciReference p then Inl uniqueViolation
       else Inr (length (depositRefs s), s\<lparr>depositRefs := depositRefs s @
         [\<lparr>drReference = ciReference p, drKind = ciKind p, drSource = ciSource p, drWallet = ciWallet p,
           drAmount = ciAmount p, drCurrency = toUpper (ciCurrency p), drMintTx = None, drCreditTx = None\<rparr>]\<rparr>)))
    (\<lambda>e. if fcode e = Some ''23505'' then raise alreadyUsed else raise e)"

definition linkTxs :: "nat \<Rightarrow> txHash \<Rightarrow> txHash \<Rightarrow> ('r cashInDb_scheme, unit) prog" where
  "linkTxs i mintTx creditTx = writeIO (\<lambda>s. s\<lparr>depositRefs := (depositRefs s)[i := (depositRefs s ! i)
     \<lparr>drMintTx := Some mintTx, drCreditTx := Some creditTx\<rparr>]\<rparr>)"

record cashInResult =
  ciMintTx :: txHash
  ciCreditTx :: txHash
  ciAmountUnits :: string

definition mintAndCredit :: "env \<Rightarrow> cashInInput \<Rightarrow> address \<Rightarrow> nat \<Rightarrow> ('r cashInDb_scheme, cashInResult) prog" where
  "mintAndCredit E p va i =
    andThen (mintTreasuryToken E va (ciAmount p) (ciCurrency p)) (\<lambda>mintTx.
    andThen (vaultAdminCredit E (ciWallet p) (ciAmount p) (ciCurrency p)) (\<lambda>creditTx.
    andThen (linkTxs i mintTx creditTx) (\<lambda>_.
    ret \<lparr>ciMintTx = mintTx, ciCreditTx = creditTx, ciAmountUnits = showInt (ciAmount p)\<rparr>)))"

definition cashIn :: "env \<Rightarrow> cashInInput \<Rightarrow> ('r cashInDb_scheme, cashInResult) prog" where
  "cashIn E p =
    andThen (ofOption (vaultAddr E) noVault) (\<lambda>va.
    andThen (reserveReference p) (\<lambda>i.
    mintAndCredit E p va i))"

section \<open>A reference is used once\<close>

definition refUsed :: "'r cashInDb_scheme \<Rightarrow> string \<Rightarrow> bool" where
  "refUsed s k \<longleftrightarrow> (\<exists>r\<in>set (depositRefs s). drReference r = k)"

lemma refUsed_image: "refUsed s k \<longleftrightarrow> k \<in> drReference ` set (depositRefs s)"
  by (auto simp: refUsed_def)

lemma reserve_used:
  assumes "refUsed s (ciReference p)"
  shows "\<exists>e t. cashIn E p s = (Inl e, t) \<and> vault t = vault s \<and> tts t = tts s \<and> depositRefs t = depositRefs s"
    and "net s = [] \<Longrightarrow> vaultAddr E = Some va \<Longrightarrow> cashIn E p s = (Inl alreadyUsed, s)"
proof -
  have used: "\<exists>r\<in>set (depositRefs (s\<lparr>net := ns\<rparr>)). drReference r = ciReference p" for ns
    using assms by (simp add: refUsed_def)
  show "\<exists>e t. cashIn E p s = (Inl e, t) \<and> vault t = vault s \<and> tts t = tts s \<and> depositRefs t = depositRefs s"
    using used by (cases "vaultAddr E")
      (auto simp: cashIn_def andThen_def ofOption_def reserveReference_def tryCatch_def io_def Let_def raise_def
        split: prod.splits net.splits)
  show "net s = [] \<Longrightarrow> vaultAddr E = Some va \<Longrightarrow> cashIn E p s = (Inl alreadyUsed, s)"
    using assms by (simp add: cashIn_def andThen_def reserveReference_def tryCatch_def io_calm refUsed_def
        uniqueViolation_def)
qed

lemma keeps_refs:
  assumes "\<And>s ns. P (s\<lparr>net := ns\<rparr>) = P s"
  shows "net_free P"
  using assms by (simp add: net_free_def)

text \<open>\<open>refUsed\<close> only grows: each later step of a cash-in keeps the references in the table.\<close>

definition refsInclude :: "string set \<Rightarrow> 'r cashInDb_scheme \<Rightarrow> bool" where
  "refsInclude K s \<longleftrightarrow> (\<forall>k\<in>K. refUsed s k)"

lemma refsInclude_cong: "depositRefs t = depositRefs s \<Longrightarrow> refsInclude K t = refsInclude K s"
  by (simp add: refsInclude_def refUsed_def)

lemma refsInclude_net [simp]: "net_free (refsInclude K)"
  by (simp add: net_free_def refsInclude_def refUsed_def)

lemma refs_tx: "(\<And>s t. f s = Inr t \<Longrightarrow> depositRefs t = depositRefs s) \<Longrightarrow> keeps (refsInclude K) (sendTx f)"
  by (rule keeps_sendTx) (auto simp: refsInclude_def refUsed_def)

lemma refs_mint: "keeps (refsInclude K) (mintTreasuryToken E to a fiat)"
  unfolding mintTreasuryToken_def treasuryTokenAddressForFiat_def
  by (intro keeps_intro refs_tx refsInclude_net) (auto simp: onTT_Inr_iff)

lemma refs_credit: "keeps (refsInclude K) (vaultAdminCredit E w a cur)"
  unfolding vaultAdminCredit_def vaultWriter_def
  by (intro keeps_intro refs_tx) (auto simp: onVault_Inr_iff)

lemma refs_link: "keeps (refsInclude K) (linkTxs i a b)"
  unfolding linkTxs_def
proof (rule keeps_writeIO, simp)
  fix s :: "'a cashInDb_scheme"
  let ?rs = "(depositRefs s)[i := (depositRefs s ! i)\<lparr>drMintTx := Some a, drCreditTx := Some b\<rparr>]"
  assume s: "refsInclude K s"
  have "map drReference ?rs = map drReference (depositRefs s)"
    by (cases "i < length (depositRefs s)")
      (auto intro!: nth_equalityI simp: nth_list_update list_update_beyond)
  then have "drReference ` set ?rs = drReference ` set (depositRefs s)"
    by (metis list.set_map)
  then have "refUsed (s\<lparr>depositRefs := ?rs\<rparr>) k = refUsed s k" for k
    by (simp add: refUsed_image)
  then show "refsInclude K (s\<lparr>depositRefs := ?rs\<rparr>)"
    using s by (simp add: refsInclude_def)
qed

lemma refs_reserve: "keeps (refsInclude K) (reserveReference p)"
  unfolding reserveReference_def
  by (intro keeps_intro keeps_io refsInclude_net) (auto simp: refsInclude_def refUsed_def split: if_splits)

lemma refs_tail: "keeps (refsInclude K) (mintAndCredit E p va i)"
  unfolding mintAndCredit_def by (intro keeps_intro refs_mint refs_credit refs_link)

lemma refs_cashIn: "keeps (refsInclude K) (cashIn E p)"
  unfolding cashIn_def by (intro keeps_intro refs_reserve refs_tail)

lemma cashIn_marks:
  assumes "cashIn E p s = (Inr r, t)"
  shows "\<not> refUsed s (ciReference p)" and "refUsed t (ciReference p)"
proof -
  show "\<not> refUsed s (ciReference p)"
    using reserve_used(1) [of s p E] assms by auto
  obtain va i a where i: "reserveReference p s = (Inr i, a)" and k: "mintAndCredit E p va i a = (Inr r, t)"
    using assms unfolding cashIn_def by (elim andThen_InrE) auto
  have "refsInclude {ciReference p} a"
    using i by (auto simp: reserveReference_def tryCatch_def io_def Let_def refsInclude_def refUsed_def raise_def
        split: prod.splits net.splits if_splits)
  moreover note keepsD [OF refs_tail]
  ultimately have "refsInclude {ciReference p} t"
    using k by (metis snd_conv)
  then show "refUsed t (ciReference p)" by (simp add: refsInclude_def)
qed

text \<open>\<open>depositAttempt\<close>: a cash-in, of any wallet, amount, currency and kind, as an attempt to use its reference.\<close>

definition depositAttempt :: "env \<Rightarrow> cashInInput \<Rightarrow> cashInDb \<Rightarrow> bool \<times> cashInDb" where
  "depositAttempt E p s = (case cashIn E p s of (Inl e, t) \<Rightarrow> (False, t) | (Inr r, t) \<Rightarrow> (True, t))"

interpretation deposits: one_shot refUsed ciReference "depositAttempt E"
proof unfold_locales
  show "depositAttempt E p s = (True, t) \<Longrightarrow> \<not> refUsed s (ciReference p) \<and> refUsed t (ciReference p)" for p s t
    using cashIn_marks [of E p s _ t]
    by (auto simp: depositAttempt_def split: prod.splits sum.splits)
  show "depositAttempt E p s = (b, t) \<Longrightarrow> refUsed s j \<Longrightarrow> refUsed t j" for p s b t j
    using keepsD [OF refs_cashIn [of "{j}" E p], of s]
    by (auto simp: depositAttempt_def refsInclude_def split: prod.splits sum.splits)
qed

text \<open>
  C6. Whatever sequence of cash-ins is submitted, by whomever, for whatever wallets, amounts,
  currencies and kinds, with whatever network faults, at most one of those that name a given voucher
  or deposit reference succeeds.
\<close>

theorem reference_used_at_most_once:
  "successes ciReference ref ps (fst (attempts (depositAttempt E) ps s)) \<le> 1"
  by (rule deposits.at_most_once)

section \<open>What a cash-in does\<close>

lemma corridorToken_cong:
  "stablecoins t = stablecoins s \<Longrightarrow> currencies t = currencies s \<Longrightarrow> corridorToken E fiat t = corridorToken E fiat s"
  by (simp add: corridorToken_def treasuryTokenAddressForFiat_def)

lemma mintAndCredit_InrD:
  assumes "mintAndCredit E p va i s = (Inr r, t)"
  obtains token t0 t1 a where "corridorToken E (ciCurrency p) s = Some token" and "tts s token = Some t0"
    and "ttMint (oz E) a va (nat (ciAmount p)) t0 = Inr t1"
    and "tts t = (tts s)(token := Some t1)" and "erc t = erc s" and "0 < ciAmount p"
    and "creditAssets (ciWallet p) (currencyHash E (ciCurrency p)) (nat (ciAmount p)) (vault s) = Inr (vault t)"
proof -
  obtain h1 s1 h2 s2 where m: "mintTreasuryToken E va (ciAmount p) (ciCurrency p) s = (Inr h1, s1)"
    and c: "vaultAdminCredit E (ciWallet p) (ciAmount p) (ciCurrency p) s1 = (Inr h2, s2)"
    and l: "linkTxs i h1 h2 s2 = (Inr (), t)"
    using assms unfolding mintAndCredit_def by (elim andThen_InrE) auto
  obtain token t0 t1 a where tok: "corridorToken E (ciCurrency p) s = Some token" "tts s token = Some t0"
      "ttMint (oz E) a va (nat (ciAmount p)) t0 = Inr t1"
    and s1: "tts s1 = (tts s)(token := Some t1)" "vault s1 = vault s" "erc s1 = erc s"
    using mintTreasuryToken_InrD [OF m] by blast
  obtain v where v: "creditAssets (ciWallet p) (currencyHash E (ciCurrency p)) (nat (ciAmount p)) (vault s1) = Inr v"
    and s2: "vault s2 = v" "tts s2 = tts s1" "erc s2 = erc s1" and pos: "0 < ciAmount p"
    using vaultAdminCredit_InrD [OF c] by auto
  have "vault t = vault s2 \<and> tts t = tts s2 \<and> erc t = erc s2"
    using l unfolding linkTxs_def by (auto dest!: writeIO_InrD)
  then show thesis
    using that [OF tok] s1 s2 v pos by simp
qed

lemma reserveReference_frame:
  "reserveReference p s = (Inr i, t) \<Longrightarrow> vault t = vault s \<and> tts t = tts s \<and> erc t = erc s
    \<and> corridorToken E fiat t = corridorToken E fiat s"
  by (auto simp: reserveReference_def tryCatch_def io_def Let_def raise_def intro!: corridorToken_cong
      split: prod.splits net.splits if_splits)

text \<open>
  C7. A successful cash-in, on any network, in a currency at parity (a share is worth one unit, as
  the spend-cash currencies are), mints exactly the deposited amount of the treasury token of that
  currency's corridor to the Vault and raises the wallet's claim in that currency by exactly the
  amount. No holder's balance of any other token, no other holder's balance of that token, and no
  other claim of any account in any currency changes.
\<close>

theorem cashIn_exact:
  assumes "cashIn E p s = (Inr r, t)" and "cashSound (vault s) (currencyHash E (ciCurrency p))"
    and "ozLaw (oz E)" and "\<forall>a tok. tts s a = Some tok \<longrightarrow> frozenHeld tok"
  shows "0 < ciAmount p
    \<and> (\<exists>token va. vaultAddr E = Some va \<and> corridorToken E (ciCurrency p) s = Some token
        \<and> (\<forall>a u. tokenBalance t a u = tokenBalance s a u + (if a = token \<and> u = va then nat (ciAmount p) else 0)))
    \<and> (\<forall>w d. balanceOf (vault t) w d = balanceOf (vault s) w d
         + (if w = ciWallet p \<and> d = currencyHash E (ciCurrency p) then nat (ciAmount p) else 0))"
proof -
  obtain va i a where va: "vaultAddr E = Some va" and i: "reserveReference p s = (Inr i, a)"
    and k: "mintAndCredit E p va i a = (Inr r, t)"
    using assms(1) unfolding cashIn_def by (elim andThen_InrE) auto
  have fr: "vault a = vault s" "tts a = tts s" "erc a = erc s"
    "corridorToken E (ciCurrency p) a = corridorToken E (ciCurrency p) s"
    using reserveReference_frame [OF i] by blast+
  obtain token t0 t1 sg where tok: "corridorToken E (ciCurrency p) a = Some token" "tts a token = Some t0"
      "ttMint (oz E) sg va (nat (ciAmount p)) t0 = Inr t1"
    and t: "tts t = (tts a)(token := Some t1)" "erc t = erc a" and pos: "0 < ciAmount p"
    and cr: "creditAssets (ciWallet p) (currencyHash E (ciCurrency p)) (nat (ciAmount p)) (vault a) = Inr (vault t)"
    using k by (rule mintAndCredit_InrD)
  have "bal t1 = (bal t0)(va := bal t0 va + nat (ciAmount p))"
    using ttMint_InrD(1) [OF tok(3) assms(3)] assms(4) tok(2) fr by simp
  then have "tokenBalance t x u = tokenBalance s x u + (if x = token \<and> u = va then nat (ciAmount p) else 0)" for x u
    using t tok(2) fr by (simp add: tokenBalance_def split: option.split)
  moreover note credit_exact [OF cr, unfolded fr(1), OF assms(2)]
  ultimately show ?thesis using pos va tok(1) fr by auto
qed

definition demoCashDb :: cashInDb where
  "demoCashDb = platform.extend demoPlatform (cashInDb.fields [])"

definition demoDeposit :: cashInInput where
  "demoDeposit = \<lparr>ciWallet = 11, ciAmount = 2500, ciCurrency = ''ZAR'', ciReference = ''V-1'', ciKind = VoucherKind, ciSource = ConsumerSource\<rparr>"

lemma demoCash_sel [simp]:
  "net demoCashDb = []" "vault demoCashDb = demoVault" "txCount demoCashDb = 0"
  "tts demoCashDb = (\<lambda>t. if t = 3 then Some demoToken else None)" "depositRefs demoCashDb = []"
  "stablecoins demoCashDb = stablecoins demoPlatform" "currencies demoCashDb = currencies demoPlatform"
  by (simp_all add: demoCashDb_def platform.defs cashInDb.defs demoPlatform_def)

lemma demo_tokenForFiat:
  "stablecoins s = stablecoins demoPlatform \<Longrightarrow> currencies s = currencies demoPlatform \<Longrightarrow> net s = [] \<Longrightarrow>
    treasuryTokenAddressForFiat demoEnv ''ZAR'' s = (Inr (Some 3), s)"
  by (simp add: treasuryTokenAddressForFiat_def demoPlatform_def deployedTreasury_def upperChar_def)

lemma demo_mint:
  "\<exists>t. ttMint ozExample 2 1 n demoToken = Inr t" if "n \<noteq> 0"
  using that by (simp add: ttMint_def tokenUpdate_def updateGates_def updateFrozen_def ozExample_def demoToken_def)

lemma demo_cashIn: "\<exists>r t. cashIn demoEnv demoDeposit demoCashDb = (Inr r, t)"
proof -
  obtain tk where tk: "ttMint ozExample 2 1 2500 demoToken = Inr tk" using demo_mint [of 2500] by auto
  obtain v where v: "adminCredit 2 11 2500 (currencyHash demoEnv ''ZAR'') demoVault = Inr v"
    by (simp add: adminCredit_def creditAssets_def convertToShares_def demoVault_def demoShares_def mul256_def
        add256_def uintLimit_def)
  show ?thesis
    using tk v
    by (simp add: cashIn_def reserveReference_def mintAndCredit_def mintTreasuryToken_def demo_tokenForFiat
        vaultAdminCredit_def vaultWriter_def sendTx_calm onVault_def onTT_def io_calm linkTxs_def demoDeposit_def
        del: currencyHash_demo)
qed

lemma cashIn_exact_witness:
  "\<exists>r t. cashIn demoEnv demoDeposit demoCashDb = (Inr r, t)
    \<and> balanceOf (vault t) 11 (currencyHash demoEnv ''ZAR'') = 2500"
proof -
  obtain r t where run: "cashIn demoEnv demoDeposit demoCashDb = (Inr r, t)" using demo_cashIn by blast
  have b: "balanceOf demoVault 11 (currencyHash demoEnv ''ZAR'') = 0"
    by (simp add: balanceOf_def assetsOf_def demoVault_def demoShares_def)
  show ?thesis
    using cashIn_exact [OF run] run b by (simp add: ozLaw_example demoDeposit_def del: currencyHash_demo)
qed

text \<open>
  The reference is reserved before the mint and is not released when a later step fails: a
  network failure of the mint leaves the wallet uncredited, and every later attempt with the same
  voucher is refused as already used.
\<close>

theorem failed_cashIn_burns_reference:
  "\<exists>e t. cashIn demoEnv demoDeposit (demoCashDb\<lparr>net := [Delivered, Delivered, Lost]\<rparr>) = (Inl e, t)
    \<and> vault t = demoVault \<and> tts t = tts demoCashDb
    \<and> cashIn demoEnv demoDeposit t = (Inl alreadyUsed, t)"
proof -
  let ?row = "\<lparr>drReference = ''V-1'', drKind = VoucherKind, drSource = ConsumerSource, drWallet = 11,
           drAmount = 2500, drCurrency = ''ZAR'', drMintTx = None, drCreditTx = None\<rparr>"
  have "cashIn demoEnv demoDeposit (demoCashDb\<lparr>net := [Delivered, Delivered, Lost]\<rparr>)
      = (Inl networkErr, demoCashDb\<lparr>net := [], depositRefs := [?row]\<rparr>)"
    by (simp add: cashIn_def reserveReference_def tryCatch_def andThen_def io_def nextNet_def Let_def mintAndCredit_def
        mintTreasuryToken_def treasuryTokenAddressForFiat_def readIO_def sendTx_def demoDeposit_def uintArg_def
        demoPlatform_def deployedTreasury_def upperChar_def)
  moreover have "cashIn demoEnv demoDeposit (demoCashDb\<lparr>net := [], depositRefs := [?row]\<rparr>)
      = (Inl alreadyUsed, demoCashDb\<lparr>net := [], depositRefs := [?row]\<rparr>)"
    by (rule reserve_used(2)) (simp_all add: refUsed_def demoDeposit_def)
  ultimately show ?thesis by simp
qed

end
