(* ===== verification/Revenue.thy ===== *)
theory Revenue
  imports Platform
begin

text \<open>
  \<open>revenueConfig.ts\<close>: the platform's fee rates with their 30 second cache, and the two fee
  splits, on doubles for settlements and on integer token units for withdrawals.
\<close>

definition revenueDefaults :: revenueConfig where
  "revenueDefaults = \<lparr>fxSpreadBps = 150, settlementFeeBps = 150, withdrawalFeeBps = 150\<rparr>"

definition ttlMs :: int where
  "ttlMs = 30000"

definition parseBps :: "string option \<Rightarrow> int \<Rightarrow> int" where
  "parseBps raw fallback =
    (case parseIntOf (orElse raw []) of Some n \<Rightarrow> if 0 \<le> n then n else fallback | None \<Rightarrow> fallback)"

text \<open>
  \<open>key\<close> is the primary key of \<open>app_config\<close>, so the object built from the rows is the look-up
  of the key in the table.
\<close>

definition revenueOfRows :: "(string \<times> string) list \<Rightarrow> revenueConfig" where
  "revenueOfRows rows =
    \<lparr>fxSpreadBps = parseBps (map_of rows ''revenue.fx_spread_bps'') (fxSpreadBps revenueDefaults),
     settlementFeeBps = parseBps (map_of rows ''revenue.settlement_fee_bps'') (settlementFeeBps revenueDefaults),
     withdrawalFeeBps = parseBps (map_of rows ''revenue.withdrawal_fee_bps'') (withdrawalFeeBps revenueDefaults)\<rparr>"

definition getRevenueConfig :: "('r platform_scheme, revenueConfig) prog" where
  "getRevenueConfig =
    andThen (gets revenueCache) (\<lambda>cache.
    andThen (gets clock) (\<lambda>now.
    case cache of
      Some (cfg, expiresAt) \<Rightarrow> if now < expiresAt then ret cfg else
        tryCatch (andThen (readIO appConfig) (\<lambda>rows.
          let cfg = revenueOfRows rows in
          andThen (modify (revenueCache_update (\<lambda>_. Some (cfg, now + ttlMs)))) (\<lambda>_. ret cfg)))
          (\<lambda>_. ret revenueDefaults)
    | None \<Rightarrow>
        tryCatch (andThen (readIO appConfig) (\<lambda>rows.
          let cfg = revenueOfRows rows in
          andThen (modify (revenueCache_update (\<lambda>_. Some (cfg, now + ttlMs)))) (\<lambda>_. ret cfg)))
          (\<lambda>_. ret revenueDefaults)))"

definition invalidateRevenueConfigCache :: "('r platform_scheme, unit) prog" where
  "invalidateRevenueConfigCache = modify (revenueCache_update (\<lambda>_. None))"

text \<open>\<open>calcSettlementFee\<close>: the pair of the fee and the net amount, both doubles.\<close>

definition calcSettlementFee :: "rat \<Rightarrow> int \<Rightarrow> rat \<times> rat" where
  "calcSettlementFee gross feeBps =
    (let fee = jsDiv (of_int (jsRound (jsMul gross (of_int feeBps)))) 10000 in
     (jsDiv (of_int (jsRound (jsMul fee 100))) 100,
      jsDiv (of_int (jsRound (jsMul (jsSub gross fee) 100))) 100))"

definition calcWithdrawalFeeUnits :: "int \<Rightarrow> int \<Rightarrow> failure + int \<times> int" where
  "calcWithdrawalFeeUnits grossUnits feeBps =
    (if feeBps \<le> 0 then Inr (0, grossUnits)
     else let feeUnits = bigDiv (grossUnits * feeBps + 9999) 10000 in
       if grossUnits \<le> feeUnits then Inl (plainErr ''Withdrawal fee would consume the entire amount'')
       else Inr (feeUnits, grossUnits - feeUnits))"

section \<open>The cached rates\<close>

lemma parseBps_nonneg: "0 \<le> fallback \<Longrightarrow> 0 \<le> parseBps raw fallback"
  by (simp add: parseBps_def split: option.split)

definition bpsOk :: "revenueConfig \<Rightarrow> bool" where
  "bpsOk c \<longleftrightarrow> 0 \<le> fxSpreadBps c \<and> 0 \<le> settlementFeeBps c \<and> 0 \<le> withdrawalFeeBps c"

definition cacheOk :: "'r platform_scheme \<Rightarrow> bool" where
  "cacheOk s \<longleftrightarrow> (case revenueCache s of None \<Rightarrow> True | Some (c, _) \<Rightarrow> bpsOk c)"

lemma bpsOk_rows [simp]: "bpsOk (revenueOfRows rows)" "bpsOk revenueDefaults"
  by (simp_all add: bpsOk_def revenueOfRows_def revenueDefaults_def parseBps_nonneg)

lemma cacheOk_update [simp]: "cacheOk (s\<lparr>revenueCache := Some (c, e)\<rparr>) = bpsOk c" "cacheOk (s\<lparr>net := ns\<rparr>) = cacheOk s"
  by (simp_all add: cacheOk_def)

text \<open>What a read of the rates does to the state: at most the oracle advances and the cache is renewed.\<close>

lemma getRevenueConfig_cases:
  obtains cfg rest where "getRevenueConfig s = (Inr cfg, s\<lparr>net := rest\<rparr>)"
      and "cfg = revenueDefaults \<or> (\<exists>e. revenueCache s = Some (cfg, e) \<and> clock s < e)"
  | rest where "getRevenueConfig s
      = (Inr (revenueOfRows (appConfig s)),
         s\<lparr>net := rest, revenueCache := Some (revenueOfRows (appConfig s), clock s + ttlMs)\<rparr>)"
proof -
  have fresh: "\<exists>rest. tryCatch (andThen (readIO appConfig) (\<lambda>rows.
          let cfg = revenueOfRows rows in
          andThen (modify (revenueCache_update (\<lambda>_. Some (cfg, clock s + ttlMs)))) (\<lambda>_. ret cfg)))
          (\<lambda>_. ret revenueDefaults) s \<in> {(Inr revenueDefaults, s\<lparr>net := rest\<rparr>),
          (Inr (revenueOfRows (appConfig s)),
         s\<lparr>net := rest, revenueCache := Some (revenueOfRows (appConfig s), clock s + ttlMs)\<rparr>)}"
    by (auto simp: tryCatch_def andThen_def readIO_def io_def Let_def modify_def ret_def split: prod.splits net.splits)
  show thesis
  proof (cases "revenueCache s")
    case None
    then have "getRevenueConfig s = tryCatch (andThen (readIO appConfig) (\<lambda>rows.
          let cfg = revenueOfRows rows in
          andThen (modify (revenueCache_update (\<lambda>_. Some (cfg, clock s + ttlMs)))) (\<lambda>_. ret cfg)))
          (\<lambda>_. ret revenueDefaults) s"
      by (simp add: getRevenueConfig_def)
    then show thesis using fresh that by auto
  next
    case (Some p)
    obtain c e where p: "p = (c, e)" by (cases p)
    show thesis
    proof (cases "clock s < e")
      case True
      have "getRevenueConfig s = (Inr c, s\<lparr>net := net s\<rparr>)"
        using Some p True by (simp add: getRevenueConfig_def)
      then show thesis using that(1) Some p True by blast
    next
      case False
      then have "getRevenueConfig s = tryCatch (andThen (readIO appConfig) (\<lambda>rows.
          let cfg = revenueOfRows rows in
          andThen (modify (revenueCache_update (\<lambda>_. Some (cfg, clock s + ttlMs)))) (\<lambda>_. ret cfg)))
          (\<lambda>_. ret revenueDefaults) s"
        using Some p by (simp add: getRevenueConfig_def)
      then show thesis using fresh that by auto
    qed
  qed
qed

lemma getRevenueConfig_ok:
  assumes "cacheOk s"
  shows "\<exists>cfg t. getRevenueConfig s = (Inr cfg, t) \<and> bpsOk cfg \<and> cacheOk t"
  by (rule getRevenueConfig_cases [of s]) (use assms in \<open>auto simp: cacheOk_def\<close>)

section \<open>The withdrawal fee\<close>

lemma withdrawalFee_InrD:
  assumes "calcWithdrawalFeeUnits g b = Inr (f, n)" and "0 < b" and "0 \<le> g"
  shows "f + n = g" and "0 < n" and "0 \<le> f" and "f = (g * b + 9999) div 10000"
    and "g * b \<le> f * 10000" and "f * 10000 < g * b + 10000"
proof -
  have nn: "0 \<le> g * b" using assms(2,3) by simp
  then have f: "f = (g * b + 9999) div 10000" and lt: "f < g" and n: "n = g - f"
    using assms by (auto simp: calcWithdrawalFeeUnits_def Let_def split: if_splits)
  show "f = (g * b + 9999) div 10000" by (rule f)
  show "f + n = g" "0 < n" using lt n by auto
  show "0 \<le> f" "g * b \<le> f * 10000" "f * 10000 < g * b + 10000"
    using nn unfolding f by linarith+
qed

lemma withdrawalFee_ok:
  assumes "0 < b" and "0 \<le> g" and "(g * b + 9999) div 10000 < g"
  shows "calcWithdrawalFeeUnits g b = Inr ((g * b + 9999) div 10000, g - (g * b + 9999) div 10000)"
  using assms by (simp add: calcWithdrawalFeeUnits_def Let_def)

section \<open>The settlement fee\<close>

lemma jsRound_error: "\<bar>of_int (jsRound x) - x\<bar> \<le> 1/2"
proof -
  have "of_int \<lfloor>x + 1/2\<rfloor> \<le> x + 1/2" "x + 1/2 < of_int \<lfloor>x + 1/2\<rfloor> + 1" by linarith+
  then show ?thesis unfolding jsRound_def by linarith
qed

lemma jsRound_nonneg: "0 \<le> x \<Longrightarrow> 0 \<le> jsRound x"
  by (simp add: jsRound_def)

text \<open>
  Half-up rounding in cents: what is left of a value after \<open>Math.round(x * 100) / 100\<close>, for values
  below \<open>2 ^ 34\<close>.
\<close>

lemma cents_error:
  assumes "\<bar>x\<bar> < 2 ^ 34"
  shows "\<bar>jsDiv (of_int (jsRound (jsMul x 100))) 100 - x\<bar> \<le> 1/200 + 1/10000"
proof -
  let ?m = "jsMul x 100" and ?r = "of_int (jsRound (jsMul x 100)) :: rat"
  have m: "\<bar>?m - x * 100\<bar> \<le> pow2 (-13)"
    using fl_error_below [of "x * 100" 41] assms by (simp add: jsMul_def abs_mult)
  have r: "\<bar>?r - ?m\<bar> \<le> 1/2" by (rule jsRound_error)
  have p: "pow2 (-13) = 1/8192" "pow2 (-19) = 1/524288" by (simp_all add: pow2_def)
  have q: "\<bar>?r / 100 - x\<bar> \<le> 1/200 + 1/819200"
    using m r unfolding p by linarith
  have pw: "(2::rat) ^ 34 = 17179869184" "(2::rat) ^ 35 = 34359738368" by simp_all
  have "\<bar>?r / 100\<bar> < 2 ^ 35"
    using assms q unfolding pw by linarith
  then have "\<bar>jsDiv ?r 100 - ?r / 100\<bar> \<le> pow2 (-19)"
    using fl_error_below [of "?r / 100" 35] by (simp add: jsDiv_def)
  then show ?thesis
    using q unfolding p by linarith
qed

lemma settlementFee_sum:
  assumes "0 \<le> g" and "g < 2 ^ 33" and "0 \<le> b" and "b \<le> 10000"
    and "calcSettlementFee g b = (f, n)"
  shows "\<bar>f + n - g\<bar> \<le> 103/10000"
proof -
  let ?k = "of_int (jsRound (jsMul g (of_int b))) :: rat"
  define fee where "fee = jsDiv ?k 10000"
  have b: "0 \<le> (of_int b :: rat)" "(of_int b :: rat) \<le> 10000" using assms(3,4) by simp_all
  have gb: "0 \<le> g * of_int b" "g * of_int b \<le> g * 10000"
    using assms(1) b by (simp_all add: mult_left_mono)
  have k0: "0 \<le> ?k"
    using gb(1) by (simp add: jsMul_def fl_nonneg jsRound_nonneg)
  have "\<bar>jsMul g (of_int b) - g * of_int b\<bar> \<le> pow2 (-7)"
    using fl_error_below [of "g * of_int b" 47] gb assms(2) by (simp add: jsMul_def)
  moreover have "\<bar>?k - jsMul g (of_int b)\<bar> \<le> 1/2" by (rule jsRound_error)
  moreover have "pow2 (-7) = 1/128" by (simp add: pow2_def)
  ultimately have kle: "?k \<le> g * 10000 + 1" using gb by linarith
  have kb: "?k / 10000 < 2 ^ 33 + 1" using kle assms(2) by simp
  have "\<bar>fee - ?k / 10000\<bar> \<le> pow2 (-20)"
    using fl_error_below [of "?k / 10000" 34] k0 kb by (simp add: fee_def jsDiv_def)
  moreover have p20: "pow2 (-20) = 1/1048576" by (simp add: pow2_def)
  ultimately have "fee \<le> ?k / 10000 + 1/1048576" by linarith
  then have fb: "0 \<le> fee" "fee < 2 ^ 33 + 2"
    using k0 kb by (simp_all add: fee_def jsDiv_def fl_nonneg)
  have d: "\<bar>jsSub g fee - (g - fee)\<bar> \<le> pow2 (-20)"
    using fl_error_below [of "g - fee" 34] assms(1,2) fb by (simp add: jsSub_def)
  have fn: "f = jsDiv (of_int (jsRound (jsMul fee 100))) 100"
    "n = jsDiv (of_int (jsRound (jsMul (jsSub g fee) 100))) 100"
    using assms(5) by (auto simp: calcSettlementFee_def fee_def Let_def)
  have "\<bar>f - fee\<bar> \<le> 1/200 + 1/10000"
    unfolding fn using fb by (intro cents_error) simp
  moreover have "\<bar>n - jsSub g fee\<bar> \<le> 1/200 + 1/10000"
    unfolding fn
  proof (rule cents_error)
    have "\<bar>jsSub g fee\<bar> \<le> \<bar>g - fee\<bar> + 1"
      using d p20 by linarith
    then have "\<bar>jsSub g fee\<bar> < 2 ^ 33 + 3"
      using assms(1,2) fb by linarith
    then show "\<bar>jsSub g fee\<bar> < 2 ^ 34" by simp
  qed
  ultimately show ?thesis
    using d unfolding p20 by linarith
qed

end
