(* ===== verification/Fx.thy ===== *)
theory Fx
  imports Platform
begin

text \<open>
  \<open>fxService.ts\<close>: the rate of a currency pair, by precedence an administrator's override, a cached
  live rate, a fresh live rate (which is cached), or \<open>unavailable\<close>. The two HTTP feeds are part of
  the state (\<open>zimFeed\<close>, \<open>majorsFeed\<close>): what the provider would answer now.
\<close>

record fxQuote =
  fxqFrom :: string
  fxqTo :: string
  fxqRate :: "rat option"
  fxqSource :: fxSource
  fxqAsOf :: "int option"

definition toProviderCode :: "string \<Rightarrow> string" where
  "toProviderCode code = (if code = ''ZIG'' then ''ZWG'' else code)"

definition cacheKey :: "string \<Rightarrow> string \<Rightarrow> string" where
  "cacheKey from to = from @ ''/'' @ to"

definition getOverride :: "string \<Rightarrow> string \<Rightarrow> ('r platform_scheme, rat option) prog" where
  "getOverride from to =
    andThen (readIO (\<lambda>s. map_of (fxOverrides s) (from, to))) (\<lambda>r. ret (map_option fl r))"

definition numField :: "jsonVal \<Rightarrow> rat option" where
  "numField v = (case v of JNum r \<Rightarrow> Some (fl r) | _ \<Rightarrow> None)"

definition fetchZimrate :: "env \<Rightarrow> string \<Rightarrow> string \<Rightarrow> ('r platform_scheme, rat option) prog" where
  "fetchZimrate E from to =
    (if \<not> fxApiKey E then ret None
     else let pair = toProviderCode from @ ''/'' @ toProviderCode to in
       andThen (readIO (\<lambda>s. zimFeed s pair)) (\<lambda>res.
       case res of ZimError st \<Rightarrow> raise (plainErr (''ZimRate '' @ showNat st))
       | ZimBody rate dataRate \<Rightarrow> ret (numField (if rate = JNull then dataRate else rate))))"

definition fetchMajors :: "string \<Rightarrow> string \<Rightarrow> ('r platform_scheme, rat option) prog" where
  "fetchMajors from to =
    andThen (readIO (\<lambda>s. majorsFeed s (toProviderCode from))) (\<lambda>res.
    case res of MajorsError st \<Rightarrow> raise (plainErr (''majors '' @ showNat st))
    | MajorsBody rates \<Rightarrow> ret (numField (rates (toProviderCode to))))"

definition zimCodes :: "string list" where
  "zimCodes = [''ZIG'', ''ZWG'']"

definition fetchLive :: "env \<Rightarrow> string \<Rightarrow> string \<Rightarrow> ('r platform_scheme, (rat \<times> fxSource) option) prog" where
  "fetchLive E from to =
    (let useZimrate = from \<in> set zimCodes \<or> to \<in> set zimCodes in
     andThen (if useZimrate then fetchZimrate E from to else fetchMajors from to) (\<lambda>rate.
     ret (map_option (\<lambda>r. (r, if useZimrate then FxZimrate else FxMajors)) rate)))"

definition fetchAndCache :: "env \<Rightarrow> string \<Rightarrow> string \<Rightarrow> int \<Rightarrow> ('r platform_scheme, fxQuote option) prog" where
  "fetchAndCache E from to nowMs =
    tryCatch (andThen (fetchLive E from to) (\<lambda>live. case live of
        Some (r, src) \<Rightarrow>
          andThen (modify (\<lambda>s. s\<lparr>fxCache := (fxCache s)(cacheKey from to :=
             Some \<lparr>fxeRate = r, fxeSource = src, fxeExpires = nowMs + fxCacheTtl E, fxeAsOf = nowMs\<rparr>)\<rparr>)) (\<lambda>_.
          ret (Some \<lparr>fxqFrom = from, fxqTo = to, fxqRate = Some r, fxqSource = src, fxqAsOf = Some nowMs\<rparr>))
      | None \<Rightarrow> ret None))
     (\<lambda>_. ret None)"

definition getRate :: "env \<Rightarrow> string \<Rightarrow> string \<Rightarrow> ('r platform_scheme, fxQuote) prog" where
  "getRate E fromRaw toRaw =
    (let from = toUpper fromRaw; to = toUpper toRaw in
     if from = to then ret \<lparr>fxqFrom = from, fxqTo = to, fxqRate = Some 1, fxqSource = FxOverride, fxqAsOf = None\<rparr>
     else andThen (getOverride from to) (\<lambda>override. case override of
       Some r \<Rightarrow> ret \<lparr>fxqFrom = from, fxqTo = to, fxqRate = Some r, fxqSource = FxOverride, fxqAsOf = None\<rparr>
     | None \<Rightarrow>
       andThen (gets (\<lambda>s. fxCache s (cacheKey from to))) (\<lambda>cached.
       andThen (gets clock) (\<lambda>nowMs.
       let fresh = andThen (fetchAndCache E from to nowMs) (\<lambda>q. ret (orElse q
             \<lparr>fxqFrom = from, fxqTo = to, fxqRate = None, fxqSource = FxUnavailable, fxqAsOf = None\<rparr>)) in
       case cached of
         Some c \<Rightarrow> if nowMs < fxeExpires c
           then ret \<lparr>fxqFrom = from, fxqTo = to, fxqRate = Some (fxeRate c), fxqSource = fxeSource c, fxqAsOf = Some (fxeAsOf c)\<rparr>
           else fresh
       | None \<Rightarrow> fresh))))"

section \<open>What a look-up changes, and the precedence\<close>

text \<open>
  A look-up changes nothing of the state but the oracle and the cache, whatever it returns or
  throws: \<open>fxFrame s t\<close>.
\<close>

definition fxFrame :: "'r platform_scheme \<Rightarrow> 'r platform_scheme \<Rightarrow> bool" where
  "fxFrame s t \<longleftrightarrow> (\<exists>rest cache. t = s\<lparr>net := rest, fxCache := cache\<rparr>)"

lemma fxFrame_refl [simp]: "fxFrame s s"
  unfolding fxFrame_def by (rule exI [of _ "net s"], rule exI [of _ "fxCache s"]) simp

lemma fxFrame_trans: "fxFrame s t \<Longrightarrow> fxFrame t u \<Longrightarrow> fxFrame s u"
  unfolding fxFrame_def by (elim exE, simp) blast

lemma fxFrame_net: "fxFrame s (s\<lparr>net := ns\<rparr>)"
  unfolding fxFrame_def by (rule exI [of _ ns], rule exI [of _ "fxCache s"]) simp

lemma fxFrame_sel:
  assumes "fxFrame s t"
  shows "vault t = vault s" "tts t = tts s" "erc t = erc s" "txCount t = txCount s" "clock t = clock s"
    "revenueCache t = revenueCache s" "appConfig t = appConfig s" "countries t = countries s"
    "currencies t = currencies s" "stablecoins t = stablecoins s" "consumers t = consumers s"
    "merchants t = merchants s" "spendEvents t = spendEvents s" "kycLevels t = kycLevels s"
    "fxOverrides t = fxOverrides s" "platform.more t = platform.more s"
    "isRegistered t = isRegistered s" "countryCodeOf t = countryCodeOf s"
  using assms by (auto simp: fxFrame_def)

text \<open>\<open>keepsFrame\<close>: the invariant form, for composition through the combinators.\<close>

lemma keeps_frame_read: "keeps (fxFrame s0) (readIO f)"
  by (rule keepsI) (auto simp: readIO_def io_def Let_def split: prod.split net.split
      intro: fxFrame_trans [OF _ fxFrame_net])

lemma keeps_frame_cache:
  "keeps (fxFrame s0) (modify (\<lambda>s. s\<lparr>fxCache := (fxCache s)(k := v)\<rparr>))"
  by (rule keeps_modify) (auto simp: fxFrame_def, blast)

lemmas frame_rules = keeps_intro keeps_frame_read keeps_frame_cache

lemma getOverride_frame: "keeps (fxFrame s0) (getOverride from to)"
  unfolding getOverride_def by (intro frame_rules)

lemma fetchZimrate_frame: "keeps (fxFrame s0) (fetchZimrate E from to)"
  unfolding fetchZimrate_def Let_def
  by (intro frame_rules) (simp add: keeps_ret keeps_raise split: zimReply.split)

lemma fetchMajors_frame: "keeps (fxFrame s0) (fetchMajors from to)"
  unfolding fetchMajors_def
  by (intro frame_rules) (simp add: keeps_ret keeps_raise split: majorsReply.split)

lemma fetchLive_frame: "keeps (fxFrame s0) (fetchLive E from to)"
  unfolding fetchLive_def Let_def
  by (intro frame_rules fetchZimrate_frame fetchMajors_frame)

lemma fetchAndCache_frame: "keeps (fxFrame s0) (fetchAndCache E from to n)"
  unfolding fetchAndCache_def
  by (intro frame_rules fetchLive_frame)

lemma getRate_frame: "keeps (fxFrame s0) (getRate E from to)"
  unfolding getRate_def Let_def
  by (intro frame_rules getOverride_frame fetchAndCache_frame)

lemma getRate_InrD: "getRate E from to s = (r, t) \<Longrightarrow> fxFrame s t"
  using keepsD [OF getRate_frame [of s E "from" to], of s] by simp

lemma getRate_same: "toUpper a = toUpper b \<Longrightarrow> getRate E a b s
    = (Inr \<lparr>fxqFrom = toUpper a, fxqTo = toUpper b, fxqRate = Some 1, fxqSource = FxOverride, fxqAsOf = None\<rparr>, s)"
  by (simp add: getRate_def Let_def)

lemma getRate_override:
  assumes "net s = []" and "toUpper a \<noteq> toUpper b" and "map_of (fxOverrides s) (toUpper a, toUpper b) = Some r"
  shows "getRate E a b s = (Inr \<lparr>fxqFrom = toUpper a, fxqTo = toUpper b, fxqRate = Some (fl r),
    fxqSource = FxOverride, fxqAsOf = None\<rparr>, s)"
  using assms by (simp add: getRate_def getOverride_def Let_def)

lemma getRate_cached:
  assumes "net s = []" and "toUpper a \<noteq> toUpper b" and "map_of (fxOverrides s) (toUpper a, toUpper b) = None"
    and "fxCache s (cacheKey (toUpper a) (toUpper b)) = Some e" and "clock s < fxeExpires e"
  shows "getRate E a b s = (Inr \<lparr>fxqFrom = toUpper a, fxqTo = toUpper b, fxqRate = Some (fxeRate e),
    fxqSource = fxeSource e, fxqAsOf = Some (fxeAsOf e)\<rparr>, s)"
  using assms by (simp add: getRate_def getOverride_def Let_def)

text \<open>After a live look-up the same question within the time to live is answered from the cache.\<close>

lemma fetchAndCache_live:
  assumes "net s = []" and "fetchLive E a b s = (Inr (Some (r, src)), s)"
  shows "fetchAndCache E a b n s = (Inr (Some \<lparr>fxqFrom = a, fxqTo = b, fxqRate = Some r, fxqSource = src, fxqAsOf = Some n\<rparr>),
    s\<lparr>fxCache := (fxCache s)(cacheKey a b := Some \<lparr>fxeRate = r, fxeSource = src, fxeExpires = n + fxCacheTtl E, fxeAsOf = n\<rparr>)\<rparr>)"
  using assms by (simp add: fetchAndCache_def)

end
