(* ===== verification/JsDate.thy ===== *)
theory JsDate
  imports JsText
begin

text \<open>
  The UTC calendar of \<open>Date\<close>: milliseconds since 1970-01-01, the start of the day and of the month,
  and the date as text. The calendar is the proleptic Gregorian one; years are counted from March,
  so that the leap day is the last of its year.
\<close>

definition dayMs :: int where
  "dayMs = 86400000"

definition startOfDay :: "int \<Rightarrow> int" where
  "startOfDay now = now div dayMs * dayMs"

text \<open>Within an era of 400 years: the year, the day of the year from March 1, and the month from March.\<close>

definition yearOfEra :: "int \<Rightarrow> int" where
  "yearOfEra doe = (doe - doe div 1460 + doe div 36524 - doe div 146096) div 365"

definition marchDay :: "int \<Rightarrow> int" where
  "marchDay doe = doe - (365 * yearOfEra doe + yearOfEra doe div 4 - yearOfEra doe div 100)"

definition marchMonth :: "int \<Rightarrow> int" where
  "marchMonth doy = (5 * doy + 2) div 153"

definition civil :: "int \<Rightarrow> int \<times> int \<times> int" where
  "civil day =
    (let z = day + 719468; era = z div 146097; doe = z mod 146097;
         mp = marchMonth (marchDay doe);
         d = marchDay doe - (153 * mp + 2) div 5 + 1;
         m = (if mp < 10 then mp + 3 else mp - 9)
     in (yearOfEra doe + era * 400 + (if m \<le> 2 then 1 else 0), m, d))"

definition dayOfMonth :: "int \<Rightarrow> int" where
  "dayOfMonth day = (case civil day of (y, m, d) \<Rightarrow> d)"

definition startOfMonth :: "int \<Rightarrow> int" where
  "startOfMonth now = (now div dayMs - (dayOfMonth (now div dayMs) - 1)) * dayMs"

text \<open>\<open>new Date(now).toISOString().slice(0, 10)\<close> for years of four digits, and without the dashes.\<close>

definition isoDay :: "int \<Rightarrow> string" where
  "isoDay now = (case civil (now div dayMs) of (y, m, d) \<Rightarrow>
     padZeros 4 (showInt y) @ ''-'' @ padZeros 2 (showInt m) @ ''-'' @ padZeros 2 (showInt d))"

definition compactDay :: "int \<Rightarrow> string" where
  "compactDay now = filter (\<lambda>c. c \<noteq> CHR ''-'') (isoDay now)"

lemma startOfDay_le: "startOfDay now \<le> now" "now < startOfDay now + dayMs"
  by (simp_all add: startOfDay_def dayMs_def)

lemma marchMonth_le: "(153 * marchMonth y + 2) div 5 \<le> y"
proof -
  have "(5 * y + 2) div 153 * 153 \<le> 5 * y + 2"
    using div_mult_mod_eq [of "5 * y + 2" 153] pos_mod_sign [of 153 "5 * y + 2"] by linarith
  then have "153 * marchMonth y + 2 \<le> 4 + 5 * y"
    by (simp add: marchMonth_def)
  then have "(153 * marchMonth y + 2) div 5 \<le> (4 + 5 * y) div 5"
    by (intro zdiv_mono1) auto
  also have "\<dots> = y" by simp
  finally show ?thesis .
qed

lemma dayOfMonth_pos: "1 \<le> dayOfMonth d"
  using marchMonth_le [of "marchDay ((d + 719468) mod 146097)"]
  by (simp add: dayOfMonth_def civil_def Let_def)

lemma startOfMonth_le: "startOfMonth now \<le> startOfDay now"
  using dayOfMonth_pos [of "now div dayMs"] by (simp add: startOfMonth_def startOfDay_def dayMs_def)

text \<open>The calendar at a few dates: the epoch, a leap day, the turn of a century.\<close>

lemma civil_examples: "civil 0 = (1970, 1, 1)" "civil 19782 = (2024, 2, 29)" "civil 11016 = (2000, 2, 29)" "civil 11017 = (2000, 3, 1)"
  by code_simp+

end
