(* ===== verification/KycSpend.thy ===== *)
theory KycSpend
  imports Fx JsDate
begin

text \<open>
  \<open>kycSpendService.ts\<close>: the send limits of a consumer's KYC level, checked against the accumulated
  spend events of the UTC day and month. \<open>formatUnits\<close> of ethers is a parameter; \<open>formatLaw\<close> states
  that it writes the decimal value of its argument.
\<close>

definition formatLaw :: "env \<Rightarrow> bool" where
  "formatLaw E \<longleftrightarrow> (\<forall>n d. 0 \<le> n \<longrightarrow> numberOf (formatUnits E n d) = Some (fl (of_int n / 10 ^ d)))"

definition isUsdCode :: "string \<Rightarrow> bool" where
  "isUsdCode c \<longleftrightarrow> toUpper c = ''USD'' \<or> toUpper c = ''USDC''"

definition toLimitUnits :: "env \<Rightarrow> int \<Rightarrow> string \<Rightarrow> ('r platform_scheme, int) prog" where
  "toLimitUnits E amountUnits cur =
    (let code = toUpper cur; dec = currencyDecimals code in
     if dec = 2 \<and> code \<noteq> ''USDC'' \<and> code \<noteq> ''USD'' then ret amountUnits
     else case numberOf (formatUnits E amountUnits dec) of
       None \<Rightarrow> ret 0
     | Some major \<Rightarrow> if major \<le> 0 then ret 0
         else if code = ''USDC'' \<or> code = ''USD'' then
           andThen (getRate E ''USD'' ''ZAR'') (\<lambda>quote.
           let zarPerUsd = (case fxqRate quote of Some r \<Rightarrow> if 0 < r then r else 18 | None \<Rightarrow> 18) in
           ret (jsRound (jsMul (jsMul major zarPerUsd) 100)))
         else ret (jsRound (jsMul major 100)))"

record kycLimits =
  limLevel :: string
  limSingle :: "int option"
  limDaily :: "int option"
  limMonthly :: "int option"

definition limitOf :: "string option \<Rightarrow> ('s, int option) prog" where
  "limitOf v = (case v of None \<Rightarrow> ret None | Some t \<Rightarrow> if t = [] then ret None
     else andThen (ofOption (bigIntOf (beforeDot t)) (plainErr ''Cannot convert to a BigInt'')) (\<lambda>n. ret (Some n)))"

definition getConsumerKycLimits :: "string \<Rightarrow> ('r platform_scheme, kycLimits option) prog" where
  "getConsumerKycLimits cid =
    andThen (readIO (\<lambda>s. headOpt [k. c \<leftarrow> consumers s, k \<leftarrow> kycLevels s,
       consumerKycLevel c = Some (levelId k) \<and> consumerId c = cid])) (\<lambda>row.
    case row of None \<Rightarrow> ret None
    | Some k \<Rightarrow>
      andThen (limitOf (maxSingleTx k)) (\<lambda>a.
      andThen (limitOf (maxDailySend k)) (\<lambda>b.
      andThen (limitOf (maxMonthlySpend k)) (\<lambda>c.
      ret (Some \<lparr>limLevel = levelName k, limSingle = a, limDaily = b, limMonthly = c\<rparr>)))))"

definition sumSpent :: "address \<Rightarrow> int \<Rightarrow> spendType list option \<Rightarrow> ('r platform_scheme, int) prog" where
  "sumSpent wallet since types = readIO (\<lambda>s. \<Sum>e\<leftarrow>filter (\<lambda>e. seWallet e = wallet \<and> since \<le> seAt e
      \<and> (case types of None \<Rightarrow> True | Some ts \<Rightarrow> ts = [] \<or> seType e \<in> set ts)) (spendEvents s). seLimitUnits e)"

section \<open>The check and the record\<close>

datatype spendFailCode = KycSingleExceeded | KycDailyExceeded | KycMonthlyExceeded | KycLevelMissing

datatype spendCheck =
    SpendOk (okLimits: kycLimits) (okToday: int) (okMonth: int) (okUnits: int)
  | SpendFail spendFailCode string

record spendParams =
  spConsumer :: string
  spWallet :: address
  spAmount :: int
  spCurrency :: string
  spType :: spendType

definition withinLimit :: "int option \<Rightarrow> int \<Rightarrow> bool" where
  "withinLimit lm x = (case lm of None \<Rightarrow> True | Some l \<Rightarrow> x \<le> l)"

definition assertKycSendAllowed :: "env \<Rightarrow> spendParams \<Rightarrow> ('r platform_scheme, spendCheck) prog" where
  "assertKycSendAllowed E p =
    andThen (getConsumerKycLimits (spConsumer p)) (\<lambda>limits.
    case limits of
      None \<Rightarrow> ret (SpendFail KycLevelMissing ''KYC level not configured for this account'')
    | Some l \<Rightarrow>
      andThen (toLimitUnits E (spAmount p) (spCurrency p)) (\<lambda>units.
      if \<not> withinLimit (limSingle l) units
      then ret (SpendFail KycSingleExceeded (''Amount exceeds your '' @ limLevel l @ '' single-transaction limit''))
      else
        andThen (gets clock) (\<lambda>now.
        andThen (sumSpent (spWallet p) (startOfDay now) None) (\<lambda>spentToday.
        andThen (sumSpent (spWallet p) (startOfMonth now) None) (\<lambda>spentMonth.
        if \<not> withinLimit (limDaily l) (spentToday + units)
        then ret (SpendFail KycDailyExceeded (''Amount would exceed your '' @ limLevel l @ '' daily send limit''))
        else if \<not> withinLimit (limMonthly l) (spentMonth + units)
        then ret (SpendFail KycMonthlyExceeded (''Amount would exceed your '' @ limLevel l @ '' monthly spend limit''))
        else ret (SpendOk l spentToday spentMonth units))))))"

definition recordSpendEvent ::
  "env \<Rightarrow> spendParams \<Rightarrow> int option \<Rightarrow> counterparty option \<Rightarrow> txHash option \<Rightarrow> ('r platform_scheme, unit) prog" where
  "recordSpendEvent E p given counterparty tx =
    andThen (case given of Some u \<Rightarrow> ret u | None \<Rightarrow> toLimitUnits E (spAmount p) (spCurrency p)) (\<lambda>limitUnits.
    tryCatch (writeIO (\<lambda>s. s\<lparr>spendEvents := spendEvents s @
        [\<lparr>seConsumer = spConsumer p, seWallet = spWallet p, seType = spType p, seCurrency = toUpper (spCurrency p),
          seAmount = spAmount p, seLimitUnits = limitUnits, seCounterparty = counterparty, seTx = tx, seAt = clock s\<rparr>]\<rparr>))
      (\<lambda>_. ret ()))"

section \<open>What a passed check guarantees\<close>

definition spentSince :: "'r platform_scheme \<Rightarrow> address \<Rightarrow> int \<Rightarrow> int" where
  "spentSince s wallet since = (\<Sum>e\<leftarrow>filter (\<lambda>e. seWallet e = wallet \<and> since \<le> seAt e) (spendEvents s). seLimitUnits e)"

lemma sumSpent_calm [simp]: "net s = [] \<Longrightarrow> sumSpent w since None s = (Inr (spentSince s w since), s)"
  by (simp add: sumSpent_def spentSince_def)

lemma sumSpent_InrD: "sumSpent w since None s = (Inr x, t) \<Longrightarrow> x = spentSince s w since \<and> (\<exists>rest. t = s\<lparr>net := rest\<rparr>)"
  unfolding sumSpent_def by (drule readIO_InrD) (auto simp: spentSince_def)

lemma spentSince_frame: "fxFrame s t \<Longrightarrow> spentSince t w x = spentSince s w x"
  by (simp add: spentSince_def fxFrame_sel)

lemma limitOf_frame: "keeps (fxFrame s0) (limitOf v)"
  unfolding limitOf_def by (intro frame_rules)

lemma getConsumerKycLimits_frame: "keeps (fxFrame s0) (getConsumerKycLimits cid)"
  unfolding getConsumerKycLimits_def by (intro frame_rules limitOf_frame)

lemma toLimitUnits_frame: "keeps (fxFrame s0) (toLimitUnits E a c)"
  unfolding toLimitUnits_def Let_def by (intro frame_rules getRate_frame)

lemma sumSpent_frame: "keeps (fxFrame s0) (sumSpent w x ts)"
  unfolding sumSpent_def by (rule keeps_frame_read)

lemma assertKyc_frame: "keeps (fxFrame s0) (assertKycSendAllowed E p)"
  unfolding assertKycSendAllowed_def
  by (intro frame_rules getConsumerKycLimits_frame toLimitUnits_frame sumSpent_frame)

lemma assertKyc_okD:
  assumes "assertKycSendAllowed E p s = (Inr (SpendOk l today month units), t)"
  shows "fxFrame s t" and "withinLimit (limSingle l) units"
    and "today = spentSince s (spWallet p) (startOfDay (clock s))"
    and "month = spentSince s (spWallet p) (startOfMonth (clock s))"
    and "withinLimit (limDaily l) (today + units)" and "withinLimit (limMonthly l) (month + units)"
    and "\<exists>a b. fxFrame s a \<and> toLimitUnits E (spAmount p) (spCurrency p) a = (Inr units, b)"
proof -
  show "fxFrame s t"
    using keepsD [OF assertKyc_frame [of s E p], of s] assms by simp
  from assms obtain l' a where a: "getConsumerKycLimits (spConsumer p) s = (Inr (Some l'), a)"
    and r: "(case Some l' of None \<Rightarrow> ret (SpendFail KycLevelMissing ''KYC level not configured for this account'')
    | Some l \<Rightarrow>
      andThen (toLimitUnits E (spAmount p) (spCurrency p)) (\<lambda>units.
      if \<not> withinLimit (limSingle l) units
      then ret (SpendFail KycSingleExceeded (''Amount exceeds your '' @ limLevel l @ '' single-transaction limit''))
      else
        andThen (gets clock) (\<lambda>now.
        andThen (sumSpent (spWallet p) (startOfDay now) None) (\<lambda>spentToday.
        andThen (sumSpent (spWallet p) (startOfMonth now) None) (\<lambda>spentMonth.
        if \<not> withinLimit (limDaily l) (spentToday + units)
        then ret (SpendFail KycDailyExceeded (''Amount would exceed your '' @ limLevel l @ '' daily send limit''))
        else if \<not> withinLimit (limMonthly l) (spentMonth + units)
        then ret (SpendFail KycMonthlyExceeded (''Amount would exceed your '' @ limLevel l @ '' monthly spend limit''))
        else ret (SpendOk l spentToday spentMonth units)))))) a = (Inr (SpendOk l today month units), t)"
    unfolding assertKycSendAllowed_def andThen_Inr_iff by (force split: option.splits)
  have fa: "fxFrame s a"
    using keepsD [OF getConsumerKycLimits_frame [of s "spConsumer p"], of s] a by simp
  from r obtain u b where u: "toLimitUnits E (spAmount p) (spCurrency p) a = (Inr u, b)"
    and w: "withinLimit (limSingle l') u"
    and k: "andThen (gets clock) (\<lambda>now.
        andThen (sumSpent (spWallet p) (startOfDay now) None) (\<lambda>spentToday.
        andThen (sumSpent (spWallet p) (startOfMonth now) None) (\<lambda>spentMonth.
        if \<not> withinLimit (limDaily l') (spentToday + u)
        then ret (SpendFail KycDailyExceeded (''Amount would exceed your '' @ limLevel l' @ '' daily send limit''))
        else if \<not> withinLimit (limMonthly l') (spentMonth + u)
        then ret (SpendFail KycMonthlyExceeded (''Amount would exceed your '' @ limLevel l' @ '' monthly spend limit''))
        else ret (SpendOk l' spentToday spentMonth u)))) b = (Inr (SpendOk l today month units), t)"
    by (auto simp: andThen_Inr_iff split: if_split_asm)
  have fb: "fxFrame s b"
    using fxFrame_trans [OF fa] keepsD [OF toLimitUnits_frame [of a E "spAmount p" "spCurrency p"], of a] u by simp
  from k obtain c d where c: "sumSpent (spWallet p) (startOfDay (clock b)) None b = (Inr today, c)"
    and d: "sumSpent (spWallet p) (startOfMonth (clock b)) None c = (Inr month, d)"
    and res: "withinLimit (limDaily l') (today + u)" "withinLimit (limMonthly l') (month + u)" "l' = l" "u = units"
    by (auto simp: andThen_Inr_iff split: if_split_asm)
  have fc: "fxFrame s c"
    using sumSpent_InrD [OF c] fxFrame_trans [OF fb fxFrame_net] by auto
  show "today = spentSince s (spWallet p) (startOfDay (clock s))"
    using sumSpent_InrD [OF c] spentSince_frame [OF fb] fxFrame_sel(5) [OF fb] by simp
  show "month = spentSince s (spWallet p) (startOfMonth (clock s))"
    using sumSpent_InrD [OF d] spentSince_frame [OF fc] fxFrame_sel(5) [OF fb] by simp
  show "withinLimit (limSingle l) units" "withinLimit (limDaily l) (today + units)" "withinLimit (limMonthly l) (month + units)"
    using w res by simp_all
  show "\<exists>a b. fxFrame s a \<and> toLimitUnits E (spAmount p) (spCurrency p) a = (Inr units, b)"
    using fa u res by auto
qed

text \<open>The limits the tables hold for a consumer, whatever the network does, and that the check uses them.\<close>

definition limitsFor :: "string \<Rightarrow> 'r platform_scheme \<Rightarrow> kycLimits option" where
  "limitsFor cid s = (case fst (getConsumerKycLimits cid (s\<lparr>net := []\<rparr>)) of Inl e \<Rightarrow> None | Inr l \<Rightarrow> l)"

lemma limitsFor_cong: "consumers t = consumers s \<Longrightarrow> kycLevels t = kycLevels s \<Longrightarrow> limitsFor cid t = limitsFor cid s"
  by (simp add: limitsFor_def getConsumerKycLimits_def limitOf_def andThen_def ofOption_def ret_def raise_def
      split: option.split prod.split sum.split)

lemma limitOf_any: "limitOf v s = (Inr x, t) \<Longrightarrow> limitOf v u = (Inr x, u)"
  by (auto simp: limitOf_def andThen_Inr_iff split: option.splits if_splits)

lemma limitsFor_found:
  assumes "getConsumerKycLimits cid s = (Inr (Some l), t)"
  shows "limitsFor cid s = Some l"
proof -
  let ?row = "\<lambda>s :: 'a platform_scheme. headOpt [k. c \<leftarrow> consumers s, k \<leftarrow> kycLevels s, consumerKycLevel c = Some (levelId k) \<and> consumerId c = cid]"
  let ?read = "\<lambda>k. andThen (limitOf (maxSingleTx k)) (\<lambda>a. andThen (limitOf (maxDailySend k)) (\<lambda>b. andThen (limitOf (maxMonthlySpend k)) (\<lambda>c.
      ret (Some \<lparr>limLevel = levelName k, limSingle = a, limDaily = b, limMonthly = c\<rparr>))))"
  obtain row s1 where r: "readIO ?row s = (Inr row, s1)" and rest: "(case row of None \<Rightarrow> ret None | Some k \<Rightarrow> ?read k) s1 = (Inr (Some l), t)"
    using assms unfolding getConsumerKycLimits_def by (rule andThen_InrE)
  obtain k where k: "row = Some k" using rest by (cases row) simp_all
  have run: "?read k s1 = (Inr (Some l), t)" using rest unfolding k by simp
  obtain a s2 where a: "limitOf (maxSingleTx k) s1 = (Inr a, s2)" and ra: "andThen (limitOf (maxDailySend k)) (\<lambda>b. andThen (limitOf (maxMonthlySpend k)) (\<lambda>c.
      ret (Some \<lparr>limLevel = levelName k, limSingle = a, limDaily = b, limMonthly = c\<rparr>))) s2 = (Inr (Some l), t)"
    using run by (rule andThen_InrE)
  obtain b s3 where b: "limitOf (maxDailySend k) s2 = (Inr b, s3)" and rb: "andThen (limitOf (maxMonthlySpend k)) (\<lambda>c.
      ret (Some \<lparr>limLevel = levelName k, limSingle = a, limDaily = b, limMonthly = c\<rparr>)) s3 = (Inr (Some l), t)"
    using ra by (rule andThen_InrE)
  obtain c s4 where c: "limitOf (maxMonthlySpend k) s3 = (Inr c, s4)" and l: "l = \<lparr>limLevel = levelName k, limSingle = a, limDaily = b, limMonthly = c\<rparr>"
    using rb by (rule andThen_InrE) simp
  have row: "?row s = Some k"
    using readIO_InrD [OF r] unfolding k by auto
  have "getConsumerKycLimits cid (s\<lparr>net := []\<rparr>) = (Inr (Some l), s\<lparr>net := []\<rparr>)"
    unfolding getConsumerKycLimits_def l
    by (simp add: row limitOf_any [OF a] limitOf_any [OF b] limitOf_any [OF c])
  then show ?thesis by (simp add: limitsFor_def)
qed

lemma assertKyc_limits:
  assumes "assertKycSendAllowed E p s = (Inr (SpendOk l today month units), t)"
  shows "limitsFor (spConsumer p) s = Some l"
proof -
  obtain r a where g: "getConsumerKycLimits (spConsumer p) s = (Inr r, a)"
    using assms unfolding assertKycSendAllowed_def by (rule andThen_InrE)
  have "r = Some l"
    using assms unfolding assertKycSendAllowed_def andThen_Inr_iff g
    by (auto simp: andThen_Inr_iff split: option.splits if_split_asm)
  with g show ?thesis by (auto intro: limitsFor_found)
qed

text \<open>Recording what was checked keeps the day and the month withinLimit the limits of the level.\<close>

definition checkAndRecord ::
  "env \<Rightarrow> spendParams \<Rightarrow> counterparty option \<Rightarrow> txHash option \<Rightarrow> ('r platform_scheme, spendCheck) prog" where
  "checkAndRecord E p cp tx =
    andThen (assertKycSendAllowed E p) (\<lambda>c. case c of
      SpendOk l a b u \<Rightarrow> andThen (recordSpendEvent E p (Some u) cp tx) (\<lambda>_. ret c)
    | SpendFail _ _ \<Rightarrow> ret c)"

lemma recordSpendEvent_calm:
  assumes "net s = []"
  shows "recordSpendEvent E p (Some u) cp tx s = (Inr (), s\<lparr>spendEvents := spendEvents s @
        [\<lparr>seConsumer = spConsumer p, seWallet = spWallet p, seType = spType p, seCurrency = toUpper (spCurrency p),
          seAmount = spAmount p, seLimitUnits = u, seCounterparty = cp, seTx = tx, seAt = clock s\<rparr>]\<rparr>)"
  using assms by (simp add: recordSpendEvent_def)

lemma spentSince_add:
  assumes "t = s\<lparr>spendEvents := spendEvents s @
        [\<lparr>seConsumer = spConsumer p, seWallet = spWallet p, seType = spType p, seCurrency = cu,
          seAmount = am, seLimitUnits = u, seCounterparty = cp, seTx = tx, seAt = now\<rparr>]\<rparr>" and "since \<le> now"
  shows "spentSince t (spWallet p) since = spentSince s (spWallet p) since + u"
  using assms by (simp add: spentSince_def)

end
