(* ===== verification/JsError.thy ===== *)
theory JsError
  imports JsNumber
begin

text \<open>
  The error of a chain of double operations, relative to the exact result, and the chain of the
  currency conversions: an amount, divided, times a rate, times a factor, scaled.
\<close>

section \<open>The relative error of a chain of roundings\<close>

text \<open>\<open>eps\<close>: half a unit in the last place, relative to the value. \<open>roundings k z y\<close>: \<open>y\<close> is \<open>z\<close> up to \<open>k\<close> roundings.\<close>

definition eps :: rat where "eps = 1 / 2 ^ 53"

definition roundings :: "nat \<Rightarrow> rat \<Rightarrow> rat \<Rightarrow> bool" where
  "roundings k z y \<longleftrightarrow> (1 - eps) ^ k * z \<le> y \<and> y \<le> (1 + eps) ^ k * z"

lemma eps_bounds: "0 < eps" "eps < 1" "0 \<le> 1 - eps" "0 \<le> 1 + eps"
  by (simp_all add: eps_def)

lemma eps_half: "k \<le> 5 \<Longrightarrow> 1 / 2 \<le> (1 - eps) ^ k"
proof -
  assume "k \<le> 5"
  have "(1 / 2 :: rat) \<le> (1 - eps) ^ 5" by (simp add: eps_def power_divide)
  also have "\<dots> \<le> (1 - eps) ^ k"
    using \<open>k \<le> 5\<close> eps_bounds by (intro power_decreasing) auto
  finally show ?thesis .
qed

lemma fl_relative:
  assumes "x = 0 \<or> pow2 (- 1022) \<le> x"
  shows "(1 - eps) * x \<le> fl x" and "fl x \<le> (1 + eps) * x"
proof -
  have "\<bar>fl x - x\<bar> \<le> eps * x"
  proof (cases "x = 0")
    case False
    then have x: "pow2 (- 1022) \<le> x" "0 < x" using False assms less_le_trans [OF pow2_pos [of "- 1022"]] by auto
    have "pow2 (- 1022) < pow2 (expo x + 1)" using expo_bounds(2) [OF False] x by linarith
    then have "ulpExp x = expo x - 52" by (simp add: ulpExp_def)
    then have "pow2 (ulpExp x) / 2 = eps * pow2 (expo x)"
      using pow2_add [of "expo x" "- 52"] by (simp add: eps_def pow2_def [of "- 52"])
    also have "\<dots> \<le> eps * x"
      using expo_bounds(1) [OF False] x eps_bounds by (intro mult_left_mono) auto
    finally show ?thesis using fl_error [of x] by linarith
  qed simp
  then show "(1 - eps) * x \<le> fl x" and "fl x \<le> (1 + eps) * x"
    by (auto simp: abs_le_iff algebra_simps)
qed

lemma roundings_refl: "roundings 0 z z"
  by (simp add: roundings_def)

lemma roundings_scale: "roundings k z y \<Longrightarrow> 0 \<le> c \<Longrightarrow> roundings k (z * c) (y * c)"
  using mult_right_mono [of "(1 - eps) ^ k * z" y c] mult_right_mono [of y "(1 + eps) ^ k * z" c]
  by (simp add: roundings_def mult.assoc)

lemma roundings_nonneg: "roundings k z y \<Longrightarrow> 0 \<le> z \<Longrightarrow> 0 \<le> y"
proof -
  assume w: "roundings k z y" and z: "0 \<le> z"
  have "0 \<le> (1 - eps) ^ k * z" using z eps_bounds by simp
  then show ?thesis using w by (simp add: roundings_def)
qed

text \<open>One more rounding, of a value in the normal range.\<close>

lemma roundings_fl:
  assumes "roundings k z y" and "k \<le> 5" and "z = 0 \<or> pow2 (- 1021) \<le> z"
  shows "roundings (Suc k) z (fl y)"
proof -
  have y: "y = 0 \<or> pow2 (- 1022) \<le> y"
  proof (cases "z = 0")
    case False
    then have z: "pow2 (- 1021) \<le> z" "0 \<le> z" using False assms(3) order.trans [OF pow2_nonneg [of "- 1021"]] by auto
    have "pow2 (- 1022) = 1 / 2 * pow2 (- 1021)"
      using pow2_numerals(3) [of "- 1022"] by simp
    also have "\<dots> \<le> (1 - eps) ^ k * z"
      using eps_half [OF assms(2)] z by (intro mult_mono) auto
    finally show ?thesis using assms(1) by (simp add: roundings_def)
  qed (use assms(1) in \<open>simp add: roundings_def\<close>)
  have "(1 - eps) * ((1 - eps) ^ k * z) \<le> (1 - eps) * y" "(1 + eps) * y \<le> (1 + eps) * ((1 + eps) ^ k * z)"
    using assms(1) eps_bounds by (auto simp: roundings_def intro!: mult_left_mono)
  then show ?thesis
    using fl_relative [OF y] by (simp add: roundings_def mult.assoc)
qed
section \<open>The chain of the conversions\<close>

text \<open>
  \<open>amountChain n d rate f m\<close>: the operations of \<open>conversionService.ts\<close> on \<open>n\<close> units of size \<open>1/d\<close>. From a rate of
  \<open>2^-900\<close> up no intermediate result leaves the normal range, so each of the five roundings adds one factor \<open>1 + or - eps\<close>.
\<close>

definition amountChain :: "rat \<Rightarrow> rat \<Rightarrow> rat \<Rightarrow> rat \<Rightarrow> rat \<Rightarrow> rat" where
  "amountChain n d rate f m = jsMul (jsMul (jsMul (jsDiv (fl n) d) rate) f) m"

lemma normal_range:
  assumes "1 \<le> n" and "0 < d" and "d \<le> 2 ^ 60" and "pow2 (- 900) \<le> rate" and "f = 0 \<or> 1 / 2 ^ 14 \<le> f"
  shows "pow2 (- 1021) \<le> n" and "pow2 (- 1021) \<le> n / d" and "pow2 (- 1021) \<le> n / d * rate"
    and "n / d * rate * f = 0 \<or> pow2 (- 1021) \<le> n / d * rate * f"
proof -
  have p60: "pow2 (- 60) = 1 / 2 ^ 60" "pow2 (- 14) = 1 / 2 ^ 14" by (simp_all add: pow2_def)
  have "1 / 2 ^ 60 \<le> n / d" using assms(1-3) by (intro frac_le) auto
  then have nd: "pow2 (- 60) \<le> n / d" by (simp only: p60)
  then have ndr: "pow2 (- 60) * pow2 (- 900) \<le> n / d * rate"
    using assms(4) order.trans [OF pow2_nonneg nd] by (intro mult_mono) auto
  have small: "pow2 (- 1021) \<le> pow2 (- 60)" "pow2 (- 1021) \<le> pow2 (- 60) * pow2 (- 900)"
    "pow2 (- 1021) \<le> pow2 (- 60) * pow2 (- 900) * pow2 (- 14)"
    unfolding pow2_add [symmetric] by (intro pow2_mono; simp)+
  have "pow2 (- 1021) \<le> pow2 0" by (intro pow2_mono) simp
  then show "pow2 (- 1021) \<le> n" using assms(1) by (simp add: pow2_numerals)
  show "pow2 (- 1021) \<le> n / d" using nd small(1) by simp
  show n3: "pow2 (- 1021) \<le> n / d * rate" using ndr small(2) by simp
  show "n / d * rate * f = 0 \<or> pow2 (- 1021) \<le> n / d * rate * f"
  proof (cases "f = 0")
    case False
    then have f: "pow2 (- 14) \<le> f" using assms(5) unfolding p60 by simp
    have "pow2 (- 60) * pow2 (- 900) * pow2 (- 14) \<le> n / d * rate * f"
      by (rule mult_mono [OF ndr f order.trans [OF pow2_nonneg n3] pow2_nonneg])
    then show ?thesis using small(3) by simp
  qed simp
qed

lemma amountChain_roundings:
  assumes "1 \<le> n" and "0 < d" and "d \<le> 2 ^ 60" and "pow2 (- 900) \<le> rate" and "f = 0 \<or> 1 / 2 ^ 14 \<le> f" and "1 \<le> m"
  shows "roundings 5 (n / d * rate * f * m) (amountChain n d rate f m)"
proof -
  note r = normal_range [OF assms(1-5)]
  have rate: "0 \<le> rate" using order.trans [OF pow2_nonneg assms(4)] .
  have f: "0 \<le> f" using assms(5) order.trans [of 0 "1 / 2 ^ 14" f] by auto
  have "roundings (Suc 0) n (fl n)" by (rule roundings_fl [OF roundings_refl]) (use r in auto)
  from roundings_scale [OF this, of "1 / d"] have "roundings (Suc 0) (n / d) (fl n / d)" using assms(2) by simp
  then have "roundings (Suc (Suc 0)) (n / d) (jsDiv (fl n) d)" unfolding jsDiv_def by (rule roundings_fl) (use r in auto)
  from roundings_scale [OF this rate] have "roundings (Suc (Suc (Suc 0))) (n / d * rate) (jsMul (jsDiv (fl n) d) rate)"
    unfolding jsMul_def by (rule roundings_fl) (use r in auto)
  from roundings_scale [OF this f] have "roundings (Suc (Suc (Suc (Suc 0)))) (n / d * rate * f) (jsMul (jsMul (jsDiv (fl n) d) rate) f)"
    unfolding jsMul_def [of _ f] by (rule roundings_fl) (use r in auto)
  from roundings_scale [OF this, of m] have "roundings (Suc (Suc (Suc (Suc 0)))) (n / d * rate * f * m) (jsMul (jsMul (jsDiv (fl n) d) rate) f * m)"
    using assms(6) by simp
  then have "roundings (Suc (Suc (Suc (Suc (Suc 0))))) (n / d * rate * f * m) (amountChain n d rate f m)"
    unfolding amountChain_def jsMul_def [of _ m]
  proof (rule roundings_fl)
    have "0 \<le> n / d * rate * f" using assms(1,2) rate f by simp
    from mult_left_mono [OF assms(6) this] have "n / d * rate * f \<le> n / d * rate * f * m" by simp
    then show "n / d * rate * f * m = 0 \<or> pow2 (- 1021) \<le> n / d * rate * f * m"
      using r(4) by auto
  qed simp
  then show ?thesis by (simp add: numeral_eq_Suc)
qed

end
