(* ===== verification/Conversion.thy ===== *)
theory Conversion
  imports CashIn Revenue KycSpend JsError
begin

text \<open>
  \<open>conversionService.ts\<close>: exchange between a fiat claim and a USD (USDC) claim at the FX rate less the
  platform's spread, and the rule for which pairs a wallet may convert. The last three bytes of a
  reference (\<open>randomBytes(3)\<close>) are the argument \<open>hex\<close>.
\<close>

record conversionRow =
  cvWallet :: address
  cvFrom :: string
  cvTo :: string
  cvFromAmount :: int
  cvToAmount :: int
  cvRate :: rat
  cvSpread :: int
  cvFee :: int
  cvFeeCurrency :: string
  cvDebitTx :: txHash
  cvCreditTx :: txHash
  cvReference :: string
  cvMintTx :: "txHash option"

record convDb = cashInDb +
  conversions :: "conversionRow list"

record convertResult =
  crFrom :: string
  crTo :: string
  crDebited :: "string \<times> string"
  crCredited :: "string \<times> string"
  crRate :: rat
  crSpreadBps :: int
  crFee :: string
  crDebitTx :: txHash
  crCreditTx :: txHash
  crReference :: string
  crMintTx :: "txHash option"
  crSource :: fxSource

definition unifiedBalanceOf :: "env \<Rightarrow> address \<Rightarrow> string \<Rightarrow> ('r chain_scheme, int) prog" where
  "unifiedBalanceOf E wallet cur =
    andThen (ofOption (vaultAddr E) noVault) (\<lambda>_.
    andThen (callView (\<lambda>s. unifiedBalance (vault s) wallet (currencyHash E cur))) (\<lambda>n. ret (int n)))"

definition persistConversion :: "conversionRow \<Rightarrow> ('r convDb_scheme, unit) prog" where
  "persistConversion row = tryCatch (writeIO (\<lambda>s. s\<lparr>conversions := conversions s @ [row]\<rparr>)) (\<lambda>_. ret ())"

definition newConversionReference :: "string \<Rightarrow> string \<Rightarrow> int \<Rightarrow> string \<Rightarrow> string" where
  "newConversionReference fromC toC now hex =
    ''FX-'' @ toUpper (take 1 fromC @ take 1 toC) @ ''-'' @ compactDay now @ ''-'' @ toUpper hex"

text \<open>The float arithmetic of the two directions.\<close>

definition spreadFactor :: "int \<Rightarrow> rat" where
  "spreadFactor bps = jsSub 1 (jsDiv (of_int bps) 10000)"

definition fiatToUsdcUnits :: "int \<Rightarrow> nat \<Rightarrow> rat \<Rightarrow> int \<Rightarrow> int" where
  "fiatToUsdcUnits fiatUnits dec rate bps =
    (let fiatFloat = jsDiv (numOfBig fiatUnits) (10 ^ dec);
         usdNet = jsMul (jsMul fiatFloat rate) (spreadFactor bps)
     in jsFloor (jsMul usdNet 1000000))"

definition usdcToFiatUnits :: "int \<Rightarrow> nat \<Rightarrow> rat \<Rightarrow> int \<Rightarrow> int" where
  "usdcToFiatUnits usdcUnits dec rate bps =
    (let usdFloat = jsDiv (numOfBig usdcUnits) 1000000;
         fiatNet = jsMul (jsMul usdFloat rate) (spreadFactor bps)
     in jsFloor (jsMul fiatNet (10 ^ dec)))"

definition fxUnavailable :: failure where
  "fxUnavailable = codedErr ''FX rate is unavailable right now - please try again shortly'' 503 ''FX_UNAVAILABLE''"

definition convertFiatToUsd :: "env \<Rightarrow> string \<Rightarrow> address \<Rightarrow> string \<Rightarrow> string \<Rightarrow> ('r convDb_scheme, convertResult) prog" where
  "convertFiatToUsd E hex wallet amount fiatCode =
    (let fiat = toUpper fiatCode; dec = currencyDecimals fiat in
     andThen (ofOption (parseUnits E amount dec) (statusErr ''Invalid amount'' 400)) (\<lambda>fiatUnits.
     andThen (require (0 < fiatUnits) (statusErr ''Amount must be positive'' 400)) (\<lambda>_.
     andThen (unifiedBalanceOf E wallet fiat) (\<lambda>fiatBal.
     andThen (require (fiatUnits \<le> fiatBal)
       (codedErr (''Insufficient '' @ fiat @ '' balance'') 409 ''INSUFFICIENT_BALANCE'')) (\<lambda>_.
     andThen (getRate E fiat ''USD'') (\<lambda>quote.
     andThen (ofOption (case fxqRate quote of Some r \<Rightarrow> if 0 < r then Some r else None | None \<Rightarrow> None) fxUnavailable) (\<lambda>rate.
     andThen getRevenueConfig (\<lambda>cfg.
     let bps = fxSpreadBps cfg; usdcUnits = fiatToUsdcUnits fiatUnits dec rate bps in
     andThen (require (0 < usdcUnits) (statusErr ''Amount is too small to convert'' 400)) (\<lambda>_.
     andThen (usdcReserveUnits E) (\<lambda>reserve.
     andThen (require (usdcUnits \<le> reserve)
       (codedErr ''USD reserve is temporarily low - try a smaller amount or again later'' 409 ''RESERVE_LOW'')) (\<lambda>_.
     andThen (vaultAdminDebit E wallet fiatUnits fiat) (\<lambda>debitTx.
     andThen (vaultAdminCredit E wallet usdcUnits ''USDC'') (\<lambda>creditTx.
     andThen (gets clock) (\<lambda>now.
     let feeFiatUnits = bigDiv (fiatUnits * bps) 10000;
         reference = newConversionReference fiat ''USD'' now hex in
     andThen (persistConversion \<lparr>cvWallet = wallet, cvFrom = fiat, cvTo = ''USD'', cvFromAmount = fiatUnits,
        cvToAmount = usdcUnits, cvRate = rate, cvSpread = bps, cvFee = feeFiatUnits, cvFeeCurrency = fiat,
        cvDebitTx = debitTx, cvCreditTx = creditTx, cvReference = reference, cvMintTx = None\<rparr>) (\<lambda>_.
     ret \<lparr>crFrom = fiat, crTo = ''USD'', crDebited = (formatUnits E fiatUnits dec, fiat),
        crCredited = (formatUnits E usdcUnits 6, ''USD''), crRate = rate, crSpreadBps = bps,
        crFee = formatUnits E feeFiatUnits dec, crDebitTx = debitTx, crCreditTx = creditTx,
        crReference = reference, crMintTx = None, crSource = fxqSource quote\<rparr>)))))))))))))))"

definition convertUsdToFiat :: "env \<Rightarrow> string \<Rightarrow> address \<Rightarrow> string \<Rightarrow> string \<Rightarrow> ('r convDb_scheme, convertResult) prog" where
  "convertUsdToFiat E hex wallet amount fiatCode =
    (let fiat = toUpper fiatCode; dec = currencyDecimals fiat in
     andThen (ofOption (parseUnits E amount 6) (statusErr ''Invalid amount'' 400)) (\<lambda>usdcUnits.
     andThen (require (0 < usdcUnits) (statusErr ''Amount must be positive'' 400)) (\<lambda>_.
     andThen (unifiedBalanceOf E wallet ''USDC'') (\<lambda>usdcBal.
     andThen (require (usdcUnits \<le> usdcBal)
       (codedErr ''Insufficient USD balance'' 409 ''INSUFFICIENT_BALANCE'')) (\<lambda>_.
     andThen (getRate E ''USD'' fiat) (\<lambda>quote.
     andThen (ofOption (case fxqRate quote of Some r \<Rightarrow> if 0 < r then Some r else None | None \<Rightarrow> None) fxUnavailable) (\<lambda>rate.
     andThen getRevenueConfig (\<lambda>cfg.
     let bps = fxSpreadBps cfg; fiatUnits = usdcToFiatUnits usdcUnits dec rate bps in
     andThen (require (0 < fiatUnits) (statusErr ''Amount is too small to convert'' 400)) (\<lambda>_.
     andThen (vaultAdminDebit E wallet usdcUnits ''USDC'') (\<lambda>debitTx.
     andThen (creditFiatWithTreasuryBacking E wallet fiatUnits fiat) (\<lambda>bc.
     andThen (gets clock) (\<lambda>now.
     let feeUsdcUnits = bigDiv (usdcUnits * bps) 10000;
         reference = newConversionReference ''USD'' fiat now hex in
     andThen (persistConversion \<lparr>cvWallet = wallet, cvFrom = ''USD'', cvTo = fiat, cvFromAmount = usdcUnits,
        cvToAmount = fiatUnits, cvRate = rate, cvSpread = bps, cvFee = feeUsdcUnits, cvFeeCurrency = ''USD'',
        cvDebitTx = debitTx, cvCreditTx = bcCreditTx bc, cvReference = reference, cvMintTx = bcMintTx bc\<rparr>) (\<lambda>_.
     ret \<lparr>crFrom = ''USD'', crTo = fiat, crDebited = (formatUnits E usdcUnits 6, ''USD''),
        crCredited = (formatUnits E fiatUnits dec, fiat), crRate = rate, crSpreadBps = bps,
        crFee = formatUnits E feeUsdcUnits 6, crDebitTx = debitTx, crCreditTx = bcCreditTx bc,
        crReference = reference, crMintTx = bcMintTx bc, crSource = fxqSource quote\<rparr>)))))))))))))"

definition homeFiatForWallet :: "address \<Rightarrow> ('r platform_scheme, string) prog" where
  "homeFiatForWallet wallet =
    andThen (readIO (\<lambda>s. find (\<lambda>c. consumerWallet c = Some wallet) (consumers s))) (\<lambda>r.
    andThen (spendCurrencyForCountry (case r of None \<Rightarrow> ''ZA'' | Some c \<Rightarrow> consumerCountry c)) (\<lambda>meta.
    ret (scCode meta)))"

definition invalidPair :: "string \<Rightarrow> failure" where
  "invalidPair m = codedErr m 400 ''INVALID_PAIR''"

definition assertAllowedConversion :: "address \<Rightarrow> string \<Rightarrow> string \<Rightarrow> ('r platform_scheme, unit) prog" where
  "assertAllowedConversion wallet fromRaw toRaw =
    (let from = toUpper fromRaw; to = toUpper toRaw in
     andThen (homeFiatForWallet wallet) (\<lambda>local.
     let fiatFrom = (if isUsdCode from then None else Some from);
         fiatTo = (if isUsdCode to then None else Some to) in
     case (fiatFrom, fiatTo) of
       (Some ff, Some ft) \<Rightarrow>
         andThen (treasuryCorridorForFiat ff) (\<lambda>cf.
         andThen (treasuryCorridorForFiat ft) (\<lambda>ct.
         raise (codedErr (case (cf, ct) of
             (Some a, Some b) \<Rightarrow> if a \<noteq> [] \<and> b \<noteq> [] \<and> a \<noteq> b
               then ''Conversions between '' @ a @ '' and '' @ b @ '' are not supported - convert via USD''
               else ''Conversions between treasury currencies are not supported - convert via USD''
           | _ \<Rightarrow> ''Conversions between treasury currencies are not supported - convert via USD'')
           400 ''TREASURY_TO_TREASURY'')))
     | (None, None) \<Rightarrow> raise (invalidPair ''Conversions must be to or from USD'')
     | _ \<Rightarrow>
       (let fiatLeg = (case fiatFrom of Some f \<Rightarrow> f | None \<Rightarrow> the fiatTo) in
        andThen (treasuryCorridorForFiat fiatLeg) (\<lambda>corridor.
        andThen (require (orElse corridor [] \<noteq> []) (invalidPair ''Only treasury-backed currencies can be converted to/from USD'')) (\<lambda>_.
        require (fiatLeg \<in> {local, ''ZAR''})
          (invalidPair (if local = ''ZAR'' then ''Only ZAR can be converted to/from USD''
             else ''Only '' @ local @ '' or ZAR can be converted to/from USD'')))))))"

definition executeConversion :: "env \<Rightarrow> string \<Rightarrow> address \<Rightarrow> string \<Rightarrow> string \<Rightarrow> string \<Rightarrow> ('r convDb_scheme, convertResult) prog" where
  "executeConversion E hex wallet amount fromRaw toRaw =
    andThen (assertAllowedConversion wallet fromRaw toRaw) (\<lambda>_.
    let from = toUpper fromRaw; to = toUpper toRaw in
    if \<not> isUsdCode from \<and> isUsdCode to then convertFiatToUsd E hex wallet amount from
    else if isUsdCode from \<and> \<not> isUsdCode to then convertUsdToFiat E hex wallet amount to
    else raise (invalidPair ''Only treasury currency - USD conversions are supported (not treasury to treasury)''))"

section \<open>What leaves the ledger alone\<close>

lemma fxFrame_vault: "keeps (fxFrame s) m \<Longrightarrow> m s = (r, t) \<Longrightarrow> vault t = vault s"
  using keepsD [of "fxFrame s" m s] fxFrame_sel(1) [of s t] by simp

lemma getRate_vault [keeps_vault]: "keeps (vaultIs v) (getRate E a b)"
proof (rule keepsI)
  fix s :: "'a platform_scheme"
  assume "vaultIs v s"
  then show "vaultIs v (snd (getRate E a b s))"
    using fxFrame_vault [OF getRate_frame, of E a b s] by (cases "getRate E a b s") (simp add: vaultIs_def)
qed

lemma getRevenueConfig_vault [keeps_vault]: "keeps (vaultIs v) getRevenueConfig"
proof (rule keepsI)
  fix s :: "'a platform_scheme"
  assume "vaultIs v s"
  then show "vaultIs v (snd (getRevenueConfig s))"
    by (cases rule: getRevenueConfig_cases [of s]) (simp_all add: vaultIs_def)
qed

lemma conversion_reads_vault [keeps_vault]:
  "keeps (vaultIs v) (unifiedBalanceOf E w cur)"
  "keeps (vaultIs v) (persistConversion row)"
  "keeps (vaultIs v) (homeFiatForWallet w)"
  unfolding unifiedBalanceOf_def persistConversion_def homeFiatForWallet_def
  by (intro keeps_intro keeps_vault keeps_vault_write; simp)+

lemma assertAllowed_vault [keeps_vault]: "keeps (vaultIs v) (assertAllowedConversion w a b)"
  unfolding assertAllowedConversion_def Let_def by (intro keeps_intro keeps_vault)

lemma fxFrame_sound: "keeps (fxFrame s) m \<Longrightarrow> vaultSound s \<Longrightarrow> vaultSound (snd (m s))"
  using keepsD [of "fxFrame s" m s] fxFrame_sel(1) [of s "snd (m s)"] vaultSound_cong [of "snd (m s)" s] by simp

lemma getRate_sound [keeps_sound]: "keeps vaultSound (getRate E a b)"
  by (rule keepsI) (rule fxFrame_sound [OF getRate_frame])

lemma getRevenueConfig_sound [keeps_sound]: "keeps vaultSound getRevenueConfig"
proof (rule keepsI)
  fix s :: "'a platform_scheme"
  assume "vaultSound s"
  then show "vaultSound (snd (getRevenueConfig s))"
    by (cases rule: getRevenueConfig_cases [of s]) (simp_all add: vaultSound_def)
qed

lemma keeps_sound_write: "(\<And>s. vault (f s) = vault s) \<Longrightarrow> keeps vaultSound (writeIO f)"
  by (rule keeps_writeIO) (simp_all add: vaultSound_def)

lemma conversion_reads_sound [keeps_sound]:
  "keeps vaultSound (unifiedBalanceOf E w cur)"
  "keeps vaultSound (persistConversion row)"
  "keeps vaultSound (homeFiatForWallet w)"
  "keeps vaultSound (spendCurrencyForCountry cc)"
  "keeps vaultSound (treasuryCorridorForFiat fiat)"
  unfolding unifiedBalanceOf_def persistConversion_def homeFiatForWallet_def spendCurrencyForCountry_def
    treasuryCorridorForFiat_def
  by (intro keeps_intro keeps_sound keeps_sound_write; simp)+

lemma assertAllowed_sound [keeps_sound]: "keeps vaultSound (assertAllowedConversion w a b)"
  unfolding assertAllowedConversion_def Let_def by (intro keeps_intro keeps_sound)

lemma convert_sound [keeps_sound]:
  "keeps vaultSound (convertFiatToUsd E hex w amt fiat)"
  "keeps vaultSound (convertUsdToFiat E hex w amt fiat)"
  unfolding convertFiatToUsd_def convertUsdToFiat_def Let_def by (intro keeps_intro keeps_sound)+

text \<open>
  A conversion keeps the Vault's share ledger sound in every currency, whether it succeeds,
  is refused, or fails in the middle.
\<close>

theorem executeConversion_sound: "keeps vaultSound (executeConversion E hex w amount a b)"
  unfolding executeConversion_def Let_def by (intro keeps_intro keeps_sound)

section \<open>The outcomes of a conversion\<close>

lemma currencyHash_upper [simp]: "currencyHash E (toUpper c) = currencyHash E c"
  by (simp add: currencyHash_def)

text \<open>
  \<open>exchangeOutcome v u c d v'\<close>: of the debit in \<open>c\<close> and the credit in \<open>d\<close>, none, the first, or both
  took effect on the ledger.
\<close>

definition bothLegs :: "vault \<Rightarrow> address \<Rightarrow> bytes32 \<Rightarrow> bytes32 \<Rightarrow> vault \<Rightarrow> bool" where
  "bothLegs v u c d v' \<longleftrightarrow> (\<exists>n m v1. 0 < n \<and> 0 < m \<and> debitAssets u c n v = Inr v1 \<and> creditAssets u d m v1 = Inr v')"

definition firstLeg :: "vault \<Rightarrow> address \<Rightarrow> bytes32 \<Rightarrow> vault \<Rightarrow> bool" where
  "firstLeg v u c v' \<longleftrightarrow> (\<exists>n. 0 < n \<and> debitAssets u c n v = Inr v')"

definition exchangeOutcome :: "vault \<Rightarrow> address \<Rightarrow> bytes32 \<Rightarrow> bytes32 \<Rightarrow> vault \<Rightarrow> bool" where
  "exchangeOutcome v u c d v' \<longleftrightarrow> v' = v \<or> firstLeg v u c v' \<or> bothLegs v u c d v'"

lemma legs_triple:
  assumes step: "\<And>v1. triple (vaultIs v1) k
      (\<lambda>_ t. 0 < m \<and> creditAssets u d (nat m) v1 = Inr (vault t))
      (\<lambda>t. vault t = v1 \<or> (0 < m \<and> creditAssets u d (nat m) v1 = Inr (vault t)))"
    and rest: "\<And>x v2. triple (vaultIs v2) (rest x) (\<lambda>_. vaultIs v2) (vaultIs v2)"
  shows "triple (\<lambda>s. 0 < n \<and> debitAssets u c (nat n) v = Inr (vault s)) (andThen k rest)
     (\<lambda>_ t. bothLegs v u c d (vault t)) (\<lambda>t. exchangeOutcome v u c d (vault t))"
proof (rule tripleI)
  have fl: "0 < n \<Longrightarrow> debitAssets u c (nat n) v = Inr v1 \<Longrightarrow> firstLeg v u c v1" for v1
    unfolding firstLeg_def by (metis zero_less_nat_eq)
  have bl: "0 < n \<Longrightarrow> debitAssets u c (nat n) v = Inr v1 \<Longrightarrow> 0 < m \<Longrightarrow> creditAssets u d (nat m) v1 = Inr v2
      \<Longrightarrow> bothLegs v u c d v2" for v1 v2
    unfolding bothLegs_def by (metis zero_less_nat_eq)
  {
    fix s y t
    assume s: "0 < n \<and> debitAssets u c (nat n) v = Inr (vault s)" and run: "andThen k rest s = (Inr y, t)"
    obtain x a where a: "k s = (Inr x, a)" and r: "rest x a = (Inr y, t)" using run by (rule andThen_InrE)
    have "0 < m \<and> creditAssets u d (nat m) (vault s) = Inr (vault a)"
      using triple_InrD [OF step [of "vault s"] _ a] by (simp add: vaultIs_def)
    moreover have "vault t = vault a"
      using triple_InrD [OF rest [of "vault a"] _ r] by (simp add: vaultIs_def)
    ultimately show "bothLegs v u c d (vault t)" using bl s by simp
  next
    fix s e t
    assume s: "0 < n \<and> debitAssets u c (nat n) v = Inr (vault s)" and run: "andThen k rest s = (Inl e, t)"
    obtain q a where a: "k s = (q, a)" by fastforce
    show "exchangeOutcome v u c d (vault t)"
    proof (cases q)
      case (Inl e')
      then have "vault t = vault s \<or> (0 < m \<and> creditAssets u d (nat m) (vault s) = Inr (vault t))"
        using triple_InlD [OF step [of "vault s"]] a run by (simp add: vaultIs_def)
      then show ?thesis using fl bl s unfolding exchangeOutcome_def by metis
    next
      case (Inr x)
      then have r: "rest x a = (Inl e, t)" and c: "0 < m \<and> creditAssets u d (nat m) (vault s) = Inr (vault a)"
        using a run triple_InrD [OF step [of "vault s"]] by (auto simp: vaultIs_def)
      have "vault t = vault a"
        using triple_InlD [OF rest [of "vault a"] _ r] by (simp add: vaultIs_def)
      then show ?thesis using bl s c unfolding exchangeOutcome_def by metis
    qed
  }
qed

lemma persist_triple:
  "triple (vaultIs v) (andThen (gets clock) (\<lambda>now. andThen (persistConversion (f now)) (\<lambda>_. ret (g now))))
     (\<lambda>_. vaultIs v) (vaultIs v)"
  by (rule triple_keeps) (intro keeps_intro keeps_vault)

lemma debit_then:
  assumes "\<And>h. triple (\<lambda>s. 0 < n \<and> debitAssets w (currencyHash E cur) (nat n) v = Inr (vault s)) (k h)
     (\<lambda>_ t. bothLegs v w (currencyHash E cur) d (vault t)) (\<lambda>t. exchangeOutcome v w (currencyHash E cur) d (vault t))"
  shows "triple (vaultIs v) (andThen (vaultAdminDebit E w n cur) k)
     (\<lambda>_ t. bothLegs v w (currencyHash E cur) d (vault t)) (\<lambda>t. exchangeOutcome v w (currencyHash E cur) d (vault t))"
proof (rule triple_andThen [OF triple_conseq [OF debit_triple] assms])
  show "exchangeOutcome v w (currencyHash E cur) d (vault s)"
    if "vault s = v \<or> (0 < n \<and> debitAssets w (currencyHash E cur) (nat n) v = Inr (vault s))" for s
    using that unfolding exchangeOutcome_def firstLeg_def by (metis zero_less_nat_eq)
qed auto

lemma outcome_same: "vaultIs v s \<Longrightarrow> exchangeOutcome v u c d (vault s)"
  by (simp add: exchangeOutcome_def vaultIs_def)

text \<open>
  C8. A conversion from fiat to USD, on any network: when it returns, exactly one debit of the
  fiat and one credit of USDC took effect; when it throws, none, only the debit, or both did.
  It never credits without having debited, and never debits twice.
\<close>

theorem convertFiatToUsd_outcome:
  "triple (vaultIs v) (convertFiatToUsd E hex w amt fiat)
     (\<lambda>_ t. bothLegs v w (currencyHash E fiat) (currencyHash E ''USDC'') (vault t))
     (\<lambda>t. exchangeOutcome v w (currencyHash E fiat) (currencyHash E ''USDC'') (vault t))"
  unfolding convertFiatToUsd_def Let_def
    by ((rule debit_then [where cur = "toUpper fiat", unfolded currencyHash_upper] | rule legs_triple | rule credit_triple
        | rule persist_triple | rule triple_ofOption | rule triple_require | rule triple_skip
        | erule outcome_same | (intro keeps_intro keeps_vault)[1])+)

lemma convertUsdToFiat_outcome:
  "triple (vaultIs v) (convertUsdToFiat E hex w amt fiat)
     (\<lambda>_ t. bothLegs v w (currencyHash E ''USDC'') (currencyHash E fiat) (vault t))
     (\<lambda>t. exchangeOutcome v w (currencyHash E ''USDC'') (currencyHash E fiat) (vault t))"
  unfolding convertUsdToFiat_def Let_def
    by ((rule debit_then | rule legs_triple | rule creditFiat_triple [where fiat = "toUpper fiat", unfolded currencyHash_upper]
        | rule persist_triple | rule triple_ofOption | rule triple_require | rule triple_skip
        | erule outcome_same | (intro keeps_intro keeps_vault)[1])+)

section \<open>The spread, up to rounding\<close>

lemma spreadFactor_le: "0 \<le> bps \<Longrightarrow> spreadFactor bps \<le> 1"
  unfolding spreadFactor_def jsSub_def jsDiv_def by (rule b64.rnd_le_1) (simp add: fl_nonneg)

lemma spreadFactor_0: "spreadFactor 0 = 1"
  by (simp add: spreadFactor_def jsSub_def jsDiv_def b64.rnd_1)

lemma fl_error_unit:
  assumes "0 \<le> x" and "x \<le> 1"
  shows "\<bar>fl x - x\<bar> \<le> eps / 2"
proof (cases "x = 1")
  case False
  then show ?thesis
    using fl_error_below [of x 0] assms by (simp add: eps_def pow2_def)
qed (simp add: b64.rnd_1 eps_def)

text \<open>The factor the server multiplies by is the exact one up to one \<open>eps\<close>.\<close>

lemma spreadFactor_error:
  assumes "0 \<le> bps" and "bps \<le> 10000"
  shows "\<bar>spreadFactor bps - (1 - of_int bps / 10000)\<bar> \<le> eps"
proof -
  let ?q = "of_int bps / 10000 :: rat"
  have q: "0 \<le> ?q" "?q \<le> 1" using assms by simp_all
  have "0 \<le> 1 - fl ?q" "1 - fl ?q \<le> 1"
    using b64.rnd_le_1 [OF q(2)] fl_nonneg [OF q(1)] by simp_all
  then have "\<bar>fl (1 - fl ?q) - (1 - fl ?q)\<bar> \<le> eps / 2" by (rule fl_error_unit)
  moreover have "\<bar>fl ?q - ?q\<bar> \<le> eps / 2" using q by (rule fl_error_unit)
  ultimately show ?thesis unfolding spreadFactor_def jsSub_def jsDiv_def by linarith
qed

lemma spreadFactor_range:
  assumes "0 \<le> bps" and "bps \<le> 10000"
  shows "spreadFactor bps = 0 \<or> 1 / 2 ^ 14 \<le> spreadFactor bps"
proof (cases "bps = 10000")
  case True
  then show ?thesis by (simp add: spreadFactor_def jsSub_def jsDiv_def b64.rnd_1)
next
  case False
  then have "(of_int bps :: rat) \<le> 9999" using assms(2) by linarith
  then have "1 / 10000 \<le> 1 - (of_int bps :: rat) / 10000" by simp
  moreover have "1 - (of_int bps :: rat) / 10000 - eps \<le> spreadFactor bps"
    using spreadFactor_error [OF assms] by (simp add: abs_le_iff)
  moreover have "(1 :: rat) / 2 ^ 14 \<le> 1 / 10000 - eps" by (simp add: eps_def)
  ultimately show ?thesis by linarith
qed

text \<open>
  Five roundings and one error in the factor: \<open>paysWithin x bps u\<close> says that \<open>u\<close> whole units are what \<open>x\<close> units
  less a spread of \<open>bps\<close> basis points comes to, up to those errors and the rounding down.
\<close>

definition paysWithin :: "rat \<Rightarrow> int \<Rightarrow> int \<Rightarrow> bool" where
  "paysWithin x bps u \<longleftrightarrow> (let s = 1 - of_int bps / 10000 in
     x * (s - 1 / 2 ^ 53) * (1 - 1 / 2 ^ 53) ^ 5 - 1 < of_int u
     \<and> of_int u \<le> x * (s + 1 / 2 ^ 53) * (1 + 1 / 2 ^ 53) ^ 5)"

lemma chain_paysWithin:
  assumes "1 \<le> n" and "0 < d" and "d \<le> 2 ^ 60" and "pow2 (- 900) \<le> rate" and "1 \<le> m" and "0 \<le> bps" and "bps \<le> 10000"
  shows "paysWithin (n / d * rate * m) bps (jsFloor (amountChain n d rate (spreadFactor bps) m))"
proof -
  let ?f = "spreadFactor bps" and ?x = "n / d * rate * m" and ?s = "1 - of_int bps / 10000 :: rat"
  let ?y = "amountChain n d rate ?f m"
  have r: "roundings 5 (?x * ?f) ?y"
    using amountChain_roundings [OF assms(1-4) spreadFactor_range [OF assms(6,7)] assms(5)] by (simp add: mult_ac)
  have x: "0 \<le> ?x" using assms order.trans [OF pow2_nonneg assms(4)] by simp
  have f: "?s - eps \<le> ?f" "?f \<le> ?s + eps"
    using spreadFactor_error [OF assms(6,7)] by (simp_all add: abs_le_iff)
  have "?x * (?s - eps) * (1 - eps) ^ 5 \<le> ?x * ?f * (1 - eps) ^ 5"
    using f(1) x eps_bounds by (intro mult_right_mono mult_left_mono) auto
  moreover have "?x * ?f * (1 + eps) ^ 5 \<le> ?x * (?s + eps) * (1 + eps) ^ 5"
    using f(2) x eps_bounds by (intro mult_right_mono mult_left_mono) auto
  moreover have "?x * ?f * (1 - eps) ^ 5 \<le> ?y" "?y \<le> ?x * ?f * (1 + eps) ^ 5"
    using r by (simp_all add: roundings_def mult.commute)
  moreover have "of_int (jsFloor ?y) \<le> ?y" "?y < of_int (jsFloor ?y) + 1"
    unfolding jsFloor_def by linarith+
  ultimately show ?thesis
    unfolding paysWithin_def Let_def eps_def [symmetric] by linarith
qed

text \<open>
  C9. In double arithmetic as the server computes it, a conversion pays the exact quoted amount less the
  spread, rounded down to whole units, up to a relative error of \<open>(1 + 2^-53)^5\<close> and an error of \<open>2^-53\<close> in the
  factor: in both directions, for every positive amount, at most 18 decimals, every rate from \<open>2^-900\<close> up whose
  results stay below \<open>2^1024\<close>, and every spread from 0 to 10000 basis points.
\<close>

theorem spread_never_favours_customer:
  assumes "0 < n" and "dec \<le> 18" and "1 / 2 ^ 900 \<le> rate" and "0 \<le> bps" and "bps \<le> 10000"
  shows "paysWithin (of_int n / 10 ^ dec * rate * 1000000) bps (fiatToUsdcUnits n dec rate bps)
    \<and> paysWithin (of_int n / 1000000 * rate * 10 ^ dec) bps (usdcToFiatUnits n dec rate bps)"
proof -
  have n: "1 \<le> (of_int n :: rat)" using assms(1) by simp
  have "(10 :: rat) ^ dec \<le> 10 ^ 18" using assms(2) by (intro power_increasing) auto
  then have d: "(10 :: rat) ^ dec \<le> 2 ^ 60" "(1 :: rat) \<le> 10 ^ dec" by (simp_all del: power_increasing_iff)
  have r: "pow2 (- 900) \<le> rate" using assms(3) by (simp add: pow2_def)
  have "paysWithin (of_int n / 10 ^ dec * rate * 1000000) bps (fiatToUsdcUnits n dec rate bps)"
    using chain_paysWithin [OF n _ d(1) r _ assms(4,5), of 1000000]
    by (simp add: fiatToUsdcUnits_def amountChain_def numOfBig_def Let_def)
  moreover have "paysWithin (of_int n / 1000000 * rate * 10 ^ dec) bps (usdcToFiatUnits n dec rate bps)"
    using chain_paysWithin [OF n _ _ r d(2) assms(4,5), of 1000000]
    by (simp add: usdcToFiatUnits_def amountChain_def numOfBig_def Let_def)
  ultimately show ?thesis by blast
qed

lemma demo_spread: "spreadFactor 2500 = 3/4"
  by (simp add: spreadFactor_def jsDiv_def jsSub_def fl_dyadic [of "1/4" 2 1] fl_dyadic [of "3/4" 2 3])

lemma demo_fiatToUsdc: "fiatToUsdcUnits 12800 2 (1/16) 2500 = 6000000" "fiatToUsdcUnits 12800 2 (1/16) 0 = 8000000"
  using fl_int [of 12800] fl_int [of 128] fl_int [of 8] fl_int [of 6] fl_int [of 6000000] fl_int [of 8000000]
  by (simp_all add: fiatToUsdcUnits_def Let_def numOfBig_def jsDiv_def jsMul_def jsFloor_def demo_spread spreadFactor_0)

lemma spread_never_favours_customer_witness:
  "paysWithin 8000000 2500 6000000 \<and> \<not> paysWithin 8000000 2500 (fiatToUsdcUnits 12800 2 (1/16) 0)"
proof -
  have "(1 :: rat) / 2 ^ 900 \<le> 1 / 16" by simp
  from spread_never_favours_customer [of 12800 2 "1/16" 2500, OF _ _ this]
  have "paysWithin 8000000 2500 6000000" by (simp add: demo_fiatToUsdc)
  moreover have "\<not> paysWithin 8000000 2500 8000000" by (simp add: paysWithin_def power_divide)
  ultimately show ?thesis by (simp add: demo_fiatToUsdc)
qed

text \<open>In particular a larger spread than none never pays more, with no condition on the size of the rate.\<close>

lemma spread_step:
  assumes "0 \<le> x" and "0 \<le> k" and "0 \<le> bps" and "0 \<le> r"
  shows "jsFloor (jsMul (jsMul (jsMul x r) (spreadFactor bps)) k) \<le> jsFloor (jsMul (jsMul (jsMul x r) (spreadFactor 0)) k)"
proof -
  have nn: "0 \<le> jsMul x r" using assms by (simp add: jsMul_def fl_nonneg)
  have "jsMul (jsMul x r) (spreadFactor bps) \<le> jsMul x r"
    unfolding jsMul_def [of "jsMul x r"]
    by (rule b64.rnd_shrink [OF nn _ spreadFactor_le [OF assms(3)]]) (simp add: jsMul_def)
  also have "jsMul x r = jsMul (jsMul x r) (spreadFactor 0)"
    by (simp add: jsMul_def spreadFactor_0)
  finally show ?thesis
    unfolding jsFloor_def jsMul_def [of _ k] by (intro floor_mono b64.rnd_scale_mono assms)
qed

lemma spread_pays_no_more:
  assumes "0 \<le> n" and "0 \<le> rate" and "0 \<le> bps"
  shows "fiatToUsdcUnits n dec rate bps \<le> fiatToUsdcUnits n dec rate 0"
    and "usdcToFiatUnits n dec rate bps \<le> usdcToFiatUnits n dec rate 0"
proof -
  have "0 \<le> jsDiv (numOfBig n) (10 ^ dec)" "0 \<le> jsDiv (numOfBig n) 1000000"
    using assms(1) by (simp_all add: jsDiv_def numOfBig_def fl_nonneg)
  then show "fiatToUsdcUnits n dec rate bps \<le> fiatToUsdcUnits n dec rate 0"
    and "usdcToFiatUnits n dec rate bps \<le> usdcToFiatUnits n dec rate 0"
    unfolding fiatToUsdcUnits_def usdcToFiatUnits_def Let_def using spread_step assms by simp_all
qed

section \<open>Which pairs convert\<close>

lemma vaultIs_trivial: "vaultIs (vault s) s"
  by (simp add: vaultIs_def)

lemma homeFiat_tables:
  "homeFiatForWallet w s = (Inr l, t) \<Longrightarrow> \<exists>rest. t = s\<lparr>net := rest\<rparr>"
  unfolding homeFiatForWallet_def spendCurrencyForCountry_def
  by (auto simp: andThen_Inr_iff dest!: readIO_InrD)

lemma corridor_tables:
  assumes "treasuryCorridorForFiat f s = (Inr (Some c), t)"
  shows "\<exists>sc\<in>set (stablecoins s). \<exists>cu\<in>set (currencies s). internalCode sc = c \<and> isTreasuryToken sc
    \<and> currencyCode cu = internalCode sc \<and> baseCurrency cu = toUpper f"
proof -
  obtain rest where "Some c = map_option internalCode (headOpt (sort_key (primaryRank \<circ> isPrimary)
     [sc. sc \<leftarrow> stablecoins s, cu \<leftarrow> currencies s,
        currencyCode cu = internalCode sc \<and> isTreasuryToken sc \<and> baseCurrency cu = toUpper f]))"
    using assms unfolding treasuryCorridorForFiat_def by (auto dest!: readIO_InrD)
  from this [symmetric] show ?thesis by (auto dest!: headOpt_SomeD)
qed

lemma assertAllowed_InrD:
  assumes "assertAllowedConversion w a b s = (Inr u, t)"
  obtains f l where "isUsdCode a \<noteq> isUsdCode b" and "f = (if isUsdCode a then toUpper b else toUpper a)"
    and "\<exists>t'. homeFiatForWallet w s = (Inr l, t')" and "f = l \<or> f = ''ZAR''"
    and "\<exists>sc\<in>set (stablecoins s). \<exists>cu\<in>set (currencies s). isTreasuryToken sc
      \<and> currencyCode cu = internalCode sc \<and> baseCurrency cu = f"
proof -
  let ?f = "if isUsdCode a then toUpper b else toUpper a"
  have up: "isUsdCode (toUpper x) = isUsdCode x" for x by (simp add: isUsdCode_def)
  obtain l s1 where l: "homeFiatForWallet w s = (Inr l, s1)"
    using assms unfolding assertAllowedConversion_def Let_def by (auto elim: andThen_InrE)
  have "isUsdCode a \<noteq> isUsdCode b \<and> (\<exists>c s2. treasuryCorridorForFiat ?f s1 = (Inr c, s2) \<and> orElse c [] \<noteq> [])
      \<and> (?f = l \<or> ?f = ''ZAR'')"
    using assms l unfolding assertAllowedConversion_def Let_def up
    by (cases "isUsdCode a"; cases "isUsdCode b") (auto simp: andThen_Inr_iff)
  then obtain c s2 where ne: "isUsdCode a \<noteq> isUsdCode b" and c: "treasuryCorridorForFiat ?f s1 = (Inr (Some c), s2)"
    and z: "?f = l \<or> ?f = ''ZAR''"
    by (metis (no_types, lifting) not_None_eq orElse_simps(1))
  have "stablecoins s1 = stablecoins s" "currencies s1 = currencies s"
    using homeFiat_tables [OF l] by auto
  then show thesis
    using that [OF ne refl _ z] l corridor_tables [OF c] by (auto split: if_splits)
qed

text \<open>
  A conversion that succeeds is between USD and exactly one fiat, which is the wallet's home
  currency or ZAR and has a treasury token: never fiat to fiat, never USD to USD.
\<close>

theorem executeConversion_pair:
  assumes "executeConversion E hex w amount a b s = (Inr r, t)"
  shows "isUsdCode a \<noteq> isUsdCode b
    \<and> (\<exists>l t'. homeFiatForWallet w s = (Inr l, t')
        \<and> (if isUsdCode a then toUpper b else toUpper a) \<in> {l, ''ZAR''})
    \<and> (\<exists>sc\<in>set (stablecoins s). \<exists>cu\<in>set (currencies s). isTreasuryToken sc
        \<and> currencyCode cu = internalCode sc \<and> baseCurrency cu = (if isUsdCode a then toUpper b else toUpper a))"
proof -
  obtain s1 where "assertAllowedConversion w a b s = (Inr (), s1)"
    using assms unfolding executeConversion_def by (auto elim: andThen_InrE)
  then obtain f l where "isUsdCode a \<noteq> isUsdCode b" and "f = (if isUsdCode a then toUpper b else toUpper a)"
    and "\<exists>t'. homeFiatForWallet w s = (Inr l, t')" and "f = l \<or> f = ''ZAR''"
    and "\<exists>sc\<in>set (stablecoins s). \<exists>cu\<in>set (currencies s). isTreasuryToken sc
      \<and> currencyCode cu = internalCode sc \<and> baseCurrency cu = f"
    by (rule assertAllowed_InrD)
  then show ?thesis by blast
qed

definition demoConvDb :: convDb where
  "demoConvDb = cashInDb.extend demoCashDb (convDb.fields [])"

lemma demoConv_sel [simp]:
  "net demoConvDb = []" "vault demoConvDb = demoVault" "txCount demoConvDb = 0" "clock demoConvDb = 1700000000000"
  "consumers demoConvDb = consumers demoPlatform" "countries demoConvDb = countries demoPlatform"
  "currencies demoConvDb = currencies demoPlatform" "stablecoins demoConvDb = stablecoins demoPlatform"
  "fxOverrides demoConvDb = fxOverrides demoPlatform" "appConfig demoConvDb = appConfig demoPlatform"
  "revenueCache demoConvDb = None" "erc demoConvDb = erc demoPlatform" "tts demoConvDb = tts demoPlatform"
  by (simp_all add: demoConvDb_def demoCashDb_def cashInDb.defs convDb.defs platform.defs demoPlatform_def)

lemma text_values [simp]:
  "parseExample ''128'' 2 = Some 12800" "upperChar CHR ''Z'' = CHR ''Z''" "upperChar CHR ''A'' = CHR ''A''"
  "upperChar CHR ''R'' = CHR ''R''" "upperChar CHR ''U'' = CHR ''U''" "upperChar CHR ''S'' = CHR ''S''"
  "upperChar CHR ''D'' = CHR ''D''" "upperChar CHR ''C'' = CHR ''C''" "parseIntOf ''2500'' = Some 2500" "parseIntOf [] = None"
  by code_simp+

lemma demo_tables:
  "countries demoPlatform = [\<lparr>countryCode = ''ZA'', countryCurrency = ''ZAR'', countryActive = True\<rparr>]"
  "currencies demoPlatform = [\<lparr>currencyCode = ''ZAR'', baseCurrency = ''ZAR'', currencySym = Some ''R'', currencyDec = Some 2\<rparr>,
       \<lparr>currencyCode = ''TTZA'', baseCurrency = ''ZAR'', currencySym = None, currencyDec = Some 2\<rparr>]"
  "stablecoins demoPlatform = [\<lparr>internalCode = ''TTZA'', isTreasuryToken = True, isDeployed = True, contractAddress = Some 3, isPrimary = Some True\<rparr>]"
  "consumers demoPlatform = [\<lparr>consumerId = ''c1'', consumerWallet = Some 10, consumerCountry = ''ZA'', consumerKycLevel = Some 1,
         consumerActive = True, consumerGlobalId = Some 1001, consumerTag = Some ''ann''\<rparr>,
       \<lparr>consumerId = ''c2'', consumerWallet = Some 11, consumerCountry = ''ZA'', consumerKycLevel = Some 1,
         consumerActive = True, consumerGlobalId = Some 1002, consumerTag = Some ''bob''\<rparr>]"
  "fxOverrides demoPlatform = [((''ZAR'', ''USD''), 1/16), ((''USD'', ''ZAR''), 16)]"
  "appConfig demoPlatform = [(''revenue.fx_spread_bps'', ''2500'')]"
  by (simp_all add: demoPlatform_def)

lemma demo_assertAllowed: "assertAllowedConversion 10 ''ZAR'' ''USD'' demoConvDb = (Inr (), demoConvDb)"
  by (simp add: assertAllowedConversion_def homeFiatForWallet_def spendCurrencyForCountry_def treasuryCorridorForFiat_def
      isUsdCode_def demo_tables Let_def)

lemma demo_debit: "\<exists>v. adminDebit 2 10 12800 0x15A4152 demoVault = Inr v \<and> isExecutor v = isExecutor demoVault
    \<and> totalShares v 0x155534443 = 30000000 \<and> totalAssets v 0x155534443 = 30000000 \<and> shares v 10 0x155534443 = 30000000"
  by (simp add: adminDebit_def debitAssets_def convertToAssets_def convertToShares_def demoVault_def demoShares_def
      mul256_def sub256_def add256_def uintLimit_def setPool_def setShares_def guard_def)

lemma demo_convert: "\<exists>r t. executeConversion demoEnv ''ab'' 10 ''128'' ''ZAR'' ''USD'' demoConvDb = (Inr r, t)"
proof -
  obtain v where v: "adminDebit 2 10 12800 0x15A4152 demoVault = Inr v" and ex: "isExecutor v = isExecutor demoVault"
    and u: "totalShares v 0x155534443 = 30000000" "totalAssets v 0x155534443 = 30000000" "shares v 10 0x155534443 = 30000000"
    using demo_debit by blast
  have "isExecutor demoVault 2" by (simp add: demoVault_def)
  then obtain w where w: "adminCredit 2 10 6000000 0x155534443 v = Inr w"
    using ex u by (auto simp: adminCredit_def creditAssets_def convertToShares_def mul256_def add256_def uintLimit_def)
  have b: "unifiedBalance demoVault 10 0x15A4152 = Inr 50000"
    by (simp add: unifiedBalance_def convertToAssets_def demoVault_def demoShares_def mul256_def uintLimit_def)
  have usdc: "usdcToken demoVault = 4" by (simp add: demoVault_def)
  have f: "fl (1/16) = 1/16" by (rule fl_dyadic [of _ 4 1]) simp_all
  let ?s1 = "demoConvDb\<lparr>revenueCache := Some (\<lparr>fxSpreadBps = 2500, settlementFeeBps = 150, withdrawalFeeBps = 150\<rparr>, 1700000030000)\<rparr>"
  have rev: "getRevenueConfig demoConvDb = (Inr \<lparr>fxSpreadBps = 2500, settlementFeeBps = 150, withdrawalFeeBps = 150\<rparr>, ?s1)"
    by (simp add: getRevenueConfig_def tryCatch_def revenueOfRows_def parseBps_def revenueDefaults_def demo_tables ttlMs_def Let_def)
  have rate: "getRate demoEnv ''ZAR'' ''USD'' demoConvDb = (Inr \<lparr>fxqFrom = ''ZAR'', fxqTo = ''USD'', fxqRate = Some (1/16),
    fxqSource = FxOverride, fxqAsOf = None\<rparr>, demoConvDb)"
    using getRate_override [of demoConvDb "''ZAR''" "''USD''" "1/16" demoEnv] by (simp add: demo_tables f)
  have res: "usdcReserveUnits demoEnv ?s1 = (Inr 100000000, ?s1)"
    by (simp add: usdcReserveUnits_def usdc tokenBalance_def demoPlatform_def)
  let ?s2 = "?s1\<lparr>vault := v, txCount := Suc 0\<rparr>"
  have deb: "vaultAdminDebit demoEnv 10 12800 ''ZAR'' ?s1 = (Inr 0, ?s2)"
    using v by (simp add: vaultAdminDebit_def vaultWriter_def sendTx_calm onVault_def)
  have cred: "vaultAdminCredit demoEnv 10 6000000 ''USDC'' ?s2 = (Inr (Suc 0), ?s2\<lparr>vault := w, txCount := Suc (Suc 0)\<rparr>)"
    using w by (simp add: vaultAdminCredit_def vaultWriter_def sendTx_calm onVault_def)
  have bal: "unifiedBalanceOf demoEnv 10 ''ZAR'' demoConvDb = (Inr 50000, demoConvDb)"
    by (simp add: unifiedBalanceOf_def callView_calm b)
  show ?thesis
    by (simp add: executeConversion_def demo_assertAllowed convertFiatToUsd_def isUsdCode_def currencyDecimals_def
        bal rate rev demo_fiatToUsdc res deb cred persistConversion_def tryCatch_def Let_def)
qed

lemma executeConversion_pair_witness:
  "isUsdCode ''ZAR'' \<noteq> isUsdCode ''USD'' \<and> (\<exists>r t. executeConversion demoEnv ''ab'' 10 ''128'' ''ZAR'' ''USD'' demoConvDb = (Inr r, t))"
proof -
  obtain r t where run: "executeConversion demoEnv ''ab'' 10 ''128'' ''ZAR'' ''USD'' demoConvDb = (Inr r, t)"
    using demo_convert by blast
  show ?thesis using executeConversion_pair [OF run] run by blast
qed

end
