(* ===== verification/Escrow.thy ===== *)
theory Escrow
  imports Conversion
begin

text \<open>
  \<open>escrowService.ts\<close> and \<open>claim.routes.ts\<close>: value sent to a phone number is held by the platform's
  escrow account until the beneficiary redeems the claim's secret, or the sender gets it back after
  a week. A secret (\<open>randomBytes(24)\<close>) is an argument of \<open>createClaim\<close>. The amount column is
  NUMERIC(78,0), so its text is the decimal numeral of an integer and \<open>BigInt\<close> reads it back.
\<close>

datatype claimStatus = ClaimPending | Claimed | Reclaimed

record claimRow =
  pcId :: nat
  pcSecretHash :: bytes32
  pcSender :: address
  pcPhone :: string
  pcAmount :: int
  pcCurrency :: string
  pcStatus :: claimStatus
  pcEscrowTx :: txHash
  pcReleaseTx :: "txHash option"
  pcClaimedBy :: "address option"
  pcExpires :: int

record escrowDb = convDb +
  pendingClaims :: "claimRow list"

definition claimTtlMs :: int where
  "claimTtlMs = 7 * 24 * 60 * 60 * 1000"

definition escrowAddress :: "env \<Rightarrow> ('s, address) prog" where
  "escrowAddress E = ofOption (escrowAddr E) (plainErr ''No escrow address configured (PLATFORM_ESCROW_ADDRESS)'')"

definition hashSecret :: "env \<Rightarrow> string \<Rightarrow> bytes32" where
  "hashSecret E secret = sha256 E secret"

definition normalizePhone :: "string \<Rightarrow> string" where
  "normalizePhone p = filter (\<lambda>c. isDigit c \<or> c = CHR ''+'') p"

definition statusText :: "claimStatus \<Rightarrow> string" where
  "statusText st = (case st of ClaimPending \<Rightarrow> ''pending'' | Claimed \<Rightarrow> ''claimed'' | Reclaimed \<Rightarrow> ''reclaimed'')"

definition createClaim ::
  "env \<Rightarrow> string \<Rightarrow> address \<Rightarrow> string \<Rightarrow> int \<Rightarrow> string \<Rightarrow> txHash \<Rightarrow> ('r escrowDb_scheme, string \<times> int) prog" where
  "createClaim E secret senderWallet recipientPhone amount cur escrowTx =
    andThen (gets clock) (\<lambda>now.
    andThen (writeIO (\<lambda>s. s\<lparr>pendingClaims := pendingClaims s @
       [\<lparr>pcId = length (pendingClaims s), pcSecretHash = hashSecret E secret, pcSender = senderWallet,
         pcPhone = normalizePhone recipientPhone, pcAmount = amount, pcCurrency = toUpper cur,
         pcStatus = ClaimPending, pcEscrowTx = escrowTx, pcReleaseTx = None, pcClaimedBy = None,
         pcExpires = now + claimTtlMs\<rparr>]\<rparr>)) (\<lambda>_.
    ret (secret, now + claimTtlMs)))"

definition findClaim :: "bytes32 \<Rightarrow> 'r escrowDb_scheme \<Rightarrow> claimRow option" where
  "findClaim h s = find (\<lambda>c. pcSecretHash c = h) (pendingClaims s)"

definition getClaimBySecret :: "env \<Rightarrow> string \<Rightarrow> ('r escrowDb_scheme, claimRow option) prog" where
  "getClaimBySecret E secret = readIO (findClaim (hashSecret E secret))"

text \<open>The guards of \<open>redeemClaim\<close>, up to its first transaction.\<close>

definition redeemCheck :: "env \<Rightarrow> string \<Rightarrow> string \<Rightarrow> ('r escrowDb_scheme, claimRow) prog" where
  "redeemCheck E secret recipientPhone =
    andThen (getClaimBySecret E secret) (\<lambda>r.
    andThen (ofOption r (plainErr ''Claim not found'')) (\<lambda>claim.
    andThen (require (pcStatus claim = ClaimPending) (plainErr (''Claim already '' @ statusText (pcStatus claim)))) (\<lambda>_.
    andThen (gets clock) (\<lambda>now.
    andThen (require (now \<le> pcExpires claim) (plainErr ''Claim has expired'')) (\<lambda>_.
    andThen (require (normalizePhone recipientPhone = pcPhone claim)
      (plainErr ''Phone number does not match this claim'')) (\<lambda>_.
    ret claim))))))"

text \<open>The release: escrow debited first, recipient credited, claim marked if it is still pending.\<close>

definition markClaimed :: "env \<Rightarrow> string \<Rightarrow> address \<Rightarrow> txHash \<Rightarrow> ('r escrowDb_scheme, unit) prog" where
  "markClaimed E secret wallet tx = writeIO (\<lambda>s. s\<lparr>pendingClaims :=
     updWhere (\<lambda>c. pcSecretHash c = hashSecret E secret \<and> pcStatus c = ClaimPending)
       (\<lambda>c. c\<lparr>pcStatus := Claimed, pcClaimedBy := Some wallet, pcReleaseTx := Some tx\<rparr>) (pendingClaims s)\<rparr>)"

definition redeemRelease :: "env \<Rightarrow> string \<Rightarrow> address \<Rightarrow> claimRow \<Rightarrow> ('r escrowDb_scheme, txHash \<times> int \<times> string) prog" where
  "redeemRelease E secret wallet claim =
    andThen (escrowAddress E) (\<lambda>ea.
    andThen (vaultAdminDebit E ea (pcAmount claim) (pcCurrency claim)) (\<lambda>_.
    andThen (vaultAdminCredit E wallet (pcAmount claim) (pcCurrency claim)) (\<lambda>releaseTx.
    andThen (markClaimed E secret wallet releaseTx) (\<lambda>_.
    ret (releaseTx, pcAmount claim, pcCurrency claim)))))"

definition redeemClaim :: "env \<Rightarrow> string \<Rightarrow> address \<Rightarrow> string \<Rightarrow> ('r escrowDb_scheme, txHash \<times> int \<times> string) prog" where
  "redeemClaim E secret wallet phone =
    andThen (redeemCheck E secret phone) (redeemRelease E secret wallet)"

text \<open>One round of the loop of \<open>reclaimExpiredClaims\<close>: 1 when the claim was returned, 0 when it failed.\<close>

definition reclaimOne :: "env \<Rightarrow> claimRow \<Rightarrow> ('r escrowDb_scheme, nat) prog" where
  "reclaimOne E c = tryCatch
    (andThen (escrowAddress E) (\<lambda>ea.
     andThen (vaultAdminDebit E ea (pcAmount c) (pcCurrency c)) (\<lambda>_.
     andThen (vaultAdminCredit E (pcSender c) (pcAmount c) (pcCurrency c)) (\<lambda>tx.
     andThen (writeIO (\<lambda>s. s\<lparr>pendingClaims := updWhere (\<lambda>d. pcId d = pcId c \<and> pcStatus d = ClaimPending)
        (\<lambda>d. d\<lparr>pcStatus := Reclaimed, pcReleaseTx := Some tx\<rparr>) (pendingClaims s)\<rparr>)) (\<lambda>_.
     ret 1)))))
    (\<lambda>_. ret 0)"

fun reclaimLoop :: "env \<Rightarrow> claimRow list \<Rightarrow> nat \<Rightarrow> ('r escrowDb_scheme, nat) prog" where
  "reclaimLoop E [] n = ret n"
| "reclaimLoop E (c # cs) n = andThen (reclaimOne E c) (\<lambda>k. reclaimLoop E cs (n + k))"

definition reclaimExpiredClaims :: "env \<Rightarrow> ('r escrowDb_scheme, nat) prog" where
  "reclaimExpiredClaims E =
    andThen (readIO (\<lambda>s. filter (\<lambda>c. pcStatus c = ClaimPending \<and> pcExpires c < clock s) (pendingClaims s))) (\<lambda>rows.
    reclaimLoop E rows 0)"

section \<open>The routes of claim.routes.ts\<close>

definition maskPhone :: "string \<Rightarrow> string" where
  "maskPhone p = (if length p \<le> 3 then p
     else concat (replicate 3 [CHR 0xE2, CHR 0x80, CHR 0xA2]) @ '' '' @ drop (length p - 3) p)"

record claimView =
  cwStatus :: string
  cwAmount :: string
  cwCurrency :: string
  cwSender :: address
  cwPhoneHint :: string
  cwExpiresAt :: int
  cwExpired :: bool

definition getClaimRoute :: "env \<Rightarrow> string \<Rightarrow> ('r escrowDb_scheme, claimView reply) prog" where
  "getClaimRoute E secret = tryCatch
    (andThen (getClaimBySecret E secret) (\<lambda>r. case r of
        None \<Rightarrow> ret (ReplyErr 404 ''Claim not found'' None)
      | Some claim \<Rightarrow> andThen (gets clock) (\<lambda>now. ret (Reply
          \<lparr>cwStatus = statusText (pcStatus claim), cwAmount = showInt (pcAmount claim), cwCurrency = pcCurrency claim,
            cwSender = pcSender claim, cwPhoneHint = maskPhone (pcPhone claim), cwExpiresAt = pcExpires claim,
            cwExpired = (pcExpires claim < now)\<rparr>))))
    (\<lambda>e. ret (ReplyErr 500 (fmsg e) None))"

definition redeemRoute ::
  "env \<Rightarrow> string \<Rightarrow> address \<Rightarrow> string option \<Rightarrow> ('r escrowDb_scheme, (txHash \<times> int \<times> string) reply) prog" where
  "redeemRoute E secret wallet recipientPhone = tryCatch
    (case recipientPhone of
       None \<Rightarrow> ret (ReplyErr 400 ''recipientPhone required'' None)
     | Some p \<Rightarrow> if p = [] then ret (ReplyErr 400 ''recipientPhone required'' None)
         else andThen (redeemClaim E secret wallet p) (\<lambda>r. ret (Reply r)))
    (\<lambda>e. ret (ReplyErr 400 (fmsg e) None))"

section \<open>Soundness of the ledger\<close>

lemma escrow_steps_sound [keeps_sound]:
  "keeps vaultSound (escrowAddress E)"
  "keeps vaultSound (redeemCheck E secret phone)"
  "keeps vaultSound (markClaimed E secret w tx)"
  "keeps vaultSound (reclaimOne E c)"
  unfolding escrowAddress_def redeemCheck_def getClaimBySecret_def markClaimed_def reclaimOne_def
  by (intro keeps_intro keeps_sound keeps_sound_write; simp)+

lemma redeemClaim_sound [keeps_sound]: "keeps vaultSound (redeemClaim E secret w phone)"
  unfolding redeemClaim_def redeemRelease_def by (intro keeps_intro keeps_sound)

lemma reclaimLoop_sound [keeps_sound]: "keeps vaultSound (reclaimLoop E cs n)"
  by (induction cs arbitrary: n) (simp_all, (intro keeps_intro keeps_sound)+)

lemma reclaim_sound [keeps_sound]: "keeps vaultSound (reclaimExpiredClaims E)"
  unfolding reclaimExpiredClaims_def by (intro keeps_intro keeps_sound)

section \<open>What a redemption does\<close>

lemma redeemCheck_InrD:
  assumes "redeemCheck E secret phone s = (Inr c, t)"
  shows "findClaim (hashSecret E secret) s = Some c" and "pcStatus c = ClaimPending" and "clock s \<le> pcExpires c"
    and "normalizePhone phone = pcPhone c" and "\<exists>rest. t = s\<lparr>net := rest\<rparr>"
  using assms unfolding redeemCheck_def getClaimBySecret_def
  by (auto simp: andThen_Inr_iff findClaim_def dest!: readIO_InrD)

lemma redeemRelease_InrD:
  assumes "redeemRelease E secret w c s = (Inr (tx, a, cur), t)"
  obtains ea v1 where "escrowAddr E = Some ea" and "0 < pcAmount c"
    and "debitAssets ea (currencyHash E (pcCurrency c)) (nat (pcAmount c)) (vault s) = Inr v1"
    and "creditAssets w (currencyHash E (pcCurrency c)) (nat (pcAmount c)) v1 = Inr (vault t)"
    and "pendingClaims t = updWhere (\<lambda>d. pcSecretHash d = hashSecret E secret \<and> pcStatus d = ClaimPending)
       (\<lambda>d. d\<lparr>pcStatus := Claimed, pcClaimedBy := Some w, pcReleaseTx := Some tx\<rparr>) (pendingClaims s)"
    and "a = pcAmount c" and "cur = pcCurrency c"
proof -
  obtain ea h1 s1 s2 where ea: "escrowAddr E = Some ea" and d: "vaultAdminDebit E ea (pcAmount c) (pcCurrency c) s = (Inr h1, s1)"
    and cr: "vaultAdminCredit E w (pcAmount c) (pcCurrency c) s1 = (Inr tx, s2)"
    and m: "markClaimed E secret w tx s2 = (Inr (), t)" and res: "a = pcAmount c" "cur = pcCurrency c"
  proof -
    obtain ea where ea: "escrowAddr E = Some ea" and r1: "andThen (vaultAdminDebit E ea (pcAmount c) (pcCurrency c)) (\<lambda>_.
        andThen (vaultAdminCredit E w (pcAmount c) (pcCurrency c)) (\<lambda>releaseTx.
        andThen (markClaimed E secret w releaseTx) (\<lambda>_. ret (releaseTx, pcAmount c, pcCurrency c)))) s = (Inr (tx, a, cur), t)"
      using assms unfolding redeemRelease_def escrowAddress_def by (cases "escrowAddr E") auto
    obtain h1 s1 where d: "vaultAdminDebit E ea (pcAmount c) (pcCurrency c) s = (Inr h1, s1)"
      and r2: "andThen (vaultAdminCredit E w (pcAmount c) (pcCurrency c)) (\<lambda>releaseTx.
        andThen (markClaimed E secret w releaseTx) (\<lambda>_. ret (releaseTx, pcAmount c, pcCurrency c))) s1 = (Inr (tx, a, cur), t)"
      using r1 by (rule andThen_InrE)
    obtain h2 s2 where cr: "vaultAdminCredit E w (pcAmount c) (pcCurrency c) s1 = (Inr h2, s2)"
      and r3: "andThen (markClaimed E secret w h2) (\<lambda>_. ret (h2, pcAmount c, pcCurrency c)) s2 = (Inr (tx, a, cur), t)"
      using r2 by (rule andThen_InrE)
    obtain u s3 where m: "markClaimed E secret w h2 s2 = (Inr u, s3)" and r4: "ret (h2, pcAmount c, pcCurrency c) s3 = (Inr (tx, a, cur), t)"
      using r3 by (rule andThen_InrE)
    have eqs: "h2 = tx" "s3 = t" "a = pcAmount c" "cur = pcCurrency c"
      using r4 by auto
    show thesis
      by (rule that [OF ea d cr [unfolded eqs(1)] _ eqs(3,4)]) (use m eqs(1,2) in simp)
  qed
  obtain v1 r1 where v1: "debitAssets ea (currencyHash E (pcCurrency c)) (nat (pcAmount c)) (vault s) = Inr v1"
    and s1: "s1 = s\<lparr>net := r1, vault := v1, txCount := txCount s + 1\<rparr>" and pos: "0 < pcAmount c"
    using vaultAdminDebit_InrD [OF d] by blast
  obtain v2 r2 where v2: "creditAssets w (currencyHash E (pcCurrency c)) (nat (pcAmount c)) (vault s1) = Inr v2"
    and s2: "s2 = s1\<lparr>net := r2, vault := v2, txCount := txCount s1 + 1\<rparr>"
    using vaultAdminCredit_InrD [OF cr] by blast
  obtain r3 where t: "t = s2\<lparr>net := r3, pendingClaims :=
      updWhere (\<lambda>d. pcSecretHash d = hashSecret E secret \<and> pcStatus d = ClaimPending)
       (\<lambda>d. d\<lparr>pcStatus := Claimed, pcClaimedBy := Some w, pcReleaseTx := Some tx\<rparr>) (pendingClaims s2)\<rparr>"
    using m unfolding markClaimed_def by (auto dest!: writeIO_InrD)
  show thesis
    by (rule that [OF ea pos v1]) (use v2 s1 s2 t res in auto)
qed

lemma findClaim_marked:
  assumes "findClaim h s = Some c" and "pcStatus c = ClaimPending"
    and "pendingClaims t = updWhere (\<lambda>d. pcSecretHash d = h \<and> pcStatus d = ClaimPending) f (pendingClaims s)"
    and "\<And>d. pcSecretHash (f d) = pcSecretHash d"
  shows "findClaim h t = Some (f c)"
  using assms(1,2) find_SomeD [of _ "pendingClaims s" c]
  unfolding findClaim_def assms(3) find_updWhere_key [of pcSecretHash, OF assms(4)] by auto

lemma redeemClaim_InrD:
  assumes "redeemClaim E secret w phone s = (Inr (tx, a, cur), t)"
  obtains c ea v1 where "findClaim (hashSecret E secret) s = Some c" and "pcStatus c = ClaimPending"
    and "clock s \<le> pcExpires c" and "normalizePhone phone = pcPhone c" and "escrowAddr E = Some ea"
    and "debitAssets ea (currencyHash E cur) (nat a) (vault s) = Inr v1"
    and "creditAssets w (currencyHash E cur) (nat a) v1 = Inr (vault t)"
    and "0 < a" and "a = pcAmount c" and "cur = pcCurrency c"
    and "findClaim (hashSecret E secret) t = Some (c\<lparr>pcStatus := Claimed, pcClaimedBy := Some w, pcReleaseTx := Some tx\<rparr>)"
proof -
  obtain c s1 where c: "redeemCheck E secret phone s = (Inr c, s1)"
    and r: "redeemRelease E secret w c s1 = (Inr (tx, a, cur), t)"
    using assms unfolding redeemClaim_def by (rule andThen_InrE)
  note chk = redeemCheck_InrD [OF c]
  obtain ea v1 where ea: "escrowAddr E = Some ea" and pos: "0 < pcAmount c"
    and d: "debitAssets ea (currencyHash E (pcCurrency c)) (nat (pcAmount c)) (vault s1) = Inr v1"
    and cr: "creditAssets w (currencyHash E (pcCurrency c)) (nat (pcAmount c)) v1 = Inr (vault t)"
    and pc: "pendingClaims t = updWhere (\<lambda>d. pcSecretHash d = hashSecret E secret \<and> pcStatus d = ClaimPending)
       (\<lambda>d. d\<lparr>pcStatus := Claimed, pcClaimedBy := Some w, pcReleaseTx := Some tx\<rparr>) (pendingClaims s1)"
    and eq: "a = pcAmount c" "cur = pcCurrency c"
    by (rule redeemRelease_InrD [OF r])
  have fr: "vault s1 = vault s" "pendingClaims s1 = pendingClaims s" using chk(5) by auto
  have f1: "findClaim (hashSecret E secret) s1 = Some c" using chk(1) fr by (simp add: findClaim_def)
  have f2: "findClaim (hashSecret E secret) t = Some (c\<lparr>pcStatus := Claimed, pcClaimedBy := Some w, pcReleaseTx := Some tx\<rparr>)"
    by (rule findClaim_marked [OF f1 chk(2) pc]) simp
  show thesis
    by (rule that [OF chk(1-4) ea _ _ _ eq f2]) (use d cr pos fr eq in auto)
qed

text \<open>
  C10. A redemption that succeeds, on any network, by a beneficiary other than the escrow account and in
  a currency at parity (a share is worth one unit), releases a claim that was pending, not expired
  and sent to the phone number given; it moves exactly the claim's amount from the escrow account to
  the beneficiary in the claim's currency, leaves the balance of every other account in every
  currency, and those two accounts' balances in every other currency, as they were, and leaves the
  claim marked as claimed by the beneficiary.
\<close>

theorem redeemClaim_exact:
  assumes "redeemClaim E secret w phone s = (Inr (tx, a, cur), t)"
    and "escrowAddr E = Some ea" and "w \<noteq> ea" and "cashSound (vault s) (currencyHash E cur)"
  shows "\<exists>c. findClaim (hashSecret E secret) s = Some c \<and> pcStatus c = ClaimPending \<and> clock s \<le> pcExpires c
    \<and> normalizePhone phone = pcPhone c \<and> a = pcAmount c \<and> 0 < a \<and> cur = pcCurrency c
    \<and> findClaim (hashSecret E secret) t = Some (c\<lparr>pcStatus := Claimed, pcClaimedBy := Some w, pcReleaseTx := Some tx\<rparr>)
    \<and> nat a \<le> balanceOf (vault s) ea (currencyHash E cur)
    \<and> (\<forall>u d. balanceOf (vault t) u d =
        (if u = ea \<and> d = currencyHash E cur then balanceOf (vault s) u d - nat a
         else if u = w \<and> d = currencyHash E cur then balanceOf (vault s) u d + nat a
         else balanceOf (vault s) u d))"
  using assms(1)
proof (rule redeemClaim_InrD)
  fix c ea' v1
  assume *: "findClaim (hashSecret E secret) s = Some c" "pcStatus c = ClaimPending" "clock s \<le> pcExpires c"
    "normalizePhone phone = pcPhone c" "0 < a" "a = pcAmount c" "cur = pcCurrency c"
    "findClaim (hashSecret E secret) t = Some (c\<lparr>pcStatus := Claimed, pcClaimedBy := Some w, pcReleaseTx := Some tx\<rparr>)"
  assume ea: "escrowAddr E = Some ea'"
    and d: "debitAssets ea' (currencyHash E cur) (nat a) (vault s) = Inr v1"
    and cr: "creditAssets w (currencyHash E cur) (nat a) v1 = Inr (vault t)"
  have e: "ea' = ea" using ea assms(2) by simp
  note mv = cash_move [OF d [unfolded e] cr assms(4) assms(3) [symmetric]]
  show ?thesis
    by (rule exI [of _ c]) (use * mv in blast)
qed

text \<open>
  A claim that has been redeemed or reclaimed is never released again by a later request: on a
  network without faults it is refused with the claim's status, and nothing changes.
\<close>

theorem redeem_settled_refused:
  assumes "findClaim (hashSecret E secret) s = Some c" and "pcStatus c \<noteq> ClaimPending" and "net s = []"
  shows "redeemClaim E secret w phone s = (Inl (plainErr (''Claim already '' @ statusText (pcStatus c))), s)"
  using assms by (simp add: redeemClaim_def redeemCheck_def getClaimBySecret_def require_def andThen_def)

section \<open>The example deployment\<close>

text \<open>The escrow account of the example holds 20000 cents for two claims, of 5000 and 15000.\<close>

definition demoClaim :: "string \<Rightarrow> int \<Rightarrow> nat \<Rightarrow> claimRow" where
  "demoClaim secret a i = \<lparr>pcId = i, pcSecretHash = idExample secret, pcSender = 10, pcPhone = ''+27'', pcAmount = a,
     pcCurrency = ''ZAR'', pcStatus = ClaimPending, pcEscrowTx = 0, pcReleaseTx = None, pcClaimedBy = None,
     pcExpires = 1700000000000\<rparr>"

definition demoEscrowDb :: escrowDb where
  "demoEscrowDb = convDb.extend demoConvDb (escrowDb.fields [demoClaim ''k'' 5000 0, demoClaim ''l'' 15000 1])"

lemma demoEscrow_sel [simp]:
  "net demoEscrowDb = []" "vault demoEscrowDb = demoVault" "txCount demoEscrowDb = 0" "clock demoEscrowDb = 1700000000000"
  "pendingClaims demoEscrowDb = [demoClaim ''k'' 5000 0, demoClaim ''l'' 15000 1]"
  by (simp_all add: demoEscrowDb_def escrowDb.defs convDb.defs demoConvDb_def demoCashDb_def cashInDb.defs platform.defs
      demoPlatform_def)

lemma demo_find: "findClaim (hashSecret demoEnv ''k'') demoEscrowDb = Some (demoClaim ''k'' 5000 0)"
  by (simp add: findClaim_def hashSecret_def demoClaim_def)

lemma demo_hashes [simp]: "idExample ''k'' = 0x16B" "idExample ''l'' = 0x16C"
  by (simp_all add: idExample_def)

lemma demo_phone: "normalizePhone ''+2 7'' = ''+27''"
  by (simp add: normalizePhone_def isDigit_def)

lemma demo_check: "redeemCheck demoEnv ''k'' ''+2 7'' demoEscrowDb = (Inr (demoClaim ''k'' 5000 0), demoEscrowDb)"
  by (simp add: redeemCheck_def getClaimBySecret_def demo_find demo_phone, simp add: demoClaim_def)

text \<open>Two releases of 5000 from the escrow account, to wallets 10 and 11.\<close>

lemma demo_ledger:
  obtains v1 v2 v3 v4 where "adminDebit 2 6 5000 0x15A4152 demoVault = Inr v1" and "adminCredit 2 10 5000 0x15A4152 v1 = Inr v2"
    and "adminDebit 2 6 5000 0x15A4152 v2 = Inr v3" and "adminCredit 2 11 5000 0x15A4152 v3 = Inr v4"
    and "balanceOf v4 6 0x15A4152 = 10000" and "balanceOf v4 10 0x15A4152 = 55000" and "balanceOf v4 11 0x15A4152 = 5000"
  by (simp add: adminDebit_def adminCredit_def debitAssets_def creditAssets_def convertToAssets_def convertToShares_def
      demoVault_def demoShares_def balanceOf_def assetsOf_def
      mul256_def sub256_def add256_def uintLimit_def setPool_def setShares_def guard_def)

lemma redeemClaim_exact_witness:
  "\<exists>tx t. redeemClaim demoEnv ''k'' 11 ''+2 7'' demoEscrowDb = (Inr (tx, 5000, ''ZAR''), t)
    \<and> balanceOf (vault t) 11 (currencyHash demoEnv ''ZAR'') = balanceOf demoVault 11 (currencyHash demoEnv ''ZAR'') + 5000"
proof -
  obtain v1 where v1: "adminDebit 2 6 5000 0x15A4152 demoVault = Inr v1" by (rule demo_ledger)
  obtain v2 where v2: "adminCredit 2 11 5000 0x15A4152 v1 = Inr v2"
    using v1 by (auto simp: adminDebit_def adminCredit_def debitAssets_def creditAssets_def convertToAssets_def convertToShares_def
      demoVault_def demoShares_def mul256_def sub256_def add256_def uintLimit_def setPool_def setShares_def guard_def)
  let ?s1 = "demoEscrowDb\<lparr>vault := v1, txCount := Suc 0\<rparr>"
  have d: "vaultAdminDebit demoEnv 6 5000 ''ZAR'' demoEscrowDb = (Inr 0, ?s1)"
    using v1 by (simp add: vaultAdminDebit_def vaultWriter_def sendTx_calm onVault_def)
  have c: "vaultAdminCredit demoEnv 11 5000 ''ZAR'' ?s1 = (Inr (Suc 0), ?s1\<lparr>vault := v2, txCount := Suc (Suc 0)\<rparr>)"
    using v2 by (simp add: vaultAdminCredit_def vaultWriter_def sendTx_calm onVault_def)
  obtain t where run: "redeemClaim demoEnv ''k'' 11 ''+2 7'' demoEscrowDb = (Inr (Suc 0, 5000, ''ZAR''), t)"
    using d c by (simp add: redeemClaim_def demo_check redeemRelease_def escrowAddress_def markClaimed_def demoClaim_def)
  show ?thesis
    using redeemClaim_exact [OF run, of 6] run by (auto simp del: currencyHash_demo)
qed

lemma redeem_settled_refused_witness:
  "redeemClaim demoEnv ''k'' 11 ''x'' (demoEscrowDb\<lparr>pendingClaims := [(demoClaim ''k'' 5000 0)\<lparr>pcStatus := Reclaimed\<rparr>]\<rparr>)
    = (Inl (plainErr ''Claim already reclaimed''), demoEscrowDb\<lparr>pendingClaims := [(demoClaim ''k'' 5000 0)\<lparr>pcStatus := Reclaimed\<rparr>]\<rparr>)"
  using redeem_settled_refused [of demoEnv "''k''" "demoEscrowDb\<lparr>pendingClaims := [(demoClaim ''k'' 5000 0)\<lparr>pcStatus := Reclaimed\<rparr>]\<rparr>"
      "(demoClaim ''k'' 5000 0)\<lparr>pcStatus := Reclaimed\<rparr>" 11 "''x''"]
  by (simp add: findClaim_def hashSecret_def demoClaim_def statusText_def)

text \<open>
  C11. The check and the release of a redemption are separate steps, and the status is not tested
  again before the money moves: two requests for one claim that both pass the check before either
  releases it are both paid, the second one out of the other claim's money.
\<close>

theorem redeem_race_pays_twice:
  "\<exists>c h1 h2 t1 t2. redeemCheck demoEnv ''k'' ''+2 7'' demoEscrowDb = (Inr c, demoEscrowDb)
    \<and> redeemRelease demoEnv ''k'' 10 c demoEscrowDb = (Inr (h1, 5000, ''ZAR''), t1)
    \<and> redeemRelease demoEnv ''k'' 11 c t1 = (Inr (h2, 5000, ''ZAR''), t2)
    \<and> balanceOf (vault t2) 10 zarHash = 55000 \<and> balanceOf (vault t2) 11 zarHash = 5000
    \<and> balanceOf (vault t2) 6 zarHash = 10000
    \<and> findClaim (hashSecret demoEnv ''l'') t2 = Some (demoClaim ''l'' 15000 1)"
proof -
  obtain v1 v2 v3 v4 where v: "adminDebit 2 6 5000 0x15A4152 demoVault = Inr v1" "adminCredit 2 10 5000 0x15A4152 v1 = Inr v2"
    "adminDebit 2 6 5000 0x15A4152 v2 = Inr v3" "adminCredit 2 11 5000 0x15A4152 v3 = Inr v4"
    and b: "balanceOf v4 6 0x15A4152 = 10000" "balanceOf v4 10 0x15A4152 = 55000" "balanceOf v4 11 0x15A4152 = 5000"
    by (rule demo_ledger)
  let ?r = "(demoClaim ''k'' 5000 0)\<lparr>pcStatus := Claimed, pcClaimedBy := Some 10, pcReleaseTx := Some (Suc 0)\<rparr>"
  let ?t1 = "demoEscrowDb\<lparr>vault := v2, txCount := Suc (Suc 0), pendingClaims := [?r, demoClaim ''l'' 15000 1]\<rparr>"
  have r1: "redeemRelease demoEnv ''k'' 10 (demoClaim ''k'' 5000 0) demoEscrowDb = (Inr (Suc 0, 5000, ''ZAR''), ?t1)"
    using v by (simp add: redeemRelease_def escrowAddress_def vaultAdminDebit_def vaultAdminCredit_def vaultWriter_def
        sendTx_calm onVault_def markClaimed_def demoClaim_def hashSecret_def)
  have r2: "redeemRelease demoEnv ''k'' 11 (demoClaim ''k'' 5000 0) ?t1
      = (Inr (Suc (Suc (Suc 0)), 5000, ''ZAR''), ?t1\<lparr>vault := v4, txCount := Suc (Suc (Suc (Suc 0)))\<rparr>)"
    using v by (simp add: redeemRelease_def escrowAddress_def vaultAdminDebit_def vaultAdminCredit_def vaultWriter_def
        sendTx_calm onVault_def markClaimed_def demoClaim_def hashSecret_def)
  have f: "findClaim (hashSecret demoEnv ''l'') (?t1\<lparr>vault := v4, txCount := Suc (Suc (Suc (Suc 0)))\<rparr>) = Some (demoClaim ''l'' 15000 1)"
    by (simp add: findClaim_def hashSecret_def demoClaim_def)
  show ?thesis
    using demo_check r1 r2 b f by (auto simp del: currencyHash_demo)
qed

end
