(* ===== verification/Retail.thy ===== *)
theory Retail
  imports Escrow
begin

text \<open>
  \<open>productHelpers.ts\<close>, \<open>storeService.ts\<close>, \<open>walletResolve.ts\<close>, \<open>salesLabels.ts\<close> and
  \<open>merchantAcceptedCurrencies.ts\<close>: the fields of a product as the merchant sends them, the stores of a
  merchant and the corridors they open, the currencies it accepts, and the consumer wallet behind a
  payment tag, an account number or an address. Views of the Consumer contract are the tables
  \<open>regByEns\<close> and \<open>regById\<close> of the state (spend wallet and activity; a missing entry reverts).
\<close>

section \<open>Product fields\<close>

text \<open>A field of a JSON body: absent, null, a number or a string.\<close>

datatype bodyField = Absent | JsonNull | JsonNum rat | JsonStr string

definition emptyField :: "bodyField \<Rightarrow> bool" where
  "emptyField f \<longleftrightarrow> f = JsonNull \<or> f = JsonStr []"

definition numberField :: "bodyField \<Rightarrow> rat option" where
  "numberField f = (case f of Absent \<Rightarrow> None | JsonNull \<Rightarrow> Some 0 | JsonNum r \<Rightarrow> Some r | JsonStr s \<Rightarrow> jsNumberOf s)"

definition toMinorUnits :: "rat \<Rightarrow> int" where
  "toMinorUnits major = jsRound (jsMul major 100)"

definition fromMinorUnits :: "string option \<Rightarrow> rat option" where
  "fromMinorUnits m = (case m of None \<Rightarrow> None | Some t \<Rightarrow> if t = [] then None
     else (case numberOf t of None \<Rightarrow> None | Some n \<Rightarrow> Some (jsDiv n 100)))"

record productBody =
  pbName :: "string option"
  pbDescription :: "string option option"
  pbDelivery :: "string option"
  pbFixed :: "bool option"
  pbUnit :: bodyField
  pbMin :: bodyField
  pbMax :: bodyField
  pbVat :: "bool option"
  pbValidity :: bodyField
  pbActive :: "bool option"
  pbBarcode :: "string option option"
  pbFulfil :: "string option option"

text \<open>The columns to write; \<open>None\<close> leaves a column alone, \<open>Some None\<close> sets it to null.\<close>

record productFields =
  pfName :: "string option"
  pfDescription :: "string option option"
  pfDelivery :: "string option"
  pfFixed :: "bool option"
  pfPrice :: "int option option"
  pfMin :: "int option option"
  pfMax :: "int option option"
  pfVat :: "bool option"
  pfValidity :: "int option option"
  pfActive :: "bool option"
  pfBarcode :: "string option option"
  pfFulfil :: "string option option"

definition noFields :: productFields where
  "noFields = \<lparr>pfName = None, pfDescription = None, pfDelivery = None, pfFixed = None, pfPrice = None, pfMin = None,
     pfMax = None, pfVat = None, pfValidity = None, pfActive = None, pfBarcode = None, pfFulfil = None\<rparr>"

definition deliveryTypes :: "string list" where
  "deliveryTypes = [''DIRECT'', ''VOUCHER'', ''PHYSICAL'', ''VIRTUAL'']"

text \<open>The text of a column that an empty string clears.\<close>

definition trimOrNull :: "string option \<Rightarrow> string option" where
  "trimOrNull t = (case t of None \<Rightarrow> None | Some s \<Rightarrow> if s = [] then None else Some (trim s))"

definition parseName :: "productBody \<Rightarrow> bool \<Rightarrow> string + string option" where
  "parseName b partial = (case pbName b of
      Some n \<Rightarrow> if trim n = [] then Inl ''Product name is required'' else Inr (Some (trim n))
    | None \<Rightarrow> if \<not> partial then Inl ''Product name is required'' else Inr None)"

definition parseDelivery :: "productBody \<Rightarrow> bool \<Rightarrow> string + string option" where
  "parseDelivery b partial = (case pbDelivery b of
      Some t \<Rightarrow> let dt = toUpper t in
        if dt \<in> set deliveryTypes then Inr (Some dt) else Inl ''deliveryType must be DIRECT, VIRTUAL, PHYSICAL, or VOUCHER''
    | None \<Rightarrow> Inr (if \<not> partial then Some ''DIRECT'' else None))"

definition isFixedOf :: "productBody \<Rightarrow> bool \<Rightarrow> bool option" where
  "isFixedOf b partial = (case pbFixed b of Some x \<Rightarrow> Some x | None \<Rightarrow> if \<not> partial then Some True else None)"

text \<open>The unit price fills the bounds of a fixed-price product that the body leaves out.\<close>

definition parseUnit :: "productBody \<Rightarrow> bool \<Rightarrow> productFields \<Rightarrow> string + productFields" where
  "parseUnit b fixed f =
    (if pbUnit b = Absent \<or> emptyField (pbUnit b) then Inr f
     else case numberField (pbUnit b) of
       None \<Rightarrow> Inl ''Unit price must be positive''
     | Some major \<Rightarrow> if \<not> 0 < major then Inl ''Unit price must be positive'' else
         (let cents = toMinorUnits major; f1 = f\<lparr>pfPrice := Some (Some cents)\<rparr>;
              f2 = (if fixed \<and> pbMin b = Absent then f1\<lparr>pfMin := Some (Some cents)\<rparr> else f1) in
          Inr (if fixed \<and> pbMax b = Absent then f2\<lparr>pfMax := Some (Some cents)\<rparr> else f2)))"

definition parseBound :: "bodyField \<Rightarrow> string \<Rightarrow> int option option \<Rightarrow> string + int option option" where
  "parseBound fld msg old =
    (if fld = Absent then Inr old else if emptyField fld then Inr (Some None)
     else case numberField fld of
       None \<Rightarrow> Inl msg
     | Some major \<Rightarrow> if \<not> 0 < major then Inl msg else Inr (Some (Some (toMinorUnits major))))"

definition checkPricing :: "bool \<Rightarrow> productFields \<Rightarrow> string + productFields" where
  "checkPricing partial f =
    (if \<not> partial then
       (if pfFixed f = Some True then
          (case pfPrice f of Some (Some _) \<Rightarrow> Inr f | _ \<Rightarrow> Inl ''Fixed-price products need a unit price'')
        else case (pfMin f, pfMax f) of
          (Some (Some lo), Some (Some hi)) \<Rightarrow>
            if hi < lo then Inl ''Min price cannot exceed max price'' else Inr (f\<lparr>pfPrice := Some None\<rparr>)
        | _ \<Rightarrow> Inl ''Variable-price products need min and max amounts'')
     else if pfFixed f = Some False then Inr (f\<lparr>pfPrice := Some None\<rparr>) else Inr f)"

definition parseValidity :: "bodyField \<Rightarrow> string + int option option" where
  "parseValidity fld =
    (if fld = Absent then Inr None else if emptyField fld then Inr (Some None)
     else case numberField fld of
       None \<Rightarrow> Inl ''Validity days must be a non-negative integer''
     | Some d \<Rightarrow> if of_int \<lfloor>d\<rfloor> \<noteq> d \<or> d < 0 then Inl ''Validity days must be a non-negative integer''
         else Inr (Some (Some \<lfloor>d\<rfloor>)))"

definition parseProductBody :: "productBody \<Rightarrow> bool \<Rightarrow> string + productFields" where
  "parseProductBody b partial =
    sbind (parseName b partial) (\<lambda>name.
    sbind (parseDelivery b partial) (\<lambda>dt.
    let isFixed = isFixedOf b partial;
        f0 = noFields\<lparr>pfName := name, pfDescription := map_option trimOrNull (pbDescription b), pfDelivery := dt, pfFixed := isFixed\<rparr> in
    sbind (parseUnit b (orElse isFixed True) f0) (\<lambda>f1.
    sbind (parseBound (pbMin b) ''Min price must be positive'' (pfMin f1)) (\<lambda>lo.
    sbind (parseBound (pbMax b) ''Max price must be positive'' (pfMax f1)) (\<lambda>hi.
    sbind (checkPricing partial (f1\<lparr>pfMin := lo, pfMax := hi\<rparr>)) (\<lambda>f2.
    sbind (parseValidity (pbValidity b)) (\<lambda>days.
    Inr (f2\<lparr>pfVat := (case pbVat b of Some v \<Rightarrow> Some v | None \<Rightarrow> if \<not> partial then Some True else None),
       pfValidity := days, pfActive := pbActive b, pfBarcode := map_option trimOrNull (pbBarcode b),
       pfFulfil := map_option trimOrNull (pbFulfil b)\<rparr>))))))))"

section \<open>Stores\<close>

record storeRow =
  stId :: string
  stMerchant :: string
  stCode :: string
  stName :: string
  stCountry :: string
  stCurrency :: string
  stActive :: bool

datatype memberRole = OrgAdmin | StoreManager | Cashier
datatype memberStatus = Invited | ActiveMember | DisabledMember

record memberRow =
  mbId :: nat
  mbMerchant :: string
  mbEmail :: "string option"
  mbDisplay :: "string option"
  mbRole :: memberRole
  mbStatus :: memberStatus
  mbScope :: "string option"
  mbInvitedBy :: "nat option"

record productRow =
  prId :: string
  prMerchant :: string
  prCountry :: string
  prCurrency :: string
  prName :: string
  prDescription :: "string option"
  prDelivery :: string
  prFixed :: bool
  prPrice :: "int option"
  prMin :: "int option"
  prMax :: "int option"
  prVat :: bool
  prExternal :: "string option"
  prSupplier :: "string option"
  prCategory :: "string option"
  prBrand :: "string option"
  prBarcode :: "string option"
  prFulfil :: "string option"
  prSource :: string
  prActive :: bool
  prUpdated :: int

record retailDb = escrowDb +
  stores :: "storeRow list"
  members :: "memberRow list"
  products :: "productRow list"
  acceptedCurrencies :: "(string \<times> string) list"
  regByEns :: "bytes32 \<Rightarrow> (address \<times> bool) option"
  regById :: "int \<Rightarrow> (address \<times> bool) option"

definition headOfficeCode :: string where
  "headOfficeCode = ''HO''"

definition findMerchant :: "string \<Rightarrow> 'r platform_scheme \<Rightarrow> merchantRow option" where
  "findMerchant m s = find (\<lambda>r. merchantId r = m) (merchants s)"

definition findStore :: "string \<Rightarrow> string \<Rightarrow> 'r retailDb_scheme \<Rightarrow> storeRow option" where
  "findStore storeId m s = find (\<lambda>r. stId r = storeId \<and> stMerchant r = m) (stores s)"

text \<open>
  An INSERT into \<open>merchant_stores\<close>, whose identifier (\<open>gen_random_uuid()\<close>) is an argument; the pair
  of merchant and store code is unique.
\<close>

definition insertStore :: "storeRow \<Rightarrow> ('r retailDb_scheme, storeRow) prog" where
  "insertStore row = io (\<lambda>s.
     if \<exists>r\<in>set (stores s). stMerchant r = stMerchant row \<and> stCode r = stCode row then Inl uniqueViolation
     else Inr (row, s\<lparr>stores := stores s @ [row]\<rparr>))"

definition ensureHeadOfficeStore :: "string \<Rightarrow> string \<Rightarrow> ('r retailDb_scheme, storeRow option) prog" where
  "ensureHeadOfficeStore newId m =
    andThen (readIO (findMerchant m)) (\<lambda>r. case r of
      None \<Rightarrow> ret None
    | Some mr \<Rightarrow>
        andThen (readIO (\<lambda>s. find (\<lambda>st. stMerchant st = m \<and> stCode st = headOfficeCode) (stores s))) (\<lambda>existing. case existing of
          Some st \<Rightarrow> ret (Some st)
        | None \<Rightarrow>
            andThen (insertStore \<lparr>stId = newId, stMerchant = m, stCode = headOfficeCode, stName = ''Head office'',
               stCountry = merchantCountry mr, stCurrency = merchantCurrency mr, stActive = True\<rparr>) (\<lambda>st.
            ret (Some st))))"

text \<open>The empty text and blanks count as no scope.\<close>

definition scopeOf :: "string option \<Rightarrow> string option" where
  "scopeOf t = (case t of None \<Rightarrow> None | Some s \<Rightarrow> if trim s = [] then None else Some (trim s))"

definition memberStoreScope :: "nat \<Rightarrow> ('r retailDb_scheme, string option) prog" where
  "memberStoreScope memberId =
    andThen (readIO (\<lambda>s. find (\<lambda>mb. mbId mb = memberId) (members s))) (\<lambda>r.
    ret (case r of None \<Rightarrow> None | Some mb \<Rightarrow> scopeOf (mbScope mb)))"

text \<open>
  The comparison of \<open>sortStores\<close>: the head office first, then by name and code. \<open>localeCompare\<close> is the
  parameter \<open>le\<close> (a total preorder on names).
\<close>

definition sortStores :: "(string \<times> string \<Rightarrow> nat) \<Rightarrow> storeRow list \<Rightarrow> storeRow list" where
  "sortStores rank rows = filter (\<lambda>r. stCode r = headOfficeCode) rows
     @ sort_key (\<lambda>r. rank (stName r, stCode r)) (filter (\<lambda>r. stCode r \<noteq> headOfficeCode) rows)"

definition listMerchantStores ::
  "(string \<times> string \<Rightarrow> nat) \<Rightarrow> string \<Rightarrow> string \<Rightarrow> nat option \<Rightarrow> ('r retailDb_scheme, storeRow list) prog" where
  "listMerchantStores rank newId m memberId =
    andThen (ensureHeadOfficeStore newId m) (\<lambda>_.
    andThen (case memberId of None \<Rightarrow> ret None | Some i \<Rightarrow> memberStoreScope i) (\<lambda>scope.
    andThen (readIO (\<lambda>s. filter (\<lambda>r. stMerchant r = m \<and> stActive r
        \<and> (case scope of None \<Rightarrow> True | Some c \<Rightarrow> stCode r = c)) (stores s))) (\<lambda>rows.
    ret (sortStores rank rows))))"

definition resolveStoreForMerchant :: "string \<Rightarrow> string \<Rightarrow> nat option \<Rightarrow> ('r retailDb_scheme, storeRow) prog" where
  "resolveStoreForMerchant m storeId memberId =
    andThen (readIO (findStore storeId m)) (\<lambda>r.
    andThen (ofOption r (statusErr ''Store not found'' 404)) (\<lambda>store.
    andThen (require (stActive store) (statusErr ''Store is inactive'' 400)) (\<lambda>_.
    case memberId of None \<Rightarrow> ret store
    | Some i \<Rightarrow>
        andThen (memberStoreScope i) (\<lambda>scope.
        andThen (require (case scope of None \<Rightarrow> True | Some c \<Rightarrow> c = stCode store)
          (statusErr ''You are not assigned to this store'' 403)) (\<lambda>_.
        ret store)))))"

definition createMerchantStore ::
  "string \<Rightarrow> string \<Rightarrow> string \<Rightarrow> string \<Rightarrow> string \<Rightarrow> string option \<Rightarrow> ('r retailDb_scheme, storeRow) prog" where
  "createMerchantStore newId m storeCodeRaw nameRaw country givenCur =
    (let storeCode = trim storeCodeRaw; name = trim nameRaw in
     andThen (require (storeCode \<noteq> [] \<and> name \<noteq> []) (statusErr ''storeCode and name required'' 400)) (\<lambda>_.
     andThen (currencyForCountry country) (\<lambda>expected.
     let cur = toUpper (orElse givenCur expected) in
     andThen (require (cur = expected)
       (statusErr (''Country '' @ country @ '' uses '' @ expected @ '', not '' @ cur) 400)) (\<lambda>_.
     insertStore \<lparr>stId = newId, stMerchant = m, stCode = storeCode, stName = name, stCountry = toUpper country,
       stCurrency = cur, stActive = True\<rparr>))))"

definition updateMerchantStore ::
  "string \<Rightarrow> string \<Rightarrow> string option \<Rightarrow> string option \<Rightarrow> bool option \<Rightarrow> ('r retailDb_scheme, storeRow option) prog" where
  "updateMerchantStore m storeId newName country active =
    andThen (readIO (findStore storeId m)) (\<lambda>r.
    andThen (ofOption r (statusErr ''Store not found'' 404)) (\<lambda>cur.
    andThen (case country of
        Some c \<Rightarrow> if c = [] then ret (stCountry cur, stCurrency cur) else
          andThen (currencyForCountry (toUpper c)) (\<lambda>cc. ret (toUpper c, cc))
      | None \<Rightarrow> ret (stCountry cur, stCurrency cur)) (\<lambda>(cty, ccy).
    andThen (writeIO (\<lambda>s. s\<lparr>stores := updWhere (\<lambda>x. stId x = storeId \<and> stMerchant x = m)
       (\<lambda>x. x\<lparr>stName := orElse (scopeOf newName) (stName x), stCountry := cty, stCurrency := ccy,
          stActive := orElse active (stActive x)\<rparr>) (stores s)\<rparr>)) (\<lambda>_.
    andThen (gets (findStore storeId m)) ret))))"

section \<open>Corridors\<close>

text \<open>A corridor is a pair of country and currency; \<open>remdups\<close> is DISTINCT (its order is not relied on).\<close>

definition listProductCorridors :: "string \<Rightarrow> string \<Rightarrow> ('r retailDb_scheme, (string \<times> string) list) prog" where
  "listProductCorridors newId m =
    andThen (ensureHeadOfficeStore newId m) (\<lambda>_.
    andThen (readIO (\<lambda>s. remdups [(stCountry r, stCurrency r). r \<leftarrow> stores s, stMerchant r = m \<and> stActive r])) (\<lambda>rows.
    if rows \<noteq> [] then ret rows
    else andThen (readIO (findMerchant m)) (\<lambda>r.
      andThen (ofOption r (statusErr ''Merchant not found'' 404)) (\<lambda>mr.
      ret [(merchantCountry mr, merchantCurrency mr)]))))"

definition joinComma :: "string list \<Rightarrow> string" where
  "joinComma xs = (case xs of [] \<Rightarrow> [] | x # r \<Rightarrow> x @ concat (map (\<lambda>y. '', '' @ y) r))"

definition resolveProductCorridor ::
  "string \<Rightarrow> string \<Rightarrow> string \<Rightarrow> string option \<Rightarrow> ('r retailDb_scheme, string \<times> string) prog" where
  "resolveProductCorridor newId m curRaw country =
    andThen (listProductCorridors newId m) (\<lambda>corridors.
    let cur = toUpper curRaw; matches = filter (\<lambda>c. snd c = cur) corridors in
    andThen (require (matches \<noteq> []) (statusErr (''Currency '' @ cur
       @ '' is not available - add a store in My Business or use: '' @ joinComma (remdups (map snd corridors))) 400)) (\<lambda>_.
    case (case country of Some c \<Rightarrow> if c = [] then None else Some (toUpper c) | None \<Rightarrow> None) of
      Some cc \<Rightarrow> ofOption (find (\<lambda>c. fst c = cc) matches) (statusErr (''No store corridor for '' @ cur @ '' in '' @ cc) 400)
    | None \<Rightarrow>
        andThen (require (length matches \<le> 1) (statusErr (''Multiple countries use '' @ cur @ '' - specify countryCode'') 400)) (\<lambda>_.
        ofOption (headOpt matches) (plainErr ''unreachable''))))"

section \<open>Wallets behind tags and account numbers\<close>

definition looksLikeAccountNumber :: "string \<Rightarrow> bool" where
  "looksLikeAccountNumber v \<longleftrightarrow> (let t = trim v in 4 \<le> length t \<and> length t \<le> 18 \<and> list_all isDigit t)"

definition isTagChar :: "char \<Rightarrow> bool" where
  "isTagChar c \<longleftrightarrow> (let n = (of_char c :: nat) in (97 \<le> n \<and> n \<le> 122) \<or> (48 \<le> n \<and> n \<le> 57) \<or> n = 45)"

text \<open>\<open>v.replace(/^@/, '').toLowerCase().split('.')[0]\<close>.\<close>

definition tagOf :: "string \<Rightarrow> string" where
  "tagOf v = beforeDot (toLower (case v of [] \<Rightarrow> [] | c # r \<Rightarrow> if c = CHR ''@'' then r else v))"

text \<open>
  A view of the registry: a missing account reverts, and any failure of the call is reported as a missing
  account, except an inactive one.
\<close>

definition registryLookup :: "env \<Rightarrow> ('r retailDb_scheme \<Rightarrow> (address \<times> bool) option) \<Rightarrow> string \<Rightarrow> ('r retailDb_scheme, address) prog" where
  "registryLookup E view notFound =
    andThen (ofOption (consumerAddr E) (plainErr ''Consumer contract not configured'')) (\<lambda>_.
    tryCatch
      (andThen (io (\<lambda>s. case view s of None \<Rightarrow> Inl (plainErr ''execution reverted'') | Some d \<Rightarrow> Inr (d, s))) (\<lambda>(wallet, active).
       andThen (require active (plainErr ''Inactive account'')) (\<lambda>_. ret wallet)))
      (\<lambda>e. if fmsg e = ''Inactive account'' then raise e else raise (plainErr notFound)))"

definition resolveAccountNumber :: "env \<Rightarrow> string \<Rightarrow> ('r retailDb_scheme, address) prog" where
  "resolveAccountNumber E raw =
    (let n = int (natOfDigits (trim raw)) in
     andThen (readIO (\<lambda>s. find (\<lambda>c. consumerGlobalId c = Some n \<and> consumerWallet c \<noteq> None \<and> consumerActive c) (consumers s))) (\<lambda>r.
     case r of Some c \<Rightarrow> ret (the (consumerWallet c))
     | None \<Rightarrow> registryLookup E (\<lambda>s. regById s n) (''No account found for account number '' @ trim raw)))"

definition resolveWalletOrTag :: "env \<Rightarrow> string \<Rightarrow> ('r retailDb_scheme, address) prog" where
  "resolveWalletOrTag E input =
    (let v = trim input in
     if v = [] then raise (plainErr ''Enter a destination'')
     else if isHexAddress v then ofOption (getAddr E v) (plainErr ''bad address checksum'')
     else if looksLikeAccountNumber v then resolveAccountNumber E v
     else let tag = tagOf v in
       if \<not> (3 \<le> length tag \<and> length tag \<le> 32 \<and> list_all isTagChar tag)
       then raise (plainErr ''Enter a payment tag (@tag), account number, or 0x address'')
       else registryLookup E (\<lambda>s. regByEns s (idHash E tag)) (''No account found for @'' @ tag))"

section \<open>Accepted currencies and sale labels\<close>

definition seedAcceptedCurrency :: "string \<Rightarrow> string \<Rightarrow> ('r retailDb_scheme, unit) prog" where
  "seedAcceptedCurrency m cur = tryCatch
    (writeIO (\<lambda>s. if (m, toUpper cur) \<in> set (acceptedCurrencies s) then s
       else s\<lparr>acceptedCurrencies := acceptedCurrencies s @ [(m, toUpper cur)]\<rparr>))
    (\<lambda>_. ret ())"

definition getAcceptedCurrencies :: "string \<Rightarrow> ('r retailDb_scheme, string list) prog" where
  "getAcceptedCurrencies m = tryCatch
    (readIO (\<lambda>s. map snd (filter (\<lambda>r. fst r = m) (acceptedCurrencies s))))
    (\<lambda>_. ret [])"

definition webSaleStore :: string where "webSaleStore = ''Head office''"
definition webSaleTill :: string where "webSaleTill = ''Web Sale''"

definition resolveStoreTill :: "string option \<Rightarrow> string option \<Rightarrow> string \<times> string" where
  "resolveStoreTill store till = (case (scopeOf store, scopeOf till) of
      (Some s, Some t) \<Rightarrow> (s, t)
    | (Some s, None) \<Rightarrow> (s, webSaleTill)
    | (None, Some t) \<Rightarrow> (webSaleStore, t)
    | (None, None) \<Rightarrow> (webSaleStore, webSaleTill))"

section \<open>What the merchant's fields guarantee\<close>

lemma jsRound_minor: "0 < x \<Longrightarrow> 0 \<le> toMinorUnits x"
  by (simp add: toMinorUnits_def jsMul_def fl_nonneg jsRound_nonneg)

lemma parseBound_Inr:
  "parseBound fld msg old = Inr r \<Longrightarrow> (\<forall>n. old = Some (Some n) \<longrightarrow> 0 \<le> n) \<Longrightarrow> \<forall>n. r = Some (Some n) \<longrightarrow> 0 \<le> n"
  by (auto simp: parseBound_def jsRound_minor split: if_splits option.splits)

lemma parseUnit_Inr:
  assumes "parseUnit b fixed f = Inr g" and "pfPrice f = None" and "pfMin f = None" and "pfMax f = None"
  shows "pfName g = pfName f" and "pfDelivery g = pfDelivery f" and "pfFixed g = pfFixed f"
    and "\<forall>n. pfPrice g = Some (Some n) \<longrightarrow> 0 \<le> n" and "\<forall>n. pfMin g = Some (Some n) \<longrightarrow> 0 \<le> n"
    and "\<forall>n. pfMax g = Some (Some n) \<longrightarrow> 0 \<le> n"
  using assms by (auto simp: parseUnit_def Let_def jsRound_minor split: if_splits option.splits)

lemma checkPricing_full:
  assumes "checkPricing False f = Inr g"
  shows "pfName g = pfName f" and "pfDelivery g = pfDelivery f" and "pfFixed g = pfFixed f"
    and "pfMin g = pfMin f" and "pfMax g = pfMax f"
    and "if pfFixed f = Some True then pfPrice g = pfPrice f \<and> (\<exists>p. pfPrice f = Some (Some p))
      else pfPrice g = Some None \<and> (\<exists>lo hi. pfMin f = Some (Some lo) \<and> pfMax f = Some (Some hi) \<and> lo \<le> hi)"
  using assms by (auto simp: checkPricing_def split: if_splits option.splits)

text \<open>
  C12. A product a merchant creates is priced consistently: it has a name and one of the four delivery
  types, and either a fixed price that is not negative, or no price and bounds with the minimum at
  most the maximum.
\<close>

theorem parseProductBody_full:
  assumes "parseProductBody b False = Inr f"
  shows "(\<exists>n. pfName f = Some n \<and> n \<noteq> []) \<and> (\<exists>d\<in>set deliveryTypes. pfDelivery f = Some d)
    \<and> ((pfFixed f = Some True \<and> (\<exists>p. pfPrice f = Some (Some p) \<and> 0 \<le> p))
       \<or> (pfFixed f = Some False \<and> pfPrice f = Some None
          \<and> (\<exists>lo hi. pfMin f = Some (Some lo) \<and> pfMax f = Some (Some hi) \<and> 0 \<le> lo \<and> lo \<le> hi)))"
proof -
  obtain name dt f1 lo hi f2 days where
    n: "parseName b False = Inr name" and d: "parseDelivery b False = Inr dt"
    and u: "parseUnit b (orElse (isFixedOf b False) True) (noFields\<lparr>pfName := name,
        pfDescription := map_option trimOrNull (pbDescription b), pfDelivery := dt, pfFixed := isFixedOf b False\<rparr>) = Inr f1"
    and l: "parseBound (pbMin b) ''Min price must be positive'' (pfMin f1) = Inr lo"
    and h: "parseBound (pbMax b) ''Max price must be positive'' (pfMax f1) = Inr hi"
    and c: "checkPricing False (f1\<lparr>pfMin := lo, pfMax := hi\<rparr>) = Inr f2"
    and f: "pfName f = pfName f2" "pfDelivery f = pfDelivery f2" "pfFixed f = pfFixed f2" "pfPrice f = pfPrice f2"
      "pfMin f = pfMin f2" "pfMax f = pfMax f2"
    using assms by (auto simp: parseProductBody_def Let_def sbind_Inr_iff)
  have nn: "\<exists>x. name = Some x \<and> x \<noteq> []" using n by (auto simp: parseName_def split: option.splits if_splits)
  have dd: "\<exists>x\<in>set deliveryTypes. dt = Some x"
    using d by (auto simp: parseDelivery_def deliveryTypes_def Let_def split: option.splits if_splits)
  note u1 = parseUnit_Inr [OF u] and c1 = checkPricing_full [OF c]
  have fx: "pfFixed f1 = Some True \<or> pfFixed f1 = Some False"
    using u1(3) by (auto simp: noFields_def isFixedOf_def split: option.splits)
  have pos: "\<forall>n. pfPrice f1 = Some (Some n) \<longrightarrow> 0 \<le> n" "\<forall>n. lo = Some (Some n) \<longrightarrow> 0 \<le> n"
    using u1(4) parseBound_Inr [OF l] u1(5) by (auto simp: noFields_def)
  show ?thesis
    using nn dd fx pos u1(1-3) c1 f by (auto simp: noFields_def split: if_splits)
qed

definition demoBody :: productBody where
  "demoBody = \<lparr>pbName = Some ''Air'', pbDescription = None, pbDelivery = None, pbFixed = None, pbUnit = JsonNum 10,
     pbMin = Absent, pbMax = Absent, pbVat = None, pbValidity = Absent, pbActive = None, pbBarcode = None, pbFulfil = None\<rparr>"

lemma fl_nat: "n < 2 ^ 53 \<Longrightarrow> fl (of_nat n) = of_nat n"
  using fl_dyadic [of "of_nat n" 0 "int n"] by simp

lemma toMinor_values: "toMinorUnits 10 = 1000" "toMinorUnits (1 / 256) = 0"
proof -
  show "toMinorUnits 10 = 1000" using fl_nat [of 1000] by (simp add: toMinorUnits_def jsMul_def jsRound_def floor_eq_iff)
  have e: "(1 / 256 * 100 :: rat) = 25 / 64" by simp
  have f: "fl (25 / 64) = 25 / 64" by (rule fl_dyadic [of _ 6 25]) simp_all
  have "jsRound (25 / 64) = 0" by (simp add: jsRound_def floor_eq_iff)
  then show "toMinorUnits (1 / 256) = 0" by (simp only: toMinorUnits_def jsMul_def e f)
qed

lemma demo_parse:
  "parseProductBody (demoBody\<lparr>pbUnit := JsonNum r\<rparr>) False = Inr (noFields\<lparr>pfName := Some ''Air'', pfDelivery := Some ''DIRECT'',
     pfFixed := Some True, pfPrice := Some (Some (toMinorUnits r)), pfMin := Some (Some (toMinorUnits r)),
     pfMax := Some (Some (toMinorUnits r)), pfVat := Some True\<rparr>)" if "0 < r"
proof -
  have "trim ''Air'' = ''Air''" by code_simp
  then show ?thesis
    using that by (simp add: demoBody_def parseProductBody_def parseName_def parseDelivery_def isFixedOf_def parseUnit_def
        emptyField_def numberField_def parseBound_def checkPricing_def parseValidity_def noFields_def Let_def)
qed

lemma parseProductBody_full_witness:
  "\<exists>f. parseProductBody demoBody False = Inr f \<and> pfPrice f = Some (Some 1000) \<and> (\<exists>n. pfName f = Some n \<and> n \<noteq> [])"
proof -
  have run: "parseProductBody demoBody False = Inr (noFields\<lparr>pfName := Some ''Air'', pfDelivery := Some ''DIRECT'',
     pfFixed := Some True, pfPrice := Some (Some 1000), pfMin := Some (Some 1000), pfMax := Some (Some 1000), pfVat := Some True\<rparr>)"
    using demo_parse [of 10] by (simp add: toMinor_values demoBody_def)
  show ?thesis using parseProductBody_full [OF run] run by simp
qed

text \<open>
  The test that a price is positive is made before rounding to cents: a price below half a cent is
  accepted and stored as a price of zero.
\<close>

theorem positive_price_stored_as_zero:
  "\<exists>b f. pbUnit b = JsonNum (1 / 256) \<and> parseProductBody b False = Inr f \<and> pfPrice f = Some (Some 0)
    \<and> pfMin f = Some (Some 0) \<and> pfMax f = Some (Some 0)"
  using demo_parse [of "1 / 256"] by (intro exI [of _ "demoBody\<lparr>pbUnit := JsonNum (1 / 256)\<rparr>"]) (simp add: toMinor_values)

section \<open>What the lookups guarantee\<close>

lemma registryLookup_InrD:
  assumes "registryLookup E view msg s = (Inr w, t)"
  shows "\<exists>ns. view (s\<lparr>net := ns\<rparr>) = Some (w, True)"
  using assms by (auto simp: registryLookup_def andThen_Inr_iff tryCatch_def raise_def
      split: prod.splits sum.splits if_splits dest!: io_InrD split: option.splits)

lemma resolveAccount_InrD:
  assumes "resolveAccountNumber E raw s = (Inr w, t)"
  shows "(\<exists>c\<in>set (consumers s). consumerGlobalId c = Some (int (natOfDigits (trim raw))) \<and> consumerWallet c = Some w \<and> consumerActive c)
    \<or> regById s (int (natOfDigits (trim raw))) = Some (w, True)"
proof -
  let ?P = "\<lambda>c. consumerGlobalId c = Some (int (natOfDigits (trim raw))) \<and> consumerWallet c \<noteq> None \<and> consumerActive c"
  obtain r u where r: "readIO (\<lambda>s. find ?P (consumers s)) s = (Inr r, u)"
    and k: "(case r of Some c \<Rightarrow> ret (the (consumerWallet c)) | None \<Rightarrow> registryLookup E
       (\<lambda>s. regById s (int (natOfDigits (trim raw)))) (''No account found for account number '' @ trim raw)) u = (Inr w, t)"
    using assms unfolding resolveAccountNumber_def Let_def by (rule andThen_InrE)
  have fr: "consumers u = consumers s" "regById u = regById s" and rv: "r = find ?P (consumers u)"
    using readIO_InrD [OF r] by auto
  show ?thesis
  proof (cases r)
    case None
    then show ?thesis using registryLookup_InrD k fr by fastforce
  next
    case (Some c)
    then show ?thesis using rv k fr find_SomeD [of ?P "consumers s" c] by auto
  qed
qed

text \<open>
  C13. A destination a client names resolves only to the address it spelled out, or to the wallet of
  an active account: one the database holds under the account number, or one the registry returns for
  the account number or the payment tag.
\<close>

theorem resolveWallet_sound:
  assumes "resolveWalletOrTag E input s = (Inr w, t)"
  shows "(isHexAddress (trim input) \<and> getAddr E (trim input) = Some w)
    \<or> (\<exists>c\<in>set (consumers s). consumerGlobalId c = Some (int (natOfDigits (trim (trim input)))) \<and> consumerWallet c = Some w \<and> consumerActive c)
    \<or> regById s (int (natOfDigits (trim (trim input)))) = Some (w, True)
    \<or> regByEns s (idHash E (tagOf (trim input))) = Some (w, True)"
proof (cases "isHexAddress (trim input)")
  case True
  then show ?thesis
    using assms by (auto simp: resolveWalletOrTag_def Let_def raise_def split: if_splits)
next
  case False
  show ?thesis
  proof (cases "looksLikeAccountNumber (trim input)")
    case True
    then have "resolveAccountNumber E (trim input) s = (Inr w, t)"
      using assms False by (auto simp: resolveWalletOrTag_def Let_def raise_def split: if_splits)
    then show ?thesis by (auto dest: resolveAccount_InrD)
  next
    case no: False
    then have "registryLookup E (\<lambda>s. regByEns s (idHash E (tagOf (trim input)))) (''No account found for @'' @ tagOf (trim input)) s = (Inr w, t)"
      using assms False by (auto simp: resolveWalletOrTag_def Let_def raise_def split: if_splits)
    then show ?thesis by (auto dest: registryLookup_InrD)
  qed
qed

lemma memberStoreScope_InrD:
  "memberStoreScope i s = (Inr sc, t) \<Longrightarrow> (\<exists>ns. t = s\<lparr>net := ns\<rparr>)
    \<and> sc = (case find (\<lambda>mb. mbId mb = i) (members s) of None \<Rightarrow> None | Some mb \<Rightarrow> scopeOf (mbScope mb))"
  unfolding memberStoreScope_def by (auto simp: andThen_Inr_iff dest!: readIO_InrD)

text \<open>
  A store resolved for a till is an active store of that merchant, and the one the operator is
  assigned to when the operator has a store scope.
\<close>

theorem resolveStore_sound:
  assumes "resolveStoreForMerchant m storeId who s = (Inr st, t)"
  shows "st \<in> set (stores s) \<and> stId st = storeId \<and> stMerchant st = m \<and> stActive st
    \<and> (\<forall>i mb c. who = Some i \<longrightarrow> find (\<lambda>mb. mbId mb = i) (members s) = Some mb \<longrightarrow> scopeOf (mbScope mb) = Some c \<longrightarrow> stCode st = c)"
proof -
  obtain r u where r: "readIO (findStore storeId m) s = (Inr r, u)"
    and k: "andThen (ofOption r (statusErr ''Store not found'' 404)) (\<lambda>store.
    andThen (require (stActive store) (statusErr ''Store is inactive'' 400)) (\<lambda>_.
    case who of None \<Rightarrow> ret store
    | Some i \<Rightarrow>
        andThen (memberStoreScope i) (\<lambda>scope.
        andThen (require (case scope of None \<Rightarrow> True | Some c \<Rightarrow> c = stCode store)
          (statusErr ''You are not assigned to this store'' 403)) (\<lambda>_.
        ret store)))) u = (Inr st, t)"
    using assms unfolding resolveStoreForMerchant_def by (rule andThen_InrE)
  have fr: "stores u = stores s" "members u = members s" and rv: "r = findStore storeId m s"
    using readIO_InrD [OF r] by (auto simp: findStore_def)
  have st: "r = Some st" "stActive st"
    using k by (auto simp: andThen_Inr_iff split: option.splits)
  have "stCode st = c" if "who = Some i" "find (\<lambda>mb. mbId mb = i) (members s) = Some mb" "scopeOf (mbScope mb) = Some c" for i mb c
    using k st that fr by (auto simp: andThen_Inr_iff dest!: memberStoreScope_InrD)
  then show ?thesis
    using st rv find_SomeD [of "\<lambda>r. stId r = storeId \<and> stMerchant r = m" "stores s" st] by (auto simp: findStore_def)
qed

section \<open>The example deployment\<close>

definition demoStore :: storeRow where
  "demoStore = \<lparr>stId = ''s1'', stMerchant = ''m1'', stCode = ''HO'', stName = ''Head office'', stCountry = ''ZA'',
     stCurrency = ''ZAR'', stActive = True\<rparr>"

definition demoMember :: memberRow where
  "demoMember = \<lparr>mbId = 1, mbMerchant = ''m1'', mbEmail = Some ''o@shop'', mbDisplay = None, mbRole = OrgAdmin,
     mbStatus = ActiveMember, mbScope = Some ''HO'', mbInvitedBy = None\<rparr>"

definition demoRetailDb :: retailDb where
  "demoRetailDb = escrowDb.extend demoEscrowDb (retailDb.fields [demoStore] [demoMember] [] [(''m1'', ''ZAR'')]
     (\<lambda>h. if h = idExample ''bob'' then Some (11, True) else None) (\<lambda>n. None))"

lemmas demo_state = demoRetailDb_def retailDb.defs escrowDb.defs demoEscrowDb_def convDb.defs demoConvDb_def demoCashDb_def
  cashInDb.defs platform.defs demoPlatform_def

lemma demoRetail_sel [simp]:
  "net demoRetailDb = []" "vault demoRetailDb = demoVault" "txCount demoRetailDb = 0" "clock demoRetailDb = 1700000000000"
  "stores demoRetailDb = [demoStore]" "members demoRetailDb = [demoMember]" "consumers demoRetailDb = consumers demoPlatform"
  "merchants demoRetailDb = merchants demoPlatform" "regById demoRetailDb = (\<lambda>n. None)"
  "regByEns demoRetailDb = (\<lambda>h. if h = idExample ''bob'' then Some (11, True) else None)"
  "tts demoRetailDb = tts demoPlatform" "erc demoRetailDb = erc demoPlatform" "stablecoins demoRetailDb = stablecoins demoPlatform"
  "currencies demoRetailDb = currencies demoPlatform" "countries demoRetailDb = countries demoPlatform"
  "products demoRetailDb = []" "acceptedCurrencies demoRetailDb = [(''m1'', ''ZAR'')]"
  by (simp_all add: demo_state)

lemma tag_values: "trim ''@Bob'' = ''@Bob''" "tagOf ''@Bob'' = ''bob''" "isHexAddress ''@Bob'' = False" "looksLikeAccountNumber ''@Bob'' = False"
    "scopeOf (Some ''HO'') = Some ''HO''"
  by code_simp+

lemma tag_chars [simp]: "isTagChar CHR ''b''" "isTagChar CHR ''o''"
  by (simp_all add: isTagChar_def)

lemma resolveWallet_sound_witness:
  "resolveWalletOrTag demoEnv ''@Bob'' demoRetailDb = (Inr 11, demoRetailDb)
    \<and> regByEns demoRetailDb (idHash demoEnv (tagOf (trim ''@Bob''))) = Some (11, True)"
proof -
  have run: "resolveWalletOrTag demoEnv ''@Bob'' demoRetailDb = (Inr 11, demoRetailDb)"
    by (simp add: resolveWalletOrTag_def registryLookup_def tag_values io_calm Let_def)
  show ?thesis
    using resolveWallet_sound [OF run] run by (simp add: tag_values)
qed

lemma resolveStore_sound_witness:
  "resolveStoreForMerchant ''m1'' ''s1'' (Some 1) demoRetailDb = (Inr demoStore, demoRetailDb) \<and> stCode demoStore = ''HO''"
proof -
  have run: "resolveStoreForMerchant ''m1'' ''s1'' (Some 1) demoRetailDb = (Inr demoStore, demoRetailDb)"
    by (simp add: resolveStoreForMerchant_def findStore_def memberStoreScope_def demoStore_def demoMember_def tag_values)
  have "find (\<lambda>mb. mbId mb = 1) (members demoRetailDb) = Some demoMember" "scopeOf (mbScope demoMember) = Some ''HO''"
    by (simp_all add: demoMember_def tag_values)
  then show ?thesis
    using resolveStore_sound [OF run] run by blast
qed

end
