(* ===== verification/ChangeVoucher.thy ===== *)
theory ChangeVoucher
  imports Retail
begin

text \<open>
  \<open>changeVoucherService.ts\<close> and \<open>changeVoucher.routes.ts\<close>: a cashier gives change as value. The
  merchant's claim in the Vault is debited (topped up from the treasury when it is short) and the
  customer's is credited, at once for a payment tag, or when the customer scans the voucher's secret.

  The column \<open>amount\<close> of \<open>change_vouchers\<close> is NUMERIC(20,8): PostgreSQL returns the stored integer
  with eight decimals, \<open>numericText 8\<close>. The fresh secret (\<open>randomBytes(16)\<close>) and the identifier of a
  new row (\<open>gen_random_uuid()\<close>) are arguments. \<open>db.query\<close> runs each statement in a transaction of its
  own, so \<open>FOR UPDATE\<close> holds no lock past the query: it is a plain read.
\<close>

datatype voucherStatus = VcPending | VcClaimed | VcExpired | VcCancelled
datatype deliveryMode = QrMode | TagMode | LinkMode

record voucherRow =
  vcId :: string
  vcMerchant :: string
  vcProduct :: "string option"
  vcAmount :: int
  vcCurrency :: string
  vcStatus :: voucherStatus
  vcMode :: deliveryMode
  vcRecipient :: "address option"
  vcTag :: "string option"
  vcSecretHash :: bytes32
  vcStore :: string
  vcStoreNumber :: "string option"
  vcTill :: "string option"
  vcMember :: "nat option"
  vcDebitTx :: "txHash option"
  vcCreditTx :: "txHash option"
  vcMintTx :: "txHash option"
  vcExpires :: int
  vcClaimedAt :: "int option"

record voucherDb = retailDb +
  changeVouchers :: "voucherRow list"

definition defaultTtlMs :: int where
  "defaultTtlMs = 15 * 60 * 1000"

definition secretHash :: "env \<Rightarrow> string \<Rightarrow> bytes32" where
  "secretHash E secret = idHash E secret"

definition vcAmountText :: "voucherRow \<Rightarrow> string" where
  "vcAmountText v = numericText 8 (nat (vcAmount v) * 10 ^ 8)"

definition parseAmountUnits :: "env \<Rightarrow> string \<Rightarrow> string \<Rightarrow> ('s, int) prog" where
  "parseAmountUnits E amount cur =
    ofOption (parseUnits E amount (currencyDecimals cur)) (plainErr ''invalid FixedNumber string value'')"

definition fixedText :: "nat \<Rightarrow> rat \<Rightarrow> string" where
  "fixedText d x = (if x < 0 then CHR ''-'' # numericText d (nat (- toFixed d x)) else numericText d (nat (toFixed d x)))"

definition formatMoneyMajor :: "rat \<Rightarrow> string \<Rightarrow> string" where
  "formatMoneyMajor amount cur = currencySymbol cur None @ fixedText 2 amount"

definition loadMerchant :: "string \<Rightarrow> ('r retailDb_scheme, merchantRow \<times> address) prog" where
  "loadMerchant m =
    andThen (readIO (findMerchant m)) (\<lambda>r.
    andThen (ofOption r (statusErr ''Merchant not found'' 404)) (\<lambda>mr.
    andThen (ofOption (merchantWallet mr) (statusErr ''Merchant has no wallet address configured'' 400)) (\<lambda>w.
    ret (mr, w))))"

definition priceText :: "int option \<Rightarrow> string option" where
  "priceText p = map_option (\<lambda>n. numericText 8 (nat n * 10 ^ 8)) p"

text \<open>The comparisons of \<open>validateProduct\<close> in major units; \<open>None\<close> for the amount is NaN.\<close>

definition checkDenomination :: "productRow \<Rightarrow> rat option \<Rightarrow> string \<Rightarrow> string option" where
  "checkDenomination p amt cur =
    (let price = fromMinorUnits (priceText (prPrice p)); lo = fromMinorUnits (priceText (prMin p));
         hi = fromMinorUnits (priceText (prMax p)) in
     if prFixed p \<and> price \<noteq> None \<and> price = lo \<and> lo = hi \<and> amt \<noteq> price
     then Some (''Amount must be '' @ formatMoneyMajor (the price) cur @ '' for this product'')
     else if (case (lo, amt) of (Some l, Some a) \<Rightarrow> a < l | _ \<Rightarrow> False)
     then Some (''Minimum is '' @ formatMoneyMajor (the lo) cur)
     else if (case (hi, amt) of (Some h, Some a) \<Rightarrow> h < a | _ \<Rightarrow> False)
     then Some (''Maximum is '' @ formatMoneyMajor (the hi) cur) else None)"

definition validateProduct ::
  "env \<Rightarrow> string \<Rightarrow> string option \<Rightarrow> int \<Rightarrow> string \<Rightarrow> ('r retailDb_scheme, productRow option) prog" where
  "validateProduct E m productId amountUnits cur =
    (case productId of None \<Rightarrow> ret None | Some pid \<Rightarrow> if pid = [] then ret None else
     andThen (readIO (\<lambda>s. find (\<lambda>p. prId p = pid \<and> prMerchant p = m \<and> prActive p) (products s))) (\<lambda>r.
     andThen (ofOption r (statusErr ''Product not found'' 404)) (\<lambda>p.
     andThen (require (prDelivery p = ''VOUCHER'') (statusErr ''Product must be delivery type VOUCHER'' 400)) (\<lambda>_.
     andThen (require (prCurrency p = cur) (statusErr (''Product currency is '' @ prCurrency p) 400)) (\<lambda>_.
     case checkDenomination p (jsNumberOf (formatUnits E amountUnits (currencyDecimals cur))) cur of
       Some msg \<Rightarrow> raise (statusErr msg 400)
     | None \<Rightarrow> ret (Some p))))))"

section \<open>The transfer\<close>

record transferLegs =
  tlDebitTx :: txHash
  tlCreditTx :: txHash
  tlMintTx :: "txHash option"
  tlMintAmount :: "int option"
  tlTopUpTx :: "txHash option"

definition executeTransfer ::
  "env \<Rightarrow> address \<Rightarrow> address \<Rightarrow> int \<Rightarrow> string \<Rightarrow> ('r platform_scheme, transferLegs) prog" where
  "executeTransfer E merchantW consumerW amountUnits cur =
    andThen (vaultBalanceOf E merchantW cur) (\<lambda>b.
    andThen (if b < amountUnits
       then andThen (creditFiatWithTreasuryBacking E merchantW (amountUnits - b) cur) (\<lambda>topUp.
         ret (bcMintTx topUp, bcMintAmount topUp, Some (bcCreditTx topUp)))
       else ret (None, None, None)) (\<lambda>(mintTx, mintAmount, topUpTx).
    andThen (vaultAdminDebit E merchantW amountUnits cur) (\<lambda>debitTx.
    andThen (vaultAdminCredit E consumerW amountUnits cur) (\<lambda>creditTx.
    ret \<lparr>tlDebitTx = debitTx, tlCreditTx = creditTx, tlMintTx = mintTx, tlMintAmount = mintAmount, tlTopUpTx = topUpTx\<rparr>))))"

definition changeVoucherMintReference :: "string \<Rightarrow> string \<Rightarrow> string" where
  "changeVoucherMintReference storeNumber voucherId =
    trim (if storeNumber = [] then ''STORE'' else storeNumber) @ ''/CV-'' @ voucherId"

definition recordChangeVoucherMintRef ::
  "string \<Rightarrow> string \<Rightarrow> address \<Rightarrow> txHash \<Rightarrow> txHash \<Rightarrow> int \<Rightarrow> string \<Rightarrow> ('r voucherDb_scheme, unit) prog" where
  "recordChangeVoucherMintRef storeNumber voucherId merchantW mintTx topUpTx mintAmount cur =
    andThen (io (\<lambda>s. let ref = changeVoucherMintReference storeNumber voucherId in
       if \<exists>r\<in>set (depositRefs s). drReference r = ref then Inl uniqueViolation
       else Inr ((), s\<lparr>depositRefs := depositRefs s @ [\<lparr>drReference = ref, drKind = ChangeVoucherKind,
         drSource = MerchantSource, drWallet = merchantW, drAmount = mintAmount, drCurrency = toUpper cur,
         drMintTx = Some mintTx, drCreditTx = Some topUpTx\<rparr>]\<rparr>))) (\<lambda>_.
    writeIO (\<lambda>s. s\<lparr>changeVouchers := updWhere (\<lambda>v. vcId v = voucherId) (\<lambda>v. v\<lparr>vcMintTx := Some mintTx\<rparr>) (changeVouchers s)\<rparr>))"

definition recordMintIfAny ::
  "string \<Rightarrow> string \<Rightarrow> address \<Rightarrow> transferLegs \<Rightarrow> string \<Rightarrow> ('r voucherDb_scheme, unit) prog" where
  "recordMintIfAny storeNumber voucherId merchantW legs cur =
    (case (tlMintTx legs, tlMintAmount legs, tlTopUpTx legs) of
       (Some h, Some a, Some c) \<Rightarrow> if a = 0 then ret ()
         else recordChangeVoucherMintRef storeNumber voucherId merchantW h c a cur
     | _ \<Rightarrow> ret ())"

section \<open>Issuing a voucher\<close>

record prepareInput =
  piMerchant :: string
  piMember :: "nat option"
  piAmount :: string
  piProduct :: "string option"
  piStore :: string
  piTill :: "string option"

definition resolveStoreContext :: "prepareInput \<Rightarrow> ('r retailDb_scheme, storeRow) prog" where
  "resolveStoreContext p =
    andThen (require (trim (piStore p) \<noteq> []) (statusErr ''storeId required - select a store in POS'' 400)) (\<lambda>_.
    resolveStoreForMerchant (piMerchant p) (trim (piStore p)) (piMember p))"

text \<open>
  A value of 10^12 or more does not fit NUMERIC(20,8), an empty product identifier (which
  \<open>validateProduct\<close> skips) references no product, and the secret's hash is unique.
\<close>

definition insertVoucher :: "voucherRow \<Rightarrow> ('r voucherDb_scheme, unit) prog" where
  "insertVoucher row = io (\<lambda>s.
     if 10 ^ 12 \<le> vcAmount row then Inl (plainErr ''numeric field overflow'')
     else if vcProduct row = Some [] then Inl (plainErr ''violates foreign key constraint'')
     else if \<exists>v\<in>set (changeVouchers s). vcSecretHash v = vcSecretHash row then Inl uniqueViolation
     else Inr ((), s\<lparr>changeVouchers := changeVouchers s @ [row]\<rparr>))"

text \<open>The fields of the QR payload, before \<open>JSON.stringify\<close>; \<open>type\<close> is \<open>change\<close> and \<open>imali\<close> is 1.\<close>

record changeQr =
  cqCid :: string
  cqSecret :: string
  cqAmt :: string
  cqCur :: string
  cqName :: string
  cqMid :: string
  cqSid :: string
  cqStore :: string
  cqTill :: "string option"

record preparedVoucher =
  pvId :: string
  pvSecret :: string
  pvAmount :: string
  pvCurrency :: string
  pvMerchant :: string
  pvExpires :: int
  pvQr :: changeQr
  pvLink :: string

definition prepareChangeVoucher ::
  "env \<Rightarrow> string \<Rightarrow> string \<Rightarrow> prepareInput \<Rightarrow> ('r voucherDb_scheme, preparedVoucher) prog" where
  "prepareChangeVoucher E newId secret p =
    andThen (loadMerchant (piMerchant p)) (\<lambda>(merchant, _).
    andThen (resolveStoreContext p) (\<lambda>store.
    let cur = toUpper (stCurrency store) in
    andThen (parseAmountUnits E (piAmount p) cur) (\<lambda>units.
    andThen (require (0 < units) (statusErr ''Amount must be positive'' 400)) (\<lambda>_.
    andThen (validateProduct E (piMerchant p) (piProduct p) units cur) (\<lambda>_.
    andThen (gets clock) (\<lambda>now.
    let expires = now + defaultTtlMs; amt = formatUnits E units (currencyDecimals cur) in
    andThen (insertVoucher \<lparr>vcId = newId, vcMerchant = piMerchant p, vcProduct = piProduct p, vcAmount = units,
       vcCurrency = cur, vcStatus = VcPending, vcMode = QrMode, vcRecipient = None, vcTag = None,
       vcSecretHash = secretHash E secret, vcStore = stId store, vcStoreNumber = Some (stCode store),
       vcTill = piTill p, vcMember = piMember p, vcDebitTx = None, vcCreditTx = None, vcMintTx = None,
       vcExpires = expires, vcClaimedAt = None\<rparr>) (\<lambda>_.
    ret \<lparr>pvId = newId, pvSecret = secret, pvAmount = amt, pvCurrency = cur, pvMerchant = merchantName merchant,
      pvExpires = expires, pvQr = \<lparr>cqCid = newId, cqSecret = secret, cqAmt = amt, cqCur = cur,
        cqName = merchantName merchant, cqMid = merchantId merchant, cqSid = stId store, cqStore = stCode store,
        cqTill = piTill p\<rparr>, pvLink = ''#/receive?c='' @ secret\<rparr>)))))))"

record sentVoucher =
  svId :: string
  svWallet :: address
  svTag :: string
  svAmount :: string
  svCurrency :: string
  svDebitTx :: txHash
  svCreditTx :: txHash

definition sendChangeVoucherToTag ::
  "env \<Rightarrow> string \<Rightarrow> string \<Rightarrow> prepareInput \<Rightarrow> string \<Rightarrow> ('r voucherDb_scheme, sentVoucher) prog" where
  "sendChangeVoucherToTag E newId secret p recipientTag =
    andThen (loadMerchant (piMerchant p)) (\<lambda>(_, merchantW).
    andThen (resolveStoreContext p) (\<lambda>store.
    let cur = toUpper (stCurrency store) in
    andThen (parseAmountUnits E (piAmount p) cur) (\<lambda>units.
    andThen (require (0 < units) (statusErr ''Amount must be positive'' 400)) (\<lambda>_.
    andThen (validateProduct E (piMerchant p) (piProduct p) units cur) (\<lambda>_.
    andThen (resolveWalletOrTag E recipientTag) (\<lambda>recipient.
    let tag = tagOf recipientTag in
    andThen (executeTransfer E merchantW recipient units cur) (\<lambda>legs.
    andThen (gets clock) (\<lambda>now.
    andThen (insertVoucher \<lparr>vcId = newId, vcMerchant = piMerchant p, vcProduct = piProduct p, vcAmount = units,
       vcCurrency = cur, vcStatus = VcClaimed, vcMode = TagMode, vcRecipient = Some recipient, vcTag = Some tag,
       vcSecretHash = secretHash E secret, vcStore = stId store, vcStoreNumber = Some (stCode store),
       vcTill = piTill p, vcMember = piMember p, vcDebitTx = Some (tlDebitTx legs), vcCreditTx = Some (tlCreditTx legs),
       vcMintTx = tlMintTx legs, vcExpires = now, vcClaimedAt = Some now\<rparr>) (\<lambda>_.
    andThen (recordMintIfAny (stCode store) newId merchantW legs cur) (\<lambda>_.
    ret \<lparr>svId = newId, svWallet = recipient, svTag = tag, svAmount = formatUnits E units (currencyDecimals cur),
      svCurrency = cur, svDebitTx = tlDebitTx legs, svCreditTx = tlCreditTx legs\<rparr>))))))))))"

section \<open>Reading and redeeming a voucher\<close>

text \<open>The voucher of a secret with the merchant it joins.\<close>

definition findVoucher :: "bytes32 \<Rightarrow> 'r voucherDb_scheme \<Rightarrow> (voucherRow \<times> merchantRow) option" where
  "findVoucher h s = headOpt [(v, m). v \<leftarrow> changeVouchers s, m \<leftarrow> merchants s, merchantId m = vcMerchant v \<and> vcSecretHash v = h]"

record voucherSummary =
  vsId :: string
  vsStatus :: voucherStatus
  vsAmount :: string
  vsCurrency :: string
  vsMerchant :: string
  vsExpires :: int
  vsExpired :: bool

definition voucherDecimals :: "string \<Rightarrow> nat" where
  "voucherDecimals cur = (if cur = ''USDC'' then 6 else 2)"

text \<open>\<open>ethers.formatUnits\<close> on a text reads it with \<open>BigInt\<close> first.\<close>

definition formatUnitsOfText :: "env \<Rightarrow> string \<Rightarrow> nat \<Rightarrow> ('s, string) prog" where
  "formatUnitsOfText E t dec =
    andThen (ofOption (bigIntOf t) (plainErr ''invalid BigNumberish string'')) (\<lambda>n. ret (formatUnits E n dec))"

definition getChangeVoucherSummary :: "env \<Rightarrow> string \<Rightarrow> ('r voucherDb_scheme, voucherSummary option) prog" where
  "getChangeVoucherSummary E secret =
    andThen (readIO (findVoucher (secretHash E secret))) (\<lambda>r. case r of
      None \<Rightarrow> ret None
    | Some (v, m) \<Rightarrow>
        andThen (formatUnitsOfText E (vcAmountText v) (voucherDecimals (vcCurrency v))) (\<lambda>amt.
        andThen (gets clock) (\<lambda>now.
        ret (Some \<lparr>vsId = vcId v, vsStatus = vcStatus v, vsAmount = amt, vsCurrency = vcCurrency v,
          vsMerchant = merchantName m, vsExpires = vcExpires v, vsExpired = (vcExpires v < now)\<rparr>))))"

definition redeemVoucherCheck :: "env \<Rightarrow> string \<Rightarrow> ('r voucherDb_scheme, voucherRow \<times> address) prog" where
  "redeemVoucherCheck E secret =
    andThen (readIO (findVoucher (secretHash E secret))) (\<lambda>r.
    andThen (ofOption r (statusErr ''Change voucher not found'' 404)) (\<lambda>(v, m).
    andThen (require (vcStatus v \<noteq> VcClaimed) (statusErr ''This change voucher has already been claimed'' 409)) (\<lambda>_.
    andThen (require (vcStatus v = VcPending) (statusErr ''This change voucher is no longer valid'' 400)) (\<lambda>_.
    andThen (gets clock) (\<lambda>now.
    andThen (if vcExpires v < now then
        andThen (writeIO (\<lambda>s. s\<lparr>changeVouchers := updWhere (\<lambda>x. vcId x = vcId v) (\<lambda>x. x\<lparr>vcStatus := VcExpired\<rparr>) (changeVouchers s)\<rparr>)) (\<lambda>_.
        raise (statusErr ''This change voucher has expired - ask the cashier for a new one'' 410))
      else ret ()) (\<lambda>_.
    andThen (ofOption (merchantWallet m) (statusErr ''Merchant wallet not configured'' 500)) (\<lambda>w.
    ret (v, w))))))))"

record redeemedVoucher =
  rvId :: string
  rvAmount :: string
  rvCurrency :: string
  rvDebitTx :: txHash
  rvCreditTx :: txHash

text \<open>What follows once \<open>BigInt(v.amount)\<close> has a value.\<close>

definition redeemVoucherPay ::
  "env \<Rightarrow> address \<Rightarrow> voucherRow \<Rightarrow> address \<Rightarrow> int \<Rightarrow> ('r voucherDb_scheme, redeemedVoucher) prog" where
  "redeemVoucherPay E consumerW v merchantW units =
    andThen (executeTransfer E merchantW consumerW units (vcCurrency v)) (\<lambda>legs.
    andThen (gets clock) (\<lambda>now.
    andThen (writeIO (\<lambda>s. s\<lparr>changeVouchers := updWhere (\<lambda>x. vcId x = vcId v)
       (\<lambda>x. x\<lparr>vcStatus := VcClaimed, vcRecipient := Some consumerW, vcDebitTx := Some (tlDebitTx legs),
          vcCreditTx := Some (tlCreditTx legs),
          vcMintTx := (case tlMintTx legs of None \<Rightarrow> vcMintTx x | Some h \<Rightarrow> Some h), vcClaimedAt := Some now\<rparr>)
       (changeVouchers s)\<rparr>)) (\<lambda>_.
    andThen (recordMintIfAny (orElse (vcStoreNumber v) ''STORE'') (vcId v) merchantW legs (vcCurrency v)) (\<lambda>_.
    ret \<lparr>rvId = vcId v, rvAmount = formatUnits E units (voucherDecimals (vcCurrency v)), rvCurrency = vcCurrency v,
      rvDebitTx = tlDebitTx legs, rvCreditTx = tlCreditTx legs\<rparr>))))"

definition redeemChangeVoucher :: "env \<Rightarrow> string \<Rightarrow> address \<Rightarrow> ('r voucherDb_scheme, redeemedVoucher) prog" where
  "redeemChangeVoucher E secret consumerW =
    andThen (redeemVoucherCheck E secret) (\<lambda>(v, merchantW).
    andThen (ofOption (bigIntOf (vcAmountText v)) (plainErr (''Cannot convert '' @ vcAmountText v @ '' to a BigInt''))) (\<lambda>units.
    redeemVoucherPay E consumerW v merchantW units))"

section \<open>Routes\<close>

definition summaryRoute :: "env \<Rightarrow> string \<Rightarrow> ('r voucherDb_scheme, voucherSummary reply) prog" where
  "summaryRoute E secret = tryCatch
    (andThen (getChangeVoucherSummary E secret) (\<lambda>r. case r of
       None \<Rightarrow> ret (ReplyErr 404 ''Change voucher not found'' None) | Some v \<Rightarrow> ret (Reply v)))
    (\<lambda>e. ret (ReplyErr 500 (fmsg e) None))"

definition redeemVoucherRoute :: "env \<Rightarrow> string \<Rightarrow> address \<Rightarrow> ('r voucherDb_scheme, redeemedVoucher reply) prog" where
  "redeemVoucherRoute E secret wallet = tryCatch
    (andThen (redeemChangeVoucher E secret wallet) (\<lambda>r. ret (Reply r)))
    (\<lambda>e. ret (ReplyErr (orElse (fstatus e) 400) (fmsg e) None))"

section \<open>What leaves the Vault alone\<close>

lemma vault_same: "keeps (vaultIs (vault s)) m \<Longrightarrow> m s = (r, t) \<Longrightarrow> vault t = vault s"
  using keepsD [of "vaultIs (vault s)" m s] by (simp add: vaultIs_def)

lemma registryLookup_vault [keeps_vault]: "keeps (vaultIs v) (registryLookup E view msg)"
  unfolding registryLookup_def
  by (intro keeps_intro keeps_io vaultIs_net) (auto split: option.splits)

lemma retail_reads_vault [keeps_vault]:
  "keeps (vaultIs v) (memberStoreScope i)"
  "keeps (vaultIs v) (resolveAccountNumber E raw)"
  "keeps (vaultIs v) (loadMerchant m)"
  unfolding memberStoreScope_def resolveAccountNumber_def loadMerchant_def Let_def
  by (intro keeps_intro keeps_vault)+

lemma retail_resolve_vault [keeps_vault]:
  "keeps (vaultIs v) (resolveStoreForMerchant m st who)"
  "keeps (vaultIs v) (resolveWalletOrTag E input)"
  "keeps (vaultIs v) (validateProduct E m pid a cur)"
  unfolding resolveStoreForMerchant_def resolveWalletOrTag_def validateProduct_def Let_def
  by (intro keeps_intro keeps_vault)+

lemma resolveStoreContext_vault [keeps_vault]: "keeps (vaultIs v) (resolveStoreContext p)"
  unfolding resolveStoreContext_def by (intro keeps_intro keeps_vault)

lemma parseAmountUnits_keeps [keeps_intro]: "keeps P (parseAmountUnits E a cur)"
  unfolding parseAmountUnits_def by (rule keeps_ofOption)

lemma voucher_writes_vault [keeps_vault]:
  "keeps (vaultIs v) (insertVoucher row)"
  "keeps (vaultIs v) (recordChangeVoucherMintRef sn i w h c a cur)"
  unfolding insertVoucher_def recordChangeVoucherMintRef_def
  by (intro keeps_intro keeps_io keeps_vault_write vaultIs_net; auto simp: vaultIs_def Let_def split: if_splits)+

lemma recordMintIfAny_vault [keeps_vault]: "keeps (vaultIs v) (recordMintIfAny sn i w legs cur)"
  unfolding recordMintIfAny_def by (auto split: option.split intro: keeps_ret voucher_writes_vault)

section \<open>The transfer is exact\<close>

lemma executeTransfer_exact:
  assumes "executeTransfer E mw cw a cur s = (Inr r, t)" and sound: "cashSound (vault s) (currencyHash E cur)"
  shows "0 < a" and "cashSound (vault t) (currencyHash E cur)"
    and "balanceOf (vault t) x d = balanceOf (vault s) x d
      - (if x = mw \<and> d = currencyHash E cur then nat a else 0) + (if x = cw \<and> d = currencyHash E cur then nat a else 0)"
proof -
  let ?c = "currencyHash E cur"
  let ?top = "\<lambda>b. if b < a
       then andThen (creditFiatWithTreasuryBacking E mw (a - b) cur) (\<lambda>topUp.
         ret (bcMintTx topUp, bcMintAmount topUp, Some (bcCreditTx topUp)))
       else ret (None, None, None)"
  obtain b s0 where b: "vaultBalanceOf E mw cur s = (Inr b, s0)"
    and k: "andThen (?top b) (\<lambda>(mintTx, mintAmount, topUpTx).
    andThen (vaultAdminDebit E mw a cur) (\<lambda>debitTx.
    andThen (vaultAdminCredit E cw a cur) (\<lambda>creditTx.
    ret \<lparr>tlDebitTx = debitTx, tlCreditTx = creditTx, tlMintTx = mintTx, tlMintAmount = mintAmount, tlTopUpTx = topUpTx\<rparr>))) s0 = (Inr r, t)"
    using assms(1) unfolding executeTransfer_def by (rule andThen_InrE)
  obtain mt ma tu s1 where top: "?top b s0 = (Inr (mt, ma, tu), s1)"
    and k1: "andThen (vaultAdminDebit E mw a cur) (\<lambda>debitTx.
    andThen (vaultAdminCredit E cw a cur) (\<lambda>creditTx.
    ret \<lparr>tlDebitTx = debitTx, tlCreditTx = creditTx, tlMintTx = mt, tlMintAmount = ma, tlTopUpTx = tu\<rparr>)) s1 = (Inr r, t)"
    using k by (elim andThen_InrE) (auto simp only: split: prod.splits)
  obtain h1 s2 h2 where db: "vaultAdminDebit E mw a cur s1 = (Inr h1, s2)" and c: "vaultAdminCredit E cw a cur s2 = (Inr h2, t)"
    using k1 by (elim andThen_InrE) auto
  have b0: "b = int (balanceOf (vault s) mw ?c)" and v0: "vault s0 = vault s"
    using vaultBalanceOf_InrD [OF b] by auto
  have s1: "cashSound (vault s1) ?c \<and> (\<forall>x d. balanceOf (vault s1) x d
      = balanceOf (vault s) x d + (if x = mw \<and> d = ?c \<and> b < a then nat (a - b) else 0))"
  proof (cases "b < a")
    case True
    then obtain p where "creditFiatWithTreasuryBacking E mw (a - b) cur s0 = (Inr p, s1)"
      using top by (auto elim!: andThen_InrE)
    then have "creditAssets mw ?c (nat (a - b)) (vault s) = Inr (vault s1)"
      using triple_InrD [OF creditFiat_triple [of "vault s" E mw "a - b" cur]] v0 by (auto simp: vaultIs_def)
    from credit_exact [OF this sound] credit_cashSound [OF this sound] True show ?thesis by simp
  next
    case False
    then show ?thesis using top v0 sound by simp
  qed
  obtain v2 r2 where v2: "debitAssets mw ?c (nat a) (vault s1) = Inr v2" and pos: "0 < a" and s2: "vault s2 = v2"
    using vaultAdminDebit_InrD [OF db] by auto
  have cr: "creditAssets cw ?c (nat a) v2 = Inr (vault t)"
    using vaultAdminCredit_InrD [OF c] s2 by auto
  have cs: "cashSound v2 ?c" using debit_cashSound [OF v2] s1 by simp
  have le: "nat a \<le> balanceOf (vault s1) mw ?c" using cash.deb_enough [OF v2] s1 by simp
  show "0 < a" by (rule pos)
  show "cashSound (vault t) ?c" by (rule credit_cashSound [OF cr cs])
  show "balanceOf (vault t) x d = balanceOf (vault s) x d
      - (if x = mw \<and> d = ?c then nat a else 0) + (if x = cw \<and> d = ?c then nat a else 0)"
    using credit_exact [OF cr cs, of x d] debit_exact [OF v2, of x d] s1 b0 pos by (auto simp: nat_diff_distrib)
qed

text \<open>A voucher on record, up to the transactions it links.\<close>

definition onRecord :: "string \<Rightarrow> voucherStatus \<Rightarrow> int \<Rightarrow> address option \<Rightarrow> 'r voucherDb_scheme \<Rightarrow> bool" where
  "onRecord i st a w s \<longleftrightarrow> (\<exists>v\<in>set (changeVouchers s). vcId v = i \<and> vcStatus v = st \<and> vcAmount v = a \<and> vcRecipient v = w)"

lemma onRecord_net [simp]: "net_free (onRecord i st a w)"
  by (simp add: net_free_def onRecord_def)

lemma insertVoucher_onRecord:
  "insertVoucher row s = (Inr x, t) \<Longrightarrow> onRecord (vcId row) (vcStatus row) (vcAmount row) (vcRecipient row) t"
  unfolding insertVoucher_def by (drule io_InrD) (auto simp: onRecord_def split: if_splits)

lemma recordMint_onRecord: "keeps (onRecord i st a w) (recordMintIfAny sn j mw legs cur)"
proof -
  have "keeps (onRecord i st a w) (recordChangeVoucherMintRef sn j mw h c b cur)" for h c b
    unfolding recordChangeVoucherMintRef_def
    by (intro keeps_intro keeps_io keeps_writeIO onRecord_net)
      (auto simp: onRecord_def Let_def split: if_splits intro!: updWhere_ex)
  then show ?thesis
    unfolding recordMintIfAny_def by (auto split: option.split intro: keeps_ret)
qed

text \<open>
  C14. Change sent to a payment tag, in a currency at parity (a share is worth one unit, as in the
  spend-cash currencies), on any network, moves exactly the amount asked for: the customer's wallet gains it,
  the merchant's claim loses it, down to zero when it is short (the rest is issued by the treasury), no
  other balance of any account in any currency changes, and the voucher is on record as claimed by that wallet.
\<close>

theorem sendChange_exact:
  assumes "sendChangeVoucherToTag E newId secret p tag s = (Inr r, t)"
    and "cashSound (vault s) (currencyHash E (svCurrency r))"
  shows "\<exists>units mr mw v. parseUnits E (piAmount p) (currencyDecimals (svCurrency r)) = Some units \<and> 0 < units
    \<and> findMerchant (piMerchant p) s = Some mr \<and> merchantWallet mr = Some mw
    \<and> (\<forall>x d. balanceOf (vault t) x d = balanceOf (vault s) x d
        - (if x = mw \<and> d = currencyHash E (svCurrency r) then nat units else 0)
        + (if x = svWallet r \<and> d = currencyHash E (svCurrency r) then nat units else 0))
    \<and> v \<in> set (changeVouchers t) \<and> vcId v = newId \<and> vcStatus v = VcClaimed \<and> vcAmount v = units \<and> vcRecipient v = Some (svWallet r)"
proof -
  from assms show ?thesis
    unfolding sendChangeVoucherToTag_def Let_def
    apply (elim andThen_InrE)
    apply (simp only: split_paired_all prod.case)
    apply (elim andThen_InrE)
    apply (simp only: require_Inr_iff ret_run prod.inject sum.inject gets_run)
    apply (elim conjE)
    apply hypsubst_thin
    subgoal premises prems for mr mw s1 store s2 units s3 _ _ _ s4 recipient s5 legs _ _ s6 _ s7
    proof -
      let ?c = "currencyHash E (toUpper (stCurrency store))"
      have v: "vault s5 = vault s" "vault t = vault s6"
        using vault_same [OF retail_reads_vault(3) prems(2)] vault_same [OF resolveStoreContext_vault prems(3)]
          vault_same [OF parseAmountUnits_keeps prems(4)] vault_same [OF retail_resolve_vault(3) prems(5)]
          vault_same [OF retail_resolve_vault(2) prems(6)] vault_same [OF voucher_writes_vault(1) prems(8)]
          vault_same [OF recordMintIfAny_vault prems(9)] by simp_all
      have u: "parseUnits E (piAmount p) (currencyDecimals (toUpper (stCurrency store))) = Some units"
        using prems(4) unfolding parseAmountUnits_def by simp
      have m: "findMerchant (piMerchant p) s = Some mr \<and> merchantWallet mr = Some mw"
        using prems(2) unfolding loadMerchant_def by (auto simp: andThen_Inr_iff findMerchant_def dest!: readIO_InrD)
      have "cashSound (vault s5) ?c" using prems v(1) by simp
      note x = executeTransfer_exact(3) [OF prems(7) this]
      have "onRecord newId VcClaimed units (Some recipient) s7"
        using insertVoucher_onRecord [OF prems(8)] by simp
      then have "onRecord newId VcClaimed units (Some recipient) t"
        using keepsD [OF recordMint_onRecord] prems(9) by (metis snd_conv)
      then obtain v where "v \<in> set (changeVouchers t)" "vcId v = newId" "vcStatus v = VcClaimed" "vcAmount v = units"
        "vcRecipient v = Some recipient" unfolding onRecord_def by blast
      then show ?thesis
        using u m x v prems(10)
        by (intro exI [of _ units] exI [of _ mr] exI [of _ mw] exI [of _ v]) simp
    qed
    done
qed

text \<open>
  C15. No change voucher can be redeemed: the numeric column returns the amount with eight decimals,
  which \<open>BigInt\<close> rejects. Whatever the state, the secret and the network, redeeming throws and moves no value.
\<close>

theorem redeem_change_never_pays:
  "\<exists>e t. redeemChangeVoucher E secret w s = (Inl e, t) \<and> vault t = vault s \<and> tts t = tts s"
proof -
  have "redeemVoucherCheck E secret s = (r, t) \<Longrightarrow> vault t = vault s \<and> tts t = tts s" for r t
    unfolding redeemVoucherCheck_def
    by (auto simp: andThen_def readIO_def io_def require_def ofOption_def writeIO_def Let_def gets_def raise_def ret_def
        split: prod.splits sum.splits net.splits option.splits if_splits)
  then show ?thesis
    by (cases "redeemVoucherCheck E secret s")
      (auto simp: redeemChangeVoucher_def andThen_def ofOption_def vcAmountText_def bigIntOf_numericText split: sum.split)
qed

text \<open>The summary of a stored voucher is an error for the same reason: the reply is 500.\<close>

lemma change_summary_fails:
  assumes "findVoucher (secretHash E secret) s = Some (v, m)" and "net s = []"
  shows "summaryRoute E secret s = (Inr (ReplyErr 500 ''invalid BigNumberish string'' None), s)"
  using assms
  by (simp add: summaryRoute_def getChangeVoucherSummary_def formatUnitsOfText_def vcAmountText_def bigIntOf_numericText
      tryCatch_def andThen_def)

section \<open>The example deployment\<close>

definition demoVoucherDb :: voucherDb where
  "demoVoucherDb = (retailDb.extend demoRetailDb (voucherDb.fields []))
     \<lparr>merchants := map (\<lambda>m. m\<lparr>merchantWallet := Some 10\<rparr>) (merchants demoPlatform)\<rparr>"

definition demoChange :: prepareInput where
  "demoChange = \<lparr>piMerchant = ''m1'', piMember = None, piAmount = ''5'', piProduct = None, piStore = ''s1'', piTill = None\<rparr>"

lemma demoVoucher_sel [simp]:
  "net demoVoucherDb = []" "vault demoVoucherDb = demoVault" "txCount demoVoucherDb = 0" "changeVouchers demoVoucherDb = []"
  "stores demoVoucherDb = [demoStore]" "clock demoVoucherDb = 1700000000000" "depositRefs demoVoucherDb = []"
  "merchants demoVoucherDb = map (\<lambda>m. m\<lparr>merchantWallet := Some 10\<rparr>) (merchants demoPlatform)"
  "regByEns demoVoucherDb = (\<lambda>h. if h = idExample ''bob'' then Some (11, True) else None)"
  by (simp_all add: demoVoucherDb_def voucherDb.defs demo_state)

lemma change_text: "trim ''s1'' = ''s1''" "parseExample ''5'' 2 = Some 500" "toUpper ''ZAR'' = ''ZAR''" "currencyDecimals ''ZAR'' = 2"
  by code_simp+

lemmas vault_eval = adminDebit_def adminCredit_def debitAssets_def creditAssets_def convertToAssets_def convertToShares_def
  mul256_def sub256_def add256_def uintLimit_def setPool_def setShares_def guard_def unifiedBalance_def

lemma vault_calls_run:
  assumes "net s = []" and "vaultAddr E = Some va" and "signer E = Some sg" and "0 \<le> a" and "a < 2 ^ 256"
  shows "adminDebit sg w (nat a) (currencyHash E cur) (vault s) = Inr v \<Longrightarrow>
      vaultAdminDebit E w a cur s = (Inr (txCount s), s\<lparr>vault := v, txCount := txCount s + 1\<rparr>)"
    and "adminCredit sg w (nat a) (currencyHash E cur) (vault s) = Inr v \<Longrightarrow>
      vaultAdminCredit E w a cur s = (Inr (txCount s), s\<lparr>vault := v, txCount := txCount s + 1\<rparr>)"
  using assms by (simp_all add: vaultAdminDebit_def vaultAdminCredit_def vaultWriter_def sendTx_calm onVault_def)

lemma demo_move_500:
  obtains v1 v2 where "adminDebit 2 10 500 0x15A4152 demoVault = Inr v1" and "adminCredit 2 11 500 0x15A4152 v1 = Inr v2"
  by (simp add: vault_eval demoVault_def demoShares_def)

lemma demo_sendChange: "\<exists>r t. sendChangeVoucherToTag demoEnv ''v1'' ''k'' demoChange ''@Bob'' demoVoucherDb = (Inr r, t)
    \<and> svWallet r = 11 \<and> svCurrency r = ''ZAR''"
proof -
  obtain v1 v2 where v: "adminDebit 2 10 500 0x15A4152 demoVault = Inr v1" "adminCredit 2 11 500 0x15A4152 v1 = Inr v2"
    by (rule demo_move_500)
  let ?s1 = "demoVoucherDb\<lparr>vault := v1, txCount := Suc 0\<rparr>"
  have m: "loadMerchant ''m1'' demoVoucherDb = (Inr ((hd (merchants demoPlatform))\<lparr>merchantWallet := Some 10\<rparr>, 10), demoVoucherDb)"
    by (simp add: loadMerchant_def findMerchant_def demoPlatform_def)
  have st: "resolveStoreContext demoChange demoVoucherDb = (Inr demoStore, demoVoucherDb)"
    by (simp add: resolveStoreContext_def resolveStoreForMerchant_def findStore_def demoStore_def demoChange_def change_text)
  have w: "resolveWalletOrTag demoEnv ''@Bob'' demoVoucherDb = (Inr 11, demoVoucherDb)"
    by (simp add: resolveWalletOrTag_def registryLookup_def tag_values io_calm Let_def)
  have b: "vaultBalanceOf demoEnv 10 ''ZAR'' demoVoucherDb = (Inr 50000, demoVoucherDb)"
    by (simp add: vaultBalanceOf_def callView_calm vault_eval demoVault_def demoShares_def)
  have d: "vaultAdminDebit demoEnv 10 500 ''ZAR'' demoVoucherDb = (Inr 0, ?s1)"
    and c: "vaultAdminCredit demoEnv 11 500 ''ZAR'' ?s1 = (Inr (Suc 0), ?s1\<lparr>vault := v2, txCount := Suc (Suc 0)\<rparr>)"
    using vault_calls_run(1) [of demoVoucherDb demoEnv 1 2 500 10 "''ZAR''" v1] vault_calls_run(2) [of ?s1 demoEnv 1 2 500 11 "''ZAR''" v2] v
    by simp_all
  have u: "parseAmountUnits demoEnv ''5'' ''ZAR'' demoVoucherDb = (Inr 500, demoVoucherDb)"
    by (simp add: parseAmountUnits_def change_text)
  have cur: "toUpper (stCurrency demoStore) = ''ZAR''" by (simp add: demoStore_def change_text)
  have f: "piMerchant demoChange = ''m1''" "piAmount demoChange = ''5''" "piProduct demoChange = None"
    by (simp_all add: demoChange_def)
  show ?thesis
    by (simp add: sendChangeVoucherToTag_def f m st cur u validateProduct_def w executeTransfer_def b d c insertVoucher_def
        io_calm recordMintIfAny_def Let_def)
qed

lemma sendChange_exact_witness:
  "\<exists>r t. sendChangeVoucherToTag demoEnv ''v1'' ''k'' demoChange ''@Bob'' demoVoucherDb = (Inr r, t)
    \<and> (\<exists>v\<in>set (changeVouchers t). vcRecipient v = Some 11)"
proof -
  obtain r t where run: "sendChangeVoucherToTag demoEnv ''v1'' ''k'' demoChange ''@Bob'' demoVoucherDb = (Inr r, t)"
    and r: "svWallet r = 11" using demo_sendChange by blast
  show ?thesis using sendChange_exact [OF run] run r by auto
qed

end
