(* ===== verification/Sales.thy ===== *)
theory Sales
  imports ChangeVoucher
begin

text \<open>
  Purchases from merchants: \<open>merchantCheckoutService.ts\<close> (the quote of a charge in the currency the
  merchant settles in), the sale row of \<open>consumer.routes.ts\<close>, and \<open>fulfilmentService.ts\<close>: the price is
  held in escrow until the product's fulfilment API answers, then released to the merchant or refunded.

  \<open>setImmediate\<close> puts work on a queue: \<open>fulfilQueue\<close> holds the sales to process and \<open>releaseTasks\<close> the
  releases to make. The answer of a fulfilment API is the function \<open>fulfilApi\<close> of the state, from the
  URL and the request. The column \<open>amount\<close> is NUMERIC(20,2), held here in hundredths.
\<close>

datatype saleStatus = PaidSale | PendingFulfilment | RefundedSale
datatype fulfilStatus = FulfilPending | FulfilSuccess | FulfilFailed

record saleItem =
  siName :: string
  siQty :: rat
  siUnit :: rat
  siLine :: rat

record saleRow =
  slId :: nat
  slMerchant :: "string option"
  slMerchantWallet :: address
  slConsumer :: "address option"
  slTag :: "string option"
  slAmount :: nat
  slCurrency :: string
  slCharge :: "rat option"
  slChargeCur :: "string option"
  slFxRate :: "rat option"
  slStoreId :: "string option"
  slStore :: string
  slTill :: string
  slItems :: "saleItem list option"
  slTx :: txHash
  slEscrowTx :: "txHash option"
  slReleaseTx :: "txHash option"
  slStatus :: saleStatus
  slUrl :: "string option"
  slFulfil :: "fulfilStatus option"
  slError :: "string option"

record apiRequest =
  arSale :: nat
  arMerchant :: "string option"
  arMerchantWallet :: address
  arConsumerWallet :: "address option"
  arAmount :: string
  arCurrency :: string
  arItems :: "saleItem list option"

text \<open>
  What \<open>fetch\<close> gives: it throws (a timeout, a refused connection), or a status with a text, of which
  the fields \<open>success\<close> (when a boolean) and \<open>status\<close> (when a string) of the JSON matter.
\<close>

datatype apiReply = ApiThrows string
  | ApiReply (apiOk: bool) (apiStatus: nat) (apiText: string) (apiSuccess: "bool option") (apiState: "string option")

record releaseTask =
  rtSale :: nat
  rtWallet :: address
  rtUnits :: int
  rtCurrency :: string
  rtPaid :: saleStatus

record salesDb = voucherDb +
  sales :: "saleRow list"
  fulfilQueue :: "nat list"
  releaseTasks :: "releaseTask list"
  fulfilApi :: "string \<Rightarrow> apiRequest \<Rightarrow> apiReply"

section \<open>Fulfilment\<close>

text \<open>\<open>base\<close> is \<open>config.server.publicApiBase\<close>; one trailing slash is dropped.\<close>

definition defaultFulfilmentUrl :: "string \<Rightarrow> string" where
  "defaultFulfilmentUrl base =
    (if base \<noteq> [] \<and> last base = CHR ''/'' then butlast base else base) @ ''/api/mock/fulfil''"

definition nonEmpty :: "string option \<Rightarrow> string option" where
  "nonEmpty t = (case t of Some u \<Rightarrow> if u = [] then None else Some u | None \<Rightarrow> None)"

definition resolveFulfilmentUrl ::
  "string \<Rightarrow> string option \<Rightarrow> string option \<Rightarrow> ('r salesDb_scheme, string) prog" where
  "resolveFulfilmentUrl base productId m =
    andThen (case nonEmpty productId of None \<Rightarrow> ret None
       | Some p \<Rightarrow> readIO (\<lambda>s. case find (\<lambda>r. prId r = p) (products s) of None \<Rightarrow> None | Some r \<Rightarrow> nonEmpty (prFulfil r))) (\<lambda>a.
    case a of Some u \<Rightarrow> ret u | None \<Rightarrow>
    andThen (case nonEmpty m of None \<Rightarrow> ret None
       | Some mid \<Rightarrow> readIO (\<lambda>s. case sort_key (\<lambda>r. - prUpdated r)
             (filter (\<lambda>r. prMerchant r = mid \<and> prFulfil r \<noteq> None \<and> prActive r) (products s)) of
           [] \<Rightarrow> None | r # _ \<Rightarrow> nonEmpty (prFulfil r))) (\<lambda>b.
    ret (case b of Some u \<Rightarrow> u | None \<Rightarrow> defaultFulfilmentUrl base)))"

definition interpretReply :: "apiReply \<Rightarrow> string + (bool \<times> string)" where
  "interpretReply r = (case r of ApiThrows m \<Rightarrow> Inl m
     | ApiReply ok st txt success state \<Rightarrow>
         if \<not> ok then Inr (False, ''HTTP '' @ showNat st @ '': '' @ take 300 txt)
         else (case success of Some b \<Rightarrow> Inr (b, take 500 txt)
           | None \<Rightarrow> if state = Some ''ok'' \<or> state = Some ''success'' then Inr (True, take 500 txt)
               else if state = Some ''failed'' \<or> state = Some ''error'' then Inr (False, take 500 txt)
               else Inr (True, take 500 txt)))"

definition callFulfilmentApi :: "string \<Rightarrow> apiRequest \<Rightarrow> ('r salesDb_scheme, bool \<times> string) prog" where
  "callFulfilmentApi url body = andThen (gets (\<lambda>s. interpretReply (fulfilApi s url body))) (\<lambda>r.
     case r of Inl m \<Rightarrow> raise (plainErr m) | Inr x \<Rightarrow> ret x)"

definition updSale :: "nat \<Rightarrow> bool \<Rightarrow> (saleRow \<Rightarrow> saleRow) \<Rightarrow> ('r salesDb_scheme, unit) prog" where
  "updSale i onlyPending f = writeIO (\<lambda>s. s\<lparr>sales :=
     updWhere (\<lambda>r. slId r = i \<and> (onlyPending \<longrightarrow> slStatus r = PendingFulfilment)) f (sales s)\<rparr>)"

definition releaseEscrow :: "env \<Rightarrow> address \<Rightarrow> int \<Rightarrow> string \<Rightarrow> ('r salesDb_scheme, txHash) prog" where
  "releaseEscrow E toWallet units cur =
    andThen (escrowAddress E) (\<lambda>ea.
    andThen (vaultAdminDebit E ea units cur) (\<lambda>_.
    vaultAdminCredit E toWallet units cur))"

definition releaseEscrowInBackground :: "env \<Rightarrow> releaseTask \<Rightarrow> ('r salesDb_scheme, unit) prog" where
  "releaseEscrowInBackground E k = tryCatch
    (andThen (releaseEscrow E (rtWallet k) (rtUnits k) (rtCurrency k)) (\<lambda>tx.
     updSale (rtSale k) True (\<lambda>r. r\<lparr>slStatus := rtPaid k, slReleaseTx := Some tx\<rparr>)))
    (\<lambda>e. updSale (rtSale k) False (\<lambda>r. r\<lparr>slError := Some (orElse (slError r) [] @ '' | release failed: '' @ fmsg e)\<rparr>))"

definition saleStatusText :: "saleStatus \<Rightarrow> string" where
  "saleStatusText st = (case st of PaidSale \<Rightarrow> ''paid'' | PendingFulfilment \<Rightarrow> ''pending_fulfilment'' | RefundedSale \<Rightarrow> ''refunded'')"

datatype fulfilResult = FulfilPaid | FulfilRefunded string | FulfilSkipped "string option"

text \<open>
  The part before the call of the API: a sale to process, its currency and units, or the reason to skip
  it. \<open>Number(text).toFixed(d)\<close> of the column's text, read back by \<open>parseUnits\<close>.
\<close>

definition saleUnits :: "env \<Rightarrow> saleRow \<Rightarrow> int option" where
  "saleUnits E sale = (let d = (if toUpper (slCurrency sale) = ''USDC'' then 6 else 2) in
     case numberOf (numericText 2 (slAmount sale)) of None \<Rightarrow> None
     | Some x \<Rightarrow> parseUnits E (fixedText d x) d)"

definition fulfilStart :: "env \<Rightarrow> nat \<Rightarrow> ('r salesDb_scheme, string + saleRow \<times> int) prog" where
  "fulfilStart E i =
    andThen (readIO (\<lambda>s. find (\<lambda>r. slId r = i) (sales s))) (\<lambda>r.
    andThen (ofOption r (plainErr ''Sale not found'')) (\<lambda>sale.
    if slStatus sale \<noteq> PendingFulfilment then ret (Inl (''Sale already '' @ saleStatusText (slStatus sale)))
    else if slFulfil sale = Some FulfilSuccess then ret (Inl ''Fulfilment API already success'')
    else if slFulfil sale = Some FulfilFailed then ret (Inl ''Fulfilment API already failed'')
    else
      andThen (ofOption (saleUnits E sale) (plainErr ''invalid FixedNumber string value'')) (\<lambda>units.
      andThen (updSale i True (\<lambda>x. x\<lparr>slFulfil := Some FulfilPending\<rparr>)) (\<lambda>_.
      ret (Inr (sale, units))))))"

definition requestOf :: "saleRow \<Rightarrow> apiRequest" where
  "requestOf sale = \<lparr>arSale = slId sale, arMerchant = slMerchant sale, arMerchantWallet = slMerchantWallet sale,
     arConsumerWallet = slConsumer sale, arAmount = numericText 2 (slAmount sale), arCurrency = toUpper (slCurrency sale),
     arItems = slItems sale\<rparr>"

text \<open>The part after the answer: it is recorded, and a release is queued.\<close>

definition queueRelease :: "releaseTask \<Rightarrow> ('r salesDb_scheme, unit) prog" where
  "queueRelease k = modify (\<lambda>s. s\<lparr>releaseTasks := releaseTasks s @ [k]\<rparr>)"

definition fulfilFinish :: "saleRow \<Rightarrow> int \<Rightarrow> bool \<times> string \<Rightarrow> ('r salesDb_scheme, fulfilResult) prog" where
  "fulfilFinish sale units outcome =
    (let cur = toUpper (slCurrency sale); i = slId sale in
     if fst outcome then
       andThen (updSale i True (\<lambda>x. x\<lparr>slFulfil := Some FulfilSuccess, slError := None\<rparr>)) (\<lambda>_.
       andThen (queueRelease \<lparr>rtSale = i, rtWallet = slMerchantWallet sale, rtUnits = units, rtCurrency = cur, rtPaid = PaidSale\<rparr>) (\<lambda>_.
       ret FulfilPaid))
     else (case slConsumer sale of
       None \<Rightarrow> andThen (updSale i False (\<lambda>x. x\<lparr>slFulfil := Some FulfilFailed, slError := Some (snd outcome)\<rparr>)) (\<lambda>_.
         ret (FulfilSkipped (Some (snd outcome))))
     | Some w \<Rightarrow>
         andThen (updSale i True (\<lambda>x. x\<lparr>slFulfil := Some FulfilFailed, slError := Some (snd outcome)\<rparr>)) (\<lambda>_.
         andThen (queueRelease \<lparr>rtSale = i, rtWallet = w, rtUnits = units, rtCurrency = cur, rtPaid = RefundedSale\<rparr>) (\<lambda>_.
         ret (FulfilRefunded (snd outcome))))))"

definition processSaleFulfilment :: "env \<Rightarrow> string \<Rightarrow> nat \<Rightarrow> ('r salesDb_scheme, fulfilResult) prog" where
  "processSaleFulfilment E base i =
    andThen (fulfilStart E i) (\<lambda>st. case st of
      Inl msg \<Rightarrow> ret (FulfilSkipped (Some msg))
    | Inr (sale, units) \<Rightarrow>
        andThen (tryCatch (callFulfilmentApi (case nonEmpty (slUrl sale) of Some u \<Rightarrow> u | None \<Rightarrow> defaultFulfilmentUrl base) (requestOf sale))
          (\<lambda>e. ret (False, fmsg e))) (\<lambda>outcome.
        fulfilFinish sale units outcome))"

definition enqueueSaleFulfilment :: "nat \<Rightarrow> ('r salesDb_scheme, unit) prog" where
  "enqueueSaleFulfilment i = modify (\<lambda>s. s\<lparr>fulfilQueue := fulfilQueue s @ [i]\<rparr>)"

text \<open>The merchant's retry (\<open>merchantSelf.routes.ts\<close>).\<close>

definition retryFulfilment :: "env \<Rightarrow> string \<Rightarrow> string \<Rightarrow> nat \<Rightarrow> ('r salesDb_scheme, fulfilResult reply) prog" where
  "retryFulfilment E base m i = tryCatch
    (andThen (readIO (\<lambda>s. \<exists>r\<in>set (sales s). slId r = i \<and> slMerchant r = Some m)) (\<lambda>found.
     if \<not> found then ret (ReplyErr 404 ''Sale not found'' None)
     else andThen (processSaleFulfilment E base i) (\<lambda>r. ret (Reply r))))
    (\<lambda>e. ret (ReplyErr 500 (fmsg e) None))"

text \<open>The mock fulfilment endpoint; \<open>coin\<close> is the outcome of \<open>Math.random() < 0.5\<close>.\<close>

definition mockFulfil :: "bool \<Rightarrow> string \<Rightarrow> string option \<Rightarrow> bool" where
  "mockFulfil coin query bodyForce =
    (let forced = toLower query;
         s1 = (if forced = ''success'' \<or> forced = ''ok'' then True
               else if forced = ''fail'' \<or> forced = ''failed'' \<or> forced = ''error'' then False else coin);
         s2 = (if bodyForce = Some ''success'' then True else s1) in
     if bodyForce = Some ''fail'' then False else s2)"

section \<open>Checkout\<close>

datatype checkoutFx = IdentityFx | QuotedFx fxSource

record checkoutQuote =
  cqCross :: bool
  cqCharge :: string
  cqChargeCur :: string
  cqPay :: string
  cqPayCur :: string
  cqRate :: rat
  cqSource :: checkoutFx
  cqAsOf :: "int option"

definition roundPayCents :: "rat \<Rightarrow> int" where
  "roundPayCents amount = jsCeil (jsMul amount 100)"

definition roundPay :: "rat \<Rightarrow> string" where
  "roundPay amount = fixedText 2 (jsDiv (of_int (roundPayCents amount)) 100)"

definition parsePositiveAmount :: "string \<Rightarrow> string \<Rightarrow> ('s, rat) prog" where
  "parsePositiveAmount raw label =
    andThen (ofOption (jsNumberOf raw) (statusErr (''Invalid '' @ label) 400)) (\<lambda>n.
    andThen (require (0 < n) (statusErr (''Invalid '' @ label) 400)) (\<lambda>_. ret n))"

definition loadCheckoutMerchant :: "string \<Rightarrow> ('r platform_scheme, merchantRow) prog" where
  "loadCheckoutMerchant m =
    andThen (readIO (findMerchant m)) (\<lambda>r. ofOption r (statusErr ''Merchant not found'' 404))"

definition loadStore :: "string \<Rightarrow> string \<Rightarrow> ('r retailDb_scheme, storeRow) prog" where
  "loadStore m storeId =
    andThen (readIO (\<lambda>s. find (\<lambda>r. stId r = storeId \<and> stMerchant r = m \<and> stActive r) (stores s))) (\<lambda>r.
    ofOption r (statusErr ''Store not found'' 404))"

definition settlementCurrency :: "merchantRow \<Rightarrow> string" where
  "settlementCurrency mr = toUpper (orElse (merchantSettleCur mr) (merchantCurrency mr))"

text \<open>The pay amount, the rate, its source and its time.\<close>

definition computePayFromCharge ::
  "env \<Rightarrow> string \<Rightarrow> string \<Rightarrow> string \<Rightarrow> ('r platform_scheme, string \<times> rat \<times> checkoutFx \<times> int option) prog" where
  "computePayFromCharge E chargeAmount chargeCur payCur =
    (let charge = toUpper chargeCur; pay = toUpper payCur in
     if charge = pay then
       andThen (parsePositiveAmount chargeAmount ''charge amount'') (\<lambda>n. ret (fixedText 2 n, 1, IdentityFx, None))
     else
       andThen (getRate E pay charge) (\<lambda>quote.
       andThen (ofOption (fxqRate quote) (codedErr (''FX rate '' @ pay @ ''/'' @ charge @ '' is unavailable - try again shortly'') 503 ''FX_UNAVAILABLE'')) (\<lambda>rate.
       andThen (require (0 < rate) (codedErr (''FX rate '' @ pay @ ''/'' @ charge @ '' is unavailable - try again shortly'') 503 ''FX_UNAVAILABLE'')) (\<lambda>_.
       andThen (parsePositiveAmount chargeAmount ''charge amount'') (\<lambda>chargeNum.
       let payNum = jsDiv chargeNum rate in
       andThen (require (0 < payNum) (statusErr ''Amount is too small to pay'' 400)) (\<lambda>_.
       ret (roundPay payNum, rate, QuotedFx (fxqSource quote), fxqAsOf quote)))))))"

definition checkStoreCurrency :: "string \<Rightarrow> string option \<Rightarrow> string \<Rightarrow> ('r retailDb_scheme, unit) prog" where
  "checkStoreCurrency m storeId chargeCur = (case nonEmpty storeId of None \<Rightarrow> ret ()
     | Some sid \<Rightarrow> andThen (loadStore m sid) (\<lambda>store.
         require (toUpper (stCurrency store) = chargeCur)
           (statusErr (''Charge currency must match store currency ('' @ stCurrency store @ '')'') 400)))"

definition checkPayCurrency :: "string \<Rightarrow> string \<Rightarrow> string \<Rightarrow> ('r retailDb_scheme, unit) prog" where
  "checkPayCurrency m payCur settle =
    andThen (require (payCur = settle)
      (statusErr (''This store settles in '' @ settle @ '' - cross-border payment must be in '' @ settle) 400)) (\<lambda>_.
    andThen (getAcceptedCurrencies m) (\<lambda>accepted.
    whenP (payCur \<notin> set accepted) (seedAcceptedCurrency m payCur)))"

definition quoteMerchantCheckout ::
  "env \<Rightarrow> string \<Rightarrow> string option \<Rightarrow> string \<Rightarrow> string \<Rightarrow> string option \<Rightarrow> ('r retailDb_scheme, checkoutQuote) prog" where
  "quoteMerchantCheckout E m storeId chargeRaw chargeCurRaw payGiven =
    andThen (loadCheckoutMerchant m) (\<lambda>merchant.
    let chargeCur = toUpper chargeCurRaw in
    andThen (parsePositiveAmount chargeRaw ''charge amount'') (\<lambda>n.
    let charge = fixedText 2 n in
    andThen (checkStoreCurrency m storeId chargeCur) (\<lambda>_.
    let settle = settlementCurrency merchant; payCur = toUpper (orElse payGiven settle); cross = (chargeCur \<noteq> payCur) in
    andThen (if cross then checkPayCurrency m payCur settle else ret ()) (\<lambda>_.
    andThen (computePayFromCharge E charge chargeCur payCur) (\<lambda>(payAmt, rate, src, asOf).
    ret \<lparr>cqCross = cross, cqCharge = charge, cqChargeCur = chargeCur, cqPay = payAmt, cqPayCur = payCur,
      cqRate = rate, cqSource = src, cqAsOf = asOf\<rparr>)))))"

definition resolveMerchantCheckout ::
  "env \<Rightarrow> string \<Rightarrow> address \<Rightarrow> string option \<Rightarrow> string \<Rightarrow> string \<Rightarrow> string option \<Rightarrow> string option
    \<Rightarrow> ('r retailDb_scheme, checkoutQuote) prog" where
  "resolveMerchantCheckout E m wallet storeId chargeRaw chargeCurRaw payGiven clientPay =
    andThen (loadCheckoutMerchant m) (\<lambda>merchant.
    andThen (require (merchantWallet merchant = Some wallet) (statusErr ''Merchant wallet mismatch'' 400)) (\<lambda>_.
    andThen (quoteMerchantCheckout E m storeId chargeRaw chargeCurRaw payGiven) (\<lambda>quote.
    andThen (case clientPay of None \<Rightarrow> ret ()
       | Some c \<Rightarrow> andThen (parsePositiveAmount c ''pay amount'') (\<lambda>client.
           andThen (parsePositiveAmount (cqPay quote) ''pay amount'') (\<lambda>server.
           require (\<bar>jsSub client server\<bar> \<le> fl (2 / 100))
             (codedErr ''Payment amount is out of date - refresh the quote and try again'' 409 ''QUOTE_STALE'')))) (\<lambda>_.
    ret quote))))"

section \<open>Recording a sale\<close>

record saleContext =
  scMerchant :: "string option"
  scMerchantWallet :: "address option"
  scProduct :: "string option"
  scStoreId :: "string option"
  scStoreNumber :: "string option"
  scTill :: "string option"
  scItems :: "(string \<times> rat \<times> rat) list option"
  scCharge :: "string option"
  scChargeCur :: "string option"
  scFxRate :: "rat option"
  scUrl :: "string option"
  scEscrowHold :: "bool option"

definition lineOf :: "string \<times> rat \<times> rat \<Rightarrow> saleItem" where
  "lineOf i = (case i of (n, q, u) \<Rightarrow>
     \<lparr>siName = n, siQty = q, siUnit = u, siLine = fl (of_int (toFixed 2 (jsMul q u)) / 100)\<rparr>)"

definition saleDecimals :: "string \<Rightarrow> nat" where
  "saleDecimals cur = (if toUpper cur = ''USDC'' then 6 else 2)"

text \<open>
  The column keeps two decimals of the amount in major units, rounding halves up (a \<open>Number\<close> prints back
  the digits it was read from, up to fifteen of them).
\<close>

definition centsColumn :: "int \<Rightarrow> nat \<Rightarrow> nat" where
  "centsColumn amount dec = nat \<lfloor>rat_of_int amount / 10 ^ dec * 100 + 1/2\<rfloor>"

text \<open>The reply's \<open>saleId\<close> and \<open>fulfilmentPending\<close>; \<open>None\<close> when there is no sale or the bookkeeping failed.\<close>

definition recordMerchantSale ::
  "saleContext option \<Rightarrow> address \<Rightarrow> address \<Rightarrow> int \<Rightarrow> string \<Rightarrow> txHash \<Rightarrow> ('r salesDb_scheme, (nat \<times> bool) option) prog" where
  "recordMerchantSale ctx toAddr sender amount cur tx = (case ctx of None \<Rightarrow> ret None | Some sale \<Rightarrow>
    tryCatch
      (let mw = orElse (scMerchantWallet sale) toAddr; hold = (scEscrowHold sale \<noteq> Some False);
           (store, till) = resolveStoreTill (scStoreNumber sale) (scTill sale) in
       andThen (readIO (\<lambda>s. find (\<lambda>m. merchantWallet m = Some mw) (merchants s))) (\<lambda>mr.
       andThen (readIO (\<lambda>s. find (\<lambda>c. consumerWallet c = Some sender) (consumers s))) (\<lambda>cr.
       andThen (io (\<lambda>s. Inr (length (sales s), s\<lparr>sales := sales s @ [
          \<lparr>slId = length (sales s), slMerchant = (case mr of Some m \<Rightarrow> Some (merchantId m) | None \<Rightarrow> scMerchant sale),
            slMerchantWallet = mw, slConsumer = Some sender, slTag = (case cr of None \<Rightarrow> None | Some c \<Rightarrow> consumerTag c),
            slAmount = centsColumn amount (saleDecimals cur), slCurrency = toUpper cur,
            slCharge = (case scCharge sale of None \<Rightarrow> None | Some t \<Rightarrow> jsNumberOf t),
            slChargeCur = map_option toUpper (scChargeCur sale), slFxRate = scFxRate sale, slStoreId = scStoreId sale,
            slStore = store, slTill = till, slItems = map_option (map lineOf) (scItems sale), slTx = tx,
            slEscrowTx = (if hold then Some tx else None), slReleaseTx = None,
            slStatus = (if hold then PendingFulfilment else PaidSale), slUrl = scUrl sale,
            slFulfil = (if hold then Some FulfilPending else None), slError = None\<rparr>]\<rparr>))) (\<lambda>i.
       andThen (whenP hold (enqueueSaleFulfilment i)) (\<lambda>_. ret (Some (i, hold)))))))
      (\<lambda>_. ret None))"

end
