(* ===== verification/SalesProps.thy ===== *)
theory SalesProps
  imports Sales
begin

text \<open>
  What the purchase flow guarantees: the units released are the sale's amount, a queued release pays
  only the sale's merchant or its payer, a quote never undercharges, and what a failed or repeated
  fulfilment does to the escrow.
\<close>

section \<open>The amount of a sale\<close>

text \<open>\<open>parseUnits\<close> reads back the text \<open>toFixed\<close> writes.\<close>

definition parseLaw :: "env \<Rightarrow> bool" where
  "parseLaw E \<longleftrightarrow> (\<forall>d n. parseUnits E (numericText d n) d = Some (int n))"

lemma parseExample_numeric: "parseExample (numericText d n) d = Some (int n)"
proof (cases "d = 0")
  case True
  have "list_all isDigit (showNat n)" using showNat_digits [of n] by (simp add: allDigits_def)
  then show ?thesis
    using True allDigits_nodot [of "showNat n"] by (simp add: parseExample_def numericText_def)
next
  case False
  let ?i = "showNat (n div 10 ^ d)" and ?g = "showNat (n mod 10 ^ d)"
  let ?f = "padZeros d ?g"
  have di: "list_all isDigit ?i" "list_all isDigit ?g" using showNat_digits by (auto simp: allDigits_def)
  have len: "length ?f = d" using showNat_length [of "n mod 10 ^ d" d] False by (simp add: padZeros_def)
  have df: "list_all isDigit ?f" using di(2) by (auto simp: padZeros_def list_all_iff isDigit_def Let_def)
  have "natOfDigits ?f = n mod 10 ^ d" by (simp add: padZeros_def)
  then have "natOfDigits (?i @ ?f) = n"
    using div_mult_mod_eq [of n "10 ^ d"] by (simp only: natOfDigits_append len natOfDigits_showNat)
  moreover have "beforeDot (numericText d n) = ?i" "afterDot (numericText d n) = ?f"
    using allDigits_split [OF di(1)] False by (auto simp: numericText_def)
  ultimately show ?thesis using di(1) df len by (simp add: parseExample_def Let_def)
qed

lemma parseLaw_demo [simp]: "parseLaw demoEnv"
  by (simp add: parseLaw_def parseExample_numeric)

lemma floor_near: "\<bar>y - of_int m\<bar> < 1 / 2 \<Longrightarrow> \<lfloor>y + 1 / 2\<rfloor> = m" for y :: rat
  by (rule floor_unique) linarith+

lemma toFixed_cents:
  assumes "n < 2 ^ 39" and "d \<le> 6" and "2 \<le> d"
  shows "toFixed d (fl (of_nat n / 100)) = int n * 10 ^ (d - 2)"
proof -
  let ?x = "rat_of_nat n / 100"
  have "rat_of_nat n < 2 ^ 39" using assms(1) of_nat_less_iff [of n "2 ^ 39"] by simp
  then have "\<bar>fl ?x - ?x\<bar> \<le> pow2 (int 33 - 54)" by (intro fl_error_below) auto
  then have e: "\<bar>fl ?x - ?x\<bar> \<le> 1 / 2 ^ 21" by (simp add: pow2_def)
  have q: "2 + (d - 2) = d" using assms(3) by simp
  have "(10::rat) ^ (2 + (d - 2)) = 100 * 10 ^ (d - 2)" unfolding power_add by simp
  then have p: "(10::rat) ^ d = 100 * 10 ^ (d - 2)" unfolding q .
  have "(10::rat) ^ d \<le> 10 ^ 6" using assms(2) by (intro power_increasing) auto
  then have "\<bar>fl ?x - ?x\<bar> * 10 ^ d \<le> 1 / 2 ^ 21 * 10 ^ 6"
    using e by (intro mult_mono) auto
  then have "\<bar>(fl ?x - ?x) * 10 ^ d\<bar> < 1 / 2" by (simp add: abs_mult)
  moreover have "?x * 10 ^ d = of_int (int n * 10 ^ (d - 2))" by (simp add: p)
  then have "(fl ?x - ?x) * 10 ^ d = fl ?x * 10 ^ d - of_int (int n * 10 ^ (d - 2))" by (simp only: left_diff_distrib)
  ultimately have "\<bar>fl ?x * 10 ^ d - of_int (int n * 10 ^ (d - 2))\<bar> < 1 / 2" by (simp only:)
  then have "\<lfloor>fl ?x * 10 ^ d + 1/2\<rfloor> = int n * 10 ^ (d - 2)" by (rule floor_near)
  moreover have "0 \<le> fl ?x" by (simp add: fl_nonneg)
  ultimately show ?thesis by (simp add: toFixed_def)
qed

lemma saleUnits_exact:
  assumes "parseLaw E" and "slAmount sale < 2 ^ 39"
  shows "saleUnits E sale = Some (int (slAmount sale) * (if toUpper (slCurrency sale) = ''USDC'' then 10 ^ 4 else 1))"
proof -
  have p: "parseUnits E (fixedText d (fl (of_nat (slAmount sale) / 100))) d = Some (int (slAmount sale) * 10 ^ (d - 2))"
    if "d \<le> 6" "2 \<le> d" for d
  proof -
    have nn: "0 \<le> fl (rat_of_nat (slAmount sale) / 100)" by (simp add: fl_nonneg)
    have "nat (int (slAmount sale) * 10 ^ (d - 2)) = slAmount sale * 10 ^ (d - 2)" by (simp add: nat_mult_distrib)
    then show ?thesis
      using assms(1) toFixed_cents [OF assms(2) that] nn by (simp add: fixedText_def parseLaw_def)
  qed
  show ?thesis
    using p [of 2] p [of 6] by (simp add: saleUnits_def numberOf_numericText Let_def)
qed

section \<open>The interleaving of fulfilments and releases\<close>

text \<open>
  One step of the server on sales: a fulfilment starts (from the queue or a retry) and its API call is
  in flight, \<open>calls\<close>; an answer arrives, whatever it is; a queued release runs.
\<close>

type_synonym calls = "(saleRow \<times> int) list"

inductive saleStep :: "env \<Rightarrow> salesDb \<times> calls \<Rightarrow> salesDb \<times> calls \<Rightarrow> bool" for E where
  start: "fulfilStart E i s = (Inr (Inr c), t) \<Longrightarrow> saleStep E (s, cs) (t, c # cs)"
| skip: "fulfilStart E i s = (r, t) \<Longrightarrow> saleStep E (s, cs) (t, cs)"
| answer: "(sale, units) \<in> set cs \<Longrightarrow> fulfilFinish sale units out s = (r, t) \<Longrightarrow> saleStep E (s, cs) (t, remove1 (sale, units) cs)"
| release: "k \<in> set (releaseTasks s) \<Longrightarrow>
    releaseEscrowInBackground E k (s\<lparr>releaseTasks := remove1 k (releaseTasks s)\<rparr>) = (r, t) \<Longrightarrow> saleStep E (s, cs) (t, cs)"

inductive_cases saleStepE: "saleStep E (s, cs) u"

text \<open>What identifies a sale and its money; no step changes it.\<close>

definition saleKey :: "saleRow \<Rightarrow> nat \<times> address \<times> address option \<times> nat \<times> string" where
  "saleKey r = (slId r, slMerchantWallet r, slConsumer r, slAmount r, slCurrency r)"

definition saleKeys :: "'r salesDb_scheme \<Rightarrow> (nat \<times> address \<times> address option \<times> nat \<times> string) set" where
  "saleKeys s = saleKey ` set (sales s)"

text \<open>A release pays the merchant of a recorded sale or refunds its payer, with the sale's units.\<close>

definition paysSale :: "env \<Rightarrow> saleRow \<Rightarrow> releaseTask \<Rightarrow> bool" where
  "paysSale E r k \<longleftrightarrow> rtSale k = slId r \<and> saleUnits E r = Some (rtUnits k) \<and> rtCurrency k = toUpper (slCurrency r)
     \<and> ((rtPaid k = PaidSale \<and> rtWallet k = slMerchantWallet r) \<or> (rtPaid k = RefundedSale \<and> slConsumer r = Some (rtWallet k)))"

definition saleInv :: "env \<Rightarrow> (nat \<times> address \<times> address option \<times> nat \<times> string) set \<Rightarrow> 'r salesDb_scheme \<times> calls \<Rightarrow> bool" where
  "saleInv E K c \<longleftrightarrow> saleKeys (fst c) = K \<and> (\<forall>(r, u)\<in>set (snd c). saleKey r \<in> K \<and> saleUnits E r = Some u)
     \<and> (\<forall>k\<in>set (releaseTasks (fst c)). \<exists>r. saleKey r \<in> K \<and> paysSale E r k)"

definition keysAre :: "(nat \<times> address \<times> address option \<times> nat \<times> string) set \<Rightarrow> releaseTask list \<Rightarrow> 'r salesDb_scheme \<Rightarrow> bool" where
  "keysAre K ks s \<longleftrightarrow> saleKeys s = K \<and> releaseTasks s = ks"

lemma keysAre_net [simp]: "net_free (keysAre K ks)"
  by (simp add: net_free_def keysAre_def saleKeys_def)

lemma updWhere_keys: "(\<And>r. key (f r) = key r) \<Longrightarrow> key ` set (updWhere P f rows) = key ` set rows"
proof -
  assume "\<And>r. key (f r) = key r"
  then have "map key (updWhere P f rows) = map key rows" by (simp add: updWhere_def)
  then show ?thesis by (metis list.set_map)
qed

lemma updSale_keys: "(\<And>r. saleKey (f r) = saleKey r) \<Longrightarrow> keeps (keysAre K ks) (updSale i b f)"
  unfolding updSale_def
  by (rule keeps_writeIO) (simp_all add: keysAre_def saleKeys_def updWhere_keys)

lemma sendTx_keys: "keeps (keysAre K ks) (sendTx (onVault f))"
  by (rule keeps_sendTx) (auto simp: onVault_Inr_iff keysAre_def saleKeys_def)

lemma vaultMoves_keys [keeps_intro]:
  "keeps (keysAre K ks) (vaultAdminDebit E w a cur)" "keeps (keysAre K ks) (vaultAdminCredit E w a cur)"
  unfolding vaultAdminDebit_def vaultAdminCredit_def vaultWriter_def by (intro keeps_intro sendTx_keys)+

lemma releaseBackground_keys: "keeps (keysAre K ks) (releaseEscrowInBackground E k)"
  unfolding releaseEscrowInBackground_def releaseEscrow_def escrowAddress_def
  by (intro keeps_intro updSale_keys) (simp_all add: saleKey_def)

lemma fulfilStart_keys: "keeps (keysAre K ks) (fulfilStart E i)"
  unfolding fulfilStart_def
  by (intro keeps_intro updSale_keys keysAre_net) (simp add: saleKey_def)

lemma fulfilStart_InrD:
  assumes "fulfilStart E i s = (Inr (Inr (sale, units)), t)"
  shows "sale \<in> set (sales s) \<and> slId sale = i \<and> saleUnits E sale = Some units \<and> slStatus sale = PendingFulfilment
    \<and> slFulfil sale \<noteq> Some FulfilSuccess \<and> slFulfil sale \<noteq> Some FulfilFailed"
proof -
  obtain r s1 where r: "readIO (\<lambda>s. find (\<lambda>r. slId r = i) (sales s)) s = (Inr r, s1)"
    and k: "andThen (ofOption r (plainErr ''Sale not found'')) (\<lambda>sale.
    if slStatus sale \<noteq> PendingFulfilment then ret (Inl (''Sale already '' @ saleStatusText (slStatus sale)))
    else if slFulfil sale = Some FulfilSuccess then ret (Inl ''Fulfilment API already success'')
    else if slFulfil sale = Some FulfilFailed then ret (Inl ''Fulfilment API already failed'')
    else
      andThen (ofOption (saleUnits E sale) (plainErr ''invalid FixedNumber string value'')) (\<lambda>units.
      andThen (updSale i True (\<lambda>x. x\<lparr>slFulfil := Some FulfilPending\<rparr>)) (\<lambda>_.
      ret (Inr (sale, units))))) s1 = (Inr (Inr (sale, units)), t)"
    using assms unfolding fulfilStart_def by (rule andThen_InrE)
  have "r = find (\<lambda>r. slId r = i) (sales s)" using readIO_InrD [OF r] by auto
  then show ?thesis
    using k find_SomeD [of "\<lambda>r. slId r = i" "sales s" sale]
    by (auto simp: andThen_Inr_iff split: if_splits)
qed

text \<open>An answer adds at most one release to the queue, the one of its sale.\<close>

lemma updSale_releases: "keeps (\<lambda>s. releaseTasks s = ks) (updSale i b f)"
  unfolding updSale_def by (rule keeps_writeIO) (simp_all add: net_free_def)

lemma finish_tasks:
  assumes "fulfilFinish sale units out s = (r, t)" and "saleUnits E sale = Some units"
  shows "\<forall>k\<in>set (releaseTasks t). k \<in> set (releaseTasks s) \<or> paysSale E sale k"
proof -
  have q: "triple (\<lambda>s. releaseTasks s = ks) (andThen (updSale i b f) (\<lambda>_. andThen (queueRelease k) (\<lambda>_. ret x)))
      (\<lambda>_ t. releaseTasks t = ks @ [k]) (\<lambda>t. releaseTasks t = ks)" for ks i b f k and x :: fulfilResult
    by (intro triple_skip [OF updSale_releases]) (auto simp: triple_def andThen_def queueRelease_def)
  have n: "triple (\<lambda>s. releaseTasks s = ks) (andThen (updSale i b f) (\<lambda>_. ret x))
      (\<lambda>_ t. releaseTasks t = ks) (\<lambda>t. releaseTasks t = ks)" for ks i b f and x :: fulfilResult
    by (intro triple_skip [OF updSale_releases] triple_ret)
  have "triple (\<lambda>s. releaseTasks s = ks) (fulfilFinish sale units out)
      (\<lambda>_ t. \<forall>k\<in>set (releaseTasks t). k \<in> set ks \<or> paysSale E sale k) (\<lambda>t. releaseTasks t = ks)" for ks
    using assms(2) unfolding fulfilFinish_def Let_def
    by (auto split: option.split intro!: triple_conseq [OF q] triple_conseq [OF n] simp: paysSale_def)
  from this [of "releaseTasks s"] show ?thesis
    using assms(1) by (cases r) (fastforce dest: triple_InrD triple_InlD)+
qed

lemma finish_keys: "keeps (\<lambda>s. saleKeys s = K) (fulfilFinish sale units out)"
proof -
  have u: "keeps (\<lambda>s. saleKeys s = K) (updSale i b f)" if "\<And>r. saleKey (f r) = saleKey r" for i b f
    using updSale_keys [of f K _ i b, OF that] by (auto simp: keeps_def keysAre_def)
  have q: "keeps (\<lambda>s. saleKeys s = K) (queueRelease k)" for k
    by (simp add: keeps_def queueRelease_def saleKeys_def)
  show ?thesis
    unfolding fulfilFinish_def Let_def by (intro keeps_intro u q) (simp_all add: saleKey_def)
qed

lemma saleStep_inv:
  assumes "saleStep E c d" and "saleInv E K c"
  shows "saleInv E K d"
  using assms
proof (induction rule: saleStep.induct)
  case (start i s c t cs)
  obtain sale units where c: "c = (sale, units)" by fastforce
  have "keysAre K (releaseTasks s) t"
    using keepsD [OF fulfilStart_keys [of K "releaseTasks s" E i], of s] start by (simp add: keysAre_def saleInv_def)
  moreover have "saleKey sale \<in> K" "saleUnits E sale = Some units"
    using fulfilStart_InrD [of E i s sale units t] start c by (auto simp: saleInv_def saleKeys_def)
  ultimately show ?case using start(2) c by (auto simp: saleInv_def keysAre_def)
next
  case (skip i s r t cs)
  have "keysAre K (releaseTasks s) t"
    using keepsD [OF fulfilStart_keys [of K "releaseTasks s" E i], of s] skip by (simp add: keysAre_def saleInv_def)
  then show ?case using skip(2) by (auto simp: saleInv_def keysAre_def)
next
  case (answer sale units cs out s r t)
  have k: "saleKey sale \<in> K" "saleUnits E sale = Some units" using answer(1,3) by (auto simp: saleInv_def)
  have "saleKeys t = K" using keepsD [OF finish_keys, of s K sale units out] answer(2,3) by (simp add: saleInv_def)
  moreover have "set (remove1 (sale, units) cs) \<subseteq> set cs" by (rule set_remove1_subset)
  ultimately show ?case
    using finish_tasks [OF answer(2) k(2)] k(1) answer(3) by (fastforce simp: saleInv_def)
next
  case (release k s r t cs)
  have "keysAre K (remove1 k (releaseTasks s)) t"
    using keepsD [OF releaseBackground_keys [of K "remove1 k (releaseTasks s)" E k], of "s\<lparr>releaseTasks := remove1 k (releaseTasks s)\<rparr>"]
      release(2,3) by (simp add: keysAre_def saleInv_def saleKeys_def)
  moreover have "set (remove1 k (releaseTasks s)) \<subseteq> set (releaseTasks s)" by (rule set_remove1_subset)
  ultimately show ?case using release(3) by (auto simp: saleInv_def keysAre_def)
qed

text \<open>
  C16. Whatever the order of fulfilments, answers, retries and releases, and whatever the network does, a
  queued release pays the merchant of a recorded sale or refunds its payer, with that sale's units.
\<close>

theorem releases_pay_their_sale:
  assumes "(saleStep E)\<^sup>*\<^sup>* (s, []) (t, cs)" and "releaseTasks s = []" and "k \<in> set (releaseTasks t)"
  shows "\<exists>r. saleKey r \<in> saleKeys s \<and> paysSale E r k"
proof -
  have "saleInv E (saleKeys s) (s, [])" using assms(2) by (simp add: saleInv_def)
  with assms(1) have "saleInv E (saleKeys s) (t, cs)"
    by (induction rule: rtranclp_induct) (auto intro: saleStep_inv)
  then show ?thesis using assms(3) by (auto simp: saleInv_def)
qed

section \<open>Double and stuck fulfilments\<close>

definition demoSale :: saleRow where
  "demoSale = \<lparr>slId = 0, slMerchant = Some ''m1'', slMerchantWallet = 10, slConsumer = Some 11, slTag = None, slAmount = 5000,
     slCurrency = ''ZAR'', slCharge = None, slChargeCur = None, slFxRate = None, slStoreId = None, slStore = ''Head office'',
     slTill = ''Web Sale'', slItems = None, slTx = 0, slEscrowTx = Some 0, slReleaseTx = None, slStatus = PendingFulfilment,
     slUrl = None, slFulfil = Some FulfilPending, slError = None\<rparr>"

definition demoSalesDb :: salesDb where
  "demoSalesDb = voucherDb.extend demoVoucherDb
     (salesDb.fields [demoSale] [] [] (\<lambda>_ _. ApiReply True 200 [] (Some True) None))"

lemma demoSales_sel [simp]:
  "net demoSalesDb = []" "vault demoSalesDb = demoVault" "txCount demoSalesDb = 0" "sales demoSalesDb = [demoSale]"
  "releaseTasks demoSalesDb = []" "fulfilApi demoSalesDb = (\<lambda>_ _. ApiReply True 200 [] (Some True) None)"
  by (simp_all add: demoSalesDb_def salesDb.defs demoVoucherDb_def voucherDb.defs demo_state)

lemma demoSale_sel [simp]:
  "slId demoSale = 0" "slStatus demoSale = PendingFulfilment" "slFulfil demoSale = Some FulfilPending"
  "slMerchantWallet demoSale = 10" "slConsumer demoSale = Some 11" "slCurrency demoSale = ''ZAR''" "slAmount demoSale = 5000"
  "slUrl demoSale = None"
  by (simp_all add: demoSale_def)

lemma demo_saleUnits: "saleUnits demoEnv demoSale = Some 5000"
  using saleUnits_exact [of demoEnv demoSale] by (simp add: change_text)

lemma sales_update_same: "sales s = rs \<Longrightarrow> s\<lparr>sales := rs\<rparr> = s"
  by (cases s) simp

lemma demo_start: "fulfilStart demoEnv 0 demoSalesDb = (Inr (Inr (demoSale, 5000)), demoSalesDb)"
proof -
  have f: "demoSale\<lparr>slFulfil := Some FulfilPending\<rparr> = demoSale" by (simp add: demoSale_def)
  have "demoSalesDb\<lparr>sales := [demoSale]\<rparr> = demoSalesDb" by (rule sales_update_same) simp
  then show ?thesis by (simp add: fulfilStart_def demo_saleUnits updSale_def f)
qed

abbreviation payTask :: releaseTask where
  "payTask \<equiv> \<lparr>rtSale = 0, rtWallet = 10, rtUnits = 5000, rtCurrency = ''ZAR'', rtPaid = PaidSale\<rparr>"

abbreviation refundTask :: releaseTask where
  "refundTask \<equiv> \<lparr>rtSale = 0, rtWallet = 11, rtUnits = 5000, rtCurrency = ''ZAR'', rtPaid = RefundedSale\<rparr>"

lemma demo_answers:
  "\<exists>s1. fulfilFinish demoSale 5000 (True, []) demoSalesDb = (Inr FulfilPaid, s1)
    \<and> net s1 = [] \<and> vault s1 = demoVault \<and> txCount s1 = 0 \<and> releaseTasks s1 = [payTask]
    \<and> sales s1 = [demoSale\<lparr>slFulfil := Some FulfilSuccess, slError := None\<rparr>]"
  by (simp add: fulfilFinish_def updSale_def queueRelease_def change_text)

lemma releasesPay_demo:
  "\<exists>t. (saleStep demoEnv)\<^sup>*\<^sup>* (demoSalesDb, []) (t, []) \<and> payTask \<in> set (releaseTasks t)"
proof -
  obtain s1 where a: "fulfilFinish demoSale 5000 (True, []) demoSalesDb = (Inr FulfilPaid, s1)" "releaseTasks s1 = [payTask]"
    using demo_answers by blast
  have "saleStep demoEnv (demoSalesDb, []) (demoSalesDb, [(demoSale, 5000)])" by (rule saleStep.start [OF demo_start])
  moreover have "saleStep demoEnv (demoSalesDb, [(demoSale, 5000)]) (s1, remove1 (demoSale, 5000) [(demoSale, 5000)])"
    by (rule saleStep.answer [OF _ a(1)]) simp
  ultimately have "(saleStep demoEnv)\<^sup>*\<^sup>* (demoSalesDb, []) (s1, remove1 (demoSale, 5000) [(demoSale, 5000)])"
    by (meson converse_rtranclp_into_rtranclp rtranclp.rtrancl_refl)
  then show ?thesis using a(2) by (intro exI [of _ s1]) simp
qed

lemma releases_pay_their_sale_witness:
  "\<exists>t. (saleStep demoEnv)\<^sup>*\<^sup>* (demoSalesDb, []) (t, []) \<and> payTask \<in> set (releaseTasks t)
    \<and> (\<exists>r. saleKey r \<in> saleKeys demoSalesDb \<and> paysSale demoEnv r payTask)"
proof -
  obtain t where run: "(saleStep demoEnv)\<^sup>*\<^sup>* (demoSalesDb, []) (t, [])" "payTask \<in> set (releaseTasks t)"
    using releasesPay_demo by blast
  show ?thesis using releases_pay_their_sale [OF run(1) demoSales_sel(5) run(2)] run by blast
qed

text \<open>One release of 5000 out of escrow, from a state whose Vault takes it.\<close>

lemma release_run:
  assumes "net s = []" and "adminDebit 2 6 5000 0x15A4152 (vault s) = Inr v1" and "adminCredit 2 w 5000 0x15A4152 v1 = Inr v2"
  shows "\<exists>t. releaseEscrowInBackground demoEnv \<lparr>rtSale = i, rtWallet = w, rtUnits = 5000, rtCurrency = ''ZAR'', rtPaid = p\<rparr> s = (Inr (), t)
    \<and> net t = [] \<and> vault t = v2 \<and> releaseTasks t = releaseTasks s"
proof -
  let ?s1 = "s\<lparr>vault := v1, txCount := Suc (txCount s)\<rparr>"
  have d: "vaultAdminDebit demoEnv 6 5000 ''ZAR'' s = (Inr (txCount s), ?s1)"
    using vault_calls_run(1) [of s demoEnv 1 2 5000 6 "''ZAR''" v1] assms by simp
  have c: "vaultAdminCredit demoEnv w 5000 ''ZAR'' ?s1 = (Inr (Suc (txCount s)), ?s1\<lparr>vault := v2, txCount := Suc (Suc (txCount s))\<rparr>)"
    using vault_calls_run(2) [of ?s1 demoEnv 1 2 5000 w "''ZAR''" v2] assms by simp
  show ?thesis
    using assms(1) by (simp add: releaseEscrowInBackground_def tryCatch_def releaseEscrow_def escrowAddress_def d c updSale_def)
qed

text \<open>
  C17. A sale that is being fulfilled is not locked: when the merchant retries it while the first call of
  the fulfilment API is still in flight and the two answers differ, the escrow pays the price twice,
  once to the merchant and once back to the payer.
\<close>

theorem retry_race_pays_and_refunds:
  "\<exists>t. (saleStep demoEnv)\<^sup>*\<^sup>* (demoSalesDb, []) (t, []) \<and> sales demoSalesDb = [demoSale]
    \<and> balanceOf (vault t) 10 zarHash = balanceOf demoVault 10 zarHash + 5000
    \<and> balanceOf (vault t) 11 zarHash = balanceOf demoVault 11 zarHash + 5000
    \<and> balanceOf (vault t) 6 zarHash + 10000 = balanceOf demoVault 6 zarHash"
proof -
  let ?c = "(demoSale, 5000) :: saleRow \<times> int"
  obtain s1 where a1: "fulfilFinish demoSale 5000 (True, []) demoSalesDb = (Inr FulfilPaid, s1)"
    and s1: "net s1 = []" "vault s1 = demoVault" "releaseTasks s1 = [payTask]"
      "sales s1 = [demoSale\<lparr>slFulfil := Some FulfilSuccess, slError := None\<rparr>]"
    using demo_answers by blast
  obtain s2 where a2: "fulfilFinish demoSale 5000 (False, []) s1 = (Inr (FulfilRefunded []), s2)"
    and s2: "net s2 = []" "vault s2 = demoVault" "releaseTasks s2 = [payTask, refundTask]"
    using s1 by (simp add: fulfilFinish_def updSale_def queueRelease_def change_text)
  obtain v1 v2 v3 v4 where v: "adminDebit 2 6 5000 0x15A4152 demoVault = Inr v1" "adminCredit 2 10 5000 0x15A4152 v1 = Inr v2"
    "adminDebit 2 6 5000 0x15A4152 v2 = Inr v3" "adminCredit 2 11 5000 0x15A4152 v3 = Inr v4"
    and b: "balanceOf v4 6 0x15A4152 = 10000" "balanceOf v4 10 0x15A4152 = 55000" "balanceOf v4 11 0x15A4152 = 5000"
    by (rule demo_ledger)
  obtain s3 where r1: "releaseEscrowInBackground demoEnv payTask (s2\<lparr>releaseTasks := [refundTask]\<rparr>) = (Inr (), s3)"
    and s3: "net s3 = []" "vault s3 = v2" "releaseTasks s3 = [refundTask]"
    using release_run [of "s2\<lparr>releaseTasks := [refundTask]\<rparr>" v1 10 v2 0 PaidSale] s2 v by auto
  obtain s4 where r2: "releaseEscrowInBackground demoEnv refundTask (s3\<lparr>releaseTasks := []\<rparr>) = (Inr (), s4)"
    and s4: "vault s4 = v4"
    using release_run [of "s3\<lparr>releaseTasks := []\<rparr>" v3 11 v4 0 RefundedSale] s3 v by auto
  have "saleStep demoEnv (demoSalesDb, []) (demoSalesDb, [?c])" "saleStep demoEnv (demoSalesDb, [?c]) (demoSalesDb, [?c, ?c])"
    by (rule saleStep.start [OF demo_start])+
  moreover have "saleStep demoEnv (demoSalesDb, [?c, ?c]) (s1, [?c])"
    using saleStep.answer [OF _ a1, of "[?c, ?c]"] by simp
  moreover have "saleStep demoEnv (s1, [?c]) (s2, [])"
    using saleStep.answer [OF _ a2, of "[?c]"] by simp
  moreover have "saleStep demoEnv (s2, []) (s3, [])"
    using saleStep.release [of payTask s2 demoEnv "Inr ()" s3 "[]"] r1 s2 by simp
  moreover have "saleStep demoEnv (s3, []) (s4, [])"
    using saleStep.release [of refundTask s3 demoEnv "Inr ()" s4 "[]"] r2 s3 by simp
  ultimately have run: "(saleStep demoEnv)\<^sup>*\<^sup>* (demoSalesDb, []) (s4, [])"
    by (meson converse_rtranclp_into_rtranclp rtranclp.rtrancl_refl)
  then show ?thesis
    using s4 b by (intro exI [of _ s4]) (simp add: balanceOf_def assetsOf_def demoVault_def demoShares_def)
qed

text \<open>
  A release that fails leaves its sale stuck: it stays \<open>pending_fulfilment\<close> with the outcome recorded,
  the merchant is unpaid, and every retry is skipped without effect.
\<close>

theorem failed_release_sticks:
  "\<exists>s1 s2. processSaleFulfilment demoEnv [] 0 demoSalesDb = (Inr FulfilPaid, s1) \<and> releaseTasks s1 = [payTask]
    \<and> releaseEscrowInBackground demoEnv payTask (s1\<lparr>net := [Lost], releaseTasks := []\<rparr>) = (Inr (), s2)
    \<and> vault s2 = demoVault \<and> releaseTasks s2 = [] \<and> map slStatus (sales s2) = [PendingFulfilment]
    \<and> retryFulfilment demoEnv [] ''m1'' 0 s2 = (Inr (Reply (FulfilSkipped (Some ''Fulfilment API already success''))), s2)"
proof -
  obtain s1 where a: "fulfilFinish demoSale 5000 (True, []) demoSalesDb = (Inr FulfilPaid, s1)"
    and s1: "net s1 = []" "vault s1 = demoVault" "releaseTasks s1 = [payTask]"
      "sales s1 = [demoSale\<lparr>slFulfil := Some FulfilSuccess, slError := None\<rparr>]"
    using demo_answers by blast
  have p: "processSaleFulfilment demoEnv [] 0 demoSalesDb = (Inr FulfilPaid, s1)"
    using a by (simp add: processSaleFulfilment_def demo_start callFulfilmentApi_def interpretReply_def tryCatch_def)
  let ?l = "s1\<lparr>net := [Lost], releaseTasks := []\<rparr>"
  have l: "releaseEscrow demoEnv 10 5000 ''ZAR'' ?l = (Inl networkErr, ?l\<lparr>net := []\<rparr>)"
    by (simp add: releaseEscrow_def escrowAddress_def vaultAdminDebit_def vaultWriter_def sendTx_def io_def nextNet_def Let_def
        andThen_def)
  define s2 where "s2 = snd (updSale 0 False (\<lambda>r. r\<lparr>slError := Some (orElse (slError r) [] @ '' | release failed: '' @ fmsg networkErr)\<rparr>) (?l\<lparr>net := []\<rparr>))"
  have r: "releaseEscrowInBackground demoEnv payTask ?l = (Inr (), s2)"
    unfolding releaseEscrowInBackground_def tryCatch_def andThen_def releaseTask.simps l s2_def updSale_def by simp
  have s2: "net s2 = []" "vault s2 = demoVault" "releaseTasks s2 = []"
    using s1 by (simp_all add: s2_def updSale_def)
  have "\<exists>e. sales s2 = [demoSale\<lparr>slFulfil := Some FulfilSuccess, slError := Some e\<rparr>]"
    unfolding s2_def updSale_def using s1(4) by (intro exI) simp
  then obtain e where e: "sales s2 = [demoSale\<lparr>slFulfil := Some FulfilSuccess, slError := Some e\<rparr>]" by blast
  have m: "slMerchant demoSale = Some ''m1''" by (simp add: demoSale_def)
  have "retryFulfilment demoEnv [] ''m1'' 0 s2 = (Inr (Reply (FulfilSkipped (Some ''Fulfilment API already success''))), s2)"
    using s2 e m by (simp add: retryFulfilment_def tryCatch_def processSaleFulfilment_def fulfilStart_def)
  then show ?thesis using p s1 r s2 e by auto
qed

section \<open>Quotes and bookkeeping\<close>

text \<open>
  A cross-border quote is rounded up to a cent: the amount to pay, in cents, is at least the double
  product of the converted charge by 100, and less than a cent above it.
\<close>

theorem roundPay_bounds:
  assumes "0 \<le> x" and "roundPayCents x < 2 ^ 39"
  shows "roundPay x = numericText 2 (nat (roundPayCents x)) \<and> jsMul x 100 \<le> of_int (roundPayCents x)
    \<and> of_int (roundPayCents x) < jsMul x 100 + 1"
proof -
  have m: "0 \<le> jsMul x 100" using assms(1) by (simp add: jsMul_def fl_nonneg)
  then have p: "0 \<le> roundPayCents x" by (simp add: roundPayCents_def jsCeil_def)
  then obtain n where n: "roundPayCents x = int n" by (metis nat_0_le)
  have "toFixed 2 (fl (of_nat n / 100)) = int n"
    using toFixed_cents [of n 2] assms(2) n by simp
  moreover have "0 \<le> fl (rat_of_nat n / 100)" by (simp add: fl_nonneg)
  ultimately have "roundPay x = numericText 2 n"
    by (simp add: roundPay_def n jsDiv_def fixedText_def)
  moreover have "jsMul x 100 \<le> of_int (roundPayCents x)" "of_int (roundPayCents x) < jsMul x 100 + 1"
    using ceiling_correct [of "jsMul x 100"] by (simp_all add: roundPayCents_def jsCeil_def, linarith?)
  ultimately show ?thesis by (simp add: n)
qed

lemma roundPay_bounds_witness:
  "roundPay (1 / 256) = numericText 2 1 \<and> roundPayCents (1 / 256) = 1"
proof -
  have "fl (25 / 64) = 25 / 64" by (rule fl_dyadic [of _ 6 25]) simp_all
  then have c: "roundPayCents (1 / 256) = 1" by (simp add: roundPayCents_def jsMul_def jsCeil_def ceiling_eq_iff)
  then show ?thesis using roundPay_bounds [of "1 / 256"] by simp
qed

text \<open>
  Recording a sale never throws, whatever the network does, and never touches the Vault: when it
  records nothing the price stays in escrow without a sale to release it.
\<close>

theorem recordMerchantSale_total:
  "\<exists>r t. recordMerchantSale ctx toAddr sender amount cur tx s = (Inr r, t) \<and> vault t = vault s"
proof (cases ctx)
  case (Some sale)
  have "keeps (vaultIs (vault s)) (recordMerchantSale ctx toAddr sender amount cur tx)"
    unfolding recordMerchantSale_def Some Let_def case_prod_beta option.case
    by (intro keeps_intro keeps_vault keeps_io vaultIs_net) (auto simp: vaultIs_def enqueueSaleFulfilment_def intro: keeps_modify)
  moreover have "\<exists>r t. recordMerchantSale ctx toAddr sender amount cur tx s = (Inr r, t)"
    unfolding recordMerchantSale_def Some option.case tryCatch_def ret_def by (simp split: prod.split sum.split)
  ultimately show ?thesis by (metis vault_same)
qed (simp add: recordMerchantSale_def)

end
