(* ===== verification/WebAuthn.thy ===== *)
theory WebAuthn
  imports SalesProps
begin

text \<open>
  \<open>webauthnService.ts\<close> and \<open>safeWebAuthn.ts\<close>: base64url, the store of challenges, the public key in a
  DER SubjectPublicKeyInfo, the verification of client data and of login assertions, and the encoding of
  an assertion for the Safe contracts. A byte is a word of eight bits.

  Code outside the repository is the record \<open>waEnv\<close>: SHA-256, the ECDSA verification of Node's crypto
  (\<open>None\<close> when the key or signature cannot be read), the three fields of the client data that
  \<open>JSON.parse\<close> yields (\<open>None\<close> when it throws), and the configured origins and relying party.
\<close>

type_synonym byte = "8 word"

section \<open>base64url\<close>

text \<open>The standard alphabet of base64, by sextet.\<close>

definition b64Char :: "nat \<Rightarrow> char" where
  "b64Char n = (if n < 26 then char_of (65 + n) else if n < 52 then char_of (71 + n)
     else if n < 62 then char_of (n - 4) else if n = 62 then CHR ''+'' else CHR ''/'')"

text \<open>\<open>Buffer.from(_, 'base64')\<close> also reads the two characters of the URL alphabet.\<close>

definition b64Val :: "char \<Rightarrow> nat option" where
  "b64Val c = (let n = (of_char c :: nat) in
     if 65 \<le> n \<and> n \<le> 90 then Some (n - 65) else if 97 \<le> n \<and> n \<le> 122 then Some (n - 71)
     else if 48 \<le> n \<and> n \<le> 57 then Some (n + 4)
     else if c = CHR ''+'' \<or> c = CHR ''-'' then Some 62 else if c = CHR ''/'' \<or> c = CHR ''_'' then Some 63 else None)"

fun sextets :: "nat list \<Rightarrow> nat list" where
  "sextets (a # b # c # r) = a div 4 # ((a mod 4) * 16 + b div 16) # ((b mod 16) * 4 + c div 64) # c mod 64 # sextets r"
| "sextets [a, b] = [a div 4, (a mod 4) * 16 + b div 16, (b mod 16) * 4]"
| "sextets [a] = [a div 4, (a mod 4) * 16]"
| "sextets [] = []"

fun octets :: "nat list \<Rightarrow> nat list" where
  "octets (p # q # r # s # t) = (p * 4 + q div 16) # ((q mod 16) * 16 + r div 4) # ((r mod 4) * 64 + s) # octets t"
| "octets [p, q, r] = [p * 4 + q div 16, (q mod 16) * 16 + r div 4]"
| "octets [p, q] = [p * 4 + q div 16]"
| "octets [p] = []"
| "octets [] = []"

definition padding :: "nat \<Rightarrow> string" where
  "padding n = (if n mod 3 = 1 then ''=='' else if n mod 3 = 2 then ''='' else [])"

text \<open>\<open>Buffer.toString('base64')\<close> and \<open>Buffer.from(s, 'base64')\<close>.\<close>

definition toBase64 :: "byte list \<Rightarrow> string" where
  "toBase64 b = map b64Char (sextets (map unat b)) @ padding (length b)"

definition fromBase64 :: "string \<Rightarrow> byte list" where
  "fromBase64 s = map of_nat (octets (List.map_filter b64Val (takeWhile (\<lambda>c. c \<noteq> CHR ''='') s)))"

definition replaceChar :: "char \<Rightarrow> char \<Rightarrow> string \<Rightarrow> string" where
  "replaceChar c d s = map (\<lambda>x. if x = c then d else x) s"

definition dropTrailing :: "char \<Rightarrow> string \<Rightarrow> string" where
  "dropTrailing c s = rev (dropWhile (\<lambda>x. x = c) (rev s))"

definition b64urlToBuf :: "string \<Rightarrow> byte list" where
  "b64urlToBuf s = fromBase64 (replaceChar (CHR ''_'') (CHR ''/'') (replaceChar (CHR ''-'') (CHR ''+'') s))"

definition bufToB64url :: "byte list \<Rightarrow> string" where
  "bufToB64url b = dropTrailing (CHR ''='')
     (replaceChar (CHR ''/'') (CHR ''_'') (replaceChar (CHR ''+'') (CHR ''-'') (toBase64 b)))"

section \<open>Keys and signatures\<close>

definition natOfBytes :: "byte list \<Rightarrow> nat" where
  "natOfBytes bs = foldl (\<lambda>a b. 256 * a + unat b) 0 bs"

definition strBytes :: "string \<Rightarrow> byte list" where
  "strBytes s = map of_char s"

text \<open>
  \<open>subarray\<close> with a negative start counts from the end, so a shorter buffer gives a point that is too
  short, which the length test refuses.
\<close>

definition subarrayFrom :: "int \<Rightarrow> byte list \<Rightarrow> byte list" where
  "subarrayFrom start b = (if 0 \<le> start then drop (nat start) b else drop (nat (int (length b) + start)) b)"

definition extractP256FromSpki :: "byte list \<Rightarrow> failure + (nat \<times> nat)" where
  "extractP256FromSpki der =
    (let point = subarrayFrom (int (length der) - 65) der in
     if length point \<noteq> 65 \<or> hd point \<noteq> 4
     then Inl (plainErr ''Unsupported public key format (expected uncompressed P-256 point)'')
     else Inr (natOfBytes (take 32 (drop 1 point)), natOfBytes (take 32 (drop 33 point))))"

definition P256_N :: int where
  "P256_N = 0xffffffff00000000ffffffffffffffffbce6faada7179e84f3b9cac2fc632551"

definition lowS :: "int \<Rightarrow> int" where
  "lowS s = (if bigDiv P256_N 2 < s then P256_N - s else s)"

text \<open>Element \<open>i\<close> of a buffer, undefined past its end; an empty slice is the text \<open>0x\<close>, which \<open>BigInt\<close> rejects.\<close>

definition byteAt :: "byte list \<Rightarrow> nat \<Rightarrow> byte option" where
  "byteAt b i = (if i < length b then Some (b ! i) else None)"

definition derInteger :: "byte list \<Rightarrow> nat \<Rightarrow> string \<Rightarrow> failure + (nat \<times> nat)" where
  "derInteger der p name =
    (if byteAt der p \<noteq> Some 2 then Inl (plainErr (''Invalid DER: missing INTEGER '' @ name)) else
     (case byteAt der (p + 1) of None \<Rightarrow> Inl (plainErr ''Cannot convert 0x to a BigInt'')
      | Some len \<Rightarrow> let body = take (unat len) (drop (p + 2) der) in
          if body = [] then Inl (plainErr ''Cannot convert 0x to a BigInt'')
          else Inr (natOfBytes body, p + 2 + unat len)))"

definition derToRS :: "byte list \<Rightarrow> failure + (nat \<times> nat)" where
  "derToRS der =
    (if byteAt der 0 \<noteq> Some 0x30 then Inl (plainErr ''Invalid DER: missing SEQUENCE'')
     else if (case byteAt der 1 of None \<Rightarrow> False | Some l \<Rightarrow> 128 \<le> unat l) then Inl (plainErr ''Invalid DER: long-form length unexpected'')
     else sbind (derInteger der 2 ''r'') (\<lambda>(r, q).
          sbind (derInteger der q ''s'') (\<lambda>(s, _). Inr (r, s))))"

definition clientPrefix :: string where
  "clientPrefix = ''{\"type\":\"webauthn.get\",\"challenge\":\"''"

definition isB64urlChar :: "char \<Rightarrow> bool" where
  "isB64urlChar c \<longleftrightarrow> c \<noteq> CHR ''+'' \<and> c \<noteq> CHR ''/'' \<and> b64Val c \<noteq> None"

text \<open>
  The regular expression, with a greedy run of base64url characters that the closing quote ends; \<open>.\<close>
  does not match a line terminator.
\<close>

definition extractClientDataFields :: "string \<Rightarrow> failure + string" where
  "extractClientDataFields t =
    (let bad = Inl (plainErr ''clientDataJSON not in expected WebAuthn.get shape'');
         r = drop (length clientPrefix) t; ch = takeWhile isB64urlChar r; q = dropWhile isB64urlChar r in
     if take (length clientPrefix) t \<noteq> clientPrefix \<or> ch = [] \<or> take 2 q \<noteq> ''\",'' then bad
     else let f = drop 2 q in
       if f = [] \<or> last f \<noteq> CHR ''}'' \<or> CHR 10 \<in> set f \<or> CHR 13 \<in> set f then bad else Inr (butlast f))"

record rawAssertion =
  raAuthData :: "byte list"
  raClientData :: "byte list"
  raSignature :: "byte list"

text \<open>The four values \<open>abi.encode\<close> packs for the signer contract.\<close>

definition bytesStr :: "byte list \<Rightarrow> string" where
  "bytesStr b = map (\<lambda>x. char_of (unat x)) b"

definition encodeWebAuthnSignature :: "rawAssertion \<Rightarrow> failure + (byte list \<times> string \<times> int \<times> int)" where
  "encodeWebAuthnSignature a =
    sbind (extractClientDataFields (bytesStr (raClientData a))) (\<lambda>fields.
    sbind (derToRS (raSignature a)) (\<lambda>(r, s).
    Inr (raAuthData a, fields, int r, lowS (int s))))"

text \<open>A value as \<open>n\<close> bytes, big end first.\<close>

fun bytesOfNat :: "nat \<Rightarrow> nat \<Rightarrow> byte list" where
  "bytesOfNat 0 v = []"
| "bytesOfNat (Suc n) v = bytesOfNat n (v div 256) @ [of_nat (v mod 256)]"

definition encodeSafeContractSignature :: "address \<Rightarrow> byte list \<Rightarrow> byte list" where
  "encodeSafeContractSignature owner inner =
    bytesOfNat 32 (unat owner) @ bytesOfNat 32 65 @ [0] @ bytesOfNat 32 (length inner) @ inner"

section \<open>Round trips\<close>

lemma byte_less [simp]: "unat (b :: byte) < 256"
  using unsigned_less [of b] by simp

lemma pack_parts: "y < k \<Longrightarrow> (x * k + y) div k = x \<and> (x * k + y) mod k = y" for x y k :: nat
  by simp

lemma octets_sextets: "\<forall>x\<in>set xs. x < 256 \<Longrightarrow> octets (sextets xs) = xs"
proof (induction xs rule: sextets.induct)
  case (1 a b c r)
  have "b div 16 < 16" "c div 64 < 4" using 1(2) by auto
  then show ?case
    using 1 pack_parts [of "b div 16" 16 "a mod 4"] pack_parts [of "c div 64" 4 "b mod 16"] by simp
next
  case (2 a b)
  then have "b div 16 < 16" by auto
  then show ?case using pack_parts [of "b div 16" 16 "a mod 4"] by simp
qed simp_all

lemma sextets_bound: "\<forall>x\<in>set xs. x < 256 \<Longrightarrow> \<forall>x\<in>set (sextets xs). x < 64"
proof (induction xs rule: sextets.induct)
  case (1 a b c r)
  have "b div 16 < 16" "c div 64 < 4" "a div 4 < 64" "a mod 4 \<le> 3" "b mod 16 \<le> 15" using 1(2) by (auto simp: less_Suc_eq_le [symmetric])
  then show ?case using 1 by auto
next
  case (2 a b)
  then have "b div 16 < 16" "a div 4 < 64" "a mod 4 \<le> 3" "b mod 16 \<le> 15" by (auto simp: less_Suc_eq_le [symmetric])
  then show ?case by auto
next
  case (3 a)
  then have "a div 4 < 64" "a mod 4 \<le> 3" by (auto simp: less_Suc_eq_le [symmetric])
  then show ?case by auto
qed simp

text \<open>The character of a sextet in the URL alphabet.\<close>

definition urlChar :: "nat \<Rightarrow> char" where
  "urlChar n = (if n = 62 then CHR ''-'' else if n = 63 then CHR ''_'' else b64Char n)"

lemma b64_code: "n < 62 \<Longrightarrow> (of_char (b64Char n) :: nat) = (if n < 26 then 65 + n else if n < 52 then 71 + n else n - 4)"
  by (simp add: b64Char_def of_char_of)

lemma b64_letter:
  assumes "n < 62"
  shows "b64Char n \<noteq> CHR ''+''" "b64Char n \<noteq> CHR ''/''" "b64Char n \<noteq> CHR ''-''" "b64Char n \<noteq> CHR ''_''" "b64Char n \<noteq> CHR ''=''"
    "b64Val (b64Char n) = Some n"
proof -
  have ne: "b64Char n \<noteq> c" if "(of_char c :: nat) \<in> {43, 47, 45, 95, 61}" for c
    using b64_code [OF assms] that assms by (auto split: if_splits)
  show "b64Char n \<noteq> CHR ''+''" "b64Char n \<noteq> CHR ''/''" "b64Char n \<noteq> CHR ''-''" "b64Char n \<noteq> CHR ''_''" "b64Char n \<noteq> CHR ''=''"
    by (rule ne, simp)+
  show "b64Val (b64Char n) = Some n" using b64_code [OF assms] assms by (auto simp: b64Val_def Let_def)
qed

lemma b64_last: "b64Char 62 = CHR ''+''" "b64Char 63 = CHR ''/''" "b64Val CHR ''+'' = Some 62" "b64Val CHR ''/'' = Some 63"
  by (simp_all add: b64Char_def b64Val_def)

lemma url_values:
  assumes "n < 64"
  shows "(if (if b64Char n = CHR ''+'' then CHR ''-'' else b64Char n) = CHR ''/'' then CHR ''_''
       else (if b64Char n = CHR ''+'' then CHR ''-'' else b64Char n)) = urlChar n"
    and "urlChar n \<noteq> CHR ''=''"
    and "(if (if urlChar n = CHR ''-'' then CHR ''+'' else urlChar n) = CHR ''_'' then CHR ''/''
       else (if urlChar n = CHR ''-'' then CHR ''+'' else urlChar n)) \<noteq> CHR ''=''"
    and "b64Val (if (if urlChar n = CHR ''-'' then CHR ''+'' else urlChar n) = CHR ''_'' then CHR ''/''
       else (if urlChar n = CHR ''-'' then CHR ''+'' else urlChar n)) = Some n"
proof -
  consider "n < 62" | "n = 62" | "n = 63" using assms by linarith
  note c = this
  show "(if (if b64Char n = CHR ''+'' then CHR ''-'' else b64Char n) = CHR ''/'' then CHR ''_''
       else (if b64Char n = CHR ''+'' then CHR ''-'' else b64Char n)) = urlChar n"
    using c by cases (simp_all add: urlChar_def b64_letter b64_last)
  show "urlChar n \<noteq> CHR ''=''"
    using c by cases (simp_all add: urlChar_def b64_letter)
  show "(if (if urlChar n = CHR ''-'' then CHR ''+'' else urlChar n) = CHR ''_'' then CHR ''/''
       else (if urlChar n = CHR ''-'' then CHR ''+'' else urlChar n)) \<noteq> CHR ''=''"
    using c by cases (simp_all add: urlChar_def b64_letter)
  show "b64Val (if (if urlChar n = CHR ''-'' then CHR ''+'' else urlChar n) = CHR ''_'' then CHR ''/''
       else (if urlChar n = CHR ''-'' then CHR ''+'' else urlChar n)) = Some n"
    using c by cases (simp_all add: urlChar_def b64_letter b64_last)
qed

lemma replaceChar_append: "replaceChar c d (xs @ ys) = replaceChar c d xs @ replaceChar c d ys"
  by (simp add: replaceChar_def)

lemma dropTrailing_append: "c \<notin> set xs \<Longrightarrow> set ys \<subseteq> {c} \<Longrightarrow> dropTrailing c (xs @ ys) = xs"
proof -
  assume x: "c \<notin> set xs" and y: "set ys \<subseteq> {c}"
  have "dropWhile (\<lambda>x. x = c) (rev ys @ rev xs) = dropWhile (\<lambda>x. x = c) (rev xs)"
    using y by (intro dropWhile_append2) auto
  also have "\<dots> = rev xs" using x by (cases "rev xs") (auto simp: dropWhile_eq_self_iff)
  finally show ?thesis by (simp add: dropTrailing_def)
qed

lemma bufToB64url_chars: "bufToB64url b = map urlChar (sextets (map unat b))"
proof -
  let ?xs = "sextets (map unat b)"
  have bd: "\<forall>x\<in>set ?xs. x < 64"
    by (rule sextets_bound) auto
  have m: "replaceChar (CHR ''/'') (CHR ''_'') (replaceChar (CHR ''+'') (CHR ''-'') (map b64Char ?xs)) = map urlChar ?xs"
    unfolding replaceChar_def map_map comp_def by (rule map_cong [OF refl]) (use bd url_values(1) in blast)
  have p: "set (replaceChar (CHR ''/'') (CHR ''_'') (replaceChar (CHR ''+'') (CHR ''-'') (padding (length b)))) \<subseteq> {CHR ''=''}"
    by (auto simp: padding_def replaceChar_def)
  have n: "CHR ''='' \<notin> set (map urlChar ?xs)" using bd url_values(2) by fastforce
  show ?thesis
    unfolding bufToB64url_def toBase64_def replaceChar_append m by (rule dropTrailing_append [OF n p])
qed

lemma b64url_inverse: "b64urlToBuf (bufToB64url b) = b"
proof -
  let ?xs = "sextets (map unat b)"
  have b256: "\<forall>x\<in>set (map unat b). x < 256" by auto
  have bd: "\<forall>x\<in>set ?xs. x < 64" by (rule sextets_bound [OF b256])
  let ?g = "\<lambda>n. if (if urlChar n = CHR ''-'' then CHR ''+'' else urlChar n) = CHR ''_'' then CHR ''/''
       else (if urlChar n = CHR ''-'' then CHR ''+'' else urlChar n)"
  have r: "replaceChar (CHR ''_'') (CHR ''/'') (replaceChar (CHR ''-'') (CHR ''+'') (bufToB64url b)) = map ?g ?xs"
    unfolding bufToB64url_chars replaceChar_def map_map comp_def ..
  have t: "takeWhile (\<lambda>c. c \<noteq> CHR ''='') (map ?g ?xs) = map ?g ?xs"
    unfolding takeWhile_eq_all_conv using bd url_values(3) by fastforce
  have "List.map_filter b64Val (map ?g ys) = ys" if "\<forall>x\<in>set ys. x < 64" for ys
    using that by (induction ys) (use url_values(4) in \<open>auto simp: List.map_filter_simps\<close>)
  then have f: "List.map_filter b64Val (map ?g ?xs) = ?xs" using bd by blast
  show ?thesis
    unfolding b64urlToBuf_def r fromBase64_def t f octets_sextets [OF b256] by (simp add: map_idI)
qed

text \<open>
  C18. base64url is lossless: decoding what the server encodes gives back the bytes, whatever their
  number (the dropped padding is not needed).
\<close>

theorem b64url_roundtrip: "b64urlToBuf (bufToB64url b) = b"
  by (rule b64url_inverse)

section \<open>Keys and signatures read back\<close>

lemma natOfBytes_snoc: "natOfBytes (bs @ [b]) = 256 * natOfBytes bs + unat b"
  by (simp add: natOfBytes_def)

lemma length_bytesOfNat [simp]: "length (bytesOfNat n v) = n"
  by (induction n arbitrary: v) simp_all

lemma natOfBytes_bytesOfNat: "v < 256 ^ n \<Longrightarrow> natOfBytes (bytesOfNat n v) = v"
proof (induction n arbitrary: v)
  case 0
  then show ?case by (simp add: natOfBytes_def)
next
  case (Suc n)
  have "v div 256 < 256 ^ n" using Suc.prems by (simp add: less_mult_imp_div_less mult.commute)
  moreover have "unat (of_nat (v mod 256) :: byte) = v mod 256" by (simp add: unat_of_nat)
  ultimately show ?case using Suc.IH [of "v div 256"] by (simp add: natOfBytes_snoc)
qed

text \<open>The public key of a well-formed SubjectPublicKeyInfo, whatever precedes the point.\<close>

lemma extractP256_spki:
  assumes "x < 256 ^ 32" and "y < 256 ^ 32"
  shows "extractP256FromSpki (pre @ 4 # bytesOfNat 32 x @ bytesOfNat 32 y) = Inr (x, y)"
  using assms by (simp add: extractP256FromSpki_def subarrayFrom_def natOfBytes_bytesOfNat)

lemma lowS_range: "0 < s \<Longrightarrow> s < P256_N \<Longrightarrow> 0 < lowS s \<and> 2 * lowS s \<le> P256_N \<and> (lowS s = s \<or> lowS s = P256_N - s)"
  by (simp add: lowS_def P256_N_def bigDiv_def)

lemma derInteger_reads:
  assumes "body \<noteq> []" and "length body < 128"
  shows "derInteger (pre @ 2 # of_nat (length body) # body @ post) (length pre) name = Inr (natOfBytes body, length pre + 2 + length body)"
proof -
  have l: "unat (of_nat (length body) :: byte) = length body" using assms(2) by (simp add: unat_of_nat)
  show ?thesis using assms(1) by (simp add: derInteger_def byteAt_def nth_append l Let_def)
qed

lemma derToRS_reads:
  assumes "rb \<noteq> []" and "sb \<noteq> []" and "length rb < 60" and "length sb < 60"
  shows "derToRS (0x30 # of_nat (length rb + length sb + 4) # 2 # of_nat (length rb) # rb @ 2 # of_nat (length sb) # sb)
    = Inr (natOfBytes rb, natOfBytes sb)"
proof -
  let ?h = "[0x30, of_nat (length rb + length sb + 4)] :: byte list"
  let ?p = "?h @ 2 # of_nat (length rb) # rb"
  let ?d = "?h @ 2 # of_nat (length rb) # rb @ 2 # of_nat (length sb) # sb"
  have eq: "?d = 0x30 # of_nat (length rb + length sb + 4) # 2 # of_nat (length rb) # rb @ 2 # of_nat (length sb) # sb" by simp
  have r: "derInteger ?d 2 ''r'' = Inr (natOfBytes rb, 4 + length rb)"
    using derInteger_reads [OF assms(1), of ?h "2 # of_nat (length sb) # sb" "''r''"] assms(3) by (simp add: numeral_eq_Suc)
  have s: "derInteger ?d (4 + length rb) ''s'' = Inr (natOfBytes sb, 6 + length rb + length sb)"
    using derInteger_reads [OF assms(2), of ?p "[]" "''s''"] assms(4) by (simp add: numeral_eq_Suc)
  have b: "\<not> 128 \<le> unat (of_nat (length rb + length sb + 4) :: byte)"
    using assms(3,4) by (simp add: unat_of_nat del: of_nat_add)
  show ?thesis
    unfolding eq [symmetric] derToRS_def r sbind_simps prod.case s using b by (simp add: byteAt_def)
qed

end
