(* ===== verification/Auth.thy ===== *)
theory Auth
  imports WebAuthn
begin

text \<open>
  Sign-in: the challenge store and the checks of \<open>webauthnService.ts\<close>, the nonce store of
  \<open>authNonce.ts\<close>, the token guards of \<open>auth.middleware.ts\<close>, \<open>memberAuth.middleware.ts\<close> and
  \<open>admin.middleware.ts\<close>, and the routes of \<open>auth.routes.ts\<close> and \<open>memberAuth.routes.ts\<close>.

  The record \<open>waEnv\<close> holds code outside the repository: SHA-256 and the ECDSA verification of Node's
  crypto (\<open>None\<close>: the key or the signature cannot be read), the fields of the client data that
  \<open>JSON.parse\<close> gives (\<open>None\<close>: it throws), \<open>ethers.verifyMessage\<close>, \<open>jwt.verify\<close> (\<open>None\<close>: it throws),
  and the configured origins, relying party and its name. A token is its claims: \<open>jwt.sign\<close> is their
  identity here, and a route's reply carries the claims it signs. Random values are arguments.
\<close>

unbundle bit_operations_syntax

record clientData =
  cdType :: "string option"
  cdChallenge :: "string option"
  cdOrigin :: "string option"

text \<open>The subject of a token: a wallet for consumers, merchants and admins, a member's id for operators.\<close>

datatype subject = WalletSub string | MemberSub nat

record claims =
  clSub :: subject
  clConsumer :: "string option"
  clCountry :: "string option"
  clKyc :: "nat option"
  clRole :: "string option"
  clTokenRole :: "string option"
  clMember :: "nat option"
  clMerchant :: "string option"

record waEnv =
  waSha :: "byte list \<Rightarrow> byte list"
  waVerify :: "nat \<Rightarrow> nat \<Rightarrow> byte list \<Rightarrow> byte list \<Rightarrow> bool option"
  waParse :: "byte list \<Rightarrow> clientData option"
  waRecover :: "string \<Rightarrow> string \<Rightarrow> address option"
  waJwt :: "string \<Rightarrow> claims option"
  waOrigins :: "string list"
  waRpId :: string
  waRpName :: string

record credRow =
  crId :: string
  crWallet :: address
  crX :: nat
  crY :: nat
  crCount :: nat

record memberCred =
  mcId :: string
  mcMember :: nat
  mcX :: nat
  mcY :: nat
  mcCount :: nat

record authDb = salesDb +
  challenges :: "string \<Rightarrow> int option"
  nonces :: "string \<Rightarrow> (string \<times> int) option"
  admins :: "(address \<times> bool) list"
  credentials :: "credRow list"
  memberCreds :: "memberCred list"

section \<open>Challenges\<close>

definition challengeTtlMs :: int where
  "challengeTtlMs = 5 * 60 * 1000"

definition purge :: "int \<Rightarrow> ('k \<Rightarrow> int option) \<Rightarrow> 'k \<Rightarrow> int option" where
  "purge now m k = (case m k of None \<Rightarrow> None | Some e \<Rightarrow> if e < now then None else Some e)"

definition registerChallenge :: "string \<Rightarrow> int \<Rightarrow> ('r authDb_scheme, unit) prog" where
  "registerChallenge ch ttl = modify (\<lambda>s. s\<lparr>challenges := (purge (clock s) (challenges s))(ch := Some (clock s + ttl))\<rparr>)"

definition newChallenge :: "byte list \<Rightarrow> ('r authDb_scheme, string) prog" where
  "newChallenge random = andThen (registerChallenge (bufToB64url random) challengeTtlMs) (\<lambda>_. ret (bufToB64url random))"

definition consumeChallenge :: "string \<Rightarrow> ('r authDb_scheme, bool) prog" where
  "consumeChallenge ch =
    andThen (gets (\<lambda>s. case challenges s ch of None \<Rightarrow> False | Some e \<Rightarrow> clock s \<le> e)) (\<lambda>ok.
    andThen (modify (\<lambda>s. s\<lparr>challenges := (challenges s)(ch := None)\<rparr>)) (\<lambda>_. ret ok))"

section \<open>Client data and assertions\<close>

definition shown :: "string option \<Rightarrow> string" where
  "shown t = orElse t ''undefined''"

definition verifyClientData :: "waEnv \<Rightarrow> byte list \<Rightarrow> string \<Rightarrow> ('r authDb_scheme, unit) prog" where
  "verifyClientData W bytes expectedType =
    andThen (ofOption (waParse W bytes) (plainErr ''Invalid clientDataJSON'')) (\<lambda>d.
    andThen (require (cdType d = Some expectedType) (plainErr (''Unexpected clientData type: '' @ shown (cdType d)))) (\<lambda>_.
    andThen (require (case cdOrigin d of None \<Rightarrow> False | Some orig \<Rightarrow> orig \<noteq> [] \<and> orig \<in> set (waOrigins W))
      (plainErr (''Origin mismatch: '' @ shown (cdOrigin d)))) (\<lambda>_.
    andThen (case nonEmpty (cdChallenge d) of None \<Rightarrow> ret False | Some ch \<Rightarrow> consumeChallenge ch) (\<lambda>ok.
    require ok (plainErr ''Challenge invalid, expired, or replayed'')))))"

definition verifyRegistrationClientData :: "waEnv \<Rightarrow> string \<Rightarrow> ('r authDb_scheme, unit) prog" where
  "verifyRegistrationClientData W b64 = verifyClientData W (b64urlToBuf b64) ''webauthn.create''"

definition readUInt32BE :: "byte list \<Rightarrow> nat \<Rightarrow> nat option" where
  "readUInt32BE b i = (if i + 4 \<le> length b then Some (natOfBytes (take 4 (drop i b))) else None)"

definition verifyAssertion :: "waEnv \<Rightarrow> string \<Rightarrow> string \<Rightarrow> string \<Rightarrow> nat \<Rightarrow> nat \<Rightarrow> ('r authDb_scheme, nat) prog" where
  "verifyAssertion W authB64 clientB64 sigB64 x y =
    (let authData = b64urlToBuf authB64; client = b64urlToBuf clientB64; sig = b64urlToBuf sigB64 in
     andThen (verifyClientData W client ''webauthn.get'') (\<lambda>_.
     andThen (require (take 32 authData = waSha W (strBytes (waRpId W))) (plainErr ''rpIdHash mismatch'')) (\<lambda>_.
     andThen (require (case byteAt authData 32 of None \<Rightarrow> False | Some flags \<Rightarrow> flags AND 1 \<noteq> 0)
       (plainErr ''User presence flag not set'')) (\<lambda>_.
     andThen (ofOption (waVerify W x y (authData @ waSha W client) sig) (plainErr ''invalid key or signature'')) (\<lambda>ok.
     andThen (require ok (plainErr ''Assertion signature verification failed'')) (\<lambda>_.
     ofOption (readUInt32BE authData 33) (plainErr ''offset is out of range''))))))) "

section \<open>Sign-in nonces\<close>

definition hexDigitChar :: "nat \<Rightarrow> char" where
  "hexDigitChar n = (if n < 10 then char_of (48 + n) else char_of (87 + n))"

fun hexDigits :: "nat \<Rightarrow> nat \<Rightarrow> string" where
  "hexDigits 0 v = []"
| "hexDigits (Suc n) v = hexDigits n (v div 16) @ [hexDigitChar (v mod 16)]"

text \<open>An address as lower-case text, and the address a text spells.\<close>

definition addrText :: "address \<Rightarrow> string" where
  "addrText a = ''0x'' @ hexDigits 40 (unat a)"

definition addrOfHex :: "string \<Rightarrow> address" where
  "addrOfHex s = of_nat (foldl (\<lambda>a c. 16 * a + hexVal c) 0 (drop 2 s))"

definition nonceMessage :: "string \<Rightarrow> string \<Rightarrow> string" where
  "nonceMessage wallet nonce = ''Sign in to iMali'' @ [CHR 10] @ ''Wallet: '' @ wallet @ [CHR 10] @ ''Nonce: '' @ nonce"

definition issueNonce :: "string \<Rightarrow> string \<Rightarrow> ('r authDb_scheme, string \<times> string \<times> int) prog" where
  "issueNonce nonce walletRaw =
    (let wallet = toLower walletRaw; message = nonceMessage wallet nonce in
     andThen (gets clock) (\<lambda>now.
     andThen (modify (\<lambda>s. s\<lparr>nonces := (\<lambda>k. case nonces s k of None \<Rightarrow> None | Some e \<Rightarrow> if snd e < now then None else Some e)
        (wallet := Some (message, now + challengeTtlMs))\<rparr>)) (\<lambda>_.
     ret (nonce, message, now + challengeTtlMs))))"

definition verifyAndConsume :: "waEnv \<Rightarrow> string \<Rightarrow> string \<Rightarrow> ('r authDb_scheme, bool) prog" where
  "verifyAndConsume W walletRaw signature =
    (let wallet = toLower walletRaw; drop1 = modify (\<lambda>s. s\<lparr>nonces := (nonces s)(wallet := None)\<rparr>) in
     andThen (gets (\<lambda>s. (nonces s wallet, clock s))) (\<lambda>(entry, now).
     case entry of
       None \<Rightarrow> andThen drop1 (\<lambda>_. ret False)
     | Some (message, expires) \<Rightarrow>
         if expires < now then andThen drop1 (\<lambda>_. ret False)
         else (case waRecover W message signature of
            None \<Rightarrow> ret False
          | Some a \<Rightarrow> if addrText a \<noteq> wallet then ret False else andThen drop1 (\<lambda>_. ret True))))"

section \<open>Token guards\<close>

type_synonym 'a guarded = "(nat \<times> string) + 'a"

definition bearer :: "string option \<Rightarrow> string guarded" where
  "bearer header = (case header of
     Some h \<Rightarrow> if take 7 h = ''Bearer '' then Inr (drop 7 h) else Inl (401, ''Missing authorization header'')
   | None \<Rightarrow> Inl (401, ''Missing authorization header''))"

definition jwtVerify :: "waEnv \<Rightarrow> string option \<Rightarrow> claims guarded" where
  "jwtVerify W header = sbind (bearer header) (\<lambda>token. case waJwt W token of
     None \<Rightarrow> Inl (401, ''Invalid or expired token'') | Some c \<Rightarrow> Inr c)"

definition requireAuth :: "waEnv \<Rightarrow> string option \<Rightarrow> (subject \<times> string option) guarded" where
  "requireAuth W header = sbind (jwtVerify W header) (\<lambda>c. Inr (clSub c, clConsumer c))"

record member =
  meId :: "nat option"
  meMerchant :: "string option"
  meRole :: "string option"

definition requireMemberAuth :: "waEnv \<Rightarrow> string option \<Rightarrow> member guarded" where
  "requireMemberAuth W header = sbind (jwtVerify W header) (\<lambda>c.
     if clTokenRole c \<noteq> Some ''merchant_member'' then Inl (403, ''Merchant operator access required'')
     else Inr \<lparr>meId = clMember c, meMerchant = clMerchant c, meRole = clRole c\<rparr>)"

definition requireOrgAdmin :: "waEnv \<Rightarrow> string option \<Rightarrow> member guarded" where
  "requireOrgAdmin W header = sbind (requireMemberAuth W header) (\<lambda>m.
     if meRole m \<noteq> Some ''org_admin'' then Inl (403, ''Org admin (head office) access required'') else Inr m)"

definition requireAdmin :: "waEnv \<Rightarrow> string option \<Rightarrow> subject guarded" where
  "requireAdmin W header = sbind (jwtVerify W header) (\<lambda>c.
     if clRole c \<noteq> Some ''admin'' then Inl (403, ''Admin access required'') else Inr (clSub c))"

fun splitOn :: "char \<Rightarrow> string \<Rightarrow> string list" where
  "splitOn c [] = [[]]"
| "splitOn c (x # xs) = (if x = c then [] # splitOn c xs
     else (case splitOn c xs of [] \<Rightarrow> [[x]] | p # ps \<Rightarrow> (x # p) # ps))"

text \<open>\<open>None\<close>: the page is public and the request goes on without a principal.\<close>

definition allowPublicPage :: "waEnv \<Rightarrow> string \<Rightarrow> string option \<Rightarrow> ('r authDb_scheme, subject option guarded) prog" where
  "allowPublicPage W page header =
    andThen (tryCatch
      (andThen (readIO (\<lambda>s. map_of (appConfig s) ''app.public_pages'')) (\<lambda>v.
       ret (page \<in> set (filter (\<lambda>p. p \<noteq> []) (map trim (splitOn (CHR '','') (orElse v [])))))))
      (\<lambda>_. ret False)) (\<lambda>public.
    ret (if public then Inr None else sbind (requireAdmin W header) (\<lambda>x. Inr (Some x))))"

end
