(* ===== verification/AuthRoutes.thy ===== *)
theory AuthRoutes
  imports Auth
begin

text \<open>
  The routes of \<open>auth.routes.ts\<close> (wallet and passkey login) and \<open>memberAuth.routes.ts\<close> (the seats of a
  merchant's operators), and what the sign-in layer guarantees.
\<close>

section \<open>auth.routes.ts\<close>

definition walletQuery :: "string option \<Rightarrow> string option" where
  "walletQuery q = (case q of None \<Rightarrow> None | Some t \<Rightarrow> let w = toLower t in if isHexAddress w then Some w else None)"

definition adminRow :: "address \<Rightarrow> 'r authDb_scheme \<Rightarrow> (address \<times> bool) option" where
  "adminRow w s = find (\<lambda>a. fst a = w) (admins s)"

definition merchantOfWallet :: "address \<Rightarrow> 'r platform_scheme \<Rightarrow> merchantRow option" where
  "merchantOfWallet w s = find (\<lambda>m. merchantWallet m = Some w) (merchants s)"

definition consumerOfWallet :: "address \<Rightarrow> 'r platform_scheme \<Rightarrow> consumerRow option" where
  "consumerOfWallet w s = find (\<lambda>c. consumerWallet c = Some w) (consumers s)"

definition roleRoute :: "string option \<Rightarrow> ('r authDb_scheme, string reply) prog" where
  "roleRoute q = (case walletQuery q of None \<Rightarrow> ret (ReplyErr 400 ''Invalid wallet address'' None)
    | Some t \<Rightarrow> let w = addrOfHex t in
        andThen (readIO (\<lambda>s. \<exists>a\<in>set (admins s). fst a = w \<and> snd a)) (\<lambda>a.
        andThen (readIO (\<lambda>s. \<exists>m\<in>set (merchants s). merchantWallet m = Some w \<and> merchantActive m)) (\<lambda>m.
        ret (Reply (if a then ''admin'' else if m then ''merchant'' else ''none'')))))"

definition nonceRoute :: "string \<Rightarrow> string option \<Rightarrow> ('r authDb_scheme, (string \<times> string \<times> int) reply) prog" where
  "nonceRoute nonce q = (case walletQuery q of None \<Rightarrow> ret (ReplyErr 400 ''Invalid wallet address'' None)
    | Some w \<Rightarrow> andThen (issueNonce nonce w) (\<lambda>r. ret (Reply r)))"

text \<open>The claims of the token, the role, and the consumer shown to the client.\<close>

record loginReply =
  lrToken :: claims
  lrConsumer :: "consumerRow option"

definition consumerClaims :: "string \<Rightarrow> consumerRow option \<Rightarrow> string \<Rightarrow> string \<Rightarrow> claims" where
  "consumerClaims wallet c otherId role = \<lparr>clSub = WalletSub wallet,
     clConsumer = Some (case c of Some r \<Rightarrow> consumerId r | None \<Rightarrow> otherId),
     clCountry = Some (case c of Some r \<Rightarrow> consumerCountry r | None \<Rightarrow> []),
     clKyc = Some (case c of Some r \<Rightarrow> orElse (consumerKycLevel r) 0 | None \<Rightarrow> 0),
     clRole = Some role, clTokenRole = None, clMember = None, clMerchant = None\<rparr>"

definition loginRoute :: "waEnv \<Rightarrow> string option \<Rightarrow> string option \<Rightarrow> ('r authDb_scheme, loginReply reply) prog" where
  "loginRoute W walletAddress signature = tryCatch
    (case (nonEmpty walletAddress, nonEmpty signature) of
       (Some wa, Some sig) \<Rightarrow>
         let wallet = toLower wa; w = addrOfHex wallet in
         andThen (verifyAndConsume W wallet sig) (\<lambda>ok.
         if \<not> ok then ret (ReplyErr 401 ''Signature verification failed or nonce expired. Request a new nonce.'' None) else
         andThen (readIO (adminRow w)) (\<lambda>admin.
         andThen (readIO (merchantOfWallet w)) (\<lambda>merchant.
         andThen (readIO (consumerOfWallet w)) (\<lambda>consumer.
         if admin = None \<and> merchant = None \<and> consumer = None then ret (ReplyErr 404 ''Wallet not registered.'' None)
         else if (case admin of Some a \<Rightarrow> \<not> snd a | None \<Rightarrow> False) then ret (ReplyErr 403 ''Admin account is inactive.'' None)
         else if (case merchant of Some m \<Rightarrow> \<not> merchantActive m | None \<Rightarrow> False) then ret (ReplyErr 403 ''Merchant account is inactive.'' None)
         else if (case consumer of Some c \<Rightarrow> \<not> consumerActive c | None \<Rightarrow> False) \<and> admin = None
              then ret (ReplyErr 403 ''Account is inactive.'' None)
         else let role = (if admin \<noteq> None then ''admin'' else if merchant \<noteq> None then ''merchant'' else ''consumer'') in
           ret (Reply \<lparr>lrToken = consumerClaims wallet consumer (case merchant of Some m \<Rightarrow> merchantId m | None \<Rightarrow> []) role,
             lrConsumer = consumer\<rparr>)))))
     | _ \<Rightarrow> ret (ReplyErr 400 ''walletAddress and signature required'' None))
    (\<lambda>e. ret (ReplyErr 500 ''Login failed'' None))"

definition counterRegression :: "nat \<Rightarrow> nat \<Rightarrow> bool" where
  "counterRegression signCount prev \<longleftrightarrow> signCount \<noteq> 0 \<and> prev \<noteq> 0 \<and> signCount \<le> prev"

text \<open>The credential of a wallet's passkey, looked up by its identifier (unique).\<close>

definition passkeyLogin ::
  "waEnv \<Rightarrow> string option \<Rightarrow> string option \<Rightarrow> string option \<Rightarrow> string option \<Rightarrow> ('r authDb_scheme, loginReply reply) prog" where
  "passkeyLogin W credId authData clientJson signature = tryCatch
    (case (nonEmpty credId, nonEmpty authData, nonEmpty clientJson, nonEmpty signature) of
       (Some cid, Some ad, Some cj, Some sg) \<Rightarrow>
         andThen (readIO (\<lambda>s. find (\<lambda>c. crId c = cid) (credentials s))) (\<lambda>r. case r of
           None \<Rightarrow> ret (ReplyErr 404 ''Passkey not recognised. Register first.'' None)
         | Some cred \<Rightarrow>
             andThen (verifyAssertion W ad cj sg (crX cred) (crY cred)) (\<lambda>signCount.
             if counterRegression signCount (crCount cred)
             then ret (ReplyErr 401 ''Passkey counter regression - possible cloned authenticator'' None) else
             andThen (writeIO (\<lambda>s. s\<lparr>credentials := updWhere (\<lambda>c. crId c = cid) (\<lambda>c. c\<lparr>crCount := signCount\<rparr>) (credentials s)\<rparr>)) (\<lambda>_.
             andThen (readIO (consumerOfWallet (crWallet cred))) (\<lambda>consumer.
             if (case consumer of Some c \<Rightarrow> \<not> consumerActive c | None \<Rightarrow> False)
             then ret (ReplyErr 403 ''Account is inactive.'' None)
             else ret (Reply \<lparr>lrToken = consumerClaims (addrText (crWallet cred)) consumer [] ''consumer'', lrConsumer = consumer\<rparr>)))))
     | _ \<Rightarrow> ret (ReplyErr 400 ''Missing assertion fields'' None))
    (\<lambda>e. ret (ReplyErr 401 ''Passkey login failed'' None))"

definition registerOptions :: "waEnv \<Rightarrow> string \<Rightarrow> byte list \<Rightarrow> byte list \<Rightarrow> ('r authDb_scheme, string \<times> (string \<times> string) \<times> string) prog" where
  "registerOptions W appName random userRandom =
    andThen (newChallenge random) (\<lambda>ch.
    ret (ch, (waRpId W, if appName = [] then waRpName W else appName), bufToB64url userRandom))"

definition loginOptions :: "waEnv \<Rightarrow> byte list \<Rightarrow> ('r authDb_scheme, string \<times> string) prog" where
  "loginOptions W random = andThen (newChallenge random) (\<lambda>ch. ret (ch, waRpId W))"

section \<open>memberAuth.routes.ts\<close>

definition roleOf :: "string \<Rightarrow> memberRole option" where
  "roleOf t = (if t = ''org_admin'' then Some OrgAdmin else if t = ''store_manager'' then Some StoreManager
     else if t = ''cashier'' then Some Cashier else None)"

definition roleText :: "memberRole \<Rightarrow> string" where
  "roleText r = (case r of OrgAdmin \<Rightarrow> ''org_admin'' | StoreManager \<Rightarrow> ''store_manager'' | Cashier \<Rightarrow> ''cashier'')"

definition memberClaims :: "memberRow \<Rightarrow> claims" where
  "memberClaims mb = \<lparr>clSub = MemberSub (mbId mb), clConsumer = None, clCountry = None, clKyc = None,
     clRole = Some (roleText (mbRole mb)), clTokenRole = Some ''merchant_member'', clMember = Some (mbId mb),
     clMerchant = Some (mbMerchant mb)\<rparr>"

definition emailTaken :: "string \<Rightarrow> string \<Rightarrow> 'r retailDb_scheme \<Rightarrow> bool" where
  "emailTaken m email s \<longleftrightarrow> (\<exists>r\<in>set (members s). mbMerchant r = m \<and> mbEmail r = Some email)"

text \<open>An invitation; \<open>newId\<close> is the next value of the SERIAL column.\<close>

definition inviteRoute ::
  "nat \<Rightarrow> string \<Rightarrow> nat \<Rightarrow> string option \<Rightarrow> string option \<Rightarrow> string option \<Rightarrow> string option \<Rightarrow> ('r retailDb_scheme, nat reply) prog" where
  "inviteRoute newId m by email displayName role storeScope = tryCatch
    (case (nonEmpty email, nonEmpty role) of
       (Some em, Some rl) \<Rightarrow> (case roleOf rl of
          None \<Rightarrow> ret (ReplyErr 400 ''role must be org_admin, store_manager, or cashier'' None)
        | Some rr \<Rightarrow>
            let scope = scopeOf storeScope in
            andThen (case scope of None \<Rightarrow> ret True
               | Some c \<Rightarrow> readIO (\<lambda>s. \<exists>st\<in>set (stores s). stMerchant st = m \<and> stCode st = c \<and> stActive st)) (\<lambda>storeOk.
            if \<not> storeOk then ret (ReplyErr 400 (''Store code \"'' @ shown scope @ ''\" not found'') None) else
            andThen (io (\<lambda>s. if emailTaken m (toLower em) s then Inl uniqueViolation
               else Inr ((), s\<lparr>members := members s @ [\<lparr>mbId = newId, mbMerchant = m, mbEmail = Some (toLower em),
                 mbDisplay = displayName, mbRole = rr, mbStatus = Invited, mbScope = scope, mbInvitedBy = Some by\<rparr>]\<rparr>))) (\<lambda>_.
            ret (Reply newId))))
     | _ \<Rightarrow> ret (ReplyErr 400 ''email and role required'' None))
    (\<lambda>e. if fcode e = Some ''23505'' then
        andThen (readIO (\<lambda>s. find (\<lambda>r. mbMerchant r = m \<and> mbEmail r = Some (toLower (orElse email []))) (members s))) (\<lambda>r.
        ret (ReplyErr 409 (case r of Some row \<Rightarrow> ''This email already has a seat on your team''
          | None \<Rightarrow> ''Already invited for this org'') None))
      else ret (ReplyErr 500 (fmsg e) None))"

text \<open>\<open>Number(memberId)\<close> against the integer column: anything but an integer is an error of the query.\<close>

definition findMember :: "rat option \<Rightarrow> ('r retailDb_scheme, memberRow option) prog" where
  "findMember k = io (\<lambda>s. case k of None \<Rightarrow> Inl (plainErr ''invalid input syntax for type integer'')
     | Some r \<Rightarrow> if of_int \<lfloor>r\<rfloor> \<noteq> r then Inl (plainErr ''invalid input syntax for type integer'')
         else Inr (find (\<lambda>mb. of_nat (mbId mb) = r) (members s), s))"

definition bindSeat :: "memberRow \<Rightarrow> string \<Rightarrow> string option \<Rightarrow> string \<Rightarrow> nat \<Rightarrow> nat \<Rightarrow> ('r authDb_scheme, unit) prog" where
  "bindSeat mb email displayName credId x y = transaction
    (andThen (io (\<lambda>s. if \<exists>r\<in>set (members s). mbId r \<noteq> mbId mb \<and> mbMerchant r = mbMerchant mb \<and> mbEmail r = Some email
         then Inl uniqueViolation
         else Inr ((), s\<lparr>members := updWhere (\<lambda>r. mbId r = mbId mb)
           (\<lambda>r. r\<lparr>mbEmail := Some email, mbDisplay := (case displayName of None \<Rightarrow> mbDisplay r | Some d \<Rightarrow> Some d),
              mbStatus := ActiveMember\<rparr>) (members s)\<rparr>))) (\<lambda>_.
     io (\<lambda>s. if \<exists>c\<in>set (memberCreds s). mcId c = credId then Inl uniqueViolation
         else Inr ((), s\<lparr>memberCreds := memberCreds s @ [\<lparr>mcId = credId, mcMember = mbId mb, mcX = x, mcY = y, mcCount = 0\<rparr>]\<rparr>))))"

definition ofSum :: "failure + 'a \<Rightarrow> ('s, 'a) prog" where
  "ofSum r s = (r, s)"

definition claimRoute ::
  "waEnv \<Rightarrow> string option \<Rightarrow> string option \<Rightarrow> string option \<Rightarrow> string option \<Rightarrow> string option \<Rightarrow> string option
    \<Rightarrow> ('r authDb_scheme, claims reply) prog" where
  "claimRoute W memberId email displayName credId pkDer clientJson = tryCatch
    (case (nonEmpty memberId, nonEmpty email, nonEmpty credId, nonEmpty pkDer, nonEmpty clientJson) of
       (Some mid, Some em, Some cid, Some der, Some cj) \<Rightarrow>
         andThen (findMember (jsNumberOf mid)) (\<lambda>r. case r of
           None \<Rightarrow> ret (ReplyErr 404 ''Invite not found'' None)
         | Some mb \<Rightarrow>
             if mbStatus mb \<noteq> Invited then ret (ReplyErr 409 ''Seat already claimed'' None) else
             andThen (verifyRegistrationClientData W cj) (\<lambda>_.
             andThen (ofSum (extractP256FromSpki (b64urlToBuf der))) (\<lambda>(x, y).
             andThen (bindSeat mb (toLower em) displayName cid x y) (\<lambda>_.
             ret (Reply (memberClaims mb))))))
     | _ \<Rightarrow> ret (ReplyErr 400 ''memberId, email, credentialId, publicKeyDer, clientDataJSON required'' None))
    (\<lambda>e. ret (ReplyErr 400 (fmsg e) None))"

definition memberLogin ::
  "waEnv \<Rightarrow> string option \<Rightarrow> string option \<Rightarrow> string option \<Rightarrow> string option \<Rightarrow> ('r authDb_scheme, claims reply) prog" where
  "memberLogin W credId authData clientJson signature = tryCatch
    (case (nonEmpty credId, nonEmpty authData, nonEmpty clientJson, nonEmpty signature) of
       (Some cid, Some ad, Some cj, Some sg) \<Rightarrow>
         andThen (readIO (\<lambda>s. find (\<lambda>c. mcId c = cid) (memberCreds s))) (\<lambda>r. case r of
           None \<Rightarrow> ret (ReplyErr 404 ''Passkey not recognised.'' None)
         | Some cred \<Rightarrow>
             andThen (verifyAssertion W ad cj sg (mcX cred) (mcY cred)) (\<lambda>signCount.
             if counterRegression signCount (mcCount cred)
             then ret (ReplyErr 401 ''Passkey counter regression - possible cloned authenticator'' None) else
             andThen (writeIO (\<lambda>s. s\<lparr>memberCreds := updWhere (\<lambda>c. mcId c = cid) (\<lambda>c. c\<lparr>mcCount := signCount\<rparr>) (memberCreds s)\<rparr>)) (\<lambda>_.
             andThen (readIO (\<lambda>s. find (\<lambda>mb. mbId mb = mcMember cred) (members s))) (\<lambda>m. case m of
               None \<Rightarrow> ret (ReplyErr 403 ''Account is inactive.'' None)
             | Some mb \<Rightarrow> if mbStatus mb = DisabledMember then ret (ReplyErr 403 ''Account is inactive.'' None)
                 else ret (Reply (memberClaims mb))))))
     | _ \<Rightarrow> ret (ReplyErr 400 ''Missing assertion fields'' None))
    (\<lambda>e. ret (ReplyErr 401 ''Passkey login failed'' None))"

definition meRoute :: "nat \<Rightarrow> ('r retailDb_scheme, (memberRow \<times> merchantRow) reply) prog" where
  "meRoute i = andThen (readIO (\<lambda>s. headOpt [(mb, m). mb \<leftarrow> members s, m \<leftarrow> merchants s, merchantId m = mbMerchant mb \<and> mbId mb = i])) (\<lambda>r.
     ret (case r of None \<Rightarrow> ReplyErr 404 ''Not found'' None | Some x \<Rightarrow> Reply x))"

definition membersRoute :: "string \<Rightarrow> ('r retailDb_scheme, memberRow list) prog" where
  "membersRoute m = readIO (\<lambda>s. filter (\<lambda>mb. mbMerchant mb = m) (members s))"

end
