(* ===== verification/AuthProps.thy ===== *)
theory AuthProps
  imports AuthRoutes
begin

text \<open>What the sign-in layer guarantees, and where a seat can be claimed by anyone.\<close>

section \<open>Assertions\<close>

lemma consumeChallenge_run: "consumeChallenge ch s = (Inr b, t) \<longleftrightarrow>
    b = (case challenges s ch of None \<Rightarrow> False | Some e \<Rightarrow> clock s \<le> e) \<and> t = s\<lparr>challenges := (challenges s)(ch := None)\<rparr>"
  by (auto simp: consumeChallenge_def)

lemma consumeChallenge_total: "\<exists>b. consumeChallenge ch s = (Inr b, s\<lparr>challenges := (challenges s)(ch := None)\<rparr>)"
  by (simp add: consumeChallenge_def)

lemma verifyClientData_InrD:
  assumes "verifyClientData W bytes ty s = (Inr (), t)"
  shows "\<exists>d ch og e. waParse W bytes = Some d \<and> cdType d = Some ty \<and> cdOrigin d = Some og \<and> og \<in> set (waOrigins W)
    \<and> cdChallenge d = Some ch \<and> challenges s ch = Some e \<and> clock s \<le> e \<and> t = s\<lparr>challenges := (challenges s)(ch := None)\<rparr>"
proof -
  obtain d where d: "waParse W bytes = Some d" and ty: "cdType d = Some ty"
    and o: "case cdOrigin d of None \<Rightarrow> False | Some og \<Rightarrow> og \<noteq> [] \<and> og \<in> set (waOrigins W)"
    and k: "andThen (case nonEmpty (cdChallenge d) of None \<Rightarrow> ret False | Some ch \<Rightarrow> consumeChallenge ch) (\<lambda>ok.
      require ok (plainErr ''Challenge invalid, expired, or replayed'')) s = (Inr (), t)"
    using assms unfolding verifyClientData_def by (auto simp: andThen_Inr_iff)
  then obtain ch where ch: "cdChallenge d = Some ch" and c: "consumeChallenge ch s = (Inr True, t)"
    by (auto simp: andThen_Inr_iff nonEmpty_def split: option.splits if_splits)
  then show ?thesis
    using d ty o by (auto simp: consumeChallenge_run split: option.splits)
qed

text \<open>
  C19. A login assertion is accepted only if its client data is of type \<open>webauthn.get\<close>, from an allowed
  origin and over a live challenge of the server, which it consumes; the authenticator data is for this
  relying party with the user present; and the credential's key signed both.
\<close>

theorem assertion_sound:
  assumes "verifyAssertion W authB64 clientB64 sigB64 x y s = (Inr n, t)"
  shows "\<exists>d ch og e flags. waParse W (b64urlToBuf clientB64) = Some d \<and> cdType d = Some ''webauthn.get''
    \<and> cdOrigin d = Some og \<and> og \<in> set (waOrigins W)
    \<and> cdChallenge d = Some ch \<and> challenges s ch = Some e \<and> clock s \<le> e \<and> challenges t ch = None
    \<and> take 32 (b64urlToBuf authB64) = waSha W (strBytes (waRpId W))
    \<and> byteAt (b64urlToBuf authB64) 32 = Some flags \<and> flags AND 1 \<noteq> 0
    \<and> waVerify W x y (b64urlToBuf authB64 @ waSha W (b64urlToBuf clientB64)) (b64urlToBuf sigB64) = Some True
    \<and> n = natOfBytes (take 4 (drop 33 (b64urlToBuf authB64)))"
proof -
  from assms show ?thesis
    unfolding verifyAssertion_def Let_def
    apply (elim andThen_InrE)
    apply (simp only: steps_inv)
    apply (elim conjE)
    apply hypsubst_thin
    subgoal premises prems
    proof -
      have v: "verifyClientData W (b64urlToBuf clientB64) ''webauthn.get'' s = (Inr (), t)" using prems(1) by simp
      obtain d ch og e where d: "waParse W (b64urlToBuf clientB64) = Some d" "cdType d = Some ''webauthn.get''"
        "cdOrigin d = Some og" "og \<in> set (waOrigins W)" "cdChallenge d = Some ch" "challenges s ch = Some e" "clock s \<le> e"
        and t: "t = s\<lparr>challenges := (challenges s)(ch := None)\<rparr>"
        using verifyClientData_InrD [OF v] by blast
      obtain flags where "byteAt (b64urlToBuf authB64) 32 = Some flags" "flags AND 1 \<noteq> 0"
        using prems(3) by (auto split: option.splits)
      moreover have "n = natOfBytes (take 4 (drop 33 (b64urlToBuf authB64)))"
        using prems(6) by (simp add: readUInt32BE_def split: if_splits)
      ultimately show ?thesis
        using d t by (intro exI [of _ d] exI [of _ ch] exI [of _ og] exI [of _ e] exI [of _ flags]) simp
    qed
    done
qed

section \<open>A challenge and a nonce are used once\<close>

text \<open>
  An attempt to log in: any authenticator data, client data, signature and stored public key. What it
  uses up is the challenge its client data carries, if any.
\<close>

definition challengeOf :: "waEnv \<Rightarrow> string \<Rightarrow> string option" where
  "challengeOf W clientB64 = (case waParse W (b64urlToBuf clientB64) of None \<Rightarrow> None | Some d \<Rightarrow> cdChallenge d)"

type_synonym assertion = "string \<times> string \<times> string \<times> nat \<times> nat"

definition assertKey :: "waEnv \<Rightarrow> assertion \<Rightarrow> string option" where
  "assertKey W q = (case q of (ad, cj, sg, x, y) \<Rightarrow> challengeOf W cj)"

definition assertAttempt :: "waEnv \<Rightarrow> assertion \<Rightarrow> authDb \<Rightarrow> bool \<times> authDb" where
  "assertAttempt W q s = (case q of (ad, cj, sg, x, y) \<Rightarrow>
     case verifyAssertion W ad cj sg x y s of (r, t) \<Rightarrow> (\<not> isl r, t))"

definition challengeSpent :: "authDb \<Rightarrow> string option \<Rightarrow> bool" where
  "challengeSpent s k = (case k of None \<Rightarrow> False | Some ch \<Rightarrow> challenges s ch = None)"

lemma verifyClientData_spends:
  "challenges s j = None \<Longrightarrow> verifyClientData W b ty s = (r, t) \<Longrightarrow> challenges t j = None"
  unfolding verifyClientData_def consumeChallenge_def
  by (auto simp: andThen_def require_def ofOption_def split: prod.splits sum.splits option.splits if_splits)

lemma verifyAssertion_spends:
  assumes "challenges s j = None" and "verifyAssertion W ad cj sg x y s = (r, t)"
  shows "challenges t j = None"
proof -
  obtain r1 u where v: "verifyClientData W (b64urlToBuf cj) ''webauthn.get'' s = (r1, u)" by fastforce
  have "t = u" using assms(2) v unfolding verifyAssertion_def Let_def
    by (auto simp: andThen_def require_def ofOption_def split: prod.splits sum.splits option.splits if_splits)
  then show ?thesis using verifyClientData_spends [OF assms(1) v] by simp
qed

interpretation spentChallenges: one_shot challengeSpent "assertKey W" "assertAttempt W"
proof unfold_locales
  fix q s t
  assume "assertAttempt W q s = (True, t)"
  then obtain ad cj sg x y n where q: "q = (ad, cj, sg, x, y)" and v: "verifyAssertion W ad cj sg x y s = (Inr n, t)"
    by (cases q) (auto simp: assertAttempt_def isl_def split: prod.splits, metis sum.exhaust)
  obtain u where "verifyClientData W (b64urlToBuf cj) ''webauthn.get'' s = (Inr (), u)" and "t = u"
    using v unfolding verifyAssertion_def Let_def by (auto simp: andThen_Inr_iff)
  then show "\<not> challengeSpent s (assertKey W q) \<and> challengeSpent t (assertKey W q)"
    by (auto dest!: verifyClientData_InrD simp: q assertKey_def challengeOf_def challengeSpent_def)
next
  show "assertAttempt W q s = (b, t) \<Longrightarrow> challengeSpent s j \<Longrightarrow> challengeSpent t j" for q s b t j
    using verifyAssertion_spends [of s "the j" W]
    by (auto simp: assertAttempt_def challengeSpent_def split: prod.splits option.splits)
qed

text \<open>
  C20. Over any sequence of login attempts, with any assertions, signatures and keys, replays of one
  assertion and different assertions over one challenge included, at most one of those whose client
  data carries a given challenge is accepted.
\<close>

theorem challenge_used_at_most_once:
  "successes (assertKey W) (Some ch) qs (fst (attempts (assertAttempt W) qs s)) \<le> 1"
  by (rule spentChallenges.at_most_once)

text \<open>The same for the nonce of a wallet login, which is spent by the login that succeeds, whatever the signatures.\<close>

definition nonceAttempt :: "waEnv \<Rightarrow> string \<times> string \<Rightarrow> authDb \<Rightarrow> bool \<times> authDb" where
  "nonceAttempt W q s = (case verifyAndConsume W (fst q) (snd q) s of (r, t) \<Rightarrow> (r = Inr True, t))"

lemma verifyAndConsume_cases:
  assumes "verifyAndConsume W k sg s = (r, t)"
  shows "t = s \<or> t = s\<lparr>nonces := (nonces s)(toLower k := None)\<rparr>"
    and "r = Inr True \<Longrightarrow> \<exists>m e a. nonces s (toLower k) = Some (m, e) \<and> clock s \<le> e \<and> waRecover W m sg = Some a
      \<and> addrText a = toLower k \<and> t = s\<lparr>nonces := (nonces s)(toLower k := None)\<rparr>"
  using assms unfolding verifyAndConsume_def Let_def
  by (auto simp: andThen_def split: option.splits if_splits prod.splits)

interpretation spentNonces: one_shot "\<lambda>s k. nonces s k = None" "\<lambda>q. toLower (fst q)" "nonceAttempt W"
proof unfold_locales
  show "nonceAttempt W q s = (True, t) \<Longrightarrow> \<not> nonces s (toLower (fst q)) = None \<and> nonces t (toLower (fst q)) = None" for q s t
    by (auto simp: nonceAttempt_def split: prod.splits dest!: verifyAndConsume_cases(2))
  show "nonceAttempt W q s = (b, t) \<Longrightarrow> nonces s j = None \<Longrightarrow> nonces t j = None" for q s b t j
    using verifyAndConsume_cases(1) [of W "fst q" "snd q" s] by (fastforce simp: nonceAttempt_def split: prod.splits)
qed

lemma nonce_used_once: "successes (\<lambda>q. toLower (fst q)) k qs (fst (attempts (nonceAttempt W) qs s)) \<le> 1"
  by (rule spentNonces.at_most_once)

section \<open>Roles\<close>

text \<open>
  C21. The tokens of the two families do not mix: a token signed for a wallet (consumer, merchant or
  administrator) is never an operator's, an operator's token never opens the administrator routes, and the
  organisation routes need the role \<open>org_admin\<close>. The consumer guard alone does not tell them apart: it
  accepts an operator's token.
\<close>

theorem guards_separate_roles:
  "requireMemberAuth (W\<lparr>waJwt := \<lambda>_. Some (consumerClaims w c i r)\<rparr>) h \<noteq> Inr m
    \<and> requireAdmin (W\<lparr>waJwt := \<lambda>_. Some (memberClaims mb)\<rparr>) h \<noteq> Inr adm
    \<and> requireOrgAdmin (W\<lparr>waJwt := \<lambda>_. Some (memberClaims mb)\<rparr>) (Some (''Bearer '' @ tok)) =
        (if mbRole mb = OrgAdmin then Inr \<lparr>meId = Some (mbId mb), meMerchant = Some (mbMerchant mb), meRole = Some ''org_admin''\<rparr>
         else Inl (403, ''Org admin (head office) access required''))
    \<and> requireAuth (W\<lparr>waJwt := \<lambda>_. Some (memberClaims mb)\<rparr>) (Some (''Bearer '' @ tok)) = Inr (MemberSub (mbId mb), None)"
  by (auto simp: requireMemberAuth_def requireAdmin_def requireOrgAdmin_def requireAuth_def jwtVerify_def bearer_def sbind_Inr_iff
      consumerClaims_def memberClaims_def roleText_def split: if_splits option.splits memberRole.splits)

section \<open>The example\<close>

definition demoWa :: "string \<Rightarrow> waEnv" where
  "demoWa ty = \<lparr>waSha = (\<lambda>_. replicate 32 7), waVerify = (\<lambda>_ _ _ _. Some True),
     waParse = (\<lambda>_. Some \<lparr>cdType = Some ty, cdChallenge = Some ''cg'', cdOrigin = Some ''https://a''\<rparr>),
     waRecover = (\<lambda>_ _. Some 10), waJwt = (\<lambda>_. None), waOrigins = [''https://a''], waRpId = ''a'', waRpName = ''iMali''\<rparr>"

definition demoAuthDb :: authDb where
  "demoAuthDb = (salesDb.extend demoSalesDb (authDb.fields (\<lambda>k. if k = ''cg'' then Some 1700000000000 else None) (\<lambda>_. None) [] [] []))
     \<lparr>members := [demoMember\<lparr>mbStatus := Invited\<rparr>]\<rparr>"

lemma demoAuth_sel [simp]:
  "net demoAuthDb = []" "clock demoAuthDb = 1700000000000" "challenges demoAuthDb = (\<lambda>k. if k = ''cg'' then Some 1700000000000 else None)"
  "members demoAuthDb = [demoMember\<lparr>mbStatus := Invited\<rparr>]" "memberCreds demoAuthDb = []"
  by (simp_all add: demoAuthDb_def authDb.defs demoSalesDb_def salesDb.defs demoVoucherDb_def voucherDb.defs demo_state)

definition demoAuthData :: "byte list" where
  "demoAuthData = replicate 32 7 @ [1, 0, 0, 0, 5]"

lemma demoWa_sel [simp]:
  "waSha (demoWa ty) b = replicate 32 7" "waVerify (demoWa ty) x y d g = Some True"
  "waParse (demoWa ty) b = Some \<lparr>cdType = Some ty, cdChallenge = Some ''cg'', cdOrigin = Some ''https://a''\<rparr>"
  "waOrigins (demoWa ty) = [''https://a'']"
  by (simp_all add: demoWa_def)

definition spentDb :: authDb where
  "spentDb = demoAuthDb\<lparr>challenges := (challenges demoAuthDb)(''cg'' := None)\<rparr>"

lemma demo_clientData: "verifyClientData (demoWa ty) b ty demoAuthDb = (Inr (), spentDb)"
  by (simp add: verifyClientData_def nonEmpty_def consumeChallenge_def spentDb_def)

lemma spentDb_sel [simp]:
  "net spentDb = []" "challenges spentDb ''cg'' = None" "members spentDb = [demoMember\<lparr>mbStatus := Invited\<rparr>]" "memberCreds spentDb = []"
  by (simp_all add: spentDb_def)

lemma demoAuthData_values:
  "take 32 demoAuthData = replicate 32 7" "byteAt demoAuthData 32 = Some 1" "readUInt32BE demoAuthData 33 = Some 5"
  by (simp_all add: demoAuthData_def byteAt_def nth_append readUInt32BE_def natOfBytes_def)

lemma demo_assertion:
  "verifyAssertion (demoWa ''webauthn.get'') (bufToB64url demoAuthData) [] [] 0 0 demoAuthDb = (Inr 5, spentDb)"
  unfolding verifyAssertion_def b64url_inverse Let_def
  by (subst andThen_Inr [where m = "verifyClientData (demoWa ''webauthn.get'') (b64urlToBuf []) ''webauthn.get''" and s = demoAuthDb
        and x = "()" and t = spentDb], rule demo_clientData) (simp add: demoAuthData_values)

lemma assertion_sound_witness:
  "\<exists>t. verifyAssertion (demoWa ''webauthn.get'') (bufToB64url demoAuthData) [] [] 0 0 demoAuthDb = (Inr 5, t) \<and> challenges t ''cg'' = None"
  using assertion_sound [OF demo_assertion] demo_assertion by auto

lemma sextets_nonempty: "xs \<noteq> [] \<Longrightarrow> sextets xs \<noteq> []"
  by (cases xs rule: sextets.cases) simp_all

lemma bufToB64url_nonempty: "b \<noteq> [] \<Longrightarrow> bufToB64url b \<noteq> []"
  by (simp add: bufToB64url_chars sextets_nonempty)

lemma nonEmpty_Some: "t \<noteq> [] \<Longrightarrow> nonEmpty (Some t) = Some t"
  by (simp add: nonEmpty_def)

text \<open>
  A seat invited by e-mail is claimed by whoever presents its number first: the e-mail the claimant
  types is not compared with the invited one, it replaces it, and the claimant gets the seat's token, here
  that of an organisation administrator.
\<close>

theorem seat_claimed_with_any_email:
  "\<exists>pk cl t mb. mbEmail (hd (members demoAuthDb)) = Some ''o@shop'' \<and> mbRole (hd (members demoAuthDb)) = OrgAdmin
    \<and> claimRoute (demoWa ''webauthn.create'') (Some ''1'') (Some ''eve@else'') None (Some ''cred'') (Some pk) (Some cl) demoAuthDb
      = (Inr (Reply (memberClaims (hd (members demoAuthDb)))), t)
    \<and> members t = [mb] \<and> mbEmail mb = Some ''eve@else'' \<and> mbStatus mb = ActiveMember \<and> mbRole mb = OrgAdmin"
proof -
  obtain pk where ne: "nonEmpty (Some pk) = Some pk" and x: "extractP256FromSpki (b64urlToBuf pk) = Inr (3, 2)"
  proof
    let ?pk = "bufToB64url (4 # bytesOfNat 32 3 @ bytesOfNat 32 2)"
    show "nonEmpty (Some ?pk) = Some ?pk" by (rule nonEmpty_Some, rule bufToB64url_nonempty) simp
    show "extractP256FromSpki (b64urlToBuf ?pk) = Inr (3, 2)"
      unfolding b64url_inverse using extractP256_spki [of 3 2 "[]"] by simp
  qed
  have n: "jsNumberOf ''1'' = Some 1"
  proof -
    have "numberOf ''1'' = Some (fl 1)" by code_simp
    then show ?thesis using fl_nat [of 1] by (simp add: jsNumberOf_decimal)
  qed
  have r: "verifyRegistrationClientData (demoWa ''webauthn.create'') ''x'' demoAuthDb
      = (Inr (), spentDb)"
    by (simp add: verifyRegistrationClientData_def demo_clientData)
  have l: "toLower ''eve@else'' = ''eve@else''" by code_simp
  let ?mb = "demoMember\<lparr>mbStatus := Invited\<rparr>"
  have f: "findMember (Some 1) demoAuthDb = (Inr (Some ?mb), demoAuthDb)"
    by (simp add: findMember_def io_calm demoMember_def)
  obtain t mb where b: "bindSeat ?mb ''eve@else'' None ''cred'' 3 2 spentDb = (Inr (), t)"
    and t: "members t = [mb]" "mbEmail mb = Some ''eve@else''" "mbStatus mb = ActiveMember" "mbRole mb = OrgAdmin"
    by (simp add: bindSeat_def transaction_def io_calm nextNet_def demoMember_def)
  have "claimRoute (demoWa ''webauthn.create'') (Some ''1'') (Some ''eve@else'') None (Some ''cred'') (Some pk) (Some ''x'') demoAuthDb
      = (Inr (Reply (memberClaims ?mb)), t)"
    unfolding claimRoute_def
    using ne by (simp add: nonEmpty_def n f r x ofSum_def l b del: toLower_simps split: if_splits)
  then show ?thesis
    using t by (intro exI [of _ pk] exI [of _ "''x''"] exI [of _ t] exI [of _ mb]) (simp add: demoMember_def)
qed

end
