(* ===== verification/Withdrawal.thy ===== *)
theory Withdrawal
  imports AuthProps
begin

text \<open>
  \<open>withdrawalService.ts\<close>: a consumer's withdrawal of USDC to an external wallet, in two requests.
  The first checks the destination, the limits and the reserves and stores an intent under a challenge;
  the second takes a passkey assertion over that challenge and pays. \<open>isRegisteredConsumer\<close> and
  \<open>isTrustedCounterparty\<close> of \<open>safeRelayService.ts\<close> stand here too.

  The hash of the ABI-encoded intent is the argument \<open>intent\<close> and the identifier of \<open>randomUUID\<close> the
  argument \<open>newId\<close>; the record of the gas used by each transaction, whose failures are swallowed, is left out.
\<close>

record beneficiary =
  bfName :: string
  bfIdNumber :: "string option"
  bfPhone :: "string option"
  bfCountry :: "string option"
  bfRelationship :: "string option"

record pendingWithdrawal =
  pwConsumer :: string
  pwFrom :: address
  pwTo :: address
  pwGross :: int
  pwFee :: int
  pwNet :: int
  pwFeeBps :: int
  pwChallenge :: string
  pwLimitUnits :: int
  pwBeneficiary :: beneficiary
  pwExpiry :: int

datatype withdrawalStatus = WdPending | WdExecuted | WdFailed

record withdrawalRow =
  wdId :: string
  wdConsumer :: string
  wdFrom :: address
  wdTo :: address
  wdGross :: int
  wdFee :: int
  wdNet :: int
  wdFeeBps :: int
  wdStatus :: withdrawalStatus
  wdTx :: "txHash option"
  wdDebitTx :: "txHash option"
  wdCreditTx :: "txHash option"
  wdError :: "string option"
  wdBeneficiary :: beneficiary
  wdCreated :: int
  wdExecutedAt :: "int option"

record withdrawDb = authDb +
  pendingWithdrawals :: "string \<Rightarrow> pendingWithdrawal option"
  withdrawals :: "withdrawalRow list"
  consumerNames :: "string \<Rightarrow> string option"

section \<open>The beneficiary of the travel rule\<close>

text \<open>Every maximal run of characters with \<open>P\<close> becomes one \<open>c\<close>: \<open>s.replace(/\s+/g, ' ')\<close>.\<close>

function collapse :: "(char \<Rightarrow> bool) \<Rightarrow> char \<Rightarrow> string \<Rightarrow> string" where
  "collapse P c [] = []"
| "collapse P c (x # xs) = (if P x then c # collapse P c (dropWhile P xs) else x # collapse P c xs)"
  by pat_completeness auto
termination
  by (relation "measure (\<lambda>(P, c, s). length s)") (auto simp: less_Suc_eq_le length_dropWhile_le)

definition cleanStr :: "bodyField \<Rightarrow> nat \<Rightarrow> string option" where
  "cleanStr v mx = (case v of JsonStr t \<Rightarrow>
       (let s = collapse isSpace (CHR '' '') (trim t) in if s = [] then None else Some (take mx s))
     | _ \<Rightarrow> None)"

record beneficiaryBody =
  bbFullName :: bodyField
  bbName :: bodyField
  bbIdNumber :: bodyField
  bbPhone :: bodyField
  bbCountry :: bodyField
  bbRelationship :: bodyField

definition relationships :: "string list" where
  "relationships = [''immediate_family'', ''extended_family'', ''friend'', ''employee'', ''employer'',
     ''business_partner'', ''self'', ''other'']"

definition isUpperLetter :: "char \<Rightarrow> bool" where
  "isUpperLetter c \<longleftrightarrow> (let n = (of_char c :: nat) in 65 \<le> n \<and> n \<le> 90)"

definition parseTravelRuleBeneficiary :: "beneficiaryBody \<Rightarrow> ('s, beneficiary) prog" where
  "parseTravelRuleBeneficiary b =
    (let name = cleanStr (if bbFullName b = Absent \<or> bbFullName b = JsonNull then bbName b else bbFullName b) 200;
         country = map_option toUpper (cleanStr (bbCountry b) 2);
         relationship = map_option (\<lambda>t. collapse (\<lambda>c. isSpace c \<or> c = CHR ''-'') (CHR ''_'') (toLower t))
           (cleanStr (bbRelationship b) 32) in
     andThen (ofOption name (codedErr ''Recipient full name is required for Travel Rule compliance'' 400 ''TRAVEL_RULE_NAME_REQUIRED'')) (\<lambda>fullName.
     andThen (require (2 \<le> length fullName)
       (codedErr ''Recipient full name is required for Travel Rule compliance'' 400 ''TRAVEL_RULE_NAME_REQUIRED'')) (\<lambda>_.
     andThen (require (case country of None \<Rightarrow> True | Some t \<Rightarrow> length t = 2 \<and> list_all isUpperLetter t)
       (codedErr ''Recipient country must be a 2-letter ISO code'' 400 ''INVALID_COUNTRY'')) (\<lambda>_.
     andThen (require (case relationship of None \<Rightarrow> True | Some t \<Rightarrow> t \<in> set relationships)
       (codedErr ''Invalid recipient relationship'' 400 ''INVALID_RELATIONSHIP'')) (\<lambda>_.
     ret \<lparr>bfName = fullName, bfIdNumber = cleanStr (bbIdNumber b) 64, bfPhone = cleanStr (bbPhone b) 32,
       bfCountry = country, bfRelationship = relationship\<rparr>)))))"

section \<open>Who an address belongs to\<close>

text \<open>The address as ethers reads it from the text (\<open>None\<close>: it is rejected); a failed call is \<open>false\<close>.\<close>

definition isRegisteredConsumer :: "env \<Rightarrow> address option \<Rightarrow> ('r chain_scheme, bool) prog" where
  "isRegisteredConsumer E w = (case consumerAddr E of None \<Rightarrow> ret False
    | Some _ \<Rightarrow> tryCatch (andThen (ofOption w (plainErr ''bad address checksum'')) (\<lambda>a. readIO (\<lambda>s. isRegistered s a))) (\<lambda>_. ret False))"

definition isTrustedCounterparty :: "env \<Rightarrow> address option \<Rightarrow> ('r chain_scheme, bool) prog" where
  "isTrustedCounterparty E w = (case vaultAddr E of None \<Rightarrow> ret False
    | Some _ \<Rightarrow> tryCatch (andThen (ofOption w (plainErr ''bad address checksum'')) (\<lambda>a. readIO (\<lambda>s. trustedCounterparty (vault s) a))) (\<lambda>_. ret False))"

section \<open>Prepare\<close>

definition pendingTtlMs :: int where
  "pendingTtlMs = 5 * 60 * 1000"

definition sweepWithdrawals :: "('r withdrawDb_scheme, unit) prog" where
  "sweepWithdrawals = modify (\<lambda>s. s\<lparr>pendingWithdrawals := (\<lambda>k. case pendingWithdrawals s k of None \<Rightarrow> None
     | Some p \<Rightarrow> if pwExpiry p < clock s then None else Some p)\<rparr>)"

definition spendCodeText :: "spendFailCode \<Rightarrow> string" where
  "spendCodeText c = (case c of KycSingleExceeded \<Rightarrow> ''KYC_SINGLE_EXCEEDED'' | KycDailyExceeded \<Rightarrow> ''KYC_DAILY_EXCEEDED''
     | KycMonthlyExceeded \<Rightarrow> ''KYC_MONTHLY_EXCEEDED'' | KycLevelMissing \<Rightarrow> ''KYC_LEVEL_MISSING'')"

definition withdrawalSpend :: "string \<Rightarrow> address \<Rightarrow> int \<Rightarrow> spendParams" where
  "withdrawalSpend consumer wallet amount =
     \<lparr>spConsumer = consumer, spWallet = wallet, spAmount = amount, spCurrency = ''USDC'', spType = WithdrawalSpend\<rparr>"

text \<open>The units a passed check counts against the limits, or the refusal as an error.\<close>

definition kycUnits :: "env \<Rightarrow> spendParams \<Rightarrow> ('r platform_scheme, int) prog" where
  "kycUnits E p = andThen (assertKycSendAllowed E p) (\<lambda>k. case k of
     SpendOk l a b units \<Rightarrow> ret units
   | SpendFail c m \<Rightarrow> raise (codedErr m 403 (spendCodeText c)))"

record withdrawPrepared =
  wpId :: string
  wpChallenge :: string
  wpTo :: address
  wpGross :: string
  wpFee :: string
  wpNet :: string
  wpFeeBps :: int

text \<open>\<open>intent\<close> is \<open>keccak256\<close> of the encoded sender, recipient, amounts, rate and name.\<close>

type_synonym intentHash = "address \<Rightarrow> address \<Rightarrow> int \<Rightarrow> int \<Rightarrow> int \<Rightarrow> int \<Rightarrow> string \<Rightarrow> byte list"

definition checkDestination :: "env \<Rightarrow> address \<Rightarrow> string \<Rightarrow> ('r chain_scheme, unit) prog" where
  "checkDestination E fromWallet toAddress =
    andThen (require (isHexAddress toAddress) (codedErr ''Destination must be a 0x wallet address'' 400 ''INVALID_ADDRESS'')) (\<lambda>_.
    andThen (require (addrOfHex toAddress \<noteq> fromWallet) (statusErr ''Cannot withdraw to yourself'' 400)) (\<lambda>_.
    andThen (isRegisteredConsumer E (getAddr E toAddress)) (\<lambda>registered.
    andThen (isTrustedCounterparty E (getAddr E toAddress)) (\<lambda>trusted.
    andThen (require (\<not> trusted)
      (codedErr ''That address is a platform address (escrow/treasury), not an external wallet'' 409 ''PLATFORM_ADDRESS'')) (\<lambda>_.
    require (\<not> registered)
      (codedErr ''This address is an iMali wallet - use Send (internal transfer) instead'' 409 ''USE_INTERNAL_TRANSFER''))))))"

definition insertWithdrawal :: "string \<Rightarrow> pendingWithdrawal \<Rightarrow> ('r withdrawDb_scheme, unit) prog" where
  "insertWithdrawal i p = tryCatch (io (\<lambda>s.
     if \<exists>w\<in>set (withdrawals s). wdId w = i then Inl uniqueViolation
     else Inr ((), s\<lparr>withdrawals := withdrawals s @ [\<lparr>wdId = i, wdConsumer = pwConsumer p, wdFrom = pwFrom p, wdTo = pwTo p,
       wdGross = pwGross p, wdFee = pwFee p, wdNet = pwNet p, wdFeeBps = pwFeeBps p, wdStatus = WdPending, wdTx = None,
       wdDebitTx = None, wdCreditTx = None, wdError = None, wdBeneficiary = pwBeneficiary p, wdCreated = clock s,
       wdExecutedAt = None\<rparr>]\<rparr>))) (\<lambda>_. ret ())"

definition prepareWithdrawal ::
  "env \<Rightarrow> intentHash \<Rightarrow> string \<Rightarrow> string \<Rightarrow> address \<Rightarrow> string \<Rightarrow> string \<Rightarrow> beneficiaryBody \<Rightarrow> ('r withdrawDb_scheme, withdrawPrepared) prog" where
  "prepareWithdrawal E intent newId consumer fromWallet toRaw amount body =
    andThen sweepWithdrawals (\<lambda>_.
    andThen (parseTravelRuleBeneficiary body) (\<lambda>bf.
    let toAddress = trim toRaw in
    andThen (checkDestination E fromWallet toAddress) (\<lambda>_.
    andThen (ofOption (parseUnits E amount 6) (statusErr ''Invalid amount'' 400)) (\<lambda>gross.
    andThen (require (0 < gross) (statusErr ''Amount must be positive'' 400)) (\<lambda>_.
    andThen (kycUnits E (withdrawalSpend consumer fromWallet gross)) (\<lambda>limitUnits.
    andThen (vaultBalanceOf E fromWallet ''USDC'') (\<lambda>balance.
    andThen (require (gross \<le> balance) (codedErr ''Insufficient USDC balance'' 409 ''INSUFFICIENT_BALANCE'')) (\<lambda>_.
    andThen getRevenueConfig (\<lambda>revenue.
    andThen (ofSum (calcWithdrawalFeeUnits gross (withdrawalFeeBps revenue))) (\<lambda>(fee, net).
    andThen (vaultBackingTokenForCurrency E ''USDC'') (\<lambda>token.
    andThen (vaultErc20Balance E token) (\<lambda>inventory.
    andThen (require (net \<le> inventory)
      (codedErr ''Platform USDC reserves are temporarily insufficient for this withdrawal'' 503 ''INSUFFICIENT_RESERVES'')) (\<lambda>_.
    andThen (require (treasuryAddr E \<noteq> None) (statusErr ''Platform treasury not configured'' 500)) (\<lambda>_.
    andThen (ofOption (getAddr E toAddress) (plainErr ''bad address checksum'')) (\<lambda>to.
    andThen (uintArg gross) (\<lambda>_.
    let challenge = bufToB64url (intent fromWallet to gross fee net (withdrawalFeeBps revenue) (bfName bf)) in
    andThen (registerChallenge challenge challengeTtlMs) (\<lambda>_.
    andThen (gets clock) (\<lambda>now.
    let row = \<lparr>pwConsumer = consumer, pwFrom = fromWallet, pwTo = to, pwGross = gross, pwFee = fee, pwNet = net,
        pwFeeBps = withdrawalFeeBps revenue, pwChallenge = challenge, pwLimitUnits = limitUnits, pwBeneficiary = bf,
        pwExpiry = now + pendingTtlMs\<rparr> in
    andThen (modify (\<lambda>s. s\<lparr>pendingWithdrawals := (pendingWithdrawals s)(newId := Some row)\<rparr>)) (\<lambda>_.
    andThen (insertWithdrawal newId row) (\<lambda>_.
    ret \<lparr>wpId = newId, wpChallenge = challenge, wpTo = to, wpGross = formatUnits E gross 6, wpFee = formatUnits E fee 6,
      wpNet = formatUnits E net 6, wpFeeBps = withdrawalFeeBps revenue\<rparr>))))))))))))))))))))"

section \<open>Submit\<close>

record withdrawInput =
  wiConsumer :: string
  wiFrom :: address
  wiId :: string
  wiCredential :: string
  wiAuthData :: string
  wiClientData :: string
  wiSignature :: string

record withdrawResult =
  wrTx :: txHash
  wrTo :: address
  wrAmount :: string
  wrNet :: string
  wrFee :: string

text \<open>The intent, its owner, and the passkey assertion over its challenge.\<close>

definition authorizeWithdrawal :: "waEnv \<Rightarrow> withdrawInput \<Rightarrow> ('r withdrawDb_scheme, pendingWithdrawal) prog" where
  "authorizeWithdrawal W p =
    andThen sweepWithdrawals (\<lambda>_.
    andThen (gets clock) (\<lambda>now.
    andThen (gets (\<lambda>s. pendingWithdrawals s (wiId p))) (\<lambda>r.
    andThen (ofOption r (codedErr ''Withdrawal expired - please start again'' 410 ''EXPIRED'')) (\<lambda>row.
    andThen (require (now \<le> pwExpiry row) (codedErr ''Withdrawal expired - please start again'' 410 ''EXPIRED'')) (\<lambda>_.
    andThen (require (pwConsumer row = wiConsumer p \<and> pwFrom row = wiFrom p)
      (statusErr ''Withdrawal does not belong to this account'' 403)) (\<lambda>_.
    andThen (readIO (\<lambda>s. find (\<lambda>c. crId c = wiCredential p) (credentials s))) (\<lambda>cr.
    andThen (ofOption cr (statusErr ''Unknown passkey credential'' 404)) (\<lambda>c.
    andThen (require (crWallet c = pwFrom row) (statusErr ''Credential does not match the sending wallet'' 403)) (\<lambda>_.
    andThen (ofOption (waParse W (b64urlToBuf (wiClientData p))) (plainErr ''Unexpected token in JSON'')) (\<lambda>d.
    andThen (require (orElse (cdChallenge d) [] = pwChallenge row)
      (statusErr ''Signed challenge does not match this withdrawal'' 400)) (\<lambda>_.
    andThen (verifyAssertion W (wiAuthData p) (wiClientData p) (wiSignature p) (crX c) (crY c)) (\<lambda>signCount.
    andThen (require (\<not> (signCount \<noteq> 0 \<and> crCount c \<noteq> 0 \<and> signCount \<le> crCount c))
      (statusErr ''Passkey counter regression'' 401)) (\<lambda>_.
    andThen (writeIO (\<lambda>s. s\<lparr>credentials := updWhere (\<lambda>x. crId x = wiCredential p) (\<lambda>x. x\<lparr>crCount := signCount\<rparr>) (credentials s)\<rparr>)) (\<lambda>_.
    ret row))))))))))))))"

text \<open>The fee: a debit of the wallet and a credit of the platform's treasury.\<close>

definition takeFee :: "env \<Rightarrow> pendingWithdrawal \<Rightarrow> address \<Rightarrow> ('r chain_scheme, txHash option \<times> txHash option) prog" where
  "takeFee E row treasury =
    (if 0 < pwFee row then
       andThen (vaultAdminDebit E (pwFrom row) (pwFee row) ''USDC'') (\<lambda>d.
       andThen (vaultAdminCredit E treasury (pwFee row) ''USDC'') (\<lambda>c. ret (Some d, Some c)))
     else ret (None, None))"

definition updWithdrawal :: "string \<Rightarrow> (int \<Rightarrow> withdrawalRow \<Rightarrow> withdrawalRow) \<Rightarrow> ('r withdrawDb_scheme, unit) prog" where
  "updWithdrawal i f = tryCatch (writeIO (\<lambda>s. s\<lparr>withdrawals := updWhere (\<lambda>w. wdId w = i) (f (clock s)) (withdrawals s)\<rparr>)) (\<lambda>_. ret ())"

definition payWithdrawal ::
  "env \<Rightarrow> string \<Rightarrow> pendingWithdrawal \<Rightarrow> address \<Rightarrow> address \<Rightarrow> ('r withdrawDb_scheme, withdrawResult) prog" where
  "payWithdrawal E i row token treasury = tryCatch
    (andThen (withdrawToExternal E (pwFrom row) (pwTo row) token (pwNet row)) (\<lambda>tx.
     andThen (takeFee E row treasury) (\<lambda>(feeDebitTx, feeCreditTx).
     andThen (updWithdrawal i (\<lambda>now w. w\<lparr>wdStatus := WdExecuted, wdTx := Some tx, wdDebitTx := feeDebitTx,
       wdCreditTx := feeCreditTx, wdExecutedAt := Some now\<rparr>)) (\<lambda>_.
     andThen (recordSpendEvent E (withdrawalSpend (pwConsumer row) (pwFrom row) (pwGross row)) (Some (pwLimitUnits row))
       (Some (ToWallet (pwTo row))) (Some tx)) (\<lambda>_.
     ret \<lparr>wrTx = tx, wrTo = pwTo row, wrAmount = formatUnits E (pwGross row) 6, wrNet = formatUnits E (pwNet row) 6,
       wrFee = formatUnits E (pwFee row) 6\<rparr>)))))
    (\<lambda>e. andThen (updWithdrawal i (\<lambda>now w. w\<lparr>wdStatus := WdFailed, wdError := Some (take 500 (fmsg e))\<rparr>)) (\<lambda>_. raise e))"

text \<open>
  \<open>treasury\<close> is asserted to be set; unset, the credit of the fee throws when its address is read,
  here the zero address, which the contract rejects.
\<close>

definition submitWithdrawal :: "env \<Rightarrow> waEnv \<Rightarrow> withdrawInput \<Rightarrow> ('r withdrawDb_scheme, withdrawResult) prog" where
  "submitWithdrawal E W p =
    andThen (authorizeWithdrawal W p) (\<lambda>row.
    andThen (vaultBalanceOf E (pwFrom row) ''USDC'') (\<lambda>balance.
    andThen (require (pwGross row \<le> balance) (codedErr ''Insufficient USDC balance'' 409 ''INSUFFICIENT_BALANCE'')) (\<lambda>_.
    andThen (vaultBackingTokenForCurrency E ''USDC'') (\<lambda>token.
    andThen (vaultErc20Balance E token) (\<lambda>inventory.
    andThen (require (pwNet row \<le> inventory)
      (codedErr ''Platform USDC reserves are temporarily insufficient'' 503 ''INSUFFICIENT_RESERVES'')) (\<lambda>_.
    andThen (modify (\<lambda>s. s\<lparr>pendingWithdrawals := (pendingWithdrawals s)(wiId p := None)\<rparr>)) (\<lambda>_.
    payWithdrawal E (wiId p) row token (orElse (treasuryAddr E) 0))))))))"

section \<open>Reports\<close>

record withdrawalSummary =
  wsCount :: nat
  wsGross :: rat
  wsFee :: rat
  wsNet :: rat

text \<open>The display strings are the locale's formatting of the three figures and are left out.\<close>

definition getWithdrawalSummary :: "('r withdrawDb_scheme, withdrawalSummary) prog" where
  "getWithdrawalSummary = tryCatch
    (andThen (readIO (\<lambda>s. filter (\<lambda>w. wdStatus w = WdExecuted) (withdrawals s))) (\<lambda>rows.
     ret \<lparr>wsCount = length rows, wsGross = jsDiv (numOfBig (\<Sum>w\<leftarrow>rows. wdGross w)) 1000000,
       wsFee = jsDiv (numOfBig (\<Sum>w\<leftarrow>rows. wdFee w)) 1000000, wsNet = jsDiv (numOfBig (\<Sum>w\<leftarrow>rows. wdNet w)) 1000000\<rparr>))
    (\<lambda>_. ret \<lparr>wsCount = 0, wsGross = 0, wsFee = 0, wsNet = 0\<rparr>)"

record withdrawalItem =
  wtRow :: withdrawalRow
  wtFromLabel :: string
  wtToLabel :: string
  wtGross :: string
  wtFee :: string
  wtNet :: string

definition usdcText :: "int \<Rightarrow> string" where
  "usdcText units = fixedText 2 (jsDiv (numOfBig units) 1000000)"

definition shortAddr :: "address \<Rightarrow> string" where
  "shortAddr a = take 6 (addrText a) @ [CHR 0xE2, CHR 0x80, CHR 0xA6] @ drop 38 (addrText a)"

definition listExecutedWithdrawals :: "nat \<Rightarrow> ('r withdrawDb_scheme, withdrawalItem list) prog" where
  "listExecutedWithdrawals limit =
    andThen (readIO (\<lambda>s. map (\<lambda>w. (w, consumerNames s (wdConsumer w),
         (case find (\<lambda>c. consumerId c = wdConsumer w) (consumers s) of None \<Rightarrow> None | Some c \<Rightarrow> consumerTag c)))
       (take limit (sort_key (\<lambda>w. - orElse (wdExecutedAt w) (wdCreated w))
         (filter (\<lambda>w. wdStatus w = WdExecuted) (withdrawals s)))))) (\<lambda>rows.
    ret (map (\<lambda>(w, display, tag).
      \<lparr>wtRow = w,
       wtFromLabel = (case nonEmpty display of Some n \<Rightarrow> n
         | None \<Rightarrow> (case nonEmpty tag of Some t \<Rightarrow> CHR ''@'' # t | None \<Rightarrow> addrText (wdFrom w))),
       wtToLabel = (if bfName (wdBeneficiary w) = [] then shortAddr (wdTo w)
         else bfName (wdBeneficiary w) @ '' ('' @ shortAddr (wdTo w) @ '')''),
       wtGross = usdcText (wdGross w), wtFee = usdcText (wdFee w), wtNet = usdcText (wdNet w)\<rparr>) rows))"

end
