(* ===== verification/WithdrawalProps.thy ===== *)
theory WithdrawalProps
  imports Withdrawal
begin

text \<open>What a withdrawal guarantees, and what its two-step form leaves open.\<close>

section \<open>Steps that move no money\<close>

definition moneyIs :: "vault \<Rightarrow> (address \<Rightarrow> address \<Rightarrow> nat) \<Rightarrow> (address \<Rightarrow> ttoken option) \<Rightarrow> 'r chain_scheme \<Rightarrow> bool" where
  "moneyIs v e tt s \<longleftrightarrow> vault s = v \<and> erc s = e \<and> tts s = tt"

named_theorems keeps_money \<open>actions that move neither claims nor tokens\<close>

lemma moneyIs_net [simp]: "net_free (moneyIs v e tt)"
  by (simp add: net_free_def moneyIs_def)

lemma keeps_money_read [keeps_money]: "keeps (moneyIs v e tt) (readIO f)" "keeps (moneyIs v e tt) (callView g)"
  by (rule keeps_readIO keeps_callView, simp)+

lemma keeps_money_modify: "(\<And>s. vault (f s) = vault s \<and> erc (f s) = erc s \<and> tts (f s) = tts s) \<Longrightarrow> keeps (moneyIs v e tt) (modify f)"
  by (rule keeps_modify) (simp add: moneyIs_def)

lemma keeps_money_write: "(\<And>s. vault (f s) = vault s \<and> erc (f s) = erc s \<and> tts (f s) = tts s) \<Longrightarrow> keeps (moneyIs v e tt) (writeIO f)"
  by (rule keeps_writeIO) (simp_all add: moneyIs_def)

lemma money_same:
  assumes "keeps (moneyIs (vault s) (erc s) (tts s)) m" and "m s = (r, t)"
  shows "vault t = vault s" and "erc t = erc s" and "tts t = tts s"
  using keepsD [of "moneyIs (vault s) (erc s) (tts s)" m s] assms by (simp_all add: moneyIs_def)

lemma auth_money [keeps_money]:
  "keeps (moneyIs v e tt) (consumeChallenge ch)"
  "keeps (moneyIs v e tt) (registerChallenge ch n)"
  "keeps (moneyIs v e tt) (vaultBalanceOf E w cur)"
  "keeps (moneyIs v e tt) (vaultBackingTokenForCurrency E cur)"
  "keeps (moneyIs v e tt) (vaultErc20Balance E tok)"
  "keeps (moneyIs v e tt) sweepWithdrawals"
  unfolding consumeChallenge_def registerChallenge_def vaultBalanceOf_def vaultBackingTokenForCurrency_def vaultErc20Balance_def
    sweepWithdrawals_def
  by (intro keeps_intro keeps_money keeps_money_modify moneyIs_net; simp)+

lemma verifyAssertion_money [keeps_money]: "keeps (moneyIs v e tt) (verifyAssertion W a c g x y)"
  unfolding verifyAssertion_def verifyClientData_def Let_def by (intro keeps_intro keeps_money)

lemma authorize_money [keeps_money]: "keeps (moneyIs v e tt) (authorizeWithdrawal W p)"
  unfolding authorizeWithdrawal_def by (intro keeps_intro keeps_money keeps_money_write; simp)

lemma updWithdrawal_money [keeps_money]: "keeps (moneyIs v e tt) (updWithdrawal i f)"
  unfolding updWithdrawal_def by (intro keeps_intro keeps_money_write) simp

lemma recordSpend_money: "keeps (moneyIs v e tt) (recordSpendEvent E p (Some u) cp tx)"
  unfolding recordSpendEvent_def option.case by (intro keeps_intro keeps_money_write) simp

section \<open>What a submitted withdrawal did\<close>

lemma withdrawToExternal_InrD:
  assumes "withdrawToExternal E f rc tok a s = (Inr h, t)"
  shows "\<exists>va u. vaultAddr E = Some va \<and> 0 < a
    \<and> debitAssets f (tokenCurrency (vault s) tok) (nat a) (vault s) = Inr (vault t)
    \<and> tokenTransfer E tok va rc (nat a) u = Inr (t\<lparr>txCount := txCount s\<rparr>) \<and> erc u = erc s \<and> tts u = tts s \<and> chain.more t = chain.more s"
proof -
  obtain va sg rest u where va: "vaultAddr E = Some va" and a: "0 \<le> a"
    and w: "withdrawExternal E va sg f rc tok (nat a) (s\<lparr>net := rest\<rparr>) = Inr u" and t: "t = u\<lparr>txCount := txCount u + 1\<rparr>"
    using assms unfolding withdrawToExternal_def vaultWriter_def by (auto simp: andThen_Inr_iff dest!: sendTx_InrD)
  obtain v where d: "debitAssets f (tokenCurrency (vault s) tok) (nat a) (vault s) = Inr v" "vault u = v"
    and x: "tokenTransfer E tok va rc (nat a) (s\<lparr>net := rest, vault := v\<rparr>) = Inr u"
    using withdrawExternal_pool [OF w] by auto
  have "txCount u = txCount s \<and> chain.more u = chain.more s" using tokenTransfer_frame [OF x] by simp
  moreover have "nat a \<noteq> 0" using w unfolding withdrawExternal_def by (auto simp: sbind_guard_Inr_iff)
  ultimately show ?thesis using va d x t by (intro exI [of _ va] exI [of _ "s\<lparr>net := rest, vault := v\<rparr>"]) auto
qed

lemma erc20_transfer_exact:
  assumes "tokenTransfer E tok f t n s = Inr u" and "ozLaw (erc20 E tok)" and "tts s tok = None"
  shows "erc u tok = moved f t n (erc s tok)"
  using assms by (auto simp: tokenTransfer_def dest!: ozLaw_SomeD split: option.splits)

text \<open>The claims after the net amount and the fee have been taken.\<close>

definition feeLedger :: "address \<Rightarrow> address \<Rightarrow> bytes32 \<Rightarrow> int \<Rightarrow> vault \<Rightarrow> vault \<Rightarrow> bool" where
  "feeLedger w tr c fee v v' \<longleftrightarrow> (if 0 < fee
     then \<exists>v1. debitAssets w c (nat fee) v = Inr v1 \<and> creditAssets tr c (nat fee) v1 = Inr v' else v' = v)"

lemma takeFee_InrD:
  assumes "takeFee E row tr s = (Inr x, t)"
  shows "feeLedger (pwFrom row) tr (currencyHash E ''USDC'') (pwFee row) (vault s) (vault t)" and "erc t = erc s"
    and "chain.more t = chain.more s"
proof -
  have "feeLedger (pwFrom row) tr (currencyHash E ''USDC'') (pwFee row) (vault s) (vault t) \<and> erc t = erc s
    \<and> chain.more t = chain.more s"
  proof (cases "0 < pwFee row")
    case True
    then obtain d u c where d: "vaultAdminDebit E (pwFrom row) (pwFee row) ''USDC'' s = (Inr d, u)"
      and c: "vaultAdminCredit E tr (pwFee row) ''USDC'' u = (Inr c, t)"
      using assms by (auto simp: takeFee_def andThen_Inr_iff)
    show ?thesis
      using vaultAdminDebit_InrD [OF d] vaultAdminCredit_InrD [OF c] True by (auto simp: feeLedger_def)
  qed (use assms in \<open>simp add: takeFee_def feeLedger_def\<close>)
  then show "feeLedger (pwFrom row) tr (currencyHash E ''USDC'') (pwFee row) (vault s) (vault t)" "erc t = erc s"
      "chain.more t = chain.more s"
    by simp_all
qed

text \<open>The list of intents is part of the state around the chain.\<close>

lemma pendings_more: "chain.more t = chain.more s \<Longrightarrow> pendingWithdrawals t = pendingWithdrawals s"
  by (cases s; cases t) simp

definition pendingsAre :: "(string \<Rightarrow> pendingWithdrawal option) \<Rightarrow> 'r withdrawDb_scheme \<Rightarrow> bool" where
  "pendingsAre m s \<longleftrightarrow> pendingWithdrawals s = m"

lemma bookkeeping_pendings:
  "keeps (pendingsAre m) (updWithdrawal i f)" "keeps (pendingsAre m) (recordSpendEvent E p (Some u) cp tx)"
  unfolding updWithdrawal_def recordSpendEvent_def option.case
  by (intro keeps_intro keeps_writeIO; simp add: pendingsAre_def net_free_def)+

lemma pendings_same: "keeps (pendingsAre (pendingWithdrawals s)) m \<Longrightarrow> m s = (r, t) \<Longrightarrow> pendingWithdrawals t = pendingWithdrawals s"
  using keepsD [of "pendingsAre (pendingWithdrawals s)" m s] by (simp add: pendingsAre_def)

lemma payWithdrawal_InrD:
  assumes "payWithdrawal E i row token tr s = (Inr r, t)"
  shows "\<exists>tx s1 s2 fd fc. withdrawToExternal E (pwFrom row) (pwTo row) token (pwNet row) s = (Inr tx, s1)
    \<and> takeFee E row tr s1 = (Inr (fd, fc), s2) \<and> vault t = vault s2 \<and> erc t = erc s2
    \<and> wrTx r = tx \<and> wrTo r = pwTo row \<and> pendingWithdrawals t = pendingWithdrawals s"
proof -
  have no: "andThen m (\<lambda>_. raise e) u \<noteq> (Inr r, t)" for m :: "('a withdrawDb_scheme, unit) prog" and e u
    by (auto simp: andThen_Inr_iff)
  have "andThen (withdrawToExternal E (pwFrom row) (pwTo row) token (pwNet row)) (\<lambda>tx.
     andThen (takeFee E row tr) (\<lambda>(feeDebitTx, feeCreditTx).
     andThen (updWithdrawal i (\<lambda>now w. w\<lparr>wdStatus := WdExecuted, wdTx := Some tx, wdDebitTx := feeDebitTx,
       wdCreditTx := feeCreditTx, wdExecutedAt := Some now\<rparr>)) (\<lambda>_.
     andThen (recordSpendEvent E (withdrawalSpend (pwConsumer row) (pwFrom row) (pwGross row)) (Some (pwLimitUnits row))
       (Some (ToWallet (pwTo row))) (Some tx)) (\<lambda>_.
     ret \<lparr>wrTx = tx, wrTo = pwTo row, wrAmount = formatUnits E (pwGross row) 6, wrNet = formatUnits E (pwNet row) 6,
       wrFee = formatUnits E (pwFee row) 6\<rparr>)))) s = (Inr r, t)"
    using assms no unfolding payWithdrawal_def tryCatch_def by (auto split: prod.splits sum.splits)
  then show ?thesis
    apply (elim andThen_InrE)
    apply (simp only: split_paired_all prod.case)
    apply (elim andThen_InrE)
    apply (simp only: steps_inv)
    apply (elim conjE)
    apply hypsubst_thin
    subgoal premises prems for tx s1 fd fc s2 _ s3 _ _
    proof -
      have "pendingWithdrawals s2 = pendingWithdrawals s"
        using withdrawToExternal_InrD [OF prems(1)] takeFee_InrD(3) [OF prems(2)] pendings_more by metis
      moreover have "pendingWithdrawals t = pendingWithdrawals s2"
        using pendings_same [OF bookkeeping_pendings(1) prems(3)] pendings_same [OF bookkeeping_pendings(2) prems(4)] by simp
      ultimately show ?thesis
        using prems(1,2) money_same [OF updWithdrawal_money prems(3)] money_same [OF recordSpend_money prems(4)] by auto
    qed
    done
qed

lemma verifyAssertion_signed:
  "verifyAssertion W a c g x y s = (Inr n, t) \<Longrightarrow>
    waVerify W x y (b64urlToBuf a @ waSha W (b64urlToBuf c)) (b64urlToBuf g) = Some True"
  unfolding verifyAssertion_def Let_def by (auto simp: andThen_Inr_iff)

text \<open>Who may submit: the owner of a live intent, with a passkey of the wallet over the intent's challenge.\<close>

lemma authorizeWithdrawal_InrD:
  assumes "authorizeWithdrawal W p s = (Inr row, t)"
  shows "pendingWithdrawals s (wiId p) = Some row \<and> clock s \<le> pwExpiry row
    \<and> pwConsumer row = wiConsumer p \<and> pwFrom row = wiFrom p
    \<and> (\<exists>c d. c \<in> set (credentials s) \<and> crId c = wiCredential p \<and> crWallet c = wiFrom p
        \<and> waParse W (b64urlToBuf (wiClientData p)) = Some d \<and> orElse (cdChallenge d) [] = pwChallenge row
        \<and> waVerify W (crX c) (crY c) (b64urlToBuf (wiAuthData p) @ waSha W (b64urlToBuf (wiClientData p)))
            (b64urlToBuf (wiSignature p)) = Some True)"
proof -
  from assms show ?thesis
    unfolding authorizeWithdrawal_def sweepWithdrawals_def
    apply (elim andThen_InrE)
    apply (simp only: modify_run steps_inv)
    apply (elim conjE)
    apply hypsubst_thin
    subgoal premises prems for _ _ _ _ _ _ _ _ _ _ _ _ _ u c _ _ _ d _ _ _ n
    proof -
      have "pendingWithdrawals s (wiId p) = Some row" "clock s \<le> pwExpiry row"
        using prems(4,5) by (auto split: option.splits if_splits)
      moreover have "c \<in> set (credentials s) \<and> crId c = wiCredential p"
        using readIO_InrD [OF prems(1)] by (auto dest!: find_SomeD [OF sym])
      ultimately show ?thesis
        using prems verifyAssertion_signed [OF prems(2)] by auto
    qed
    done
qed

text \<open>
  C24. A withdrawal that succeeds was authorised by a passkey of the sending wallet over the challenge of a
  live intent of that account; it is taken off the list; the wallet's claim paid the net amount, then the fee
  went from the wallet to the platform's treasury; and the recipient holds exactly the net amount more.
\<close>

theorem submitWithdrawal_exact:
  assumes "submitWithdrawal E W p s = (Inr r, t)"
    and "ozLaw (erc20 E tok)" and "tok = tokenAt0 (vault s) (currencyHash E ''USDC'')"
    and "tokenCurrency (vault s) tok = currencyHash E ''USDC''" and "tts s tok = None"
  shows "\<exists>row va v1. pendingWithdrawals s (wiId p) = Some row \<and> clock s \<le> pwExpiry row
    \<and> pwConsumer row = wiConsumer p \<and> pwFrom row = wiFrom p \<and> pendingWithdrawals t (wiId p) = None
    \<and> (\<exists>c d. c \<in> set (credentials s) \<and> crWallet c = wiFrom p
        \<and> waParse W (b64urlToBuf (wiClientData p)) = Some d \<and> orElse (cdChallenge d) [] = pwChallenge row
        \<and> waVerify W (crX c) (crY c) (b64urlToBuf (wiAuthData p) @ waSha W (b64urlToBuf (wiClientData p)))
            (b64urlToBuf (wiSignature p)) = Some True)
    \<and> vaultAddr E = Some va \<and> 0 < pwNet row
    \<and> debitAssets (pwFrom row) (currencyHash E ''USDC'') (nat (pwNet row)) (vault s) = Inr v1
    \<and> feeLedger (pwFrom row) (orElse (treasuryAddr E) 0) (currencyHash E ''USDC'') (pwFee row) v1 (vault t)
    \<and> erc t tok = moved va (pwTo row) (nat (pwNet row)) (erc s tok)"
proof -
  from assms(1) show ?thesis
    unfolding submitWithdrawal_def
    apply (elim andThen_InrE)
    apply (simp only: modify_run steps_inv)
    apply (elim conjE)
    apply hypsubst_thin
    subgoal premises prems for row s1 _ s2 _ _ token s3 _ s4
    proof -
      note a = authorizeWithdrawal_InrD [OF prems(1)]
      note m = money_same [OF authorize_money prems(1)] money_same [OF auth_money(3) prems(2)] money_same [OF auth_money(4) prems(3)]
        money_same [OF auth_money(5) prems(4)]
      have tok: "token = tok"
        using prems(3) m assms(3) unfolding vaultBackingTokenForCurrency_def by (auto simp: andThen_Inr_iff dest!: readIO_InrD)
      obtain tx u1 u2 fd fc where w: "withdrawToExternal E (pwFrom row) (pwTo row) token (pwNet row)
          (s4\<lparr>pendingWithdrawals := (pendingWithdrawals s4)(wiId p := None)\<rparr>) = (Inr tx, u1)"
        and f: "takeFee E row (orElse (treasuryAddr E) 0) u1 = (Inr (fd, fc), u2)" and t: "vault t = vault u2" "erc t = erc u2"
        and pend: "pendingWithdrawals t = (pendingWithdrawals s4)(wiId p := None)"
        using payWithdrawal_InrD [OF prems(5)] by auto
      obtain va u where va: "vaultAddr E = Some va" "0 < pwNet row"
        and d: "debitAssets (pwFrom row) (currencyHash E ''USDC'') (nat (pwNet row)) (vault s) = Inr (vault u1)"
        and x: "tokenTransfer E token va (pwTo row) (nat (pwNet row)) u = Inr (u1\<lparr>txCount := txCount s4\<rparr>)"
        and u: "erc u = erc s" "tts u = tts s"
        using withdrawToExternal_InrD [OF w] m tok assms(4) by auto
      have "erc u1 tok = moved va (pwTo row) (nat (pwNet row)) (erc s tok)"
        using erc20_transfer_exact [OF x [unfolded tok] assms(2)] u assms(5) by simp
      then show ?thesis
        using a va d takeFee_InrD [OF f] t pend by (intro exI [of _ row] exI [of _ va] exI [of _ "vault u1"]) auto
    qed
    done
qed

section \<open>The example\<close>

definition demoIntent :: pendingWithdrawal where
  "demoIntent = \<lparr>pwConsumer = ''c1'', pwFrom = 10, pwTo = 99, pwGross = 20000000, pwFee = 300000, pwNet = 19700000, pwFeeBps = 150,
     pwChallenge = ''cg'', pwLimitUnits = 32000,
     pwBeneficiary = \<lparr>bfName = ''Eve'', bfIdNumber = None, bfPhone = None, bfCountry = None, bfRelationship = None\<rparr>,
     pwExpiry = 1700000000000\<rparr>"

definition demoWdRow :: withdrawalRow where
  "demoWdRow = \<lparr>wdId = ''w1'', wdConsumer = ''c1'', wdFrom = 10, wdTo = 99, wdGross = 20000000, wdFee = 300000, wdNet = 19700000,
     wdFeeBps = 150, wdStatus = WdPending, wdTx = None, wdDebitTx = None, wdCreditTx = None, wdError = None,
     wdBeneficiary = pwBeneficiary demoIntent, wdCreated = 1699999700000, wdExecutedAt = None\<rparr>"

definition demoSpent :: spendEvent where
  "demoSpent = \<lparr>seConsumer = ''c1'', seWallet = 10, seType = P2p, seCurrency = ''ZAR'', seAmount = 990000, seLimitUnits = 990000,
     seCounterparty = None, seTx = None, seAt = 1700000000000\<rparr>"

definition demoWithdrawDb :: "net list \<Rightarrow> withdrawDb" where
  "demoWithdrawDb ns = (authDb.extend demoAuthDb (withdrawDb.fields (\<lambda>k. if k = ''w1'' then Some demoIntent else None) [demoWdRow] (\<lambda>_. None)))
     \<lparr>credentials := [\<lparr>crId = ''k1'', crWallet = 10, crX = 3, crY = 2, crCount = 0\<rparr>], spendEvents := [demoSpent],
       revenueCache := Some (revenueDefaults, 1699999710000), net := ns\<rparr>"

definition demoSubmit :: withdrawInput where
  "demoSubmit = \<lparr>wiConsumer = ''c1'', wiFrom = 10, wiId = ''w1'', wiCredential = ''k1'', wiAuthData = bufToB64url demoAuthData,
     wiClientData = [], wiSignature = []\<rparr>"

lemma demoWithdraw_sel [simp]:
  "net (demoWithdrawDb ns) = ns" "clock (demoWithdrawDb ns) = 1700000000000" "vault (demoWithdrawDb ns) = demoVault"
  "erc (demoWithdrawDb ns) = (\<lambda>t u. if t = 4 \<and> u = 1 then 100000000 else 0)" "tts (demoWithdrawDb ns) 4 = None"
  "credentials (demoWithdrawDb ns) = [\<lparr>crId = ''k1'', crWallet = 10, crX = 3, crY = 2, crCount = 0\<rparr>]"
  "pendingWithdrawals (demoWithdrawDb ns) = (\<lambda>k. if k = ''w1'' then Some demoIntent else None)"
  "withdrawals (demoWithdrawDb ns) = [demoWdRow]" "spendEvents (demoWithdrawDb ns) = [demoSpent]"
  "challenges (demoWithdrawDb ns) = (\<lambda>k. if k = ''cg'' then Some 1700000000000 else None)"
  by (simp_all add: demoWithdrawDb_def withdrawDb.defs demoAuthDb_def authDb.defs demoSalesDb_def salesDb.defs demoVoucherDb_def
      voucherDb.defs demo_state)

lemma demoIntent_sel [simp]:
  "pwConsumer demoIntent = ''c1''" "pwFrom demoIntent = 10" "pwTo demoIntent = 99" "pwGross demoIntent = 20000000"
  "pwFee demoIntent = 300000" "pwNet demoIntent = 19700000" "pwChallenge demoIntent = ''cg''" "pwLimitUnits demoIntent = 32000"
  "pwExpiry demoIntent = 1700000000000"
  by (simp_all add: demoIntent_def)

lemma demoSubmit_sel [simp]:
  "wiConsumer demoSubmit = ''c1''" "wiFrom demoSubmit = 10" "wiId demoSubmit = ''w1''" "wiCredential demoSubmit = ''k1''"
  "wiAuthData demoSubmit = bufToB64url demoAuthData" "wiClientData demoSubmit = []" "wiSignature demoSubmit = []"
  by (simp_all add: demoSubmit_def)

text \<open>A read and a write that the oracle delivers.\<close>

lemma io_delivered:
  "net s = Delivered # ns \<Longrightarrow> io f s = (case f (s\<lparr>net := ns\<rparr>) of Inl e \<Rightarrow> (Inl e, s\<lparr>net := ns\<rparr>) | Inr (x, t) \<Rightarrow> (Inr x, t))"
  by (simp add: io_def nextNet_def Let_def)

lemma io_lost: "net s = Lost # ns \<Longrightarrow> io f s = (Inl networkErr, s\<lparr>net := ns\<rparr>)"
  by (simp add: io_def nextNet_def)

lemma verifyAssertion_demo:
  assumes "challenges s = (\<lambda>k. if k = ''cg'' then Some 1700000000000 else None)" and "clock s = 1700000000000"
  shows "verifyAssertion (demoWa ''webauthn.get'') (bufToB64url demoAuthData) [] [] 3 2 s
    = (Inr 5, s\<lparr>challenges := (challenges s)(''cg'' := None)\<rparr>)"
proof -
  have "verifyClientData (demoWa ''webauthn.get'') (b64urlToBuf []) ''webauthn.get'' s = (Inr (), s\<lparr>challenges := (challenges s)(''cg'' := None)\<rparr>)"
    using assms by (simp add: verifyClientData_def nonEmpty_def consumeChallenge_def)
  then show ?thesis
    unfolding verifyAssertion_def b64url_inverse Let_def by (simp add: demoAuthData_values)
qed

text \<open>The authorised state.\<close>

definition demoAuthorized :: "net list \<Rightarrow> withdrawDb" where
  "demoAuthorized ns = (demoWithdrawDb ns)\<lparr>challenges := (challenges (demoWithdrawDb []))(''cg'' := None),
     credentials := [\<lparr>crId = ''k1'', crWallet = 10, crX = 3, crY = 2, crCount = 5\<rparr>]\<rparr>"

lemma demo_net [simp]: "(demoWithdrawDb ns)\<lparr>net := ms\<rparr> = demoWithdrawDb ms" "(demoAuthorized ns)\<lparr>net := ms\<rparr> = demoAuthorized ms"
  "(demoAuthorized ns)\<lparr>pendingWithdrawals := f, net := ms\<rparr> = (demoAuthorized ms)\<lparr>pendingWithdrawals := f\<rparr>"
  "(demoWithdrawDb ns)\<lparr>challenges := c, net := ms\<rparr> = (demoWithdrawDb ms)\<lparr>challenges := c\<rparr>"
  by (simp_all add: demoAuthorized_def demoWithdrawDb_def)

lemma demoAuthorized_sel [simp]:
  "net (demoAuthorized ns) = ns" "clock (demoAuthorized ns) = 1700000000000" "vault (demoAuthorized ns) = demoVault"
  "erc (demoAuthorized ns) = (\<lambda>t u. if t = 4 \<and> u = 1 then 100000000 else 0)" "tts (demoAuthorized ns) 4 = None"
  "withdrawals (demoAuthorized ns) = [demoWdRow]" "spendEvents (demoAuthorized ns) = [demoSpent]"
  "pendingWithdrawals (demoAuthorized ns) = (\<lambda>k. if k = ''w1'' then Some demoIntent else None)"
  by (simp_all add: demoAuthorized_def)

lemma demo_sweep: "sweepWithdrawals (demoWithdrawDb ns) = (Inr (), demoWithdrawDb ns)"
proof -
  have "(\<lambda>k. case pendingWithdrawals (demoWithdrawDb ns) k of None \<Rightarrow> None
     | Some p \<Rightarrow> if pwExpiry p < clock (demoWithdrawDb ns) then None else Some p) = pendingWithdrawals (demoWithdrawDb ns)"
    by (auto simp: fun_eq_iff)
  then show ?thesis unfolding sweepWithdrawals_def modify_run by simp
qed

text \<open>With the network calm, or delivering the next two calls.\<close>

lemma demo_authorize:
  assumes "ns = [] \<and> ms = [] \<or> ns = Delivered # Delivered # ms"
  shows "authorizeWithdrawal (demoWa ''webauthn.get'') demoSubmit (demoWithdrawDb ns) = (Inr demoIntent, demoAuthorized ms)"
  unfolding authorizeWithdrawal_def using assms
  by (elim disjE) (simp_all add: demo_sweep verifyAssertion_demo demoAuthorized_def readIO_def writeIO_def io_delivered io_calm)

lemma demo_withdraw_moves:
  obtains v1 v2 v3 where "debitAssets 10 0x155534443 19700000 demoVault = Inr v1" and "adminDebit 2 10 300000 0x155534443 v1 = Inr v2"
    and "adminCredit 2 5 300000 0x155534443 v2 = Inr v3"
  by (simp add: vault_eval demoVault_def demoShares_def)

definition demoTaken :: "net list \<Rightarrow> vault \<Rightarrow> withdrawDb" where
  "demoTaken ns v = (demoAuthorized ns)\<lparr>pendingWithdrawals := (pendingWithdrawals (demoAuthorized ns))(''w1'' := None), vault := v,
     erc := (erc (demoAuthorized ns))(4 := moved 1 99 19700000 (erc (demoAuthorized ns) 4)), txCount := 1\<rparr>"

lemma demoAuthorized_tx: "txCount (demoAuthorized ns) = 0"
  by (simp add: demoAuthorized_def demoWithdrawDb_def withdrawDb.defs demoAuthDb_def authDb.defs demoSalesDb_def salesDb.defs
      demoVoucherDb_def voucherDb.defs demo_state)

lemma demo_withdrawToExternal:
  assumes "debitAssets 10 0x155534443 19700000 demoVault = Inr v" and "ns = [] \<and> ms = [] \<or> ns = Delivered # ms"
  shows "withdrawToExternal demoEnv 10 99 4 19700000
      ((demoAuthorized ns)\<lparr>pendingWithdrawals := (pendingWithdrawals (demoAuthorized ns))(''w1'' := None)\<rparr>) = (Inr 0, demoTaken ms v)"
proof -
  have m: "ozExample 1 99 19700000 (\<lambda>u. if u = 1 then 100000000 else 0) = Some (moved 1 99 19700000 (\<lambda>u. if u = 1 then 100000000 else 0))"
    by (simp add: ozExample_def)
  have d: "isExecutor demoVault 2" "tokenCurrency demoVault 4 = 0x155534443"
    by (simp_all add: demoVault_def)
  show ?thesis
    using assms(2)
    by (elim disjE) (simp_all add: withdrawToExternal_def vaultWriter_def sendTx_def io_calm io_delivered withdrawExternal_def d assms(1)
        guard_def tokenTransfer_def m demoTaken_def demoAuthorized_tx del: fun_upd_apply)
qed

lemma demoTaken_sel [simp]:
  "net (demoTaken ns v) = ns" "clock (demoTaken ns v) = 1700000000000" "vault (demoTaken ns v) = v" "txCount (demoTaken ns v) = 1"
  "withdrawals (demoTaken ns v) = [demoWdRow]" "spendEvents (demoTaken ns v) = [demoSpent]"
  "erc (demoTaken ns v) 4 99 = 19700000"
  by (simp_all add: demoTaken_def moved_def)

lemma demoTaken_net [simp]: "(demoTaken ns v)\<lparr>net := ms\<rparr> = demoTaken ms v"
  by (simp add: demoTaken_def demoAuthorized_def demoWithdrawDb_def)

lemma demo_reads:
  assumes "ns = [] \<and> ms = [] \<or> ns = Delivered # Delivered # Delivered # ms"
  shows "andThen (vaultBalanceOf demoEnv 10 ''USDC'') (\<lambda>b.
     andThen (require (20000000 \<le> b) e1) (\<lambda>_. andThen (vaultBackingTokenForCurrency demoEnv ''USDC'') (\<lambda>token.
     andThen (vaultErc20Balance demoEnv token) (\<lambda>i. k token i)))) (demoAuthorized ns) = k 4 100000000 (demoAuthorized ms)"
proof -
  have b: "unifiedBalance demoVault 10 0x155534443 = Inr 30000000"
    by (simp add: vault_eval demoVault_def demoShares_def)
  have t: "tokenAt0 demoVault 0x155534443 = 4" by (simp add: tokenAt0_def demoVault_def)
  show ?thesis
    using assms by (elim disjE) (simp_all add: vaultBalanceOf_def callView_def vaultBackingTokenForCurrency_def vaultErc20Balance_def
        readIO_def io_calm io_delivered b t tokenBalance_def)
qed

lemma demo_submit:
  obtains r t where "submitWithdrawal demoEnv (demoWa ''webauthn.get'') demoSubmit (demoWithdrawDb []) = (Inr r, t)"
    and "spentSince t 10 (startOfDay 1700000000000) = 1022000" and "clock t = 1700000000000"
proof -
  obtain v1 v2 v3 where v: "debitAssets 10 0x155534443 19700000 demoVault = Inr v1" "adminDebit 2 10 300000 0x155534443 v1 = Inr v2"
    "adminCredit 2 5 300000 0x155534443 v2 = Inr v3" by (rule demo_withdraw_moves)
  have f: "takeFee demoEnv demoIntent 5 (demoTaken [] v1)
      = (Inr (Some (Suc 0), Some (Suc (Suc 0))), (demoTaken [] v1)\<lparr>vault := v3, txCount := Suc (Suc (Suc 0))\<rparr>)"
    using vault_calls_run(1) [of "demoTaken [] v1" demoEnv 1 2 300000 10 "''USDC''" v2] v
      vault_calls_run(2) [of "(demoTaken [] v1)\<lparr>vault := v2, txCount := Suc (Suc 0)\<rparr>" demoEnv 1 2 300000 5 "''USDC''" v3]
    by (simp add: takeFee_def)
  have w: "withdrawToExternal demoEnv 10 99 4 19700000
      ((demoAuthorized [])\<lparr>pendingWithdrawals := (pendingWithdrawals (demoAuthorized []))(''w1'' := None)\<rparr>) = (Inr 0, demoTaken [] v1)"
    by (rule demo_withdrawToExternal) (simp_all add: v)
  obtain r t where run: "payWithdrawal demoEnv ''w1'' demoIntent 4 5
      ((demoAuthorized [])\<lparr>pendingWithdrawals := (pendingWithdrawals (demoAuthorized []))(''w1'' := None)\<rparr>) = (Inr r, t)"
    and t: "spendEvents t = [demoSpent, \<lparr>seConsumer = ''c1'', seWallet = 10, seType = WithdrawalSpend, seCurrency = ''USDC'',
      seAmount = 20000000, seLimitUnits = 32000, seCounterparty = Some (ToWallet 99), seTx = Some 0, seAt = 1700000000000\<rparr>]" "clock t = 1700000000000"
    using w f by (simp add: payWithdrawal_def updWithdrawal_def recordSpendEvent_calm withdrawalSpend_def upperChar_def)
  have "submitWithdrawal demoEnv (demoWa ''webauthn.get'') demoSubmit (demoWithdrawDb []) = (Inr r, t)"
    unfolding submitWithdrawal_def using run by (simp add: demo_authorize [of "[]" "[]"] demo_reads [of "[]" "[]"])
  moreover have "spentSince t 10 (startOfDay 1700000000000) = 1022000"
    by (simp add: spentSince_def t(1) demoSpent_def startOfDay_def dayMs_def)
  ultimately show thesis using t(2) by (rule that)
qed

lemma submitWithdrawal_exact_witness:
  "\<exists>r t. submitWithdrawal demoEnv (demoWa ''webauthn.get'') demoSubmit (demoWithdrawDb []) = (Inr r, t)
    \<and> erc t 4 99 = 19700000 \<and> pendingWithdrawals t ''w1'' = None"
proof -
  obtain r t where run: "submitWithdrawal demoEnv (demoWa ''webauthn.get'') demoSubmit (demoWithdrawDb []) = (Inr r, t)"
    by (rule demo_submit)
  have v: "tokenAt0 demoVault 0x155534443 = 4" "tokenCurrency demoVault 4 = 0x155534443"
    by (simp_all add: tokenAt0_def demoVault_def)
  have "ozLaw (erc20 demoEnv 4)" "4 = tokenAt0 (vault (demoWithdrawDb [])) (currencyHash demoEnv ''USDC'')"
    "tokenCurrency (vault (demoWithdrawDb [])) 4 = currencyHash demoEnv ''USDC''" "tts (demoWithdrawDb []) 4 = None"
    using v by (simp_all add: ozLaw_example)
  from submitWithdrawal_exact [OF run this] obtain row va where "pendingWithdrawals (demoWithdrawDb []) ''w1'' = Some row"
    and "pendingWithdrawals t ''w1'' = None" and "vaultAddr demoEnv = Some va"
    and "erc t 4 = moved va (pwTo row) (nat (pwNet row)) (erc (demoWithdrawDb []) 4)"
    unfolding demoSubmit_sel by (elim exE conjE) (rule that)
  then show ?thesis
    using run by (intro exI [of _ r] exI [of _ t]) (simp add: moved_def)
qed

section \<open>The limits at the preparation\<close>

text \<open>What a preparation that returns has checked, of the tables and the spending at its start.\<close>

lemma kycUnits_InrD:
  assumes "kycUnits E p s = (Inr units, t)"
  shows "\<exists>l. limitsFor (spConsumer p) s = Some l \<and> withinLimit (limSingle l) units
    \<and> withinLimit (limDaily l) (spentSince s (spWallet p) (startOfDay (clock s)) + units)
    \<and> withinLimit (limMonthly l) (spentSince s (spWallet p) (startOfMonth (clock s)) + units)"
proof -
  obtain c s1 where c: "assertKycSendAllowed E p s = (Inr c, s1)"
    and r: "(case c of SpendOk l a b units \<Rightarrow> ret units | SpendFail c m \<Rightarrow> raise (codedErr m 403 (spendCodeText c))) s1 = (Inr units, t)"
    using assms unfolding kycUnits_def by (rule andThen_InrE)
  obtain l a b where "c = SpendOk l a b units" using r by (cases c) auto
  with assertKyc_okD [of E p s l a b units s1] assertKyc_limits [of E p s l a b units s1] c show ?thesis by auto
qed

lemma net_only: "net_free (\<lambda>t. \<exists>rest. t = s\<lparr>net := rest\<rparr>)"
  unfolding net_free_def
proof (intro allI iffI; elim exE)
  fix t :: "'a io_scheme" and ns rest assume "t\<lparr>net := ns\<rparr> = s\<lparr>net := rest\<rparr>"
  then have "t\<lparr>net := ns\<rparr>\<lparr>net := net t\<rparr> = s\<lparr>net := rest\<rparr>\<lparr>net := net t\<rparr>" by simp
  then have "t = s\<lparr>net := net t\<rparr>" by simp
  then show "\<exists>rest. t = s\<lparr>net := rest\<rparr>" by blast
next
  fix t :: "'a io_scheme" and ns rest assume "t = s\<lparr>net := rest\<rparr>"
  then have "t\<lparr>net := ns\<rparr> = s\<lparr>net := ns\<rparr>" by simp
  then show "\<exists>rest. t\<lparr>net := ns\<rparr> = s\<lparr>net := rest\<rparr>" by blast
qed

lemma checkDestination_InrD:
  assumes "checkDestination E w a s = (Inr u, t)"
  shows "\<exists>rest. t = s\<lparr>net := rest\<rparr>"
proof -
  let ?P = "\<lambda>t. \<exists>rest. t = s\<lparr>net := rest\<rparr>"
  have "keeps ?P (checkDestination E w a)"
    unfolding checkDestination_def isRegisteredConsumer_def isTrustedCounterparty_def
    by (intro keeps_intro net_only)
  moreover have "?P s" by (rule exI [of _ "net s"]) simp
  ultimately show ?thesis using keepsD [of ?P "checkDestination E w a" s] assms by simp
qed

lemma parseTravelRule_same: "parseTravelRuleBeneficiary b s = (Inr x, t) \<Longrightarrow> t = s"
  by (auto simp: parseTravelRuleBeneficiary_def Let_def andThen_Inr_iff)

lemma insertWithdrawal_pending:
  assumes "insertWithdrawal i p s = (r, t)"
  shows "pendingWithdrawals t = pendingWithdrawals s"
proof -
  have "keeps (\<lambda>t. pendingWithdrawals t = pendingWithdrawals s) (insertWithdrawal i p)"
    unfolding insertWithdrawal_def by (intro keeps_intro keeps_io) (auto simp: net_free_def split: if_splits)
  from keepsD [OF this, of s] assms show ?thesis by simp
qed

lemma prepareWithdrawal_limits:
  assumes "prepareWithdrawal E intent newId consumer w toRaw amount body s = (Inr q, t)"
  shows "\<exists>row l. pendingWithdrawals t newId = Some row \<and> pwFrom row = w \<and> limitsFor consumer s = Some l
    \<and> withinLimit (limSingle l) (pwLimitUnits row)
    \<and> withinLimit (limDaily l) (spentSince s w (startOfDay (clock s)) + pwLimitUnits row)
    \<and> withinLimit (limMonthly l) (spentSince s w (startOfMonth (clock s)) + pwLimitUnits row)"
  using assms
  unfolding prepareWithdrawal_def Let_def
  apply (elim andThen_InrE)
  apply (simp only: split_paired_all prod.case)
  apply (elim andThen_InrE)
  apply (simp only: require_Inr_iff ofOption_Inr_iff ret_run gets_run modify_run prod.inject sum.inject)
  apply (elim conjE)
  apply hypsubst_thin
  subgoal premises prems for _ s1 _ s2 _ s3 gross _ _ _ units
  proof -
    have s1: "clock s1 = clock s" "spendEvents s1 = spendEvents s" "consumers s1 = consumers s" "kycLevels s1 = kycLevels s"
      using prems(1) by (auto simp: sweepWithdrawals_def)
    obtain rest where s3: "s3 = s1\<lparr>net := rest\<rparr>"
      using parseTravelRule_same [OF prems(2)] checkDestination_InrD [OF prems(3)] by blast
    have "limitsFor consumer s3 = limitsFor consumer s" by (rule limitsFor_cong) (simp_all add: s3 s1)
    then have l: "\<exists>l. limitsFor consumer s = Some l \<and> withinLimit (limSingle l) units
        \<and> withinLimit (limDaily l) (spentSince s w (startOfDay (clock s)) + units)
        \<and> withinLimit (limMonthly l) (spentSince s w (startOfMonth (clock s)) + units)"
      using kycUnits_InrD [OF prems(4)] s1 by (simp add: s3 withdrawalSpend_def spentSince_def)
    show ?thesis using l insertWithdrawal_pending [OF prems(12)] by auto
  qed
  done


text \<open>
  A preparation at the example, five minutes before \<open>demoWithdrawDb\<close>: it leaves exactly the intent, the row and the
  challenge that \<open>demoWithdrawDb\<close> holds, before anything was spent. Then the wallet sends 9900.00 rand.
\<close>

definition demoBefore :: withdrawDb where
  "demoBefore = (demoWithdrawDb [])\<lparr>clock := 1699999700000, pendingWithdrawals := (\<lambda>_. None), withdrawals := [], challenges := (\<lambda>_. None),
     spendEvents := []\<rparr>"

definition demoPrepared :: withdrawDb where
  "demoPrepared = (demoWithdrawDb [])\<lparr>clock := 1699999700000, spendEvents := []\<rparr>"

definition demoExternal :: string where
  "demoExternal = ''0x0000000000000000000000000000000000000063''"

definition demoTravelBody :: beneficiaryBody where
  "demoTravelBody = \<lparr>bbFullName = JsonStr ''Eve'', bbName = Absent, bbIdNumber = Absent, bbPhone = Absent, bbCountry = Absent, bbRelationship = Absent\<rparr>"

definition demoIntentHash :: intentHash where
  "demoIntentHash = (\<lambda>_ _ _ _ _ _ _. [0x72])"

definition demoSend :: spendParams where
  "demoSend = \<lparr>spConsumer = ''c1'', spWallet = 10, spAmount = 990000, spCurrency = ''ZAR'', spType = P2p\<rparr>"

lemma demoBefore_sel [simp]:
  "net demoBefore = []" "clock demoBefore = 1699999700000" "vault demoBefore = demoVault" "spendEvents demoBefore = []"
  "pendingWithdrawals demoBefore = (\<lambda>_. None)" "withdrawals demoBefore = []" "challenges demoBefore = (\<lambda>_. None)"
  "erc demoBefore = (\<lambda>t u. if t = 4 \<and> u = 1 then 100000000 else 0)" "tts demoBefore 4 = None"
  "revenueCache demoBefore = Some (revenueDefaults, 1699999710000)"
  "isRegistered demoBefore = isRegistered demoPlatform" "consumers demoBefore = consumers demoPlatform" "kycLevels demoBefore = kycLevels demoPlatform"
  "fxOverrides demoBefore = fxOverrides demoPlatform"
  by (simp_all add: demoBefore_def demoWithdrawDb_def withdrawDb.defs demoAuthDb_def authDb.defs demoSalesDb_def salesDb.defs demoVoucherDb_def
      voucherDb.defs demo_state)

lemma demo_texts:
  "trim demoExternal = demoExternal" "isHexAddress demoExternal" "addrOfHex demoExternal = 99" "addrExample demoExternal = Some 99"
  "bufToB64url [0x72] = ''cg''" "calcWithdrawalFeeUnits 20000000 150 = Inr (300000, 19700000)"
  by code_simp+


lemma demo_amount: "parseExample ''20'' 6 = Some 20000000"
proof -
  have "replicate 6 (CHR ''0'') = ''000000''" by (simp add: numeral_eq_Suc)
  then show ?thesis by (simp add: parseExample_def Let_def beforeDot_def afterDot_def isDigit_def natOfDigits_def digitVal_def)
qed

lemma demo_beneficiary: "parseTravelRuleBeneficiary demoTravelBody s = (Inr (pwBeneficiary demoIntent), s)"
proof -
  have "cleanStr (JsonStr ''Eve'') 200 = Some ''Eve''" "cleanStr Absent n = None" for n
    by code_simp (simp add: cleanStr_def)
  then show ?thesis by (simp add: parseTravelRuleBeneficiary_def demoTravelBody_def demoIntent_def Let_def)
qed

lemma demo_kyc: "kycUnits demoEnv (withdrawalSpend ''c1'' 10 20000000) demoBefore = (Inr 32000, demoBefore)"
proof -
  have b: "bigIntOf (beforeDot ''500000'') = Some 500000" "bigIntOf (beforeDot ''1000000'') = Some 1000000"
    by (simp_all add: beforeDot_def bigIntOf_def trim_def isSpace_def splitSign_def allDigits_def isDigit_def natOfDigits_def digitVal_def)
  have l: "getConsumerKycLimits ''c1'' demoBefore
      = (Inr (Some \<lparr>limLevel = ''basic'', limSingle = Some 500000, limDaily = Some 1000000, limMonthly = None\<rparr>), demoBefore)"
    by (simp add: getConsumerKycLimits_def demoPlatform_def limitOf_def b)
  have q: "\<exists>q. getRate demoEnv ''USD'' ''ZAR'' demoBefore = (Inr q, demoBefore) \<and> fxqRate q = Some 16"
    using fl_int [of 16] by (simp add: getRate_def Let_def getOverride_def upperChar_def demoPlatform_def)
  have f: "fl 16 = 16" "fl 20 = 20" "fl (20 * 16) = 320" "fl (320 * 100) = 32000" using fl_int [of 16] fl_int [of 20] fl_int [of 320] fl_int [of 32000] by simp_all
  have u: "toLimitUnits demoEnv 20000000 ''USDC'' demoBefore = (Inr 32000, demoBefore)"
    using q f jsRound_of_int [of 32000] by (auto simp: toLimitUnits_def Let_def format_demo upperChar_def jsMul_def currencyDecimals_def simp del: demoEnv_sel(6))
  have s: "spentSince demoBefore w x = 0" for w x by (simp add: spentSince_def)
  show ?thesis
    using l u by (simp add: kycUnits_def assertKycSendAllowed_def withdrawalSpend_def withinLimit_def s)
qed

lemma demoBefore_states:
  "demoBefore\<lparr>challenges := (\<lambda>k. if k = ''cg'' then Some 1700000000000 else None),
     pendingWithdrawals := (\<lambda>k. if k = ''w1'' then Some demoIntent else None), withdrawals := [demoWdRow]\<rparr> = demoPrepared"
proof -
  have "x\<lparr>clock := c, pendingWithdrawals := a, withdrawals := b, challenges := d, spendEvents := e\<rparr>
      \<lparr>challenges := challenges x, pendingWithdrawals := pendingWithdrawals x, withdrawals := withdrawals x\<rparr> = x\<lparr>clock := c, spendEvents := e\<rparr>"
    for x :: withdrawDb and a b c d e by (cases x) simp
  from this [where x = "demoWithdrawDb []" and c = 1699999700000 and a = "\<lambda>_. None" and b = "[]" and d = "\<lambda>_. None" and e = "[]"] show ?thesis
    by (simp only: demoBefore_def demoPrepared_def demoWithdraw_sel)
qed

lemma demo_prepare: "\<exists>q. prepareWithdrawal demoEnv demoIntentHash ''w1'' ''c1'' 10 demoExternal ''20'' demoTravelBody demoBefore = (Inr q, demoPrepared)"
proof -
  have sw: "sweepWithdrawals demoBefore = (Inr (), demoBefore)"
    by (simp add: sweepWithdrawals_def demoBefore_def)
  have "isRegistered demoPlatform 99 = False" "trustedCounterparty demoVault 99 = False"
    by (simp_all add: demoPlatform_def demoVault_def)
  then have cd: "checkDestination demoEnv 10 demoExternal demoBefore = (Inr (), demoBefore)"
    using demo_texts by (simp add: checkDestination_def isRegisteredConsumer_def isTrustedCounterparty_def)
  have bal: "unifiedBalance demoVault 10 0x155534443 = Inr 30000000"
    by (simp add: vault_eval demoVault_def demoShares_def)
  have b: "vaultBalanceOf demoEnv 10 ''USDC'' demoBefore = (Inr 30000000, demoBefore)"
    by (simp add: vaultBalanceOf_def callView_calm bal)
  have tok: "tokenAt0 demoVault 0x155534443 = 4" by (simp add: tokenAt0_def demoVault_def)
  have t: "vaultBackingTokenForCurrency demoEnv ''USDC'' demoBefore = (Inr 4, demoBefore)" "vaultErc20Balance demoEnv 4 demoBefore = (Inr 100000000, demoBefore)"
    by (simp_all add: vaultBackingTokenForCurrency_def vaultErc20Balance_def tok tokenBalance_def)
  have r: "getRevenueConfig demoBefore = (Inr revenueDefaults, demoBefore)"
    by (simp add: getRevenueConfig_def)
  have c: "registerChallenge ''cg'' challengeTtlMs demoBefore
      = (Inr (), demoBefore\<lparr>challenges := (\<lambda>k. if k = ''cg'' then Some 1700000000000 else None)\<rparr>)"
    by (simp add: registerChallenge_def challengeTtlMs_def purge_def fun_eq_iff demoBefore_def)
  let ?s = "demoBefore\<lparr>challenges := (\<lambda>k. if k = ''cg'' then Some 1700000000000 else None)\<rparr>"
  have i: "insertWithdrawal ''w1'' demoIntent (?s\<lparr>pendingWithdrawals := (\<lambda>k. if k = ''w1'' then Some demoIntent else None)\<rparr>) = (Inr (), demoPrepared)"
    unfolding demoBefore_states [symmetric] by (simp add: insertWithdrawal_def io_calm demoWdRow_def) (simp add: demoIntent_def)
  have row: "\<lparr>pwConsumer = ''c1'', pwFrom = 10, pwTo = 99, pwGross = 20000000, pwFee = 300000, pwNet = 19700000,
        pwFeeBps = 150, pwChallenge = ''cg'', pwLimitUnits = 32000, pwBeneficiary = pwBeneficiary demoIntent,
        pwExpiry = 1699999700000 + pendingTtlMs\<rparr> = demoIntent"
    by (simp add: demoIntent_def pendingTtlMs_def)
  have upd: "(\<lambda>_. None)(''w1'' := Some demoIntent) = (\<lambda>k. if k = ''w1'' then Some demoIntent else None)" by auto
  show ?thesis
    using sw cd b t r c i row demo_kyc demo_beneficiary [of demoBefore] demo_texts demo_amount upd
    by (simp add: prepareWithdrawal_def Let_def revenueDefaults_def ofSum_def uintArg_def demoIntentHash_def del: fun_upd_apply)
qed

lemma demo_later: "recordSpendEvent demoEnv demoSend (Some 990000) None None (demoPrepared\<lparr>clock := 1700000000000\<rparr>) = (Inr (), demoWithdrawDb [])"
proof -
  have n: "net (demoPrepared\<lparr>clock := 1700000000000\<rparr>) = []" by (simp add: demoPrepared_def)
  have "x\<lparr>clock := clock x, spendEvents := spendEvents x\<rparr> = x" for x :: withdrawDb by simp
  from this [of "demoWithdrawDb []"] have d: "(demoWithdrawDb [])\<lparr>clock := 1700000000000, spendEvents := [demoSpent]\<rparr> = demoWithdrawDb []" by simp
  show ?thesis
    unfolding recordSpendEvent_calm [OF n] using d by (simp add: demoPrepared_def demoSend_def demoSpent_def upperChar_def)
qed

lemma demo_limits: "limitsFor ''c1'' (demoWithdrawDb []) = Some \<lparr>limLevel = ''basic'', limSingle = Some 500000, limDaily = Some 1000000, limMonthly = None\<rparr>"
proof -
  have b: "bigIntOf (beforeDot ''500000'') = Some 500000" "bigIntOf (beforeDot ''1000000'') = Some 1000000"
    by (simp_all add: beforeDot_def bigIntOf_def trim_def isSpace_def splitSign_def allDigits_def isDigit_def natOfDigits_def digitVal_def)
  have "consumers (demoWithdrawDb []) = consumers demoPlatform" "kycLevels (demoWithdrawDb []) = kycLevels demoPlatform"
    by (simp_all add: demoWithdrawDb_def withdrawDb.defs demoAuthDb_def authDb.defs demoSalesDb_def salesDb.defs demoVoucherDb_def
      voucherDb.defs demo_state)
  then show ?thesis by (simp add: limitsFor_def getConsumerKycLimits_def demoPlatform_def limitOf_def b)
qed

text \<open>
  C25. The limits are checked when a withdrawal is prepared and not again when it is submitted. On any state and
  network, a preparation that succeeds stores an intent of the wallet whose units are within the single limit and,
  with what the wallet has spent in the day and in the month, within the daily and the monthly limits of the consumer's
  level. But a submission of an intent that was prepared so succeeds and takes the wallet's day over the daily limit: here the
  wallet prepares, sends something else, which is recorded, and submits.
\<close>

theorem submit_exceeds_daily_limit:
  "(case prepareWithdrawal E intent newId consumer w toRaw amount body s of (Inl e, s') \<Rightarrow> True
     | (Inr q, s') \<Rightarrow> \<exists>row l. pendingWithdrawals s' newId = Some row \<and> pwFrom row = w \<and> limitsFor consumer s = Some l
         \<and> withinLimit (limSingle l) (pwLimitUnits row)
         \<and> withinLimit (limDaily l) (spentSince s w (startOfDay (clock s)) + pwLimitUnits row)
         \<and> withinLimit (limMonthly l) (spentSince s w (startOfMonth (clock s)) + pwLimitUnits row))
   \<and> (\<exists>W H b p q s0 s1 (s2 :: withdrawDb) now r t l.
         prepareWithdrawal demoEnv H (wiId p) (wiConsumer p) (wiFrom p) demoExternal ''20'' b s0 = (Inr q, s1)
       \<and> clock s1 \<le> now \<and> recordSpendEvent demoEnv demoSend (Some (spAmount demoSend)) None None (s1\<lparr>clock := now\<rparr>) = (Inr (), s2)
       \<and> submitWithdrawal demoEnv W p s2 = (Inr r, t) \<and> limitsFor (wiConsumer p) s2 = Some l \<and> limDaily l = Some 1000000
       \<and> spentSince s2 (wiFrom p) (startOfDay now) \<le> 1000000 \<and> 1000000 < spentSince t (wiFrom p) (startOfDay now))"
proof (rule conjI)
  show "case prepareWithdrawal E intent newId consumer w toRaw amount body s of (Inl e, s') \<Rightarrow> True
     | (Inr q, s') \<Rightarrow> \<exists>row l. pendingWithdrawals s' newId = Some row \<and> pwFrom row = w \<and> limitsFor consumer s = Some l
         \<and> withinLimit (limSingle l) (pwLimitUnits row)
         \<and> withinLimit (limDaily l) (spentSince s w (startOfDay (clock s)) + pwLimitUnits row)
         \<and> withinLimit (limMonthly l) (spentSince s w (startOfMonth (clock s)) + pwLimitUnits row)"
    using prepareWithdrawal_limits [of E intent newId consumer w toRaw amount body s] by (auto split: prod.split sum.split)
  obtain q where q: "prepareWithdrawal demoEnv demoIntentHash ''w1'' ''c1'' 10 demoExternal ''20'' demoTravelBody demoBefore = (Inr q, demoPrepared)"
    using demo_prepare by blast
  obtain r t where run: "submitWithdrawal demoEnv (demoWa ''webauthn.get'') demoSubmit (demoWithdrawDb []) = (Inr r, t)"
    and sp: "spentSince t 10 (startOfDay 1700000000000) = 1022000" by (rule demo_submit)
  have before: "spentSince (demoWithdrawDb []) 10 (startOfDay 1700000000000) \<le> 1000000"
    by (simp add: spentSince_def demoSpent_def)
  have ck: "clock demoPrepared \<le> 1700000000000" "spAmount demoSend = 990000" by (simp_all add: demoPrepared_def demoSend_def)
  show "\<exists>W H b p q s0 s1 (s2 :: withdrawDb) now r t l.
         prepareWithdrawal demoEnv H (wiId p) (wiConsumer p) (wiFrom p) demoExternal ''20'' b s0 = (Inr q, s1)
       \<and> clock s1 \<le> now \<and> recordSpendEvent demoEnv demoSend (Some (spAmount demoSend)) None None (s1\<lparr>clock := now\<rparr>) = (Inr (), s2)
       \<and> submitWithdrawal demoEnv W p s2 = (Inr r, t) \<and> limitsFor (wiConsumer p) s2 = Some l \<and> limDaily l = Some 1000000
       \<and> spentSince s2 (wiFrom p) (startOfDay now) \<le> 1000000 \<and> 1000000 < spentSince t (wiFrom p) (startOfDay now)"
    by (rule exI [of _ "demoWa ''webauthn.get''"], rule exI [of _ demoIntentHash], rule exI [of _ demoTravelBody], rule exI [of _ demoSubmit],
      rule exI [of _ q], rule exI [of _ demoBefore], rule exI [of _ demoPrepared], rule exI [of _ "demoWithdrawDb []"],
      rule exI [of _ 1700000000000], rule exI [of _ r], rule exI [of _ t],
      rule exI [of _ "\<lparr>limLevel = ''basic'', limSingle = Some 500000, limDaily = Some 1000000, limMonthly = None\<rparr>"])
      (use q run sp before ck demo_later demo_limits in simp)
qed

text \<open>
  C26. A withdrawal whose fee debit fails after the tokens have left is reported and recorded as failed: the
  caller sees an error and the row says so, while the recipient holds the net amount, the wallet's claim is
  debited and the platform gets no fee.
\<close>

theorem paid_withdrawal_marked_failed:
  "\<exists>W p ns t v. submitWithdrawal demoEnv W p (demoWithdrawDb ns) = (Inl networkErr, t)
    \<and> erc t 4 99 = 19700000 \<and> debitAssets (wiFrom p) (currencyHash demoEnv ''USDC'') 19700000 demoVault = Inr v \<and> vault t = v
    \<and> map wdStatus (withdrawals t) = [WdFailed] \<and> map wdTx (withdrawals t) = [None] \<and> spendEvents t = spendEvents (demoWithdrawDb ns)"
proof -
  obtain v1 v2 v3 where v: "debitAssets 10 0x155534443 19700000 demoVault = Inr v1" by (rule demo_withdraw_moves)
  let ?n = "[Delivered, Delivered, Delivered, Delivered, Delivered, Delivered, Lost]"
  have f: "takeFee demoEnv demoIntent 5 (demoTaken [Lost] v1) = (Inl networkErr, (demoTaken [] v1))"
    by (simp add: takeFee_def vaultAdminDebit_def vaultWriter_def sendTx_def andThen_def io_lost)
  have w: "withdrawToExternal demoEnv 10 99 4 19700000
      ((demoAuthorized [Delivered, Lost])\<lparr>pendingWithdrawals := (pendingWithdrawals (demoAuthorized [Delivered, Lost]))(''w1'' := None)\<rparr>)
      = (Inr 0, demoTaken [Lost] v1)"
    by (rule demo_withdrawToExternal) (simp_all add: v)
  obtain t where run: "payWithdrawal demoEnv ''w1'' demoIntent 4 5
      ((demoAuthorized [Delivered, Lost])\<lparr>pendingWithdrawals := (pendingWithdrawals (demoAuthorized [Delivered, Lost]))(''w1'' := None)\<rparr>)
      = (Inl networkErr, t)"
    and t: "erc t 4 99 = 19700000" "vault t = v1" "map wdStatus (withdrawals t) = [WdFailed]" "map wdTx (withdrawals t) = [None]"
      "spendEvents t = [demoSpent]"
    using w f by (simp add: payWithdrawal_def updWithdrawal_def demoWdRow_def)
  have "submitWithdrawal demoEnv (demoWa ''webauthn.get'') demoSubmit (demoWithdrawDb ?n) = (Inl networkErr, t)"
    unfolding submitWithdrawal_def using run
    by (simp add: demo_authorize [of ?n "[Delivered, Delivered, Delivered, Delivered, Lost]"]
        demo_reads [of "[Delivered, Delivered, Delivered, Delivered, Lost]" "[Delivered, Lost]"])
  then show ?thesis
    using t v by (intro exI [of _ "demoWa ''webauthn.get''"] exI [of _ demoSubmit] exI [of _ ?n] exI [of _ t] exI [of _ v1]) simp
qed

end
