(* ===== verification/Settlement.thy ===== *)
theory Settlement
  imports WithdrawalProps
begin

text \<open>
  \<open>settlement.routes.ts\<close> and the execution route of \<open>admin.routes.ts\<close>: a merchant's operators ask for a
  payout of its Vault claim, an organisation administrator approves or rejects it, and it is executed on
  chain (\<open>ONCHAIN\<close>, at once) or by the platform operator (\<open>FIAT\<close>: debit the claim, sweep the treasury token).

  The column \<open>amount\<close> is NUMERIC(18,2), held in hundredths; the gas bookkeeping of \<open>recordGasFromTxHash\<close>,
  which swallows its failures, and the locale's formatting of the figures are left out. The third field of
  a 502 reply is its \<open>detail\<close>.
\<close>

datatype settleStatus = SettlePending | SettleApproved | SettleRejected | SettleExecuted | SettleFailed

record settleRow =
  seqId :: nat
  seqMerchant :: string
  seqBy :: nat
  seqAmount :: int
  seqCurrency :: string
  seqDest :: string
  seqStatus :: settleStatus
  seqApprovedBy :: "nat option"
  seqTx :: "txHash option"
  seqFeeBps :: "int option"
  seqFee :: "rat option"
  seqNet :: "rat option"
  seqCreated :: int

record settleConfig =
  cfThreshold :: int
  cfCurrency :: "string option"
  cfApproval :: bool

record offrampRow =
  ofMerchant :: string
  ofBank :: "string option"
  ofAccount :: "string option"
  ofActive :: bool
  ofCreated :: int

record settleDb = withdrawDb +
  settlements :: "settleRow list"
  settleConfigs :: "string \<Rightarrow> settleConfig option"
  offramps :: "offrampRow list"

definition settleStatusText :: "settleStatus \<Rightarrow> string" where
  "settleStatusText st = (case st of SettlePending \<Rightarrow> ''pending'' | SettleApproved \<Rightarrow> ''approved''
     | SettleRejected \<Rightarrow> ''rejected'' | SettleExecuted \<Rightarrow> ''executed'' | SettleFailed \<Rightarrow> ''failed'')"

definition decimalsFor :: "string \<Rightarrow> nat" where
  "decimalsFor c = (if toUpper c = ''USDC'' \<or> toUpper c = ''USD'' then 6 else 2)"

definition centsText :: "int \<Rightarrow> string" where
  "centsText n = (if n < 0 then CHR ''-'' # numericText 2 (nat (- n)) else numericText 2 (nat n))"

text \<open>The hundredths PostgreSQL stores of a decimal text, halves away from zero; \<open>None\<close>: not a number.\<close>

definition numericCents :: "string \<Rightarrow> int option" where
  "numericCents t = (let (sg, d) = splitSign (trim t); i = beforeDot d; f = afterDot d in
     if list_all isDigit i \<and> list_all isDigit f \<and> i @ f \<noteq> []
     then Some (sg * \<lfloor>decimalValue i f * 100 + 1/2\<rfloor>) else None)"

definition getConfig :: "string \<Rightarrow> ('r settleDb_scheme, settleConfig) prog" where
  "getConfig m = andThen (readIO (\<lambda>s. settleConfigs s m)) (\<lambda>r.
     ret (orElse r \<lparr>cfThreshold = 0, cfCurrency = None, cfApproval = True\<rparr>))"

text \<open>The wallet, the settlement type and the settlement currency.\<close>

definition getMerchantMeta :: "string \<Rightarrow> ('r platform_scheme, address option \<times> string option \<times> string option) prog" where
  "getMerchantMeta m = andThen (readIO (findMerchant m)) (\<lambda>r. ret (case r of
       None \<Rightarrow> (None, Some ''FIAT'', Some ''ZAR'')
     | Some mr \<Rightarrow> (merchantWallet mr, merchantSettleType mr, merchantSettleCur mr)))"

section \<open>Execution\<close>

definition updSettlement :: "nat \<Rightarrow> (settleRow \<Rightarrow> settleRow) \<Rightarrow> ('r settleDb_scheme, unit) prog" where
  "updSettlement i f = writeIO (\<lambda>s. s\<lparr>settlements := updWhere (\<lambda>r. seqId r = i) f (settlements s)\<rparr>)"

text \<open>The transfer of the value, by settlement type; \<open>to\<close> is the checked destination text.\<close>

definition paySettlement ::
  "env \<Rightarrow> bool \<Rightarrow> address \<Rightarrow> string \<Rightarrow> int \<Rightarrow> string \<Rightarrow> string \<Rightarrow> ('r settleDb_scheme, txHash) prog" where
  "paySettlement E fiat fromWallet dest amountUnits cur country =
    (if fiat then
       andThen (ofOption (treasuryAddr E) (plainErr ''Platform treasury address not configured for fiat settlement'')) (\<lambda>treasury.
       andThen (vaultAdminDebit E fromWallet amountUnits cur) (\<lambda>_.
       sweepTreasuryFromVault E treasury amountUnits country))
     else
       andThen (vaultBackingTokenForCurrency E cur) (\<lambda>token.
       andThen (ofOption (getAddr E dest) (plainErr ''bad address checksum'')) (\<lambda>to.
       withdrawToExternal E fromWallet to token amountUnits)))"

definition executeSettlement :: "env \<Rightarrow> settleRow \<Rightarrow> string \<Rightarrow> ('r settleDb_scheme, unit) prog" where
  "executeSettlement E q settlementType =
    andThen (readIO (findMerchant (seqMerchant q))) (\<lambda>mr.
    let country = (case mr of None \<Rightarrow> ''ZA'' | Some m \<Rightarrow> merchantCountry m); cur = toUpper (seqCurrency q) in
    andThen (ofOption (case mr of None \<Rightarrow> None | Some m \<Rightarrow> merchantWallet m) (plainErr ''Merchant has no wallet on file'')) (\<lambda>fromWallet.
    andThen (ofOption (parseUnits E (centsText (seqAmount q)) (decimalsFor cur)) (plainErr ''invalid FixedNumber string value'')) (\<lambda>amountUnits.
    andThen (unifiedBalanceOf E fromWallet cur) (\<lambda>balance.
    andThen (require (amountUnits \<le> balance) (plainErr (''Insufficient vault balance: have ''
      @ formatUnits E balance (decimalsFor cur) @ '' '' @ cur @ '', need '' @ centsText (seqAmount q)))) (\<lambda>_.
    andThen (require (settlementType \<noteq> ''FIAT'' \<or> treasuryAddr E \<noteq> None)
      (plainErr ''Platform treasury address not configured for fiat settlement'')) (\<lambda>_.
    andThen (require (settlementType = ''FIAT'' \<or> isHexAddress (seqDest q))
      (plainErr ''Platform treasury address not configured for fiat settlement'')) (\<lambda>_.
    andThen getRevenueConfig (\<lambda>revenue.
    let feeBps = orElse (seqFeeBps q) (settlementFeeBps revenue);
        (fee, net) = calcSettlementFee (fl (of_int (seqAmount q) / 100)) feeBps in
    andThen (paySettlement E (settlementType = ''FIAT'') fromWallet (seqDest q) amountUnits cur country) (\<lambda>tx.
    updSettlement (seqId q) (\<lambda>r. r\<lparr>seqStatus := SettleExecuted, seqTx := Some tx, seqFeeBps := Some feeBps,
      seqFee := Some fee, seqNet := Some net\<rparr>))))))))))"

definition bankPayoutLabel :: "string \<Rightarrow> ('r settleDb_scheme, string option) prog" where
  "bankPayoutLabel m =
    andThen (readIO (\<lambda>s. headOpt (sort_key (\<lambda>r. - ofCreated r) (filter (\<lambda>r. ofMerchant r = m \<and> ofActive r) (offramps s))))) (\<lambda>row.
    ret (case row of None \<Rightarrow> None
      | Some r \<Rightarrow> (case nonEmpty (ofAccount r) of None \<Rightarrow> None
        | Some acc \<Rightarrow> (let dots = concat (replicate 3 [CHR 0xC2, CHR 0xB7]); last4 = drop (length acc - 4) acc in
            Some (case nonEmpty (ofBank r) of Some b \<Rightarrow> b @ '' '' @ dots @ last4 | None \<Rightarrow> dots @ last4)))))"

section \<open>Routes of the merchant\<close>

text \<open>The member of a token; a token without its fields, which the server never signs, fails in the database.\<close>

definition asMember :: "member guarded \<Rightarrow> (nat \<Rightarrow> string \<Rightarrow> member \<Rightarrow> ('s, 'a reply) prog) \<Rightarrow> ('s, 'a reply) prog" where
  "asMember g k = (case g of Inl (st, msg) \<Rightarrow> ret (ReplyErr st msg None)
     | Inr m \<Rightarrow> (case (meId m, meMerchant m) of (Some i, Some mm) \<Rightarrow> k i mm m
         | _ \<Rightarrow> ret (ReplyErr 500 ''null value violates not-null constraint'' None)))"

record settleBalance =
  sbCurrency :: string
  sbVault :: rat
  sbPending :: rat
  sbAvailable :: rat
  sbType :: "string option"
  sbBank :: "string option"

definition balanceRoute :: "env \<Rightarrow> waEnv \<Rightarrow> string option \<Rightarrow> ('r settleDb_scheme, settleBalance reply) prog" where
  "balanceRoute E W header = asMember (requireMemberAuth W header) (\<lambda>_ m _. tryCatch
    (andThen (getMerchantMeta m) (\<lambda>(w, ty, cu). case w of
       None \<Rightarrow> ret (Reply \<lparr>sbCurrency = orElse cu ''ZAR'', sbVault = 0, sbPending = 0, sbAvailable = 0, sbType = ty, sbBank = None\<rparr>)
     | Some wallet \<Rightarrow>
        (let cur = toUpper (orElse cu ''ZAR'') in
         andThen (unifiedBalanceOf E wallet cur) (\<lambda>raw.
         let vaultValue = jsDiv (numOfBig raw) (10 ^ decimalsFor cur) in
         andThen (readIO (\<lambda>s. \<Sum>r\<leftarrow>filter (\<lambda>r. seqMerchant r = m \<and> seqCurrency r = cur
            \<and> seqStatus r \<in> {SettlePending, SettleApproved, SettleFailed}) (settlements s). seqAmount r)) (\<lambda>total.
         let pendingValue = fl (of_int total / 100) in
         andThen (if ty = Some ''FIAT'' then bankPayoutLabel m else ret None) (\<lambda>bank.
         ret (Reply \<lparr>sbCurrency = cur, sbVault = vaultValue, sbPending = pendingValue,
           sbAvailable = max 0 (jsSub vaultValue pendingValue), sbType = ty, sbBank = bank\<rparr>)))))))
    (\<lambda>e. ret (ReplyErr 500 (fmsg e) None)))"

definition setConfigRoute ::
  "waEnv \<Rightarrow> string option \<Rightarrow> int option \<Rightarrow> string option \<Rightarrow> bool option \<Rightarrow> ('r settleDb_scheme, settleConfig reply) prog" where
  "setConfigRoute W header threshold cur approval = asMember (requireOrgAdmin W header) (\<lambda>_ m _.
     andThen (writeIO (\<lambda>s. s\<lparr>settleConfigs := (settleConfigs s)(m := Some
       \<lparr>cfThreshold = orElse threshold 0, cfCurrency = cur, cfApproval = orElse approval True\<rparr>)\<rparr>)) (\<lambda>_.
     andThen (getConfig m) (\<lambda>c. ret (Reply c))))"

definition getConfigRoute :: "waEnv \<Rightarrow> string option \<Rightarrow> ('r settleDb_scheme, (settleConfig \<times> int) reply) prog" where
  "getConfigRoute W header = asMember (requireMemberAuth W header) (\<lambda>_ m _.
     andThen getRevenueConfig (\<lambda>rev. andThen (getConfig m) (\<lambda>c. ret (Reply (c, settlementFeeBps rev)))))"

definition listRequestsRoute :: "waEnv \<Rightarrow> string option \<Rightarrow> ('r settleDb_scheme, settleRow list reply) prog" where
  "listRequestsRoute W header = asMember (requireMemberAuth W header) (\<lambda>_ m _.
     andThen (readIO (\<lambda>s. sort_key (\<lambda>r. - seqCreated r) (filter (\<lambda>r. seqMerchant r = m) (settlements s)))) (\<lambda>rows. ret (Reply rows)))"

record settleBody =
  sqAmount :: "string option"
  sqCurrency :: "string option"
  sqDest :: "string option"
  sqBankRef :: "string option"

text \<open>The destination stored with a request (\<open>None\<close>: it is refused).\<close>

definition settleDestination :: "string \<Rightarrow> bool \<Rightarrow> settleBody \<Rightarrow> ('r settleDb_scheme, string option) prog" where
  "settleDestination m fiat b =
    (let dest = trim (orElse (sqDest b) []) in
     if fiat then (case nonEmpty (map_option trim (sqBankRef b)) of Some r \<Rightarrow> ret (Some r)
       | None \<Rightarrow> if dest \<noteq> [] then ret (Some dest)
           else andThen (bankPayoutLabel m) (\<lambda>l. ret (Some (orEmpty l ''Bank payout (see off-ramp config)''))))
     else ret (if isHexAddress dest then Some dest else None))"

text \<open>The execution of an approved on-chain request and what follows it, marked failed when either throws.\<close>

definition autoExecute :: "env \<Rightarrow> settleRow \<Rightarrow> ('r settleDb_scheme, 'a) prog \<Rightarrow> ('r settleDb_scheme, string + 'a) prog" where
  "autoExecute E q k = tryCatch (andThen (executeSettlement E q ''ONCHAIN'') (\<lambda>_. andThen k (\<lambda>x. ret (Inr x))))
     (\<lambda>e. andThen (updSettlement (seqId q) (\<lambda>r. r\<lparr>seqStatus := SettleFailed\<rparr>)) (\<lambda>_. ret (Inl (fmsg e))))"

definition finalRow :: "nat \<Rightarrow> ('r settleDb_scheme, settleRow) prog" where
  "finalRow i = andThen (readIO (\<lambda>s. find (\<lambda>r. seqId r = i) (settlements s))) (\<lambda>r. ofOption r (plainErr ''no row''))"

definition newRequest :: "string \<Rightarrow> nat \<Rightarrow> bool \<Rightarrow> string \<Rightarrow> string \<Rightarrow> string \<Rightarrow> int \<Rightarrow> 'r settleDb_scheme \<Rightarrow> failure + (settleRow \<times> 'r settleDb_scheme)" where
  "newRequest m member orgAdmin amount cur dest bps s = (case numericCents amount of
       None \<Rightarrow> Inl (plainErr ''invalid input syntax for type numeric'')
     | Some cents \<Rightarrow>
         (let (fee, net) = calcSettlementFee (orElse (jsNumberOf amount) 0) bps;
              row = \<lparr>seqId = length (settlements s), seqMerchant = m, seqBy = member, seqAmount = cents, seqCurrency = toUpper cur,
                seqDest = dest, seqStatus = (if orgAdmin then SettleApproved else SettlePending),
                seqApprovedBy = (if orgAdmin then Some member else None), seqTx = None, seqFeeBps = Some bps,
                seqFee = Some fee, seqNet = Some net, seqCreated = clock s\<rparr> in
          Inr (row, s\<lparr>settlements := settlements s @ [row]\<rparr>)))"

definition insertSettlement ::
  "string \<Rightarrow> nat \<Rightarrow> bool \<Rightarrow> string \<Rightarrow> string \<Rightarrow> string \<Rightarrow> int \<Rightarrow> ('r settleDb_scheme, settleRow) prog" where
  "insertSettlement m member orgAdmin amount cur dest feeBps = io (newRequest m member orgAdmin amount cur dest feeBps)"

definition requestRoute :: "env \<Rightarrow> waEnv \<Rightarrow> string option \<Rightarrow> settleBody \<Rightarrow> ('r settleDb_scheme, settleRow reply) prog" where
  "requestRoute E W header b = asMember (requireMemberAuth W header) (\<lambda>member m me. tryCatch
    (case (nonEmpty (sqAmount b), nonEmpty (sqCurrency b)) of
       (Some amount, Some cur) \<Rightarrow>
        andThen (getMerchantMeta m) (\<lambda>(w, ty, cu).
        let fiat = (ty \<noteq> Some ''ONCHAIN'') in
        andThen (settleDestination m fiat b) (\<lambda>d. case d of
          None \<Rightarrow> ret (ReplyErr 400 ''destination must be a 0x address for on-chain settlement'' None)
        | Some dest \<Rightarrow>
          andThen getRevenueConfig (\<lambda>revenue.
          let orgAdmin = (meRole me = Some ''org_admin'') in
          andThen (insertSettlement m member orgAdmin amount cur dest (settlementFeeBps revenue)) (\<lambda>row.
          if orgAdmin \<and> \<not> fiat then
            andThen (autoExecute E row (finalRow (seqId row))) (\<lambda>x. case x of
              Inl detail \<Rightarrow> ret (ReplyErr 502 ''Execution failed'' (Some detail))
            | Inr r \<Rightarrow> ret (Reply r))
          else ret (Reply row)))))
     | _ \<Rightarrow> ret (ReplyErr 400 ''amount and currency required'' None))
    (\<lambda>e. ret (ReplyErr 500 (fmsg e) None)))"

definition approveRoute :: "env \<Rightarrow> waEnv \<Rightarrow> string option \<Rightarrow> nat \<Rightarrow> ('r settleDb_scheme, settleRow reply) prog" where
  "approveRoute E W header i = asMember (requireOrgAdmin W header) (\<lambda>member m _. tryCatch
    (andThen (readIO (\<lambda>s. find (\<lambda>r. seqId r = i \<and> seqMerchant r = m) (settlements s))) (\<lambda>q. case q of
       None \<Rightarrow> ret (ReplyErr 404 ''Not found'' None)
     | Some request \<Rightarrow>
       if seqStatus request \<noteq> SettlePending
       then ret (ReplyErr 409 (''Request is '' @ settleStatusText (seqStatus request) @ '', not pending'') None)
       else
         andThen (updSettlement i (\<lambda>r. r\<lparr>seqStatus := SettleApproved, seqApprovedBy := Some member\<rparr>)) (\<lambda>_.
         andThen (getMerchantMeta m) (\<lambda>(w, ty, cu).
         andThen (if ty = Some ''ONCHAIN''
            then autoExecute E (request\<lparr>seqStatus := SettleApproved, seqApprovedBy := Some member\<rparr>) (ret ()) else ret (Inr ())) (\<lambda>x. case x of
           Inl detail \<Rightarrow> ret (ReplyErr 502 ''Execution failed'' (Some detail))
         | Inr _ \<Rightarrow> andThen (finalRow i) (\<lambda>r. ret (Reply r)))))))
    (\<lambda>e. ret (ReplyErr 500 (fmsg e) None)))"

definition rejectRoute :: "waEnv \<Rightarrow> string option \<Rightarrow> nat \<Rightarrow> ('r settleDb_scheme, settleRow reply) prog" where
  "rejectRoute W header i = asMember (requireOrgAdmin W header) (\<lambda>member m _.
     andThen (io (\<lambda>s. let hit = (\<lambda>r. seqId r = i \<and> seqMerchant r = m \<and> seqStatus r = SettlePending);
         f = (\<lambda>r. r\<lparr>seqStatus := SettleRejected, seqApprovedBy := Some member\<rparr>) in
       Inr (map_option f (find hit (settlements s)), s\<lparr>settlements := updWhere hit f (settlements s)\<rparr>))) (\<lambda>r.
     ret (case r of None \<Rightarrow> ReplyErr 409 ''Not found or not pending'' None | Some row \<Rightarrow> Reply row)))"

section \<open>The platform operator\<close>

text \<open>A request that may be executed: approved, or failed and set back to approved.\<close>

definition operatorLoad :: "nat \<Rightarrow> ('r settleDb_scheme, settleRow reply) prog" where
  "operatorLoad i =
    andThen (readIO (\<lambda>s. find (\<lambda>r. seqId r = i) (settlements s))) (\<lambda>q. case q of
       None \<Rightarrow> ret (ReplyErr 404 ''Not found'' None)
     | Some row \<Rightarrow>
       if seqStatus row \<noteq> SettleApproved \<and> seqStatus row \<noteq> SettleFailed
       then ret (ReplyErr 409 (''Request is '' @ settleStatusText (seqStatus row) @ '', not executable'') None)
       else andThen (whenP (seqStatus row = SettleFailed) (updSettlement i (\<lambda>r. r\<lparr>seqStatus := SettleApproved\<rparr>))) (\<lambda>_.
         ret (Reply (row\<lparr>seqStatus := SettleApproved\<rparr>))))"

definition operatorRun :: "env \<Rightarrow> settleRow \<Rightarrow> ('r settleDb_scheme, settleRow reply) prog" where
  "operatorRun E row =
    andThen (readIO (findMerchant (seqMerchant row))) (\<lambda>mr.
    andThen (executeSettlement E row (case mr of None \<Rightarrow> ''FIAT'' | Some m \<Rightarrow> orElse (merchantSettleType m) ''FIAT'')) (\<lambda>_.
    andThen (finalRow (seqId row)) (\<lambda>r. ret (Reply r))))"

definition operatorFail :: "nat \<Rightarrow> ('r settleDb_scheme, unit) prog" where
  "operatorFail i = writeIO (\<lambda>s. s\<lparr>settlements := updWhere (\<lambda>r. seqId r = i \<and> seqStatus r = SettleApproved)
            (\<lambda>r. r\<lparr>seqStatus := SettleFailed\<rparr>) (settlements s)\<rparr>)"

definition executeRoute :: "env \<Rightarrow> waEnv \<Rightarrow> string option \<Rightarrow> nat \<Rightarrow> ('r settleDb_scheme, settleRow reply) prog" where
  "executeRoute E W header i = (case requireAdmin W header of Inl (st, msg) \<Rightarrow> ret (ReplyErr st msg None)
   | Inr _ \<Rightarrow> tryCatch
      (andThen (operatorLoad i) (\<lambda>l. case l of ReplyErr st msg c \<Rightarrow> ret (ReplyErr st msg c) | Reply row \<Rightarrow> operatorRun E row))
      (\<lambda>e. andThen (operatorFail i) (\<lambda>_. ret (ReplyErr 502 (fmsg e) None))))"

end
