(* ===== verification/SessionModule.thy ===== *)
theory SessionModule
  imports Solidity
begin

text \<open>
  \<open>src/src/SessionTransferModule.sol\<close>: a Safe registers a short-lived key that may order
  \<open>Vault.transfer\<close> from it within a cap per transaction and a cap per day. The call of the Vault
  through the Safe is in the theory of the transfers; here are the registry, the check that consumes a
  nonce, and the ledger of accepted payments they implement.

  \<open>block.timestamp\<close> is an argument, in seconds. The EIP-712 digest (\<open>keccak256\<close> of the fields under
  the domain separator) and \<open>ECDSA.recover\<close> (\<open>None\<close>: it reverts) are parameters; \<open>smModule\<close> is the
  configured address of the module.
\<close>

record session =
  ssExpiry :: nat
  ssMaxPerTx :: nat
  ssDailyCap :: nat
  ssDailySpent :: nat
  ssDayBucket :: nat
  ssNonce :: nat
  ssActive :: bool

type_synonym sessions = "address \<Rightarrow> address \<Rightarrow> session"

record sessionEnv =
  smDigest :: "address \<Rightarrow> address \<Rightarrow> nat \<Rightarrow> bytes32 \<Rightarrow> nat \<Rightarrow> nat \<Rightarrow> bytes32"
  smRecover :: "bytes32 \<Rightarrow> 8 word list \<Rightarrow> address option"
  smModule :: "address option"

definition noSession :: session where
  "noSession = \<lparr>ssExpiry = 0, ssMaxPerTx = 0, ssDailyCap = 0, ssDailySpent = 0, ssDayBucket = 0, ssNonce = 0, ssActive = False\<rparr>"

definition setSession :: "address \<Rightarrow> address \<Rightarrow> session \<Rightarrow> sessions \<Rightarrow> sessions" where
  "setSession safe key ss m = m(safe := (m safe)(key := ss))"

text \<open>\<open>safe\<close> is \<open>msg.sender\<close>.\<close>

definition addSessionKey :: "nat \<Rightarrow> address \<Rightarrow> address \<Rightarrow> nat \<Rightarrow> nat \<Rightarrow> nat \<Rightarrow> sessions \<Rightarrow> revert + sessions" where
  "addSessionKey now safe key expiry maxPerTx dailyCap m =
    sbind (guard (key \<noteq> 0) ZeroAddress) (\<lambda>_.
    sbind (guard (now < expiry) (SessionExpired safe key)) (\<lambda>_.
    Inr (setSession safe key \<lparr>ssExpiry = expiry, ssMaxPerTx = maxPerTx, ssDailyCap = dailyCap, ssDailySpent = 0,
      ssDayBucket = 0, ssNonce = 0, ssActive = True\<rparr> m)))"

definition removeSessionKey :: "address \<Rightarrow> address \<Rightarrow> sessions \<Rightarrow> revert + sessions" where
  "removeSessionKey safe key m = Inr (setSession safe key noSession m)"

definition rollDay :: "nat \<Rightarrow> session \<Rightarrow> session" where
  "rollDay day ss = (if ssDayBucket ss \<noteq> day then ss\<lparr>ssDayBucket := day, ssDailySpent := 0\<rparr> else ss)"

definition sessionTransferHash ::
  "sessionEnv \<Rightarrow> address \<Rightarrow> address \<Rightarrow> address \<Rightarrow> nat \<Rightarrow> bytes32 \<Rightarrow> nat \<Rightarrow> sessions \<Rightarrow> bytes32" where
  "sessionTransferHash X safe key to amount c deadline m = smDigest X safe to amount c (ssNonce (m safe key)) deadline"

definition validateAndConsumeSession ::
  "sessionEnv \<Rightarrow> nat \<Rightarrow> address \<Rightarrow> address \<Rightarrow> address \<Rightarrow> nat \<Rightarrow> bytes32 \<Rightarrow> nat \<Rightarrow> 8 word list \<Rightarrow> sessions \<Rightarrow> revert + sessions" where
  "validateAndConsumeSession X now safe key to amount c deadline sig m =
    sbind (guard (\<not> (to = 0 \<or> key = 0 \<or> safe = 0)) ZeroAddress) (\<lambda>_.
    sbind (guard (amount \<noteq> 0) ZeroAmount) (\<lambda>_.
    sbind (guard (now \<le> deadline) DeadlineExpired) (\<lambda>_.
    let sess = m safe key in
    sbind (guard (ssActive sess) (SessionInactive safe key)) (\<lambda>_.
    sbind (guard (now \<le> ssExpiry sess) (SessionExpired safe key)) (\<lambda>_.
    sbind (guard (amount \<le> ssMaxPerTx sess) (AmountExceedsCap amount (ssMaxPerTx sess))) (\<lambda>_.
    let rolled = rollDay (now div 86400) sess in
    sbind (add256 (ssDailySpent rolled) amount) (\<lambda>projected.
    sbind (guard (projected \<le> ssDailyCap rolled) (DailyCapExceeded projected (ssDailyCap rolled))) (\<lambda>_.
    (case smRecover X (smDigest X safe to amount c (ssNonce rolled) deadline) sig of
       None \<Rightarrow> Inl InvalidSessionSignature
     | Some r \<Rightarrow>
         sbind (guard (r = key) InvalidSessionSignature) (\<lambda>_.
         Inr (setSession safe key (rolled\<lparr>ssNonce := (ssNonce rolled + 1) mod uintLimit, ssDailySpent := projected\<rparr>) m)))))))))))"

section \<open>The ledger of payments it implements\<close>

text \<open>
  A payment order, and what a grant allows by the list of the payments accepted under it: the order is
  in time, within the cap of a transaction and, with what was paid on the same day, the cap of the day,
  and it is signed by the key over the number of payments so far.
\<close>

record payOrder =
  poNow :: nat
  poTo :: address
  poAmount :: nat
  poCurrency :: bytes32
  poDeadline :: nat
  poSig :: "8 word list"

definition paidOn :: "nat \<Rightarrow> payOrder list \<Rightarrow> nat" where
  "paidOn day paid = (\<Sum>p\<leftarrow>filter (\<lambda>p. poNow p div 86400 = day) paid. poAmount p)"

definition allowed :: "sessionEnv \<Rightarrow> address \<Rightarrow> address \<Rightarrow> nat \<Rightarrow> nat \<Rightarrow> nat \<Rightarrow> payOrder list \<Rightarrow> payOrder \<Rightarrow> bool" where
  "allowed X safe key expiry maxPerTx dailyCap paid p \<longleftrightarrow>
     poTo p \<noteq> 0 \<and> key \<noteq> 0 \<and> safe \<noteq> 0 \<and> poAmount p \<noteq> 0 \<and> poNow p \<le> poDeadline p \<and> poNow p \<le> expiry
     \<and> poAmount p \<le> maxPerTx \<and> paidOn (poNow p div 86400) paid + poAmount p \<le> dailyCap
     \<and> smRecover X (smDigest X safe (poTo p) (poAmount p) (poCurrency p) (length paid mod uintLimit) (poDeadline p)) (poSig p) = Some key"

fun accepts :: "sessionEnv \<Rightarrow> address \<Rightarrow> address \<Rightarrow> nat \<Rightarrow> nat \<Rightarrow> nat \<Rightarrow> payOrder list \<Rightarrow> payOrder list \<Rightarrow> bool list" where
  "accepts X safe key e mx cap paid [] = []"
| "accepts X safe key e mx cap paid (p # ps) =
    (if allowed X safe key e mx cap paid p then True # accepts X safe key e mx cap (paid @ [p]) ps
     else False # accepts X safe key e mx cap paid ps)"

text \<open>The module, run on the same orders: a revert leaves its storage as it was.\<close>

fun consumes :: "sessionEnv \<Rightarrow> address \<Rightarrow> address \<Rightarrow> sessions \<Rightarrow> payOrder list \<Rightarrow> bool list" where
  "consumes X safe key m [] = []"
| "consumes X safe key m (p # ps) =
    (case validateAndConsumeSession X (poNow p) safe key (poTo p) (poAmount p) (poCurrency p) (poDeadline p) (poSig p) m of
       Inl _ \<Rightarrow> False # consumes X safe key m ps
     | Inr m' \<Rightarrow> True # consumes X safe key m' ps)"

text \<open>
  The simulation relation: the day's counter is the sum over the ledger for its day, no payment is
  of a later day, and the nonce counts them.
\<close>

definition implements :: "nat \<Rightarrow> nat \<Rightarrow> nat \<Rightarrow> payOrder list \<Rightarrow> session \<Rightarrow> bool" where
  "implements e mx cap paid ss \<longleftrightarrow> ssActive ss \<and> ssExpiry ss = e \<and> ssMaxPerTx ss = mx \<and> ssDailyCap ss = cap
     \<and> ssNonce ss = length paid mod uintLimit \<and> ssDailySpent ss = paidOn (ssDayBucket ss) paid
     \<and> (\<forall>p\<in>set paid. poNow p div 86400 \<le> ssDayBucket ss)"

lemma paidOn_snoc: "paidOn d (paid @ [p]) = paidOn d paid + (if poNow p div 86400 = d then poAmount p else 0)"
  by (simp add: paidOn_def)

lemma paidOn_later: "\<forall>p\<in>set paid. poNow p div 86400 < d \<Longrightarrow> paidOn d paid = 0"
  unfolding paidOn_def by (subst filter_False) auto

lemma rollDay_spent:
  assumes "implements e mx cap paid ss" and "ssDayBucket ss \<le> d"
  shows "ssDailySpent (rollDay d ss) = paidOn d paid" and "ssDayBucket (rollDay d ss) = d"
    and "ssNonce (rollDay d ss) = ssNonce ss" and "ssDailyCap (rollDay d ss) = ssDailyCap ss"
    and "ssActive (rollDay d ss) = ssActive ss" and "ssExpiry (rollDay d ss) = ssExpiry ss" and "ssMaxPerTx (rollDay d ss) = ssMaxPerTx ss"
proof -
  show "ssDailySpent (rollDay d ss) = paidOn d paid"
  proof (cases "ssDayBucket ss = d")
    case True
    then show ?thesis using assms(1) by (simp add: rollDay_def implements_def)
  next
    case False
    have "paidOn d paid = 0"
      by (rule paidOn_later) (use assms False in \<open>fastforce simp: implements_def\<close>)
    then show ?thesis using False by (simp add: rollDay_def)
  qed
qed (simp_all add: rollDay_def)

text \<open>The caps are \<open>uint256\<close>, so a projected sum that the ledger allows does not overflow.\<close>

lemma consume_iff:
  assumes im: "implements e mx cap paid (m safe key)" and d: "ssDayBucket (m safe key) \<le> poNow p div 86400" and cap: "cap < uintLimit"
  shows "validateAndConsumeSession X (poNow p) safe key (poTo p) (poAmount p) (poCurrency p) (poDeadline p) (poSig p) m = Inr m'
    \<longleftrightarrow> allowed X safe key e mx cap paid p \<and> m' = setSession safe key ((rollDay (poNow p div 86400) (m safe key))
         \<lparr>ssNonce := (length paid mod uintLimit + 1) mod uintLimit, ssDailySpent := paidOn (poNow p div 86400) paid + poAmount p\<rparr>) m"
proof -
  note r = rollDay_spent [OF im d]
  have i: "ssActive (m safe key)" "ssExpiry (m safe key) = e" "ssMaxPerTx (m safe key) = mx" "ssDailyCap (m safe key) = cap"
    "ssNonce (m safe key) = length paid mod uintLimit"
    using im by (simp_all add: implements_def)
  have g: "paidOn (poNow p div 86400) paid + poAmount p < uintLimit" if "paidOn (poNow p div 86400) paid + poAmount p \<le> cap"
    using that cap by linarith
  show ?thesis
    unfolding validateAndConsumeSession_def Let_def sbind_guard_Inr_iff sbind_Inr_iff allowed_def r i
    using g i by (auto simp: sbind_guard_Inr_iff split: option.splits)
qed

lemma implements_step:
  assumes im: "implements e mx cap paid ss" and d: "ssDayBucket ss \<le> poNow p div 86400"
  shows "implements e mx cap (paid @ [p]) ((rollDay (poNow p div 86400) ss)
    \<lparr>ssNonce := (length paid mod uintLimit + 1) mod uintLimit, ssDailySpent := paidOn (poNow p div 86400) paid + poAmount p\<rparr>)"
proof -
  note r = rollDay_spent [OF im d]
  have "q \<in> set paid \<Longrightarrow> poNow q div 86400 \<le> poNow p div 86400" for q
    using im d by (fastforce simp: implements_def)
  then show ?thesis using im r by (simp add: implements_def paidOn_snoc mod_Suc_eq)
qed

lemma setSession_same [simp]: "setSession safe key ss m safe key = ss"
  by (simp add: setSession_def)

lemma setSession_other: "(s, k) \<noteq> (safe, key) \<Longrightarrow> setSession safe key ss m s k = m s k"
  by (auto simp: setSession_def)

lemma consumes_accepts:
  assumes "implements e mx cap paid (m safe key)" and "cap < uintLimit" and "sorted (map poNow ps)"
    and "\<forall>p\<in>set ps. ssDayBucket (m safe key) \<le> poNow p div 86400"
  shows "consumes X safe key m ps = accepts X safe key e mx cap paid ps"
  using assms
proof (induction ps arbitrary: m paid)
  case (Cons p ps)
  have d: "ssDayBucket (m safe key) \<le> poNow p div 86400" using Cons.prems(4) by simp
  let ?v = "validateAndConsumeSession X (poNow p) safe key (poTo p) (poAmount p) (poCurrency p) (poDeadline p) (poSig p) m"
  let ?ss = "(rollDay (poNow p div 86400) (m safe key))
     \<lparr>ssNonce := (length paid mod uintLimit + 1) mod uintLimit, ssDailySpent := paidOn (poNow p div 86400) paid + poAmount p\<rparr>"
  note iff = consume_iff [where m = m and safe = safe and key = key and X = X, OF Cons.prems(1) d Cons.prems(2)]
  show ?case
  proof (cases "allowed X safe key e mx cap paid p")
    case True
    then have v: "?v = Inr (setSession safe key ?ss m)" using iff by simp
    have i: "implements e mx cap (paid @ [p]) (setSession safe key ?ss m safe key)"
      unfolding setSession_same by (rule implements_step [OF Cons.prems(1) d])
    have b: "\<forall>q\<in>set ps. ssDayBucket (setSession safe key ?ss m safe key) \<le> poNow q div 86400"
      using Cons.prems(3) rollDay_spent(2) [OF Cons.prems(1) d] by (auto intro: div_le_mono)
    have "sorted (map poNow ps)" using Cons.prems(3) by simp
    from Cons.IH [where m = "setSession safe key ?ss m", OF i Cons.prems(2) this b] show ?thesis using True v by simp
  next
    case False
    then obtain x where "?v = Inl x" using iff by (cases ?v) auto
    then show ?thesis using False Cons by simp
  qed
qed simp

lemma addSessionKey_implements:
  assumes "addSessionKey now safe key e mx cap m = Inr m'"
  shows "implements e mx cap [] (m' safe key)" and "ssDayBucket (m' safe key) = 0"
  using assms by (auto simp: addSessionKey_def sbind_guard_Inr_iff implements_def paidOn_def uintLimit_def)

text \<open>
  C30. The module's one counter per day and one nonce implement the ledger of payments: from the
  registration of a key on, over any orders in the order of block times, the module accepts exactly those
  that the list of earlier accepted payments allows.
\<close>

theorem module_refines_ledger:
  assumes "addSessionKey now safe key e mx cap m = Inr m'" and "cap < uintLimit" and "sorted (map poNow ps)"
  shows "consumes X safe key m' ps = accepts X safe key e mx cap [] ps"
  using addSessionKey_implements [OF assms(1)] assms(2,3) by (intro consumes_accepts) simp_all

text \<open>
  So what a grant pays on one day stays within its daily cap. That is true of one registration:
  registering the same key again clears the counter and the nonce, and a payment signed for the first nonce
  of the old registration is accepted once more.
\<close>

fun paidUnder :: "sessionEnv \<Rightarrow> address \<Rightarrow> address \<Rightarrow> nat \<Rightarrow> nat \<Rightarrow> nat \<Rightarrow> payOrder list \<Rightarrow> payOrder list \<Rightarrow> payOrder list" where
  "paidUnder X safe key e mx cap paid [] = paid"
| "paidUnder X safe key e mx cap paid (p # ps) =
    paidUnder X safe key e mx cap (if allowed X safe key e mx cap paid p then paid @ [p] else paid) ps"

lemma paidUnder_cap: "(\<And>d. paidOn d paid \<le> cap) \<Longrightarrow> paidOn d (paidUnder X safe key e mx cap paid ps) \<le> cap"
proof (induction ps arbitrary: paid)
  case (Cons p ps)
  have "paidOn d' (if allowed X safe key e mx cap paid p then paid @ [p] else paid) \<le> cap" for d'
    using Cons.prems [of d'] by (auto simp: paidOn_snoc allowed_def)
  from Cons.IH [OF this] show ?case by simp
qed simp

text \<open>
  C31. A payment that was accepted first under a registered key is accepted again, on the same
  signature, after the same key is registered anew, as long as its deadline and the new expiry are ahead.
\<close>

theorem readded_key_replays:
  assumes "addSessionKey t0 safe key e0 mx cap m = Inr m0" and "cap < uintLimit"
    and "validateAndConsumeSession X t1 safe key to amount c deadline sig m0 = Inr m1"
    and "addSessionKey t2 safe key e2 mx cap m' = Inr m2" and "t3 \<le> deadline" and "t3 \<le> e2"
  shows "\<exists>m3. validateAndConsumeSession X t3 safe key to amount c deadline sig m2 = Inr m3"
proof -
  define p q where "p = \<lparr>poNow = t1, poTo = to, poAmount = amount, poCurrency = c, poDeadline = deadline, poSig = sig\<rparr>"
    and "q = p\<lparr>poNow := t3\<rparr>"
  have sel: "poNow p = t1" "poTo p = to" "poAmount p = amount" "poCurrency p = c" "poDeadline p = deadline" "poSig p = sig"
    "poNow q = t3" "poTo q = to" "poAmount q = amount" "poCurrency q = c" "poDeadline q = deadline" "poSig q = sig"
    by (simp_all add: p_def q_def)
  note a0 = addSessionKey_implements [OF assms(1)] and a2 = addSessionKey_implements [OF assms(4)]
  have "allowed X safe key e0 mx cap [] p"
    using consume_iff [where p = p and X = X and m' = m1 and m = m0 and safe = safe and key = key, OF a0(1) _ assms(2)] a0(2) assms(3) by (simp add: sel)
  then have "allowed X safe key e2 mx cap [] q"
    using assms(5,6) by (simp add: allowed_def sel paidOn_def)
  then show ?thesis
    using consume_iff [where p = q and X = X and m = m2 and safe = safe and key = key, OF a2(1) _ assms(2)] a2(2) by (simp add: sel)
qed

section \<open>Examples\<close>

text \<open>A key 9 whose signature over a digest is the digest's last byte, here the nonce.\<close>

definition demoSigner :: sessionEnv where
  "demoSigner = \<lparr>smDigest = (\<lambda>safe to amount c nonce deadline. of_nat nonce),
     smRecover = (\<lambda>d sig. if sig = [ucast d] then Some 9 else None), smModule = Some 7\<rparr>"

definition demoOrder :: "nat \<Rightarrow> nat \<Rightarrow> 8 word \<Rightarrow> payOrder" where
  "demoOrder now amount sig = \<lparr>poNow = now, poTo = 11, poAmount = amount, poCurrency = 5, poDeadline = 200000, poSig = [sig]\<rparr>"

lemmas demo_module = demoSigner_def demoOrder_def addSessionKey_def validateAndConsumeSession_def rollDay_def setSession_def
  allowed_def paidOn_def noSession_def add256_def guard_def uintLimit_def sbind_def Let_def

text \<open>
  Four orders under a cap of 50 per payment and 70 per day: the second repeats the first signature,
  the third exceeds the day, the fourth is on the next day.
\<close>

lemma module_refines_ledger_witness:
  "consumes demoSigner 10 9 (setSession 10 9 \<lparr>ssExpiry = 100000, ssMaxPerTx = 50, ssDailyCap = 70, ssDailySpent = 0,
      ssDayBucket = 0, ssNonce = 0, ssActive = True\<rparr> (\<lambda>_ _. noSession))
     [demoOrder 1000 40 0, demoOrder 1001 40 0, demoOrder 1002 40 1, demoOrder 90000 40 1] = [True, False, False, True]"
proof -
  let ?os = "[demoOrder 1000 40 0, demoOrder 1001 40 0, demoOrder 1002 40 1, demoOrder 90000 40 1]"
  let ?m = "setSession 10 9 \<lparr>ssExpiry = 100000, ssMaxPerTx = 50, ssDailyCap = 70, ssDailySpent = 0,
      ssDayBucket = 0, ssNonce = 0, ssActive = True\<rparr> (\<lambda>_ _. noSession)"
  have "addSessionKey 10 10 9 100000 50 70 (\<lambda>_ _. noSession) = Inr ?m" by (simp add: demo_module)
  moreover have "sorted (map poNow ?os)" by (simp add: demo_module)
  ultimately have "consumes demoSigner 10 9 ?m ?os = accepts demoSigner 10 9 100000 50 70 [] ?os"
    by (intro module_refines_ledger) (simp_all add: uintLimit_def)
  also have "\<dots> = [True, False, False, True]" by (simp add: demo_module)
  finally show ?thesis .
qed

lemma readded_key_replays_witness:
  "\<exists>m0 m1 m2 m3. addSessionKey 10 10 9 100000 50 70 (\<lambda>_ _. noSession) = Inr m0
     \<and> validateAndConsumeSession demoSigner 1000 10 9 11 40 5 4600 [0] m0 = Inr m1
     \<and> addSessionKey 2000 10 9 100000 50 70 m1 = Inr m2
     \<and> validateAndConsumeSession demoSigner 2001 10 9 11 40 5 4600 [0] m2 = Inr m3"
proof -
  obtain m0 where m0: "addSessionKey 10 10 9 100000 50 70 (\<lambda>_ _. noSession) = Inr m0" by (simp add: demo_module)
  then obtain m1 where m1: "validateAndConsumeSession demoSigner 1000 10 9 11 40 5 4600 [0] m0 = Inr m1"
    by (auto simp: demo_module)
  obtain m2 where m2: "addSessionKey 2000 10 9 100000 50 70 m1 = Inr m2" by (simp add: demo_module)
  have "\<exists>m3. validateAndConsumeSession demoSigner 2001 10 9 11 40 5 4600 [0] m2 = Inr m3"
    by (rule readded_key_replays [OF m0 _ m1 m2]) (simp_all add: uintLimit_def)
  then show ?thesis using m0 m1 m2 by blast
qed

end
