(* ===== verification/Session.thy ===== *)
theory Session
  imports Settlement SessionModule
begin

text \<open>
  \<open>safeRelayService.ts\<close>, \<open>sessionService.ts\<close> and \<open>appFeatures.ts\<close>: transactions of a consumer's Safe
  wallet that the server builds and relays, and the session keys under which it relays payments through
  \<open>SessionTransferModule.sol\<close>, whose \<open>executeTransfer\<close> stands here.

  The Safe contract is not in the repository: the record \<open>safeApi\<close> says what the server and the module
  call of it, over a state \<open>'w\<close> of its own: \<open>safeAccepts\<close>, whether \<open>execTransaction\<close> accepts the
  signatures, with its state afterwards (the transaction is then the call of a contract as the Safe, and a
  call that reverts undoes all), \<open>safeEnable\<close>, what \<open>enableModule\<close> does, the two hashes of a transaction,
  by \<open>ethers.TypedDataEncoder\<close> and by the contract, and \<open>abi.encode\<close> of a signature's four values. The
  data of a call is a datatype instead of its ABI encoding. A block's time is the server's clock, in seconds.
\<close>

datatype calldata =
    VaultTransfer address nat bytes32
  | AddSessionKey address nat nat nat
  | RemoveSessionKey address
  | EnableModule address

record safeTx =
  stTo :: address
  stValue :: nat
  stData :: calldata
  stOperation :: nat
  stSafeTxGas :: nat
  stBaseGas :: nat
  stGasPrice :: nat
  stGasToken :: address
  stRefundReceiver :: address
  stNonce :: nat

record 'w safeApi =
  safeDeployed :: "'w \<Rightarrow> address \<Rightarrow> bool"
  safeNonce :: "'w \<Rightarrow> address \<Rightarrow> nat option"
  safeOffChainHash :: "address \<Rightarrow> safeTx \<Rightarrow> string"
  safeOnChainHash :: "'w \<Rightarrow> address \<Rightarrow> safeTx \<Rightarrow> string"
  safeAccepts :: "'w \<Rightarrow> address \<Rightarrow> safeTx \<Rightarrow> byte list \<Rightarrow> 'w option"
  safeEnable :: "'w \<Rightarrow> address \<Rightarrow> address \<Rightarrow> 'w option"
  safeModuleOn :: "'w \<Rightarrow> address \<Rightarrow> address \<Rightarrow> bool"
  safeAbi :: "byte list \<times> string \<times> int \<times> int \<Rightarrow> byte list"

record sessionKeyRow =
  skWallet :: address
  skKey :: string
  skExpires :: rat
  skMaxPerTx :: int
  skDailyCap :: int
  skRevoked :: "int option"
  skCreated :: int

record 'w sessionDb = settleDb +
  safes :: 'w
  sessions :: sessions
  sessionKeys :: "sessionKeyRow list"
  featureCache :: "((string \<Rightarrow> bool) \<times> int) option"
  signerAddress :: "string \<Rightarrow> address option"

definition blockTime :: "'r io_scheme \<Rightarrow> nat" where
  "blockTime s = nat (clock s div 1000)"

section \<open>Contract calls\<close>

text \<open>The call of a Safe transaction, with the Safe as \<open>msg.sender\<close>; a call that no contract here answers reverts.\<close>

definition onSessions :: "(sessions \<Rightarrow> revert + sessions) \<Rightarrow> ('w, 'r) sessionDb_scheme \<Rightarrow> revert + ('w, 'r) sessionDb_scheme" where
  "onSessions f s = sbind (f (sessions s)) (\<lambda>m. Inr (s\<lparr>sessions := m\<rparr>))"

definition safeCall ::
  "env \<Rightarrow> sessionEnv \<Rightarrow> 'w safeApi \<Rightarrow> address \<Rightarrow> address \<Rightarrow> calldata \<Rightarrow> ('w, 'r) sessionDb_scheme \<Rightarrow> revert + ('w, 'r) sessionDb_scheme" where
  "safeCall E X A safe to data s = (case data of
      VaultTransfer dest amount c \<Rightarrow>
        if vaultAddr E = Some to then onVault (transfer (isRegistered s) safe dest amount c) s else Inl SafeReverted
    | AddSessionKey key e mx cap \<Rightarrow>
        if smModule X = Some to then onSessions (addSessionKey (blockTime s) safe key e mx cap) s else Inl SafeReverted
    | RemoveSessionKey key \<Rightarrow>
        if smModule X = Some to then onSessions (removeSessionKey safe key) s else Inl SafeReverted
    | EnableModule m \<Rightarrow>
        if to = safe then (case safeEnable A (safes s) safe m of None \<Rightarrow> Inl SafeReverted | Some w \<Rightarrow> Inr (s\<lparr>safes := w\<rparr>))
        else Inl SafeReverted)"

definition execTransaction ::
  "env \<Rightarrow> sessionEnv \<Rightarrow> 'w safeApi \<Rightarrow> address \<Rightarrow> safeTx \<Rightarrow> byte list \<Rightarrow> ('w, 'r) sessionDb_scheme \<Rightarrow> revert + ('w, 'r) sessionDb_scheme" where
  "execTransaction E X A safe t sigs s = (case safeAccepts A (safes s) safe t sigs of
      None \<Rightarrow> Inl SafeReverted
    | Some w \<Rightarrow> safeCall E X A safe (stTo t) (stData t) (s\<lparr>safes := w\<rparr>))"

definition executeTransfer ::
  "sessionEnv \<Rightarrow> 'w safeApi \<Rightarrow> address \<Rightarrow> address \<Rightarrow> address \<Rightarrow> address \<Rightarrow> nat \<Rightarrow> bytes32 \<Rightarrow> nat \<Rightarrow> byte list
    \<Rightarrow> ('w, 'r) sessionDb_scheme \<Rightarrow> revert + ('w, 'r) sessionDb_scheme" where
  "executeTransfer X A this safe key to amount c deadline sig s =
    sbind (onSessions (validateAndConsumeSession X (blockTime s) safe key to amount c deadline sig) s) (\<lambda>s1.
    sbind (guard (safeModuleOn A (safes s1) safe this) SafeReverted) (\<lambda>_.
    (case onVault (transfer (isRegistered s1) safe to amount c) s1 of
       Inl _ \<Rightarrow> Inl VaultTransferFailed | Inr s2 \<Rightarrow> Inr s2)))"

section \<open>Building and relaying\<close>

definition plainSafeTx :: "address \<Rightarrow> calldata \<Rightarrow> nat \<Rightarrow> safeTx" where
  "plainSafeTx to data nonce = \<lparr>stTo = to, stValue = 0, stData = data, stOperation = 0, stSafeTxGas = 0, stBaseGas = 0,
     stGasPrice = 0, stGasToken = 0, stRefundReceiver = 0, stNonce = nonce\<rparr>"

definition noModule :: failure where
  "noModule = plainErr ''No session transfer module configured''"

text \<open>The nonce, the transaction, and its two hashes, which must agree.\<close>

definition hashedSafeTx :: "'w safeApi \<Rightarrow> address \<Rightarrow> address \<Rightarrow> calldata \<Rightarrow> (('w, 'r) sessionDb_scheme, safeTx \<times> string) prog" where
  "hashedSafeTx A safe to data =
    andThen (readIO (\<lambda>s. safeNonce A (safes s) safe)) (\<lambda>n.
    andThen (ofOption n (plainErr ''could not decode result data'')) (\<lambda>nonce.
    let t = plainSafeTx to data nonce; off = safeOffChainHash A safe t in
    andThen (readIO (\<lambda>s. safeOnChainHash A (safes s) safe t)) (\<lambda>on.
    andThen (require (toLower off = toLower on)
      (plainErr (''SafeTx hash mismatch (off-chain '' @ off @ '' vs on-chain '' @ on @ '')''))) (\<lambda>_.
    ret (t, on)))))"

definition buildVaultTransferSafeTx ::
  "env \<Rightarrow> 'w safeApi \<Rightarrow> address \<Rightarrow> address \<Rightarrow> int \<Rightarrow> string \<Rightarrow> (('w, 'r) sessionDb_scheme, safeTx \<times> string) prog" where
  "buildVaultTransferSafeTx E A safe to amount cur =
    andThen (ofOption (vaultAddr E) (plainErr ''No vault address configured'')) (\<lambda>va.
    andThen (readIO (\<lambda>s. safeDeployed A (safes s) safe)) (\<lambda>deployed.
    andThen (require deployed (plainErr ''Sender Safe is not deployed on-chain'')) (\<lambda>_.
    andThen (uintArg amount) (\<lambda>n.
    hashedSafeTx A safe va (VaultTransfer to n (currencyHash E cur))))))"

definition buildEnableSessionModuleSafeTx :: "sessionEnv \<Rightarrow> 'w safeApi \<Rightarrow> address \<Rightarrow> (('w, 'r) sessionDb_scheme, safeTx \<times> string) prog" where
  "buildEnableSessionModuleSafeTx X A safe =
    andThen (ofOption (smModule X) noModule) (\<lambda>m. hashedSafeTx A safe safe (EnableModule m))"

text \<open>\<open>smModule\<close> is asserted to be set; the callers have checked it. The expiry is a \<open>uint64\<close>.\<close>

definition buildAddSessionKeySafeTx ::
  "env \<Rightarrow> sessionEnv \<Rightarrow> 'w safeApi \<Rightarrow> address \<Rightarrow> string \<Rightarrow> int \<Rightarrow> int \<Rightarrow> int \<Rightarrow> (('w, 'r) sessionDb_scheme, safeTx \<times> string) prog" where
  "buildAddSessionKeySafeTx E X A safe key expiry maxPerTx dailyCap =
    andThen (ofOption (getAddr E key) (plainErr ''bad address checksum'')) (\<lambda>k.
    andThen (require (0 \<le> expiry \<and> expiry < 2 ^ 64) (plainErr ''value out-of-bounds'')) (\<lambda>_.
    andThen (uintArg maxPerTx) (\<lambda>mx.
    andThen (uintArg dailyCap) (\<lambda>cap.
    hashedSafeTx A safe (orElse (smModule X) 0) (AddSessionKey k (nat expiry) mx cap)))))"

definition buildRemoveSessionKeySafeTx ::
  "env \<Rightarrow> sessionEnv \<Rightarrow> 'w safeApi \<Rightarrow> address \<Rightarrow> string \<Rightarrow> (('w, 'r) sessionDb_scheme, safeTx \<times> string) prog" where
  "buildRemoveSessionKeySafeTx E X A safe key =
    andThen (ofOption (getAddr E key) (plainErr ''bad address checksum'')) (\<lambda>k.
    hashedSafeTx A safe (orElse (smModule X) 0) (RemoveSessionKey k))"

definition backendWallet :: "env \<Rightarrow> ('s, address) prog" where
  "backendWallet E = ofOption (signer E) (plainErr ''No backend signer configured'')"

definition relaySafeTx ::
  "env \<Rightarrow> sessionEnv \<Rightarrow> 'w safeApi \<Rightarrow> address \<Rightarrow> address \<Rightarrow> safeTx \<Rightarrow> rawAssertion \<Rightarrow> (('w, 'r) sessionDb_scheme, txHash) prog" where
  "relaySafeTx E X A safe owner t assertion =
    andThen (backendWallet E) (\<lambda>_.
    andThen (ofSum (encodeWebAuthnSignature assertion)) (\<lambda>inner.
    sendTx (execTransaction E X A safe t (encodeSafeContractSignature owner (safeAbi A inner)))))"

definition isSessionModuleEnabledOnSafe :: "sessionEnv \<Rightarrow> 'w safeApi \<Rightarrow> address \<Rightarrow> (('w, 'r) sessionDb_scheme, bool) prog" where
  "isSessionModuleEnabledOnSafe X A safe = (case smModule X of None \<Rightarrow> ret False
     | Some m \<Rightarrow> tryCatch (readIO (\<lambda>s. safeModuleOn A (safes s) safe m)) (\<lambda>_. ret False))"

definition getOnChainSession :: "env \<Rightarrow> sessionEnv \<Rightarrow> address \<Rightarrow> string \<Rightarrow> (('w, 'r) sessionDb_scheme, session) prog" where
  "getOnChainSession E X safe key =
    andThen (ofOption (smModule X) noModule) (\<lambda>_.
    andThen (ofOption (getAddr E key) (plainErr ''bad address checksum'')) (\<lambda>k.
    readIO (\<lambda>s. sessions s safe k)))"

definition getSessionNonce :: "env \<Rightarrow> sessionEnv \<Rightarrow> address \<Rightarrow> string \<Rightarrow> (('w, 'r) sessionDb_scheme, nat) prog" where
  "getSessionNonce E X safe key = andThen (getOnChainSession E X safe key) (\<lambda>ss. ret (ssNonce ss))"

definition sessionTransferDigest ::
  "env \<Rightarrow> sessionEnv \<Rightarrow> address \<Rightarrow> string \<Rightarrow> address \<Rightarrow> int \<Rightarrow> string \<Rightarrow> int \<Rightarrow> (('w, 'r) sessionDb_scheme, bytes32) prog" where
  "sessionTransferDigest E X safe key to amount cur deadline =
    andThen (ofOption (smModule X) noModule) (\<lambda>_.
    andThen (ofOption (getAddr E key) (plainErr ''bad address checksum'')) (\<lambda>k.
    andThen (uintArg amount) (\<lambda>n.
    andThen (uintArg deadline) (\<lambda>d.
    readIO (\<lambda>s. sessionTransferHash X safe k to n (currencyHash E cur) d (sessions s))))))"

text \<open>A hexadecimal text as bytes, as ethers reads it (\<open>None\<close>: it rejects the text).\<close>

fun hexPairs :: "string \<Rightarrow> byte list" where
  "hexPairs (a # b # r) = of_nat (16 * hexVal a + hexVal b) # hexPairs r"
| "hexPairs _ = []"

definition bytesLike :: "string \<Rightarrow> byte list option" where
  "bytesLike t = (if take 2 t = ''0x'' \<and> even (length t) \<and> list_all isHexDigit (drop 2 t) then Some (hexPairs (drop 2 t)) else None)"

definition relaySessionTransfer ::
  "env \<Rightarrow> sessionEnv \<Rightarrow> 'w safeApi \<Rightarrow> address \<Rightarrow> string \<Rightarrow> address \<Rightarrow> int \<Rightarrow> string \<Rightarrow> int \<Rightarrow> string \<Rightarrow> (('w, 'r) sessionDb_scheme, txHash) prog" where
  "relaySessionTransfer E X A safe key to amount cur deadline signature =
    andThen (ofOption (smModule X) noModule) (\<lambda>m.
    andThen (backendWallet E) (\<lambda>_.
    andThen (ofOption (getAddr E key) (plainErr ''bad address checksum'')) (\<lambda>k.
    andThen (uintArg amount) (\<lambda>n.
    andThen (uintArg deadline) (\<lambda>d.
    andThen (ofOption (bytesLike signature) (plainErr ''invalid BytesLike value'')) (\<lambda>sig.
    sendTx (executeTransfer X A m safe k to n (currencyHash E cur) d sig)))))))"

section \<open>Feature flags\<close>

definition featureTtlMs :: int where
  "featureTtlMs = 15000"

definition isFeatureKey :: "string \<Rightarrow> bool" where
  "isFeatureKey k \<longleftrightarrow> take 8 k = ''feature.''"

definition loadFeatures :: "(('w, 'r) sessionDb_scheme, string \<Rightarrow> bool) prog" where
  "loadFeatures =
    andThen (gets (\<lambda>s. (featureCache s, clock s))) (\<lambda>(cache, now).
    let fetch = andThen (readIO appConfig) (\<lambda>rows.
          let next = (\<lambda>k. isFeatureKey k \<and> map_of rows k = Some ''true'') in
          andThen (modify (\<lambda>s. s\<lparr>featureCache := Some (next, now)\<rparr>)) (\<lambda>_. ret next)) in
    case cache of Some (flags, cacheAt) \<Rightarrow> if now - cacheAt < featureTtlMs then ret flags else fetch | None \<Rightarrow> fetch)"

definition isFeatureEnabled :: "string \<Rightarrow> (('w, 'r) sessionDb_scheme, bool) prog" where
  "isFeatureEnabled k = andThen loadFeatures (\<lambda>flags. ret (flags k))"

definition sessionKeysEnabled :: "(('w, 'r) sessionDb_scheme, bool) prog" where
  "sessionKeysEnabled = isFeatureEnabled ''feature.session_keys''"

section \<open>Session keys\<close>

definition sessionTtlSec :: int where
  "sessionTtlSec = 24 * 60 * 60"

definition sessionCapDecimals :: nat where
  "sessionCapDecimals = 6"

definition sessionFeatureReady :: "sessionEnv \<Rightarrow> (('w, 'r) sessionDb_scheme, bool) prog" where
  "sessionFeatureReady X = andThen sessionKeysEnabled (\<lambda>on. ret (on \<and> smModule X \<noteq> None))"

text \<open>Amounts in the six decimals of the caps, for the check of the server.\<close>

definition normalizeVaultAmount :: "int \<Rightarrow> string \<Rightarrow> int" where
  "normalizeVaultAmount amountUnits cur =
    (let dec = currencyDecimals cur in
     if dec = sessionCapDecimals then amountUnits
     else if sessionCapDecimals < dec then bigDiv amountUnits (10 ^ (dec - sessionCapDecimals))
     else amountUnits * 10 ^ (sessionCapDecimals - dec))"

definition defaultSessionCaps :: "env \<Rightarrow> ('s, int \<times> int) prog" where
  "defaultSessionCaps E =
    andThen (ofOption (parseUnits E ''5000'' sessionCapDecimals) (plainErr ''invalid FixedNumber string value'')) (\<lambda>maxPerTx.
    andThen (ofOption (parseUnits E ''20000'' sessionCapDecimals) (plainErr ''invalid FixedNumber string value'')) (\<lambda>dailyCap.
    ret (maxPerTx, dailyCap)))"

text \<open>The limit and the normalized amount when the cap of a transaction is exceeded; the daily cap is not looked at.\<close>

definition sessionAmountWithinCaps :: "int \<Rightarrow> string \<Rightarrow> int \<Rightarrow> (int \<times> int) option" where
  "sessionAmountWithinCaps amountUnits cur maxPerTx =
    (let normalized = normalizeVaultAmount amountUnits cur in
     if maxPerTx < normalized then Some (maxPerTx, normalized) else None)"

definition sessionNeedsRenewal :: "env \<Rightarrow> sessionEnv \<Rightarrow> address \<Rightarrow> string \<Rightarrow> (('w, 'r) sessionDb_scheme, bool) prog" where
  "sessionNeedsRenewal E X wallet key =
    andThen (defaultSessionCaps E) (\<lambda>(maxPerTx, _).
    andThen (getOnChainSession E X wallet key) (\<lambda>onChain.
    ret (if \<not> ssActive onChain then True else int (ssMaxPerTx onChain) < maxPerTx)))"

definition getActiveSession :: "env \<Rightarrow> sessionEnv \<Rightarrow> address \<Rightarrow> (('w, 'r) sessionDb_scheme, sessionKeyRow option) prog" where
  "getActiveSession E X wallet =
    andThen (readIO (\<lambda>s. headOpt (sort_key (\<lambda>r. - skCreated r) (filter (\<lambda>r. skWallet r = wallet \<and> skRevoked r = None
       \<and> of_int (clock s) / 1000 < skExpires r) (sessionKeys s))))) (\<lambda>row.
    case row of None \<Rightarrow> ret None
    | Some r \<Rightarrow> andThen (sessionNeedsRenewal E X wallet (skKey r)) (\<lambda>renew. ret (if renew then None else Some r)))"

text \<open>What the client is asked to sign next: the module's activation, or the key with its expiry and caps.\<close>

datatype sessionStep = EnableStep safeTx string | AddStep safeTx string int int int

definition buildSessionStartPrepare ::
  "env \<Rightarrow> sessionEnv \<Rightarrow> 'w safeApi \<Rightarrow> address \<Rightarrow> string \<Rightarrow> (('w, 'r) sessionDb_scheme, sessionStep) prog" where
  "buildSessionStartPrepare E X A wallet key =
    andThen (sessionFeatureReady X) (\<lambda>ready.
    andThen (require ready (plainErr ''Session keys are not enabled or SESSION_TRANSFER_MODULE_ADDRESS is not configured'')) (\<lambda>_.
    andThen (require (getAddr E key \<noteq> None) (plainErr ''Invalid session address'')) (\<lambda>_.
    andThen (isSessionModuleEnabledOnSafe X A wallet) (\<lambda>enabled.
    if \<not> enabled then andThen (buildEnableSessionModuleSafeTx X A wallet) (\<lambda>(t, h). ret (EnableStep t h))
    else
      andThen (gets (\<lambda>s. clock s div 1000 + sessionTtlSec)) (\<lambda>expiry.
      andThen (defaultSessionCaps E) (\<lambda>(maxPerTx, dailyCap).
      andThen (buildAddSessionKeySafeTx E X A wallet key expiry maxPerTx dailyCap) (\<lambda>(t, h).
      ret (AddStep t h expiry maxPerTx dailyCap))))))))"

definition relaySessionSetupTx ::
  "env \<Rightarrow> sessionEnv \<Rightarrow> 'w safeApi \<Rightarrow> address \<Rightarrow> address \<Rightarrow> safeTx \<Rightarrow> rawAssertion \<Rightarrow> (('w, 'r) sessionDb_scheme, txHash) prog" where
  "relaySessionSetupTx E X A wallet owner t assertion = relaySafeTx E X A wallet owner t assertion"

text \<open>
  The row of the key, replaced when the wallet has it. The expiry and the caps are texts of the client:
  \<open>double precision\<close> seconds, and two \<open>BIGINT\<close>s.
\<close>

definition upsertSession :: "address \<Rightarrow> string \<Rightarrow> rat \<Rightarrow> int \<Rightarrow> int \<Rightarrow> int \<Rightarrow> sessionKeyRow list \<Rightarrow> sessionKeyRow list" where
  "upsertSession wallet key e mx cap now rows =
    (let row = \<lparr>skWallet = wallet, skKey = key, skExpires = e, skMaxPerTx = mx, skDailyCap = cap, skRevoked = None, skCreated = now\<rparr> in
     if \<exists>r\<in>set rows. skWallet r = wallet \<and> skKey r = key
     then updWhere (\<lambda>r. skWallet r = wallet \<and> skKey r = key) (\<lambda>_. row) rows else rows @ [row])"

definition bigIntColumn :: "string \<Rightarrow> int option" where
  "bigIntColumn t = (case bigIntOf t of Some n \<Rightarrow> if - (2 ^ 63) \<le> n \<and> n < 2 ^ 63 \<and> trim t \<noteq> [] then Some n else None | None \<Rightarrow> None)"

definition completeSessionStart ::
  "env \<Rightarrow> sessionEnv \<Rightarrow> 'w safeApi \<Rightarrow> address \<Rightarrow> string \<Rightarrow> address \<Rightarrow> safeTx \<Rightarrow> rawAssertion \<Rightarrow> string \<Rightarrow> string \<Rightarrow> string
    \<Rightarrow> (('w, 'r) sessionDb_scheme, txHash) prog" where
  "completeSessionStart E X A wallet key owner t assertion expiry maxPerTx dailyCap =
    andThen (writeIO (\<lambda>s. s\<lparr>sessionKeys := updWhere (\<lambda>r. skWallet r = wallet \<and> skRevoked r = None)
       (\<lambda>r. r\<lparr>skRevoked := Some (clock s)\<rparr>) (sessionKeys s)\<rparr>)) (\<lambda>_.
    andThen (relaySafeTx E X A wallet owner t assertion) (\<lambda>tx.
    andThen (io (\<lambda>s. case (numberOf expiry, bigIntColumn maxPerTx, bigIntColumn dailyCap) of
        (Some e, Some mx, Some cap) \<Rightarrow> Inr ((), s\<lparr>sessionKeys := upsertSession wallet key e mx cap (clock s) (sessionKeys s)\<rparr>)
      | _ \<Rightarrow> Inl (plainErr ''invalid input syntax''))) (\<lambda>_.
    ret tx)))"

definition buildSessionRevokePrepare ::
  "env \<Rightarrow> sessionEnv \<Rightarrow> 'w safeApi \<Rightarrow> address \<Rightarrow> string \<Rightarrow> (('w, 'r) sessionDb_scheme, safeTx \<times> string) prog" where
  "buildSessionRevokePrepare E X A wallet key =
    andThen (sessionFeatureReady X) (\<lambda>ready.
    andThen (require ready (plainErr ''Session keys are not enabled'')) (\<lambda>_.
    buildRemoveSessionKeySafeTx E X A wallet key))"

definition completeSessionRevoke ::
  "env \<Rightarrow> sessionEnv \<Rightarrow> 'w safeApi \<Rightarrow> address \<Rightarrow> string \<Rightarrow> address \<Rightarrow> safeTx \<Rightarrow> rawAssertion \<Rightarrow> (('w, 'r) sessionDb_scheme, txHash) prog" where
  "completeSessionRevoke E X A wallet key owner t assertion =
    andThen (relaySafeTx E X A wallet owner t assertion) (\<lambda>tx.
    andThen (writeIO (\<lambda>s. s\<lparr>sessionKeys := updWhere (\<lambda>r. skWallet r = wallet \<and> toLower (skKey r) = toLower key)
       (\<lambda>r. r\<lparr>skRevoked := Some (clock s)\<rparr>) (sessionKeys s)\<rparr>)) (\<lambda>_.
    ret tx))"

definition relaySessionPayment ::
  "env \<Rightarrow> sessionEnv \<Rightarrow> 'w safeApi \<Rightarrow> address \<Rightarrow> string \<Rightarrow> address \<Rightarrow> int \<Rightarrow> string \<Rightarrow> int \<Rightarrow> string \<Rightarrow> (('w, 'r) sessionDb_scheme, txHash) prog" where
  "relaySessionPayment E X A wallet key to amount cur deadline sig = relaySessionTransfer E X A wallet key to amount cur deadline sig"

definition nextSessionTransferNonce :: "env \<Rightarrow> sessionEnv \<Rightarrow> address \<Rightarrow> string \<Rightarrow> (('w, 'r) sessionDb_scheme, nat) prog" where
  "nextSessionTransferNonce E X wallet key = getSessionNonce E X wallet key"

end
