(* ===== verification/Transfers.thy ===== *)
theory Transfers
  imports Session
begin

text \<open>
  The payment routes of \<open>consumer.routes.ts\<close>: the session keys of a wallet, transfers by passkey or by
  session key (payments between users and purchases held in escrow), sends to a phone, and the routes of
  checkout quotes and withdrawals. A prepared transaction waits in a map in memory for its signature.
  The wallet and the consumer of the caller are those of the token. Random values are arguments.
\<close>

record pendingTransfer =
  ptTx :: safeTx
  ptSender :: address
  ptTo :: address
  ptAmount :: int
  ptCurrency :: string
  ptExpiry :: int
  ptPhone :: "string option"
  ptSale :: "saleContext option"

record pendingSessionTransfer =
  psSender :: address
  psTo :: address
  psAmount :: int
  psCurrency :: string
  psKey :: string
  psDeadline :: int
  psExpiry :: int
  psSale :: "saleContext option"

record 'w transferDb = "'w sessionDb" +
  pendingTransfers :: "string \<Rightarrow> pendingTransfer option"
  pendingSessions :: "string \<Rightarrow> pendingSessionTransfer option"
  brandCache :: "(string \<times> int) option"

definition sweepPending :: "(('w, 'r) transferDb_scheme, unit) prog" where
  "sweepPending = modify (\<lambda>s. s\<lparr>
     pendingTransfers := (\<lambda>h. case pendingTransfers s h of None \<Rightarrow> None | Some p \<Rightarrow> if ptExpiry p < clock s then None else Some p),
     pendingSessions := (\<lambda>h. case pendingSessions s h of None \<Rightarrow> None | Some p \<Rightarrow> if psExpiry p < clock s then None else Some p)\<rparr>)"

definition putPending :: "string \<Rightarrow> (int \<Rightarrow> pendingTransfer) \<Rightarrow> (('w, 'r) transferDb_scheme, unit) prog" where
  "putPending h p = modify (\<lambda>s. s\<lparr>pendingTransfers := (pendingTransfers s)(h := Some (p (clock s + pendingTtlMs)))\<rparr>)"

definition dropPending :: "string \<Rightarrow> (('w, 'r) transferDb_scheme, unit) prog" where
  "dropPending h = modify (\<lambda>s. s\<lparr>pendingTransfers := (pendingTransfers s)(h := None)\<rparr>)"

text \<open>The live entry of a hash: absent or expired is \<open>None\<close>.\<close>

definition livePending :: "string \<Rightarrow> ('w, 'r) transferDb_scheme \<Rightarrow> pendingTransfer option" where
  "livePending h s = (case pendingTransfers s h of None \<Rightarrow> None | Some p \<Rightarrow> if ptExpiry p < clock s then None else Some p)"

section \<open>Hexadecimal text\<close>

text \<open>\<open>Buffer.from(t, 'hex')\<close> reads pairs of digits up to the first that is none.\<close>

fun bufFromHex :: "string \<Rightarrow> byte list" where
  "bufFromHex (a # b # r) = (if isHexDigit a \<and> isHexDigit b then of_nat (16 * hexVal a + hexVal b) # bufFromHex r else [])"
| "bufFromHex _ = []"

definition hexDigit :: "nat \<Rightarrow> char" where
  "hexDigit n = char_of (if n < 10 then 48 + n else 87 + n)"

definition hexOfBuf :: "byte list \<Rightarrow> string" where
  "hexOfBuf b = concat (map (\<lambda>x. [hexDigit (unat x div 16), hexDigit (unat x mod 16)]) b)"

text \<open>The challenge of a Safe transaction's hash, and the hash a signed challenge stands for.\<close>

definition challengeOfHash :: "string \<Rightarrow> string" where
  "challengeOfHash h = bufToB64url (bufFromHex (drop 2 h))"

definition hashOfChallenge :: "string \<Rightarrow> string" where
  "hashOfChallenge c = ''0x'' @ hexOfBuf (b64urlToBuf c)"

section \<open>Session keys\<close>

record sessionStatus =
  svEnabled :: bool
  svActive :: bool
  svKey :: "string option"
  svExpires :: "rat option"

definition sessionStatusRoute :: "env \<Rightarrow> sessionEnv \<Rightarrow> address \<Rightarrow> (('w, 'r) transferDb_scheme, sessionStatus reply) prog" where
  "sessionStatusRoute E X wallet = tryCatch
    (andThen (sessionFeatureReady X) (\<lambda>enabled.
     if \<not> enabled then ret (Reply \<lparr>svEnabled = False, svActive = False, svKey = None, svExpires = None\<rparr>)
     else andThen (getActiveSession E X wallet) (\<lambda>ss.
       ret (Reply \<lparr>svEnabled = True, svActive = (ss \<noteq> None), svKey = map_option skKey ss, svExpires = map_option skExpires ss\<rparr>))))
    (\<lambda>e. ret (ReplyErr 500 (fmsg e) None))"

text \<open>The hash, the challenge, the key and, for the registration of the key, its expiry and caps.\<close>

record setupPrepared =
  upHash :: string
  upChallenge :: string
  upKey :: string
  upCaps :: "(string \<times> string \<times> string) option"

definition setupPending :: "safeTx \<Rightarrow> address \<Rightarrow> address \<Rightarrow> int \<Rightarrow> pendingTransfer" where
  "setupPending t wallet key expiry = \<lparr>ptTx = t, ptSender = wallet, ptTo = key, ptAmount = 0, ptCurrency = ''ZAR'',
     ptExpiry = expiry, ptPhone = None, ptSale = None\<rparr>"

definition stepParts :: "sessionStep \<Rightarrow> safeTx \<times> string \<times> (string \<times> string \<times> string) option" where
  "stepParts st = (case st of EnableStep t h \<Rightarrow> (t, h, None) | AddStep t h e mx cap \<Rightarrow> (t, h, Some (showInt e, showInt mx, showInt cap)))"

definition sessionStartPrepare ::
  "env \<Rightarrow> sessionEnv \<Rightarrow> 'w safeApi \<Rightarrow> address \<Rightarrow> string option \<Rightarrow> (('w, 'r) transferDb_scheme, setupPrepared reply) prog" where
  "sessionStartPrepare E X A wallet keyGiven = tryCatch
    (case nonEmpty keyGiven of None \<Rightarrow> ret (ReplyErr 400 ''sessionAddress required'' None)
     | Some key \<Rightarrow>
       andThen (buildSessionStartPrepare E X A wallet key) (\<lambda>st.
       case stepParts st of (t, h, caps) \<Rightarrow>
       andThen sweepPending (\<lambda>_.
       andThen (putPending h (setupPending t wallet (orElse (getAddr E key) 0))) (\<lambda>_.
       ret (Reply \<lparr>upHash = h, upChallenge = challengeOfHash h, upKey = key, upCaps = caps\<rparr>)))))
    (\<lambda>e. ret (ReplyErr 500 (fmsg e) None))"

definition sessionRevokePrepare ::
  "env \<Rightarrow> sessionEnv \<Rightarrow> 'w safeApi \<Rightarrow> address \<Rightarrow> string option \<Rightarrow> (('w, 'r) transferDb_scheme, setupPrepared reply) prog" where
  "sessionRevokePrepare E X A wallet keyGiven = tryCatch
    (case nonEmpty keyGiven of None \<Rightarrow> ret (ReplyErr 400 ''sessionAddress required'' None)
     | Some key \<Rightarrow>
       andThen (buildSessionRevokePrepare E X A wallet key) (\<lambda>(t, h).
       andThen sweepPending (\<lambda>_.
       andThen (putPending h (setupPending t wallet (orElse (getAddr E key) 0))) (\<lambda>_.
       ret (Reply \<lparr>upHash = h, upChallenge = challengeOfHash h, upKey = key, upCaps = None\<rparr>)))))
    (\<lambda>e. ret (ReplyErr 500 (fmsg e) None))"

text \<open>The fields of a submitted body; a missing field is \<open>None\<close>.\<close>

record submitBody =
  sbHash :: "string option"
  sbCredential :: "string option"
  sbAuthData :: "string option"
  sbClientData :: "string option"
  sbSignature :: "string option"

definition noField :: failure where
  "noField = plainErr ''Cannot read properties of undefined''"

definition bodyAssertion :: "submitBody \<Rightarrow> ('s, rawAssertion) prog" where
  "bodyAssertion b =
    andThen (ofOption (sbAuthData b) noField) (\<lambda>ad.
    andThen (ofOption (sbClientData b) noField) (\<lambda>cd.
    andThen (ofOption (sbSignature b) noField) (\<lambda>sg.
    ret \<lparr>raAuthData = b64urlToBuf ad, raClientData = b64urlToBuf cd, raSignature = b64urlToBuf sg\<rparr>)))"

text \<open>\<open>signer_address\<close> of a credential that exists.\<close>

definition signerOf :: "string option \<Rightarrow> (('w, 'r) transferDb_scheme, address option) prog" where
  "signerOf credential = readIO (\<lambda>s. case credential of None \<Rightarrow> None
     | Some i \<Rightarrow> if \<exists>c\<in>set (credentials s). crId c = i then signerAddress s i else None)"

text \<open>
  The submission of a session step relays the pending transaction of the hash from the caller's Safe; the
  key, the expiry and the caps that are stored are those of the body.
\<close>

record startBody = submitBody +
  sbKey :: "string option"
  sbExpiry :: "string option"
  sbMaxPerTx :: "string option"
  sbDailyCap :: "string option"
  sbStep :: "string option"

definition sessionStartSubmit ::
  "env \<Rightarrow> sessionEnv \<Rightarrow> 'w safeApi \<Rightarrow> address \<Rightarrow> startBody \<Rightarrow> (('w, 'r) transferDb_scheme, (string \<times> txHash \<times> string) reply) prog" where
  "sessionStartSubmit E X A wallet b = tryCatch
    (case (nonEmpty (sbHash b), nonEmpty (sbCredential b), nonEmpty (sbKey b)) of
      (Some h, Some cred, Some key) \<Rightarrow>
        andThen (gets (livePending h)) (\<lambda>p. case p of
          None \<Rightarrow> ret (ReplyErr 410 ''Session setup expired - try again'' (Some ''EXPIRED''))
        | Some pending \<Rightarrow>
          andThen (signerOf (Some cred)) (\<lambda>sg. case sg of
            None \<Rightarrow> ret (ReplyErr 404 ''Unknown passkey credential'' None)
          | Some owner \<Rightarrow>
            andThen (bodyAssertion (submitBody.truncate b)) (\<lambda>assertion.
            if sbStep b = Some ''enableModule'' then
              andThen (relaySessionSetupTx E X A wallet owner (ptTx pending) assertion) (\<lambda>tx.
              andThen (dropPending h) (\<lambda>_. ret (Reply (''enableModule'', tx, key))))
            else (case nonEmpty (sbExpiry b) of
              None \<Rightarrow> ret (ReplyErr 400 ''expiry required for addSessionKey step'' None)
            | Some expiry \<Rightarrow>
              andThen (defaultSessionCaps E) (\<lambda>(mx, cap).
              andThen (completeSessionStart E X A wallet key owner (ptTx pending) assertion expiry
                (orElse (sbMaxPerTx b) (showInt mx)) (orElse (sbDailyCap b) (showInt cap))) (\<lambda>tx.
              andThen (dropPending h) (\<lambda>_. ret (Reply (''addSessionKey'', tx, key)))))))))
    | _ \<Rightarrow> ret (ReplyErr 400 ''Missing fields'' None))
    (\<lambda>e. ret (ReplyErr 500 (fmsg e) None))"

definition sessionRevokeSubmit ::
  "env \<Rightarrow> sessionEnv \<Rightarrow> 'w safeApi \<Rightarrow> address \<Rightarrow> submitBody \<Rightarrow> string option \<Rightarrow> (('w, 'r) transferDb_scheme, txHash reply) prog" where
  "sessionRevokeSubmit E X A wallet b keyGiven = tryCatch
    (andThen (gets (\<lambda>s. case sbHash b of None \<Rightarrow> None | Some h \<Rightarrow> livePending h s)) (\<lambda>p. case p of
      None \<Rightarrow> ret (ReplyErr 410 ''Revoke expired - try again'' (Some ''EXPIRED''))
    | Some pending \<Rightarrow>
      andThen (signerOf (sbCredential b)) (\<lambda>sg. case sg of
        None \<Rightarrow> ret (ReplyErr 404 ''Unknown passkey credential'' None)
      | Some owner \<Rightarrow>
        andThen (bodyAssertion b) (\<lambda>assertion.
        andThen (completeSessionRevoke E X A wallet (orElse keyGiven []) owner (ptTx pending) assertion) (\<lambda>tx.
        andThen (dropPending (orElse (sbHash b) [])) (\<lambda>_. ret (Reply tx)))))))
    (\<lambda>e. ret (ReplyErr 500 (fmsg e) None))"

section \<open>Preparing a transfer\<close>

text \<open>
  A purchase goes to the escrow account, which pays the merchant of the context after fulfilment; a
  charge in another currency fixes the amount and the currency paid. The context, the destination, the
  amount and the currency.
\<close>

definition holdPurchase ::
  "env \<Rightarrow> string \<Rightarrow> saleContext \<Rightarrow> address \<Rightarrow> ('r salesDb_scheme, saleContext \<times> address) prog" where
  "holdPurchase E base sale to =
    andThen (case nonEmpty (scMerchant sale) of None \<Rightarrow> ret None
       | Some m \<Rightarrow> readIO (\<lambda>s. case findMerchant m s of None \<Rightarrow> None | Some r \<Rightarrow> merchantWallet r)) (\<lambda>w.
    andThen (resolveFulfilmentUrl base (scProduct sale) (scMerchant sale)) (\<lambda>url.
    andThen (escrowAddress E) (\<lambda>escrow.
    ret (sale\<lparr>scMerchantWallet := Some (orElse w to), scUrl := Some url, scEscrowHold := Some True\<rparr>, escrow))))"

definition fixCharge ::
  "env \<Rightarrow> saleContext option \<Rightarrow> address \<Rightarrow> string \<Rightarrow> string \<Rightarrow> ('r salesDb_scheme, saleContext option \<times> string \<times> string) prog" where
  "fixCharge E sale to amount cur = (case sale of None \<Rightarrow> ret (None, amount, cur)
    | Some x \<Rightarrow> (case (nonEmpty (scChargeCur x), nonEmpty (scCharge x), nonEmpty (scMerchant x)) of
        (Some chargeCur, Some charge, Some m) \<Rightarrow>
          andThen (resolveMerchantCheckout E m (orElse (scMerchantWallet x) to) (scStoreId x) charge chargeCur (Some cur) (Some amount)) (\<lambda>q.
          ret (Some (x\<lparr>scCharge := Some (cqCharge q), scChargeCur := Some (cqChargeCur q), scFxRate := Some (cqRate q)\<rparr>), cqPay q, cqPayCur q))
      | _ \<Rightarrow> ret (sale, amount, cur)))"

text \<open>The checks before the user signs: the refusal they give, if any.\<close>

definition preflight ::
  "env \<Rightarrow> string \<Rightarrow> address \<Rightarrow> address \<Rightarrow> bool \<Rightarrow> int \<Rightarrow> string \<Rightarrow> spendType \<Rightarrow> ('r platform_scheme, (nat \<times> string \<times> string option) option) prog" where
  "preflight E consumer wallet to bareOx amount cur st =
    andThen (isRegisteredConsumer E (Some wallet)) (\<lambda>senderReg.
    andThen (isRegisteredConsumer E (Some to)) (\<lambda>recipientReg.
    andThen (isTrustedCounterparty E (Some to)) (\<lambda>trusted.
    andThen (unifiedBalanceOf E wallet cur) (\<lambda>balance.
    if \<not> senderReg then ret (Some (403, ''Your account is not registered yet'', Some ''SENDER_UNREGISTERED''))
    else if \<not> recipientReg \<and> \<not> trusted then
      ret (Some (if bareOx then (409, ''External wallet - withdraw USDC instead of an internal transfer'', Some ''EXTERNAL_WALLET'')
        else (409, ''Recipient is not registered yet. Send to escrow until they onboard.'', Some ''RECIPIENT_UNVERIFIED'')))
    else if balance < amount then ret (Some (409, ''Insufficient balance'', Some ''INSUFFICIENT_BALANCE''))
    else andThen (assertKycSendAllowed E \<lparr>spConsumer = consumer, spWallet = wallet, spAmount = amount, spCurrency = cur, spType = st\<rparr>) (\<lambda>k.
      ret (case k of SpendOk l a b u \<Rightarrow> None | SpendFail c m \<Rightarrow> Some (403, m, Some (spendCodeText c))))))))"

datatype transferPrepared =
    SessionMode string bytes32 string string address string string
  | PasskeyMode string string address string string nat

text \<open>The transfer under the active session: within its cap per transaction, on the server and on the chain.\<close>

definition prepareBySession ::
  "env \<Rightarrow> sessionEnv \<Rightarrow> string \<Rightarrow> address \<Rightarrow> sessionKeyRow \<Rightarrow> address \<Rightarrow> int \<Rightarrow> string \<Rightarrow> string \<Rightarrow> saleContext option
    \<Rightarrow> (('w, 'r) transferDb_scheme, transferPrepared reply) prog" where
  "prepareBySession E X transferId wallet ss to amount amountText cur sale =
    (if sessionAmountWithinCaps amount cur (skMaxPerTx ss) \<noteq> None
     then ret (ReplyErr 409 ''Amount exceeds session per-transaction limit - a new session will be started'' (Some ''SESSION_CAP_EXCEEDED''))
     else
       andThen (getOnChainSession E X wallet (skKey ss)) (\<lambda>onChain.
       if int (ssMaxPerTx onChain) < amount
       then ret (ReplyErr 409 ''Session limits are outdated - please try again to register a new session'' (Some ''SESSION_CAP_EXCEEDED''))
       else
         andThen (gets (\<lambda>s. clock s div 1000 + 3600)) (\<lambda>deadline.
         andThen (sessionTransferDigest E X wallet (skKey ss) to amount cur deadline) (\<lambda>digest.
         andThen (modify (\<lambda>s. s\<lparr>pendingSessions := (pendingSessions s)(transferId := Some
            \<lparr>psSender = wallet, psTo = to, psAmount = amount, psCurrency = cur, psKey = skKey ss, psDeadline = deadline,
              psExpiry = clock s + pendingTtlMs, psSale = sale\<rparr>)\<rparr>)) (\<lambda>_.
         ret (Reply (SessionMode transferId digest (showInt deadline) (skKey ss) to amountText cur)))))))"

definition prepareByPasskey ::
  "env \<Rightarrow> 'w safeApi \<Rightarrow> address \<Rightarrow> address \<Rightarrow> int \<Rightarrow> string \<Rightarrow> string \<Rightarrow> saleContext option
    \<Rightarrow> (('w, 'r) transferDb_scheme, transferPrepared reply) prog" where
  "prepareByPasskey E A wallet to amount amountText cur sale =
    andThen (buildVaultTransferSafeTx E A wallet to amount cur) (\<lambda>(t, h).
    andThen (putPending h (\<lambda>e. \<lparr>ptTx = t, ptSender = wallet, ptTo = to, ptAmount = amount, ptCurrency = cur, ptExpiry = e,
       ptPhone = None, ptSale = sale\<rparr>)) (\<lambda>_.
    ret (Reply (PasskeyMode h (challengeOfHash h) to amountText cur (stNonce t)))))"

record prepareBody =
  pbTo :: "string option"
  pbAmount :: "string option"
  pbCurrency :: "string option"
  pbSale :: "saleContext option"

definition transferPrepare ::
  "env \<Rightarrow> sessionEnv \<Rightarrow> 'w safeApi \<Rightarrow> string \<Rightarrow> string \<Rightarrow> string \<Rightarrow> address \<Rightarrow> prepareBody
    \<Rightarrow> (('w, 'r) transferDb_scheme, transferPrepared reply) prog" where
  "transferPrepare E X A base transferId consumer wallet b = tryCatch
    (case (nonEmpty (pbTo b), nonEmpty (pbAmount b), nonEmpty (pbCurrency b)) of
      (Some toRaw, Some amountGiven, Some curGiven) \<Rightarrow>
        andThen (resolveWalletOrTag E toRaw) (\<lambda>resolved.
        if resolved = wallet then ret (ReplyErr 400 ''Cannot send to yourself'' None)
        else
          andThen (case pbSale b of None \<Rightarrow> ret (None, resolved)
             | Some sale \<Rightarrow> andThen (holdPurchase E base sale resolved) (\<lambda>(x, a). ret (Some x, a))) (\<lambda>(held, to).
          andThen (fixCharge E held to amountGiven (toUpper curGiven)) (\<lambda>(sale, amountText, cur).
          case parseUnits E amountText (saleDecimals cur) of None \<Rightarrow> ret (ReplyErr 400 ''Invalid amount'' None)
          | Some amount \<Rightarrow>
            if amount \<le> 0 then ret (ReplyErr 400 ''Amount must be positive'' None)
            else
              andThen (preflight E consumer wallet to (isHexAddress (trim toRaw)) amount cur (if sale = None then P2p else Purchase)) (\<lambda>r. case r of
                Some (st, m, c) \<Rightarrow> ret (ReplyErr st m c)
              | None \<Rightarrow>
                andThen sweepPending (\<lambda>_.
                andThen (sessionFeatureReady X) (\<lambda>ready.
                andThen (if ready then getActiveSession E X wallet else ret None) (\<lambda>active. case active of
                  Some ss \<Rightarrow> prepareBySession E X transferId wallet ss to amount amountText cur sale
                | None \<Rightarrow> prepareByPasskey E A wallet to amount amountText cur sale)))))))
    | _ \<Rightarrow> ret (ReplyErr 400 ''Missing to, amount, or currency'' None))
    (\<lambda>e. ret (ReplyErr 500 (fmsg e) None))"

section \<open>Submitting a transfer\<close>

record transferReply =
  trTx :: txHash
  trTo :: address
  trAmount :: string
  trCurrency :: string
  trSale :: "nat option"
  trPending :: bool

text \<open>The sale and the spend event of a payment that has been relayed.\<close>

definition bookPayment ::
  "env \<Rightarrow> string \<Rightarrow> saleContext option \<Rightarrow> address \<Rightarrow> address \<Rightarrow> int \<Rightarrow> string \<Rightarrow> spendType \<Rightarrow> txHash \<Rightarrow> ('r salesDb_scheme, transferReply reply) prog" where
  "bookPayment E consumer sale sender to amount cur st tx =
    (let payee = (case sale of None \<Rightarrow> to | Some x \<Rightarrow> orElse (scMerchantWallet x) to) in
     andThen (recordMerchantSale sale to sender amount cur tx) (\<lambda>meta.
     andThen (recordSpendEvent E \<lparr>spConsumer = consumer, spWallet = sender, spAmount = amount, spCurrency = cur, spType = st\<rparr>
       None (Some (ToWallet payee)) (Some tx)) (\<lambda>_.
     ret (Reply \<lparr>trTx = tx, trTo = payee, trAmount = showInt amount, trCurrency = cur, trSale = map_option fst meta,
       trPending = (case meta of None \<Rightarrow> False | Some (i, hold) \<Rightarrow> hold)\<rparr>))))"

definition submitBySession ::
  "env \<Rightarrow> sessionEnv \<Rightarrow> 'w safeApi \<Rightarrow> string \<Rightarrow> address \<Rightarrow> string \<Rightarrow> string \<Rightarrow> (('w, 'r) transferDb_scheme, transferReply reply) prog" where
  "submitBySession E X A consumer wallet transferId signature =
    andThen (gets (\<lambda>s. (pendingSessions s transferId, clock s))) (\<lambda>(p, now). case p of
      None \<Rightarrow> ret (ReplyErr 410 ''Transfer expired - please start again'' (Some ''EXPIRED''))
    | Some pending \<Rightarrow>
      if psExpiry pending < now then ret (ReplyErr 410 ''Transfer expired - please start again'' (Some ''EXPIRED''))
      else if psSender pending \<noteq> wallet then ret (ReplyErr 403 ''Transfer does not belong to this account'' None)
      else
        andThen (relaySessionPayment E X A (psSender pending) (psKey pending) (psTo pending) (psAmount pending)
          (psCurrency pending) (psDeadline pending) signature) (\<lambda>tx.
        andThen (modify (\<lambda>s. s\<lparr>pendingSessions := (pendingSessions s)(transferId := None)\<rparr>)) (\<lambda>_.
        bookPayment E consumer (psSale pending) (psSender pending) (psTo pending) (psAmount pending) (psCurrency pending)
          (if psSale pending = None then P2p else Purchase) tx)))"

text \<open>The signed challenge is the hash, and the credential is one of the sending wallet: the relay, or the refusal.\<close>

definition checkSigned ::
  "waEnv \<Rightarrow> pendingTransfer \<Rightarrow> string \<Rightarrow> string \<Rightarrow> string \<Rightarrow> (('w, 'r) transferDb_scheme, (nat \<times> string) + address) prog" where
  "checkSigned W pending h credential clientB64 =
    andThen (ofOption (waParse W (b64urlToBuf clientB64)) (plainErr ''Unexpected token in JSON'')) (\<lambda>d.
    if toLower (hashOfChallenge (orElse (cdChallenge d) [])) \<noteq> toLower h
    then ret (Inl (400, ''Signed challenge does not match the prepared transfer''))
    else
      andThen (readIO (\<lambda>s. map_option (\<lambda>c. (crWallet c, signerAddress s credential)) (find (\<lambda>c. crId c = credential) (credentials s)))) (\<lambda>row.
      case row of
        Some (w, Some owner) \<Rightarrow>
          if w \<noteq> ptSender pending then ret (Inl (403, ''Credential does not match the sending wallet'')) else ret (Inr owner)
      | _ \<Rightarrow> ret (Inl (404, ''Unknown passkey credential''))))"

definition relayPending ::
  "env \<Rightarrow> sessionEnv \<Rightarrow> 'w safeApi \<Rightarrow> pendingTransfer \<Rightarrow> address \<Rightarrow> string \<Rightarrow> string \<Rightarrow> string \<Rightarrow> (('w, 'r) transferDb_scheme, txHash) prog" where
  "relayPending E X A pending owner authData clientB64 sigB64 =
    relaySafeTx E X A (ptSender pending) owner (ptTx pending)
      \<lparr>raAuthData = b64urlToBuf authData, raClientData = b64urlToBuf clientB64, raSignature = b64urlToBuf sigB64\<rparr>"

definition submitByPasskey ::
  "env \<Rightarrow> sessionEnv \<Rightarrow> 'w safeApi \<Rightarrow> waEnv \<Rightarrow> string \<Rightarrow> address \<Rightarrow> string \<Rightarrow> string \<Rightarrow> string \<Rightarrow> string \<Rightarrow> string
    \<Rightarrow> (('w, 'r) transferDb_scheme, transferReply reply) prog" where
  "submitByPasskey E X A W consumer wallet h credential authData clientB64 sigB64 =
    andThen (gets (livePending h)) (\<lambda>p. case p of
      None \<Rightarrow> ret (ReplyErr 410 ''Transfer expired - please start again'' (Some ''EXPIRED''))
    | Some pending \<Rightarrow>
      if ptSender pending \<noteq> wallet then ret (ReplyErr 403 ''Transfer does not belong to this account'' None)
      else
        andThen (checkSigned W pending h credential clientB64) (\<lambda>c. case c of
          Inl (st, m) \<Rightarrow> ret (ReplyErr st m None)
        | Inr owner \<Rightarrow>
          andThen (relayPending E X A pending owner authData clientB64 sigB64) (\<lambda>tx.
          andThen (dropPending h) (\<lambda>_.
          bookPayment E consumer (ptSale pending) (ptSender pending) (ptTo pending) (ptAmount pending) (ptCurrency pending)
            (if ptSale pending \<noteq> None then Purchase else if (case ptPhone pending of None \<Rightarrow> False | Some t \<Rightarrow> t \<noteq> []) then EscrowSpend else P2p) tx))))"

definition transferSubmit ::
  "env \<Rightarrow> sessionEnv \<Rightarrow> 'w safeApi \<Rightarrow> waEnv \<Rightarrow> string \<Rightarrow> address \<Rightarrow> string option \<Rightarrow> string option \<Rightarrow> submitBody
    \<Rightarrow> (('w, 'r) transferDb_scheme, transferReply reply) prog" where
  "transferSubmit E X A W consumer wallet transferId sessionSignature b = tryCatch
    (case (nonEmpty transferId, nonEmpty sessionSignature) of
      (Some i, Some sg) \<Rightarrow> submitBySession E X A consumer wallet i sg
    | _ \<Rightarrow> (case (nonEmpty (sbHash b), nonEmpty (sbCredential b), nonEmpty (sbAuthData b), nonEmpty (sbClientData b), nonEmpty (sbSignature b)) of
        (Some h, Some c, Some ad, Some cd, Some sg) \<Rightarrow> submitByPasskey E X A W consumer wallet h c ad cd sg
      | _ \<Rightarrow> ret (ReplyErr 400 ''Missing signature fields'' None)))
    (\<lambda>e. ret (ReplyErr 500 (fmsg e) None))"

section \<open>Sends to a phone\<close>

definition relaySignedPending ::
  "env \<Rightarrow> sessionEnv \<Rightarrow> 'w safeApi \<Rightarrow> waEnv \<Rightarrow> pendingTransfer \<Rightarrow> string \<Rightarrow> string \<Rightarrow> string \<Rightarrow> string \<Rightarrow> string
    \<Rightarrow> (('w, 'r) transferDb_scheme, txHash) prog" where
  "relaySignedPending E X A W pending h credential authData clientB64 sigB64 =
    andThen (ofOption (waParse W (b64urlToBuf clientB64)) (plainErr ''Unexpected token in JSON'')) (\<lambda>d.
    andThen (require (toLower (hashOfChallenge (orElse (cdChallenge d) [])) = toLower h)
      (statusErr ''Signed challenge does not match the prepared transfer'' 400)) (\<lambda>_.
    andThen (readIO (\<lambda>s. map_option (\<lambda>c. (crWallet c, signerAddress s credential)) (find (\<lambda>c. crId c = credential) (credentials s)))) (\<lambda>row.
    andThen (ofOption (case row of Some (w, Some owner) \<Rightarrow> Some (w, owner) | _ \<Rightarrow> None) (statusErr ''Unknown passkey credential'' 404)) (\<lambda>(w, owner).
    andThen (require (w = ptSender pending) (statusErr ''Credential does not match the sending wallet'' 403)) (\<lambda>_.
    relaySafeTx E X A (ptSender pending) owner (ptTx pending)
      \<lparr>raAuthData = b64urlToBuf authData, raClientData = b64urlToBuf clientB64, raSignature = b64urlToBuf sigB64\<rparr>)))))"

record escrowPrepared =
  epHash :: string
  epChallenge :: string
  epPhone :: string
  epAmount :: string
  epCurrency :: string

definition escrowPrepare ::
  "env \<Rightarrow> 'w safeApi \<Rightarrow> string \<Rightarrow> address \<Rightarrow> string option \<Rightarrow> string option \<Rightarrow> string option \<Rightarrow> (('w, 'r) transferDb_scheme, escrowPrepared reply) prog" where
  "escrowPrepare E A consumer wallet phoneGiven amountGiven curGiven = tryCatch
    (case (nonEmpty phoneGiven, nonEmpty amountGiven) of
      (Some phoneRaw, Some amountText) \<Rightarrow>
        (let phone = normalizePhone phoneRaw; cur = orElse curGiven ''ZAR'' in
         if length (filter isDigit phone) < 7 then ret (ReplyErr 400 ''Enter a valid phone number with country code'' None)
         else case parseUnits E amountText (saleDecimals cur) of None \<Rightarrow> ret (ReplyErr 400 ''Invalid amount'' None)
         | Some amount \<Rightarrow>
           if amount \<le> 0 then ret (ReplyErr 400 ''Amount must be positive'' None)
           else
             andThen (escrowAddress E) (\<lambda>escrow.
             andThen (isRegisteredConsumer E (Some wallet)) (\<lambda>senderReg.
             andThen (unifiedBalanceOf E wallet cur) (\<lambda>balance.
             if \<not> senderReg then ret (ReplyErr 403 ''Your account is not registered yet'' (Some ''SENDER_UNREGISTERED''))
             else if balance < amount then ret (ReplyErr 409 ''Insufficient balance'' (Some ''INSUFFICIENT_BALANCE''))
             else
               andThen (assertKycSendAllowed E \<lparr>spConsumer = consumer, spWallet = wallet, spAmount = amount, spCurrency = cur, spType = EscrowSpend\<rparr>) (\<lambda>k. case k of
                 SpendFail c m \<Rightarrow> ret (ReplyErr 403 m (Some (spendCodeText c)))
               | SpendOk l a b' u \<Rightarrow>
                 andThen (buildVaultTransferSafeTx E A wallet escrow amount cur) (\<lambda>(t, h).
                 andThen sweepPending (\<lambda>_.
                 andThen (putPending h (\<lambda>e. \<lparr>ptTx = t, ptSender = wallet, ptTo = escrow, ptAmount = amount, ptCurrency = cur,
                    ptExpiry = e, ptPhone = Some phone, ptSale = None\<rparr>)) (\<lambda>_.
                 ret (Reply \<lparr>epHash = h, epChallenge = challengeOfHash h, epPhone = phone, epAmount = amountText, epCurrency = toUpper cur\<rparr>)))))))))
    | _ \<Rightarrow> ret (ReplyErr 400 ''Missing recipientPhone or amount'' None))
    (\<lambda>e. ret (ReplyErr 500 (fmsg e) None))"

text \<open>\<open>appBrand.ts\<close>: the display name, cached for a minute; a failed query gives the empty name.\<close>

definition getAppDisplayName :: "(('w, 'r) transferDb_scheme, string) prog" where
  "getAppDisplayName =
    andThen (gets (\<lambda>s. (brandCache s, clock s))) (\<lambda>(cache, now).
    let fetch = tryCatch (andThen (readIO appConfig) (\<lambda>rows.
          let name = trim (orElse (map_of rows ''app.name'') []) in
          andThen (modify (\<lambda>s. s\<lparr>brandCache := Some (name, now + 60000)\<rparr>)) (\<lambda>_. ret name))) (\<lambda>_. ret []) in
    case cache of Some (name, expires) \<Rightarrow> if now < expires then ret name else fetch | None \<Rightarrow> fetch)"

text \<open>\<open>encodeURIComponent\<close> on the bytes of UTF-8.\<close>

definition isUnreserved :: "char \<Rightarrow> bool" where
  "isUnreserved c \<longleftrightarrow> isDigit c \<or> isUpperLetter c \<or> isUpperLetter (upperChar c) \<or> c \<in> set ''-_.!~*()'' \<or> c = CHR 0x27"

definition upperHex :: "nat \<Rightarrow> char" where
  "upperHex n = char_of (if n < 10 then 48 + n else 55 + n)"

definition encodeURIComponent :: "string \<Rightarrow> string" where
  "encodeURIComponent t = concat (map (\<lambda>c. if isUnreserved c then [c]
     else [CHR ''%'', upperHex ((of_char c :: nat) div 16), upperHex ((of_char c :: nat) mod 16)]) t)"

record escrowReply =
  erTx :: txHash
  erClaimUrl :: string
  erWaLink :: string
  erExpires :: int
  erAmount :: string
  erCurrency :: string

text \<open>\<open>origin\<close> and \<open>waRpName\<close> are the configured web origin and name; \<open>secret\<close> is the claim's random secret.\<close>

definition claimMessage :: "waEnv \<Rightarrow> string \<Rightarrow> string \<Rightarrow> string \<Rightarrow> int \<Rightarrow> string \<Rightarrow> string \<Rightarrow> string \<times> string" where
  "claimMessage W origin secret phone amount cur appName =
    (let claimUrl = origin @ ''/#/claim/'' @ secret;
         display = fixedText 2 (jsDiv (numOfBig amount) (10 ^ saleDecimals cur));
         text = ''I sent you R'' @ display @ '' on '' @ (if appName = [] then waRpName W else appName) @ ''. Tap to claim it: '' @ claimUrl in
     (claimUrl, ''https://wa.me/'' @ filter isDigit phone @ ''?text='' @ encodeURIComponent text))"

definition escrowSubmit ::
  "env \<Rightarrow> sessionEnv \<Rightarrow> 'w safeApi \<Rightarrow> waEnv \<Rightarrow> string \<Rightarrow> string \<Rightarrow> string \<Rightarrow> address \<Rightarrow> submitBody
    \<Rightarrow> (('w, 'r) transferDb_scheme, escrowReply reply) prog" where
  "escrowSubmit E X A W origin secret consumer wallet b = tryCatch
    (case (nonEmpty (sbHash b), nonEmpty (sbCredential b), nonEmpty (sbAuthData b), nonEmpty (sbClientData b), nonEmpty (sbSignature b)) of
      (Some h, Some credential, Some authData, Some clientB64, Some sigB64) \<Rightarrow>
        andThen (gets (livePending h)) (\<lambda>p. case p of
          None \<Rightarrow> ret (ReplyErr 410 ''Transfer expired - please start again'' (Some ''EXPIRED''))
        | Some pending \<Rightarrow> (case nonEmpty (ptPhone pending) of
            None \<Rightarrow> ret (ReplyErr 400 ''Not an escrow transfer'' None)
          | Some phone \<Rightarrow>
            if ptSender pending \<noteq> wallet then ret (ReplyErr 403 ''Transfer does not belong to this account'' None)
            else
              andThen (relaySignedPending E X A W pending h credential authData clientB64 sigB64) (\<lambda>tx.
              andThen (createClaim E secret (ptSender pending) phone (ptAmount pending) (ptCurrency pending) tx) (\<lambda>(sec, expires).
              andThen (dropPending h) (\<lambda>_.
              andThen (recordSpendEvent E \<lparr>spConsumer = consumer, spWallet = ptSender pending, spAmount = ptAmount pending,
                 spCurrency = ptCurrency pending, spType = EscrowSpend\<rparr> None (Some (ToPhone phone)) (Some tx)) (\<lambda>_.
              andThen getAppDisplayName (\<lambda>appName.
              let (url, link) = claimMessage W origin sec phone (ptAmount pending) (ptCurrency pending) appName in
              ret (Reply \<lparr>erTx = tx, erClaimUrl = url, erWaLink = link, erExpires = expires, erAmount = showInt (ptAmount pending),
                erCurrency = ptCurrency pending\<rparr>))))))))
    | _ \<Rightarrow> ret (ReplyErr 400 ''Missing signature fields'' None))
    (\<lambda>e. ret (ReplyErr (orElse (fstatus e) 500) (fmsg e) None))"

section \<open>Checkout quotes and withdrawals\<close>

definition checkoutQuoteRoute ::
  "env \<Rightarrow> string option \<Rightarrow> string option \<Rightarrow> string option \<Rightarrow> string option \<Rightarrow> string option \<Rightarrow> ('r retailDb_scheme, checkoutQuote reply) prog" where
  "checkoutQuoteRoute E m storeId charge chargeCur payCur =
    (case (nonEmpty m, nonEmpty charge, nonEmpty chargeCur) of
      (Some mid, Some c, Some cc) \<Rightarrow> tryCatch
        (andThen (quoteMerchantCheckout E mid (nonEmpty storeId) c cc (nonEmpty payCur)) (\<lambda>q. ret (Reply q)))
        (\<lambda>e. ret (case fstatus e of Some st \<Rightarrow> ReplyErr st (fmsg e) (fcode e) | None \<Rightarrow> ReplyErr 500 (fmsg e) None))
    | _ \<Rightarrow> ret (ReplyErr 400 ''merchantId, chargeAmount, and chargeCurrency required'' None))"

definition withdrawPrepareRoute ::
  "env \<Rightarrow> intentHash \<Rightarrow> string \<Rightarrow> string \<Rightarrow> address \<Rightarrow> string option \<Rightarrow> string option \<Rightarrow> beneficiaryBody \<Rightarrow> ('r withdrawDb_scheme, withdrawPrepared reply) prog" where
  "withdrawPrepareRoute E intent newId consumer wallet toGiven amountGiven body = (case (nonEmpty toGiven, nonEmpty amountGiven) of
      (Some to, Some amount) \<Rightarrow> tryCatch
        (andThen (prepareWithdrawal E intent newId consumer wallet to amount body) (\<lambda>r. ret (Reply r)))
        (\<lambda>e. ret (ReplyErr (orElse (fstatus e) 500) (fmsg e) (fcode e)))
    | _ \<Rightarrow> ret (ReplyErr 400 ''Missing to or amount'' None))"

definition withdrawSubmitRoute ::
  "env \<Rightarrow> waEnv \<Rightarrow> string \<Rightarrow> address \<Rightarrow> string option \<Rightarrow> submitBody \<Rightarrow> ('r withdrawDb_scheme, withdrawResult reply) prog" where
  "withdrawSubmitRoute E W consumer wallet i b =
    (case (nonEmpty i, nonEmpty (sbCredential b), nonEmpty (sbAuthData b), nonEmpty (sbClientData b), nonEmpty (sbSignature b)) of
      (Some wid, Some c, Some ad, Some cd, Some sg) \<Rightarrow> tryCatch
        (andThen (submitWithdrawal E W \<lparr>wiConsumer = consumer, wiFrom = wallet, wiId = wid, wiCredential = c, wiAuthData = ad,
           wiClientData = cd, wiSignature = sg\<rparr>) (\<lambda>r. ret (Reply r)))
        (\<lambda>e. ret (ReplyErr (orElse (fstatus e) 500) (fmsg e) (fcode e)))
    | _ \<Rightarrow> ret (ReplyErr 400 ''Missing signature fields'' None))"

end
