(* ===== verification/SettlementProps.thy ===== *)
theory SettlementProps
  imports Settlement
begin

text \<open>
  The payout requests of a merchant as a state machine over any interleaving of its routes, what an
  executed request moved, and what a failed one leaves behind.
\<close>

section \<open>Programs that leave the requests alone\<close>

definition requestsAre :: "settleRow list \<Rightarrow> 'r settleDb_scheme \<Rightarrow> bool" where
  "requestsAre x s \<longleftrightarrow> settlements s = x"

named_theorems keeps_requests \<open>actions that leave the settlement requests alone\<close>

lemma requestsAre_net [simp]: "net_free (requestsAre x)"
  by (simp add: net_free_def requestsAre_def)

lemma requests_more: "chain.more t = chain.more s \<Longrightarrow> settlements t = settlements s"
  by (cases s; cases t) simp

lemma keeps_requests_io [keeps_requests]:
  "keeps (requestsAre x) (readIO f)" "keeps (requestsAre x) (callView g)"
  by (rule keeps_readIO keeps_callView, simp)+

lemma keeps_requests_tx [keeps_requests]:
  "keeps (requestsAre x) (sendTx (onVault f))" "keeps (requestsAre x) (sendTx (onTT token g))"
  by (rule keeps_sendTx; auto simp: onVault_Inr_iff onTT_Inr_iff requestsAre_def)+

lemma withdrawToExternal_requests [keeps_requests]: "keeps (requestsAre x) (withdrawToExternal E f rc tok a)"
  unfolding withdrawToExternal_def vaultWriter_def
  by (intro keeps_intro keeps_sendTx requestsAre_net)
    (auto simp: withdrawExternal_def Let_def requestsAre_def sbind_guard_Inr_iff sbind_Inr_iff dest!: tokenTransfer_frame requests_more)

lemma getRevenueConfig_requests [keeps_requests]: "keeps (requestsAre x) getRevenueConfig"
proof (rule keepsI)
  fix s :: "'a settleDb_scheme"
  assume "requestsAre x s"
  then show "requestsAre x (snd (getRevenueConfig s))"
    by (cases rule: getRevenueConfig_cases [of s]) (simp_all add: requestsAre_def)
qed

lemma settle_reads_requests [keeps_requests]:
  "keeps (requestsAre x) (unifiedBalanceOf E w cur)"
  "keeps (requestsAre x) (vaultBackingTokenForCurrency E cur)"
  "keeps (requestsAre x) (vaultAdminDebit E w a cur)"
  "keeps (requestsAre x) (sweepTreasuryFromVault E to a cc)"
  "keeps (requestsAre x) (getMerchantMeta m)"
  "keeps (requestsAre x) (bankPayoutLabel m)"
  "keeps (requestsAre x) (finalRow i)"
  unfolding unifiedBalanceOf_def vaultBackingTokenForCurrency_def vaultAdminDebit_def sweepTreasuryFromVault_def vaultWriter_def
    treasuryTokenBalanceOf_def resolveTreasuryToken_def treasuryTokenAddressForCountry_def getMerchantMeta_def bankPayoutLabel_def
    finalRow_def
  by (intro keeps_intro keeps_requests)+

lemma settleDestination_requests [keeps_requests]: "keeps (requestsAre x) (settleDestination m fiat b)"
  unfolding settleDestination_def Let_def by (intro keeps_intro keeps_requests)

lemma paySettlement_requests [keeps_requests]: "keeps (requestsAre x) (paySettlement E fiat w d a c cc)"
  unfolding paySettlement_def by (intro keeps_intro keeps_requests)

section \<open>No payout without an organisation administrator\<close>

text \<open>
  \<open>backed W r\<close>: the approver of \<open>r\<close> held an administrator's token of the same merchant. \<open>settleOk W J\<close>:
  every request that left \<open>pending\<close> other than by rejection is backed, ids are the positions, and the
  requests in \<open>J\<close> have left \<open>pending\<close> that way (those an operator has loaded).
\<close>

definition beyondPending :: "settleRow \<Rightarrow> bool" where
  "beyondPending r \<longleftrightarrow> seqStatus r \<in> {SettleApproved, SettleExecuted, SettleFailed}"

definition backed :: "waEnv \<Rightarrow> settleRow \<Rightarrow> bool" where
  "backed W r \<longleftrightarrow> (\<exists>h m. requireOrgAdmin W h = Inr m \<and> meId m \<noteq> None \<and> meId m = seqApprovedBy r \<and> meMerchant m = Some (seqMerchant r))"

definition settleOk :: "waEnv \<Rightarrow> nat set \<Rightarrow> settleRow list \<Rightarrow> bool" where
  "settleOk W J rows \<longleftrightarrow> map seqId rows = [0..<length rows] \<and> (\<forall>j\<in>J. j < length rows)
     \<and> (\<forall>r\<in>set rows. (beyondPending r \<longrightarrow> backed W r) \<and> (seqId r \<in> J \<longrightarrow> beyondPending r))"

abbreviation requestsOk :: "waEnv \<Rightarrow> nat set \<Rightarrow> 'r settleDb_scheme \<Rightarrow> bool" where
  "requestsOk W J s \<equiv> settleOk W J (settlements s)"

lemma requestsOk_net [simp]: "net_free (requestsOk W J)"
  by (simp add: net_free_def)

lemma keeps_Ok: "(\<And>x. keeps (requestsAre x) m) \<Longrightarrow> keeps (requestsOk W J) m"
  by (rule keepsI) (metis keepsD requestsAre_def)

text \<open>Updates of the requests that are beyond pending, to a status beyond pending.\<close>

lemma settleOk_upd:
  assumes ok: "settleOk W J rows"
    and f: "\<And>r. seqId (f r) = seqId r \<and> seqMerchant (f r) = seqMerchant r \<and> seqApprovedBy (f r) = seqApprovedBy r \<and> beyondPending (f r)"
    and P: "\<And>r. P r \<Longrightarrow> beyondPending r \<or> seqId r \<in> J"
  shows "settleOk W J (updWhere P f rows)"
proof -
  have ids: "map seqId (updWhere P f rows) = map seqId rows"
    using f by (simp add: updWhere_def)
  have "(beyondPending x \<longrightarrow> backed W x) \<and> (seqId x \<in> J \<longrightarrow> beyondPending x)" if "x \<in> set (updWhere P f rows)" for x
  proof -
    from that obtain r where r: "r \<in> set rows" and x: "x = (if P r then f r else r)" by (auto simp: updWhere_def)
    show ?thesis
    proof (cases "P r")
      case True
      then have "beyondPending r" "backed W r" using ok r P [OF True] by (auto simp: settleOk_def)
      then show ?thesis using x True f [of r] by (simp add: backed_def)
    next
      case False
      then show ?thesis using ok r x by (simp add: settleOk_def)
    qed
  qed
  then show ?thesis using ok ids by (simp add: settleOk_def)
qed

lemma settleOk_mono: "settleOk W J' rows \<Longrightarrow> J \<subseteq> J' \<Longrightarrow> settleOk W J rows"
  unfolding settleOk_def by blast

lemma settleOk_id:
  assumes "settleOk W J rows" and "r \<in> set rows" and "x \<in> set rows" and "seqId x = seqId r"
  shows "x = r"
proof -
  have "distinct (map seqId rows)" using assms(1) by (simp add: settleOk_def)
  then show ?thesis using assms(2-4) by (simp add: distinct_map inj_on_def)
qed

lemma settleOk_len: "settleOk W J rows \<Longrightarrow> r \<in> set rows \<Longrightarrow> seqId r < length rows"
  unfolding settleOk_def by (metis atLeastLessThan_iff image_eqI list.set_map set_upt)

text \<open>A request that is beyond pending joins \<open>J\<close>; an approval by an administrator makes one such.\<close>

lemma settleOk_insert: "settleOk W J rows \<Longrightarrow> r \<in> set rows \<Longrightarrow> beyondPending r \<Longrightarrow> settleOk W (insert (seqId r) J) rows"
  using settleOk_id [of W J rows r] settleOk_len [of W J rows r] by (auto simp: settleOk_def)

lemma settleOk_approve:
  assumes ok: "settleOk W J rows" and r: "r \<in> set rows" "seqMerchant r = m"
    and adm: "requireOrgAdmin W h = Inr me" "meId me = Some member" "meMerchant me = Some m"
  shows "settleOk W (insert (seqId r) J)
    (updWhere (\<lambda>x. seqId x = seqId r) (\<lambda>x. x\<lparr>seqStatus := SettleApproved, seqApprovedBy := Some member\<rparr>) rows)"
proof -
  let ?f = "\<lambda>x. x\<lparr>seqStatus := SettleApproved, seqApprovedBy := Some member\<rparr>"
  have ids: "map seqId (updWhere (\<lambda>x. seqId x = seqId r) ?f rows) = map seqId rows"
    by (simp add: updWhere_def)
  have "(beyondPending y \<longrightarrow> backed W y) \<and> (seqId y \<in> insert (seqId r) J \<longrightarrow> beyondPending y)"
    if "y \<in> set (updWhere (\<lambda>x. seqId x = seqId r) ?f rows)" for y
  proof -
    from that obtain x where x: "x \<in> set rows" and y: "y = (if seqId x = seqId r then ?f x else x)" by (auto simp: updWhere_def)
    show ?thesis
    proof (cases "seqId x = seqId r")
      case True
      then have "x = r" by (rule settleOk_id [OF ok r(1) x])
      then show ?thesis using y adm r(2) by (auto simp: backed_def beyondPending_def)
    next
      case False
      then show ?thesis using ok x y by (auto simp: settleOk_def)
    qed
  qed
  then show ?thesis using ok ids settleOk_len [OF ok r(1)] by (simp add: settleOk_def)
qed

lemma settleOk_snoc:
  assumes ok: "settleOk W J rows" and "seqId r = length rows" and "beyondPending r \<Longrightarrow> backed W r"
  shows "settleOk W (if beyondPending r then insert (seqId r) J else J) (rows @ [r])"
proof -
  have "seqId x \<noteq> length rows" if "x \<in> set rows" for x
    using settleOk_len [OF ok that] by simp
  then show ?thesis using assms by (auto simp: settleOk_def less_Suc_eq)
qed

text \<open>A step that establishes more than the invariant, used by what follows it.\<close>

lemma keeps_then:
  assumes "keeps P m" and "\<And>s x t. P s \<Longrightarrow> m s = (Inr x, t) \<Longrightarrow> Q x t" and "\<And>x. keeps (Q x) (k x)" and "\<And>x s. Q x s \<Longrightarrow> P s"
  shows "keeps P (andThen m k)"
proof (rule keepsI)
  fix s
  assume s: "P s"
  obtain r t where m: "m s = (r, t)" by fastforce
  show "P (snd (andThen m k s))"
  proof (cases r)
    case (Inl e)
    then show ?thesis using m keepsD [OF assms(1) s] by simp
  next
    case (Inr x)
    then have "Q x t" using m assms(2) [OF s] by simp
    then show ?thesis using m Inr assms(4) [OF keepsD [OF assms(3)]] by simp
  qed
qed

lemma keeps_imp: "(\<And>s. Q s \<Longrightarrow> P s) \<Longrightarrow> keeps Q m \<Longrightarrow> (\<And>s. P s \<Longrightarrow> Q s) \<Longrightarrow> keeps P m"
  by (simp add: keeps_def)

lemma updSettlement_Ok:
  assumes "i \<in> J" and "\<And>r. seqId (f r) = seqId r \<and> seqMerchant (f r) = seqMerchant r \<and> seqApprovedBy (f r) = seqApprovedBy r \<and> beyondPending (f r)"
  shows "keeps (requestsOk W J) (updSettlement i f)"
  unfolding updSettlement_def by (rule keeps_writeIO) (use assms in \<open>auto intro!: settleOk_upd\<close>)

lemma executeSettlement_Ok:
  assumes "seqId q \<in> J"
  shows "keeps (requestsOk W J) (executeSettlement E q ty)"
  unfolding executeSettlement_def Let_def
  by (intro keeps_intro keeps_Ok [OF keeps_requests_io(1)] keeps_Ok [OF settle_reads_requests(1)] keeps_Ok [OF getRevenueConfig_requests]
      keeps_Ok [OF paySettlement_requests] updSettlement_Ok assms) (simp add: beyondPending_def)

lemma autoExecute_Ok:
  assumes "seqId q \<in> J" and "keeps (requestsOk W J) k"
  shows "keeps (requestsOk W J) (autoExecute E q k)"
  unfolding autoExecute_def
  by (intro keeps_intro executeSettlement_Ok updSettlement_Ok assms) (simp add: beyondPending_def)

lemma keeps_case_sum [keeps_intro]:
  "(\<And>x. keeps P (f x)) \<Longrightarrow> (\<And>x. keeps P (g x)) \<Longrightarrow> keeps P (case v of Inl x \<Rightarrow> f x | Inr x \<Rightarrow> g x)"
  by (simp split: sum.split)

lemma requests_pass:
  "keeps (requestsOk W J) (readIO f)" "keeps (requestsOk W J) getRevenueConfig" "keeps (requestsOk W J) (getMerchantMeta m)"
  "keeps (requestsOk W J) (settleDestination m fiat b)" "keeps (requestsOk W J) (finalRow i)"
  by (intro keeps_Ok keeps_requests)+

lemma insertSettlement_io: "insertSettlement m member orgAdmin amount cur dest bps = io (newRequest m member orgAdmin amount cur dest bps)"
  by (simp add: insertSettlement_def)

lemma newRequest_InrD:
  assumes "newRequest m member orgAdmin amount cur dest bps s = Inr (row, t)"
  shows "settlements t = settlements s @ [row]" and "seqId row = length (settlements s)" and "seqMerchant row = m"
    and "seqStatus row = (if orgAdmin then SettleApproved else SettlePending)"
    and "seqApprovedBy row = (if orgAdmin then Some member else None)" and "seqBy row = member"
  using assms by (auto simp: newRequest_def Let_def split: option.splits prod.splits)

lemma newRequest_Ok:
  assumes "orgAdmin \<Longrightarrow> requireOrgAdmin W h = Inr me \<and> meId me = Some member \<and> meMerchant me = Some m"
    and ok: "requestsOk W J s" and ins: "newRequest m member orgAdmin amount cur dest bps s = Inr (row, t)"
  shows "requestsOk W (if orgAdmin then insert (seqId row) J else J) t"
proof -
  note r = newRequest_InrD [OF ins]
  have "settleOk W (if beyondPending row then insert (seqId row) J else J) (settlements s @ [row])"
    by (rule settleOk_snoc [OF ok r(2)]) (use assms(1) r in \<open>auto simp: beyondPending_def backed_def split: if_splits\<close>)
  moreover have "beyondPending row = orgAdmin" using r by (simp add: beyondPending_def)
  ultimately show ?thesis using r(1) by simp
qed

lemma insertSettlement_Ok:
  assumes adm: "orgAdmin \<Longrightarrow> requireOrgAdmin W h = Inr me \<and> meId me = Some member \<and> meMerchant me = Some m"
  shows "keeps (requestsOk W J) (insertSettlement m member orgAdmin amount cur dest bps)"
    and "requestsOk W J s \<Longrightarrow> insertSettlement m member orgAdmin amount cur dest bps s = (Inr row, t)
      \<Longrightarrow> requestsOk W (if orgAdmin then insert (seqId row) J else J) t"
proof -
  show "keeps (requestsOk W J) (insertSettlement m member orgAdmin amount cur dest bps)"
    unfolding insertSettlement_io
    by (rule keeps_io) (simp, rule settleOk_mono [OF newRequest_Ok [OF adm]], assumption+, auto)
  show "requestsOk W J s \<Longrightarrow> insertSettlement m member orgAdmin amount cur dest bps s = (Inr row, t)
      \<Longrightarrow> requestsOk W (if orgAdmin then insert (seqId row) J else J) t"
    unfolding insertSettlement_io by (drule io_InrD, elim exE, rule newRequest_Ok [OF adm, rotated]) auto
qed

lemma asMember_keeps:
  assumes "\<And>i mm m. g = Inr m \<Longrightarrow> meId m = Some i \<Longrightarrow> meMerchant m = Some mm \<Longrightarrow> keeps P (k i mm m)"
  shows "keeps P (asMember g k)"
  unfolding asMember_def using assms by (auto split: sum.split option.split intro: keeps_ret)

lemma memberOrgAdmin: "requireMemberAuth W h = Inr m \<Longrightarrow> meRole m = Some ''org_admin'' \<Longrightarrow> requireOrgAdmin W h = Inr m"
  by (simp add: requireOrgAdmin_def)

lemma requestRoute_Ok: "keeps (requestsOk W J) (requestRoute E W h b)"
  unfolding requestRoute_def
proof (rule asMember_keeps)
  fix member mm and me :: member
  assume a: "requireMemberAuth W h = Inr me" "meId me = Some member" "meMerchant me = Some mm"
  have i: "keeps (requestsOk W J) (andThen (insertSettlement mm member (meRole me = Some ''org_admin'') amount cur dest bps) (\<lambda>row.
          if meRole me = Some ''org_admin'' \<and> \<not> fiat then
            andThen (autoExecute E row (finalRow (seqId row))) (\<lambda>x. case x of
              Inl detail \<Rightarrow> ret (ReplyErr 502 ''Execution failed'' (Some detail))
            | Inr r \<Rightarrow> ret (Reply r))
          else ret (Reply row)))" for amount cur dest bps fiat
  proof (rule keeps_then [where Q = "\<lambda>row. requestsOk W (if meRole me = Some ''org_admin'' then insert (seqId row) J else J)"])
    show "keeps (requestsOk W J) (insertSettlement mm member (meRole me = Some ''org_admin'') amount cur dest bps)"
      by (rule insertSettlement_Ok(1)) (use a memberOrgAdmin in blast)
    show "requestsOk W (if meRole me = Some ''org_admin'' then insert (seqId row) J else J) t"
      if "requestsOk W J s" "insertSettlement mm member (meRole me = Some ''org_admin'') amount cur dest bps s = (Inr row, t)" for s row t
      by (rule insertSettlement_Ok(2) [OF _ that]) (use a memberOrgAdmin in blast)
    show "requestsOk W J s" if "requestsOk W (if meRole me = Some ''org_admin'' then insert (seqId row) J else J) s" for row s
      by (rule settleOk_mono [OF that]) auto
    show "keeps (requestsOk W (if meRole me = Some ''org_admin'' then insert (seqId row) J else J))
       (if meRole me = Some ''org_admin'' \<and> \<not> fiat then
            andThen (autoExecute E row (finalRow (seqId row))) (\<lambda>x. case x of
              Inl detail \<Rightarrow> ret (ReplyErr 502 ''Execution failed'' (Some detail))
            | Inr r \<Rightarrow> ret (Reply r))
          else ret (Reply row))" for row
    proof (cases "meRole me = Some ''org_admin'' \<and> \<not> fiat")
      case True
      then show ?thesis by simp (intro keeps_intro autoExecute_Ok requests_pass, simp)
    qed (simp only: if_False keeps_ret)
  qed
  show "keeps (requestsOk W J) (tryCatch
    (case (nonEmpty (sqAmount b), nonEmpty (sqCurrency b)) of
       (Some amount, Some cur) \<Rightarrow>
        andThen (getMerchantMeta mm) (\<lambda>(w, ty, cu).
        let fiat = (ty \<noteq> Some ''ONCHAIN'') in
        andThen (settleDestination mm fiat b) (\<lambda>d. case d of
          None \<Rightarrow> ret (ReplyErr 400 ''destination must be a 0x address for on-chain settlement'' None)
        | Some dest \<Rightarrow>
          andThen getRevenueConfig (\<lambda>revenue.
          let orgAdmin = (meRole me = Some ''org_admin'') in
          andThen (insertSettlement mm member orgAdmin amount cur dest (settlementFeeBps revenue)) (\<lambda>row.
          if orgAdmin \<and> \<not> fiat then
            andThen (autoExecute E row (finalRow (seqId row))) (\<lambda>x. case x of
              Inl detail \<Rightarrow> ret (ReplyErr 502 ''Execution failed'' (Some detail))
            | Inr r \<Rightarrow> ret (Reply r))
          else ret (Reply row)))))
     | _ \<Rightarrow> ret (ReplyErr 400 ''amount and currency required'' None))
    (\<lambda>e. ret (ReplyErr 500 (fmsg e) None)))"
    unfolding Let_def
    by (cases "nonEmpty (sqAmount b)"; cases "nonEmpty (sqCurrency b)")
      (simp_all only: prod.case option.case, (intro keeps_intro requests_pass i)+)
qed

text \<open>What a read found is still there when the next step runs.\<close>

lemma readIO_then:
  assumes "\<And>s. requestsOk W J s \<Longrightarrow> requestsOk W J (snd (k (f s) s))"
  shows "keeps (requestsOk W J) (andThen (readIO f) k)"
proof (rule keepsI)
  fix s :: "'a settleDb_scheme"
  assume s: "requestsOk W J s"
  obtain r t where m: "readIO f s = (r, t)" by fastforce
  have t: "requestsOk W J t" using keepsD [OF requests_pass(1) s, of f] m by simp
  show "requestsOk W J (snd (andThen (readIO f) k s))"
  proof (cases r)
    case (Inr x)
    then have "x = f t" using m readIO_InrD [of f s x t] by auto
    then show ?thesis using m Inr t assms by simp
  qed (use m t in simp)
qed

lemma approve_step:
  assumes adm: "requireOrgAdmin W h = Inr me" "meId me = Some member" "meMerchant me = Some mm"
    and s: "requestsOk W J s" "find (\<lambda>r. seqId r = i \<and> seqMerchant r = mm) (settlements s) = Some q"
  shows "requestsOk W J (snd (andThen (updSettlement i (\<lambda>r. r\<lparr>seqStatus := SettleApproved, seqApprovedBy := Some member\<rparr>)) (\<lambda>_.
         andThen (getMerchantMeta mm) (\<lambda>(w, ty, cu).
         andThen (if ty = Some ''ONCHAIN''
            then autoExecute E (q\<lparr>seqStatus := SettleApproved, seqApprovedBy := Some member\<rparr>) (ret ()) else ret (Inr ())) (\<lambda>x. case x of
           Inl detail \<Rightarrow> ret (ReplyErr 502 ''Execution failed'' (Some detail))
         | Inr _ \<Rightarrow> andThen (finalRow i) (\<lambda>r. ret (Reply r))))) s))"
proof -
  let ?f = "\<lambda>r. r\<lparr>seqStatus := SettleApproved, seqApprovedBy := Some member\<rparr>"
  let ?k = "\<lambda>_ :: unit. andThen (getMerchantMeta mm) (\<lambda>(w, ty, cu).
         andThen (if ty = Some ''ONCHAIN'' then autoExecute E (?f q) (ret ()) else ret (Inr ())) (\<lambda>x. case x of
           Inl detail \<Rightarrow> ret (ReplyErr 502 ''Execution failed'' (Some detail))
         | Inr _ \<Rightarrow> andThen (finalRow i) (\<lambda>r. ret (Reply r))))"
  have q: "q \<in> set (settlements s)" "seqMerchant q = mm" "i = seqId q"
    using find_SomeD [OF s(2)] by auto
  have k: "keeps (requestsOk W (insert i J)) (?k x)" for x
    by (intro keeps_intro autoExecute_Ok requests_pass) (simp add: q(3))
  obtain r t where m: "updSettlement i ?f s = (r, t)" by fastforce
  have t: "settlements t = settlements s \<or> settlements t = updWhere (\<lambda>x. seqId x = i) ?f (settlements s)"
    and ok: "\<And>x. r = Inr x \<Longrightarrow> settlements t = updWhere (\<lambda>x. seqId x = i) ?f (settlements s)"
    using m by (auto simp: updSettlement_def writeIO_def io_def Let_def split: prod.splits net.splits)
  have up: "settleOk W (insert i J) (updWhere (\<lambda>x. seqId x = i) ?f (settlements s))"
    unfolding q(3) by (rule settleOk_approve [OF s(1) q(1,2) adm])
  show ?thesis
  proof (cases r)
    case (Inl e)
    then show ?thesis using m t s(1) settleOk_mono [OF up subset_insertI] by auto
  next
    case (Inr x)
    then have "requestsOk W (insert i J) t" using ok up by simp
    then have "requestsOk W (insert i J) (snd (?k x t))" by (rule keepsD [OF k])
    then have "requestsOk W J (snd (?k x t))" by (rule settleOk_mono) auto
    then show ?thesis using m Inr by simp
  qed
qed

lemma approveRoute_Ok: "keeps (requestsOk W J) (approveRoute E W h i)"
  unfolding approveRoute_def
proof (rule asMember_keeps, intro keeps_tryCatch readIO_then keeps_ret)
  fix member mm and me :: member and s :: "'a settleDb_scheme"
  assume a: "requireOrgAdmin W h = Inr me" "meId me = Some member" "meMerchant me = Some mm" and s: "requestsOk W J s"
  let ?q = "find (\<lambda>r. seqId r = i \<and> seqMerchant r = mm) (settlements s)"
  show "requestsOk W J (snd ((case ?q of
       None \<Rightarrow> ret (ReplyErr 404 ''Not found'' None)
     | Some request \<Rightarrow>
       if seqStatus request \<noteq> SettlePending
       then ret (ReplyErr 409 (''Request is '' @ settleStatusText (seqStatus request) @ '', not pending'') None)
       else
         andThen (updSettlement i (\<lambda>r. r\<lparr>seqStatus := SettleApproved, seqApprovedBy := Some member\<rparr>)) (\<lambda>_.
         andThen (getMerchantMeta mm) (\<lambda>(w, ty, cu).
         andThen (if ty = Some ''ONCHAIN''
            then autoExecute E (request\<lparr>seqStatus := SettleApproved, seqApprovedBy := Some member\<rparr>) (ret ()) else ret (Inr ())) (\<lambda>x. case x of
           Inl detail \<Rightarrow> ret (ReplyErr 502 ''Execution failed'' (Some detail))
         | Inr _ \<Rightarrow> andThen (finalRow i) (\<lambda>r. ret (Reply r)))))) s))"
  proof (cases ?q)
    case (Some q)
    show ?thesis unfolding Some option.case
      using approve_step [OF a s Some] s by (cases "seqStatus q = SettlePending") (simp_all only: simp_thms if_True if_False ret_run snd_conv)
  qed (simp add: s)
qed

lemma rejectRoute_Ok: "keeps (requestsOk W J) (rejectRoute W h i)"
  unfolding rejectRoute_def
proof (rule asMember_keeps, intro keeps_intro keeps_io requestsOk_net)
  fix member mm and s t :: "'a settleDb_scheme" and x
  assume s: "requestsOk W J s" and e: "(let hit = (\<lambda>r. seqId r = i \<and> seqMerchant r = mm \<and> seqStatus r = SettlePending);
         f = (\<lambda>r. r\<lparr>seqStatus := SettleRejected, seqApprovedBy := Some member\<rparr>) in
       Inr (map_option f (find hit (settlements s)), s\<lparr>settlements := updWhere hit f (settlements s)\<rparr>)) = Inr (x, t)"
  have t: "settlements t = updWhere (\<lambda>r. seqId r = i \<and> seqMerchant r = mm \<and> seqStatus r = SettlePending)
      (\<lambda>r. r\<lparr>seqStatus := SettleRejected, seqApprovedBy := Some member\<rparr>) (settlements s)"
    using e by (auto simp: Let_def)
  have "map seqId (settlements t) = map seqId (settlements s)"
    unfolding t by (simp add: updWhere_def)
  moreover have "(beyondPending y \<longrightarrow> backed W y) \<and> (seqId y \<in> J \<longrightarrow> beyondPending y)" if "y \<in> set (settlements t)" for y
    using that s unfolding t settleOk_def by (auto simp: updWhere_def beyondPending_def split: if_splits)
  ultimately show "requestsOk W J t"
    using s t by (simp add: settleOk_def)
qed

text \<open>The operator: what is loaded is beyond pending, and stays so.\<close>

lemma operatorLoad_Ok:
  assumes s: "requestsOk W J s" and run: "operatorLoad i s = (r, t)"
  shows "requestsOk W J t" and "r = Inr (Reply row) \<Longrightarrow> requestsOk W (insert (seqId row) J) t"
proof -
  obtain q u where q: "readIO (\<lambda>s. find (\<lambda>r. seqId r = i) (settlements s)) s = (q, u)" by fastforce
  have u: "requestsOk W J u" using keepsD [OF requests_pass(1) s] q by (metis snd_conv)
  have "requestsOk W J t \<and> (r = Inr (Reply row) \<longrightarrow> requestsOk W (insert (seqId row) J) t)"
  proof (cases "\<exists>x. q = Inr (Some x) \<and> beyondPending x")
    case True
    then obtain x where x: "q = Inr (Some x)" "beyondPending x" by blast
    then have f: "find (\<lambda>r. seqId r = i) (settlements u) = Some x" using q by (auto dest!: readIO_InrD)
    have i: "seqId x = i" "x \<in> set (settlements u)" using find_SomeD [OF f] by auto
    have ok: "requestsOk W (insert i J) u" using settleOk_insert [OF u i(2) x(2)] i(1) by simp
    have k: "keeps (requestsOk W (insert i J)) (if seqStatus x \<noteq> SettleApproved \<and> seqStatus x \<noteq> SettleFailed
       then ret (ReplyErr 409 (''Request is '' @ settleStatusText (seqStatus x) @ '', not executable'') None)
       else andThen (whenP (seqStatus x = SettleFailed) (updSettlement i (\<lambda>r. r\<lparr>seqStatus := SettleApproved\<rparr>))) (\<lambda>_.
         ret (Reply (x\<lparr>seqStatus := SettleApproved\<rparr>))))"
      by (intro keeps_intro updSettlement_Ok) (simp_all add: beyondPending_def)
    have "requestsOk W (insert i J) t"
      using keepsD [OF k ok] run q x(1) by (simp add: operatorLoad_def)
    moreover have "seqId row = i" if "r = Inr (Reply row)"
      using run q x(1) that i(1) by (auto simp: operatorLoad_def andThen_Inr_iff split: if_splits)
    ultimately show ?thesis using settleOk_mono by blast
  next
    case False
    then have "t = u \<and> r \<noteq> Inr (Reply row)"
      using run q by (auto simp: operatorLoad_def beyondPending_def andThen_def split: prod.splits sum.splits option.splits if_splits)
    then show ?thesis using u by blast
  qed
  then show "requestsOk W J t" "r = Inr (Reply row) \<Longrightarrow> requestsOk W (insert (seqId row) J) t" by auto
qed

lemma operatorRun_Ok: "seqId row \<in> J \<Longrightarrow> keeps (requestsOk W J) (operatorRun E row)"
  unfolding operatorRun_def by (intro keeps_intro requests_pass executeSettlement_Ok)

lemma operatorFail_Ok: "keeps (requestsOk W J) (operatorFail i)"
  unfolding operatorFail_def by (rule keeps_writeIO) (auto simp: beyondPending_def intro!: settleOk_upd)

section \<open>The state machine\<close>

text \<open>
  The routes in any order, on any network, with the requests the operator has loaded and not yet run (two
  requests of \<open>executeRoute\<close> may overlap), and anything else that leaves the requests alone.
\<close>

inductive settleStep :: "env \<Rightarrow> waEnv \<Rightarrow> settleDb \<times> settleRow list \<Rightarrow> settleDb \<times> settleRow list \<Rightarrow> bool" for E W where
  requestS: "requestRoute E W h b s = (r, t) \<Longrightarrow> settleStep E W (s, q) (t, q)"
| approveS: "approveRoute E W h i s = (r, t) \<Longrightarrow> settleStep E W (s, q) (t, q)"
| rejectS: "rejectRoute W h i s = (r, t) \<Longrightarrow> settleStep E W (s, q) (t, q)"
| loadS: "operatorLoad i s = (Inr (Reply row), t) \<Longrightarrow> settleStep E W (s, q) (t, row # q)"
| loadErrS: "operatorLoad i s = (r, t) \<Longrightarrow> settleStep E W (s, q) (t, q)"
| runS: "row \<in> set q \<Longrightarrow> operatorRun E row s = (r, t) \<Longrightarrow> settleStep E W (s, q) (t, q)"
| runErrS: "row \<in> set q \<Longrightarrow> operatorFail (seqId row) s = (r, t) \<Longrightarrow> settleStep E W (s, q) (t, q)"
| otherS: "settlements t = settlements s \<Longrightarrow> settleStep E W (s, q) (t, q)"

inductive_cases settleStepE: "settleStep E W (s, q) (t, q')"

definition machineOk :: "waEnv \<Rightarrow> settleDb \<times> settleRow list \<Rightarrow> bool" where
  "machineOk W c \<longleftrightarrow> requestsOk W (seqId ` set (snd c)) (fst c)"

lemma settleStep_Ok: "settleStep E W c d \<Longrightarrow> machineOk W c \<Longrightarrow> machineOk W d"
proof (induction rule: settleStep.induct)
  case (requestS h b s r t q)
  then show ?case using keepsD [OF requestRoute_Ok, of W "seqId ` set q" s E h b] by (simp add: machineOk_def)
next
  case (approveS h i s r t q)
  then show ?case using keepsD [OF approveRoute_Ok, of W "seqId ` set q" s E h i] by (simp add: machineOk_def)
next
  case (rejectS h i s r t q)
  then show ?case using keepsD [OF rejectRoute_Ok, of W "seqId ` set q" s h i] by (simp add: machineOk_def)
next
  case (loadS i s row t q)
  then show ?case using operatorLoad_Ok(2) [of W "seqId ` set q" s i "Inr (Reply row)" t row] by (simp add: machineOk_def)
next
  case (loadErrS i s r t q)
  then show ?case using operatorLoad_Ok(1) [of W "seqId ` set q" s i r t] by (simp add: machineOk_def)
next
  case (runS row q s r t)
  then show ?case using keepsD [OF operatorRun_Ok, of row "seqId ` set q" W s E] by (simp add: machineOk_def)
next
  case (runErrS row q s r t)
  then show ?case using keepsD [OF operatorFail_Ok, of W "seqId ` set q" s "seqId row"] by (simp add: machineOk_def)
qed (simp add: machineOk_def)

lemma settle_reach_Ok: "(settleStep E W)\<^sup>*\<^sup>* c d \<Longrightarrow> machineOk W c \<Longrightarrow> machineOk W d"
  by (induction rule: rtranclp_induct) (auto intro: settleStep_Ok)

text \<open>
  C27. Starting with no requests, whatever the routes do and in whatever order, a payout request that is
  approved, executed or failed was approved by an administrator of its merchant, and by nobody else.
\<close>

theorem payout_needs_org_admin:
  assumes "(settleStep E W)\<^sup>*\<^sup>* (s0, []) (s, q)" and "settlements s0 = []"
    and "r \<in> set (settlements s)" and "seqStatus r \<in> {SettleApproved, SettleExecuted, SettleFailed}"
  shows "\<exists>h m. requireOrgAdmin W h = Inr m \<and> meId m \<noteq> None \<and> seqApprovedBy r = meId m \<and> meMerchant m = Some (seqMerchant r)"
proof -
  have "machineOk W (s0, [])" using assms(2) by (simp add: machineOk_def settleOk_def)
  then have "machineOk W (s, q)" using settle_reach_Ok [OF assms(1)] by blast
  then have "backed W r" using assms(3,4) by (auto simp: machineOk_def settleOk_def beyondPending_def)
  then show ?thesis unfolding backed_def by metis
qed

section \<open>What an execution moves\<close>

lemma settle_money:
  "keeps (moneyIs v e tt) (unifiedBalanceOf E w cur)" "keeps (moneyIs v e tt) (updSettlement i f)"
  unfolding unifiedBalanceOf_def updSettlement_def
  by (intro keeps_intro keeps_money keeps_money_write; simp)+

lemma getRevenueConfig_money: "keeps (moneyIs v e tt) getRevenueConfig"
proof (rule keepsI)
  fix s :: "'a platform_scheme"
  assume "moneyIs v e tt s"
  then show "moneyIs v e tt (snd (getRevenueConfig s))"
    by (cases rule: getRevenueConfig_cases [of s]) (simp_all add: moneyIs_def)
qed

lemma requests_same: "(\<And>x. keeps (requestsAre x) m) \<Longrightarrow> m s = (r, t) \<Longrightarrow> settlements t = settlements s"
  by (metis keepsD requestsAre_def snd_conv)

text \<open>
  C28. An on-chain settlement that succeeds pays the whole amount of the request: the merchant's claim is
  debited by it, the destination receives it in the backing token, and no other claim changes. The platform's
  fee is written to the request, and withheld from nothing.
\<close>

theorem settlement_pays_gross:
  assumes "executeSettlement E q ''ONCHAIN'' s = (Inr (), t)" and "c = currencyHash E (toUpper (seqCurrency q))"
    and "ozLaw (erc20 E tok)" and "tok = tokenAt0 (vault s) c" and "tokenCurrency (vault s) tok = c" and "tts s tok = None"
  shows "\<exists>mr w a va to. findMerchant (seqMerchant q) s = Some mr \<and> merchantWallet mr = Some w \<and> vaultAddr E = Some va
    \<and> parseUnits E (centsText (seqAmount q)) (decimalsFor (toUpper (seqCurrency q))) = Some a \<and> 0 < a \<and> getAddr E (seqDest q) = Some to
    \<and> debitAssets w c (nat a) (vault s) = Inr (vault t) \<and> erc t tok = moved va to (nat a) (erc s tok)
    \<and> (\<exists>tx bps. settlements t = updWhere (\<lambda>r. seqId r = seqId q) (\<lambda>r. r\<lparr>seqStatus := SettleExecuted, seqTx := Some tx,
        seqFeeBps := Some bps, seqFee := Some (fst (calcSettlementFee (fl (of_int (seqAmount q) / 100)) bps)),
        seqNet := Some (snd (calcSettlementFee (fl (of_int (seqAmount q) / 100)) bps))\<rparr>) (settlements s))"
proof -
  from assms(1) show ?thesis
    unfolding executeSettlement_def Let_def case_prod_beta
    apply (elim andThen_InrE)
    apply (simp only: steps_inv)
    apply (elim conjE)
    apply hypsubst_thin
    subgoal premises prems for mr s1 w _ a _ b s2 _ _ _ _ _ _ rev s3 tx s4
    proof -
      have st: "\<exists>rest. s1 = s\<lparr>net := rest\<rparr>" and mr: "mr = findMerchant (seqMerchant q) s"
        using readIO_InrD [OF prems(1)] by (auto simp: findMerchant_def)
      obtain m where m: "mr = Some m" "merchantWallet m = Some w" using prems(6) by (cases mr) auto
      note eq = money_same [OF keeps_money_read(1) prems(1)] money_same [OF settle_money(1) prems(2)]
        money_same [OF getRevenueConfig_money prems(3)] money_same [OF settle_money(2) prems(5)]
      obtain token s5 to where k: "vaultBackingTokenForCurrency E (toUpper (seqCurrency q)) s3 = (Inr token, s5)"
        and to: "getAddr E (seqDest q) = Some to" and wx: "withdrawToExternal E w to token a s5 = (Inr tx, s4)"
        using prems(4) by (auto simp: paySettlement_def andThen_Inr_iff)
      note eq5 = money_same [OF auth_money(4) k]
      have token: "token = tok"
        using k eq assms(2,4) unfolding vaultBackingTokenForCurrency_def by (auto simp: andThen_Inr_iff dest!: readIO_InrD)
      obtain va u where va: "vaultAddr E = Some va" "0 < a" and d: "debitAssets w c (nat a) (vault s) = Inr (vault s4)"
        and x: "tokenTransfer E tok va to (nat a) u = Inr (s4\<lparr>txCount := txCount s5\<rparr>)" and u: "erc u = erc s" "tts u = tts s"
        using withdrawToExternal_InrD [OF wx] eq eq5 token assms(5) by auto
      have "erc s4 tok = moved va to (nat a) (erc s tok)"
        using erc20_transfer_exact [OF x assms(3)] u assms(6) by simp
      moreover have "settlements s4 = settlements s"
        using requests_same [OF keeps_requests_io(1) prems(1)] requests_same [OF settle_reads_requests(1) prems(2)]
          requests_same [OF getRevenueConfig_requests prems(3)] requests_same [OF paySettlement_requests prems(4)] by simp
      moreover have "settlements t = updWhere (\<lambda>r. seqId r = seqId q) (\<lambda>r. r\<lparr>seqStatus := SettleExecuted, seqTx := Some tx,
          seqFeeBps := Some (orElse (seqFeeBps q) (settlementFeeBps rev)),
          seqFee := Some (fst (calcSettlementFee (fl (of_int (seqAmount q) / 100)) (orElse (seqFeeBps q) (settlementFeeBps rev)))),
          seqNet := Some (snd (calcSettlementFee (fl (of_int (seqAmount q) / 100)) (orElse (seqFeeBps q) (settlementFeeBps rev))))\<rparr>)
          (settlements s4)"
        using prems(5) unfolding updSettlement_def by (auto dest!: writeIO_InrD)
      ultimately show ?thesis
        using m mr va to d eq by (intro exI [of _ m] exI [of _ w] exI [of _ a] exI [of _ va] exI [of _ to]) auto
    qed
    done
qed

section \<open>The example\<close>

definition demoRequest :: "int \<Rightarrow> string \<Rightarrow> settleRow" where
  "demoRequest cents cur = \<lparr>seqId = 0, seqMerchant = ''m1'', seqBy = 7, seqAmount = cents, seqCurrency = cur,
     seqDest = ''0x0000000000000000000000000000000000000063'', seqStatus = SettleApproved, seqApprovedBy = Some 7, seqTx = None,
     seqFeeBps = Some 150, seqFee = None, seqNet = None, seqCreated = 0\<rparr>"

definition poorToken :: ttoken where
  "poorToken = demoToken\<lparr>bal := (\<lambda>u. if u = 1 then 100 else 0)\<rparr>"

definition fiatMerchant :: merchantRow where
  "fiatMerchant = \<lparr>merchantId = ''m1'', merchantWallet = Some 10, merchantCountry = ''ZA'',
       merchantName = ''Shop'', merchantCurrency = ''ZAR'', merchantSettleCur = None, merchantSettleType = Some ''FIAT'', merchantActive = True\<rparr>"

definition demoSettleDb :: "settleRow list \<Rightarrow> settleDb" where
  "demoSettleDb rows = (withdrawDb.extend (demoWithdrawDb []) (settleDb.fields rows (\<lambda>_. None) []))
     \<lparr>merchants := [fiatMerchant], tts := (\<lambda>a. if a = 3 then Some poorToken else None)\<rparr>"

lemma demoSettle_sel [simp]:
  "net (demoSettleDb rows) = []" "clock (demoSettleDb rows) = 1700000000000" "vault (demoSettleDb rows) = demoVault"
  "erc (demoSettleDb rows) = (\<lambda>t u. if t = 4 \<and> u = 1 then 100000000 else 0)"
  "tts (demoSettleDb rows) = (\<lambda>a. if a = 3 then Some poorToken else None)" "settlements (demoSettleDb rows) = rows"
  "merchants (demoSettleDb rows) = [fiatMerchant]" "offramps (demoSettleDb rows) = []"
  "stablecoins (demoSettleDb rows) = stablecoins demoPlatform" "currencies (demoSettleDb rows) = currencies demoPlatform"
  "countries (demoSettleDb rows) = countries demoPlatform"
  by (simp_all add: demoSettleDb_def settleDb.defs demoWithdrawDb_def withdrawDb.defs demoAuthDb_def authDb.defs demoSalesDb_def
      salesDb.defs demoVoucherDb_def voucherDb.defs demo_state)

lemma fiatMerchant_sel:
  "merchantWallet fiatMerchant = Some 10" "merchantCountry fiatMerchant = ''ZA''" "merchantSettleType fiatMerchant = Some ''FIAT''"
  by (simp_all add: fiatMerchant_def)

lemma findMerchant_demo: "merchants s = [fiatMerchant] \<Longrightarrow> findMerchant ''m1'' s = Some fiatMerchant"
  by (simp add: findMerchant_def fiatMerchant_def)

lemma revenue_run:
  assumes "net s = []"
  shows "\<exists>cfg rc. getRevenueConfig s = (Inr cfg, s\<lparr>revenueCache := rc\<rparr>)"
proof -
  have f: "\<exists>cfg rc. tryCatch (andThen (readIO appConfig) (\<lambda>rows.
          let cfg = revenueOfRows rows in
          andThen (modify (revenueCache_update (\<lambda>_. Some (cfg, clock s + ttlMs)))) (\<lambda>_. ret cfg)))
          (\<lambda>_. ret revenueDefaults) s = (Inr cfg, s\<lparr>revenueCache := rc\<rparr>)"
    using assms by (auto simp: tryCatch_def Let_def)
  show ?thesis
  proof (cases "revenueCache s")
    case None
    then show ?thesis using f by (simp add: getRevenueConfig_def)
  next
    case (Some p)
    have "s\<lparr>revenueCache := revenueCache s\<rparr> = s" by (cases s) simp
    then show ?thesis using f Some by (cases p) (auto simp: getRevenueConfig_def intro!: exI [of _ "revenueCache s"])
  qed
qed

lemma digit_chars: "digitChar 0 = CHR ''0''" "digitChar 1 = CHR ''1''" "digitChar (Suc 0) = CHR ''1''" "digitChar 2 = CHR ''2''" "digitChar 3 = CHR ''3''"
    "digitChar 4 = CHR ''4''" "digitChar 5 = CHR ''5''" "digitChar 6 = CHR ''6''" "digitChar 7 = CHR ''7''" "digitChar 8 = CHR ''8''"
    "digitChar 9 = CHR ''9''"
  by code_simp+

lemma pads: "padZeros 2 ''0'' = ''00''" "replicate (4::nat) c = [c, c, c, c]"
  by (simp_all add: padZeros_def eval_nat_numeral)

lemma settle_texts: "centsText 20000 = ''200.00''" "centsText 1000 = ''10.00''"
  by (simp_all add: centsText_def numericText_def showNat.simps digit_chars pads)

lemma settle_parse: "parseExample ''200.00'' 2 = Some 20000" "parseExample ''10.00'' 6 = Some 10000000"
  by (simp_all add: parseExample_def beforeDot_def afterDot_def isDigit_def natOfDigits_def digitVal_def pads)

lemma settle_codes:  "decimalsFor ''ZAR'' = 2" "decimalsFor ''USDC'' = 6" "toUpper ''ZAR'' = ''ZAR''" "toUpper ''USDC'' = ''USDC''" "toUpper ''ZA'' = ''ZA''"
  by (simp_all add: decimalsFor_def upperChar_def)

lemma settle_hex: "addrExample ''0x0000000000000000000000000000000000000063'' = Some 99" "isHexAddress ''0x0000000000000000000000000000000000000063''"
  by (simp_all add: addrExample_def isHexAddress_def isHexDigit_def hexVal_def)

lemma settle_cents: "numericCents ''200'' = Some 20000"
  by (simp add: numericCents_def trim_def isSpace_def splitSign_def beforeDot_def afterDot_def isDigit_def decimalValue_def natOfDigits_def digitVal_def Let_def floor_eq_iff)

lemma demo_treasury_token:
  assumes "net s = []" and "stablecoins s = stablecoins demoPlatform" and "currencies s = currencies demoPlatform"
    and "countries s = countries demoPlatform"
  shows "treasuryTokenAddressForCountry ''ZA'' s = (Inr (Some 3), s)"
  using assms by (simp add: treasuryTokenAddressForCountry_def demoPlatform_def deployedTreasury_def upperChar_def)

text \<open>A fiat settlement whose sweep is refused: the claim is debited, nothing is paid, and it throws.\<close>

lemma unbacked_settlement:
  assumes d: "adminDebit 2 10 20000 0x15A4152 (vault s) = Inr v'" and b: "unifiedBalance (vault s) 10 0x15A4152 = Inr k" "20000 \<le> k"
    and s: "net s = []" "stablecoins s = stablecoins demoPlatform" "currencies s = currencies demoPlatform"
      "countries s = countries demoPlatform" "merchants s = [fiatMerchant]" "tts s 3 = Some poorToken"
    and q: "seqMerchant q = ''m1''" "seqAmount q = 20000" "seqCurrency q = ''ZAR''"
  shows "\<exists>e rc. executeSettlement demoEnv q ''FIAT'' s = (Inl e, s\<lparr>revenueCache := rc, vault := v', txCount := txCount s + 1\<rparr>)"
proof -
  obtain cfg rc where r: "getRevenueConfig s = (Inr cfg, s\<lparr>revenueCache := rc\<rparr>)" using revenue_run [OF s(1)] by blast
  let ?s1 = "s\<lparr>revenueCache := rc\<rparr>"
  let ?s2 = "s\<lparr>revenueCache := rc, vault := v', txCount := txCount s + 1\<rparr>"
  have u: "unifiedBalanceOf demoEnv 10 ''ZAR'' s = (Inr (int k), s)"
    using s(1) b by (simp add: unifiedBalanceOf_def callView_calm)
  have dx: "vaultAdminDebit demoEnv 10 20000 ''ZAR'' ?s1 = (Inr (txCount s), ?s2)"
    using vault_calls_run(1) [of ?s1 demoEnv 1 2 20000 10 "''ZAR''" v'] s(1) d by simp
  have t: "resolveTreasuryToken demoEnv ''ZA'' ?s2 = (Inr (Some 3), ?s2)"
    using s demo_treasury_token [of ?s2] by (simp add: resolveTreasuryToken_def)
  have tb: "treasuryTokenBalanceOf demoEnv 1 ''ZA'' ?s2 = (Inr 100, ?s2)"
    using s t by (simp add: treasuryTokenBalanceOf_def tokenBalance_def poorToken_def)
  obtain e where sw: "sweepTreasuryFromVault demoEnv 5 20000 ''ZA'' ?s2 = (Inl e, ?s2)"
    using t tb by (simp add: sweepTreasuryFromVault_def vaultWriter_def)
  obtain fee net where f: "calcSettlementFee (fl 200) (orElse (seqFeeBps q) (settlementFeeBps cfg)) = (fee, net)" by fastforce
  show ?thesis
    using s(1) b sw by (intro exI [of _ e] exI [of _ rc])
      (simp add: executeSettlement_def q findMerchant_demo [OF s(5)] fiatMerchant_sel settle_texts settle_parse settle_codes u r f dx
        paySettlement_def Let_def)
qed

definition demoOperator :: waEnv where
  "demoOperator = (demoWa [])\<lparr>waJwt := \<lambda>tok. Some (if tok = ''op'' then consumerClaims [] None [] ''admin'' else memberClaims (demoMember\<lparr>mbMerchant := ''m1''\<rparr>))\<rparr>"

lemma demoOperator_admin: "requireAdmin demoOperator (Some ''Bearer op'') = Inr (WalletSub [])"
  by (simp add: requireAdmin_def jwtVerify_def bearer_def demoOperator_def consumerClaims_def)

lemma operator_unbacked:
  assumes d: "adminDebit 2 10 20000 0x15A4152 (vault s) = Inr v'" and b: "unifiedBalance (vault s) 10 0x15A4152 = Inr k" "20000 \<le> k"
    and s: "net s = []" "stablecoins s = stablecoins demoPlatform" "currencies s = currencies demoPlatform"
      "countries s = countries demoPlatform" "merchants s = [fiatMerchant]" "tts s 3 = Some poorToken"
    and rows: "settlements s = [(demoRequest 20000 ''ZAR'')\<lparr>seqStatus := st\<rparr>]" "st = SettleApproved \<or> st = SettleFailed"
  shows "\<exists>m t. executeRoute demoEnv demoOperator (Some ''Bearer op'') 0 s = (Inr (ReplyErr 502 m None), t)
    \<and> net t = [] \<and> vault t = v' \<and> stablecoins t = stablecoins s \<and> currencies t = currencies s \<and> countries t = countries s
    \<and> merchants t = merchants s \<and> tts t = tts s \<and> settlements t = [(demoRequest 20000 ''ZAR'')\<lparr>seqStatus := SettleFailed\<rparr>]"
proof -
  let ?q = "demoRequest 20000 ''ZAR''"
  let ?s1 = "s\<lparr>settlements := [?q]\<rparr>"
  have q: "?q\<lparr>seqStatus := SettleApproved\<rparr> = ?q" "seqId ?q = 0" "seqMerchant ?q = ''m1''" "seqAmount ?q = 20000" "seqCurrency ?q = ''ZAR''"
    "seqStatus ?q = SettleApproved"
    by (simp_all add: demoRequest_def)
  have load: "operatorLoad 0 s = (Inr (Reply ?q), ?s1)"
    using s(1) rows(2) rows(1)
    by (elim disjE) (simp_all add: operatorLoad_def updSettlement_def q)
  obtain e rc where x: "executeSettlement demoEnv ?q ''FIAT'' ?s1 = (Inl e, ?s1\<lparr>revenueCache := rc, vault := v', txCount := txCount s + 1\<rparr>)"
    using unbacked_settlement [of ?s1 v' k ?q] assms q by auto
  have run: "operatorRun demoEnv ?q ?s1 = (Inl e, ?s1\<lparr>revenueCache := rc, vault := v', txCount := txCount s + 1\<rparr>)"
    using s(1,5) x by (simp add: operatorRun_def q findMerchant_demo fiatMerchant_sel)
  show ?thesis
    using s(1) load run by (simp add: executeRoute_def demoOperator_admin operatorFail_def q)
qed

text \<open>
  C29. Executing a fiat settlement debits the merchant before it tries to take the backing: when the reserve
  does not cover the amount the request is marked failed, the debit stays, and the operator can execute the failed
  request again, which debits the merchant a second time while its balance covers the amount. In the run shown two attempts
  take R400.00 of a R200.00 request from a merchant with R500.00 and pay nothing; the request stays failed, without a transaction.
\<close>

theorem retried_settlement_debits_again:
  "\<exists>m1 m2 t1 t2 q. executeRoute demoEnv demoOperator (Some ''Bearer op'') 0 (demoSettleDb [demoRequest 20000 ''ZAR'']) = (Inr (ReplyErr 502 m1 None), t1)
    \<and> executeRoute demoEnv demoOperator (Some ''Bearer op'') 0 t1 = (Inr (ReplyErr 502 m2 None), t2)
    \<and> balanceOf demoVault 10 (currencyHash demoEnv ''ZAR'') = 50000
    \<and> balanceOf (vault t1) 10 (currencyHash demoEnv ''ZAR'') = 30000 \<and> balanceOf (vault t2) 10 (currencyHash demoEnv ''ZAR'') = 10000
    \<and> tts t2 3 = Some poorToken \<and> settlements t2 = [q] \<and> seqStatus q = SettleFailed \<and> seqTx q = None"
proof -
  let ?q = "demoRequest 20000 ''ZAR''" and ?c = "0x15A4152 :: bytes32"
  let ?s = "demoSettleDb [?q]"
  have b0: "unifiedBalance demoVault 10 ?c = Inr 50000" "balanceOf demoVault 10 ?c = 50000"
    by (simp_all add: vault_eval demoVault_def demoShares_def balanceOf_def assetsOf_def)
  obtain v1 v2 where v1: "adminDebit 2 10 20000 ?c demoVault = Inr v1" and b1: "unifiedBalance v1 10 ?c = Inr 30000"
    and v2: "adminDebit 2 10 20000 ?c v1 = Inr v2"
    by (simp add: vault_eval demoVault_def demoShares_def)
  have dd: "debitAssets 10 ?c 20000 demoVault = Inr v1" "debitAssets 10 ?c 20000 v1 = Inr v2"
    using v1 v2 by (auto dest!: adminDebit_InrD)
  have c1: "cashSound v1 ?c" "balanceOf v1 10 ?c = 30000"
    using cash.deb_exact [OF dd(1) demo_cash, of ?c 10] b0 by auto
  have c2: "balanceOf v2 10 ?c = 10000" using cash.deb_exact [OF dd(2) c1(1), of 10] c1(2) by simp
  have q: "?q\<lparr>seqStatus := SettleApproved\<rparr> = ?q" by (simp add: demoRequest_def)
  obtain m1 t1 where r1: "executeRoute demoEnv demoOperator (Some ''Bearer op'') 0 ?s = (Inr (ReplyErr 502 m1 None), t1)"
    and t1: "net t1 = []" "vault t1 = v1" "stablecoins t1 = stablecoins ?s" "currencies t1 = currencies ?s" "countries t1 = countries ?s"
      "merchants t1 = merchants ?s" "tts t1 = tts ?s" "settlements t1 = [?q\<lparr>seqStatus := SettleFailed\<rparr>]"
    using operator_unbacked [of ?s v1 50000 SettleApproved] v1 b0 q by auto
  obtain m2 t2 where r2: "executeRoute demoEnv demoOperator (Some ''Bearer op'') 0 t1 = (Inr (ReplyErr 502 m2 None), t2)"
    and t2: "vault t2 = v2" "tts t2 = tts t1" "settlements t2 = [?q\<lparr>seqStatus := SettleFailed\<rparr>]"
    using operator_unbacked [of t1 v2 30000 SettleFailed] v2 b1 t1 by auto
  show ?thesis
    using r1 r2 t1 t2 b0 c1 c2 by (intro exI [of _ m1] exI [of _ m2] exI [of _ t1] exI [of _ t2]) (simp add: demoRequest_def)
qed

section \<open>Witnesses\<close>

lemma memberRole_demo: "requireMemberAuth demoOperator (Some ''Bearer m'') = Inr \<lparr>meId = Some (mbId demoMember), meMerchant = Some ''m1'', meRole = Some (roleText (mbRole demoMember))\<rparr>"
  by (simp add: requireMemberAuth_def jwtVerify_def bearer_def demoOperator_def memberClaims_def)

text \<open>An administrator's own request is approved by its author, whatever threshold is configured.\<close>

lemma demo_request:
  obtains r t row where "requestRoute demoEnv demoOperator (Some ''Bearer m'')
      \<lparr>sqAmount = Some ''200'', sqCurrency = Some ''ZAR'', sqDest = None, sqBankRef = Some ''acc''\<rparr> (demoSettleDb []) = (r, t)"
    and "settlements t = [row]" and "seqStatus row = SettleApproved" and "seqApprovedBy row = Some (seqBy row)"
proof -
  obtain cfg rc where g: "getRevenueConfig (demoSettleDb []) = (Inr cfg, (demoSettleDb [])\<lparr>revenueCache := rc\<rparr>)"
    using revenue_run [of "demoSettleDb []"] by auto
  let ?s1 = "(demoSettleDb [])\<lparr>revenueCache := rc\<rparr>"
  obtain row t where n: "newRequest ''m1'' (mbId demoMember) True ''200'' ''ZAR'' ''acc'' (settlementFeeBps cfg) ?s1 = Inr (row, t)"
    by (cases "newRequest ''m1'' (mbId demoMember) True ''200'' ''ZAR'' ''acc'' (settlementFeeBps cfg) ?s1")
      (auto simp: newRequest_def settle_cents Let_def split: prod.splits)
  have ins: "insertSettlement ''m1'' (mbId demoMember) True ''200'' ''ZAR'' ''acc'' (settlementFeeBps cfg) ?s1 = (Inr row, t)"
    by (simp add: insertSettlement_def io_calm n)
  have role: "roleText (mbRole demoMember) = ''org_admin''" by (simp add: demoMember_def roleText_def)
  have tr: "trim ''acc'' = ''acc''" by code_simp
  have "requestRoute demoEnv demoOperator (Some ''Bearer m'')
      \<lparr>sqAmount = Some ''200'', sqCurrency = Some ''ZAR'', sqDest = None, sqBankRef = Some ''acc''\<rparr> (demoSettleDb []) = (Inr (Reply row), t)"
    by (simp add: requestRoute_def memberRole_demo asMember_def nonEmpty_def getMerchantMeta_def findMerchant_demo fiatMerchant_sel
        settleDestination_def tr g role ins)
  then show thesis using newRequest_InrD [OF n] by (intro that) auto
qed

lemma payout_needs_org_admin_witness:
  "\<exists>s r. settleStep demoEnv demoOperator (demoSettleDb [], []) (s, []) \<and> r \<in> set (settlements s) \<and> seqStatus r = SettleApproved
    \<and> (\<exists>h m. requireOrgAdmin demoOperator h = Inr m \<and> seqApprovedBy r = meId m)"
proof -
  obtain r t row where run: "requestRoute demoEnv demoOperator (Some ''Bearer m'')
      \<lparr>sqAmount = Some ''200'', sqCurrency = Some ''ZAR'', sqDest = None, sqBankRef = Some ''acc''\<rparr> (demoSettleDb []) = (r, t)"
    and t: "settlements t = [row]" "seqStatus row = SettleApproved" by (rule demo_request)
  have st: "settleStep demoEnv demoOperator (demoSettleDb [], []) (t, [])" by (rule settleStep.requestS [OF run])
  have "\<exists>h m. requireOrgAdmin demoOperator h = Inr m \<and> meId m \<noteq> None \<and> seqApprovedBy row = meId m \<and> meMerchant m = Some (seqMerchant row)"
    by (rule payout_needs_org_admin [of demoEnv demoOperator "demoSettleDb []" t "[]"], rule r_into_rtranclp, rule st) (simp_all add: t)
  then show ?thesis using st t by (intro exI [of _ t] exI [of _ row]) auto
qed

lemma settlement_pays_gross_witness:
  "\<exists>t. executeSettlement demoEnv (demoRequest 1000 ''USDC'') ''ONCHAIN'' (demoSettleDb [demoRequest 1000 ''USDC'']) = (Inr (), t)
    \<and> erc t 4 99 = 10000000"
proof -
  let ?q = "demoRequest 1000 ''USDC''"
  let ?s = "demoSettleDb [?q]"
  have v: "tokenAt0 demoVault 0x155534443 = 4" "tokenCurrency demoVault 4 = 0x155534443" "isExecutor demoVault 2"
    "unifiedBalance demoVault 10 0x155534443 = Inr 30000000"
    by (simp_all add: tokenAt0_def demoVault_def vault_eval demoShares_def)
  obtain v1 where d: "debitAssets 10 0x155534443 10000000 demoVault = Inr v1"
    by (simp add: vault_eval demoVault_def demoShares_def)
  have m: "ozExample 1 99 10000000 (\<lambda>u. if u = 1 then 100000000 else 0) = Some (moved 1 99 10000000 (\<lambda>u. if u = 1 then 100000000 else 0))"
    by (simp add: ozExample_def)
  obtain cfg rc where g: "getRevenueConfig ?s = (Inr cfg, ?s\<lparr>revenueCache := rc\<rparr>)"
    using revenue_run [of ?s] by auto
  have q: "seqMerchant ?q = ''m1''" "seqAmount ?q = 1000" "seqCurrency ?q = ''USDC''" "seqDest ?q = ''0x0000000000000000000000000000000000000063''"
    "seqFeeBps ?q = Some 150"
    by (simp_all add: demoRequest_def)
  obtain fee net where f: "calcSettlementFee (fl 10) 150 = (fee, net)" by fastforce
  have u: "unifiedBalanceOf demoEnv 10 ''USDC'' ?s = (Inr 30000000, ?s)"
    using v by (simp add: unifiedBalanceOf_def callView_calm)
  obtain t where run: "executeSettlement demoEnv ?q ''ONCHAIN'' ?s = (Inr (), t)"
    using v d m by (simp add: executeSettlement_def q findMerchant_demo fiatMerchant_sel settle_texts settle_parse settle_codes settle_hex u g f
        paySettlement_def vaultBackingTokenForCurrency_def withdrawToExternal_def vaultWriter_def sendTx_calm withdrawExternal_def guard_def
        tokenTransfer_def updSettlement_def Let_def)
  have "ozLaw (erc20 demoEnv 4)" "4 = tokenAt0 (vault ?s) (currencyHash demoEnv (toUpper (seqCurrency ?q)))"
    "tokenCurrency (vault ?s) 4 = currencyHash demoEnv (toUpper (seqCurrency ?q))" "tts ?s 4 = None"
    using v by (simp_all add: ozLaw_example q settle_codes)
  from settlement_pays_gross [OF run refl this] obtain va a to where "vaultAddr demoEnv = Some va" "getAddr demoEnv (seqDest ?q) = Some to"
    and "parseUnits demoEnv (centsText (seqAmount ?q)) (decimalsFor (toUpper (seqCurrency ?q))) = Some a" and "erc t 4 = moved va to (nat a) (erc ?s 4)"
    by (elim exE conjE) (rule that)
  then have "erc t 4 99 = 10000000"
    by (simp add: q settle_texts settle_codes settle_parse settle_hex moved_def)
  then show ?thesis using run by blast
qed

end
