(* ===== verification/TransferProps.thy ===== *)
theory TransferProps
  imports Transfers SettlementProps
begin

text \<open>
  What a payment under a session key moves and what it is checked against; that the routes which register
  a session key relay any prepared payment without booking it; and the two copies of the check of a signed
  transfer.
\<close>

section \<open>Steps that touch neither the ledger nor the sessions\<close>

definition ledgerIs :: "vault \<Rightarrow> sessions \<Rightarrow> ('w, 'r) sessionDb_scheme \<Rightarrow> bool" where
  "ledgerIs v m s \<longleftrightarrow> vault s = v \<and> sessions s = m"

named_theorems keeps_ledger \<open>actions that leave the Vault and the session registry alone\<close>

lemma ledgerIs_net [simp]: "net_free (ledgerIs v m)"
  by (simp add: net_free_def ledgerIs_def)

lemma keeps_ledger_read [keeps_ledger]: "keeps (ledgerIs v m) (readIO f)" "keeps (ledgerIs v m) (callView g)"
  by (rule keeps_readIO keeps_callView, simp)+

lemma keeps_ledger_modify: "(\<And>s. vault (f s) = vault s \<and> sessions (f s) = sessions s) \<Longrightarrow> keeps (ledgerIs v m) (modify f)"
  by (rule keeps_modify) (simp add: ledgerIs_def)

lemma keeps_ledger_write: "(\<And>s. vault (f s) = vault s \<and> sessions (f s) = sessions s) \<Longrightarrow> keeps (ledgerIs v m) (writeIO f)"
  by (rule keeps_writeIO) (simp_all add: ledgerIs_def)

lemma ledger_same:
  assumes "keeps (ledgerIs (vault s) (sessions s)) p" and "p s = (r, t)"
  shows "vault t = vault s" and "sessions t = sessions s"
  using keepsD [of "ledgerIs (vault s) (sessions s)" p s] assms by (simp_all add: ledgerIs_def)

lemma toLimitUnits_ledger [keeps_ledger]: "keeps (ledgerIs v m) (toLimitUnits E a c)"
proof (rule keepsI)
  fix s :: "('a, 'b) sessionDb_scheme"
  assume "ledgerIs v m s"
  moreover have "fxFrame s (snd (toLimitUnits E a c s))" by (rule keepsD [OF toLimitUnits_frame fxFrame_refl])
  ultimately show "ledgerIs v m (snd (toLimitUnits E a c s))" by (auto simp: fxFrame_def ledgerIs_def)
qed

lemma bookPayment_ledger [keeps_ledger]: "keeps (ledgerIs v m) (bookPayment E consumer sale sender to a c st tx)"
proof -
  have "keeps (ledgerIs v m) (recordMerchantSale sale to sender a c tx)"
    unfolding recordMerchantSale_def Let_def case_prod_beta
    by (intro keeps_intro keeps_ledger keeps_io ledgerIs_net)
      (auto simp: ledgerIs_def enqueueSaleFulfilment_def intro: keeps_modify)
  moreover have "keeps (ledgerIs v m) (recordSpendEvent E p u cp h)" for p u cp h
    unfolding recordSpendEvent_def by (intro keeps_intro keeps_ledger keeps_ledger_write) simp
  ultimately show ?thesis unfolding bookPayment_def Let_def by (intro keeps_intro)
qed

section \<open>A payment under a session key\<close>

lemma onSessions_Inr_iff: "onSessions f s = Inr t \<longleftrightarrow> (\<exists>m. f (sessions s) = Inr m \<and> t = s\<lparr>sessions := m\<rparr>)"
  by (auto simp: onSessions_def sbind_Inr_iff)

lemma executeTransfer_InrD:
  assumes "executeTransfer X A this safe key to a c deadline sig s = Inr t"
  shows "validateAndConsumeSession X (blockTime s) safe key to a c deadline sig (sessions s) = Inr (sessions t)"
    and "transfer (isRegistered s) safe to a c (vault s) = Inr (vault t)" and "safeModuleOn A (safes s) safe this"
proof -
  obtain m where m: "validateAndConsumeSession X (blockTime s) safe key to a c deadline sig (sessions s) = Inr m"
    and g: "safeModuleOn A (safes s) safe this"
    and r: "(case onVault (transfer (isRegistered s) safe to a c) (s\<lparr>sessions := m\<rparr>) of Inl _ \<Rightarrow> Inl VaultTransferFailed | Inr s2 \<Rightarrow> Inr s2) = Inr t"
    using assms unfolding executeTransfer_def sbind_Inr_iff onSessions_Inr_iff by auto
  from r have "onVault (transfer (isRegistered s) safe to a c) (s\<lparr>sessions := m\<rparr>) = Inr t" by (auto split: sum.splits)
  with m g show "validateAndConsumeSession X (blockTime s) safe key to a c deadline sig (sessions s) = Inr (sessions t)"
    "transfer (isRegistered s) safe to a c (vault s) = Inr (vault t)" "safeModuleOn A (safes s) safe this"
    by (auto simp: onVault_Inr_iff)
qed

lemma relaySessionPayment_InrD:
  assumes "relaySessionPayment E X A wallet key to amount cur deadline signature s = (Inr h, t)"
  shows "\<exists>k sig. getAddr E key = Some k \<and> bytesLike signature = Some sig \<and> 0 \<le> amount
    \<and> validateAndConsumeSession X (blockTime s) wallet k to (nat amount) (currencyHash E cur) (nat deadline) sig (sessions s) = Inr (sessions t)
    \<and> transfer (isRegistered s) wallet to (nat amount) (currencyHash E cur) (vault s) = Inr (vault t)"
proof -
  obtain m k sig rest u where k: "getAddr E key = Some k" "bytesLike signature = Some sig" "0 \<le> amount"
    and x: "executeTransfer X A m wallet k to (nat amount) (currencyHash E cur) (nat deadline) sig (s\<lparr>net := rest\<rparr>) = Inr u"
    and t: "t = u\<lparr>txCount := txCount u + 1\<rparr>"
    using assms unfolding relaySessionPayment_def relaySessionTransfer_def backendWallet_def
    by (auto simp: andThen_Inr_iff dest!: sendTx_InrD)
  have b: "blockTime (s\<lparr>net := rest\<rparr>) = blockTime s" by (simp add: blockTime_def)
  show ?thesis using executeTransfer_InrD(1,2) [OF x] k t unfolding b by auto
qed

lemma validate_InrD:
  assumes "validateAndConsumeSession X now safe key to a c deadline sig m = Inr m'"
  shows "ssActive (m safe key)" and "now \<le> ssExpiry (m safe key)" and "now \<le> deadline" and "a \<le> ssMaxPerTx (m safe key)"
    and "smRecover X (smDigest X safe to a c (ssNonce (m safe key)) deadline) sig = Some key"
    and "ssNonce (m' safe key) = (ssNonce (m safe key) + 1) mod uintLimit"
  using assms unfolding validateAndConsumeSession_def Let_def
  by (auto simp: sbind_guard_Inr_iff sbind_Inr_iff rollDay_def split: option.splits if_splits)

lemma submitBySession_InrD:
  assumes "submitBySession E X A consumer wallet i signature s = (Inr (Reply r), t)"
  shows "\<exists>p h u. pendingSessions s i = Some p \<and> clock s \<le> psExpiry p \<and> psSender p = wallet
    \<and> relaySessionPayment E X A wallet (psKey p) (psTo p) (psAmount p) (psCurrency p) (psDeadline p) signature s = (Inr h, u)
    \<and> vault t = vault u \<and> sessions t = sessions u"
proof -
  obtain p where p: "pendingSessions s i = Some p"
    using assms unfolding submitBySession_def by (cases "pendingSessions s i") auto
  have live: "clock s \<le> psExpiry p" and own: "psSender p = wallet"
    using assms p unfolding submitBySession_def by (auto split: if_splits)
  let ?book = "bookPayment E consumer (psSale p) (psSender p) (psTo p) (psAmount p) (psCurrency p) (if psSale p = None then P2p else Purchase)"
  have "andThen (relaySessionPayment E X A (psSender p) (psKey p) (psTo p) (psAmount p) (psCurrency p) (psDeadline p) signature) (\<lambda>tx.
      andThen (modify (\<lambda>s. s\<lparr>pendingSessions := (pendingSessions s)(i := None)\<rparr>)) (\<lambda>_. ?book tx)) s = (Inr (Reply r), t)"
    using assms p live own unfolding submitBySession_def by (simp add: not_less)
  then obtain h u where u: "relaySessionPayment E X A (psSender p) (psKey p) (psTo p) (psAmount p) (psCurrency p) (psDeadline p) signature s = (Inr h, u)"
    and b: "?book h (u\<lparr>pendingSessions := (pendingSessions u)(i := None)\<rparr>) = (Inr (Reply r), t)"
    by (auto simp: andThen_Inr_iff)
  show ?thesis
    using ledger_same [OF bookPayment_ledger b] u p live own by (intro exI [of _ p] exI [of _ h] exI [of _ u]) simp
qed

text \<open>
  C32. A payment submitted under a session key that succeeds was prepared by the same wallet, is within the
  session's life and its cap per transaction, and is signed by the key over the current nonce, which it uses up.
  When the recipient is another account than the wallet, it takes at least the amount from the wallet's claim and
  gives at least the amount to the recipient's, in the payment's currency; a payment to the wallet itself
  leaves its balance as it was. No other account's balance changes in any currency, and
  neither the wallet's nor the recipient's changes in any other currency.
\<close>

theorem session_payment_exact:
  assumes "submitBySession E X A consumer wallet i signature s = (Inr (Reply r), t)"
  shows "\<exists>p k sig. pendingSessions s i = Some p \<and> psSender p = wallet \<and> clock s \<le> psExpiry p
    \<and> getAddr E (psKey p) = Some k \<and> bytesLike signature = Some sig
    \<and> (let ss = sessions s wallet k; a = nat (psAmount p); c = currencyHash E (psCurrency p) in
        ssActive ss \<and> blockTime s \<le> ssExpiry ss \<and> blockTime s \<le> nat (psDeadline p) \<and> a \<le> ssMaxPerTx ss
      \<and> smRecover X (smDigest X wallet (psTo p) a c (ssNonce ss) (nat (psDeadline p))) sig = Some k
      \<and> ssNonce (sessions t wallet k) = (ssNonce ss + 1) mod uintLimit
      \<and> (wallet \<noteq> psTo p \<longrightarrow> balanceOf (vault t) wallet c + a \<le> balanceOf (vault s) wallet c
           \<and> balanceOf (vault s) (psTo p) c + a \<le> balanceOf (vault t) (psTo p) c)
      \<and> (\<forall>w d. (w \<noteq> wallet \<and> w \<noteq> psTo p) \<or> d \<noteq> c \<or> wallet = psTo p \<longrightarrow> balanceOf (vault t) w d = balanceOf (vault s) w d))"
proof -
  obtain p h u where p: "pendingSessions s i = Some p" "clock s \<le> psExpiry p" "psSender p = wallet"
    and run: "relaySessionPayment E X A wallet (psKey p) (psTo p) (psAmount p) (psCurrency p) (psDeadline p) signature s = (Inr h, u)"
    and same: "vault t = vault u" "sessions t = sessions u"
    using submitBySession_InrD [OF assms] by blast
  obtain k sig where k: "getAddr E (psKey p) = Some k" "bytesLike signature = Some sig"
    and v: "validateAndConsumeSession X (blockTime s) wallet k (psTo p) (nat (psAmount p)) (currencyHash E (psCurrency p))
       (nat (psDeadline p)) sig (sessions s) = Inr (sessions u)"
    and x: "transfer (isRegistered s) wallet (psTo p) (nat (psAmount p)) (currencyHash E (psCurrency p)) (vault s) = Inr (vault u)"
    using relaySessionPayment_InrD [OF run] by blast
  have self: "wallet = psTo p \<Longrightarrow> balanceOf (vault u) w d = balanceOf (vault s) w d" for w d
    using transfer_self x by metis
  show ?thesis
    using p k validate_InrD [OF v] transfer_sender [OF x] transfer_recipient [OF x] transfer_others [OF x]
      transfer_other_currency [OF x] self same
    unfolding Let_def by (intro exI [of _ p] exI [of _ k] exI [of _ sig]) auto
qed

section \<open>The routes of the session keys\<close>

lemma relaySafeTx_InrD:
  assumes "relaySafeTx E X A safe owner t assertion s = (Inr h, u)" and "stData t = VaultTransfer to a c"
  shows "transfer (isRegistered s) safe to a c (vault s) = Inr (vault u)" and "vaultAddr E = Some (stTo t)"
    and "spendEvents u = spendEvents s" and "sales u = sales s" and "pendingClaims u = pendingClaims s" and "clock u = clock s"
proof -
  obtain rest inner w where x: "execTransaction E X A safe t (encodeSafeContractSignature owner (safeAbi A inner)) (s\<lparr>net := rest\<rparr>) = Inr w"
    and u: "u = w\<lparr>txCount := txCount w + 1\<rparr>"
    using assms(1) unfolding relaySafeTx_def backendWallet_def
    by (auto simp: andThen_Inr_iff ofSum_def split: sum.splits dest!: sendTx_InrD)
  have va: "vaultAddr E = Some (stTo t)"
    using x assms(2) by (auto simp: execTransaction_def safeCall_def split: option.splits if_splits)
  obtain ws v where "transfer (isRegistered s) safe to a c (vault s) = Inr v" "w = s\<lparr>net := rest, safes := ws, vault := v\<rparr>"
    using x assms(2) va by (auto simp: execTransaction_def safeCall_def onVault_Inr_iff split: option.splits)
  then show "transfer (isRegistered s) safe to a c (vault s) = Inr (vault u)" "vaultAddr E = Some (stTo t)"
      "spendEvents u = spendEvents s" "sales u = sales s" "pendingClaims u = pendingClaims s" "clock u = clock s"
    using va u by simp_all
qed

text \<open>
  C33. The route that submits a session's setup relays whatever the hash stands for: a prepared payment sent
  to it moves the money while no spend event, no sale and no claim is recorded, so that the limits of later
  payments do not count it.
\<close>

theorem setup_route_pays_unbooked:
  assumes "sessionStartSubmit E X A wallet b s = (Inr (Reply r), t)" and "sbStep b = Some ''enableModule''"
    and "sbHash b = Some h" and "livePending h s = Some p" and "stData (ptTx p) = VaultTransfer to a c"
  shows "transfer (isRegistered s) wallet to a c (vault s) = Inr (vault t)
    \<and> spendEvents t = spendEvents s \<and> sales t = sales s \<and> pendingClaims t = pendingClaims s"
proof -
  have no: "tryCatch m (\<lambda>e. ret (ReplyErr 500 (fmsg e) None)) s = (Inr (Reply r), t) \<Longrightarrow> m s = (Inr (Reply r), t)"
    for m :: "(('a, 'b) transferDb_scheme, (string \<times> txHash \<times> string) reply) prog"
    by (auto simp: tryCatch_def split: prod.splits sum.splits)
  have ne: "nonEmpty (Some h) = Some h" "\<exists>cr k. nonEmpty (sbCredential b) = Some cr \<and> nonEmpty (sbKey b) = Some k"
    using assms(1,3) no [OF assms(1) [unfolded sessionStartSubmit_def]] by (auto simp: nonEmpty_def split: option.splits if_splits)
  then obtain cr k where f: "nonEmpty (sbCredential b) = Some cr" "nonEmpty (sbKey b) = Some k" by blast
  note run = no [OF assms(1) [unfolded sessionStartSubmit_def assms(3) ne(1) f option.case prod.case]]
  from run obtain sg u where sg: "signerOf (Some cr) s = (Inr sg, u)"
    and run2: "(case sg of None \<Rightarrow> ret (ReplyErr 404 ''Unknown passkey credential'' None)
          | Some owner \<Rightarrow>
            andThen (bodyAssertion (submitBody.truncate b)) (\<lambda>assertion.
            if sbStep b = Some ''enableModule'' then
              andThen (relaySessionSetupTx E X A wallet owner (ptTx p) assertion) (\<lambda>tx.
              andThen (dropPending h) (\<lambda>_. ret (Reply (''enableModule'', tx, k))))
            else (case nonEmpty (sbExpiry b) of
              None \<Rightarrow> ret (ReplyErr 400 ''expiry required for addSessionKey step'' None)
            | Some expiry \<Rightarrow>
              andThen (defaultSessionCaps E) (\<lambda>(mx, cap).
              andThen (completeSessionStart E X A wallet k owner (ptTx p) assertion expiry
                (orElse (sbMaxPerTx b) (showInt mx)) (orElse (sbDailyCap b) (showInt cap))) (\<lambda>tx.
              andThen (dropPending h) (\<lambda>_. ret (Reply (''addSessionKey'', tx, k)))))))) u = (Inr (Reply r), t)"
    using assms(4) by (auto simp: andThen_Inr_iff)
  from sg obtain rest where u: "u = s\<lparr>net := rest\<rparr>" unfolding signerOf_def by (auto dest!: readIO_InrD)
  obtain owner as tx v where "relaySafeTx E X A wallet owner (ptTx p) as u = (Inr tx, v)"
      "t = v\<lparr>pendingTransfers := (pendingTransfers v)(h := None)\<rparr>"
    using run2 assms(2) by (auto simp: andThen_Inr_iff dropPending_def relaySessionSetupTx_def bodyAssertion_def split: option.splits)
  from relaySafeTx_InrD [OF this(1) assms(5)] this(2) u show ?thesis by simp
qed

section \<open>The two copies of the check\<close>

text \<open>
  The check of a signed transfer in the transfer route and \<open>relaySignedPending\<close> of the escrow route
  agree: the same relays, and the same refusals, replied by the one and thrown with a status by the other.
\<close>

theorem checks_agree:
  "relaySignedPending E X A W p h credential authData clientB64 sigB64
     = andThen (checkSigned W p h credential clientB64) (\<lambda>c. case c of
         Inl (st, m) \<Rightarrow> raise (statusErr m st)
       | Inr owner \<Rightarrow> relayPending E X A p owner authData clientB64 sigB64)"
  unfolding relaySignedPending_def checkSigned_def relayPending_def
  by (rule ext) (auto simp: andThen_def ofOption_def require_def split: prod.splits sum.splits option.splits)

section \<open>Examples\<close>

text \<open>A Safe that accepts every signature, with the module enabled, and the hash \<open>0xaa\<close> for every transaction.\<close>

definition demoSafe :: "unit safeApi" where
  "demoSafe = \<lparr>safeDeployed = (\<lambda>_ _. True), safeNonce = (\<lambda>_ _. Some 0), safeOffChainHash = (\<lambda>_ _. ''0xaa''), safeOnChainHash = (\<lambda>_ _ _. ''0xaa''),
     safeAccepts = (\<lambda>_ _ _ _. Some ()), safeEnable = (\<lambda>_ _ _. Some ()), safeModuleOn = (\<lambda>_ _ _. True), safeAbi = (\<lambda>_. [])\<rparr>"

definition demoPending :: pendingTransfer where
  "demoPending = \<lparr>ptTx = plainSafeTx 1 (VaultTransfer 11 5000 0x15A4152) 0, ptSender = 10, ptTo = 11, ptAmount = 5000, ptCurrency = ''ZAR'',
     ptExpiry = 1700000300000, ptPhone = None, ptSale = None\<rparr>"

definition demoKeyText :: string where
  "demoKeyText = ''0x0000000000000000000000000000000000000009''"

definition demoSessionPending :: pendingSessionTransfer where
  "demoSessionPending = \<lparr>psSender = 10, psTo = 11, psAmount = 5000, psCurrency = ''ZAR'', psKey = demoKeyText, psDeadline = 1700003600,
     psExpiry = 1700000300000, psSale = None\<rparr>"

definition demoTransferDb :: "unit transferDb" where
  "demoTransferDb = sessionDb.extend
     (settleDb.extend (demoSettleDb []) (sessionDb.fields () (setSession 10 9 \<lparr>ssExpiry = 1700086400, ssMaxPerTx = 5000000000,
        ssDailyCap = 20000000000, ssDailySpent = 0, ssDayBucket = 0, ssNonce = 3, ssActive = True\<rparr> (\<lambda>_ _. noSession)) [] None
        (\<lambda>k. if k = ''k1'' then Some 77 else None)))
     (transferDb.fields (\<lambda>h. if h = ''0xaa'' then Some demoPending else None)
        (\<lambda>i. if i = ''i1'' then Some demoSessionPending else None) None)"

lemma demoTransfer_sel [simp]:
  "net demoTransferDb = []" "clock demoTransferDb = 1700000000000" "vault demoTransferDb = demoVault"
  "spendEvents demoTransferDb = [demoSpent]" "safes demoTransferDb = ()" "signerAddress demoTransferDb = (\<lambda>k. if k = ''k1'' then Some 77 else None)"
  "credentials demoTransferDb = [\<lparr>crId = ''k1'', crWallet = 10, crX = 3, crY = 2, crCount = 0\<rparr>]"
  "pendingTransfers demoTransferDb = (\<lambda>h. if h = ''0xaa'' then Some demoPending else None)"
  "pendingSessions demoTransferDb = (\<lambda>i. if i = ''i1'' then Some demoSessionPending else None)"
  "sessions demoTransferDb = setSession 10 9 \<lparr>ssExpiry = 1700086400, ssMaxPerTx = 5000000000,
        ssDailyCap = 20000000000, ssDailySpent = 0, ssDayBucket = 0, ssNonce = 3, ssActive = True\<rparr> (\<lambda>_ _. noSession)"
  by (simp_all add: demoTransferDb_def transferDb.defs sessionDb.defs demoSettleDb_def settleDb.defs demoWithdrawDb_def withdrawDb.defs
      demoAuthDb_def authDb.defs demoSalesDb_def salesDb.defs demoVoucherDb_def voucherDb.defs demo_state)

lemma demoSafe_sel [simp]:
  "safeAccepts demoSafe w a t g = Some ()" "safeModuleOn demoSafe w a m = True"
  by (simp_all add: demoSafe_def)

lemma demoPending_sel [simp]:
  "ptTx demoPending = plainSafeTx 1 (VaultTransfer 11 5000 0x15A4152) 0" "ptExpiry demoPending = 1700000300000"
  "psSender demoSessionPending = 10" "psTo demoSessionPending = 11" "psAmount demoSessionPending = 5000" "psCurrency demoSessionPending = ''ZAR''"
  "psKey demoSessionPending = demoKeyText" "psDeadline demoSessionPending = 1700003600" "psExpiry demoSessionPending = 1700000300000"
  "psSale demoSessionPending = None"
  by (simp_all add: demoPending_def demoSessionPending_def)

lemma plainSafeTx_sel [simp]: "stTo (plainSafeTx to d n) = to" "stData (plainSafeTx to d n) = d"
  by (simp_all add: plainSafeTx_def)

lemma demo_transfer: "\<exists>v. transfer reg 10 11 5000 0x15A4152 demoVault = Inr v"
  by (simp add: transfer_def convertToAssets_def convertToShares_def demoVault_def demoShares_def mul256_def uintLimit_def
      add256_def sub256_def Let_def guard_def sbind_def)

definition demoClientJson :: "byte list" where
  "demoClientJson = map (\<lambda>c. of_nat (of_char c)) (clientPrefix @ ''AAAA\",\"origin\":\"o\"}'')"

lemma demo_encoded: "\<exists>x. encodeWebAuthnSignature \<lparr>raAuthData = ad, raClientData = demoClientJson, raSignature = [0x30, 6, 2, 1, 5, 2, 1, 7]\<rparr> = Inr x"
proof -
  have "bytesStr (map (\<lambda>c. of_nat (of_char c)) t) = t" for t
    by (simp add: bytesStr_def unat_of_nat comp_def)
  then have "bytesStr demoClientJson = clientPrefix @ ''AAAA\",\"origin\":\"o\"}''"
    unfolding demoClientJson_def .
  moreover have "\<exists>f. extractClientDataFields (clientPrefix @ ''AAAA\",\"origin\":\"o\"}'') = Inr f"
    by (simp add: extractClientDataFields_def clientPrefix_def Let_def isB64urlChar_def b64Val_def)
  moreover have "derToRS [0x30, 6, 2, 1, 5, 2, 1, 7] = Inr (5, 7)"
    by (simp add: derToRS_def derInteger_def byteAt_def natOfBytes_def Let_def)
  ultimately show ?thesis by (auto simp: encodeWebAuthnSignature_def)
qed

definition demoSetupBody :: startBody where
  "demoSetupBody = \<lparr>sbHash = Some ''0xaa'', sbCredential = Some ''k1'', sbAuthData = Some [], sbClientData = Some (bufToB64url demoClientJson),
     sbSignature = Some (bufToB64url [0x30, 6, 2, 1, 5, 2, 1, 7]), sbKey = Some ''x'', sbExpiry = None, sbMaxPerTx = None, sbDailyCap = None,
     sbStep = Some ''enableModule''\<rparr>"

lemma demo_relay:
  assumes "vault s = demoVault" and "net s = []"
  shows "\<exists>h t. relaySafeTx demoEnv X demoSafe 10 77 (plainSafeTx 1 (VaultTransfer 11 5000 0x15A4152) 0)
    \<lparr>raAuthData = ad, raClientData = demoClientJson, raSignature = [0x30, 6, 2, 1, 5, 2, 1, 7]\<rparr> s = (Inr h, t)"
proof -
  obtain x where x: "encodeWebAuthnSignature \<lparr>raAuthData = ad, raClientData = demoClientJson, raSignature = [0x30, 6, 2, 1, 5, 2, 1, 7]\<rparr> = Inr x"
    using demo_encoded by blast
  obtain v where v: "transfer (isRegistered s) 10 11 5000 0x15A4152 demoVault = Inr v" using demo_transfer by blast
  show ?thesis
    using assms v by (simp add: relaySafeTx_def backendWallet_def ofSum_def x sendTx_calm execTransaction_def safeCall_def onVault_def)
qed

lemma b64_empty: "b64urlToBuf [] = []"
  using b64url_inverse [of "[]"] by (simp add: bufToB64url_chars)

lemma setup_route_pays_unbooked_witness:
  "\<exists>r t. sessionStartSubmit demoEnv demoSigner demoSafe 10 demoSetupBody demoTransferDb = (Inr (Reply r), t)
    \<and> balanceOf demoVault 11 0x15A4152 + 5000 \<le> balanceOf (vault t) 11 0x15A4152 \<and> spendEvents t = spendEvents demoTransferDb"
proof -
  have live: "livePending ''0xaa'' demoTransferDb = Some demoPending" by (simp add: livePending_def)
  obtain h u where h: "relaySafeTx demoEnv demoSigner demoSafe 10 77 (plainSafeTx 1 (VaultTransfer 11 5000 0x15A4152) 0)
    \<lparr>raAuthData = [], raClientData = demoClientJson, raSignature = [0x30, 6, 2, 1, 5, 2, 1, 7]\<rparr> demoTransferDb = (Inr h, u)"
    using demo_relay [of demoTransferDb] by fastforce
  have "\<exists>r t. sessionStartSubmit demoEnv demoSigner demoSafe 10 demoSetupBody demoTransferDb = (Inr (Reply r), t)"
    using h by (simp add: sessionStartSubmit_def demoSetupBody_def nonEmpty_def live signerOf_def bodyAssertion_def
      submitBody.truncate_def b64url_inverse b64_empty relaySessionSetupTx_def dropPending_def)
  then obtain r t where run: "sessionStartSubmit demoEnv demoSigner demoSafe 10 demoSetupBody demoTransferDb = (Inr (Reply r), t)" by blast
  from setup_route_pays_unbooked [OF run, of "''0xaa''" demoPending 11 5000 "0x15A4152"] live
  have p: "transfer (isRegistered demoTransferDb) 10 11 5000 0x15A4152 demoVault = Inr (vault t)" "spendEvents t = spendEvents demoTransferDb"
    by (simp_all add: demoSetupBody_def)
  then show ?thesis using run transfer_recipient [OF p(1)] by (intro exI [of _ r] exI [of _ t]) simp
qed

lemma demo_key: "getAddr demoEnv demoKeyText = Some 9" "bytesLike ''0x03'' = Some [3]"
  by (simp_all add: addrExample_def demoKeyText_def isHexDigit_def hexVal_def bytesLike_def)

lemma session_payment_exact_witness:
  "\<exists>r t. submitBySession demoEnv demoSigner demoSafe ''c1'' 10 ''i1'' ''0x03'' demoTransferDb = (Inr (Reply r), t)
    \<and> ssNonce (sessions t 10 9) = 4 \<and> balanceOf demoVault 11 0x15A4152 + 5000 \<le> balanceOf (vault t) 11 0x15A4152"
proof -
  obtain v where v: "transfer (isRegistered demoTransferDb) 10 11 5000 0x15A4152 demoVault = Inr v" using demo_transfer by blast
  have b: "blockTime demoTransferDb = 1700000000" by (simp add: blockTime_def)
  have "\<exists>m. validateAndConsumeSession demoSigner 1700000000 10 9 11 5000 0x15A4152 1700003600 [3] (sessions demoTransferDb) = Inr m"
    by (simp add: demo_module)
  then obtain m where m: "validateAndConsumeSession demoSigner 1700000000 10 9 11 5000 0x15A4152 1700003600 [3] (sessions demoTransferDb) = Inr m"
    by blast
  have x: "\<exists>w. executeTransfer demoSigner demoSafe 7 10 9 11 5000 0x15A4152 1700003600 [3] demoTransferDb = Inr w
      \<and> net w = [] \<and> clock w = 1700000000000"
    using m v by (simp add: executeTransfer_def onSessions_def onVault_def b)
  then obtain w where w: "executeTransfer demoSigner demoSafe 7 10 9 11 5000 0x15A4152 1700003600 [3] demoTransferDb = Inr w" "net w = []"
    by blast
  have relay: "relaySessionPayment demoEnv demoSigner demoSafe 10 demoKeyText 11 5000 ''ZAR'' 1700003600 ''0x03'' demoTransferDb
      = (Inr (txCount w), w\<lparr>txCount := txCount w + 1\<rparr>)"
    using w by (simp add: relaySessionPayment_def relaySessionTransfer_def backendWallet_def demo_key [simplified] sendTx_calm demoSigner_def)
  have "\<exists>r t. submitBySession demoEnv demoSigner demoSafe ''c1'' 10 ''i1'' ''0x03'' demoTransferDb = (Inr (Reply r), t)"
    using relay w(2) by (simp add: submitBySession_def bookPayment_def recordMerchantSale_def recordSpendEvent_def toLimitUnits_def
      currencyDecimals_def upperChar_def Let_def)
  then obtain r t where run: "submitBySession demoEnv demoSigner demoSafe ''c1'' 10 ''i1'' ''0x03'' demoTransferDb = (Inr (Reply r), t)" by blast
  from session_payment_exact [OF run] show ?thesis
    using run demo_key by (auto simp: Let_def setSession_def uintLimit_def)
qed

end
