(* ===== verification/Indexer.thy ===== *)
theory Indexer
  imports Platform
begin

text \<open>
  \<open>indexerService.ts\<close>: the projection of the contracts' logs into the table \<open>chain_events\<close>. A poll reads
  the logs of the confirmed blocks after the cursor in chunks, stores the decoded ones under a unique key,
  and moves the cursor.

  The provider's view of the chain is part of the state (\<open>chainHead\<close>, \<open>chainLogs\<close>, \<open>blockStamp\<close>);
  \<open>ixParse\<close> is \<open>Interface.parseLog\<close> for the interface of a target (\<open>None\<close>: it throws or returns null),
  with the named inputs and their values. The other fields of \<open>indexEnv\<close> are the configuration.
\<close>

datatype targetLabel = VaultTarget | ConsumerTarget | TreasuryTarget

datatype argVal = BigArg int | TextArg string | BoolArg bool | ListArg "argVal list"

record chainLog =
  lgBlock :: int
  lgBlockHash :: string
  lgTx :: string
  lgIndex :: nat
  lgAddress :: address
  lgTopics :: "string list"
  lgData :: string

record parsedLog =
  plName :: string
  plInputs :: "(string \<times> argVal) list"

record eventRow =
  evChain :: nat
  evBlock :: int
  evBlockHash :: string
  evTx :: string
  evIndex :: nat
  evAddress :: address
  evContract :: targetLabel
  evName :: string
  evArgs :: "(string \<times> argVal) list"
  evTime :: "int option"

record indexEnv =
  ixParse :: "targetLabel \<Rightarrow> chainLog \<Rightarrow> parsedLog option"
  ixChain :: nat
  ixStart :: "int option"
  ixConfirmations :: int
  ixChunk :: int

record indexDb = platform +
  chainEvents :: "eventRow list"
  indexerCursor :: "int option"
  chainHead :: int
  chainLogs :: "chainLog list"
  blockStamp :: "int \<Rightarrow> int option"
  indexing :: bool
  indexTargets :: "(address \<times> targetLabel) list"

section \<open>Targets and arguments\<close>

definition buildTargets :: "env \<Rightarrow> ('r indexDb_scheme, (address \<times> targetLabel) list) prog" where
  "buildTargets E =
    (let known = (case vaultAddr E of None \<Rightarrow> [] | Some a \<Rightarrow> [(a, VaultTarget)])
          @ (case consumerAddr E of None \<Rightarrow> [] | Some a \<Rightarrow> [(a, ConsumerTarget)]);
         fallback = (case ttZA E of None \<Rightarrow> [] | Some a \<Rightarrow> [(a, TreasuryTarget)]) @ (case ttZW E of None \<Rightarrow> [] | Some a \<Rightarrow> [(a, TreasuryTarget)]) in
     andThen (tryCatch
       (andThen (readIO (\<lambda>s. List.map_filter contractAddress (filter (\<lambda>c. isTreasuryToken c \<and> isDeployed c) (stablecoins s))))
         (\<lambda>as. ret (map (\<lambda>a. (a, TreasuryTarget)) as)))
       (\<lambda>_. ret [])) (\<lambda>tokens.
     ret (known @ (if tokens = [] then fallback else tokens))))"

text \<open>\<open>bigint\<close> values become decimal text, also inside arrays.\<close>

fun jsonSafe :: "argVal \<Rightarrow> argVal" where
  "jsonSafe (BigArg n) = TextArg (showInt n)"
| "jsonSafe (ListArg vs) = ListArg (map jsonSafe vs)"
| "jsonSafe v = v"

definition argsToObject :: "parsedLog \<Rightarrow> (string \<times> argVal) list" where
  "argsToObject p = map (\<lambda>(i, n, v). (if n = [] then ''arg'' @ showNat i else n, jsonSafe v)) (enumerate 0 (plInputs p))"

section \<open>The cursor and the chunks\<close>

definition getCursor :: "indexEnv \<Rightarrow> ('r indexDb_scheme, int) prog" where
  "getCursor I =
    andThen (readIO indexerCursor) (\<lambda>r. case r of Some c \<Rightarrow> ret c
    | None \<Rightarrow>
      andThen (case ixStart I of Some b \<Rightarrow> ret b | None \<Rightarrow> readIO chainHead) (\<lambda>start.
      andThen (writeIO (\<lambda>s. case indexerCursor s of Some _ \<Rightarrow> s | None \<Rightarrow> s\<lparr>indexerCursor := Some start\<rparr>)) (\<lambda>_.
      ret start)))"

text \<open>The time of a block, asked once per poll; a failed call leaves it null.\<close>

type_synonym blockTimes = "int \<Rightarrow> int option option"

definition timeOf :: "int \<Rightarrow> blockTimes \<Rightarrow> ('r indexDb_scheme, blockTimes) prog" where
  "timeOf b seen = (if seen b \<noteq> None then ret seen
     else andThen (tryCatch (readIO (\<lambda>s. blockStamp s b)) (\<lambda>_. ret None)) (\<lambda>bt. ret (seen(b := Some bt))))"

definition insertEvent :: "eventRow \<Rightarrow> ('r indexDb_scheme, unit) prog" where
  "insertEvent row = writeIO (\<lambda>s. if \<exists>e\<in>set (chainEvents s). evTx e = evTx row \<and> evIndex e = evIndex row then s
     else s\<lparr>chainEvents := chainEvents s @ [row]\<rparr>)"

definition rowOf :: "indexEnv \<Rightarrow> chainLog \<Rightarrow> targetLabel \<Rightarrow> parsedLog \<Rightarrow> int option \<Rightarrow> eventRow" where
  "rowOf I l label p tm = \<lparr>evChain = ixChain I, evBlock = lgBlock l, evBlockHash = lgBlockHash l, evTx = lgTx l, evIndex = lgIndex l,
     evAddress = lgAddress l, evContract = label, evName = plName p, evArgs = argsToObject p, evTime = tm\<rparr>"

text \<open>\<open>byAddr\<close>: the last entry of an address counts.\<close>

definition decodeLog :: "indexEnv \<Rightarrow> (address \<times> targetLabel) list \<Rightarrow> chainLog \<Rightarrow> (targetLabel \<times> parsedLog) option" where
  "decodeLog I targets l = (case map_of (rev targets) (lgAddress l) of None \<Rightarrow> None
     | Some label \<Rightarrow> map_option (Pair label) (ixParse I label l))"

fun indexLogs :: "indexEnv \<Rightarrow> (address \<times> targetLabel) list \<Rightarrow> chainLog list \<Rightarrow> blockTimes \<Rightarrow> ('r indexDb_scheme, blockTimes) prog" where
  "indexLogs I targets [] seen = ret seen"
| "indexLogs I targets (l # ls) seen = (case decodeLog I targets l of
      None \<Rightarrow> indexLogs I targets ls seen
    | Some (label, p) \<Rightarrow>
        andThen (timeOf (lgBlock l) seen) (\<lambda>seen'.
        andThen (insertEvent (rowOf I l label p (orElse (seen' (lgBlock l)) None))) (\<lambda>_.
        indexLogs I targets ls seen')))"

text \<open>One round of the loop: the new cursor and the known times.\<close>

definition indexChunk ::
  "indexEnv \<Rightarrow> (address \<times> targetLabel) list \<Rightarrow> int \<Rightarrow> int \<Rightarrow> blockTimes \<Rightarrow> ('r indexDb_scheme, int \<times> blockTimes) prog" where
  "indexChunk I targets safe cursor seen =
    (let from = cursor + 1; to = min (from + ixChunk I - 1) safe in
     andThen (readIO (\<lambda>s. filter (\<lambda>l. lgAddress l \<in> fst ` set targets \<and> from \<le> lgBlock l \<and> lgBlock l \<le> to) (chainLogs s))) (\<lambda>logs.
     andThen (indexLogs I targets logs seen) (\<lambda>seen'.
     andThen (writeIO (\<lambda>s. case indexerCursor s of None \<Rightarrow> s | Some _ \<Rightarrow> s\<lparr>indexerCursor := Some to\<rparr>)) (\<lambda>_.
     ret (to, seen')))))"

text \<open>The loop: \<open>None\<close> would be a poll that never ends.\<close>

partial_function (option) catchUp ::
  "indexEnv \<Rightarrow> (address \<times> targetLabel) list \<Rightarrow> int \<Rightarrow> int \<Rightarrow> int \<Rightarrow> blockTimes \<Rightarrow> 'r indexDb_scheme \<Rightarrow> ((failure + unit) \<times> 'r indexDb_scheme) option" where
  "catchUp I targets safe start cursor seen s =
    (if cursor < safe \<and> cursor - start < ixChunk I * 25 then
       (case indexChunk I targets safe cursor seen s of
          (Inl e, t) \<Rightarrow> Some (Inl e, t)
        | (Inr r, t) \<Rightarrow> catchUp I targets safe start (fst r) (snd r) t)
     else Some (Inr (), s))"

definition tick :: "indexEnv \<Rightarrow> (address \<times> targetLabel) list \<Rightarrow> 'r indexDb_scheme \<Rightarrow> ((failure + unit) \<times> 'r indexDb_scheme) option" where
  "tick I targets s = (case andThen (readIO chainHead) (\<lambda>latest. andThen (getCursor I) (\<lambda>cursor. ret (latest - ixConfirmations I, cursor))) s of
      (Inl e, t) \<Rightarrow> Some (Inl e, t)
    | (Inr (safe, cursor), t) \<Rightarrow> if safe \<le> cursor then Some (Inr (), t) else catchUp I targets safe cursor cursor (\<lambda>_. None) t)"

text \<open>A poll of the timer: nothing while one is running; the targets are built once; errors are logged.\<close>

definition pollLoop :: "env \<Rightarrow> indexEnv \<Rightarrow> 'r indexDb_scheme \<Rightarrow> 'r indexDb_scheme option" where
  "pollLoop E I s = (if indexing s then Some s
     else (case (if indexTargets s = [] then andThen (buildTargets E) (\<lambda>ts. modify (\<lambda>s. s\<lparr>indexTargets := ts\<rparr>)) else ret ()) (s\<lparr>indexing := True\<rparr>) of
       (Inl _, t) \<Rightarrow> Some (t\<lparr>indexing := False\<rparr>)
     | (Inr _, t) \<Rightarrow> map_option (\<lambda>(_, u). u\<lparr>indexing := False\<rparr>) (tick I (indexTargets t) t)))"

end
