(* ===== verification/IndexerProps.thy ===== *)
theory IndexerProps
  imports Indexer Fixtures
begin

text \<open>
  A poll of the indexer always ends, and whatever the network does and however the unconfirmed end of the
  chain is rewritten, the table holds every decodable log up to its cursor, once.
\<close>

definition eventKey :: "eventRow \<Rightarrow> string \<times> nat" where
  "eventKey e = (evTx e, evIndex e)"

definition logKey :: "chainLog \<Rightarrow> string \<times> nat" where
  "logKey l = (lgTx l, lgIndex l)"

text \<open>\<open>covers\<close>: the decodable logs of the blocks after \<open>b0\<close> up to \<open>c\<close> are in the table, whose keys are distinct.\<close>

definition covers :: "indexEnv \<Rightarrow> (address \<times> targetLabel) list \<Rightarrow> int \<Rightarrow> int \<Rightarrow> chainLog list \<Rightarrow> eventRow list \<Rightarrow> bool" where
  "covers I targets b0 c L es \<longleftrightarrow> distinct (map eventKey es)
     \<and> (\<forall>l\<in>set L. b0 < lgBlock l \<and> lgBlock l \<le> c \<and> decodeLog I targets l \<noteq> None \<longrightarrow> logKey l \<in> eventKey ` set es)"

text \<open>The state within a poll: the chain as read and a cursor.\<close>

definition atCursor ::
  "indexEnv \<Rightarrow> (address \<times> targetLabel) list \<Rightarrow> int \<Rightarrow> chainLog list \<Rightarrow> int \<Rightarrow> int \<Rightarrow> 'r indexDb_scheme \<Rightarrow> bool" where
  "atCursor I targets b0 L h c s \<longleftrightarrow> chainLogs s = L \<and> chainHead s = h \<and> indexerCursor s = Some c \<and> covers I targets b0 c L (chainEvents s)"

lemma atCursor_net [simp]: "net_free (atCursor I targets b0 L h c)"
  by (simp add: net_free_def atCursor_def)

lemma covers_mono: "covers I targets b0 c L es \<Longrightarrow> set es \<subseteq> set fs \<Longrightarrow> distinct (map eventKey fs) \<Longrightarrow> covers I targets b0 c L fs"
  unfolding covers_def by blast

lemma insertEvent_atCursor: "keeps (atCursor I targets b0 L h c) (insertEvent row)"
  unfolding insertEvent_def
proof (rule keeps_writeIO [OF atCursor_net])
  fix s :: "'a indexDb_scheme"
  assume a: "atCursor I targets b0 L h c s"
  have d: "distinct (map eventKey (chainEvents s))" using a by (simp add: atCursor_def covers_def)
  have "covers I targets b0 c L (chainEvents s @ [row])" if "\<not> (\<exists>e\<in>set (chainEvents s). evTx e = evTx row \<and> evIndex e = evIndex row)"
    using a that d unfolding atCursor_def by (elim conjE covers_mono) (auto simp: eventKey_def)
  then show "atCursor I targets b0 L h c (if \<exists>e\<in>set (chainEvents s). evTx e = evTx row \<and> evIndex e = evIndex row then s
     else s\<lparr>chainEvents := chainEvents s @ [row]\<rparr>)"
    using a by (auto simp: atCursor_def)
qed

lemma timeOf_atCursor: "keeps (atCursor I targets b0 L h c) (timeOf b seen)"
  unfolding timeOf_def by (intro keeps_intro) simp_all

text \<open>\<open>hasKeys K\<close>: the rows with the keys \<open>K\<close> are there.\<close>

definition hasKeys :: "(string \<times> nat) set \<Rightarrow> 'r indexDb_scheme \<Rightarrow> bool" where
  "hasKeys K s \<longleftrightarrow> K \<subseteq> eventKey ` set (chainEvents s)"

lemma hasKeys_net [simp]: "net_free (hasKeys K)"
  by (simp add: net_free_def hasKeys_def)

lemma insertEvent_hasKeys: "keeps (hasKeys K) (insertEvent row)"
  unfolding insertEvent_def by (rule keeps_writeIO) (auto simp: hasKeys_def)

lemma timeOf_hasKeys: "keeps (hasKeys K) (timeOf b seen)"
  unfolding timeOf_def by (intro keeps_intro) simp_all

lemma insertEvent_InrD: "insertEvent row s = (Inr u, t) \<Longrightarrow> eventKey row \<in> eventKey ` set (chainEvents t)"
  unfolding insertEvent_def by (drule writeIO_InrD) (auto simp: eventKey_def image_iff; metis)

lemma keeps_conj: "keeps P m \<Longrightarrow> keeps Q m \<Longrightarrow> keeps (\<lambda>s. P s \<and> Q s) m"
  by (simp add: keeps_def)

lemma indexLogs_hasKeys:
  "triple (\<lambda>s. atCursor I targets b0 L h c s \<and> hasKeys K s) (indexLogs I targets ls seen)
     (\<lambda>_ s. atCursor I targets b0 L h c s \<and> hasKeys (K \<union> logKey ` {l \<in> set ls. decodeLog I targets l \<noteq> None}) s) (atCursor I targets b0 L h c)"
proof (induction ls arbitrary: K seen)
  case Nil
  show ?case by (simp add: triple_def)
next
  case (Cons l ls)
  show ?case
  proof (cases "decodeLog I targets l")
    case None
    then have "{x \<in> set (l # ls). decodeLog I targets x \<noteq> None} = {x \<in> set ls. decodeLog I targets x \<noteq> None}" by auto
    then show ?thesis using Cons.IH [of K seen] None by simp
  next
    case (Some lp)
    obtain label p where lp: "lp = (label, p)" by fastforce
    have step: "triple (\<lambda>s. atCursor I targets b0 L h c s \<and> hasKeys K s) (insertEvent (rowOf I l label p tm))
       (\<lambda>_ s. atCursor I targets b0 L h c s \<and> hasKeys (insert (logKey l) K) s) (atCursor I targets b0 L h c)" for tm
    proof (rule tripleI)
      fix s and x :: unit and t
      assume s: "atCursor I targets b0 L h c s \<and> hasKeys K s" and run: "insertEvent (rowOf I l label p tm) s = (Inr x, t)"
      have "atCursor I targets b0 L h c t \<and> hasKeys K t"
        using keepsD [OF insertEvent_atCursor] keepsD [OF insertEvent_hasKeys] s run by (metis snd_conv)
      moreover have "logKey l \<in> eventKey ` set (chainEvents t)"
        using insertEvent_InrD [OF run] by (simp add: eventKey_def rowOf_def logKey_def)
      ultimately show "atCursor I targets b0 L h c t \<and> hasKeys (insert (logKey l) K) t" by (simp add: hasKeys_def)
    next
      fix s e t
      assume "atCursor I targets b0 L h c s \<and> hasKeys K s" "insertEvent (rowOf I l label p tm) s = (Inl e, t)"
      then show "atCursor I targets b0 L h c t" using keepsD [OF insertEvent_atCursor] by (metis snd_conv)
    qed
    have set: "insert (logKey l) K \<union> logKey ` {x \<in> set ls. decodeLog I targets x \<noteq> None}
        = K \<union> logKey ` {x \<in> set (l # ls). decodeLog I targets x \<noteq> None}"
      using Some by auto
    show ?thesis
      unfolding indexLogs.simps Some lp option.case prod.case set [symmetric]
      by (rule triple_andThen [OF triple_keeps [OF keeps_conj [OF timeOf_atCursor timeOf_hasKeys]]], simp,
          rule triple_andThen [OF step Cons.IH])
  qed
qed

text \<open>A chunk: it covers the blocks up to its end, or throws with the cursor where it was or at its end.\<close>

lemma indexChunk_covers:
  assumes "cursor < safe" and "0 < ixChunk I"
  shows "triple (atCursor I targets b0 L h cursor :: 'a indexDb_scheme \<Rightarrow> bool) (indexChunk I targets safe cursor seen)
     (\<lambda>r s. fst r = min (cursor + ixChunk I) safe \<and> atCursor I targets b0 L h (fst r) s)
     (\<lambda>s. \<exists>c. cursor \<le> c \<and> c \<le> safe \<and> atCursor I targets b0 L h c s)"
proof -
  let ?A = "atCursor I targets b0 L h :: int \<Rightarrow> 'a indexDb_scheme \<Rightarrow> bool"
  let ?to = "min (cursor + ixChunk I) safe"
  let ?sel = "\<lambda>L. filter (\<lambda>l. lgAddress l \<in> fst ` set targets \<and> cursor + 1 \<le> lgBlock l \<and> lgBlock l \<le> ?to) L"
  let ?X = "\<lambda>s. \<exists>c. cursor \<le> c \<and> c \<le> safe \<and> ?A c s"
  have X: "?A cursor s \<Longrightarrow> ?X s" for s using assms(1) by force
  have read: "triple (?A cursor) (readIO (\<lambda>s. ?sel (chainLogs s)))
     (\<lambda>logs s. logs = ?sel L \<and> ?A cursor s) ?X"
  proof (rule tripleI)
    fix s :: "'a indexDb_scheme" and x t
    assume "?A cursor s" "readIO (\<lambda>s. ?sel (chainLogs s)) s = (Inr x, t)"
    then show "x = ?sel L \<and> ?A cursor t" by (auto simp: atCursor_def dest!: readIO_InrD)
  next
    fix s :: "'a indexDb_scheme" and e t
    assume a: "?A cursor s" and run: "readIO (\<lambda>s. ?sel (chainLogs s)) s = (Inl e, t)"
    show "?X t" using keepsD [OF keeps_readIO [OF atCursor_net] a, of "\<lambda>s. ?sel (chainLogs s)"] run X by simp
  qed
  let ?K = "logKey ` {l \<in> set (?sel L). decodeLog I targets l \<noteq> None}"
  have logs: "triple (\<lambda>s. logs = ?sel L \<and> ?A cursor s) (indexLogs I targets logs seen)
     (\<lambda>_ s. ?A cursor s \<and> hasKeys ?K s) ?X" for logs
  proof (cases "logs = ?sel L")
    case True
    show ?thesis unfolding True
      by (rule triple_conseq [OF indexLogs_hasKeys [of I targets b0 L h cursor "{}"]]) (use X in \<open>auto simp: hasKeys_def\<close>)
  qed (simp add: triple_def)
  have moved: "?A ?to (s\<lparr>indexerCursor := Some ?to\<rparr>)"
    if "?A cursor s" "hasKeys ?K s" for s :: "'a indexDb_scheme"
  proof -
    have "logKey l \<in> eventKey ` set (chainEvents s)"
      if l: "l \<in> set L" "b0 < lgBlock l" "lgBlock l \<le> ?to" "decodeLog I targets l \<noteq> None" for l
    proof (cases "lgBlock l \<le> cursor")
      case True
      then show ?thesis using \<open>?A cursor s\<close> l by (auto simp: atCursor_def covers_def)
    next
      case False
      have "lgAddress l \<in> fst ` set targets"
        using l(4) by (auto simp: decodeLog_def image_iff dest!: map_of_SomeD split: option.splits) force
      then have "logKey l \<in> ?K" using l False by auto
      then show ?thesis using \<open>hasKeys ?K s\<close> unfolding hasKeys_def by (rule subsetD [rotated])
    qed
    then show ?thesis using that(1) by (auto simp: atCursor_def covers_def)
  qed
  have upd: "triple (\<lambda>s. ?A cursor s \<and> hasKeys ?K s)
     (writeIO (\<lambda>s. case indexerCursor s of None \<Rightarrow> s | Some _ \<Rightarrow> s\<lparr>indexerCursor := Some ?to\<rparr>))
     (\<lambda>_. ?A ?to) ?X"
  proof (rule tripleI)
    fix s :: "'a indexDb_scheme" and x t
    assume a: "?A cursor s \<and> hasKeys ?K s"
      and run: "writeIO (\<lambda>s. case indexerCursor s of None \<Rightarrow> s | Some _ \<Rightarrow> s\<lparr>indexerCursor := Some ?to\<rparr>) s = (Inr x, t)"
    obtain rest where t: "t = s\<lparr>net := rest, indexerCursor := Some ?to\<rparr>"
      using run a by (auto simp: atCursor_def dest!: writeIO_InrD)
    have "?A cursor (s\<lparr>net := rest\<rparr>)" "hasKeys ?K (s\<lparr>net := rest\<rparr>)"
      using a by (simp_all add: atCursor_def hasKeys_def)
    from moved [OF this] show "?A ?to t" by (simp add: t)
  next
    fix s :: "'a indexDb_scheme" and e t
    let ?f = "\<lambda>s :: 'a indexDb_scheme. case indexerCursor s of None \<Rightarrow> s | Some _ \<Rightarrow> s\<lparr>indexerCursor := Some ?to\<rparr>"
    assume a: "?A cursor s \<and> hasKeys ?K s" and run: "writeIO ?f s = (Inl e, t)"
    let ?P = "\<lambda>s. (?A cursor s \<or> ?A ?to s) \<and> hasKeys ?K s"
    have "keeps ?P (writeIO ?f)"
    proof (rule keeps_writeIO)
      show "net_free ?P" by (simp add: net_free_def atCursor_def hasKeys_def)
    next
      fix u :: "'a indexDb_scheme"
      assume "?P u"
      then have "?f u = u\<lparr>indexerCursor := Some ?to\<rparr>" by (auto simp: atCursor_def)
      moreover have "?A ?to (u\<lparr>indexerCursor := Some ?to\<rparr>)"
        using \<open>?P u\<close> moved [of u] by (auto simp: atCursor_def)
      moreover have "hasKeys ?K (u\<lparr>indexerCursor := Some ?to\<rparr>)"
        using \<open>?P u\<close> unfolding hasKeys_def by simp
      ultimately show "?P (?f u)" by simp
    qed
    from keepsD [OF this, of s] a run have "?P t" by simp
    then consider "?A cursor t" | "?A ?to t" by blast
    then show "?X t"
    proof cases
      case 1
      then show ?thesis by (rule X)
    next
      case 2
      then show ?thesis using assms by (intro exI [of _ ?to]) simp
    qed
  qed
  have ret: "triple (?A ?to) (ret (?to, seen'))
     (\<lambda>r s. fst r = ?to \<and> ?A (fst r) s) ?X" for seen' :: blockTimes
    by (rule triple_ret) simp
  have eq: "cursor + 1 + ixChunk I - 1 = cursor + ixChunk I" by simp
  show ?thesis
    unfolding indexChunk_def Let_def eq
    by (rule triple_andThen [OF read triple_andThen [OF logs triple_andThen [OF upd ret]]])
qed

section \<open>The loop\<close>

lemma indexChunk_next: "indexChunk I targets safe cursor seen s = (Inr r, t) \<Longrightarrow> fst r = min (cursor + ixChunk I) safe"
  unfolding indexChunk_def Let_def by (auto simp: andThen_Inr_iff)

lemma catchUp_returns: "start \<le> cursor \<Longrightarrow> \<exists>r. catchUp I targets safe start cursor seen s = Some r"
proof (induction "nat (safe - cursor)" arbitrary: cursor seen s rule: less_induct)
  case less
  show ?case
  proof (cases "cursor < safe \<and> cursor - start < ixChunk I * 25")
    case True
    then have pos: "0 < ixChunk I" using less.prems by simp
    obtain r t where run: "indexChunk I targets safe cursor seen s = (r, t)" by fastforce
    show ?thesis
    proof (cases r)
      case (Inl e)
      then show ?thesis using True run by (simp add: catchUp.simps)
    next
      case (Inr x)
      have n: "fst x = min (cursor + ixChunk I) safe" using indexChunk_next run Inr by blast
      have "nat (safe - fst x) < nat (safe - cursor)" "start \<le> fst x" using n True pos less.prems by auto
      from less.hyps [OF this] show ?thesis using True run Inr by (subst catchUp.simps) simp
    qed
  next
    case False
    then show ?thesis by (subst catchUp.simps) auto
  qed
qed

lemma catchUp_covers:
  assumes "catchUp I targets safe start cursor seen s = Some (r, t)" and "atCursor I targets b0 L h cursor s" and "start \<le> cursor"
  shows "\<exists>c. cursor \<le> c \<and> (c = cursor \<or> c \<le> safe) \<and> atCursor I targets b0 L h c t"
  using assms
proof (induction "nat (safe - cursor)" arbitrary: cursor seen s rule: less_induct)
  case less
  show ?case
  proof (cases "cursor < safe \<and> cursor - start < ixChunk I * 25")
    case True
    then have pos: "0 < ixChunk I" using less.prems(3) by simp
    obtain x u where run: "indexChunk I targets safe cursor seen s = (x, u)" by fastforce
    note c = indexChunk_covers [OF conjunct1 [OF True] pos, of targets b0 L h seen]
    show ?thesis
    proof (cases x)
      case (Inl e)
      then have "u = t" using less.prems(1) True run by (simp add: catchUp.simps)
      with triple_InlD [OF c less.prems(2)] run Inl show ?thesis by blast
    next
      case (Inr y)
      have y: "fst y = min (cursor + ixChunk I) safe \<and> atCursor I targets b0 L h (fst y) u"
        using triple_InrD [OF c less.prems(2)] run Inr by blast
      have "catchUp I targets safe start (fst y) (snd y) u = Some (r, t)"
        using less.prems(1) True run Inr by (subst (asm) catchUp.simps) simp
      moreover have "nat (safe - fst y) < nat (safe - cursor)" "start \<le> fst y" using y True pos less.prems(3) by auto
      ultimately obtain d where "fst y \<le> d" "d = fst y \<or> d \<le> safe" "atCursor I targets b0 L h d t"
        using less.hyps [of "fst y" "snd y" u] y by blast
      then show ?thesis using y True pos by (intro exI [of _ d]) auto
    qed
  next
    case False
    then have "t = s" using less.prems(1) by (subst (asm) catchUp.simps) auto
    then show ?thesis using less.prems(2) by blast
  qed
qed

text \<open>
  C34. A poll of the indexer ends, for every configuration of the chunk size, start block and number of
  confirmations, whatever the state and however the network fails.
\<close>

theorem poll_terminates: "\<exists>t. pollLoop E I s = Some t"
proof -
  have "\<exists>r. tick I ts u = Some r" for ts and u :: "'a indexDb_scheme"
    unfolding tick_def using catchUp_returns by (fastforce split: prod.split sum.split)
  then show ?thesis unfolding pollLoop_def by (fastforce split: prod.split sum.split)
qed

section \<open>Completeness under faults and reorganisations\<close>

text \<open>
  A poll with the targets of the process, or a change of the chain: the head moves on, and the logs of the
  blocks that were not confirmed are replaced. The network behaves in any way.
\<close>

inductive indexStep :: "indexEnv \<Rightarrow> (address \<times> targetLabel) list \<Rightarrow> indexDb \<Rightarrow> indexDb \<Rightarrow> bool" for I targets where
  poll: "tick I targets s = Some (r, t) \<Longrightarrow> indexStep I targets s t"
| chain: "chainHead s \<le> h \<Longrightarrow> (\<And>l. lgBlock l \<le> chainHead s - ixConfirmations I \<Longrightarrow> l \<in> set L \<longleftrightarrow> l \<in> set (chainLogs s))
    \<Longrightarrow> indexStep I targets s (s\<lparr>chainHead := h, chainLogs := L, net := ns\<rparr>)"

definition indexOk :: "indexEnv \<Rightarrow> (address \<times> targetLabel) list \<Rightarrow> int \<Rightarrow> indexDb \<Rightarrow> bool" where
  "indexOk I targets b0 s \<longleftrightarrow> (\<exists>c. (c \<le> b0 \<or> c \<le> chainHead s - ixConfirmations I)
     \<and> atCursor I targets b0 (chainLogs s) (chainHead s) c s)"

lemma getCursor_InrD:
  "getCursor I s = (Inr c, t) \<Longrightarrow> indexerCursor s = Some d \<Longrightarrow> c = d \<and> (\<exists>rest. t = s\<lparr>net := rest\<rparr>)"
  unfolding getCursor_def by (auto simp: andThen_Inr_iff dest!: readIO_InrD)

lemma getCursor_atCursor: "keeps (atCursor I targets b0 L h c) (getCursor J)"
  unfolding getCursor_def
  by (intro keeps_intro keeps_writeIO atCursor_net) (auto simp: atCursor_def split: option.splits)

lemma tick_Ok:
  assumes "tick I targets s = Some (r, t)" and "indexOk I targets b0 s"
  shows "indexOk I targets b0 t"
proof -
  let ?h = "chainHead s" and ?L = "chainLogs s"
  obtain c where c: "c \<le> b0 \<or> c \<le> ?h - ixConfirmations I" and a: "atCursor I targets b0 ?L ?h c s"
    using assms(2) unfolding indexOk_def by blast
  let ?m = "andThen (readIO chainHead) (\<lambda>latest. andThen (getCursor I) (\<lambda>cursor. ret (latest - ixConfirmations I, cursor)))"
  obtain x u where m: "?m s = (x, u)" by fastforce
  have "keeps (atCursor I targets b0 ?L ?h c) ?m"
    by (intro keeps_intro getCursor_atCursor atCursor_net)
  from keepsD [OF this a] m have au: "atCursor I targets b0 ?L ?h c u" by simp
  have okI: "indexOk I targets b0 w" if "atCursor I targets b0 ?L ?h d w" "d \<le> b0 \<or> d \<le> ?h - ixConfirmations I" for w d
    using that unfolding indexOk_def by (intro exI [of _ d]) (simp add: atCursor_def)
  show ?thesis
  proof (cases x)
    case (Inl e)
    then have "t = u" using assms(1) m by (simp add: tick_def)
    then show ?thesis using okI [OF au c] by simp
  next
    case (Inr y)
    obtain safe cursor where y: "y = (safe, cursor)" by fastforce
    have sc: "safe = ?h - ixConfirmations I" "cursor = c"
      using m Inr y a by (auto simp: andThen_Inr_iff atCursor_def dest!: readIO_InrD dest: getCursor_InrD [where d = c])
    show ?thesis
    proof (cases "safe \<le> cursor")
      case True
      then have "t = u" using assms(1) m Inr y by (simp add: tick_def)
      then show ?thesis using okI [OF au c] by simp
    next
      case False
      then have "catchUp I targets safe cursor cursor (\<lambda>_. None) u = Some (r, t)"
        using assms(1) m Inr y by (simp add: tick_def)
      from catchUp_covers [OF this, of b0 ?L ?h] au sc obtain d where "atCursor I targets b0 ?L ?h d t" "d = c \<or> d \<le> safe" by auto
      then show ?thesis using okI [of d t] c sc by auto
    qed
  qed
qed

lemma indexStep_Ok: "indexStep I targets s t \<Longrightarrow> indexOk I targets b0 s \<Longrightarrow> indexOk I targets b0 t"
proof (induction rule: indexStep.induct)
  case (poll s r t)
  then show ?case by (rule tick_Ok)
next
  case (chain s h L ns)
  then obtain c where c: "c \<le> b0 \<or> c \<le> chainHead s - ixConfirmations I" and a: "atCursor I targets b0 (chainLogs s) (chainHead s) c s"
    unfolding indexOk_def by blast
  have "covers I targets b0 c L (chainEvents s)"
    unfolding covers_def
  proof (intro conjI ballI impI)
    show "distinct (map eventKey (chainEvents s))" using a by (simp add: atCursor_def covers_def)
    fix l
    assume l: "l \<in> set L" "b0 < lgBlock l \<and> lgBlock l \<le> c \<and> decodeLog I targets l \<noteq> None"
    then have "l \<in> set (chainLogs s)" using chain(2) [of l] c by auto
    then show "logKey l \<in> eventKey ` set (chainEvents s)" using a l by (auto simp: atCursor_def covers_def)
  qed
  then show ?case
    using a c chain(1) unfolding indexOk_def by (intro exI [of _ c]) (auto simp: atCursor_def)
qed

text \<open>
  C35. From a cursor at block \<open>b0\<close> and an empty table on, after any polls on any network and any changes of
  the unconfirmed end of the chain, every decodable log of a target after \<open>b0\<close> up to the cursor has a row,
  no two rows have the same key, and the cursor is not beyond the start block \<open>b0\<close> or not beyond the confirmed
  blocks. The start block itself may be past them: with no start block configured, \<open>getCursor\<close> starts forward-only at
  the head of the chain, so the logs up to it are not indexed, the unconfirmed ones included.
\<close>

theorem indexer_complete:
  assumes "(indexStep I targets)\<^sup>*\<^sup>* s t" and "indexerCursor s = Some b0" and "chainEvents s = []"
  shows "distinct (map eventKey (chainEvents t)) \<and> (\<exists>c. indexerCursor t = Some c \<and> (c \<le> b0 \<or> c \<le> chainHead t - ixConfirmations I)
    \<and> (\<forall>l\<in>set (chainLogs t). b0 < lgBlock l \<longrightarrow> lgBlock l \<le> c \<longrightarrow> decodeLog I targets l \<noteq> None
         \<longrightarrow> (\<exists>e\<in>set (chainEvents t). evTx e = lgTx l \<and> evIndex e = lgIndex l)))"
proof -
  have "indexOk I targets b0 s"
    unfolding indexOk_def using assms(2,3) by (intro exI [of _ b0]) (auto simp: atCursor_def covers_def)
  with assms(1) have "indexOk I targets b0 t"
    by (induction rule: rtranclp_induct) (auto intro: indexStep_Ok)
  then show ?thesis
    unfolding indexOk_def atCursor_def covers_def by (fastforce simp: eventKey_def logKey_def image_iff)
qed

definition demoIndex :: indexEnv where
  "demoIndex = \<lparr>ixParse = (\<lambda>label l. if lgData l = ''bad'' then None else Some \<lparr>plName = ''Debited'', plInputs = [(''user'', BigArg 10)]\<rparr>),
     ixChain = 8453, ixStart = None, ixConfirmations = 2, ixChunk = 5\<rparr>"

definition demoLog :: "int \<Rightarrow> nat \<Rightarrow> string \<Rightarrow> chainLog" where
  "demoLog b i d = \<lparr>lgBlock = b, lgBlockHash = ''h'', lgTx = ''t'', lgIndex = i, lgAddress = 1, lgTopics = [], lgData = d\<rparr>"

text \<open>Three logs, one that cannot be decoded, and one in a block that is not confirmed.\<close>

definition demoIndexDb :: indexDb where
  "demoIndexDb = platform.extend demoPlatform (indexDb.fields [] (Some 0) 10 [demoLog 5 0 [], demoLog 7 1 ''bad'', demoLog 9 2 []]
     (\<lambda>b. Some (1000 * b)) False [])"

lemma demoIndex_sel [simp]:
  "net demoIndexDb = []" "chainEvents demoIndexDb = []" "indexerCursor demoIndexDb = Some 0" "chainHead demoIndexDb = 10"
  "chainLogs demoIndexDb = [demoLog 5 0 [], demoLog 7 1 ''bad'', demoLog 9 2 []]" "blockStamp demoIndexDb = (\<lambda>b. Some (1000 * b))"
  by (simp_all add: demoIndexDb_def indexDb.defs demoPlatform_def platform.defs)

lemma demo_tick: "\<exists>t. tick demoIndex [(1, VaultTarget)] demoIndexDb = Some (Inr (), t) \<and> indexerCursor t = Some 8
    \<and> chainLogs t = [demoLog 5 0 [], demoLog 7 1 ''bad'', demoLog 9 2 []]"
  by (simp add: tick_def getCursor_def catchUp.simps indexChunk_def demoIndex_def demoLog_def decodeLog_def
      timeOf_def insertEvent_def Let_def)

lemma indexer_complete_witness:
  "\<exists>t. tick demoIndex [(1, VaultTarget)] demoIndexDb = Some (Inr (), t) \<and> indexerCursor t = Some 8
    \<and> (\<exists>e\<in>set (chainEvents t). evTx e = ''t'' \<and> evIndex e = 0)"
proof -
  obtain t where t: "tick demoIndex [(1, VaultTarget)] demoIndexDb = Some (Inr (), t)" and c: "indexerCursor t = Some 8"
    and l: "chainLogs t = [demoLog 5 0 [], demoLog 7 1 ''bad'', demoLog 9 2 []]"
    using demo_tick by blast
  have "(indexStep demoIndex [(1, VaultTarget)])\<^sup>*\<^sup>* demoIndexDb t" using indexStep.poll [OF t] by blast
  from indexer_complete [OF this, of 0] have "\<exists>e\<in>set (chainEvents t). evTx e = lgTx (demoLog 5 0 []) \<and> evIndex e = lgIndex (demoLog 5 0 [])"
    using c l by simp (auto simp: decodeLog_def demoLog_def demoIndex_def)
  then show ?thesis using t c by (auto simp: demoLog_def)
qed

end
