(* ===== verification/ConsumerRegistry.thy ===== *)
theory ConsumerRegistry
  imports Solidity
begin

text \<open>
  \<open>src/src/Consumer.sol\<close>: the registry of consumers. It deploys a Safe for every consumer through
  Safe's proxy factory, keeps one record per wallet with the indices by account number and by tag, moves
  an account to a new wallet on recovery, and holds the log of remittances with its KYC limits.

  The factory is not in the repository: \<open>rvProxy\<close> is the CREATE2 address of a proxy for a singleton, a
  \<open>setup\<close> call and a salt (\<open>None\<close>: the \<open>setup\<close> reverts), and a second proxy at an address that has
  code reverts. \<open>keccak256\<close> of the two kinds of salt is a parameter, roles are predicates of the state, and
  the block time is an argument.
\<close>

datatype registryError =
    RegZeroAddress | RegZeroAmount | InvalidCountryCode | InvalidKycLevel nat | PilotCapReached nat nat
  | EnsAlreadyRegistered bytes32 | EnsHashMismatch bytes32 bytes32 | NotRegistered address
  | KycLimitExceeded address nat nat | WalletAlreadyHasSaveWallet address | WalletAlreadyHasUsdWallet address
  | MissingRole | ProxyReverted | RegPanic

record consumerData =
  cdSpend :: address
  cdSave :: address
  cdUsd :: address
  cdName :: bytes32
  cdEns :: bytes32
  cdCountry :: bytes32
  cdKyc :: nat
  cdActive :: bool
  cdGlobalId :: nat

record remittance =
  rmSender :: address
  rmMobile :: bytes32
  rmCountry :: bytes32
  rmAmount :: nat
  rmTime :: nat
  rmPartner :: bytes32

text \<open>The call of \<open>ISafe.setup\<close> that initialises a proxy: owners, threshold, modules enabled, handler.\<close>

record safeSetup =
  suOwners :: "address list"
  suThreshold :: nat
  suTo :: address
  suModules :: "address list"
  suFallback :: address

record registryEnv =
  rvProxy :: "address \<Rightarrow> safeSetup \<Rightarrow> bytes32 \<Rightarrow> address option"
  rvSalt :: "nat \<Rightarrow> bytes32"
  rvRecoverSalt :: "nat \<Rightarrow> nat \<Rightarrow> bytes32"

record registry =
  rgConsumers :: "address \<Rightarrow> consumerData"
  rgEns :: "bytes32 \<Rightarrow> address"
  rgById :: "nat \<Rightarrow> address"
  rgCount :: nat
  rgMax :: nat
  rgNextId :: nat
  rgLog :: "remittance list"
  rgDaily :: "address \<Rightarrow> nat \<Rightarrow> nat"
  rgMonthly :: "address \<Rightarrow> nat \<Rightarrow> nat"
  rgSingleton :: address
  rgFactory :: address
  rgFallback :: address
  rg4337 :: address
  rgModuleSetup :: address
  rgSessionModule :: address
  rgAdmin :: "address \<Rightarrow> bool"
  rgRegistrar :: "address \<Rightarrow> bool"
  rgKycUpdater :: "address \<Rightarrow> bool"
  rgRecorder :: "address \<Rightarrow> bool"
  rgCode :: "address \<Rightarrow> bool"

definition noConsumer :: consumerData where
  "noConsumer = \<lparr>cdSpend = 0, cdSave = 0, cdUsd = 0, cdName = 0, cdEns = 0, cdCountry = 0, cdKyc = 0, cdActive = False, cdGlobalId = 0\<rparr>"

section \<open>Operations\<close>

text \<open>\<open>code\<close> are the addresses that have code when the proxy is initialised.\<close>

definition initialize ::
  "address \<Rightarrow> address \<Rightarrow> address \<Rightarrow> address \<Rightarrow> (address \<Rightarrow> bool) \<Rightarrow> registryError + registry" where
  "initialize admin singleton factory fallback code =
    (if admin = 0 \<or> singleton = 0 \<or> factory = 0 then Inl RegZeroAddress
     else Inr \<lparr>rgConsumers = (\<lambda>_. noConsumer), rgEns = (\<lambda>_. 0), rgById = (\<lambda>_. 0), rgCount = 0, rgMax = 500, rgNextId = 1000,
       rgLog = [], rgDaily = (\<lambda>_ _. 0), rgMonthly = (\<lambda>_ _. 0), rgSingleton = singleton, rgFactory = factory,
       rgFallback = fallback, rg4337 = 0, rgModuleSetup = 0, rgSessionModule = 0,
       rgAdmin = (\<lambda>a. a = admin), rgRegistrar = (\<lambda>a. a = admin), rgKycUpdater = (\<lambda>a. a = admin), rgRecorder = (\<lambda>a. a = admin),
       rgCode = code\<rparr>)"

definition setMaxConsumers :: "address \<Rightarrow> nat \<Rightarrow> registry \<Rightarrow> registryError + registry" where
  "setMaxConsumers sender newMax r = (if \<not> rgAdmin r sender then Inl MissingRole else Inr (r\<lparr>rgMax := newMax\<rparr>))"

definition setSafe4337Config :: "address \<Rightarrow> address \<Rightarrow> address \<Rightarrow> registry \<Rightarrow> registryError + registry" where
  "setSafe4337Config sender m setup r =
    (if \<not> rgAdmin r sender then Inl MissingRole else Inr (r\<lparr>rg4337 := m, rgModuleSetup := setup\<rparr>))"

definition setSessionTransferModule :: "address \<Rightarrow> address \<Rightarrow> registry \<Rightarrow> registryError + registry" where
  "setSessionTransferModule sender m r = (if \<not> rgAdmin r sender then Inl MissingRole else Inr (r\<lparr>rgSessionModule := m\<rparr>))"

definition walletSetup :: "address \<Rightarrow> registry \<Rightarrow> safeSetup" where
  "walletSetup owner r =
    (if rg4337 r \<noteq> 0 \<and> rgModuleSetup r \<noteq> 0
     then \<lparr>suOwners = [owner], suThreshold = 1, suTo = rgModuleSetup r,
       suModules = (if rgSessionModule r \<noteq> 0 then [rg4337 r, rgSessionModule r] else [rg4337 r]), suFallback = rg4337 r\<rparr>
     else \<lparr>suOwners = [owner], suThreshold = 1, suTo = 0, suModules = [], suFallback = rgFallback r\<rparr>)"

definition deployConsumerSafe :: "registryEnv \<Rightarrow> bytes32 \<Rightarrow> address \<Rightarrow> registry \<Rightarrow> registryError + address \<times> registry" where
  "deployConsumerSafe V salt owner r = (case rvProxy V (rgSingleton r) (walletSetup owner r) salt of
      None \<Rightarrow> Inl ProxyReverted
    | Some a \<Rightarrow> if a = 0 \<or> rgCode r a then Inl ProxyReverted else Inr (a, r\<lparr>rgCode := (rgCode r)(a := True)\<rparr>))"

definition registerConsumer ::
  "registryEnv \<Rightarrow> address \<Rightarrow> bytes32 \<Rightarrow> bytes32 \<Rightarrow> bytes32 \<Rightarrow> nat \<Rightarrow> address \<Rightarrow> registry \<Rightarrow> registryError + address \<times> registry" where
  "registerConsumer V sender ens name country kyc owner r =
    (if \<not> rgRegistrar r sender then Inl MissingRole
     else if rgMax r \<le> rgCount r then Inl (PilotCapReached (rgCount r) (rgMax r))
     else if owner = 0 then Inl RegZeroAddress
     else if country = 0 then Inl InvalidCountryCode
     else if 3 < kyc then Inl (InvalidKycLevel kyc)
     else if ens \<noteq> 0 \<and> rgEns r ens \<noteq> 0 then Inl (EnsAlreadyRegistered ens)
     else
       let id = rgNextId r; r1 = r\<lparr>rgNextId := (id + 1) mod uintLimit\<rparr> in
       sbind (deployConsumerSafe V (rvSalt V id) owner r1) (\<lambda>(wallet, r2).
       Inr (wallet, r2\<lparr>rgEns := (if ens \<noteq> 0 then (rgEns r2)(ens := wallet) else rgEns r2),
         rgById := (rgById r2)(id := wallet),
         rgConsumers := (rgConsumers r2)(wallet := \<lparr>cdSpend = wallet, cdSave = 0, cdUsd = 0, cdName = name, cdEns = ens,
           cdCountry = country, cdKyc = kyc, cdActive = True, cdGlobalId = id\<rparr>),
         rgCount := (rgCount r2 + 1) mod uintLimit\<rparr>)))"

definition recoverWallet ::
  "registryEnv \<Rightarrow> nat \<Rightarrow> address \<Rightarrow> address \<Rightarrow> bytes32 \<Rightarrow> address \<Rightarrow> registry \<Rightarrow> registryError + address \<times> registry" where
  "recoverWallet V now sender oldWallet ens newOwner r =
    (if \<not> rgRegistrar r sender then Inl MissingRole
     else if newOwner = 0 then Inl RegZeroAddress
     else if ens = 0 then Inl InvalidCountryCode
     else
       let old = rgConsumers r oldWallet in
       if \<not> cdActive old then Inl (NotRegistered oldWallet)
       else if cdEns old \<noteq> ens then Inl (EnsHashMismatch (cdEns old) ens)
       else
         sbind (deployConsumerSafe V (rvRecoverSalt V (cdGlobalId old) now) newOwner r) (\<lambda>(new, r1).
         let c1 = (rgConsumers r1)(new := old\<lparr>cdSpend := new, cdEns := ens, cdActive := True\<rparr>);
             c2 = c1(oldWallet := (c1 oldWallet)\<lparr>cdActive := False\<rparr>) in
         Inr (new, r1\<lparr>rgConsumers := c2, rgEns := (rgEns r1)(ens := new),
           rgById := (rgById r1)(cdGlobalId (c2 oldWallet) := new)\<rparr>)))"

definition setSaveWallet :: "address \<Rightarrow> address \<Rightarrow> address \<Rightarrow> registry \<Rightarrow> registryError + registry" where
  "setSaveWallet sender spend save r =
    (let c = rgConsumers r spend in
     if \<not> rgRegistrar r sender then Inl MissingRole
     else if \<not> cdActive c then Inl (NotRegistered spend)
     else if cdSave c \<noteq> 0 then Inl (WalletAlreadyHasSaveWallet spend)
     else Inr (r\<lparr>rgConsumers := (rgConsumers r)(spend := c\<lparr>cdSave := save\<rparr>)\<rparr>))"

definition setUsdWallet :: "address \<Rightarrow> address \<Rightarrow> address \<Rightarrow> registry \<Rightarrow> registryError + registry" where
  "setUsdWallet sender spend usd r =
    (let c = rgConsumers r spend in
     if \<not> rgRegistrar r sender then Inl MissingRole
     else if \<not> cdActive c then Inl (NotRegistered spend)
     else if cdUsd c \<noteq> 0 then Inl (WalletAlreadyHasUsdWallet spend)
     else Inr (r\<lparr>rgConsumers := (rgConsumers r)(spend := c\<lparr>cdUsd := usd\<rparr>)\<rparr>))"

definition getConsumer :: "address \<Rightarrow> registry \<Rightarrow> registryError + consumerData" where
  "getConsumer wallet r = (if cdActive (rgConsumers r wallet) then Inr (rgConsumers r wallet) else Inl (NotRegistered wallet))"

definition getConsumerByEns :: "bytes32 \<Rightarrow> registry \<Rightarrow> registryError + consumerData" where
  "getConsumerByEns ens r = (if rgEns r ens = 0 then Inl (NotRegistered 0) else Inr (rgConsumers r (rgEns r ens)))"

definition getConsumerByGlobalId :: "nat \<Rightarrow> registry \<Rightarrow> registryError + consumerData" where
  "getConsumerByGlobalId i r = (if rgById r i = 0 then Inl (NotRegistered 0) else Inr (rgConsumers r (rgById r i)))"

definition updateKycLevel :: "address \<Rightarrow> address \<Rightarrow> nat \<Rightarrow> registry \<Rightarrow> registryError + registry" where
  "updateKycLevel sender wallet level r =
    (if \<not> rgKycUpdater r sender then Inl MissingRole
     else if \<not> cdActive (rgConsumers r wallet) then Inl (NotRegistered wallet)
     else if 3 < level then Inl (InvalidKycLevel level)
     else Inr (r\<lparr>rgConsumers := (rgConsumers r)(wallet := (rgConsumers r wallet)\<lparr>cdKyc := level\<rparr>)\<rparr>))"

section \<open>Remittances\<close>

definition checked :: "nat \<Rightarrow> registryError + nat" where
  "checked n = (if n < uintLimit then Inr n else Inl RegPanic)"

definition dailyLimit :: "nat \<Rightarrow> nat" where
  "dailyLimit level = (if level = 1 then 500000 else if level = 2 then 1000000 else 2500000)"

definition monthlyLimit :: "nat \<Rightarrow> nat" where
  "monthlyLimit level = (if level = 1 then 2000000 else if level = 2 then 5000000 else 10000000)"

definition checkKycLimit :: "nat \<Rightarrow> address \<Rightarrow> nat \<Rightarrow> registry \<Rightarrow> registryError + bool" where
  "checkKycLimit now sender amount r =
    (let level = cdKyc (rgConsumers r sender) in
     if amount = 0 then Inr True
     else if level = 0 then Inr False
     else
       sbind (checked (rgDaily r sender (now div 86400) + amount)) (\<lambda>daily.
       sbind (checked (rgMonthly r sender (now div 2592000) + amount)) (\<lambda>monthly.
       Inr (daily \<le> dailyLimit level \<and> monthly \<le> monthlyLimit level))))"

definition recordRemittance :: "nat \<Rightarrow> address \<Rightarrow> remittance \<Rightarrow> registry \<Rightarrow> registryError + registry" where
  "recordRemittance now sender rec r =
    (let w = rmSender rec; a = rmAmount rec; day = now div 86400; month = now div 2592000 in
     if \<not> rgRecorder r sender then Inl MissingRole
     else if \<not> cdActive (rgConsumers r w) then Inl (NotRegistered w)
     else if a = 0 then Inl RegZeroAmount
     else
       sbind (checkKycLimit now w a r) (\<lambda>ok.
       if \<not> ok then sbind (checked (rgDaily r w day + a)) (\<lambda>projected. Inl (KycLimitExceeded w a projected))
       else
         sbind (checked (rgDaily r w day + a)) (\<lambda>d.
         sbind (checked (rgMonthly r w month + a)) (\<lambda>m.
         Inr (r\<lparr>rgDaily := (rgDaily r)(w := (rgDaily r w)(day := d)), rgMonthly := (rgMonthly r)(w := (rgMonthly r w)(month := m)),
           rgLog := rgLog r @ [rec]\<rparr>)))))"

section \<open>The registry as a state machine\<close>

text \<open>Any call by anyone at any time; other contracts may be deployed in between.\<close>

inductive registryStep :: "registryEnv \<Rightarrow> registry \<Rightarrow> registry \<Rightarrow> bool" for V where
  register: "registerConsumer V sender ens name country kyc owner r = Inr (w, r') \<Longrightarrow> registryStep V r r'"
| recover: "recoverWallet V now sender old ens owner r = Inr (w, r') \<Longrightarrow> registryStep V r r'"
| save: "setSaveWallet sender spend a r = Inr r' \<Longrightarrow> registryStep V r r'"
| usd: "setUsdWallet sender spend a r = Inr r' \<Longrightarrow> registryStep V r r'"
| kyc: "updateKycLevel sender w level r = Inr r' \<Longrightarrow> registryStep V r r'"
| remit: "recordRemittance now sender rec r = Inr r' \<Longrightarrow> registryStep V r r'"
| cap: "setMaxConsumers sender n r = Inr r' \<Longrightarrow> registryStep V r r'"
| config: "setSafe4337Config sender m1 m2 r = Inr r' \<Longrightarrow> registryStep V r r'"
| sessions: "setSessionTransferModule sender m r = Inr r' \<Longrightarrow> registryStep V r r'"
| code: "registryStep V r (r\<lparr>rgCode := (rgCode r)(a := True)\<rparr>)"


text \<open>
  The indices agree with the records: every active wallet is found under its account number and its tag,
  every entry of an index leads to an active wallet with that number or tag, and the numbers given out are
  those from 1000 on.
\<close>

definition registryOk :: "registry \<Rightarrow> bool" where
  "registryOk r \<longleftrightarrow>
     (\<forall>w. cdActive (rgConsumers r w) \<longrightarrow> w \<noteq> 0 \<and> rgCode r w \<and> cdKyc (rgConsumers r w) \<le> 3
        \<and> rgById r (cdGlobalId (rgConsumers r w)) = w \<and> 1000 \<le> cdGlobalId (rgConsumers r w) \<and> cdGlobalId (rgConsumers r w) < rgNextId r
        \<and> (cdEns (rgConsumers r w) \<noteq> 0 \<longrightarrow> rgEns r (cdEns (rgConsumers r w)) = w))
   \<and> (\<forall>i. rgById r i \<noteq> 0 \<longrightarrow> cdActive (rgConsumers r (rgById r i)) \<and> cdGlobalId (rgConsumers r (rgById r i)) = i)
   \<and> (\<forall>i. 1000 \<le> i \<longrightarrow> i < rgNextId r \<longrightarrow> rgById r i \<noteq> 0)
   \<and> (\<forall>h. rgEns r h \<noteq> 0 \<longrightarrow> h \<noteq> 0 \<and> cdActive (rgConsumers r (rgEns r h)) \<and> cdEns (rgConsumers r (rgEns r h)) = h)
   \<and> rgNextId r = 1000 + rgCount r"

definition limitsOk :: "registry \<Rightarrow> bool" where
  "limitsOk r \<longleftrightarrow> (\<forall>w d. rgDaily r w d \<le> 2500000) \<and> (\<forall>w m. rgMonthly r w m \<le> 10000000)"

lemma active_facts:
  assumes "registryOk r" and "cdActive (rgConsumers r w)"
  shows "w \<noteq> 0" and "rgCode r w" and "cdKyc (rgConsumers r w) \<le> 3" and "rgById r (cdGlobalId (rgConsumers r w)) = w"
    and "1000 \<le> cdGlobalId (rgConsumers r w)" and "cdGlobalId (rgConsumers r w) < rgNextId r"
    and "cdEns (rgConsumers r w) \<noteq> 0 \<Longrightarrow> rgEns r (cdEns (rgConsumers r w)) = w"
  using assms unfolding registryOk_def by blast+

lemma index_facts:
  assumes "registryOk r"
  shows "rgById r i \<noteq> 0 \<Longrightarrow> cdActive (rgConsumers r (rgById r i))" and "rgById r i \<noteq> 0 \<Longrightarrow> cdGlobalId (rgConsumers r (rgById r i)) = i"
    and "rgEns r h \<noteq> 0 \<Longrightarrow> cdActive (rgConsumers r (rgEns r h))" and "rgEns r h \<noteq> 0 \<Longrightarrow> cdEns (rgConsumers r (rgEns r h)) = h"
    and "rgEns r 0 = 0" and "rgNextId r = 1000 + rgCount r" and "1000 \<le> i \<Longrightarrow> i < rgNextId r \<Longrightarrow> rgById r i \<noteq> 0"
  using assms unfolding registryOk_def by blast+

text \<open>Account numbers are addresses apart, so there are fewer of them than would overflow the counters.\<close>

lemma count_bound:
  assumes "registryOk r"
  shows "rgCount r \<le> 2 ^ 160"
proof -
  have inj: "inj_on (rgById r) {1000..<rgNextId r}"
    by (rule inj_on_inverseI [of _ "\<lambda>w. cdGlobalId (rgConsumers r w)"]) (simp add: index_facts(2,7) [OF assms])
  have "card {1000..<rgNextId r} = card (rgById r ` {1000..<rgNextId r})" using card_image [OF inj] by simp
  also have "\<dots> \<le> card (UNIV :: address set)" by (rule card_mono) simp_all
  finally have "card {1000..<rgNextId r} \<le> 2 ^ 160" by (simp add: card_word)
  then show ?thesis using index_facts(6) [OF assms] by simp
qed

lemma counters_step:
  assumes "registryOk r"
  shows "(rgNextId r + 1) mod uintLimit = rgNextId r + 1" and "(rgCount r + 1) mod uintLimit = rgCount r + 1"
  using count_bound [OF assms] index_facts(6) [OF assms] by (simp_all add: uintLimit_def)

lemma deployConsumerSafe_InrD:
  assumes "deployConsumerSafe V salt owner r = Inr (w, r')"
  shows "w \<noteq> 0" and "\<not> rgCode r w" and "r' = r\<lparr>rgCode := (rgCode r)(w := True)\<rparr>"
    and "rvProxy V (rgSingleton r) (walletSetup owner r) salt = Some w"
  using assms by (auto simp: deployConsumerSafe_def split: option.splits if_splits)

lemma registerConsumer_InrD:
  assumes "registerConsumer V sender ens name country kyc owner r = Inr (w, r')"
  shows "rgRegistrar r sender" and "rgCount r < rgMax r" and "owner \<noteq> 0" and "country \<noteq> 0" and "kyc \<le> 3"
    and "ens \<noteq> 0 \<Longrightarrow> rgEns r ens = 0" and "w \<noteq> 0" and "\<not> rgCode r w"
    and "r' = r\<lparr>rgNextId := (rgNextId r + 1) mod uintLimit, rgCode := (rgCode r)(w := True),
           rgEns := (if ens \<noteq> 0 then (rgEns r)(ens := w) else rgEns r), rgById := (rgById r)(rgNextId r := w),
           rgConsumers := (rgConsumers r)(w := \<lparr>cdSpend = w, cdSave = 0, cdUsd = 0, cdName = name, cdEns = ens,
             cdCountry = country, cdKyc = kyc, cdActive = True, cdGlobalId = rgNextId r\<rparr>),
           rgCount := (rgCount r + 1) mod uintLimit\<rparr>"
proof -
  obtain r2 where d: "deployConsumerSafe V (rvSalt V (rgNextId r)) owner (r\<lparr>rgNextId := (rgNextId r + 1) mod uintLimit\<rparr>) = Inr (w, r2)"
    and g: "rgRegistrar r sender" "rgCount r < rgMax r" "owner \<noteq> 0" "country \<noteq> 0" "kyc \<le> 3" "ens \<noteq> 0 \<longrightarrow> rgEns r ens = 0"
    and r': "r' = r2\<lparr>rgEns := (if ens \<noteq> 0 then (rgEns r2)(ens := w) else rgEns r2), rgById := (rgById r2)(rgNextId r := w),
         rgConsumers := (rgConsumers r2)(w := \<lparr>cdSpend = w, cdSave = 0, cdUsd = 0, cdName = name, cdEns = ens,
           cdCountry = country, cdKyc = kyc, cdActive = True, cdGlobalId = rgNextId r\<rparr>), rgCount := (rgCount r2 + 1) mod uintLimit\<rparr>"
    using assms unfolding registerConsumer_def Let_def by (auto simp: sbind_Inr_iff not_less not_le split: if_splits)
  note f = deployConsumerSafe_InrD [OF d]
  show "rgRegistrar r sender" "rgCount r < rgMax r" "owner \<noteq> 0" "country \<noteq> 0" "kyc \<le> 3" "ens \<noteq> 0 \<Longrightarrow> rgEns r ens = 0"
    "w \<noteq> 0" "\<not> rgCode r w"
    using g f(1,2) by auto
  show "r' = r\<lparr>rgNextId := (rgNextId r + 1) mod uintLimit, rgCode := (rgCode r)(w := True),
           rgEns := (if ens \<noteq> 0 then (rgEns r)(ens := w) else rgEns r), rgById := (rgById r)(rgNextId r := w),
           rgConsumers := (rgConsumers r)(w := \<lparr>cdSpend = w, cdSave = 0, cdUsd = 0, cdName = name, cdEns = ens,
             cdCountry = country, cdKyc = kyc, cdActive = True, cdGlobalId = rgNextId r\<rparr>),
           rgCount := (rgCount r + 1) mod uintLimit\<rparr>"
    unfolding r' f(3) by simp
qed

lemma recoverWallet_InrD:
  assumes "recoverWallet V now sender old ens owner r = Inr (w, r')"
  shows "rgRegistrar r sender" and "owner \<noteq> 0" and "ens \<noteq> 0" and "cdActive (rgConsumers r old)" and "cdEns (rgConsumers r old) = ens"
    and "w \<noteq> 0" and "\<not> rgCode r w"
    and "w \<noteq> old \<Longrightarrow> r' = r\<lparr>rgCode := (rgCode r)(w := True), rgEns := (rgEns r)(ens := w),
       rgById := (rgById r)(cdGlobalId (rgConsumers r old) := w),
       rgConsumers := (rgConsumers r)(w := (rgConsumers r old)\<lparr>cdSpend := w, cdEns := ens, cdActive := True\<rparr>,
         old := (rgConsumers r old)\<lparr>cdActive := False\<rparr>)\<rparr>"
proof -
  let ?old = "rgConsumers r old"
  have g: "rgRegistrar r sender" "owner \<noteq> 0" "ens \<noteq> 0" "cdActive ?old" "cdEns ?old = ens"
    using assms by (simp_all add: recoverWallet_def Let_def split: if_splits)
  obtain x where d0: "deployConsumerSafe V (rvRecoverSalt V (cdGlobalId ?old) now) owner r = Inr x"
    using assms g by (cases "deployConsumerSafe V (rvRecoverSalt V (cdGlobalId ?old) now) owner r") (simp_all add: recoverWallet_def Let_def)
  obtain r1 where d: "deployConsumerSafe V (rvRecoverSalt V (cdGlobalId ?old) now) owner r = Inr (w, r1)"
    and r': "r' = (let c1 = (rgConsumers r1)(w := ?old\<lparr>cdSpend := w, cdEns := ens, cdActive := True\<rparr>);
             c2 = c1(old := (c1 old)\<lparr>cdActive := False\<rparr>) in
         r1\<lparr>rgConsumers := c2, rgEns := (rgEns r1)(ens := w), rgById := (rgById r1)(cdGlobalId (c2 old) := w)\<rparr>)"
    using assms g d0 by (cases x) (simp add: recoverWallet_def Let_def)
  note f = deployConsumerSafe_InrD [OF d]
  show "rgRegistrar r sender" "owner \<noteq> 0" "ens \<noteq> 0" "cdActive ?old" "cdEns ?old = ens" "w \<noteq> 0" "\<not> rgCode r w"
    using g f(1,2) by auto
  show "r' = r\<lparr>rgCode := (rgCode r)(w := True), rgEns := (rgEns r)(ens := w), rgById := (rgById r)(cdGlobalId ?old := w),
       rgConsumers := (rgConsumers r)(w := ?old\<lparr>cdSpend := w, cdEns := ens, cdActive := True\<rparr>, old := ?old\<lparr>cdActive := False\<rparr>)\<rparr>"
    if "w \<noteq> old"
    unfolding r' f(3) Let_def using that by simp
qed


section \<open>Every operation keeps the indices in agreement\<close>

text \<open>The four parts of the invariant, as introduction rules.\<close>

lemma registryOkI:
  assumes "\<And>w. cdActive (rgConsumers r w) \<Longrightarrow> w \<noteq> 0 \<and> rgCode r w \<and> cdKyc (rgConsumers r w) \<le> 3
        \<and> rgById r (cdGlobalId (rgConsumers r w)) = w \<and> 1000 \<le> cdGlobalId (rgConsumers r w) \<and> cdGlobalId (rgConsumers r w) < rgNextId r
        \<and> (cdEns (rgConsumers r w) \<noteq> 0 \<longrightarrow> rgEns r (cdEns (rgConsumers r w)) = w)"
    and "\<And>i. rgById r i \<noteq> 0 \<Longrightarrow> cdActive (rgConsumers r (rgById r i)) \<and> cdGlobalId (rgConsumers r (rgById r i)) = i"
    and "\<And>i. 1000 \<le> i \<Longrightarrow> i < rgNextId r \<Longrightarrow> rgById r i \<noteq> 0"
    and "\<And>h. rgEns r h \<noteq> 0 \<Longrightarrow> h \<noteq> 0 \<and> cdActive (rgConsumers r (rgEns r h)) \<and> cdEns (rgConsumers r (rgEns r h)) = h"
    and "rgNextId r = 1000 + rgCount r"
  shows "registryOk r"
  unfolding registryOk_def using assms by blast

lemma ens_nonzero: "registryOk r \<Longrightarrow> rgEns r h \<noteq> 0 \<Longrightarrow> h \<noteq> 0"
  using index_facts(5) by metis

lemma register_Ok:
  assumes ok: "registryOk r" and run: "registerConsumer V sender ens name country kyc owner r = Inr (w, r')"
  shows "registryOk r'"
proof -
  note f = registerConsumer_InrD [OF run] and c = counters_step [OF ok] and a = active_facts [OF ok] and x = index_facts [OF ok]
  have new: "\<not> cdActive (rgConsumers r w)" using a(2) f(8) by blast
  have free: "rgById r (rgNextId r) = 0" using x(1,2) a(6) by (metis less_irrefl)
  have tag: "cdActive (rgConsumers r u) \<Longrightarrow> ens \<noteq> 0 \<Longrightarrow> cdEns (rgConsumers r u) \<noteq> ens" for u using f(6) a(1,7) by metis
  have other: "rgById r i \<noteq> w \<or> w = 0" "rgEns r h \<noteq> w \<or> w = 0" for i h using x(1,3) new f(7) by metis+
  show ?thesis
  proof (rule registryOkI)
    fix u assume "cdActive (rgConsumers r' u)"
    then show "u \<noteq> 0 \<and> rgCode r' u \<and> cdKyc (rgConsumers r' u) \<le> 3
        \<and> rgById r' (cdGlobalId (rgConsumers r' u)) = u \<and> 1000 \<le> cdGlobalId (rgConsumers r' u) \<and> cdGlobalId (rgConsumers r' u) < rgNextId r'
        \<and> (cdEns (rgConsumers r' u) \<noteq> 0 \<longrightarrow> rgEns r' (cdEns (rgConsumers r' u)) = u)"
      unfolding f(9) using f(5,7) c(1) x(6) a [of u] tag [of u] by (cases "u = w") (auto simp: less_Suc_eq)
  next
    fix i assume "rgById r' i \<noteq> 0"
    then show "cdActive (rgConsumers r' (rgById r' i)) \<and> cdGlobalId (rgConsumers r' (rgById r' i)) = i"
      unfolding f(9) using x(1,2) [of i] other(1) [of i] f(7) by (cases "i = rgNextId r") auto
  next
    fix i assume "1000 \<le> i" "i < rgNextId r'"
    then show "rgById r' i \<noteq> 0" unfolding f(9) using c(1) f(7) x(7) [of i] by (cases "i = rgNextId r") auto
  next
    fix h assume "rgEns r' h \<noteq> 0"
    then show "h \<noteq> 0 \<and> cdActive (rgConsumers r' (rgEns r' h)) \<and> cdEns (rgConsumers r' (rgEns r' h)) = h"
      unfolding f(9) using x(3,4) [of h] ens_nonzero [OF ok, of h] other(2) [of h] f(7) by (cases "h = ens \<and> ens \<noteq> 0") auto
  next
    show "rgNextId r' = 1000 + rgCount r'" unfolding f(9) using c x(6) by simp
  qed
qed

lemma recover_Ok:
  assumes ok: "registryOk r" and run: "recoverWallet V now sender old ens owner r = Inr (w, r')"
  shows "registryOk r'"
proof -
  note f = recoverWallet_InrD [OF run] and a = active_facts [OF ok] and x = index_facts [OF ok]
  have new: "\<not> cdActive (rgConsumers r w)" using a(2) f(7) by blast
  then have "w \<noteq> old" using f(4) by blast
  note r' = f(8) [OF this]
  have byId: "rgById r (cdGlobalId (rgConsumers r old)) = old" and ens: "rgEns r ens = old"
    using a(4,7) [OF f(4)] f(3,5) by simp_all
  have gid: "cdActive (rgConsumers r u) \<Longrightarrow> u \<noteq> old \<Longrightarrow> cdGlobalId (rgConsumers r u) \<noteq> cdGlobalId (rgConsumers r old)" for u
    using a(4) byId by metis
  have tag: "cdActive (rgConsumers r u) \<Longrightarrow> u \<noteq> old \<Longrightarrow> cdEns (rgConsumers r u) \<noteq> ens" for u using a(7) ens f(3) by metis
  have other: "rgById r i \<noteq> w" "rgEns r h \<noteq> w" for i h using x(1,3) new f(6) by metis+
  have oldId: "rgById r i = old \<Longrightarrow> i = cdGlobalId (rgConsumers r old)" "rgEns r h = old \<Longrightarrow> h = ens" for i h
    using x(2,4) a(1) [OF f(4)] f(5) by metis+
  show ?thesis
  proof (rule registryOkI)
    fix u assume "cdActive (rgConsumers r' u)"
    then show "u \<noteq> 0 \<and> rgCode r' u \<and> cdKyc (rgConsumers r' u) \<le> 3
        \<and> rgById r' (cdGlobalId (rgConsumers r' u)) = u \<and> 1000 \<le> cdGlobalId (rgConsumers r' u) \<and> cdGlobalId (rgConsumers r' u) < rgNextId r'
        \<and> (cdEns (rgConsumers r' u) \<noteq> 0 \<longrightarrow> rgEns r' (cdEns (rgConsumers r' u)) = u)"
      unfolding r' using \<open>w \<noteq> old\<close> f(6) a [of u] a [OF f(4)] gid [of u] tag [of u] by (cases "u = w"; cases "u = old") auto
  next
    fix i assume "rgById r' i \<noteq> 0"
    then show "cdActive (rgConsumers r' (rgById r' i)) \<and> cdGlobalId (rgConsumers r' (rgById r' i)) = i"
      unfolding r' using \<open>w \<noteq> old\<close> x(1,2) [of i] other(1) [of i] oldId(1) [of i] by auto
  next
    fix i assume "1000 \<le> i" "i < rgNextId r'"
    then show "rgById r' i \<noteq> 0" unfolding r' using f(6) x(7) [of i] by auto
  next
    fix h assume "rgEns r' h \<noteq> 0"
    then show "h \<noteq> 0 \<and> cdActive (rgConsumers r' (rgEns r' h)) \<and> cdEns (rgConsumers r' (rgEns r' h)) = h"
      unfolding r' using \<open>w \<noteq> old\<close> x(3,4) [of h] ens_nonzero [OF ok, of h] other(2) [of h] oldId(2) [of h] f(3) by auto
  next
    show "rgNextId r' = 1000 + rgCount r'" unfolding r' using x(6) by simp
  qed
qed

text \<open>The other operations leave the indices and what they index alone.\<close>

definition sameIndices :: "registry \<Rightarrow> registry \<Rightarrow> bool" where
  "sameIndices r r' \<longleftrightarrow> rgById r' = rgById r \<and> rgEns r' = rgEns r \<and> rgNextId r' = rgNextId r \<and> rgCount r' = rgCount r
     \<and> (\<forall>w. rgCode r w \<longrightarrow> rgCode r' w)
     \<and> (\<forall>w. cdActive (rgConsumers r' w) = cdActive (rgConsumers r w) \<and> cdGlobalId (rgConsumers r' w) = cdGlobalId (rgConsumers r w)
          \<and> cdEns (rgConsumers r' w) = cdEns (rgConsumers r w) \<and> (cdKyc (rgConsumers r w) \<le> 3 \<longrightarrow> cdKyc (rgConsumers r' w) \<le> 3))"

lemma sameIndices_Ok:
  assumes same: "sameIndices r r'" and ok: "registryOk r"
  shows "registryOk r'"
proof -
  have e: "rgById r' = rgById r" "rgEns r' = rgEns r" "rgNextId r' = rgNextId r" "rgCount r' = rgCount r"
    and c: "\<And>w. rgCode r w \<Longrightarrow> rgCode r' w" and k: "\<And>w. cdKyc (rgConsumers r w) \<le> 3 \<Longrightarrow> cdKyc (rgConsumers r' w) \<le> 3"
    and d: "\<And>w. cdActive (rgConsumers r' w) = cdActive (rgConsumers r w)" "\<And>w. cdGlobalId (rgConsumers r' w) = cdGlobalId (rgConsumers r w)"
      "\<And>w. cdEns (rgConsumers r' w) = cdEns (rgConsumers r w)"
    using same unfolding sameIndices_def by blast+
  note a = active_facts [OF ok] and x = index_facts [OF ok]
  show ?thesis
  proof (rule registryOkI; unfold e d)
    fix w assume "cdActive (rgConsumers r w)"
    from a [OF this] show "w \<noteq> 0 \<and> rgCode r' w \<and> cdKyc (rgConsumers r' w) \<le> 3
        \<and> rgById r (cdGlobalId (rgConsumers r w)) = w \<and> 1000 \<le> cdGlobalId (rgConsumers r w) \<and> cdGlobalId (rgConsumers r w) < rgNextId r
        \<and> (cdEns (rgConsumers r w) \<noteq> 0 \<longrightarrow> rgEns r (cdEns (rgConsumers r w)) = w)"
      using c k by blast
  qed (use x ens_nonzero [OF ok] in blast)+
qed

lemma remit_InrD:
  assumes "recordRemittance now sender rec r = Inr r'"
  shows "cdActive (rgConsumers r (rmSender rec))" and "0 < cdKyc (rgConsumers r (rmSender rec))" and "0 < rmAmount rec"
    and "rgDaily r (rmSender rec) (now div 86400) + rmAmount rec \<le> dailyLimit (cdKyc (rgConsumers r (rmSender rec)))"
    and "rgMonthly r (rmSender rec) (now div 2592000) + rmAmount rec \<le> monthlyLimit (cdKyc (rgConsumers r (rmSender rec)))"
    and "r' = r\<lparr>rgDaily := (rgDaily r)(rmSender rec := (rgDaily r (rmSender rec))(now div 86400 := rgDaily r (rmSender rec) (now div 86400) + rmAmount rec)),
       rgMonthly := (rgMonthly r)(rmSender rec := (rgMonthly r (rmSender rec))(now div 2592000 := rgMonthly r (rmSender rec) (now div 2592000) + rmAmount rec)),
       rgLog := rgLog r @ [rec]\<rparr>"
  using assms unfolding recordRemittance_def checkKycLimit_def checked_def Let_def
  by (auto simp: sbind_Inr_iff split: if_splits)

lemma step_Ok:
  assumes "registryStep V r r'" and "registryOk r"
  shows "registryOk r'"
  using assms(1)
proof cases
  case register
  then show ?thesis using register_Ok assms(2) by blast
next
  case recover
  then show ?thesis using recover_Ok assms(2) by blast
qed (rule sameIndices_Ok [OF _ assms(2)]; auto simp: sameIndices_def setSaveWallet_def setUsdWallet_def updateKycLevel_def setMaxConsumers_def
    setSafe4337Config_def setSessionTransferModule_def Let_def dest!: remit_InrD(6) split: if_splits)+

text \<open>What is sent in a day and in a month stays within the highest limits, and the log only grows.\<close>

lemma step_limits:
  assumes "registryStep V r r'" and "limitsOk r"
  shows "limitsOk r' \<and> (\<exists>new. rgLog r' = rgLog r @ new)"
  using assms(1)
proof cases
  case (register sender ens name country kyc owner w)
  note f = registerConsumer_InrD(9) [OF register]
  show ?thesis using assms(2) unfolding f limitsOk_def by simp
next
  case (recover now sender old ens owner w)
  have "rgDaily r' = rgDaily r \<and> rgMonthly r' = rgMonthly r \<and> rgLog r' = rgLog r"
    using recover by (auto simp: recoverWallet_def deployConsumerSafe_def Let_def sbind_Inr_iff split: if_splits option.splits)
  then show ?thesis using assms(2) by (simp add: limitsOk_def)
next
  case (remit now sender rec)
  have "dailyLimit l \<le> 2500000" "monthlyLimit l \<le> 10000000" for l by (simp_all add: dailyLimit_def monthlyLimit_def)
  then show ?thesis
    using assms(2) remit_InrD(4,5,6) [OF remit] by (fastforce simp: limitsOk_def intro: order_trans)
qed (use assms(2) in \<open>auto simp: limitsOk_def setSaveWallet_def setUsdWallet_def updateKycLevel_def setMaxConsumers_def
    setSafe4337Config_def setSessionTransferModule_def Let_def split: if_splits\<close>)


lemma initialize_Ok: "initialize admin singleton factory fallback code = Inr r \<Longrightarrow> registryOk r \<and> limitsOk r"
  by (auto simp: initialize_def registryOk_def limitsOk_def noConsumer_def split: if_splits)

text \<open>
  C36. From its initialisation on, whatever is called by whom and when, every active wallet is the one that the
  look-ups find under its account number and, when it has one, under its tag; whatever the look-ups find is an active
  wallet with that number or tag, and every number that has been given out is found. So an account number given out
  belongs to exactly one active wallet and a tag to at most one. No sender's remittances of a day or of
  a month exceed the limits of the highest KYC level.
\<close>

theorem one_wallet_per_account:
  assumes "initialize admin singleton factory fallback code = Inr r" and "(registryStep V)\<^sup>*\<^sup>* r r'"
  shows "(\<forall>w. cdActive (rgConsumers r' w) \<longrightarrow> rgById r' (cdGlobalId (rgConsumers r' w)) = w
        \<and> (cdEns (rgConsumers r' w) \<noteq> 0 \<longrightarrow> rgEns r' (cdEns (rgConsumers r' w)) = w))
    \<and> (\<forall>i. rgById r' i \<noteq> 0 \<longrightarrow> cdActive (rgConsumers r' (rgById r' i)) \<and> cdGlobalId (rgConsumers r' (rgById r' i)) = i)
    \<and> (\<forall>h. rgEns r' h \<noteq> 0 \<longrightarrow> cdActive (rgConsumers r' (rgEns r' h)) \<and> cdEns (rgConsumers r' (rgEns r' h)) = h)
    \<and> (\<forall>i. 1000 \<le> i \<longrightarrow> i < 1000 + rgCount r' \<longrightarrow> rgById r' i \<noteq> 0 \<and> (\<exists>!w. cdActive (rgConsumers r' w) \<and> cdGlobalId (rgConsumers r' w) = i))
    \<and> (\<forall>v w. cdActive (rgConsumers r' v) \<longrightarrow> cdActive (rgConsumers r' w) \<longrightarrow> cdEns (rgConsumers r' v) = cdEns (rgConsumers r' w)
         \<longrightarrow> cdEns (rgConsumers r' v) \<noteq> 0 \<longrightarrow> v = w)
    \<and> (\<forall>w d. rgDaily r' w d \<le> 2500000) \<and> (\<forall>w m. rgMonthly r' w m \<le> 10000000)"
proof -
  have "registryOk r' \<and> limitsOk r'"
    using assms(2) by (induction rule: rtranclp_induct) (use initialize_Ok [OF assms(1)] step_Ok step_limits in blast)+
  then have ok: "registryOk r'" and lim: "limitsOk r'" by simp_all
  have given: "rgById r' i \<noteq> 0 \<and> (\<exists>!w. cdActive (rgConsumers r' w) \<and> cdGlobalId (rgConsumers r' w) = i)" if "1000 \<le> i" "i < 1000 + rgCount r'" for i
  proof -
    have at_i: "rgById r' i \<noteq> 0" using that index_facts(6,7) [OF ok] by simp
    have "\<exists>!w. cdActive (rgConsumers r' w) \<and> cdGlobalId (rgConsumers r' w) = i"
    proof (rule ex1I [of _ "rgById r' i"])
      show "cdActive (rgConsumers r' (rgById r' i)) \<and> cdGlobalId (rgConsumers r' (rgById r' i)) = i"
        using at_i index_facts(1,2) [OF ok] by blast
    qed (use active_facts(4) [OF ok] in fastforce)
    with at_i show ?thesis by blast
  qed
  have tag: "v = w" if "cdActive (rgConsumers r' v)" "cdActive (rgConsumers r' w)" "cdEns (rgConsumers r' v) = cdEns (rgConsumers r' w)"
      "cdEns (rgConsumers r' v) \<noteq> 0" for v w
    using active_facts(7) [OF ok that(1)] active_facts(7) [OF ok that(2)] that(3,4) by metis
  have found: "\<forall>w. cdActive (rgConsumers r' w) \<longrightarrow> rgById r' (cdGlobalId (rgConsumers r' w)) = w
        \<and> (cdEns (rgConsumers r' w) \<noteq> 0 \<longrightarrow> rgEns r' (cdEns (rgConsumers r' w)) = w)"
    using active_facts(4,7) [OF ok] by blast
  have hits: "\<forall>i. rgById r' i \<noteq> 0 \<longrightarrow> cdActive (rgConsumers r' (rgById r' i)) \<and> cdGlobalId (rgConsumers r' (rgById r' i)) = i"
    "\<forall>h. rgEns r' h \<noteq> 0 \<longrightarrow> cdActive (rgConsumers r' (rgEns r' h)) \<and> cdEns (rgConsumers r' (rgEns r' h)) = h"
    using index_facts(1-4) [OF ok] by blast+
  show ?thesis
    using found hits given tag lim unfolding limitsOk_def by (intro conjI) blast+
qed

section \<open>Example\<close>

text \<open>A factory whose addresses are the salts, with account numbers as salts.\<close>

definition demoRegistryEnv :: registryEnv where
  "demoRegistryEnv = \<lparr>rvProxy = (\<lambda>singleton su salt. Some (ucast salt)), rvSalt = of_nat, rvRecoverSalt = (\<lambda>i now. of_nat (2000 + i))\<rparr>"

definition demoRegistry :: registry where
  "demoRegistry = \<lparr>rgConsumers = (\<lambda>_. noConsumer), rgEns = (\<lambda>_. 0), rgById = (\<lambda>_. 0), rgCount = 0, rgMax = 500, rgNextId = 1000,
     rgLog = [], rgDaily = (\<lambda>_ _. 0), rgMonthly = (\<lambda>_ _. 0), rgSingleton = 21, rgFactory = 22, rgFallback = 0, rg4337 = 0,
     rgModuleSetup = 0, rgSessionModule = 0, rgAdmin = (\<lambda>a. a = 2), rgRegistrar = (\<lambda>a. a = 2), rgKycUpdater = (\<lambda>a. a = 2),
     rgRecorder = (\<lambda>a. a = 2), rgCode = (\<lambda>a. a < 100)\<rparr>"

lemma demoRegistry_init: "initialize 2 21 22 0 (\<lambda>a. a < 100) = Inr demoRegistry"
  by (simp add: initialize_def demoRegistry_def)

lemma demoRegistry_sel [simp]:
  "rgConsumers demoRegistry = (\<lambda>_. noConsumer)" "rgEns demoRegistry = (\<lambda>_. 0)" "rgById demoRegistry = (\<lambda>_. 0)" "rgCount demoRegistry = 0"
  "rgMax demoRegistry = 500" "rgNextId demoRegistry = 1000" "rgSingleton demoRegistry = 21" "rgRegistrar demoRegistry = (\<lambda>a. a = 2)"
  "rgCode demoRegistry = (\<lambda>a. a < 100)" "rg4337 demoRegistry = 0"
  by (simp_all add: demoRegistry_def)

text \<open>A registration and the recovery of its account at a new wallet.\<close>

lemma demo_register: "\<exists>r. registerConsumer demoRegistryEnv 2 5 6 7 0 8 demoRegistry = Inr (1000, r) \<and> rgCount r = 1
    \<and> cdActive (rgConsumers r 1000) \<and> cdEns (rgConsumers r 1000) = 5 \<and> cdGlobalId (rgConsumers r 1000) = 1000 \<and> rgSingleton r = 21
    \<and> rgRegistrar r = (\<lambda>a. a = 2) \<and> rgCode r = (\<lambda>a. a < 100 \<or> a = 1000)"
  by (simp add: registerConsumer_def deployConsumerSafe_def demoRegistryEnv_def Let_def uintLimit_def fun_eq_iff)

lemma one_wallet_per_account_witness:
  "\<exists>r1 r2. registerConsumer demoRegistryEnv 2 5 6 7 0 8 demoRegistry = Inr (1000, r1) \<and> recoverWallet demoRegistryEnv 9 2 1000 5 10 r1 = Inr (3000, r2)
    \<and> (\<exists>!w. cdActive (rgConsumers r2 w) \<and> cdGlobalId (rgConsumers r2 w) = 1000)
    \<and> cdGlobalId (rgConsumers r2 (rgById r2 1000)) = 1000"
proof -
  obtain r1 where r1: "registerConsumer demoRegistryEnv 2 5 6 7 0 8 demoRegistry = Inr (1000, r1)" and f: "rgCount r1 = 1"
      "cdActive (rgConsumers r1 1000)" "cdEns (rgConsumers r1 1000) = 5" "cdGlobalId (rgConsumers r1 1000) = 1000"
      "rgRegistrar r1 = (\<lambda>a. a = 2)" "rgCode r1 = (\<lambda>a. a < 100 \<or> a = 1000)"
    using demo_register by blast
  have "\<exists>r2. recoverWallet demoRegistryEnv 9 2 1000 5 10 r1 = Inr (3000, r2) \<and> rgCount r2 = 1"
    using f by (simp add: recoverWallet_def deployConsumerSafe_def demoRegistryEnv_def Let_def)
  then obtain r2 where r2: "recoverWallet demoRegistryEnv 9 2 1000 5 10 r1 = Inr (3000, r2)" "rgCount r2 = 1" by blast
  have "(registryStep demoRegistryEnv)\<^sup>*\<^sup>* demoRegistry r2"
    using registryStep.register [OF r1] registryStep.recover [OF r2(1)] by (meson rtranclp.rtrancl_into_rtrancl rtranclp.rtrancl_refl)
  from one_wallet_per_account [OF demoRegistry_init this] r1 r2 show ?thesis by auto
qed

end
