(* ===== verification/GasCost.thy ===== *)
theory GasCost
  imports Transfers "HOL-Library.AList"
begin

text \<open>
  \<open>gasCostService.ts\<close> and \<open>dexQuoteService.ts\<close>: the gas paid by the platform's wallets, one row per
  transaction, with the tag of what it was for; the back-fill from the tables that name transactions; and
  the report of the totals, in ether and in rand at the current rates.

  What the chain knows of a transaction is part of the state: \<open>receipts\<close>, and \<open>txCalls\<close>, the decoded
  head of its data (\<open>None\<close>: not found, or without data). The quoter of the DEX is \<open>dexOut\<close>, the units of
  USDC for one token (\<open>None\<close>: the call fails). A hash is compared after \<open>toLowerCase()\<close>, so hashes are numbers.
\<close>

datatype gasCategory = Onboarding | TransactionGas | Operations | DeploymentGas

text \<open>The selector of \<open>executeTransfer\<close>, that of the Safe with the call inside when it can be decoded, or another.\<close>

datatype txCall = SessionCall | SafeCall "calldata option" | OtherCall

record receipt =
  rcFrom :: address
  rcUsed :: int
  rcPrice :: "int option"
  rcBlock :: int

record gasRow =
  gcTx :: txHash
  gcSource :: string
  gcCategory :: gasCategory
  gcUsed :: int
  gcPrice :: int
  gcCost :: int
  gcBlock :: int
  gcAt :: int

datatype attemptStatus = AttemptStarted | AttemptCompleted | AttemptFailed
datatype regStage = SignerStage | DeployStage | IdosStage | EnsStage | PimlicoStage | DbStage | DoneStage

record attemptRow =
  raId :: string
  raStatus :: attemptStatus
  raStep :: "regStage option"
  raFailed :: "regStage option"
  raCountry :: "string option"
  raTag :: "string option"
  raName :: "string option"
  raMobile :: "string option"
  raSigner :: "address option"
  raWallet :: "address option"
  raTx :: "txHash option"
  raError :: "string option"
  raCreated :: int
  raUpdated :: int

record 'w gasDb = "'w transferDb" +
  gasCosts :: "gasRow list"
  receipts :: "txHash \<Rightarrow> receipt option"
  txCalls :: "txHash \<Rightarrow> txCall option"
  attempts :: "attemptRow list"
  deploymentTxs :: "(txHash \<times> string \<times> string) list"
  deployments :: "(txHash \<times> string) list"
  dexCache :: "string \<Rightarrow> (rat \<times> int) option"
  dexOut :: "string \<Rightarrow> nat \<Rightarrow> int option"

text \<open>\<open>DEPLOYER_ADMIN_ADDRESS\<close> and the life of a DEX quote.\<close>

record gasEnv =
  geDeployer :: string
  geDexTtl :: int

section \<open>Labels and categories\<close>

definition gasSourceLabels :: "(string \<times> string) list" where
  "gasSourceLabels = [(''passkey'', ''passkey''), (''relay'', ''passkey''), (''session'', ''session''),
     (''session_ok'', ''session (successful)''), (''session_fail'', ''session (unsuccessful)''), (''session_enable'', ''session enable''),
     (''session_add_key'', ''session add key''), (''session_revoke'', ''session revoke''), (''conversion'', ''conversion''),
     (''settlement'', ''settlement''), (''cash_in'', ''cash in''), (''register_deploy'', ''register deploy''), (''register_signer'', ''register signer'')]"

definition consumerTxLabels :: "(string \<times> string) list" where
  "consumerTxLabels = [(''passkey'', ''Passkey payments''), (''relay'', ''Passkey payments''), (''session'', ''Session payments''),
     (''session_ok'', ''Session payments (successful)''), (''session_fail'', ''Session payments (unsuccessful)''),
     (''session_enable'', ''Session enable module''), (''session_add_key'', ''Session add key''), (''session_revoke'', ''Session revoke'')]"

definition labelForGasSource :: "string \<Rightarrow> string" where
  "labelForGasSource source = orElse (map_of gasSourceLabels source) (replaceChar (CHR ''_'') (CHR '' '') source)"

definition labelForConsumerTxCategory :: "string \<Rightarrow> string" where
  "labelForConsumerTxCategory source = orElse (map_of consumerTxLabels source) (''Consumer: '' @ labelForGasSource source)"

definition gasCategoryLabel :: "gasCategory \<Rightarrow> string" where
  "gasCategoryLabel c = (case c of Onboarding \<Rightarrow> ''Customer acquisition (onboarding)'' | TransactionGas \<Rightarrow> ''Consumer transactions (relay)''
     | Operations \<Rightarrow> ''Platform operations'' | DeploymentGas \<Rightarrow> ''Contract deployments'')"

definition groupLabel :: "gasCategory \<Rightarrow> string" where
  "groupLabel c = (case c of TransactionGas \<Rightarrow> ''Consumer transactions'' | Onboarding \<Rightarrow> ''Customer acquisition''
     | Operations \<Rightarrow> ''Platform operations'' | DeploymentGas \<Rightarrow> ''Contract deployments'')"

definition categoryForSource :: "string \<Rightarrow> gasCategory" where
  "categoryForSource source =
    (if startsWith source ''register_'' then Onboarding
     else if source \<in> {''relay'', ''passkey'', ''session'', ''session_ok'', ''session_fail''} \<or> startsWith source ''session_'' then TransactionGas
     else if startsWith source ''contract_'' \<or> source = ''deploy'' \<or> source = ''upgrade'' then DeploymentGas
     else Operations)"

section \<open>Recording\<close>

definition backendSignerAddress :: "env \<Rightarrow> ('s, address) prog" where
  "backendSignerAddress E = ofOption (signer E) (plainErr ''invalid private key'')"

definition deployerAdminAddress :: "env \<Rightarrow> gasEnv \<Rightarrow> ('s, address option) prog" where
  "deployerAdminAddress E G =
    (if isHexAddress (geDeployer G)
     then andThen (ofOption (getAddr E (geDeployer G)) (plainErr ''bad address checksum'')) (\<lambda>a. ret (Some a)) else ret None)"

definition inferConsumerRelaySource :: "txHash \<Rightarrow> (('w, 'r) gasDb_scheme, string) prog" where
  "inferConsumerRelaySource h = tryCatch
    (andThen (readIO (\<lambda>s. txCalls s h)) (\<lambda>c.
     ret (case c of Some SessionCall \<Rightarrow> ''session''
       | Some (SafeCall (Some (EnableModule m))) \<Rightarrow> ''session_enable''
       | Some (SafeCall (Some (AddSessionKey k e mx cap))) \<Rightarrow> ''session_add_key''
       | Some (SafeCall (Some (RemoveSessionKey k))) \<Rightarrow> ''session_revoke''
       | _ \<Rightarrow> ''passkey'')))
    (\<lambda>_. ret ''passkey'')"

definition setGasSource :: "txHash \<Rightarrow> string \<Rightarrow> gasCategory \<Rightarrow> gasRow list \<Rightarrow> gasRow list" where
  "setGasSource h source cat rows = updWhere (\<lambda>g. gcTx g = h) (\<lambda>g. g\<lparr>gcSource := source, gcCategory := cat\<rparr>) rows"

fun reclassify :: "txHash list \<Rightarrow> (('w, 'r) gasDb_scheme, unit) prog" where
  "reclassify [] = ret ()"
| "reclassify (h # hs) =
    andThen (inferConsumerRelaySource h) (\<lambda>source.
    andThen (writeIO (\<lambda>s. s\<lparr>gasCosts := setGasSource h source (categoryForSource source) (gasCosts s)\<rparr>)) (\<lambda>_.
    reclassify hs))"

definition reclassifyLegacyRelaySources :: "(('w, 'r) gasDb_scheme, unit) prog" where
  "reclassifyLegacyRelaySources = tryCatch
    (andThen (readIO (\<lambda>s. map gcTx (filter (\<lambda>g. gcSource g = ''relay'') (gasCosts s)))) reclassify) (\<lambda>_. ret ())"

text \<open>\<open>tx_hash\<close> is unique: a known transaction only gets the new tag.\<close>

definition upsertGas :: "gasRow \<Rightarrow> gasRow list \<Rightarrow> gasRow list" where
  "upsertGas row rows = (if \<exists>g\<in>set rows. gcTx g = gcTx row then setGasSource (gcTx row) (gcSource row) (gcCategory row) rows else rows @ [row])"

definition recordGasFromReceipt ::
  "env \<Rightarrow> txHash \<Rightarrow> receipt \<Rightarrow> string \<Rightarrow> gasCategory option \<Rightarrow> address option \<Rightarrow> (('w, 'r) gasDb_scheme, unit) prog" where
  "recordGasFromReceipt E h rc source category payer =
    andThen (case payer of Some p \<Rightarrow> ret p | None \<Rightarrow> backendSignerAddress E) (\<lambda>expected.
    if rcFrom rc \<noteq> expected then ret ()
    else let cat = orElse category (categoryForSource source); price = orElse (rcPrice rc) 0 in
      tryCatch (writeIO (\<lambda>s. s\<lparr>gasCosts := upsertGas \<lparr>gcTx = h, gcSource = source, gcCategory = cat, gcUsed = rcUsed rc,
        gcPrice = price, gcCost = rcUsed rc * price, gcBlock = rcBlock rc, gcAt = clock s\<rparr> (gasCosts s)\<rparr>)) (\<lambda>_. ret ()))"

definition recordGasFromTxHash :: "env \<Rightarrow> txHash \<Rightarrow> string \<Rightarrow> gasCategory option \<Rightarrow> (('w, 'r) gasDb_scheme, unit) prog" where
  "recordGasFromTxHash E h source category = tryCatch
    (andThen (readIO (\<lambda>s. receipts s h)) (\<lambda>r. case r of None \<Rightarrow> ret ()
     | Some rc \<Rightarrow> andThen (backendSignerAddress E) (\<lambda>b.
         if rcFrom rc = b then recordGasFromReceipt E h rc source category None else ret ())))
    (\<lambda>_. ret ())"

text \<open>The first table that names the transaction decides; a failed query is passed over.\<close>

fun firstRule :: "((('w, 'r) gasDb_scheme \<Rightarrow> bool) \<times> string \<times> gasCategory) list \<Rightarrow> (('w, 'r) gasDb_scheme, string \<times> gasCategory) prog" where
  "firstRule [] = ret (''operations'', Operations)"
| "firstRule ((q, r) # rs) = andThen (tryCatch (readIO q) (\<lambda>_. ret False)) (\<lambda>hit. if hit then ret r else firstRule rs)"

definition classifyTxHash :: "txHash \<Rightarrow> (('w, 'r) gasDb_scheme, string \<times> gasCategory) prog" where
  "classifyTxHash h = firstRule
    [(\<lambda>s. \<exists>a\<in>set (attempts s). raTx a = Some h, ''register_deploy'', Onboarding),
     (\<lambda>s. \<exists>x\<in>set (sales s). slTx x = h, ''passkey'', TransactionGas),
     (\<lambda>s. \<exists>q\<in>set (settlements s). seqTx q = Some h, ''settlement'', Operations),
     (\<lambda>s. \<exists>c\<in>set (conversions s). cvDebitTx c = h \<or> cvCreditTx c = h, ''conversion'', Operations),
     (\<lambda>s. \<exists>d\<in>set (depositRefs s). drMintTx d = Some h \<or> drCreditTx d = Some h, ''cash_in'', Operations)]"

section \<open>The back-fill\<close>

definition collectKnownTxHashes :: "(('w, 'r) gasDb_scheme, txHash list) prog" where
  "collectKnownTxHashes = readIO (\<lambda>s. remdups (map slTx (sales s) @ List.map_filter seqTx (settlements s)
     @ List.map_filter raTx (attempts s) @ map cvDebitTx (conversions s) @ map cvCreditTx (conversions s)
     @ List.map_filter drMintTx (depositRefs s) @ List.map_filter drCreditTx (depositRefs s)))"

definition collectDeploymentTxHashes :: "(('w, 'r) gasDb_scheme, (txHash \<times> string) list) prog" where
  "collectDeploymentTxHashes =
    andThen (tryCatch (readIO (\<lambda>s. map (\<lambda>(h, name, kind). (h, ''contract_'' @ kind @ '':'' @ name)) (deploymentTxs s))) (\<lambda>_. ret [])) (\<lambda>a.
    andThen (tryCatch (readIO (\<lambda>s. map (\<lambda>(h, name). (h, ''contract_deploy:'' @ name)) (deployments s))) (\<lambda>_. ret [])) (\<lambda>b.
    ret (a @ b)))"

fun indexDeployments :: "env \<Rightarrow> address \<Rightarrow> txHash list \<Rightarrow> (txHash \<times> string) list \<Rightarrow> (('w, 'r) gasDb_scheme, unit) prog" where
  "indexDeployments E deployer have [] = ret ()"
| "indexDeployments E deployer have ((h, source) # hs) =
    (if h \<in> set have then indexDeployments E deployer have hs
     else andThen (readIO (\<lambda>s. receipts s h)) (\<lambda>r.
       andThen (case r of None \<Rightarrow> ret () | Some rc \<Rightarrow> recordGasFromReceipt E h rc source (Some DeploymentGas) (Some deployer)) (\<lambda>_.
       indexDeployments E deployer have hs)))"

definition ensureDeploymentGasIndexed :: "env \<Rightarrow> gasEnv \<Rightarrow> (('w, 'r) gasDb_scheme, unit) prog" where
  "ensureDeploymentGasIndexed E G =
    andThen (deployerAdminAddress E G) (\<lambda>d. case d of None \<Rightarrow> ret ()
    | Some deployer \<Rightarrow> tryCatch
        (andThen collectDeploymentTxHashes (\<lambda>known.
         if known = [] then ret ()
         else andThen (readIO (\<lambda>s. map gcTx (gasCosts s))) (\<lambda>have. indexDeployments E deployer have known)))
        (\<lambda>_. ret ()))"

fun indexKnown :: "env \<Rightarrow> address \<Rightarrow> txHash list \<Rightarrow> txHash list \<Rightarrow> (('w, 'r) gasDb_scheme, unit) prog" where
  "indexKnown E backend have [] = ret ()"
| "indexKnown E backend have (h # hs) =
    (if h \<in> set have then indexKnown E backend have hs
     else andThen (readIO (\<lambda>s. receipts s h)) (\<lambda>r.
       andThen (case r of None \<Rightarrow> ret ()
          | Some rc \<Rightarrow> if rcFrom rc \<noteq> backend then ret ()
              else andThen (classifyTxHash h) (\<lambda>(source, cat).
                andThen (if source = ''passkey'' \<or> source = ''relay''
                   then andThen (inferConsumerRelaySource h) (\<lambda>src. ret (src, categoryForSource src)) else ret (source, cat)) (\<lambda>(src, c).
                recordGasFromReceipt E h rc src (Some c) None))) (\<lambda>_.
       indexKnown E backend have hs)))"

definition ensureGasCostsIndexed :: "env \<Rightarrow> gasEnv \<Rightarrow> (('w, 'r) gasDb_scheme, unit) prog" where
  "ensureGasCostsIndexed E G =
    andThen (ensureDeploymentGasIndexed E G) (\<lambda>_.
    andThen reclassifyLegacyRelaySources (\<lambda>_.
    tryCatch
      (andThen collectKnownTxHashes (\<lambda>known.
       if known = [] then ret ()
       else
         andThen (readIO (\<lambda>s. map gcTx (gasCosts s))) (\<lambda>have.
         andThen (backendSignerAddress E) (\<lambda>backend. indexKnown E backend have known))))
      (\<lambda>_. ret ())))"

end
