(* ===== verification/GasReport.thy ===== *)
theory GasReport
  imports GasCost
begin

text \<open>
  The report of \<open>gasCostService.ts\<close> (\<open>getGasFeeTotals\<close>, the onboarding totals) with the price of ether
  from \<open>dexQuoteService.ts\<close>. Sums in wei are exact; ether and rand are doubles.
\<close>

section \<open>Prices\<close>

text \<open>\<open>Number(formatUnits(out, 6))\<close> is the double nearest to \<open>out / 10^6\<close>. A failed quote is \<open>None\<close> and is not cached.\<close>

definition getPriceUsd :: "gasEnv \<Rightarrow> string \<Rightarrow> nat \<Rightarrow> (('w, 'r) gasDb_scheme, rat option) prog" where
  "getPriceUsd G contract feeTier =
    (let key = toLower contract @ '':'' @ showNat feeTier in
     andThen (gets (\<lambda>s. (dexCache s key, clock s))) (\<lambda>(hit, now).
     let fetch = tryCatch
       (andThen (readIO (\<lambda>s. dexOut s contract feeTier)) (\<lambda>r.
        andThen (ofOption r (plainErr ''execution reverted'')) (\<lambda>out.
        let price = fl (of_int out / 10 ^ 6) in
        andThen (modify (\<lambda>s. s\<lparr>dexCache := (dexCache s)(key := Some (price, now + geDexTtl G))\<rparr>)) (\<lambda>_. ret (Some price)))))
       (\<lambda>_. ret None) in
     case hit of Some (price, expires) \<Rightarrow> if now < expires then ret (Some price) else fetch | None \<Rightarrow> fetch))"

definition wethMainnet :: string where
  "wethMainnet = ''0xC02aaA39b223FE8D0A0e5C4F27eAD9083C756Cc2''"

definition ethZarRate :: "env \<Rightarrow> gasEnv \<Rightarrow> (('w, 'r) gasDb_scheme, rat option \<times> rat option) prog" where
  "ethZarRate E G =
    andThen (getPriceUsd G wethMainnet 500) (\<lambda>eth.
    andThen (getRate E ''ZAR'' ''USD'') (\<lambda>q. ret (eth, fxqRate q)))"

definition ethToZar :: "rat \<Rightarrow> rat option \<Rightarrow> rat option \<Rightarrow> rat" where
  "ethToZar eth ethUsd usdPerZar = (case (ethUsd, usdPerZar) of
      (Some u, Some z) \<Rightarrow> if eth = 0 \<or> z \<le> 0 then 0 else jsDiv (jsMul eth u) z
    | _ \<Rightarrow> 0)"

definition zarPerTx :: "rat \<Rightarrow> nat \<Rightarrow> rat" where
  "zarPerTx totalZar count = (if 0 < count then jsDiv totalZar (of_nat count) else 0)"

section \<open>Aggregation\<close>

text \<open>A row's cost and time.\<close>

type_synonym costRow = "int \<times> int"

record costSum =
  csCount :: nat
  csEth :: rat
  csZar :: rat
  csPerTx :: rat
  csLast :: rat

definition weiToEth :: "int \<Rightarrow> rat" where
  "weiToEth wei = jsDiv (numOfBig wei) (10 ^ 18)"

fun latestCost :: "costRow list \<Rightarrow> int \<Rightarrow> int \<Rightarrow> int \<times> int" where
  "latestCost [] latestAt latestWei = (latestAt, latestWei)"
| "latestCost ((wei, tm) # rows) latestAt latestWei = (if latestAt \<le> tm then latestCost rows tm wei else latestCost rows latestAt latestWei)"

definition aggregateCosts :: "costRow list \<Rightarrow> rat option \<Rightarrow> rat option \<Rightarrow> costSum" where
  "aggregateCosts rows ethUsd usdPerZar =
    (let totalEth = weiToEth (sum_list (map fst rows)); totalZar = ethToZar totalEth ethUsd usdPerZar;
         (latestAt, latestWei) = latestCost rows (- 1) 0 in
     \<lparr>csCount = length rows, csEth = totalEth, csZar = totalZar, csPerTx = zarPerTx totalZar (length rows),
       csLast = (if 0 \<le> latestAt then ethToZar (weiToEth latestWei) ethUsd usdPerZar else 0)\<rparr>)"

definition isUnsuccessfulSessionPayment :: "saleStatus option \<Rightarrow> fulfilStatus option \<Rightarrow> bool" where
  "isUnsuccessfulSessionPayment st f \<longleftrightarrow> st = Some RefundedSale \<or> f = Some FulfilFailed"

section \<open>The totals\<close>

record reportRow =
  rrCategory :: gasCategory
  rrSource :: "string option"
  rrLabel :: string
  rrSum :: costSum

record groupRow =
  grGroup :: gasCategory
  grLabel :: string
  grCount :: nat
  grEth :: rat
  grZar :: rat
  grPerTx :: rat
  grLast :: rat
  grRows :: "reportRow list"

record recentRow =
  reTx :: txHash
  reSource :: string
  reLabel :: string
  reCategory :: gasCategory
  reUsed :: int
  reEth :: rat
  reZar :: rat
  reBlock :: int
  reAt :: int

record gasTotals =
  gtWei :: int
  gtEth :: rat
  gtZar :: rat
  gtEthUsd :: "rat option"
  gtUsdPerZar :: "rat option"
  gtCount :: nat
  gtByCategory :: "reportRow list"
  gtByGroup :: "groupRow list"
  gtBySource :: "reportRow list"
  gtRecent :: "recentRow list"

definition emptyTotals :: gasTotals where
  "emptyTotals = \<lparr>gtWei = 0, gtEth = 0, gtZar = 0, gtEthUsd = None, gtUsdPerZar = None, gtCount = 0, gtByCategory = [],
     gtByGroup = [], gtBySource = [], gtRecent = []\<rparr>"

text \<open>The rows newest first, each with the states of the sales paid by its transaction, or with nulls.\<close>

type_synonym gasJoinRow = "gasRow \<times> saleStatus option \<times> fulfilStatus option"

definition newestFirst :: "gasRow list \<Rightarrow> gasRow list" where
  "newestFirst rows = sort_key (\<lambda>g. - gcAt g) rows"

definition gasJoin :: "('w, 'r) gasDb_scheme \<Rightarrow> gasJoinRow list" where
  "gasJoin s = concat (map (\<lambda>g. case filter (\<lambda>x. slTx x = gcTx g) (sales s) of
      [] \<Rightarrow> [(g, None, None)] | xs \<Rightarrow> map (\<lambda>x. (g, Some (slStatus x), slFulfil x)) xs) (newestFirst (gasCosts s)))"

definition reportSource :: "gasJoinRow \<Rightarrow> string" where
  "reportSource r = (case r of (g, st, f) \<Rightarrow>
     if gcSource g \<in> {''session'', ''session_ok'', ''session_fail''}
     then (if isUnsuccessfulSessionPayment st f then ''session_fail'' else ''session_ok'')
     else if gcSource g = ''relay'' then ''passkey'' else gcSource g)"

text \<open>A \<open>Map\<close> keeps the order of first insertion; its keys are the category and the source.\<close>

type_synonym buckets = "((gasCategory \<times> string) \<times> costRow list) list"

definition addToBucket :: "gasJoinRow \<Rightarrow> buckets \<Rightarrow> buckets" where
  "addToBucket r bs = (let g = fst r; k = (gcCategory g, reportSource r) in
     AList.update k (orElse (map_of bs k) [] @ [(gcCost g, gcAt g)]) bs)"

definition bucketsOf :: "gasJoinRow list \<Rightarrow> buckets" where
  "bucketsOf rows = fold addToBucket rows []"

definition isSessionSource :: "string \<Rightarrow> bool" where
  "isSessionSource source \<longleftrightarrow> source \<in> {''session'', ''session_ok'', ''session_fail''}"

text \<open>The comparison of \<open>consumerRows\<close>: session rows last, successful ones first, the others by cost.\<close>

definition sessionRank :: "reportRow \<Rightarrow> nat" where
  "sessionRank r = (if rrSource r = Some ''session_ok'' then 1 else if rrSource r = Some ''session_fail'' then 2 else 0)"

definition byCost :: "reportRow list \<Rightarrow> reportRow list" where
  "byCost rows = sort_key (\<lambda>r. - csEth (rrSum r)) rows"

definition consumerRowsOf :: "buckets \<Rightarrow> rat option \<Rightarrow> rat option \<Rightarrow> reportRow list" where
  "consumerRowsOf bs u z =
    (let plain = map (\<lambda>((c, source), rows). \<lparr>rrCategory = TransactionGas, rrSource = Some source,
             rrLabel = labelForConsumerTxCategory source, rrSum = aggregateCosts rows u z\<rparr>)
           (filter (\<lambda>((c, source), _). c = TransactionGas \<and> \<not> isSessionSource source) bs);
         session = (if map_of bs (TransactionGas, ''session_ok'') \<noteq> None \<or> map_of bs (TransactionGas, ''session_fail'') \<noteq> None
           then map (\<lambda>source. \<lparr>rrCategory = TransactionGas, rrSource = Some source, rrLabel = labelForConsumerTxCategory source,
             rrSum = aggregateCosts (orElse (map_of bs (TransactionGas, source)) []) u z\<rparr>) [''session_ok'', ''session_fail'']
           else []) in
     sort_key sessionRank (byCost (plain @ session)))"

definition addRolled :: "gasCategory \<Rightarrow> costRow list \<Rightarrow> (gasCategory \<times> costRow list) list \<Rightarrow> (gasCategory \<times> costRow list) list" where
  "addRolled c rows m = AList.update c (orElse (map_of m c) [] @ rows) m"

definition rolledOf :: "buckets \<Rightarrow> (gasCategory \<times> costRow list) list" where
  "rolledOf bs = fold (\<lambda>((c, source), rows) m. if c = TransactionGas then m else addRolled c rows m) bs []"

definition otherRowsOf :: "buckets \<Rightarrow> rat option \<Rightarrow> rat option \<Rightarrow> reportRow list" where
  "otherRowsOf bs u z = map (\<lambda>(c, rows). \<lparr>rrCategory = c, rrSource = None, rrLabel = gasCategoryLabel c, rrSum = aggregateCosts rows u z\<rparr>) (rolledOf bs)"

definition groupRowOf :: "buckets \<Rightarrow> rat option \<Rightarrow> rat option \<Rightarrow> gasCategory \<Rightarrow> groupRow list" where
  "groupRowOf bs u z grp =
    (let rows = (if grp = TransactionGas then consumerRowsOf bs u z else filter (\<lambda>r. rrCategory r = grp) (otherRowsOf bs u z)) in
     if rows = [] then []
     else
       let count = sum_list (map (csCount \<circ> rrSum) rows);
           eth = foldl (\<lambda>a r. jsAdd a (csEth (rrSum r))) 0 rows; zar = foldl (\<lambda>a r. jsAdd a (csZar (rrSum r))) 0 rows;
           allRows = (if grp = TransactionGas then concat (map snd (filter (\<lambda>b. fst (fst b) = TransactionGas) bs))
             else orElse (map_of (rolledOf bs) grp) []) in
       [\<lparr>grGroup = grp, grLabel = groupLabel grp, grCount = count, grEth = eth, grZar = zar, grPerTx = zarPerTx zar count,
          grLast = csLast (aggregateCosts allRows u z), grRows = (if 1 < length rows \<or> grp = TransactionGas then rows else [])\<rparr>])"

definition bySourceOf :: "buckets \<Rightarrow> rat option \<Rightarrow> rat option \<Rightarrow> reportRow list" where
  "bySourceOf bs u z = byCost (map (\<lambda>((c, source), rows). \<lparr>rrCategory = c, rrSource = Some source, rrLabel = labelForGasSource source,
     rrSum = aggregateCosts rows u z\<rparr>) bs)"

definition recentOf :: "gasRow list \<Rightarrow> rat option \<Rightarrow> rat option \<Rightarrow> recentRow list" where
  "recentOf rows u z = map (\<lambda>g. let eth = weiToEth (gcCost g) in
     \<lparr>reTx = gcTx g, reSource = gcSource g, reLabel = labelForGasSource (gcSource g), reCategory = gcCategory g, reUsed = gcUsed g,
       reEth = eth, reZar = ethToZar eth u z, reBlock = gcBlock g, reAt = gcAt g\<rparr>) rows"

definition totalsOf :: "int \<Rightarrow> nat \<Rightarrow> gasJoinRow list \<Rightarrow> gasRow list \<Rightarrow> rat option \<Rightarrow> rat option \<Rightarrow> gasTotals" where
  "totalsOf wei n joined recent u z =
    (let bs = bucketsOf joined; eth = weiToEth wei in
     \<lparr>gtWei = wei, gtEth = eth, gtZar = ethToZar eth u z, gtEthUsd = u, gtUsdPerZar = z, gtCount = n,
       gtByCategory = byCost (consumerRowsOf bs u z @ otherRowsOf bs u z),
       gtByGroup = concat (map (groupRowOf bs u z) [TransactionGas, Onboarding, Operations, DeploymentGas]),
       gtBySource = bySourceOf bs u z, gtRecent = recentOf recent u z\<rparr>)"

definition getGasFeeTotals :: "env \<Rightarrow> gasEnv \<Rightarrow> (('w, 'r) gasDb_scheme, gasTotals) prog" where
  "getGasFeeTotals E G =
    andThen (ensureGasCostsIndexed E G) (\<lambda>_. tryCatch
      (andThen (readIO (\<lambda>s. (sum_list (map gcCost (gasCosts s)), length (gasCosts s)))) (\<lambda>(wei, n).
       andThen (readIO gasJoin) (\<lambda>joined.
       andThen (readIO (\<lambda>s. take 50 (newestFirst (gasCosts s)))) (\<lambda>recent.
       andThen (ethZarRate E G) (\<lambda>(u, z).
       ret (totalsOf wei n joined recent u z))))))
      (\<lambda>_. ret emptyTotals))"

section \<open>Onboarding\<close>

definition getOnboardingGasEth :: "env \<Rightarrow> gasEnv \<Rightarrow> (('w, 'r) gasDb_scheme, rat) prog" where
  "getOnboardingGasEth E G =
    andThen (ensureGasCostsIndexed E G) (\<lambda>_. tryCatch
      (andThen (readIO (\<lambda>s. sum_list (map gcCost (filter (\<lambda>g. gcCategory g = Onboarding) (gasCosts s))))) (\<lambda>wei. ret (weiToEth wei)))
      (\<lambda>_. ret 0))"

definition ofCompleted :: "attemptRow list \<Rightarrow> gasRow \<Rightarrow> bool" where
  "ofCompleted rows g \<longleftrightarrow> (\<exists>a\<in>set rows. raStatus a = AttemptCompleted \<and> raTx a = Some (gcTx g))
     \<or> (gcSource g = ''register_signer'' \<and> (\<exists>a\<in>set rows. raStatus a = AttemptCompleted
          \<and> raCreated a - 600000 \<le> gcAt g \<and> gcAt g \<le> raUpdated a + 600000))"

definition getSuccessfulOnboardingGasEth :: "env \<Rightarrow> gasEnv \<Rightarrow> (('w, 'r) gasDb_scheme, rat) prog" where
  "getSuccessfulOnboardingGasEth E G =
    andThen (ensureGasCostsIndexed E G) (\<lambda>_. tryCatch
      (andThen (readIO (\<lambda>s. sum_list (map gcCost (filter (\<lambda>g. gcCategory g = Onboarding \<and> ofCompleted (attempts s) g) (gasCosts s)))))
        (\<lambda>wei. ret (weiToEth wei)))
      (\<lambda>_. getOnboardingGasEth E G))"

end
