(* ===== verification/GasProps.thy ===== *)
theory GasProps
  imports GasReport TransferProps "HOL-Library.Multiset"
begin

text \<open>The report of the gas costs counts every row once in each of its three break-downs.\<close>

section \<open>Association lists of rows\<close>

text \<open>\<open>rowsAt P al\<close>: the rows of the entries whose key satisfies \<open>P\<close>.\<close>

definition rowsAt :: "('k \<Rightarrow> bool) \<Rightarrow> ('k \<times> 'v list) list \<Rightarrow> 'v list" where
  "rowsAt P al = concat (map snd (filter (\<lambda>b. P (fst b)) al))"

lemma rowsAt_simps [simp]: "rowsAt P [] = []" "rowsAt P (b # al) = (if P (fst b) then snd b else []) @ rowsAt P al"
  by (simp_all add: rowsAt_def)

lemma rowsAt_update:
  "mset (rowsAt P (AList.update k (orElse (map_of al k) [] @ xs) al)) = mset (rowsAt P al) + (if P k then mset xs else {#})"
  by (induction al) auto

lemma rowsAt_none: "k \<notin> fst ` set al \<Longrightarrow> rowsAt (\<lambda>j. j = k) al = []"
  by (induction al) auto

lemma rowsAt_entry: "distinct (map fst al) \<Longrightarrow> (k, v) \<in> set al \<Longrightarrow> rowsAt (\<lambda>j. j = k) al = v"
proof (induction al)
  case (Cons b al)
  then show ?case using rowsAt_none [of k al] by (cases b) (auto simp: image_iff)
qed simp

lemma rowsAt_key: "distinct (map fst al) \<Longrightarrow> orElse (map_of al k) [] = rowsAt (\<lambda>j. j = k) al"
proof (cases "map_of al k")
  case None
  then have "k \<notin> fst ` set al" by (simp add: map_of_eq_None_iff)
  with None show ?thesis by (simp add: rowsAt_none)
qed (auto simp: rowsAt_entry dest!: map_of_SomeD)

section \<open>The buckets\<close>

definition costOf :: "gasJoinRow \<Rightarrow> costRow" where
  "costOf r = (gcCost (fst r), gcAt (fst r))"

definition bucketKey :: "gasJoinRow \<Rightarrow> gasCategory \<times> string" where
  "bucketKey r = (gcCategory (fst r), reportSource r)"

lemma addToBucket_update: "addToBucket r bs = AList.update (bucketKey r) (orElse (map_of bs (bucketKey r)) [] @ [costOf r]) bs"
  by (simp add: addToBucket_def bucketKey_def costOf_def Let_def)

lemma bucketsOf_facts:
  "distinct (map fst (bucketsOf rows))"
  "fst ` set (bucketsOf rows) = bucketKey ` set rows"
  "mset (rowsAt P (bucketsOf rows)) = mset (map costOf (filter (\<lambda>r. P (bucketKey r)) rows))"
proof -
  have "distinct (map fst bs) \<Longrightarrow> distinct (map fst (fold addToBucket rows bs))" for bs
    by (induction rows arbitrary: bs) (simp_all add: addToBucket_update distinct_update)
  then show "distinct (map fst (bucketsOf rows))" by (simp add: bucketsOf_def)
  have "fst ` set (fold addToBucket rows bs) = bucketKey ` set rows \<union> fst ` set bs" for bs
    by (induction rows arbitrary: bs) (auto simp: addToBucket_update dom_update)
  then show "fst ` set (bucketsOf rows) = bucketKey ` set rows" by (simp add: bucketsOf_def)
  have "mset (rowsAt P (fold addToBucket rows bs)) = mset (map costOf (filter (\<lambda>r. P (bucketKey r)) rows)) + mset (rowsAt P bs)" for bs
    by (induction rows arbitrary: bs) (simp_all add: addToBucket_update rowsAt_update)
  then show "mset (rowsAt P (bucketsOf rows)) = mset (map costOf (filter (\<lambda>r. P (bucketKey r)) rows))" by (simp add: bucketsOf_def)
qed

lemma reportSource_session: "isSessionSource (reportSource r) \<Longrightarrow> reportSource r = ''session_ok'' \<or> reportSource r = ''session_fail''"
  by (auto simp: reportSource_def isSessionSource_def split: prod.splits if_splits)

lemma rolledOf_facts:
  "distinct (map fst (rolledOf bs))"
  "fst ` set (rolledOf bs) = {c \<in> fst ` fst ` set bs. c \<noteq> TransactionGas}"
  "mset (rowsAt P (rolledOf bs)) = mset (rowsAt (\<lambda>k. P (fst k) \<and> fst k \<noteq> TransactionGas) bs)"
proof -
  let ?f = "\<lambda>((c, source), rows) m. if c = TransactionGas then m else addRolled c rows m"
  have "distinct (map fst m) \<Longrightarrow> distinct (map fst (fold ?f bs m))" for m
    by (induction bs arbitrary: m) (auto simp: addRolled_def distinct_update case_prod_beta)
  then show "distinct (map fst (rolledOf bs))" by (simp add: rolledOf_def)
  have "fst ` set (fold ?f bs m) = {c \<in> fst ` fst ` set bs. c \<noteq> TransactionGas} \<union> fst ` set m" for m
    by (induction bs arbitrary: m) (auto simp: addRolled_def dom_update case_prod_beta)
  then show "fst ` set (rolledOf bs) = {c \<in> fst ` fst ` set bs. c \<noteq> TransactionGas}" by (simp add: rolledOf_def)
  have "mset (rowsAt P (fold ?f bs m)) = mset (rowsAt (\<lambda>k. P (fst k) \<and> fst k \<noteq> TransactionGas) bs) + mset (rowsAt P m)" for m
    by (induction bs arbitrary: m) (auto simp: addRolled_def rowsAt_update case_prod_beta)
  then show "mset (rowsAt P (rolledOf bs)) = mset (rowsAt (\<lambda>k. P (fst k) \<and> fst k \<noteq> TransactionGas) bs)" by (simp add: rolledOf_def)
qed

section \<open>A break-down counts every row once\<close>

text \<open>
  \<open>countsOnce key rows rep u z\<close>: the report's lines have different keys, every row has a line with its key, and each line
  sums up exactly the rows with its key, each as often as it is in the table. So each row is in exactly one line, once.
\<close>

type_synonym lineKey = "gasCategory \<times> string option"

definition lineKey :: "reportRow \<Rightarrow> lineKey" where
  "lineKey x = (rrCategory x, rrSource x)"

definition sumsUp :: "gasJoinRow list \<Rightarrow> costSum \<Rightarrow> rat option \<Rightarrow> rat option \<Rightarrow> bool" where
  "sumsUp rows c u z \<longleftrightarrow> (\<exists>costs. mset costs = mset (map costOf rows) \<and> c = aggregateCosts costs u z)"

definition countsOnce :: "(gasJoinRow \<Rightarrow> lineKey) \<Rightarrow> gasJoinRow list \<Rightarrow> reportRow list \<Rightarrow> rat option \<Rightarrow> rat option \<Rightarrow> bool" where
  "countsOnce key rows rep u z \<longleftrightarrow> distinct (map lineKey rep) \<and> key ` set rows \<subseteq> lineKey ` set rep
     \<and> (\<forall>x\<in>set rep. sumsUp (filter (\<lambda>r. key r = lineKey x) rows) (rrSum x) u z)"

text \<open>The keys of the lines by source, and of the lines by category, where only the transactions are split by source.\<close>

definition sourceKey :: "gasJoinRow \<Rightarrow> lineKey" where
  "sourceKey r = (gcCategory (fst r), Some (reportSource r))"

definition categoryKey :: "gasJoinRow \<Rightarrow> lineKey" where
  "categoryKey r = (gcCategory (fst r), if gcCategory (fst r) = TransactionGas then Some (reportSource r) else None)"

lemma countsOnce_mset: "mset rep = mset rep' \<Longrightarrow> countsOnce key rows rep u z \<longleftrightarrow> countsOnce key rows rep' u z"
proof -
  assume m: "mset rep = mset rep'"
  then have "distinct (map lineKey rep) \<longleftrightarrow> distinct (map lineKey rep')" by (metis mset_eq_imp_distinct_iff mset_map)
  with mset_eq_setD [OF m] show ?thesis by (simp add: countsOnce_def)
qed

lemma countsOnce_filter:
  assumes "countsOnce key rows rep u z"
  shows "countsOnce key (filter (\<lambda>r. P (key r)) rows) (filter (\<lambda>x. P (lineKey x)) rep) u z"
proof -
  have "filter (\<lambda>r. key r = lineKey x) (filter (\<lambda>r. P (key r)) rows) = filter (\<lambda>r. key r = lineKey x) rows" if "P (lineKey x)" for x
    using that unfolding filter_filter by (intro filter_cong) auto
  moreover have "key ` set (filter (\<lambda>r. P (key r)) rows) \<subseteq> lineKey ` set (filter (\<lambda>x. P (lineKey x)) rep)"
  proof
    fix k assume "k \<in> key ` set (filter (\<lambda>r. P (key r)) rows)"
    then have "P k" and "k \<in> lineKey ` set rep" using assms by (auto simp: countsOnce_def)
    then show "k \<in> lineKey ` set (filter (\<lambda>x. P (lineKey x)) rep)" by auto
  qed
  ultimately show ?thesis
    using assms by (simp add: countsOnce_def distinct_map_filter)
qed

lemma bucket_sumsUp:
  "sumsUp (filter (\<lambda>r. bucketKey r = k) rows) (aggregateCosts (rowsAt (\<lambda>j. j = k) (bucketsOf rows)) u z) u z"
  unfolding sumsUp_def by (rule exI [of _ "rowsAt (\<lambda>j. j = k) (bucketsOf rows)"]) (simp add: bucketsOf_facts(3))

lemma bySource_countsOnce: "countsOnce sourceKey rows (bySourceOf (bucketsOf rows) u z) u z"
proof -
  let ?bs = "bucketsOf rows"
  let ?line = "\<lambda>((c, source), costs). \<lparr>rrCategory = c, rrSource = Some source, rrLabel = labelForGasSource source, rrSum = aggregateCosts costs u z\<rparr>"
  note f = bucketsOf_facts [where rows = rows]
  have keys: "lineKey (?line b) = (\<lambda>(c, source). (c, Some source)) (fst b)" for b by (simp add: lineKey_def case_prod_beta)
  have "map lineKey (map ?line ?bs) = map (\<lambda>(c, source). (c, Some source)) (map fst ?bs)"
    using keys by (simp add: comp_def)
  then have d: "distinct (map lineKey (map ?line ?bs))"
    using f(1) by (simp only: distinct_map) (auto intro!: inj_onI)
  have "sumsUp (filter (\<lambda>r. sourceKey r = lineKey (?line b)) rows) (rrSum (?line b)) u z" if b: "b \<in> set ?bs" for b
  proof -
    have "snd b = rowsAt (\<lambda>j. j = fst b) ?bs" using rowsAt_entry [OF f(1), of "fst b" "snd b"] b by simp
    moreover have "(sourceKey r = lineKey (?line b)) = (bucketKey r = fst b)" for r
      unfolding keys by (auto simp: sourceKey_def bucketKey_def case_prod_beta prod_eq_iff)
    ultimately show ?thesis
      unfolding sumsUp_def using f(3) [of "\<lambda>j. j = fst b"] by (intro exI [of _ "snd b"]) (simp add: case_prod_beta)
  qed
  moreover have "sourceKey ` set rows = lineKey ` set (map ?line ?bs)"
  proof -
    have "lineKey ` set (map ?line ?bs) = (\<lambda>(c, source). (c, Some source)) ` fst ` set ?bs" by (simp only: set_map image_image keys)
    also have "\<dots> = sourceKey ` set rows" unfolding f(2) by (simp add: image_image sourceKey_def bucketKey_def)
    finally show ?thesis by simp
  qed
  ultimately have "countsOnce sourceKey rows (map ?line ?bs) u z"
    using d by (auto simp: countsOnce_def)
  moreover have "mset (bySourceOf ?bs u z) = mset (map ?line ?bs)" by (simp add: bySourceOf_def byCost_def)
  ultimately show ?thesis using countsOnce_mset by blast
qed


text \<open>The lines of the transactions: one for each source that is not a session, and both session lines when there is one.\<close>

definition plainLines :: "buckets \<Rightarrow> rat option \<Rightarrow> rat option \<Rightarrow> reportRow list" where
  "plainLines bs u z = map (\<lambda>((c, source), rows). \<lparr>rrCategory = TransactionGas, rrSource = Some source,
     rrLabel = labelForConsumerTxCategory source, rrSum = aggregateCosts rows u z\<rparr>)
     (filter (\<lambda>((c, source), _). c = TransactionGas \<and> \<not> isSessionSource source) bs)"

definition sessionLines :: "buckets \<Rightarrow> rat option \<Rightarrow> rat option \<Rightarrow> reportRow list" where
  "sessionLines bs u z = (if map_of bs (TransactionGas, ''session_ok'') \<noteq> None \<or> map_of bs (TransactionGas, ''session_fail'') \<noteq> None
     then map (\<lambda>source. \<lparr>rrCategory = TransactionGas, rrSource = Some source, rrLabel = labelForConsumerTxCategory source,
       rrSum = aggregateCosts (orElse (map_of bs (TransactionGas, source)) []) u z\<rparr>) [''session_ok'', ''session_fail''] else [])"

lemma consumerRows_mset: "mset (consumerRowsOf bs u z) = mset (plainLines bs u z @ sessionLines bs u z)"
  by (simp add: consumerRowsOf_def plainLines_def sessionLines_def byCost_def Let_def)

lemma categoryKey_iff:
  "categoryKey r = (TransactionGas, Some source) \<longleftrightarrow> bucketKey r = (TransactionGas, source)"
  "c \<noteq> TransactionGas \<Longrightarrow> categoryKey r = (c, None) \<longleftrightarrow> fst (bucketKey r) = c"
  by (auto simp: categoryKey_def bucketKey_def)

lemma plainLines_facts:
  assumes "distinct (map fst bs)"
  shows "lineKey ` set (plainLines bs u z) = {(TransactionGas, Some source) | source. (TransactionGas, source) \<in> fst ` set bs \<and> \<not> isSessionSource source}"
    and "distinct (map lineKey (plainLines bs u z))"
    and "x \<in> set (plainLines bs u z) \<Longrightarrow> \<exists>source. lineKey x = (TransactionGas, Some source)
      \<and> rrSum x = aggregateCosts (rowsAt (\<lambda>j. j = (TransactionGas, source)) bs) u z"
proof -
  show "lineKey ` set (plainLines bs u z) = {(TransactionGas, Some source) | source. (TransactionGas, source) \<in> fst ` set bs \<and> \<not> isSessionSource source}"
    by (force simp: plainLines_def lineKey_def image_iff)
  have "map lineKey (plainLines bs u z) = map (\<lambda>k. (TransactionGas, Some (snd k)))
      (filter (\<lambda>k. fst k = TransactionGas \<and> \<not> isSessionSource (snd k)) (map fst bs))"
    by (induction bs) (auto simp: plainLines_def lineKey_def)
  moreover have "inj_on (\<lambda>k. (TransactionGas, Some (snd k))) (set (filter (\<lambda>k. fst k = TransactionGas \<and> \<not> isSessionSource (snd k)) (map fst bs)))"
    by (rule inj_onI) (auto simp: prod_eq_iff)
  ultimately show "distinct (map lineKey (plainLines bs u z))"
    using assms by (simp add: distinct_map [of "\<lambda>k. (TransactionGas, Some (snd k))"] del: map_map)
  assume "x \<in> set (plainLines bs u z)"
  then obtain source rows where b: "((TransactionGas, source), rows) \<in> set bs"
    and x: "lineKey x = (TransactionGas, Some source)" "rrSum x = aggregateCosts rows u z"
    by (auto simp: plainLines_def lineKey_def)
  then show "\<exists>source. lineKey x = (TransactionGas, Some source) \<and> rrSum x = aggregateCosts (rowsAt (\<lambda>j. j = (TransactionGas, source)) bs) u z"
    using rowsAt_entry [OF assms b] by auto
qed

lemma sessionLines_facts:
  assumes "distinct (map fst bs)"
  shows "lineKey ` set (sessionLines bs u z) \<subseteq> {(TransactionGas, Some ''session_ok''), (TransactionGas, Some ''session_fail'')}"
    and "(TransactionGas, source) \<in> fst ` set bs \<Longrightarrow> source = ''session_ok'' \<or> source = ''session_fail''
      \<Longrightarrow> (TransactionGas, Some source) \<in> lineKey ` set (sessionLines bs u z)"
    and "distinct (map lineKey (sessionLines bs u z))"
    and "x \<in> set (sessionLines bs u z) \<Longrightarrow> \<exists>source. lineKey x = (TransactionGas, Some source)
      \<and> rrSum x = aggregateCosts (rowsAt (\<lambda>j. j = (TransactionGas, source)) bs) u z"
proof -
  show "lineKey ` set (sessionLines bs u z) \<subseteq> {(TransactionGas, Some ''session_ok''), (TransactionGas, Some ''session_fail'')}"
    by (auto simp: sessionLines_def lineKey_def)
  show "distinct (map lineKey (sessionLines bs u z))"
    by (simp add: sessionLines_def lineKey_def)
  show "x \<in> set (sessionLines bs u z) \<Longrightarrow> \<exists>source. lineKey x = (TransactionGas, Some source)
      \<and> rrSum x = aggregateCosts (rowsAt (\<lambda>j. j = (TransactionGas, source)) bs) u z"
    by (auto simp: sessionLines_def lineKey_def rowsAt_key [OF assms] split: if_splits)
  assume k: "(TransactionGas, source) \<in> fst ` set bs" and s: "source = ''session_ok'' \<or> source = ''session_fail''"
  have "map_of bs (TransactionGas, source) \<noteq> None" using k by (simp add: map_of_eq_None_iff)
  with s show "(TransactionGas, Some source) \<in> lineKey ` set (sessionLines bs u z)"
    by (elim disjE) (simp_all add: sessionLines_def lineKey_def)
qed

lemma otherRows_facts:
  "map lineKey (otherRowsOf bs u z) = map (\<lambda>b. (fst b, None)) (rolledOf bs)"
  "x \<in> set (otherRowsOf bs u z) \<Longrightarrow> \<exists>c. c \<noteq> TransactionGas \<and> lineKey x = (c, None)
     \<and> rrSum x = aggregateCosts (rowsAt (\<lambda>j. j = c) (rolledOf bs)) u z"
proof -
  show "map lineKey (otherRowsOf bs u z) = map (\<lambda>b. (fst b, None)) (rolledOf bs)"
    by (simp add: otherRowsOf_def lineKey_def comp_def case_prod_beta)
  assume "x \<in> set (otherRowsOf bs u z)"
  then obtain c rows where b: "(c, rows) \<in> set (rolledOf bs)" and x: "lineKey x = (c, None)" "rrSum x = aggregateCosts rows u z"
    by (auto simp: otherRowsOf_def lineKey_def)
  moreover have "c \<in> fst ` set (rolledOf bs)" using b by force
  ultimately show "\<exists>c. c \<noteq> TransactionGas \<and> lineKey x = (c, None) \<and> rrSum x = aggregateCosts (rowsAt (\<lambda>j. j = c) (rolledOf bs)) u z"
    using rowsAt_entry [OF rolledOf_facts(1) b] rolledOf_facts(2) [of bs] by auto
qed

lemma byCategory_countsOnce: "countsOnce categoryKey rows (consumerRowsOf (bucketsOf rows) u z @ otherRowsOf (bucketsOf rows) u z) u z"
proof -
  let ?bs = "bucketsOf rows"
  let ?P = "plainLines ?bs u z" and ?S = "sessionLines ?bs u z" and ?O = "otherRowsOf ?bs u z"
  note f = bucketsOf_facts [where rows = rows]
  note p = plainLines_facts [OF f(1), where u = u and z = z] and q = sessionLines_facts [OF f(1), where u = u and z = z]
  have other: "lineKey ` set ?O = {(c, None) | c. c \<in> fst ` fst ` set ?bs \<and> c \<noteq> TransactionGas}"
  proof -
    have "lineKey ` set ?O = (\<lambda>c. (c, None)) ` fst ` set (rolledOf ?bs)"
      using arg_cong [OF otherRows_facts(1) [of ?bs u z], of set] by (simp add: image_image)
    then show ?thesis unfolding rolledOf_facts(2) by blast
  qed
  have "distinct (map lineKey ?O)"
    unfolding otherRows_facts(1) using rolledOf_facts(1) [of ?bs] by (auto simp: distinct_map inj_on_def)
  moreover have "lineKey ` set ?P \<inter> lineKey ` set ?S = {}"
    using q(1) unfolding p(1) by (auto simp: isSessionSource_def)
  moreover have "(lineKey ` set ?P \<union> lineKey ` set ?S) \<inter> lineKey ` set ?O = {}"
    using q(1) unfolding p(1) other by auto
  ultimately have d: "distinct (map lineKey (?P @ ?S @ ?O))"
    using p(2) q(3) by (auto simp: distinct_append)
  have "categoryKey r \<in> lineKey ` set (?P @ ?S @ ?O)" if r: "r \<in> set rows" for r
  proof (cases "gcCategory (fst r) = TransactionGas")
    case True
    then have k: "(TransactionGas, reportSource r) \<in> fst ` set ?bs" "categoryKey r = (TransactionGas, Some (reportSource r))"
      using imageI [OF r, of bucketKey] True unfolding f(2) by (simp_all add: bucketKey_def categoryKey_def)
    show ?thesis
      using k q(2) [OF k(1)] reportSource_session [of r] p(1) by (cases "isSessionSource (reportSource r)") auto
  next
    case False
    moreover have "gcCategory (fst r) \<in> fst ` fst ` set ?bs" using r unfolding f(2) by (force simp: bucketKey_def image_iff)
    ultimately have "categoryKey r \<in> lineKey ` set ?O" unfolding other by (simp add: categoryKey_def)
    then show ?thesis by auto
  qed
  moreover have "sumsUp (filter (\<lambda>r. categoryKey r = lineKey x) rows) (rrSum x) u z" if x: "x \<in> set (?P @ ?S @ ?O)" for x
  proof (cases "x \<in> set ?O")
    case True
    then obtain c where c: "c \<noteq> TransactionGas" and k: "lineKey x = (c, None)"
      and s: "rrSum x = aggregateCosts (rowsAt (\<lambda>j. j = c) (rolledOf ?bs)) u z"
      using otherRows_facts(2) by blast
    have "(\<lambda>k. fst k = c \<and> fst k \<noteq> TransactionGas) = (\<lambda>k :: gasCategory \<times> string. fst k = c)" using c by auto
    then have "mset (rowsAt (\<lambda>j. j = c) (rolledOf ?bs)) = mset (map costOf (filter (\<lambda>r. fst (bucketKey r) = c) rows))"
      using rolledOf_facts(3) [of "\<lambda>j. j = c" ?bs] f(3) [of "\<lambda>k. fst k = c"] by simp
    then show ?thesis
      unfolding k s sumsUp_def categoryKey_iff(2) [OF c] by blast
  next
    case False
    then obtain source where k: "lineKey x = (TransactionGas, Some source)"
      and s: "rrSum x = aggregateCosts (rowsAt (\<lambda>j. j = (TransactionGas, source)) ?bs) u z"
      using x p(3) [of x] q(4) [of x] by auto
    show ?thesis unfolding k s categoryKey_iff(1) by (rule bucket_sumsUp)
  qed
  ultimately have "countsOnce categoryKey rows (?P @ ?S @ ?O) u z"
    using d unfolding countsOnce_def by blast
  moreover have "mset (consumerRowsOf ?bs u z @ ?O) = mset (?P @ ?S @ ?O)"
    using consumerRows_mset [of ?bs u z] by simp
  ultimately show ?thesis using countsOnce_mset by blast
qed

text \<open>
  A group's row counts and adds up lines that count every row of its category once; every category with rows has one group.
\<close>

definition groupCounts :: "gasJoinRow list \<Rightarrow> groupRow \<Rightarrow> rat option \<Rightarrow> rat option \<Rightarrow> bool" where
  "groupCounts rows x u z \<longleftrightarrow> (\<exists>rep. countsOnce categoryKey (filter (\<lambda>r. gcCategory (fst r) = grGroup x) rows) rep u z
     \<and> grCount x = sum_list (map (csCount \<circ> rrSum) rep)
     \<and> grEth x = foldl (\<lambda>a r. jsAdd a (csEth (rrSum r))) 0 rep \<and> grZar x = foldl (\<lambda>a r. jsAdd a (csZar (rrSum r))) 0 rep)"

lemma countsOnce_group:
  "countsOnce categoryKey (filter (\<lambda>r. gcCategory (fst r) = grp) rows)
     (if grp = TransactionGas then consumerRowsOf (bucketsOf rows) u z else filter (\<lambda>r. rrCategory r = grp) (otherRowsOf (bucketsOf rows) u z)) u z"
proof -
  have tx: "rrCategory x = TransactionGas" if "x \<in> set (consumerRowsOf (bucketsOf rows) u z)" for x
    using that mset_eq_setD [OF consumerRows_mset [of "bucketsOf rows" u z]] by (auto simp: plainLines_def sessionLines_def split: if_splits)
  have other: "rrCategory x \<noteq> TransactionGas" if "x \<in> set (otherRowsOf (bucketsOf rows) u z)" for x
    using otherRows_facts(2) [OF that] by (auto simp: lineKey_def)
  have "filter (\<lambda>x. fst (lineKey x) = grp) (consumerRowsOf (bucketsOf rows) u z @ otherRowsOf (bucketsOf rows) u z)
      = (if grp = TransactionGas then consumerRowsOf (bucketsOf rows) u z else filter (\<lambda>r. rrCategory r = grp) (otherRowsOf (bucketsOf rows) u z))"
    using tx other by (auto simp: lineKey_def filter_id_conv filter_empty_conv)
  moreover have "fst (categoryKey r) = gcCategory (fst r)" for r by (simp add: categoryKey_def)
  ultimately show ?thesis
    using countsOnce_filter [OF byCategory_countsOnce [where rows = rows and u = u and z = z], of "\<lambda>k. fst k = grp"] by simp
qed

lemma groupRow_facts:
  "x \<in> set (groupRowOf (bucketsOf rows) u z grp) \<Longrightarrow> grGroup x = grp \<and> groupCounts rows x u z"
  "length (groupRowOf (bucketsOf rows) u z grp) \<le> 1"
  "r \<in> set rows \<Longrightarrow> gcCategory (fst r) = grp \<Longrightarrow> groupRowOf (bucketsOf rows) u z grp \<noteq> []"
proof -
  let ?rep = "if grp = TransactionGas then consumerRowsOf (bucketsOf rows) u z else filter (\<lambda>r. rrCategory r = grp) (otherRowsOf (bucketsOf rows) u z)"
  note c = countsOnce_group [where grp = grp and rows = rows and u = u and z = z]
  show "x \<in> set (groupRowOf (bucketsOf rows) u z grp) \<Longrightarrow> grGroup x = grp \<and> groupCounts rows x u z"
    using c unfolding groupRowOf_def Let_def groupCounts_def by (cases "?rep = []") (simp only: if_True list.set empty_iff, auto)
  show "length (groupRowOf (bucketsOf rows) u z grp) \<le> 1" by (simp add: groupRowOf_def Let_def)
  assume "r \<in> set rows" "gcCategory (fst r) = grp"
  then have "?rep \<noteq> []" using c by (auto simp: countsOnce_def)
  then show "groupRowOf (bucketsOf rows) u z grp \<noteq> []" by (simp only: groupRowOf_def Let_def if_False list.simps simp_thms)
qed

lemma byGroup_facts:
  fixes rows :: "gasJoinRow list" and u z :: "rat option"
  defines "gs \<equiv> concat (map (groupRowOf (bucketsOf rows) u z) [TransactionGas, Onboarding, Operations, DeploymentGas])"
  shows "distinct (map grGroup gs)" and "(\<lambda>r. gcCategory (fst r)) ` set rows \<subseteq> grGroup ` set gs" and "\<forall>x\<in>set gs. groupCounts rows x u z"
proof -
  note g = groupRow_facts(1) [where rows = rows and u = u and z = z]
  have d: "distinct (map grGroup (groupRowOf (bucketsOf rows) u z grp))" for grp
    using groupRow_facts(2) [where rows = rows and u = u and z = z and grp = grp] by (cases "groupRowOf (bucketsOf rows) u z grp") auto
  have grp: "x \<in> set (groupRowOf (bucketsOf rows) u z grp) \<Longrightarrow> grGroup x = grp" for x grp using g by blast
  show "distinct (map grGroup gs)"
    unfolding gs_def using d by (auto simp: distinct_append dest!: grp)
  show "\<forall>x\<in>set gs. groupCounts rows x u z" unfolding gs_def using g by auto
  show "(\<lambda>r. gcCategory (fst r)) ` set rows \<subseteq> grGroup ` set gs"
  proof (rule image_subsetI)
    fix r assume r: "r \<in> set rows"
    let ?l = "groupRowOf (bucketsOf rows) u z (gcCategory (fst r))"
    obtain x where x: "x \<in> set ?l" using groupRow_facts(3) [OF r refl, where u = u and z = z] by (cases ?l) auto
    have "gcCategory (fst r) \<in> set [TransactionGas, Onboarding, Operations, DeploymentGas]" by (cases "gcCategory (fst r)") simp_all
    then have "x \<in> set gs" unfolding gs_def using x by auto
    moreover have "grGroup x = gcCategory (fst r)" using g [OF x] by simp
    ultimately show "gcCategory (fst r) \<in> grGroup ` set gs" by force
  qed
qed

text \<open>The report's totals: what \<open>totalsOf\<close> promises of the joined rows.\<close>

definition reportsOnce :: "gasJoinRow list \<Rightarrow> gasTotals \<Rightarrow> bool" where
  "reportsOnce rows T \<longleftrightarrow> (let u = gtEthUsd T; z = gtUsdPerZar T in
     countsOnce sourceKey rows (gtBySource T) u z \<and> countsOnce categoryKey rows (gtByCategory T) u z
     \<and> distinct (map grGroup (gtByGroup T)) \<and> (\<lambda>r. gcCategory (fst r)) ` set rows \<subseteq> grGroup ` set (gtByGroup T)
     \<and> (\<forall>x\<in>set (gtByGroup T). groupCounts rows x u z))"

lemma totalsOf_reportsOnce: "reportsOnce joined (totalsOf wei n joined recent u z)"
proof -
  have "mset (byCost (consumerRowsOf (bucketsOf joined) u z @ otherRowsOf (bucketsOf joined) u z))
      = mset (consumerRowsOf (bucketsOf joined) u z @ otherRowsOf (bucketsOf joined) u z)"
    by (simp add: byCost_def)
  then have "countsOnce categoryKey joined (byCost (consumerRowsOf (bucketsOf joined) u z @ otherRowsOf (bucketsOf joined) u z)) u z"
    using countsOnce_mset byCategory_countsOnce by blast
  then show ?thesis
    unfolding reportsOnce_def totalsOf_def Let_def gasTotals.simps
    using bySource_countsOnce byGroup_facts [where rows = joined and u = u and z = z] by blast
qed

lemma totalsOf_sums: "gtCount (totalsOf wei n joined recent u z) = n" "gtWei (totalsOf wei n joined recent u z) = wei"
  by (simp_all add: totalsOf_def Let_def)

section \<open>The report\<close>

text \<open>When a transaction pays at most one sale, the join has each row of the table once.\<close>

lemma gasJoin_rows:
  assumes "distinct (map slTx (sales s))"
  shows "mset (map fst (gasJoin s)) = mset (gasCosts s)"
proof -
  have one: "length (filter (\<lambda>x. slTx x = h) xs) \<le> 1" if "distinct (map slTx xs)" for h and xs :: "saleRow list"
    using that by (induction xs) (auto simp: filter_empty_conv image_iff)
  have "map fst (case filter (\<lambda>x. slTx x = gcTx g) (sales s) of [] \<Rightarrow> [(g, None, None)] | xs \<Rightarrow> map (\<lambda>x. (g, Some (slStatus x), slFulfil x)) xs) = [g]" for g :: gasRow
    using one [OF assms, of "gcTx g"] by (auto split: list.splits)
  then have "map fst (gasJoin s) = newestFirst (gasCosts s)" by (simp add: gasJoin_def map_concat comp_def)
  then show ?thesis by (simp add: newestFirst_def)
qed

lemma getPriceUsd_frame:
  assumes "getPriceUsd G c f s = (r, t)"
  shows "gasCosts t = gasCosts s" and "sales t = sales s"
proof -
  have "keeps (\<lambda>t. gasCosts t = gasCosts s \<and> sales t = sales s) (getPriceUsd G c f)"
    unfolding getPriceUsd_def Let_def case_prod_beta by (intro keeps_intro keeps_modify) (simp_all add: net_free_def)
  from keepsD [OF this, of s] assms show "gasCosts t = gasCosts s" "sales t = sales s" by simp_all
qed

lemma tryCatch_InrE:
  assumes "tryCatch m h s = (Inr x, t)"
  obtains "m s = (Inr x, t)" | e u where "h e u = (Inr x, t)"
  using assms by (auto simp: tryCatch_def split: prod.splits sum.splits)

lemma read_rows:
  assumes "readIO f s = (Inr x, t)"
  shows "x = f t" and "gasCosts t = gasCosts s" and "sales t = sales s"
  using readIO_InrD [OF assms] by auto

lemma ethZarRate_frame:
  assumes "ethZarRate E G s = (Inr r, t)"
  shows "gasCosts t = gasCosts s" and "sales t = sales s"
proof -
  obtain c v where p: "getPriceUsd G wethMainnet 500 s = (Inr c, v)"
    and q: "andThen (getRate E ''ZAR'' ''USD'') (\<lambda>q. ret (c, fxqRate q)) v = (Inr r, t)"
    using assms unfolding ethZarRate_def by (rule andThen_InrE)
  obtain d w where "getRate E ''ZAR'' ''USD'' v = (Inr d, w)" "t = w" using q by (rule andThen_InrE) simp
  then have "fxFrame v t" by (auto dest: getRate_InrD)
  then show "gasCosts t = gasCosts s" "sales t = sales s"
    using getPriceUsd_frame [OF p] by (auto simp: fxFrame_def)
qed

lemma getGasFeeTotals_InrD:
  assumes "getGasFeeTotals E G s = (Inr g, t)" and "g \<noteq> emptyTotals"
  shows "\<exists>recent u z. g = totalsOf (sum_list (map gcCost (gasCosts t))) (length (gasCosts t)) (gasJoin t) recent u z"
proof -
  obtain s1 where "tryCatch
      (andThen (readIO (\<lambda>s. (sum_list (map gcCost (gasCosts s)), length (gasCosts s)))) (\<lambda>(wei, n).
       andThen (readIO gasJoin) (\<lambda>joined.
       andThen (readIO (\<lambda>s. take 50 (newestFirst (gasCosts s)))) (\<lambda>recent.
       andThen (ethZarRate E G) (\<lambda>(u, z).
       ret (totalsOf wei n joined recent u z))))))
      (\<lambda>_. ret emptyTotals) s1 = (Inr g, t)"
    using assms(1) unfolding getGasFeeTotals_def by (rule andThen_InrE)
  then show ?thesis
  proof (rule tryCatch_InrE)
    fix e v assume "ret emptyTotals v = (Inr g, t)"
    then show ?thesis using assms(2) by simp
  next
    assume run: "andThen (readIO (\<lambda>s. (sum_list (map gcCost (gasCosts s)), length (gasCosts s)))) (\<lambda>(wei, n).
       andThen (readIO gasJoin) (\<lambda>joined.
       andThen (readIO (\<lambda>s. take 50 (newestFirst (gasCosts s)))) (\<lambda>recent.
       andThen (ethZarRate E G) (\<lambda>(u, z).
       ret (totalsOf wei n joined recent u z))))) s1 = (Inr g, t)"
    obtain p s2 where r2: "readIO (\<lambda>s. (sum_list (map gcCost (gasCosts s)), length (gasCosts s))) s1 = (Inr p, s2)"
      and k2: "(case p of (wei, n) \<Rightarrow> andThen (readIO gasJoin) (\<lambda>joined.
       andThen (readIO (\<lambda>s. take 50 (newestFirst (gasCosts s)))) (\<lambda>recent.
       andThen (ethZarRate E G) (\<lambda>(u, z).
       ret (totalsOf wei n joined recent u z))))) s2 = (Inr g, t)"
      using run by (rule andThen_InrE)
    have p: "p = (sum_list (map gcCost (gasCosts s2)), length (gasCosts s2))" by (rule read_rows(1) [OF r2])
    obtain joined s3 where r3: "readIO gasJoin s2 = (Inr joined, s3)"
      and k3: "andThen (readIO (\<lambda>s. take 50 (newestFirst (gasCosts s)))) (\<lambda>recent.
       andThen (ethZarRate E G) (\<lambda>(u, z).
       ret (totalsOf (fst p) (snd p) joined recent u z))) s3 = (Inr g, t)"
      using k2 unfolding case_prod_beta by (rule andThen_InrE)
    obtain recent s4 where r4: "readIO (\<lambda>s. take 50 (newestFirst (gasCosts s))) s3 = (Inr recent, s4)"
      and k4: "andThen (ethZarRate E G) (\<lambda>(u, z). ret (totalsOf (fst p) (snd p) joined recent u z)) s4 = (Inr g, t)"
      using k3 by (rule andThen_InrE)
    obtain q s5 where r5: "ethZarRate E G s4 = (Inr q, s5)"
      and k5: "(case q of (u, z) \<Rightarrow> ret (totalsOf (fst p) (snd p) joined recent u z)) s5 = (Inr g, t)"
      using k4 by (rule andThen_InrE)
    have t: "t = s5" "g = totalsOf (fst p) (snd p) joined recent (fst q) (snd q)"
      using k5 by (simp_all add: case_prod_beta)
    have "gasCosts t = gasCosts s2" "gasCosts t = gasCosts s3" "sales t = sales s3"
      using read_rows [OF r3] read_rows [OF r4] ethZarRate_frame [OF r5] t(1) by simp_all
    then show ?thesis using t(2) p read_rows(1) [OF r3] by (auto simp: gasJoin_def)
  qed
qed

text \<open>
  C37. The report of the gas costs is empty, or its total in wei is the sum of the table and, provided that no
  transaction paid two sales, each of its three break-downs counts every row of the table exactly once: the joined
  rows are the rows of the table; in the break-downs by source and by category the lines have different keys, every
  row has a line with its key, and each line sums up exactly the rows with its key, each as often as the table has it;
  and the groups are different, every category with rows has one, and each adds up lines that count the rows of its
  category once.
\<close>

theorem gas_rows_counted_once:
  assumes "getGasFeeTotals E G s = (Inr g, t)" and "g \<noteq> emptyTotals" and "distinct (map slTx (sales t))"
  shows "gtWei g = sum_list (map gcCost (gasCosts t)) \<and> gtCount g = length (gasCosts t)
    \<and> (\<exists>rows. mset (map fst rows) = mset (gasCosts t) \<and> rows = gasJoin t \<and> reportsOnce rows g)"
  using getGasFeeTotals_InrD [OF assms(1,2)] gasJoin_rows [OF assms(3)] totalsOf_reportsOnce by (fastforce simp: totalsOf_sums)


section \<open>An example\<close>

definition demoGasRow :: "txHash \<Rightarrow> string \<Rightarrow> gasCategory \<Rightarrow> int \<Rightarrow> gasRow" where
  "demoGasRow h src c cost = \<lparr>gcTx = h, gcSource = src, gcCategory = c, gcUsed = cost, gcPrice = 1, gcCost = cost, gcBlock = 1, gcAt = 1700000000000\<rparr>"

definition demoGasDb :: "unit gasDb" where
  "demoGasDb = transferDb.extend demoTransferDb
     (gasDb.fields [demoGasRow 5 ''session'' TransactionGas 21000, demoGasRow 6 ''passkey'' TransactionGas 90000,
        demoGasRow 7 ''register_deploy'' Onboarding 400000]
       (\<lambda>_. None) (\<lambda>_. None) [] [] [] (\<lambda>_. None) (\<lambda>_ _. None))"

lemma demoGas_sel [simp]:
  "net demoGasDb = []" "receipts demoGasDb = (\<lambda>_. None)" "dexOut demoGasDb = (\<lambda>_ _. None)" "dexCache demoGasDb = (\<lambda>_. None)"
  "gasCosts demoGasDb = [demoGasRow 5 ''session'' TransactionGas 21000, demoGasRow 6 ''passkey'' TransactionGas 90000,
        demoGasRow 7 ''register_deploy'' Onboarding 400000]"
  "fxOverrides demoGasDb = fxOverrides demoTransferDb" "sales demoGasDb = sales demoTransferDb"
  by (simp_all add: demoGasDb_def transferDb.extend_def gasDb.fields_def)

lemma indexKnown_none: "net s = [] \<Longrightarrow> receipts s = (\<lambda>_. None) \<Longrightarrow> indexKnown E b have hs s = (Inr (), s)"
  by (induction hs) simp_all

definition demoGasEnv :: gasEnv where
  "demoGasEnv = \<lparr>geDeployer = [], geDexTtl = 60000\<rparr>"

lemma demo_indexed: "ensureGasCostsIndexed demoEnv demoGasEnv demoGasDb = (Inr (), demoGasDb)"
proof -
  have "ensureDeploymentGasIndexed demoEnv demoGasEnv demoGasDb = (Inr (), demoGasDb)"
    by (simp add: ensureDeploymentGasIndexed_def deployerAdminAddress_def demoGasEnv_def isHexAddress_def)
  moreover have "(reclassifyLegacyRelaySources :: (unit gasDb, unit) prog) demoGasDb = (Inr (), demoGasDb)"
    by (simp add: reclassifyLegacyRelaySources_def demoGasRow_def)
  ultimately show ?thesis
    by (simp add: ensureGasCostsIndexed_def collectKnownTxHashes_def backendSignerAddress_def indexKnown_none)
qed

lemma demo_ethZar: "\<exists>z. ethZarRate demoEnv demoGasEnv demoGasDb = (Inr (None, z), demoGasDb)"
proof -
  have "fxOverrides demoGasDb = [((''ZAR'', ''USD''), 1/16), ((''USD'', ''ZAR''), 16)]"
    by (simp add: demoTransferDb_def transferDb.defs sessionDb.defs demoSettleDb_def settleDb.defs demoWithdrawDb_def withdrawDb.defs
      demoAuthDb_def authDb.defs demoSalesDb_def salesDb.defs demoVoucherDb_def voucherDb.defs demo_state)
  then have "\<exists>q. getRate demoEnv ''ZAR'' ''USD'' demoGasDb = (Inr q, demoGasDb)"
    by (simp add: getRate_def Let_def getOverride_def toUpper_def upperChar_def)
  moreover have "getPriceUsd demoGasEnv c f demoGasDb = (Inr None, demoGasDb)" for c f
    by (simp add: getPriceUsd_def Let_def)
  ultimately show ?thesis by (auto simp: ethZarRate_def)
qed

theorem gas_rows_counted_once_witness:
  "\<exists>g t. getGasFeeTotals demoEnv demoGasEnv demoGasDb = (Inr g, t) \<and> gtWei g = 511000 \<and> reportsOnce (gasJoin t) g"
proof -
  obtain z where z: "ethZarRate demoEnv demoGasEnv demoGasDb = (Inr (None, z), demoGasDb)" using demo_ethZar by blast
  then obtain g where run: "getGasFeeTotals demoEnv demoGasEnv demoGasDb = (Inr g, demoGasDb)" and g: "gtCount g = 3"
    by (simp add: getGasFeeTotals_def demo_indexed totalsOf_sums)
  have "g \<noteq> emptyTotals" using g by (auto simp: emptyTotals_def)
  moreover have "distinct (map slTx (sales demoGasDb))"
    by (simp add: demoTransferDb_def transferDb.defs sessionDb.defs demoSettleDb_def settleDb.defs demoWithdrawDb_def withdrawDb.defs
      demoAuthDb_def authDb.defs demoSalesDb_def salesDb.defs voucherDb.defs)
  ultimately show ?thesis
    using gas_rows_counted_once [OF run] run by (auto simp: demoGasRow_def)
qed

end
