(* ===== verification/Registration.thy ===== *)
theory Registration
  imports GasCost ConsumerRegistry
begin

text \<open>
  \<open>registrationService.ts\<close>, \<open>registration.routes.ts\<close>, \<open>ensService.ts\<close>, \<open>pimlicoService.ts\<close> and
  \<open>idosService.ts\<close>: the sign-up of a consumer, the check of a tag and the recovery of an account.

  Outside the repository, and parameters: the factory of passkey signers (\<open>reSigner\<close>, the address for a key),
  the name service (\<open>gnsApi\<close>, over its own state), the idOS SDK (\<open>idosSdk\<close>; \<open>None\<close>: it throws), the receipt of
  a transaction, and \<open>JSON.parse\<close> of the write grant. The paymaster's replies are part of the state. The
  receipt of a call of the registry holds the logs of the Safe's deployment before the registry's own.
\<close>

section \<open>State\<close>

datatype pimReply = PimHttp nat string | PimRpcError string | PimOk

record profile =
  pfConsumer :: string
  pfCredential :: "string option"
  pfName :: "string option"
  pfMobile :: "string option"

record ('w, 'g) regDb = "'w gasDb" +
  registry :: registry
  gns :: 'g
  pimlico :: "address \<Rightarrow> pimReply"
  profiles :: "profile list"
  kycCountry :: "nat \<Rightarrow> string"

record 'g gnsApi =
  gnsId :: "string \<Rightarrow> nat"
  gnsOwner :: "'g \<Rightarrow> nat \<Rightarrow> address option"
  gnsResolve :: "'g \<Rightarrow> nat \<Rightarrow> address option"
  gnsRegister :: "address \<Rightarrow> string \<Rightarrow> nat \<Rightarrow> 'g \<Rightarrow> 'g option"
  gnsSetAddr :: "address \<Rightarrow> nat \<Rightarrow> address \<Rightarrow> 'g \<Rightarrow> 'g option"

record subjectData =
  sjFirst :: "string option"
  sjFamily :: "string option"
  sjMobile :: "string option"
  sjCountry :: "string option"
  sjTag :: "string option"
  sjKyc :: nat
  sjDocument :: "string option"

record idosSdk =
  sdkCreate :: "string \<Rightarrow> address \<Rightarrow> string option \<Rightarrow> string \<Rightarrow> string \<Rightarrow> unit option"
  sdkIssue :: "string \<Rightarrow> address \<Rightarrow> subjectData \<Rightarrow> string \<Rightarrow> string option \<Rightarrow> string \<Rightarrow> unit option"
  sdkShared :: "string \<Rightarrow> subjectData option"

datatype idosMode = IdosStub | IdosLive

record 'g regEnv =
  reRegistry :: registryEnv
  reProxyLogs :: nat
  reSigner :: "nat \<Rightarrow> nat \<Rightarrow> nat \<Rightarrow> address"
  reReceipt :: "txHash \<Rightarrow> receipt"
  reVerifiers :: int
  reGns :: "'g gnsApi"
  reParent :: string
  reController :: string
  reControllerKey :: string
  reControllerWallet :: "address option"
  reIdosMode :: idosMode
  reSdk :: idosSdk
  rePimlicoLive :: bool
  reJson :: "string \<Rightarrow> bool"
  reChecksum :: "address \<Rightarrow> string"

section \<open>Calls of the registry\<close>

datatype regLog = ForeignLog | ConsumerRegistered address nat bytes32 nat | WalletRecovered address address nat

text \<open>The chain fields that other contracts read are the registry's views.\<close>

definition withRegistry :: "registry \<Rightarrow> ('w, 'g, 'r) regDb_scheme \<Rightarrow> ('w, 'g, 'r) regDb_scheme" where
  "withRegistry r s = s\<lparr>registry := r, isRegistered := (\<lambda>a. cdActive (rgConsumers r a)),
     countryCodeOf := (\<lambda>a. cdCountry (rgConsumers r a)), kycLevelOf := (\<lambda>a. cdKyc (rgConsumers r a))\<rparr>"

text \<open>The server's ABI of the registry names no errors, so the message of a revert does not either.\<close>

definition sendRegistry ::
  "(nat \<Rightarrow> registry \<Rightarrow> registryError + regLog list \<times> registry) \<Rightarrow> (('w, 'g, 'r) regDb_scheme, txHash \<times> regLog list) prog" where
  "sendRegistry f = io (\<lambda>s. case f (blockTime s) (registry s) of
      Inl e \<Rightarrow> Inl (plainErr ''execution reverted (unknown custom error)'')
    | Inr (logs, r) \<Rightarrow> Inr ((txCount s, logs), (withRegistry r s)\<lparr>txCount := txCount s + 1\<rparr>))"

definition registerTx ::
  "'g regEnv \<Rightarrow> address \<Rightarrow> bytes32 \<Rightarrow> bytes32 \<Rightarrow> bytes32 \<Rightarrow> address \<Rightarrow> nat \<Rightarrow> registry \<Rightarrow> registryError + regLog list \<times> registry" where
  "registerTx R sender ens name country owner now r =
    sbind (registerConsumer (reRegistry R) sender ens name country 0 owner r) (\<lambda>(wallet, r').
    Inr (replicate (reProxyLogs R) ForeignLog @ [ConsumerRegistered wallet (rgNextId r) country 0], r'))"

definition recoverTx ::
  "'g regEnv \<Rightarrow> address \<Rightarrow> address \<Rightarrow> bytes32 \<Rightarrow> address \<Rightarrow> nat \<Rightarrow> registry \<Rightarrow> registryError + regLog list \<times> registry" where
  "recoverTx R sender old ens owner now r =
    sbind (recoverWallet (reRegistry R) now sender old ens owner r) (\<lambda>(wallet, r').
    Inr (replicate (reProxyLogs R) ForeignLog @ [WalletRecovered old wallet (cdGlobalId (rgConsumers r old))], r'))"

section \<open>The steps of a registration\<close>

definition resolvePasskeySigner :: "env \<Rightarrow> 'g regEnv \<Rightarrow> int \<Rightarrow> int \<Rightarrow> int \<Rightarrow> (('w, 'g, 'r) regDb_scheme, address) prog" where
  "resolvePasskeySigner E R x y verifiers =
    andThen (backendSignerAddress E) (\<lambda>_.
    andThen (uintArg x) (\<lambda>px. andThen (uintArg y) (\<lambda>py.
    andThen (require (0 \<le> verifiers \<and> verifiers < 2 ^ 176) (plainErr ''value out-of-bounds'')) (\<lambda>_.
    andThen (readIO (\<lambda>_. reSigner R px py (nat verifiers))) (\<lambda>signer.
    andThen (readIO (\<lambda>s. rgCode (registry s) signer)) (\<lambda>code.
    if code then ret signer
    else
      andThen (sendTx (\<lambda>s. Inr (s\<lparr>registry := (registry s)\<lparr>rgCode := (rgCode (registry s))(signer := True)\<rparr>\<rparr>))) (\<lambda>tx.
      andThen (recordGasFromReceipt E tx (reReceipt R tx) ''register_signer'' None None) (\<lambda>_. ret signer))))))))"

fun findRegistered :: "regLog list \<Rightarrow> (address \<times> nat) option" where
  "findRegistered [] = None"
| "findRegistered (ConsumerRegistered w i c k # ls) = Some (w, i)"
| "findRegistered (_ # ls) = findRegistered ls"

definition deployConsumerWallet ::
  "env \<Rightarrow> 'g regEnv \<Rightarrow> string \<Rightarrow> string \<Rightarrow> string \<Rightarrow> address \<Rightarrow> (('w, 'g, 'r) regDb_scheme, address \<times> int \<times> txHash) prog" where
  "deployConsumerWallet E R tag displayName country signerAddr =
    andThen (backendSignerAddress E) (\<lambda>admin.
    andThen (ofOption (consumerAddr E) (plainErr ''unsupported addressable value'')) (\<lambda>_.
    andThen (sendRegistry (registerTx R admin (if tag \<noteq> [] then idHash E tag else 0) (idHash E displayName) (idHash E country) signerAddr)) (\<lambda>(tx, logs).
    andThen (recordGasFromReceipt E tx (reReceipt R tx) ''register_deploy'' None None) (\<lambda>_.
    andThen (ofOption (findRegistered logs) (plainErr ''ConsumerRegistered event not found in receipt'')) (\<lambda>(wallet, i).
    ret (wallet, int i, tx))))))"

text \<open>\<open>idosService.ts\<close>. In live mode the ownership proof's key is recovered first, which needs both texts.\<close>

definition createIdosProfile ::
  "'g regEnv \<Rightarrow> address \<Rightarrow> string \<Rightarrow> string option \<Rightarrow> string option \<Rightarrow> string option \<Rightarrow> ('r io_scheme, unit) prog" where
  "createIdosProfile R wallet userId key proof sig = (case reIdosMode R of
      IdosStub \<Rightarrow> ret ()
    | IdosLive \<Rightarrow> (case (proof, sig) of
        (Some p, Some g) \<Rightarrow> andThen (readIO (\<lambda>_. sdkCreate (reSdk R) userId wallet key p g)) (\<lambda>r. ofOption r (plainErr ''idOS error''))
      | _ \<Rightarrow> raise (plainErr ''invalid BytesLike value'')))"

definition issueIdosCredential ::
  "'g regEnv \<Rightarrow> string \<Rightarrow> address \<Rightarrow> subjectData \<Rightarrow> string \<Rightarrow> string option \<Rightarrow> string \<Rightarrow> string \<Rightarrow> string \<Rightarrow> ('r io_scheme, string \<times> string) prog" where
  "issueIdosCredential R userId wallet subject sig grant key payloadId notesId = (case reIdosMode R of
      IdosStub \<Rightarrow> ret (''stub-cred-'' @ userId, ''stub-ag-'' @ userId)
    | IdosLive \<Rightarrow> andThen (readIO (\<lambda>_. sdkIssue (reSdk R) userId wallet subject sig grant key)) (\<lambda>r.
        andThen (ofOption r (plainErr ''idOS error'')) (\<lambda>_. ret (payloadId, notesId))))"

record verified =
  vfOk :: bool
  vfKyc :: nat
  vfCountry :: "string option"
  vfTag :: "string option"

definition verifyCredential :: "'g regEnv \<Rightarrow> string \<Rightarrow> ('r io_scheme, verified) prog" where
  "verifyCredential R grant = (case reIdosMode R of
      IdosStub \<Rightarrow> ret \<lparr>vfOk = True, vfKyc = 1, vfCountry = Some ''ZA'', vfTag = None\<rparr>
    | IdosLive \<Rightarrow> andThen (readIO (\<lambda>_. sdkShared (reSdk R) grant)) (\<lambda>r.
        andThen (ofOption r (plainErr ''idOS error'')) (\<lambda>sj.
        ret \<lparr>vfOk = True, vfKyc = (if nonEmpty (sjDocument sj) \<noteq> None then 2 else if nonEmpty (sjFirst sj) \<noteq> None then 1 else 0),
          vfCountry = sjCountry sj, vfTag = sjTag sj\<rparr>)))"

definition updateCredentialWallet :: "string \<Rightarrow> address \<Rightarrow> ('s, bool) prog" where
  "updateCredentialWallet credential wallet = ret True"

section \<open>The name service\<close>

definition dropDots :: "string \<Rightarrow> string" where
  "dropDots = dropWhile (\<lambda>c. c = CHR ''.'')"

definition gnsFullName :: "'g regEnv \<Rightarrow> string \<Rightarrow> string" where
  "gnsFullName R subdomain = trim (toLower subdomain) @ ''.'' @ dropDots (toLower (reParent R))"

definition tagText :: "nat \<Rightarrow> nat \<Rightarrow> string \<Rightarrow> bool" where
  "tagText lo hi t \<longleftrightarrow> lo \<le> length t \<and> length t \<le> hi
     \<and> list_all (\<lambda>c. isDigit c \<or> (97 \<le> (of_char c :: nat) \<and> (of_char c :: nat) \<le> 122) \<or> c = CHR ''-'') t"

definition getGnsSigner :: "'g regEnv \<Rightarrow> ('s, address) prog" where
  "getGnsSigner R =
    (if reControllerKey R = [] then raise (plainErr ''ENS_CONTROLLER_PRIVATE_KEY is not set. Cannot register .gwei subdomains.'')
     else ofOption (reControllerWallet R) (plainErr ''invalid private key''))"

datatype gnsResult = GnsSkipped | GnsRegistered string string

definition sendGns :: "('g \<Rightarrow> 'g option) \<Rightarrow> (('w, 'g, 'r) regDb_scheme, txHash) prog" where
  "sendGns f = io (\<lambda>s. case f (gns s) of None \<Rightarrow> Inl (plainErr ''execution reverted'')
     | Some g \<Rightarrow> Inr (txCount s, s\<lparr>gns := g, txCount := txCount s + 1\<rparr>))"

definition gnsOwnerOf :: "'g regEnv \<Rightarrow> nat \<Rightarrow> (('w, 'g, 'r) regDb_scheme, address) prog" where
  "gnsOwnerOf R i = andThen (readIO (\<lambda>s. gnsOwner (reGns R) (gns s) i)) (\<lambda>a. ofOption a (plainErr ''execution reverted''))"

definition registerSubdomain :: "'g regEnv \<Rightarrow> string \<Rightarrow> address \<Rightarrow> (('w, 'g, 'r) regDb_scheme, gnsResult) prog" where
  "registerSubdomain R subdomain wallet =
    (if reController R = [] then ret GnsSkipped
     else
       let label = trim (toLower subdomain) in
       andThen (require (tagText 1 32 label) (plainErr (''Invalid subdomain label: '' @ subdomain))) (\<lambda>_.
       andThen (getGnsSigner R) (\<lambda>sg.
       andThen (require (toLower (addrText sg) = toLower (reController R))
         (plainErr (''ENS_CONTROLLER_PRIVATE_KEY does not match ENS_CONTROLLER_ADDRESS (key->'' @ reChecksum R sg @ '', env->'' @ reController R @ '')''))) (\<lambda>_.
       let full = gnsFullName R label in
       andThen (readIO (\<lambda>_. gnsId (reGns R) (toLower (reParent R)))) (\<lambda>parent.
       andThen (gnsOwnerOf R parent) (\<lambda>owner.
       andThen (require (owner = sg) (plainErr (reParent R @ '' is owned by '' @ reChecksum R owner @ '', not controller '' @ reChecksum R sg))) (\<lambda>_.
       andThen (sendGns (gnsRegister (reGns R) sg label parent)) (\<lambda>_.
       andThen (readIO (\<lambda>_. gnsId (reGns R) full)) (\<lambda>token.
       andThen (sendGns (gnsSetAddr (reGns R) sg token wallet)) (\<lambda>_.
       ret (GnsRegistered label full)))))))))))"

definition resolveSubdomain :: "'g regEnv \<Rightarrow> string \<Rightarrow> (('w, 'g, 'r) regDb_scheme, address option) prog" where
  "resolveSubdomain R subdomain =
    andThen (readIO (\<lambda>_. gnsId (reGns R) (gnsFullName R subdomain))) (\<lambda>token.
    andThen (readIO (\<lambda>s. gnsResolve (reGns R) (gns s) token)) (\<lambda>r.
    andThen (ofOption r (plainErr ''execution reverted'')) (\<lambda>a. ret (if a = 0 then None else Some a))))"

definition isSubdomainAvailable :: "'g regEnv \<Rightarrow> string \<Rightarrow> (('w, 'g, 'r) regDb_scheme, bool) prog" where
  "isSubdomainAvailable R subdomain =
    andThen (readIO (\<lambda>_. gnsId (reGns R) (gnsFullName R subdomain))) (\<lambda>token.
    tryCatch (andThen (gnsOwnerOf R token) (\<lambda>_. ret False)) (\<lambda>_. ret True))"

definition whitelistSponsored :: "'g regEnv \<Rightarrow> address \<Rightarrow> (('w, 'g, 'r) regDb_scheme, unit) prog" where
  "whitelistSponsored R wallet =
    (if \<not> rePimlicoLive R then ret ()
     else andThen (readIO (\<lambda>s. pimlico s wallet)) (\<lambda>r. case r of
        PimHttp status text \<Rightarrow> raise (plainErr (''Pimlico whitelist failed: '' @ showNat status @ '' '' @ text))
      | PimRpcError e \<Rightarrow> raise (plainErr (''Pimlico RPC error: '' @ e))
      | PimOk \<Rightarrow> ret ()))"

section \<open>The attempt and the consumer's row\<close>

definition attemptInsert :: "string \<Rightarrow> string \<Rightarrow> string \<Rightarrow> string \<Rightarrow> string \<Rightarrow> (('w, 'r) gasDb_scheme, unit) prog" where
  "attemptInsert i country tag name mobile = tryCatch
    (writeIO (\<lambda>s. if \<exists>a\<in>set (attempts s). raId a = i then s
      else s\<lparr>attempts := attempts s @ [\<lparr>raId = i, raStatus = AttemptStarted, raStep = None, raFailed = None, raCountry = nonEmpty (Some country),
        raTag = nonEmpty (Some tag), raName = nonEmpty (Some name), raMobile = nonEmpty (Some mobile), raSigner = None, raWallet = None,
        raTx = None, raError = None, raCreated = clock s, raUpdated = clock s\<rparr>]\<rparr>))
    (\<lambda>_. ret ())"

definition attemptStep :: "string \<Rightarrow> regStage \<Rightarrow> address option \<Rightarrow> address option \<Rightarrow> txHash option \<Rightarrow> (('w, 'r) gasDb_scheme, unit) prog" where
  "attemptStep i step sg wallet tx = tryCatch
    (writeIO (\<lambda>s. s\<lparr>attempts := updWhere (\<lambda>a. raId a = i) (\<lambda>a. a\<lparr>raStep := Some step,
       raSigner := (if sg = None then raSigner a else sg), raWallet := (if wallet = None then raWallet a else wallet),
       raTx := (if tx = None then raTx a else tx), raUpdated := clock s\<rparr>) (attempts s)\<rparr>))
    (\<lambda>_. ret ())"

definition attemptFinish :: "string \<Rightarrow> attemptStatus \<Rightarrow> regStage option \<Rightarrow> string option \<Rightarrow> (('w, 'r) gasDb_scheme, unit) prog" where
  "attemptFinish i status failedStep e = tryCatch
    (writeIO (\<lambda>s. s\<lparr>attempts := updWhere (\<lambda>a. raId a = i) (\<lambda>a. a\<lparr>raStatus := status,
       raStep := (if status = AttemptCompleted then Some DoneStage else raStep a), raFailed := failedStep, raError := e,
       raUpdated := clock s\<rparr>) (attempts s)\<rparr>))
    (\<lambda>_. ret ())"

text \<open>
  The insert of \<open>writeConsumerRecord\<close>, with the constraints of the table: the country exists, the wallet and
  the account number are unique, and the columns have their lengths (\<open>src/db/001_initial_schema.sql\<close>,
  \<open>036_global_consumer_id.sql\<close>). A conflict on the wallet updates the row.
\<close>

definition levelZero :: "('w, 'g, 'r) regDb_scheme \<Rightarrow> string \<Rightarrow> nat option" where
  "levelZero s country = map_option levelId (find (\<lambda>l. kycCountry s (levelId l) = country \<and> startsWith (levelName l) ''Level 0'') (kycLevels s))"

definition insertConsumer ::
  "string \<Rightarrow> address \<Rightarrow> int \<Rightarrow> string \<Rightarrow> string \<Rightarrow> string \<Rightarrow> string \<Rightarrow> string
    \<Rightarrow> ('w, 'g, 'r) regDb_scheme \<Rightarrow> failure + string \<times> ('w, 'g, 'r) regDb_scheme" where
  "insertConsumer newId wallet gid country credential tag name mobile s =
    (if \<forall>c\<in>set (countries s). countryCode c \<noteq> country
     then Inl (plainErr ''insert or update on table \"consumers\" violates foreign key constraint \"consumers_country_code_fkey\"'')
     else if 100 < length tag \<or> 200 < length credential then Inl (plainErr ''value too long for type character varying'')
     else if \<exists>c\<in>set (consumers s). consumerGlobalId c = Some gid \<and> consumerWallet c \<noteq> Some wallet
     then Inl (plainErr ''duplicate key value violates unique constraint \"consumers_global_consumer_id_key\"'')
     else
       let row = find (\<lambda>c. consumerWallet c = Some wallet) (consumers s); i = (case row of Some c \<Rightarrow> consumerId c | None \<Rightarrow> newId);
           p = \<lparr>pfConsumer = i, pfCredential = nonEmpty (Some credential), pfName = nonEmpty (Some name), pfMobile = nonEmpty (Some mobile)\<rparr> in
       case row of
         Some _ \<Rightarrow> Inr (i, s\<lparr>consumers := updWhere (\<lambda>c. consumerWallet c = Some wallet)
             (\<lambda>c. c\<lparr>consumerTag := nonEmpty (Some tag), consumerGlobalId := Some gid\<rparr>) (consumers s),
           profiles := p # filter (\<lambda>q. pfConsumer q \<noteq> i) (profiles s)\<rparr>)
       | None \<Rightarrow> Inr (i, s\<lparr>consumers := consumers s @ [\<lparr>consumerId = i, consumerWallet = Some wallet, consumerCountry = country,
             consumerKycLevel = levelZero s country, consumerActive = True, consumerGlobalId = Some gid, consumerTag = nonEmpty (Some tag)\<rparr>],
           profiles := profiles s @ [p]\<rparr>))"

definition writeConsumerRecord ::
  "string \<Rightarrow> address \<Rightarrow> int \<Rightarrow> string \<Rightarrow> string \<Rightarrow> string \<Rightarrow> string \<Rightarrow> string \<Rightarrow> (('w, 'g, 'r) regDb_scheme, string) prog" where
  "writeConsumerRecord newId wallet gid country credential tag name mobile =
    io (insertConsumer newId wallet gid country credential tag name mobile)"

section \<open>Registration\<close>

record registerParams =
  rpX :: int
  rpY :: int
  rpVerifiers :: int
  rpName :: string
  rpMobile :: string
  rpCountry :: string
  rpTag :: string
  rpKey :: "string option"
  rpProof :: "string option"
  rpProofSig :: "string option"
  rpGrant :: "string option"
  rpGrantSig :: "string option"

text \<open>The random identifiers of a run: the attempt, the credential and its notes, the consumer's row.\<close>

record registerIds =
  riAttempt :: string
  riPayload :: string
  riNotes :: string
  riConsumer :: string

record registration =
  rgWallet :: address
  rgGlobalId :: int
  rgConsumer :: string
  rgFullTag :: "string option"
  rgSigner :: address

text \<open>A failure in a critical step is recorded with the step in flight and thrown again.\<close>

definition atStage :: "string \<Rightarrow> regStage \<Rightarrow> (('w, 'r) gasDb_scheme, 'a) prog \<Rightarrow> (('w, 'r) gasDb_scheme, 'a) prog" where
  "atStage i stage m = tryCatch m (\<lambda>e. andThen (attemptFinish i AttemptFailed (Some stage) (Some (fmsg e))) (\<lambda>_. raise e))"

definition subjectOf :: "registerParams \<Rightarrow> subjectData" where
  "subjectOf P = (let name = rpName P in
     \<lparr>sjFirst = Some (takeWhile (\<lambda>c. c \<noteq> CHR '' '') name), sjFamily = Some (drop 1 (dropWhile (\<lambda>c. c \<noteq> CHR '' '') name)),
       sjMobile = Some (rpMobile P), sjCountry = Some (rpCountry P), sjTag = Some (rpTag P), sjKyc = 0, sjDocument = None\<rparr>)"

text \<open>Steps 3 to 6, each in its own \<open>try\<close>: idOS (the credential's id, or empty), the name service, the paymaster.\<close>

definition idosStep :: "'g regEnv \<Rightarrow> registerIds \<Rightarrow> registerParams \<Rightarrow> address \<Rightarrow> ('r io_scheme, string) prog" where
  "idosStep R I P wallet = tryCatch
    (andThen (createIdosProfile R wallet (riAttempt I) (rpKey P) (rpProof P) (rpProofSig P)) (\<lambda>_.
     andThen (issueIdosCredential R (riAttempt I) wallet (subjectOf P) (orElse (rpGrantSig P) []) (rpGrant P) (orElse (rpKey P) [])
       (riPayload I) (riNotes I)) (\<lambda>(credential, grant). ret credential)))
    (\<lambda>_. ret [])"

definition ensStep :: "'g regEnv \<Rightarrow> registerParams \<Rightarrow> address \<Rightarrow> (('w, 'g, 'r) regDb_scheme, unit) prog" where
  "ensStep R P wallet = (if rpTag P \<noteq> [] \<and> reController R \<noteq> []
     then tryCatch (andThen (registerSubdomain R (rpTag P) wallet) (\<lambda>_. ret ())) (\<lambda>_. ret ()) else ret ())"

definition pimlicoStep :: "'g regEnv \<Rightarrow> address \<Rightarrow> (('w, 'g, 'r) regDb_scheme, unit) prog" where
  "pimlicoStep R wallet = tryCatch (whitelistSponsored R wallet) (\<lambda>_. ret ())"

text \<open>Steps 2 to 6, and step 7.\<close>

definition deployAndEnrol :: "env \<Rightarrow> 'g regEnv \<Rightarrow> registerIds \<Rightarrow> registerParams \<Rightarrow> address \<Rightarrow> (('w, 'g, 'r) regDb_scheme, address \<times> int \<times> string) prog" where
  "deployAndEnrol E R I P sg =
    andThen (deployConsumerWallet E R (rpTag P) (rpName P) (rpCountry P) sg) (\<lambda>(wallet, gid, tx).
    andThen (attemptStep (riAttempt I) DeployStage None (Some wallet) (Some tx)) (\<lambda>_.
    andThen (idosStep R I P wallet) (\<lambda>credential.
    andThen (attemptStep (riAttempt I) IdosStage None None None) (\<lambda>_.
    andThen (ensStep R P wallet) (\<lambda>_.
    andThen (attemptStep (riAttempt I) EnsStage None None None) (\<lambda>_.
    andThen (pimlicoStep R wallet) (\<lambda>_.
    andThen (attemptStep (riAttempt I) PimlicoStage None None None) (\<lambda>_.
    ret (wallet, gid, credential)))))))))"

definition storeConsumer :: "registerIds \<Rightarrow> registerParams \<Rightarrow> address \<Rightarrow> int \<Rightarrow> string \<Rightarrow> (('w, 'g, 'r) regDb_scheme, string) prog" where
  "storeConsumer I P wallet gid credential =
    andThen (writeConsumerRecord (riConsumer I) wallet gid (rpCountry P) credential (rpTag P) (rpName P) (rpMobile P)) (\<lambda>consumer.
    andThen (attemptStep (riAttempt I) DbStage None None None) (\<lambda>_.
    andThen (attemptFinish (riAttempt I) AttemptCompleted None None) (\<lambda>_. ret consumer)))"

definition registerNewConsumer :: "env \<Rightarrow> 'g regEnv \<Rightarrow> registerIds \<Rightarrow> registerParams \<Rightarrow> (('w, 'g, 'r) regDb_scheme, registration) prog" where
  "registerNewConsumer E R I P =
    (let a = riAttempt I in
     andThen (attemptInsert a (rpCountry P) (rpTag P) (rpName P) (rpMobile P)) (\<lambda>_.
     andThen (atStage a SignerStage
       (andThen (resolvePasskeySigner E R (rpX P) (rpY P) (rpVerifiers P)) (\<lambda>sg.
        andThen (attemptStep a SignerStage (Some sg) None None) (\<lambda>_. ret sg)))) (\<lambda>sg.
     andThen (atStage a DeployStage (deployAndEnrol E R I P sg)) (\<lambda>(wallet, gid, credential).
     andThen (atStage a DbStage (storeConsumer I P wallet gid credential)) (\<lambda>consumer.
     ret \<lparr>rgWallet = wallet, rgGlobalId = gid, rgConsumer = consumer,
       rgFullTag = (if rpTag P \<noteq> [] then Some (rpTag P @ ''.'' @ reParent R) else None), rgSigner = sg\<rparr>)))))"

section \<open>registration.routes.ts\<close>

record registerBody =
  gbCredential :: "string option"
  gbPublicKey :: "string option"
  gbClientData :: "string option"
  gbName :: "string option"
  gbMobile :: "string option"
  gbCountry :: "string option"
  gbTag :: "string option"
  gbKey :: "string option"
  gbProof :: "string option"
  gbProofSig :: "string option"
  gbGrant :: "string option"
  gbGrantSig :: "string option"

definition saveCredential :: "string \<Rightarrow> address \<Rightarrow> nat \<Rightarrow> nat \<Rightarrow> address \<Rightarrow> (('w, 'r) gasDb_scheme, unit) prog" where
  "saveCredential i wallet x y sg = writeIO (\<lambda>s. s\<lparr>
     credentials := (if \<exists>c\<in>set (credentials s). crId c = i
       then updWhere (\<lambda>c. crId c = i) (\<lambda>c. c\<lparr>crWallet := wallet, crX := x, crY := y\<rparr>) (credentials s)
       else credentials s @ [\<lparr>crId = i, crWallet = wallet, crX = x, crY = y, crCount = 0\<rparr>]),
     signerAddress := (signerAddress s)(i := Some sg)\<rparr>)"

definition missingFields :: "registerBody \<Rightarrow> string list" where
  "missingFields b = map fst (filter (\<lambda>(k, v). nonEmpty v = None) [(''credentialId'', gbCredential b), (''publicKeyDer'', gbPublicKey b),
     (''clientDataJSON'', gbClientData b), (''displayName'', gbName b), (''mobileNumber'', gbMobile b), (''countryCode'', gbCountry b),
     (''ensSubdomain'', gbTag b)])"

definition registerParamsOf :: "'g regEnv \<Rightarrow> registerBody \<Rightarrow> nat \<Rightarrow> nat \<Rightarrow> registerParams" where
  "registerParamsOf R b x y = \<lparr>rpX = int x, rpY = int y, rpVerifiers = reVerifiers R, rpName = orElse (gbName b) [], rpMobile = orElse (gbMobile b) [],
     rpCountry = orElse (gbCountry b) [], rpTag = orElse (gbTag b) [], rpKey = gbKey b, rpProof = gbProof b, rpProofSig = gbProofSig b,
     rpGrant = gbGrant b, rpGrantSig = gbGrantSig b\<rparr>"

definition registrationClaims :: "'g regEnv \<Rightarrow> registration \<Rightarrow> string \<Rightarrow> claims" where
  "registrationClaims R g country = \<lparr>clSub = WalletSub (reChecksum R (rgWallet g)), clConsumer = Some (rgConsumer g), clCountry = Some country,
     clKyc = Some 0, clRole = Some ''consumer'', clTokenRole = None, clMember = None, clMerchant = None\<rparr>"

definition registerError :: "failure \<Rightarrow> ('s, 'a reply) prog" where
  "registerError e =
    (if hasText (fmsg e) ''EnsAlreadyRegistered'' then ret (ReplyErr 409 ''ENS subdomain already taken'' (Some ''ENS_TAKEN''))
     else if hasText (fmsg e) ''PilotCapReached'' then ret (ReplyErr 503 ''Pilot capacity reached'' (Some ''PILOT_CAP''))
     else ret (ReplyErr 500 ''Registration failed'' None))"

definition registerRoute ::
  "env \<Rightarrow> waEnv \<Rightarrow> 'g regEnv \<Rightarrow> registerIds \<Rightarrow> registerBody \<Rightarrow> (('w, 'g, 'r) regDb_scheme, (registration \<times> claims) reply) prog" where
  "registerRoute E W R I b = tryCatch
    (if missingFields b \<noteq> [] then ret (ReplyErr 400 ''Missing required fields'' None)
     else
       andThen (verifyRegistrationClientData W (orElse (gbClientData b) [])) (\<lambda>_.
       andThen (ofSum (extractP256FromSpki (b64urlToBuf (orElse (gbPublicKey b) [])))) (\<lambda>(x, y).
       andThen (require (case gbGrant b of None \<Rightarrow> True | Some g \<Rightarrow> reJson R g) (plainErr ''Unexpected token in JSON'')) (\<lambda>_.
       andThen (registerNewConsumer E R I (registerParamsOf R b x y)) (\<lambda>g.
       andThen (saveCredential (orElse (gbCredential b) []) (rgWallet g) x y (rgSigner g)) (\<lambda>_.
       ret (Reply (g, registrationClaims R g (orElse (gbCountry b) [])))))))))
    registerError"

definition checkEnsRoute :: "'g regEnv \<Rightarrow> string option \<Rightarrow> (('w, 'g, 'r) regDb_scheme, (string \<times> string \<times> bool) reply) prog" where
  "checkEnsRoute R subdomain = (case nonEmpty subdomain of
      None \<Rightarrow> ret (ReplyErr 400 ''Invalid subdomain. Use 3-32 lowercase alphanumeric characters.'' None)
    | Some t \<Rightarrow> if \<not> tagText 3 32 t then ret (ReplyErr 400 ''Invalid subdomain. Use 3-32 lowercase alphanumeric characters.'' None)
        else tryCatch
          (andThen (isSubdomainAvailable R t) (\<lambda>available. ret (Reply (t, gnsFullName R t, available))))
          (\<lambda>_. ret (Reply (t, gnsFullName R t, True))))"

record recoverBody =
  vbWallet :: "string option"
  vbX :: "string option"
  vbY :: "string option"
  vbVerifiers :: "string option"
  vbGrant :: "string option"

text \<open>
  \<open>receipt.logs.find\<close> keeps the first log whose parsing does not throw, and \<open>parseLog\<close> gives \<open>null\<close> for a
  log outside the ABI instead of throwing; the wallet is then read from its \<open>args\<close>.
\<close>

definition recoveredWallet :: "regLog list \<Rightarrow> ('s, address) prog" where
  "recoveredWallet logs = (case logs of
      [] \<Rightarrow> raise (plainErr ''Cannot read properties of undefined'')
    | WalletRecovered old new i # _ \<Rightarrow> ret new
    | _ # _ \<Rightarrow> raise (plainErr ''Cannot read properties of null''))"

definition bigIntArg :: "string \<Rightarrow> ('s, int) prog" where
  "bigIntArg t = ofOption (bigIntOf t) (plainErr (''Cannot convert '' @ t @ '' to a BigInt''))"

definition moveConsumer :: "'g regEnv \<Rightarrow> string \<Rightarrow> address \<Rightarrow> (('w, 'g, 'r) regDb_scheme, unit) prog" where
  "moveConsumer R oldText new = writeIO (\<lambda>s. s\<lparr>consumers := updWhere
     (\<lambda>c. case consumerWallet c of None \<Rightarrow> False | Some w \<Rightarrow> reChecksum R w = oldText) (\<lambda>c. c\<lparr>consumerWallet := Some new\<rparr>) (consumers s)\<rparr>)"

definition recoverRoute :: "env \<Rightarrow> 'g regEnv \<Rightarrow> recoverBody \<Rightarrow> (('w, 'g, 'r) regDb_scheme, (string \<times> address \<times> string) reply) prog" where
  "recoverRoute E R b = tryCatch
    (case (nonEmpty (vbWallet b), nonEmpty (vbX b), nonEmpty (vbY b), nonEmpty (vbGrant b)) of
      (Some old, Some x, Some y, Some grant) \<Rightarrow>
        andThen (verifyCredential R grant) (\<lambda>cred.
        if \<not> vfOk cred then ret (ReplyErr 403 ''idOS credential verification failed'' None)
        else (case nonEmpty (vfTag cred) of
          None \<Rightarrow> ret (ReplyErr 400 ''No ENS subdomain found in credential. Cannot recover.'' None)
        | Some tag \<Rightarrow>
            andThen (bigIntArg x) (\<lambda>px. andThen (bigIntArg y) (\<lambda>py.
            andThen (ofOption (vbVerifiers b) (plainErr ''Cannot convert undefined to a BigInt'')) (\<lambda>v. andThen (bigIntArg v) (\<lambda>verifiers.
            andThen (resolvePasskeySigner E R px py verifiers) (\<lambda>newSigner.
            andThen (backendSignerAddress E) (\<lambda>admin.
            andThen (ofOption (consumerAddr E) (plainErr ''unsupported addressable value'')) (\<lambda>_.
            andThen (ofOption (getAddr E old) (plainErr ''unsupported addressable value'')) (\<lambda>oldWallet.
            andThen (sendRegistry (recoverTx R admin oldWallet (idHash E tag) newSigner)) (\<lambda>(tx, logs).
            andThen (recoveredWallet logs) (\<lambda>new.
            andThen (registerSubdomain R tag new) (\<lambda>_.
            andThen (updateCredentialWallet grant new) (\<lambda>_.
            andThen (moveConsumer R old new) (\<lambda>_.
            ret (Reply (old, new, tag @ ''.'' @ reParent R)))))))))))))))))
    | _ \<Rightarrow> ret (ReplyErr 400 ''Missing required recovery fields'' None))
    (\<lambda>e. ret (ReplyErr 500 ''Recovery failed'' None))"

end
