(* ===== verification/RegistrationProps.thy ===== *)
theory RegistrationProps
  imports Registration GasProps
begin

text \<open>What a successful registration leaves behind, and what a recovery does not.\<close>

section \<open>The steps that only keep records\<close>

text \<open>A predicate that the tables of attempts and of gas, the name service and the transaction counter do not appear in.\<close>

definition sideFree :: "(('w, 'g, 'r) regDb_scheme \<Rightarrow> bool) \<Rightarrow> bool" where
  "sideFree P \<longleftrightarrow> net_free P \<and> (\<forall>s x. P (s\<lparr>attempts := x\<rparr>) = P s) \<and> (\<forall>s x. P (s\<lparr>gasCosts := x\<rparr>) = P s)
     \<and> (\<forall>s x n. P (s\<lparr>gns := x, txCount := n\<rparr>) = P s)"

lemma sideFreeD:
  assumes "sideFree P"
  shows "net_free P" "P (s\<lparr>attempts := x\<rparr>) = P s" "P (s\<lparr>gasCosts := y\<rparr>) = P s" "P (s\<lparr>gns := z, txCount := n\<rparr>) = P s"
  using assms by (simp_all add: sideFree_def)

named_theorems side_intro

lemma side_attemptInsert [side_intro]: "sideFree P \<Longrightarrow> keeps P (attemptInsert i c tag name mobile)"
  unfolding attemptInsert_def by (intro keeps_intro keeps_writeIO) (simp_all add: sideFreeD)

lemma side_attemptStep [side_intro]: "sideFree P \<Longrightarrow> keeps P (attemptStep i st sg w tx)"
  unfolding attemptStep_def by (intro keeps_intro keeps_writeIO) (simp_all add: sideFreeD)

lemma side_attemptFinish [side_intro]: "sideFree P \<Longrightarrow> keeps P (attemptFinish i st f e)"
  unfolding attemptFinish_def by (intro keeps_intro keeps_writeIO) (simp_all add: sideFreeD)

lemma side_recordGas [side_intro]: "sideFree P \<Longrightarrow> keeps P (recordGasFromReceipt E h rc src c p)"
  unfolding recordGasFromReceipt_def backendSignerAddress_def Let_def
  by (intro keeps_intro keeps_writeIO) (simp_all add: sideFreeD)

lemma side_sendGns [side_intro]: "sideFree P \<Longrightarrow> keeps P (sendGns f)"
  unfolding sendGns_def by (rule keeps_io) (auto simp: sideFreeD split: option.splits)

lemma side_gnsOwnerOf [side_intro]: "sideFree P \<Longrightarrow> keeps P (gnsOwnerOf R i)"
  unfolding gnsOwnerOf_def by (intro keeps_intro) (simp_all add: sideFreeD)

lemma side_registerSubdomain [side_intro]: "sideFree P \<Longrightarrow> keeps P (registerSubdomain R t w)"
  unfolding registerSubdomain_def getGnsSigner_def Let_def
  by (intro keeps_intro side_intro) (simp_all add: sideFreeD)

lemma side_idosStep [side_intro]:
  fixes P :: "('w, 'g, 'r) regDb_scheme \<Rightarrow> bool"
  assumes "sideFree P"
  shows "keeps P (idosStep R I P' w)"
proof -
  have "keeps P (createIdosProfile R w i k p g)" for i k p g
    unfolding createIdosProfile_def using sideFreeD(1) [OF assms] by (auto intro!: keeps_intro split: idosMode.split option.split)
  moreover have "keeps P (issueIdosCredential R i w sj g gr k a b)" for i sj g gr k a b
    unfolding issueIdosCredential_def using sideFreeD(1) [OF assms] by (auto intro!: keeps_intro split: idosMode.split)
  ultimately show ?thesis unfolding idosStep_def by (intro keeps_intro)
qed

lemma side_ensStep [side_intro]: "sideFree P \<Longrightarrow> keeps P (ensStep R P' w)"
  unfolding ensStep_def by (intro keeps_intro side_intro)

lemma side_pimlicoStep [side_intro]:
  assumes "sideFree P"
  shows "keeps P (pimlicoStep R w)"
  unfolding pimlicoStep_def whitelistSponsored_def using sideFreeD(1) [OF assms]
  by (intro keeps_intro) (auto intro!: keeps_intro split: pimReply.split)

text \<open>The state that a sign-up is about.\<close>

definition chainSame :: "('w, 'g, 'r) regDb_scheme \<Rightarrow> ('w, 'g, 'r) regDb_scheme \<Rightarrow> bool" where
  "chainSame u t \<longleftrightarrow> registry t = registry u \<and> isRegistered t = isRegistered u \<and> countryCodeOf t = countryCodeOf u \<and> vault t = vault u"

definition rowsSame :: "('w, 'g, 'r) regDb_scheme \<Rightarrow> ('w, 'g, 'r) regDb_scheme \<Rightarrow> bool" where
  "rowsSame u t \<longleftrightarrow> consumers t = consumers u \<and> credentials t = credentials u \<and> signerAddress t = signerAddress u"

lemma same_side: "sideFree (chainSame u)" "sideFree (rowsSame u)" "sideFree (\<lambda>t. chainSame u t \<and> rowsSame u t)"
  by (simp_all add: sideFree_def net_free_def chainSame_def rowsSame_def)

lemma same_refl [simp]: "chainSame u u" "rowsSame u u"
  by (simp_all add: chainSame_def rowsSame_def)

lemma side_run: "keeps P m \<Longrightarrow> m s = (r, t) \<Longrightarrow> P s \<Longrightarrow> P t"
  by (drule keepsD [of P m s]) simp_all

lemma atStage_Inr_iff: "atStage i st m s = (Inr x, t) \<longleftrightarrow> m s = (Inr x, t)"
  unfolding atStage_def tryCatch_def by (auto simp: andThen_def split: prod.splits sum.splits)

section \<open>Recovery\<close>

lemma side_resolve: "keeps (\<lambda>t. rowsSame u t \<and> gns t = gns u \<and> vault t = vault u) (resolvePasskeySigner E R x y v)"
  unfolding resolvePasskeySigner_def backendSignerAddress_def recordGasFromReceipt_def Let_def
  by (intro keeps_intro keeps_sendTx keeps_writeIO) (auto simp: net_free_def rowsSame_def)

lemma side_sendRegistry: "keeps (\<lambda>t. rowsSame u t \<and> gns t = gns u \<and> vault t = vault u) (sendRegistry f)"
  unfolding sendRegistry_def
  by (rule keeps_io) (auto simp: net_free_def rowsSame_def withRegistry_def split: sum.splits)

lemma keeps_verify: "net_free P \<Longrightarrow> keeps P (verifyCredential R g)"
  unfolding verifyCredential_def by (auto intro!: keeps_intro split: idosMode.split)

lemma recoverTx_logs:
  assumes "recoverTx R a w ens k now r = Inr (logs, r')" and "0 < reProxyLogs R"
  shows "\<exists>ls. logs = ForeignLog # ls"
  using assms by (cases "reProxyLogs R") (auto simp: recoverTx_def sbind_def split: sum.splits prod.splits)

text \<open>After the call of the registry the route only throws.\<close>

lemma recover_throws:
  fixes f :: "address \<Rightarrow> (('w, 'g, 'r) regDb_scheme, 'x) prog"
  assumes "0 < reProxyLogs R"
  shows "andThen (sendRegistry (recoverTx R a w ens k)) (\<lambda>(tx, logs). andThen (recoveredWallet logs) f)
    = andThen (sendRegistry (recoverTx R a w ens k)) (\<lambda>_. raise (plainErr ''Cannot read properties of null''))"
proof
  fix s :: "('w, 'g, 'r) regDb_scheme"
  have "\<exists>ls. logs = ForeignLog # ls" if "sendRegistry (recoverTx R a w ens k) s = (Inr (tx, logs), t)" for tx logs t
    using that assms unfolding sendRegistry_def
    by (auto dest!: io_InrD split: sum.splits prod.splits dest: recoverTx_logs)
  then show "andThen (sendRegistry (recoverTx R a w ens k)) (\<lambda>(tx, logs). andThen (recoveredWallet logs) f) s
    = andThen (sendRegistry (recoverTx R a w ens k)) (\<lambda>_. raise (plainErr ''Cannot read properties of null'')) s"
    unfolding andThen_def [of "sendRegistry (recoverTx R a w ens k)"]
    by (fastforce simp: recoveredWallet_def split: prod.splits sum.splits)
qed

text \<open>
  C39. The deployment of a Safe writes logs of its own before the registry's, and the recovery reads the first
  log of the receipt: so no recovery ever answers with success, whatever the network does. The account may
  have moved on chain to a new wallet, but the consumer's row still names the old one, the new passkey is not
  stored and the name service still points to the old wallet.
\<close>

theorem recovery_never_completes:
  assumes "0 < reProxyLogs R" and "recoverRoute E R b s = (r, t)"
  shows "(\<forall>x. r \<noteq> Inr (Reply x)) \<and> consumers t = consumers s \<and> credentials t = credentials s
    \<and> signerAddress t = signerAddress s \<and> gns t = gns s \<and> vault t = vault s"
proof -
  have "keeps (\<lambda>t. rowsSame s t \<and> gns t = gns s \<and> vault t = vault s) (recoverRoute E R b)"
    unfolding recoverRoute_def recover_throws [OF assms(1)] bigIntArg_def backendSignerAddress_def
    by (intro keeps_intro keeps_verify side_resolve side_sendRegistry) (simp add: net_free_def rowsSame_def)
  from keepsD [OF this, of s] have "rowsSame s t \<and> gns t = gns s \<and> vault t = vault s" by (simp add: assms(2))
  moreover have "recoverRoute E R b s \<noteq> (Inr (Reply x), t)" for x
    unfolding recoverRoute_def recover_throws [OF assms(1)]
    by (auto simp: tryCatch_def andThen_Inr_iff split: prod.splits sum.splits option.splits if_splits)
  ultimately show ?thesis using assms(2) by (auto simp: rowsSame_def)
qed

section \<open>Registration\<close>

text \<open>The account of a wallet on chain, and the consumer's row.\<close>

definition accountOnChain :: "env \<Rightarrow> string \<Rightarrow> string \<Rightarrow> address \<Rightarrow> int \<Rightarrow> ('w, 'g, 'r) regDb_scheme \<Rightarrow> bool" where
  "accountOnChain E tag country w gid t \<longleftrightarrow>
     (let d = rgConsumers (registry t) w; h = (if tag \<noteq> [] then idHash E tag else 0) in
      cdActive d \<and> cdSpend d = w \<and> cdEns d = h \<and> cdCountry d = idHash E country \<and> cdKyc d = 0 \<and> int (cdGlobalId d) = gid
      \<and> rgById (registry t) (nat gid) = w \<and> (h = 0 \<or> rgEns (registry t) h = w)) \<and> isRegistered t w"

definition consumerStored :: "string \<Rightarrow> address \<Rightarrow> int \<Rightarrow> string \<Rightarrow> ('w, 'g, 'r) regDb_scheme \<Rightarrow> bool" where
  "consumerStored i w gid tag t \<longleftrightarrow> (\<exists>c\<in>set (consumers t). consumerId c = i \<and> consumerWallet c = Some w
     \<and> consumerGlobalId c = Some gid \<and> consumerTag c = nonEmpty (Some tag))"

lemma stored_side: "sideFree (accountOnChain E tag country w gid)" "sideFree (consumerStored i w gid tag)"
  by (simp_all add: sideFree_def net_free_def accountOnChain_def consumerStored_def)

lemma findRegistered_foreign [simp]: "findRegistered (replicate n ForeignLog @ ls) = findRegistered ls"
  by (induction n) auto

lemma sendRegistry_InrD:
  assumes "sendRegistry f s = (Inr (tx, logs), t)"
  shows "\<exists>now r0 r v. f now r0 = Inr (logs, r) \<and> t = (withRegistry r v)\<lparr>txCount := txCount v + 1\<rparr>"
proof -
  obtain rest where "f (blockTime (s\<lparr>net := rest\<rparr>)) (registry s) = Inr (logs, registry t)"
      "t = (withRegistry (registry t) (s\<lparr>net := rest\<rparr>))\<lparr>txCount := txCount (s\<lparr>net := rest\<rparr>) + 1\<rparr>"
    using assms unfolding sendRegistry_def by (auto dest!: io_InrD simp: withRegistry_def split: sum.splits)
  then show ?thesis by blast
qed

lemma deployConsumerWallet_InrD:
  assumes "deployConsumerWallet E R tag name country sg s = (Inr (w, gid, tx), t)"
  shows "accountOnChain E tag country w gid t"
proof -
  let ?f = "\<lambda>a. registerTx R a (if tag \<noteq> [] then idHash E tag else 0) (idHash E name) (idHash E country) sg"
  obtain a u v logs where r: "sendRegistry (?f a) u = (Inr (tx, logs), v)"
    and g: "recordGasFromReceipt E tx (reReceipt R tx) ''register_deploy'' None None v = (Inr (), t)"
    and l: "\<exists>i. findRegistered logs = Some (w, i) \<and> gid = int i"
    using assms unfolding deployConsumerWallet_def backendSignerAddress_def
    by (fastforce simp: andThen_Inr_iff ofOption_def split: prod.splits option.splits)
  obtain now r0 r1 v' where f: "?f a now r0 = Inr (logs, r1)" and v: "v = (withRegistry r1 v')\<lparr>txCount := txCount v' + 1\<rparr>"
    using sendRegistry_InrD [OF r] by blast
  obtain w' where c: "registerConsumer (reRegistry R) a (if tag \<noteq> [] then idHash E tag else 0) (idHash E name) (idHash E country) 0 sg r0 = Inr (w', r1)"
    and logs: "logs = replicate (reProxyLogs R) ForeignLog @ [ConsumerRegistered w' (rgNextId r0) (idHash E country) 0]"
    using f unfolding registerTx_def by (auto simp: sbind_Inr_iff)
  have w: "w' = w" "gid = int (rgNextId r0)" using l unfolding logs by auto
  have "accountOnChain E tag country w gid v"
    using registerConsumer_InrD(9) [OF c] unfolding v w by (simp add: accountOnChain_def withRegistry_def)
  then show ?thesis
    using keepsD [OF side_recordGas [OF stored_side(1)], of E tag country w gid v E tx "reReceipt R tx" "''register_deploy''" None None] g by simp
qed

lemma insertConsumer_InrD:
  assumes "insertConsumer n w gid country cred tag name mobile s = Inr (i, t)"
  shows "consumerStored i w gid tag t" and "accountOnChain E tg co w g t = accountOnChain E tg co w g s"
proof -
  let ?row = "find (\<lambda>c. consumerWallet c = Some w) (consumers s)"
  show "consumerStored i w gid tag t"
  proof (cases ?row)
    case None
    then show ?thesis using assms unfolding insertConsumer_def Let_def by (auto simp: consumerStored_def split: if_splits)
  next
    case (Some c)
    then have c: "c \<in> set (consumers s)" "consumerWallet c = Some w" by (auto simp: find_Some_iff)
    let ?f = "\<lambda>c. c\<lparr>consumerTag := nonEmpty (Some tag), consumerGlobalId := Some gid\<rparr>"
    have t: "consumers t = updWhere (\<lambda>c. consumerWallet c = Some w) ?f (consumers s)" "i = consumerId c"
      using assms Some unfolding insertConsumer_def Let_def by (auto split: if_splits)
    have "?f c \<in> set (consumers t)" using c unfolding t updWhere_def by force
    then show ?thesis using c(2) t(2) unfolding consumerStored_def by (rule_tac bexI) auto
  qed
  show "accountOnChain E tg co w g t = accountOnChain E tg co w g s"
    using assms unfolding insertConsumer_def Let_def by (auto simp: accountOnChain_def split: if_splits option.splits)
qed

lemma keeps_run: "keeps P m \<Longrightarrow> P s \<Longrightarrow> m s = (r, t) \<Longrightarrow> P t"
  using keepsD [of P m s] by simp

text \<open>The wallet, once deployed, is still as it was after the three optional steps, and so is the row.\<close>

lemma deployAndEnrol_InrD:
  assumes "deployAndEnrol E R I P sg s = (Inr (w, gid, credential), t)"
  shows "accountOnChain E (rpTag P) (rpCountry P) w gid t"
proof -
  let ?rest = "\<lambda>w gid tx. andThen (attemptStep (riAttempt I) DeployStage None (Some w) (Some tx)) (\<lambda>_.
    andThen (idosStep R I P w) (\<lambda>credential.
    andThen (attemptStep (riAttempt I) IdosStage None None None) (\<lambda>_.
    andThen (ensStep R P w) (\<lambda>_.
    andThen (attemptStep (riAttempt I) EnsStage None None None) (\<lambda>_.
    andThen (pimlicoStep R w) (\<lambda>_.
    andThen (attemptStep (riAttempt I) PimlicoStage None None None) (\<lambda>_.
    ret (w, gid, credential))))))))"
  obtain w' g' tx u where d: "deployConsumerWallet E R (rpTag P) (rpName P) (rpCountry P) sg s = (Inr (w', g', tx), u)"
    and rest: "?rest w' g' tx u = (Inr (w, gid, credential), t)"
    using assms unfolding deployAndEnrol_def by (rule andThen_InrE) (auto split: prod.splits)
  have "w' = w" "g' = gid" using rest by (auto simp: andThen_Inr_iff)
  then have u: "accountOnChain E (rpTag P) (rpCountry P) w gid u" using deployConsumerWallet_InrD [OF d] by simp
  have "keeps (accountOnChain E (rpTag P) (rpCountry P) w gid) (?rest w' g' tx)"
    by (intro keeps_intro side_intro stored_side)
  then show ?thesis using u rest by (rule keeps_run)
qed

lemma storeConsumer_InrD:
  assumes "storeConsumer I P w gid cr s = (Inr c, t)" and "accountOnChain E tag country w g s"
  shows "consumerStored c w gid (rpTag P) t" and "accountOnChain E tag country w g t"
proof -
  let ?rest = "\<lambda>c. andThen (attemptStep (riAttempt I) DbStage None None None) (\<lambda>_.
        andThen (attemptFinish (riAttempt I) AttemptCompleted None None) (\<lambda>_. ret c))"
  obtain i x where i: "writeConsumerRecord (riConsumer I) w gid (rpCountry P) cr (rpTag P) (rpName P) (rpMobile P) s = (Inr i, x)"
    and rest: "?rest i x = (Inr c, t)"
    using assms(1) unfolding storeConsumer_def by (rule andThen_InrE)
  have "i = c" using rest by (auto simp: andThen_Inr_iff)
  obtain n where ins: "insertConsumer (riConsumer I) w gid (rpCountry P) cr (rpTag P) (rpName P) (rpMobile P) (s\<lparr>net := n\<rparr>) = Inr (c, x)"
    using i unfolding writeConsumerRecord_def \<open>i = c\<close> by (auto dest: io_InrD)
  have x: "consumerStored c w gid (rpTag P) x" "accountOnChain E tag country w g x"
    using insertConsumer_InrD [OF ins] assms(2) by (simp_all add: accountOnChain_def)
  have "keeps (consumerStored c w gid (rpTag P)) (?rest i)" "keeps (accountOnChain E tag country w g) (?rest i)"
    by (intro keeps_intro side_intro stored_side)+
  then show "consumerStored c w gid (rpTag P) t" "accountOnChain E tag country w g t"
    using x rest by (blast intro: keeps_run)+
qed

lemma registerNewConsumer_InrD:
  assumes "registerNewConsumer E R I P s = (Inr g, t)"
  shows "accountOnChain E (rpTag P) (rpCountry P) (rgWallet g) (rgGlobalId g) t"
    and "consumerStored (rgConsumer g) (rgWallet g) (rgGlobalId g) (rpTag P) t"
proof -
  obtain sg w gid cr u v c where d: "deployAndEnrol E R I P sg u = (Inr (w, gid, cr), v)"
    and b: "storeConsumer I P w gid cr v = (Inr c, t)"
    and g: "rgWallet g = w" "rgGlobalId g = gid" "rgConsumer g = c"
    using assms unfolding registerNewConsumer_def Let_def by (auto simp: andThen_Inr_iff atStage_Inr_iff split: prod.splits)
  show "accountOnChain E (rpTag P) (rpCountry P) (rgWallet g) (rgGlobalId g) t"
    "consumerStored (rgConsumer g) (rgWallet g) (rgGlobalId g) (rpTag P) t"
    unfolding g using storeConsumer_InrD [OF b deployAndEnrol_InrD [OF d]] by simp_all
qed

text \<open>A country that is not in the table: the consumer's row is refused, after everything else.\<close>

definition rowsKept :: "('w, 'g, 'r) regDb_scheme \<Rightarrow> ('w, 'g, 'r) regDb_scheme \<Rightarrow> bool" where
  "rowsKept u t \<longleftrightarrow> countries t = countries u \<and> rowsSame u t"

lemma rowsKept_side: "sideFree (rowsKept u)"
  by (simp add: sideFree_def net_free_def rowsKept_def rowsSame_def)

lemma rowsKept_resolve: "keeps (rowsKept u) (resolvePasskeySigner E R x y v)"
  unfolding resolvePasskeySigner_def backendSignerAddress_def
  by (intro keeps_intro keeps_sendTx side_recordGas rowsKept_side) (auto simp: net_free_def rowsKept_def rowsSame_def)

lemma rowsKept_sendRegistry: "keeps (rowsKept u) (sendRegistry f)"
  unfolding sendRegistry_def
  by (rule keeps_io) (auto simp: net_free_def rowsKept_def rowsSame_def withRegistry_def split: sum.splits)

lemma rowsKept_deploy: "keeps (rowsKept u) (deployAndEnrol E R I P sg)"
  unfolding deployAndEnrol_def deployConsumerWallet_def backendSignerAddress_def
  by (intro keeps_intro side_intro rowsKept_side rowsKept_sendRegistry)

lemma keeps_atStage: "sideFree P \<Longrightarrow> keeps P m \<Longrightarrow> keeps P (atStage i st m)"
  unfolding atStage_def by (intro keeps_intro side_intro)

text \<open>A program that only throws, keeping \<open>P\<close>.\<close>

definition refuses :: "('s \<Rightarrow> bool) \<Rightarrow> ('s, 'a) prog \<Rightarrow> bool" where
  "refuses P m \<longleftrightarrow> triple P m (\<lambda>_ _. False) P"

lemma refuses_iff: "refuses P m \<longleftrightarrow> (\<forall>s. P s \<longrightarrow> (\<exists>e t. m s = (Inl e, t) \<and> P t))"
proof -
  have "(case m s of (Inr x, t) \<Rightarrow> False | (Inl e, t) \<Rightarrow> P t) = (\<exists>e t. m s = (Inl e, t) \<and> P t)" for s
    by (cases "m s"; cases "fst (m s)") auto
  then show ?thesis by (simp add: refuses_def triple_def)
qed

lemma refuses_first: "refuses P m \<Longrightarrow> refuses P (andThen m k)"
  unfolding refuses_iff by (metis andThen_Inl)

lemma refuses_later: "keeps P m \<Longrightarrow> (\<And>x. refuses P (k x)) \<Longrightarrow> refuses P (andThen m k)"
  unfolding refuses_def by (rule triple_skip)

lemma refuses_io:
  assumes "net_free P" and "\<And>s. P s \<Longrightarrow> \<exists>e. f s = Inl e"
  shows "refuses P (io f)"
  unfolding refuses_iff
proof (intro allI impI)
  fix s
  assume s: "P s"
  obtain o1 rest where n: "nextNet (net s) = (o1, rest)" by fastforce
  have P: "P (s\<lparr>net := rest\<rparr>)" using s net_freeD [OF assms(1)] by simp
  then obtain e where "f (s\<lparr>net := rest\<rparr>) = Inl e" using assms(2) by blast
  then show "\<exists>e t. io f s = (Inl e, t) \<and> P t" using P by (simp add: io_def n Let_def split: net.split)
qed

lemma refuses_atStage:
  assumes "sideFree P" and "refuses P m"
  shows "refuses P (atStage i st m)"
  unfolding refuses_iff
proof (intro allI impI)
  fix s
  assume s: "P s"
  then obtain e t where t: "m s = (Inl e, t)" "P t" using assms(2) by (auto simp: refuses_iff)
  have "refuses P (andThen (attemptFinish i AttemptFailed (Some st) (Some (fmsg e))) (\<lambda>_. raise e :: ('a, 'b, 'c) regDb_scheme \<Rightarrow> (failure + 'd) \<times> ('a, 'b, 'c) regDb_scheme))"
    by (rule refuses_later [OF side_attemptFinish [OF assms(1)]]) (simp add: refuses_iff)
  then show "\<exists>e t. atStage i st m s = (Inl e, t) \<and> P t"
    using t unfolding atStage_def refuses_iff by simp
qed

lemma store_unknown:
  assumes "\<forall>c\<in>set (countries u). countryCode c \<noteq> rpCountry P"
  shows "refuses (rowsKept u) (storeConsumer I P w gid cr)"
proof -
  have "\<exists>e. insertConsumer n w gid (rpCountry P) cr tag name mobile s = Inl e" if "rowsKept u s" for n tag name mobile s
    using that assms by (auto simp: insertConsumer_def rowsKept_def)
  then show ?thesis unfolding storeConsumer_def writeConsumerRecord_def
    by (intro refuses_first refuses_io sideFreeD(1) [OF rowsKept_side])
qed

lemma register_unknown:
  assumes "\<forall>c\<in>set (countries u). countryCode c \<noteq> rpCountry P"
  shows "refuses (rowsKept u) (registerNewConsumer E R I P)"
proof -
  have "refuses (rowsKept u) (case r of (wallet, gid, credential) \<Rightarrow>
       andThen (atStage a DbStage (storeConsumer I P wallet gid credential)) (\<lambda>consumer. ret (k wallet gid consumer)))"
    for r a and k :: "address \<Rightarrow> int \<Rightarrow> string \<Rightarrow> registration"
    by (cases r) (auto intro: refuses_first refuses_atStage [OF rowsKept_side store_unknown [OF assms]])
  then show ?thesis unfolding registerNewConsumer_def Let_def
    by (intro refuses_later keeps_atStage keeps_intro side_intro rowsKept_side rowsKept_resolve rowsKept_deploy)
qed

text \<open>
  A registration with a country that is not in the table never answers with success, and stores neither
  a consumer nor a passkey, on any network. It has deployed the wallet and taken the tag before it fails, so
  that trying again with the tag is refused (the example below).
\<close>

theorem unknown_country_refused_late:
  assumes "\<forall>c\<in>set (countries s). countryCode c \<noteq> orElse (gbCountry b) []" and "registerRoute E W R I b s = (r, t)"
  shows "(\<forall>x. r \<noteq> Inr (Reply x)) \<and> consumers t = consumers s \<and> credentials t = credentials s"
proof -
  let ?P = "registerParamsOf R b"
  have checked: "keeps (rowsKept s) (verifyRegistrationClientData W c)" for c
    unfolding verifyRegistrationClientData_def verifyClientData_def consumeChallenge_def
    by (intro keeps_intro keeps_modify) (auto simp: rowsKept_def rowsSame_def)
  have point: "keeps (rowsKept s) (ofSum d)" for d :: "failure + nat \<times> nat"
    by (rule keepsI) (simp add: ofSum_def split: sum.split)
  have "refuses (rowsKept s) (case xy of (x, y) \<Rightarrow> andThen (require q e) (\<lambda>_. andThen (registerNewConsumer E R I (?P x y)) (k x y)))"
    for xy q e and k :: "nat \<Rightarrow> nat \<Rightarrow> registration \<Rightarrow> (('a, 'b, 'c) regDb_scheme, (registration \<times> claims) reply) prog"
    using assms(1) unfolding case_prod_beta
    by (intro refuses_later [OF keeps_require] refuses_first register_unknown) (simp add: registerParamsOf_def)
  then have "refuses (rowsKept s) (andThen (verifyRegistrationClientData W (orElse (gbClientData b) [])) (\<lambda>_.
       andThen (ofSum (extractP256FromSpki (b64urlToBuf (orElse (gbPublicKey b) [])))) (\<lambda>(x, y).
       andThen (require (case gbGrant b of None \<Rightarrow> True | Some g \<Rightarrow> reJson R g) (plainErr ''Unexpected token in JSON'')) (\<lambda>_.
       andThen (registerNewConsumer E R I (?P x y)) (\<lambda>g.
       andThen (saveCredential (orElse (gbCredential b) []) (rgWallet g) x y (rgSigner g)) (\<lambda>_.
       ret (Reply (g, registrationClaims R g (orElse (gbCountry b) [])))))))))"
    by (intro refuses_later checked point)
  moreover have "rowsKept s s" by (simp add: rowsKept_def)
  ultimately obtain e v where run: "andThen (verifyRegistrationClientData W (orElse (gbClientData b) [])) (\<lambda>_.
       andThen (ofSum (extractP256FromSpki (b64urlToBuf (orElse (gbPublicKey b) [])))) (\<lambda>(x, y).
       andThen (require (case gbGrant b of None \<Rightarrow> True | Some g \<Rightarrow> reJson R g) (plainErr ''Unexpected token in JSON'')) (\<lambda>_.
       andThen (registerNewConsumer E R I (?P x y)) (\<lambda>g.
       andThen (saveCredential (orElse (gbCredential b) []) (rgWallet g) x y (rgSigner g)) (\<lambda>_.
       ret (Reply (g, registrationClaims R g (orElse (gbCountry b) [])))))))) s = (Inl e, v)" and v: "rowsKept s v"
    unfolding refuses_iff by blast
  have "missingFields b = [] \<Longrightarrow> registerRoute E W R I b s = registerError e v"
    unfolding registerRoute_def using run by (simp only: if_False simp_thms tryCatch_Inl)
  moreover have "missingFields b \<noteq> [] \<Longrightarrow> registerRoute E W R I b s = (Inr (ReplyErr 400 ''Missing required fields'' None), s)"
    by (simp add: registerRoute_def)
  moreover obtain n m c where "(registerError e v :: (failure + (registration \<times> claims) reply) \<times> ('a, 'b, 'c) regDb_scheme) = (Inr (ReplyErr n m c), v)"
    by (cases "hasText (fmsg e) ''EnsAlreadyRegistered''"; cases "hasText (fmsg e) ''PilotCapReached''") (simp_all add: registerError_def)
  ultimately have "\<exists>n m c. r = Inr (ReplyErr n m c) \<and> (t = v \<or> t = s)"
    using assms(2) by (cases "missingFields b = []") auto
  then show ?thesis using v by (auto simp: rowsKept_def rowsSame_def)
qed

text \<open>
  C38. A registration that answers with success leaves an active account in the registry at the wallet it
  returns, found under its account number and its tag and with KYC level 0, a consumer's row with that wallet
  and number, and the passkey stored for the wallet with its signer; the token it issues is for that wallet.
\<close>

theorem registration_complete:
  assumes "registerRoute E W R I b s = (Inr (Reply (g, c)), t)"
  shows "accountOnChain E (orElse (gbTag b) []) (orElse (gbCountry b) []) (rgWallet g) (rgGlobalId g) t
    \<and> consumerStored (rgConsumer g) (rgWallet g) (rgGlobalId g) (orElse (gbTag b) []) t
    \<and> (\<exists>k\<in>set (credentials t). crId k = orElse (gbCredential b) [] \<and> crWallet k = rgWallet g)
    \<and> signerAddress t (orElse (gbCredential b) []) = Some (rgSigner g)
    \<and> clSub c = WalletSub (reChecksum R (rgWallet g)) \<and> clConsumer c = Some (rgConsumer g)"
proof -
  obtain u x y v v' where r: "registerNewConsumer E R I (registerParamsOf R b x y) u = (Inr g, v)"
    and k: "saveCredential (orElse (gbCredential b) []) (rgWallet g) x y (rgSigner g) v = (Inr (), t)"
    and c: "c = registrationClaims R g (orElse (gbCountry b) [])"
    using assms unfolding registerRoute_def registerError_def
    by (fastforce simp: tryCatch_def andThen_Inr_iff split: prod.splits sum.splits if_splits)
  obtain n where t: "t = (\<lambda>s. s\<lparr>credentials := (if \<exists>c\<in>set (credentials s). crId c = orElse (gbCredential b) []
       then updWhere (\<lambda>c. crId c = orElse (gbCredential b) []) (\<lambda>c. c\<lparr>crWallet := rgWallet g, crX := x, crY := y\<rparr>) (credentials s)
       else credentials s @ [\<lparr>crId = orElse (gbCredential b) [], crWallet = rgWallet g, crX = x, crY = y, crCount = 0\<rparr>]),
     signerAddress := (signerAddress s)(orElse (gbCredential b) [] := Some (rgSigner g))\<rparr>) (v\<lparr>net := n\<rparr>)"
    using k unfolding saveCredential_def by (auto dest: writeIO_InrD)
  have "\<exists>k\<in>set (credentials t). crId k = orElse (gbCredential b) [] \<and> crWallet k = rgWallet g"
    unfolding t updWhere_def by (auto simp: bex_Un)
  moreover have "accountOnChain E (orElse (gbTag b) []) (orElse (gbCountry b) []) (rgWallet g) (rgGlobalId g) t"
      "consumerStored (rgConsumer g) (rgWallet g) (rgGlobalId g) (orElse (gbTag b) []) t"
    using registerNewConsumer_InrD [OF r] unfolding t by (simp_all add: accountOnChain_def consumerStored_def registerParamsOf_def)
  moreover have "signerAddress t (orElse (gbCredential b) []) = Some (rgSigner g)" unfolding t by simp
  ultimately show ?thesis by (simp add: c registrationClaims_def)
qed

section \<open>Examples\<close>

definition demoRegDb :: "string \<Rightarrow> (unit, unit) regDb" where
  "demoRegDb cc = gasDb.extend demoGasDb (regDb.fields demoRegistry () (\<lambda>_. PimOk) [] (\<lambda>_. cc))"

definition demoRegEnv :: "idosMode \<Rightarrow> unit regEnv" where
  "demoRegEnv mode = \<lparr>reRegistry = demoRegistryEnv, reProxyLogs = 2, reSigner = (\<lambda>_ _ _. 77),
     reReceipt = (\<lambda>_. \<lparr>rcFrom = 2, rcUsed = 100, rcPrice = Some 3, rcBlock = 5\<rparr>), reVerifiers = 1,
     reGns = \<lparr>gnsId = (\<lambda>_. 0), gnsOwner = (\<lambda>_ _. None), gnsResolve = (\<lambda>_ _. None), gnsRegister = (\<lambda>_ _ _ _. None), gnsSetAddr = (\<lambda>_ _ _ _. None)\<rparr>,
     reParent = ''imali.gwei'', reController = [], reControllerKey = [], reControllerWallet = None, reIdosMode = mode,
     reSdk = \<lparr>sdkCreate = (\<lambda>_ _ _ _ _. None), sdkIssue = (\<lambda>_ _ _ _ _ _. None), sdkShared = (\<lambda>_. Some \<lparr>sjFirst = None, sjFamily = None,
       sjMobile = None, sjCountry = None, sjTag = Some ''ann'', sjKyc = 0, sjDocument = None\<rparr>)\<rparr>,
     rePimlicoLive = False, reJson = (\<lambda>_. True), reChecksum = addrText\<rparr>"

definition demoKeyDer :: string where
  "demoKeyDer = bufToB64url (4 # bytesOfNat 32 3 @ bytesOfNat 32 2)"

definition demoRegisterBody :: "string \<Rightarrow> registerBody" where
  "demoRegisterBody country = \<lparr>gbCredential = Some ''k9'', gbPublicKey = Some demoKeyDer, gbClientData = Some ''AA'', gbName = Some ''Ann B'',
     gbMobile = Some ''27'', gbCountry = Some country, gbTag = Some ''ann'', gbKey = None, gbProof = None, gbProofSig = None, gbGrant = None,
     gbGrantSig = None\<rparr>"

definition demoIds :: registerIds where
  "demoIds = \<lparr>riAttempt = ''a1'', riPayload = ''p1'', riNotes = ''n1'', riConsumer = ''c9''\<rparr>"

lemma demoReg_sel [simp]:
  "net (demoRegDb cc) = []" "clock (demoRegDb cc) = 1700000000000" "registry (demoRegDb cc) = demoRegistry" "attempts (demoRegDb cc) = []"
  "challenges (demoRegDb cc) = (\<lambda>k. if k = ''cg'' then Some 1700000000000 else None)"
  "countries (demoRegDb cc) = countries demoPlatform" "consumers (demoRegDb cc) = consumers demoPlatform"
  "profiles (demoRegDb cc) = []" "kycCountry (demoRegDb cc) = (\<lambda>_. cc)" "kycLevels (demoRegDb cc) = kycLevels demoPlatform"
  by (simp_all add: demoRegDb_def regDb.defs demoGasDb_def gasDb.defs demoTransferDb_def transferDb.defs sessionDb.defs demoSettleDb_def settleDb.defs
    demoWithdrawDb_def withdrawDb.defs demoAuthDb_def authDb.defs demoSalesDb_def salesDb.defs demoVoucherDb_def voucherDb.defs demo_state)

lemma demoRegEnv_sel [simp]:
  "reRegistry (demoRegEnv m) = demoRegistryEnv" "reProxyLogs (demoRegEnv m) = 2" "reSigner (demoRegEnv m) = (\<lambda>_ _ _. 77)"
  "reReceipt (demoRegEnv m) = (\<lambda>_. \<lparr>rcFrom = 2, rcUsed = 100, rcPrice = Some 3, rcBlock = 5\<rparr>)" "reController (demoRegEnv m) = []"
  "reIdosMode (demoRegEnv m) = m" "rePimlicoLive (demoRegEnv m) = False" "reJson (demoRegEnv m) = (\<lambda>_. True)" "reVerifiers (demoRegEnv m) = 1"
  "reChecksum (demoRegEnv m) = addrText" "reParent (demoRegEnv m) = ''imali.gwei''"
  by (simp_all add: demoRegEnv_def)

lemma demo_code_hashes: "idExample ''ann'' = 0x1616E6E" "idExample ''ZA'' = 0x15A41" "idExample ''XX'' = 0x15858"
  by (simp_all add: idExample_def)

text \<open>Runs on a network without faults.\<close>

definition calmRun :: "('r io_scheme \<Rightarrow> bool) \<Rightarrow> ('r io_scheme, 'a) prog \<Rightarrow> ('a \<Rightarrow> 'r io_scheme \<Rightarrow> bool) \<Rightarrow> bool" where
  "calmRun P m Q \<longleftrightarrow> (\<forall>s. net s = [] \<and> P s \<longrightarrow> (\<exists>x t. m s = (Inr x, t) \<and> net t = [] \<and> Q x t))"

lemma calm_andThen: "calmRun P m R \<Longrightarrow> (\<And>x. calmRun (R x) (k x) Q) \<Longrightarrow> calmRun P (andThen m k) Q"
  unfolding calmRun_def by (metis andThen_Inr)

lemma calm_ret: "(\<And>s. P s \<Longrightarrow> Q x s) \<Longrightarrow> calmRun P (ret x) Q"
  by (simp add: calmRun_def)

lemma calm_step: "(\<And>s. net s = [] \<Longrightarrow> P s \<Longrightarrow> \<exists>t. m s = (Inr x, t) \<and> net t = [] \<and> P t) \<Longrightarrow> calmRun P m (\<lambda>y t. y = x \<and> P t)"
  by (auto simp: calmRun_def)

lemma calm_attemptStep: "sideFree P \<Longrightarrow> calmRun P (attemptStep i st sg w tx) (\<lambda>_. P)"
  by (simp add: calmRun_def attemptStep_def sideFreeD)

lemma calm_attemptInsert: "sideFree P \<Longrightarrow> calmRun P (attemptInsert i c tag name mobile) (\<lambda>_. P)"
  by (simp add: calmRun_def attemptInsert_def sideFreeD)

lemma calm_attemptFinish: "sideFree P \<Longrightarrow> calmRun P (attemptFinish i st f e) (\<lambda>_. P)"
  by (simp add: calmRun_def attemptFinish_def sideFreeD)

lemma calm_recordGas: "sideFree P \<Longrightarrow> calmRun P (recordGasFromReceipt demoEnv h rc src c None) (\<lambda>_. P)"
  by (simp add: calmRun_def recordGasFromReceipt_def backendSignerAddress_def Let_def sideFreeD)

text \<open>The account at wallet 1000, with the tables of the example.\<close>

definition demoTables :: "('w, 'g, 'r) regDb_scheme \<Rightarrow> bool" where
  "demoTables t \<longleftrightarrow> countries t = countries demoPlatform \<and> consumers t = consumers demoPlatform"

definition demoAccount :: "('w, 'g, 'r) regDb_scheme \<Rightarrow> bool" where
  "demoAccount t \<longleftrightarrow> cdActive (rgConsumers (registry t) 1000) \<and> cdEns (rgConsumers (registry t) 1000) = 0x1616E6E
     \<and> rgEns (registry t) 0x1616E6E = 1000 \<and> rgRegistrar (registry t) = (\<lambda>a. a = 2) \<and> demoTables t"

lemma demo_side: "sideFree demoAccount" "sideFree (\<lambda>t. registry t = demoRegistry \<and> demoTables t)"
  by (simp_all add: sideFree_def net_free_def demoAccount_def demoTables_def)

lemma demo_registered:
  assumes "country \<noteq> 0" and "owner \<noteq> 0"
  shows "\<exists>r. registerConsumer demoRegistryEnv 2 0x1616E6E name country 0 owner demoRegistry = Inr (1000, r)
    \<and> cdActive (rgConsumers r 1000) \<and> cdEns (rgConsumers r 1000) = 0x1616E6E \<and> rgEns r 0x1616E6E = 1000 \<and> rgRegistrar r = (\<lambda>a. a = 2)
    \<and> cdGlobalId (rgConsumers r 1000) = 1000 \<and> rgCode r = (\<lambda>a. a < 100 \<or> a = 1000)"
  using assms by (simp add: fun_eq_iff registerConsumer_def deployConsumerSafe_def demoRegistryEnv_def Let_def)

lemma calm_registerTx:
  assumes "country \<noteq> 0"
  shows "calmRun (\<lambda>t. registry t = demoRegistry \<and> demoTables t) (sendRegistry (registerTx (demoRegEnv m) 2 0x1616E6E name country 77))
    (\<lambda>y t. snd y = [ForeignLog, ForeignLog, ConsumerRegistered 1000 1000 country 0] \<and> demoAccount t)"
proof -
  obtain r where r: "registerConsumer demoRegistryEnv 2 0x1616E6E name country 0 77 demoRegistry = Inr (1000, r)"
    and f: "cdActive (rgConsumers r 1000)" "cdEns (rgConsumers r 1000) = 0x1616E6E" "rgEns r 0x1616E6E = 1000" "rgRegistrar r = (\<lambda>a. a = 2)"
    using demo_registered [OF assms, of 77 name] by auto
  have tx: "registerTx (demoRegEnv m) 2 0x1616E6E name country 77 now demoRegistry
      = Inr ([ForeignLog, ForeignLog, ConsumerRegistered 1000 1000 country 0], r)" for now
    using r by (simp add: registerTx_def numeral_2_eq_2)
  show ?thesis
    unfolding calmRun_def sendRegistry_def using f by (auto simp: io_calm tx withRegistry_def demoAccount_def demoTables_def)
qed

lemma calm_pure: "(F \<Longrightarrow> calmRun P m Q) \<Longrightarrow> calmRun (\<lambda>t. F \<and> P t) m Q"
  by (simp add: calmRun_def)

lemma calm_ofOption: "calmRun P (k v) Q \<Longrightarrow> calmRun P (andThen (ofOption (Some v) e) k) Q"
  by (simp add: calmRun_def)

lemma calm_deployed:
  assumes "rpTag P = ''ann''" and "idExample (rpCountry P) \<noteq> 0"
  shows "calmRun (\<lambda>t. registry t = demoRegistry \<and> demoTables t) (deployConsumerWallet demoEnv (demoRegEnv m) (rpTag P) (rpName P) (rpCountry P) 77)
    (\<lambda>y t. (fst y = 1000 \<and> fst (snd y) = 1000) \<and> demoAccount t)"
proof -
  have tx: "calmRun (\<lambda>t. registry t = demoRegistry \<and> demoTables t)
      (sendRegistry (registerTx (demoRegEnv m) 2 (if rpTag P \<noteq> [] then idHash demoEnv (rpTag P) else 0) (idHash demoEnv (rpName P)) (idHash demoEnv (rpCountry P)) 77))
      (\<lambda>y t. snd y = [ForeignLog, ForeignLog, ConsumerRegistered 1000 1000 (idExample (rpCountry P)) 0] \<and> demoAccount t)"
    using calm_registerTx [OF assms(2), of m "idExample (rpName P)"] assms(1) by (simp add: demo_code_hashes)
  have rest: "calmRun (\<lambda>t. snd y = [ForeignLog, ForeignLog, ConsumerRegistered 1000 1000 c 0] \<and> demoAccount t)
      (case y of (tx, logs) \<Rightarrow> andThen (recordGasFromReceipt demoEnv tx (reReceipt (demoRegEnv m) tx) ''register_deploy'' None None) (\<lambda>_.
        andThen (ofOption (findRegistered logs) e) (\<lambda>(wallet, i). ret (wallet, int i, tx))))
      (\<lambda>y t. (fst y = 1000 \<and> fst (snd y) = 1000) \<and> demoAccount t)" for y c e
    by (cases y) (auto intro!: calm_pure calm_andThen [OF calm_recordGas [OF demo_side(1)]] calm_ofOption calm_ret)
  show ?thesis
    unfolding deployConsumerWallet_def backendSignerAddress_def demoEnv_sel
    by (intro calm_ofOption calm_andThen [OF tx [unfolded demoEnv_sel]] rest)
qed

lemma calm_stub: "calmRun P (idosStep (demoRegEnv IdosStub) demoIds Q w) (\<lambda>y t. y = ''stub-cred-a1'' \<and> P t)"
  by (simp add: calmRun_def idosStep_def createIdosProfile_def issueIdosCredential_def demoIds_def)

lemma calm_idle: "calmRun P (ensStep (demoRegEnv m) Q w) (\<lambda>_. P)" "calmRun P (pimlicoStep (demoRegEnv m) w) (\<lambda>_. P)"
  by (simp_all add: calmRun_def ensStep_def pimlicoStep_def whitelistSponsored_def)

lemma calm_enrolled:
  assumes "rpTag P = ''ann''" and "idExample (rpCountry P) \<noteq> 0"
  shows "calmRun (\<lambda>t. registry t = demoRegistry \<and> demoTables t) (deployAndEnrol demoEnv (demoRegEnv IdosStub) demoIds P 77)
    (\<lambda>y t. y = (1000, 1000, ''stub-cred-a1'') \<and> demoAccount t)"
proof -
  note step = calm_andThen [OF calm_attemptStep [OF demo_side(1)]] calm_andThen [OF calm_stub] calm_andThen [OF calm_idle(1)] calm_andThen [OF calm_idle(2)]
  show ?thesis
    unfolding deployAndEnrol_def
    by (rule calm_andThen [OF calm_deployed [OF assms]]) (auto intro!: calm_pure step calm_ret simp: case_prod_beta prod_eq_iff)
qed

lemma demo_spki: "extractP256FromSpki (b64urlToBuf demoKeyDer) = Inr (3, 2)" "demoKeyDer \<noteq> []"
  unfolding demoKeyDer_def b64url_inverse using extractP256_spki [of 3 2 "[]"] by (simp_all add: bufToB64url_nonempty)

text \<open>The route up to the service.\<close>

lemma demo_route:
  assumes "cc \<noteq> []"
  shows "\<exists>u. net u = [] \<and> registry u = demoRegistry \<and> demoTables u
    \<and> registerRoute demoEnv (demoWa ''webauthn.create'') (demoRegEnv IdosStub) demoIds (demoRegisterBody cc) (demoRegDb cs)
      = tryCatch (andThen (registerNewConsumer demoEnv (demoRegEnv IdosStub) demoIds (registerParamsOf (demoRegEnv IdosStub) (demoRegisterBody cc) 3 2))
          (\<lambda>g. andThen (saveCredential ''k9'' (rgWallet g) 3 2 (rgSigner g)) (\<lambda>_.
            ret (Reply (g, registrationClaims (demoRegEnv IdosStub) g cc))))) registerError u"
proof -
  let ?u = "(demoRegDb cs)\<lparr>challenges := (challenges (demoRegDb cs))(''cg'' := None)\<rparr>"
  have v: "verifyRegistrationClientData (demoWa ''webauthn.create'') c (demoRegDb cs) = (Inr (), ?u)" for c
    by (simp add: verifyRegistrationClientData_def verifyClientData_def nonEmpty_def consumeChallenge_def)
  have "missingFields (demoRegisterBody cc) = []"
    using assms demo_spki(2) by (simp add: missingFields_def demoRegisterBody_def nonEmpty_def)
  then have "registerRoute demoEnv (demoWa ''webauthn.create'') (demoRegEnv IdosStub) demoIds (demoRegisterBody cc) (demoRegDb cs)
      = tryCatch (andThen (registerNewConsumer demoEnv (demoRegEnv IdosStub) demoIds (registerParamsOf (demoRegEnv IdosStub) (demoRegisterBody cc) 3 2))
          (\<lambda>g. andThen (saveCredential ''k9'' (rgWallet g) 3 2 (rgSigner g)) (\<lambda>_.
            ret (Reply (g, registrationClaims (demoRegEnv IdosStub) g cc))))) registerError ?u"
    using v demo_spki(1) by (simp add: registerRoute_def tryCatch_def demoRegisterBody_def ofSum_def)
  moreover have "net ?u = []" "registry ?u = demoRegistry" "demoTables ?u" by (simp_all add: demoTables_def)
  ultimately show ?thesis by blast
qed

lemma calm_atStage: "calmRun P m Q \<Longrightarrow> calmRun P (atStage i st m) Q"
  unfolding calmRun_def by (metis atStage_Inr_iff)

lemma calm_signer: "calmRun (\<lambda>t. registry t = demoRegistry \<and> demoTables t) (resolvePasskeySigner demoEnv (demoRegEnv m) 3 2 1)
    (\<lambda>y t. y = 77 \<and> registry t = demoRegistry \<and> demoTables t)"
  by (simp add: calmRun_def resolvePasskeySigner_def backendSignerAddress_def uintArg_def)

text \<open>The stages before the database.\<close>

lemma demo_before_db:
  assumes "net u = []" "registry u = demoRegistry" "demoTables u" and "cc \<noteq> []" and "idExample cc \<noteq> 0"
  shows "\<exists>v. net v = [] \<and> demoAccount v \<and> registerNewConsumer demoEnv (demoRegEnv IdosStub) demoIds
      (registerParamsOf (demoRegEnv IdosStub) (demoRegisterBody cc) 3 2) u
    = andThen (atStage ''a1'' DbStage (storeConsumer demoIds (registerParamsOf (demoRegEnv IdosStub) (demoRegisterBody cc) 3 2) 1000 1000 ''stub-cred-a1''))
        (\<lambda>consumer. ret \<lparr>rgWallet = 1000, rgGlobalId = 1000, rgConsumer = consumer, rgFullTag = Some ''ann.imali.gwei'', rgSigner = 77\<rparr>) v"
proof -
  let ?P = "registerParamsOf (demoRegEnv IdosStub) (demoRegisterBody cc) 3 2"
  let ?I = "\<lambda>t. registry t = demoRegistry \<and> demoTables t"
  have p: "rpTag ?P = ''ann''" "rpCountry ?P = cc" "rpX ?P = 3" "rpY ?P = 2" "rpVerifiers ?P = 1" "riAttempt demoIds = ''a1''"
    by (simp_all add: registerParamsOf_def demoRegisterBody_def demoIds_def)
  obtain u1 where u1: "attemptInsert ''a1'' (rpCountry ?P) (rpTag ?P) (rpName ?P) (rpMobile ?P) u = (Inr (), u1)" "net u1 = []" "?I u1"
    using calm_attemptInsert [OF demo_side(2)] assms(1-3) unfolding calmRun_def by (metis (full_types) unit.exhaust)
  have "calmRun ?I (atStage ''a1'' SignerStage (andThen (resolvePasskeySigner demoEnv (demoRegEnv IdosStub) 3 2 1) (\<lambda>sg.
      andThen (attemptStep ''a1'' SignerStage (Some sg) None None) (\<lambda>_. ret sg)))) (\<lambda>y t. y = 77 \<and> ?I t)"
    by (rule calm_atStage, rule calm_andThen [OF calm_signer]) (intro calm_pure calm_andThen [OF calm_attemptStep [OF demo_side(2)]] calm_ret, simp)
  then obtain u2 where u2: "atStage ''a1'' SignerStage (andThen (resolvePasskeySigner demoEnv (demoRegEnv IdosStub) 3 2 1) (\<lambda>sg.
      andThen (attemptStep ''a1'' SignerStage (Some sg) None None) (\<lambda>_. ret sg))) u1 = (Inr 77, u2)" "net u2 = []" "?I u2"
    using u1(2,3) unfolding calmRun_def by blast
  obtain v where v: "atStage ''a1'' DeployStage (deployAndEnrol demoEnv (demoRegEnv IdosStub) demoIds ?P 77) u2 = (Inr (1000, 1000, ''stub-cred-a1''), v)"
      "net v = []" "demoAccount v"
    using calm_atStage [OF calm_enrolled [of ?P], of "''a1''" DeployStage] u2(2,3) p(1,2) assms(5) unfolding calmRun_def by fastforce
  have "registerNewConsumer demoEnv (demoRegEnv IdosStub) demoIds ?P u = andThen (atStage ''a1'' DbStage (storeConsumer demoIds ?P 1000 1000 ''stub-cred-a1''))
        (\<lambda>consumer. ret \<lparr>rgWallet = 1000, rgGlobalId = 1000, rgConsumer = consumer, rgFullTag = Some ''ann.imali.gwei'', rgSigner = 77\<rparr>) v"
    unfolding registerNewConsumer_def Let_def p by (simp add: u1(1) [unfolded p] u2(1) v(1) p)
  then show ?thesis using v(2,3) by blast
qed

lemma registration_complete_witness:
  "\<exists>g c t. registerRoute demoEnv (demoWa ''webauthn.create'') (demoRegEnv IdosStub) demoIds (demoRegisterBody ''ZA'') (demoRegDb ''ZA'')
      = (Inr (Reply (g, c)), t) \<and> rgWallet g = 1000 \<and> isRegistered t 1000 \<and> (\<exists>k\<in>set (credentials t). crId k = ''k9'' \<and> crWallet k = 1000)"
proof -
  let ?P = "registerParamsOf (demoRegEnv IdosStub) (demoRegisterBody ''ZA'') 3 2"
  obtain u where u: "net u = []" "registry u = demoRegistry" "demoTables u"
    "registerRoute demoEnv (demoWa ''webauthn.create'') (demoRegEnv IdosStub) demoIds (demoRegisterBody ''ZA'') (demoRegDb ''ZA'')
      = tryCatch (andThen (registerNewConsumer demoEnv (demoRegEnv IdosStub) demoIds ?P)
          (\<lambda>g. andThen (saveCredential ''k9'' (rgWallet g) 3 2 (rgSigner g)) (\<lambda>_.
            ret (Reply (g, registrationClaims (demoRegEnv IdosStub) g ''ZA''))))) registerError u"
    using demo_route [of "''ZA''" "''ZA''"] by blast
  obtain v where v: "net v = []" "demoAccount v" "registerNewConsumer demoEnv (demoRegEnv IdosStub) demoIds ?P u
    = andThen (atStage ''a1'' DbStage (storeConsumer demoIds ?P 1000 1000 ''stub-cred-a1''))
        (\<lambda>consumer. ret \<lparr>rgWallet = 1000, rgGlobalId = 1000, rgConsumer = consumer, rgFullTag = Some ''ann.imali.gwei'', rgSigner = 77\<rparr>) v"
    using demo_before_db [OF u(1-3), of "''ZA''"] by (auto simp: demo_code_hashes)
  have "\<exists>c t. storeConsumer demoIds ?P 1000 1000 ''stub-cred-a1'' v = (Inr c, t) \<and> net t = []"
    using v(1,2) by (simp add: storeConsumer_def writeConsumerRecord_def io_calm insertConsumer_def demoAccount_def demoTables_def
      demoPlatform_def registerParamsOf_def demoRegisterBody_def Let_def attemptStep_def attemptFinish_def)
  then obtain c t where c: "storeConsumer demoIds ?P 1000 1000 ''stub-cred-a1'' v = (Inr c, t)" "net t = []" by blast
  then have "atStage ''a1'' DbStage (storeConsumer demoIds ?P 1000 1000 ''stub-cred-a1'') v = (Inr c, t)" by (simp add: atStage_Inr_iff)
  then obtain g cl t' where run: "registerRoute demoEnv (demoWa ''webauthn.create'') (demoRegEnv IdosStub) demoIds (demoRegisterBody ''ZA'') (demoRegDb ''ZA'')
      = (Inr (Reply (g, cl)), t')" and g: "rgWallet g = 1000"
    using c(2) unfolding u(4) by (simp add: v(3) tryCatch_def saveCredential_def)
  from registration_complete [OF run] run g show ?thesis by (auto simp: accountOnChain_def demoRegisterBody_def)
qed

lemma unknown_country_refused_late_witness:
  "\<exists>n m c t. registerRoute demoEnv (demoWa ''webauthn.create'') (demoRegEnv IdosStub) demoIds (demoRegisterBody ''XX'') (demoRegDb ''ZA'')
      = (Inr (ReplyErr n m c), t) \<and> cdActive (rgConsumers (registry t) 1000) \<and> rgEns (registry t) (idExample ''ann'') = 1000
      \<and> consumers t = consumers (demoRegDb ''ZA'')"
proof -
  let ?P = "registerParamsOf (demoRegEnv IdosStub) (demoRegisterBody ''XX'') 3 2"
  obtain u where u: "net u = []" "registry u = demoRegistry" "demoTables u"
    "registerRoute demoEnv (demoWa ''webauthn.create'') (demoRegEnv IdosStub) demoIds (demoRegisterBody ''XX'') (demoRegDb ''ZA'')
      = tryCatch (andThen (registerNewConsumer demoEnv (demoRegEnv IdosStub) demoIds ?P)
          (\<lambda>g. andThen (saveCredential ''k9'' (rgWallet g) 3 2 (rgSigner g)) (\<lambda>_.
            ret (Reply (g, registrationClaims (demoRegEnv IdosStub) g ''XX''))))) registerError u"
    using demo_route [of "''XX''" "''ZA''"] by blast
  obtain v where v: "net v = []" "demoAccount v" "registerNewConsumer demoEnv (demoRegEnv IdosStub) demoIds ?P u
    = andThen (atStage ''a1'' DbStage (storeConsumer demoIds ?P 1000 1000 ''stub-cred-a1''))
        (\<lambda>consumer. ret \<lparr>rgWallet = 1000, rgGlobalId = 1000, rgConsumer = consumer, rgFullTag = Some ''ann.imali.gwei'', rgSigner = 77\<rparr>) v"
    using demo_before_db [OF u(1-3), of "''XX''"] by (auto simp: demo_code_hashes)
  have "refuses demoAccount (atStage ''a1'' DbStage (storeConsumer demoIds ?P 1000 1000 ''stub-cred-a1''))"
    unfolding storeConsumer_def writeConsumerRecord_def
    by (intro refuses_atStage demo_side refuses_first refuses_io sideFreeD(1) [OF demo_side(1)])
      (simp add: insertConsumer_def demoAccount_def demoTables_def demoPlatform_def registerParamsOf_def demoRegisterBody_def)
  then obtain e t where e: "atStage ''a1'' DbStage (storeConsumer demoIds ?P 1000 1000 ''stub-cred-a1'') v = (Inl e, t)" "demoAccount t"
    using v(2) unfolding refuses_iff by blast
  then have run: "registerRoute demoEnv (demoWa ''webauthn.create'') (demoRegEnv IdosStub) demoIds (demoRegisterBody ''XX'') (demoRegDb ''ZA'')
      = registerError e t"
    unfolding u(4) by (simp add: v(3) tryCatch_def)
  obtain n m c where r: "registerRoute demoEnv (demoWa ''webauthn.create'') (demoRegEnv IdosStub) demoIds (demoRegisterBody ''XX'') (demoRegDb ''ZA'')
      = (Inr (ReplyErr n m c), t)"
    unfolding run by (cases "hasText (fmsg e) ''EnsAlreadyRegistered''"; cases "hasText (fmsg e) ''PilotCapReached''") (simp_all add: registerError_def)
  have "\<forall>c\<in>set (countries (demoRegDb ''ZA'')). countryCode c \<noteq> orElse (gbCountry (demoRegisterBody ''XX'')) []"
    by (simp add: demoPlatform_def demoRegisterBody_def)
  from unknown_country_refused_late [OF this r] r e(2) show ?thesis by (auto simp: demoAccount_def demo_code_hashes)
qed

text \<open>An account at wallet 1000 is recovered: the chain knows the new wallet, the platform only the old one.\<close>

definition demoRecoverBody :: recoverBody where
  "demoRecoverBody = \<lparr>vbWallet = Some ''0x00000000000000000000000000000000000003e8'', vbX = Some ''3'', vbY = Some ''2'', vbVerifiers = Some ''1'', vbGrant = Some ''g''\<rparr>"

lemma demo_recovered:
  "\<exists>r1 :: registry. rgRegistrar r1 = (\<lambda>a. a = 2) \<and> rgCode r1 77 \<and> (\<forall>now. \<exists>r2. recoverWallet demoRegistryEnv now 2 1000 0x1616E6E 77 r1 = Inr (3000, r2)
    \<and> \<not> cdActive (rgConsumers r2 1000) \<and> cdActive (rgConsumers r2 3000) \<and> rgEns r2 0x1616E6E = 3000)"
proof -
  obtain r1 :: registry where r: "cdActive (rgConsumers r1 1000)" "cdEns (rgConsumers r1 1000) = 0x1616E6E" "rgRegistrar r1 = (\<lambda>a. a = 2)"
    "cdGlobalId (rgConsumers r1 1000) = 1000" "rgCode r1 = (\<lambda>a. a < 100 \<or> a = 1000)"
    using demo_registered [of 1 1 0] by auto
  have "\<exists>r2. recoverWallet demoRegistryEnv now 2 1000 0x1616E6E 77 r1 = Inr (3000, r2)
    \<and> \<not> cdActive (rgConsumers r2 1000) \<and> cdActive (rgConsumers r2 3000) \<and> rgEns r2 0x1616E6E = 3000" for now
    using r by (simp add: recoverWallet_def deployConsumerSafe_def demoRegistryEnv_def Let_def)
  then show ?thesis using r(3,5) by auto
qed

lemma recovery_never_completes_witness:
  "\<exists>(s :: (unit, unit) regDb) n m c t. recoverRoute demoEnv (demoRegEnv IdosLive) demoRecoverBody s = (Inr (ReplyErr n m c), t)
    \<and> \<not> cdActive (rgConsumers (registry t) 1000) \<and> cdActive (rgConsumers (registry t) (rgEns (registry t) (idExample ''ann'')))
    \<and> consumers t = consumers s"
proof -
  obtain r1 where r1: "rgRegistrar r1 = (\<lambda>a. a = 2)" "rgCode r1 77" and ex: "\<forall>now. \<exists>r2. recoverWallet demoRegistryEnv now 2 1000 0x1616E6E 77 r1
    = Inr (3000, r2) \<and> \<not> cdActive (rgConsumers r2 1000) \<and> cdActive (rgConsumers r2 3000) \<and> rgEns r2 0x1616E6E = 3000"
    using demo_recovered by blast
  let ?s = "(demoRegDb ''ZA'')\<lparr>registry := r1\<rparr>"
  obtain r2 where r2: "recoverWallet demoRegistryEnv (blockTime ?s) 2 1000 0x1616E6E 77 r1 = Inr (3000, r2)"
    and f: "\<not> cdActive (rgConsumers r2 1000)" "cdActive (rgConsumers r2 3000)" "rgEns r2 0x1616E6E = 3000"
    using ex by blast
  have addr: "addrExample ''0x00000000000000000000000000000000000003e8'' = Some 1000"
    by (simp add: addrExample_def isHexDigit_def isDigit_def hexVal_def)
  have nums: "bigIntOf ''3'' = Some 3" "bigIntOf ''2'' = Some 2" "bigIntOf ''1'' = Some 1" by code_simp+
  obtain cred where cred: "verifyCredential (demoRegEnv IdosLive) ''g'' ?s = (Inr cred, ?s)" "vfOk cred" "vfTag cred = Some ''ann''"
    by (simp add: verifyCredential_def demoRegEnv_def)
  have signer: "resolvePasskeySigner demoEnv (demoRegEnv IdosLive) 3 2 1 ?s = (Inr 77, ?s)"
    using r1 by (simp add: resolvePasskeySigner_def backendSignerAddress_def uintArg_def)
  obtain tx t where tx: "sendRegistry (recoverTx (demoRegEnv IdosLive) 2 1000 0x1616E6E 77) ?s
      = (Inr (tx, [ForeignLog, ForeignLog, WalletRecovered 1000 3000 (cdGlobalId (rgConsumers r1 1000))]), t)" "registry t = r2"
    using r2 by (simp add: sendRegistry_def io_calm recoverTx_def numeral_2_eq_2 withRegistry_def)
  have "\<exists>n m c t. recoverRoute demoEnv (demoRegEnv IdosLive) demoRecoverBody ?s = (Inr (ReplyErr n m c), t) \<and> registry t = r2"
    unfolding recoverRoute_def demoRecoverBody_def
    by (simp add: nonEmpty_def cred bigIntArg_def nums addr signer backendSignerAddress_def demo_code_hashes tx recoveredWallet_def)
  then obtain n m c t where t: "recoverRoute demoEnv (demoRegEnv IdosLive) demoRecoverBody ?s = (Inr (ReplyErr n m c), t)" "registry t = r2" by blast
  from recovery_never_completes [OF _ t(1)] have "consumers t = consumers ?s" by simp
  then have "\<not> cdActive (rgConsumers (registry t) 1000)" "cdActive (rgConsumers (registry t) (rgEns (registry t) (idExample ''ann'')))"
    "consumers t = consumers ?s" using t(2) f by (simp_all add: demo_code_hashes)
  then show ?thesis using t(1) by blast
qed

end
