(* ===== verification/VaultAdmin.thy ===== *)
theory VaultAdmin
  imports Chain
begin

text \<open>
  The rest of \<open>src/src/Vault.sol\<close> and \<open>src/src/TreasuryToken.sol\<close>: initialisation, the configuration
  of both contracts, the deposit of external tokens and the purchase of USD through the DEX
  router; then every entry point of the two contracts as a message (\<open>execVault\<close>, \<open>execToken\<close>) and the
  states a deployment can reach by any calls of any senders (\<open>deployed\<close>).

  Outside the repository: the router (\<open>swapExact\<close>, Uniswap's \<open>exactInputSingle\<close>; \<open>routerLaw\<close> states its
  documented behaviour) and the allowances of the ERC-20 tokens (\<open>approved\<close>). Role membership is
  OpenZeppelin's; \<open>deployed\<close> lets it change in any way.
\<close>

section \<open>Initialisation and configuration of the Vault\<close>

definition addDestination :: "bytes32 \<Rightarrow> vault \<Rightarrow> revert + vault" where
  "addDestination c v =
    sbind (guard (c \<noteq> 0) InvalidCurrency) (\<lambda>_.
      Inr (if isAllowedDestination v c then v
           else v\<lparr>isAllowedDestination := (isAllowedDestination v)(c := True),
                  allowedDestinations := allowedDestinations v @ [c]\<rparr>))"

text \<open>The storage of a fresh proxy, and \<open>initialize\<close>, which its \<open>initializer\<close> modifier runs once.\<close>

definition emptyVault :: vault where
  "emptyVault = \<lparr>shares = (\<lambda>_ _. 0), totalShares = (\<lambda>_. 0), totalAssets = (\<lambda>_. 0), tokenCurrency = (\<lambda>_. 0),
     currencyTokens = (\<lambda>_. []), currencyTreasuryToken = (\<lambda>_. 0), remittanceLocked = (\<lambda>_. False),
     trustedCounterparty = (\<lambda>_. False), platformReserveAssets = (\<lambda>_. 0), isAllowedDestination = (\<lambda>_. False),
     allowedDestinations = [], consumerContract = 0, swapRouter = 0, usdcToken = 0,
     isExecutor = (\<lambda>_. False), isAdmin = (\<lambda>_. False), isSettlement = (\<lambda>_. False), vaultPaused = False\<rparr>"

definition initializeVault :: "env \<Rightarrow> address \<Rightarrow> address \<Rightarrow> address \<Rightarrow> vault \<Rightarrow> revert + vault" where
  "initializeVault E admin router usdc v =
    sbind (guard (admin \<noteq> 0) ZeroAddress) (\<lambda>_.
    sbind (guard (router \<noteq> 0) ZeroAddress) (\<lambda>_.
    sbind (guard (usdc \<noteq> 0) ZeroAddress) (\<lambda>_.
      addDestination (idHash E ''ZW'')
        (v\<lparr>isAdmin := (isAdmin v)(admin := True), isExecutor := (isExecutor v)(admin := True),
           isSettlement := (isSettlement v)(admin := True), swapRouter := router, usdcToken := usdc\<rparr>))))"

definition addToken :: "address \<Rightarrow> address \<Rightarrow> bytes32 \<Rightarrow> vault \<Rightarrow> revert + vault" where
  "addToken sender token c v =
    sbind (guard (isAdmin v sender) NotAuthorized) (\<lambda>_.
    sbind (guard (token \<noteq> 0) ZeroAddress) (\<lambda>_.
    sbind (guard (c \<noteq> 0) InvalidCurrency) (\<lambda>_.
    sbind (guard (tokenCurrency v token = 0) (TokenAlreadyRegistered token)) (\<lambda>_.
      Inr (v\<lparr>tokenCurrency := (tokenCurrency v)(token := c),
             currencyTokens := (currencyTokens v)(c := currencyTokens v c @ [token])\<rparr>)))))"

definition setCurrencyTreasuryToken :: "address \<Rightarrow> bytes32 \<Rightarrow> address \<Rightarrow> vault \<Rightarrow> revert + vault" where
  "setCurrencyTreasuryToken sender c treasuryToken v =
    sbind (guard (isAdmin v sender) NotAuthorized) (\<lambda>_.
    sbind (guard (c \<noteq> 0) InvalidCurrency) (\<lambda>_.
    sbind (guard (treasuryToken \<noteq> 0) ZeroAddress) (\<lambda>_.
      Inr (v\<lparr>currencyTreasuryToken := (currencyTreasuryToken v)(c := treasuryToken)\<rparr>))))"

definition setConsumerContract :: "address \<Rightarrow> address \<Rightarrow> vault \<Rightarrow> revert + vault" where
  "setConsumerContract sender consumer v =
    sbind (guard (isAdmin v sender) NotAuthorized) (\<lambda>_.
    sbind (guard (consumer \<noteq> 0) ZeroAddress) (\<lambda>_.
      Inr (v\<lparr>consumerContract := consumer\<rparr>)))"

definition addAllowedDestination :: "address \<Rightarrow> bytes32 \<Rightarrow> vault \<Rightarrow> revert + vault" where
  "addAllowedDestination sender c v =
    sbind (guard (isAdmin v sender) NotAuthorized) (\<lambda>_. addDestination c v)"

text \<open>The loop of \<open>removeAllowedDestination\<close>: the last entry takes the place of the first one found.\<close>

function swapPop :: "'a \<Rightarrow> nat \<Rightarrow> 'a list \<Rightarrow> 'a list" where
  "swapPop c i xs = (if i < length xs then
      if xs ! i = c then butlast (xs[i := xs ! (length xs - 1)]) else swapPop c (i + 1) xs
    else xs)"
  by pat_completeness auto
termination by (relation "measure (\<lambda>(c, i, xs). length xs - i)") auto

declare swapPop.simps [simp del]

definition removeAllowedDestination :: "address \<Rightarrow> bytes32 \<Rightarrow> vault \<Rightarrow> revert + vault" where
  "removeAllowedDestination sender c v =
    sbind (guard (isAdmin v sender) NotAuthorized) (\<lambda>_.
      Inr (if isAllowedDestination v c
           then v\<lparr>isAllowedDestination := (isAllowedDestination v)(c := False),
                  allowedDestinations := swapPop c 0 (allowedDestinations v)\<rparr>
           else v))"

definition pauseVault :: "address \<Rightarrow> vault \<Rightarrow> revert + vault" where
  "pauseVault sender v =
    sbind (guard (isAdmin v sender) NotAuthorized) (\<lambda>_.
    sbind (guard (\<not> vaultPaused v) EnforcedPause) (\<lambda>_. Inr (v\<lparr>vaultPaused := True\<rparr>)))"

definition unpauseVault :: "address \<Rightarrow> vault \<Rightarrow> revert + vault" where
  "unpauseVault sender v =
    sbind (guard (isAdmin v sender) NotAuthorized) (\<lambda>_.
    sbind (guard (vaultPaused v) ExpectedPause) (\<lambda>_. Inr (v\<lparr>vaultPaused := False\<rparr>)))"

text \<open>The price of \<open>1e18\<close> shares.\<close>

definition pricePerShare :: "vault \<Rightarrow> bytes32 \<Rightarrow> revert + nat" where
  "pricePerShare v c = convertToAssets v c (10 ^ 18) False"

section \<open>Deposits and purchases of USD\<close>

type_synonym tokens = "(address \<Rightarrow> address \<Rightarrow> nat) \<times> (address \<Rightarrow> ttoken option)"

definition heldIn :: "tokens \<Rightarrow> address \<Rightarrow> address \<Rightarrow> nat" where
  "heldIn T token holder = (case snd T token of Some t \<Rightarrow> bal t holder | None \<Rightarrow> fst T token holder)"

record swapArgs =
  tokenIn :: address
  tokenOut :: address
  poolFee :: nat
  payer :: address
  recipient :: address
  amountIn :: nat
  amountOutMinimum :: nat

record outside =
  swapExact :: "address \<Rightarrow> swapArgs \<Rightarrow> tokens \<Rightarrow> (nat \<times> tokens) option"
  approved :: "address \<Rightarrow> address \<Rightarrow> address \<Rightarrow> nat \<Rightarrow> bool"

text \<open>
  What Uniswap documents of \<open>exactInputSingle\<close>: it takes exactly \<open>amountIn\<close> of one token from the payer, gives
  the recipient the returned amount of another, which is at least the minimum, and touches no
  other token of the payer. Treasury tokens move by their own entry points, which keep
  \<open>frozenHeld\<close>.
\<close>

definition routerLaw :: "outside \<Rightarrow> bool" where
  "routerLaw W \<longleftrightarrow> (\<forall>r a T out T'. swapExact W r a T = Some (out, T') \<longrightarrow>
     tokenIn a \<noteq> tokenOut a \<and> amountOutMinimum a \<le> out
     \<and> heldIn T (tokenIn a) (payer a) = heldIn T' (tokenIn a) (payer a) + amountIn a
     \<and> heldIn T' (tokenOut a) (recipient a) = heldIn T (tokenOut a) (recipient a) + out
     \<and> (\<forall>t. t \<noteq> tokenIn a \<longrightarrow> t \<noteq> tokenOut a \<longrightarrow> heldIn T' t (payer a) = heldIn T t (payer a))
     \<and> ((\<forall>x t. snd T x = Some t \<longrightarrow> frozenHeld t) \<longrightarrow> (\<forall>x t. snd T' x = Some t \<longrightarrow> frozenHeld t)))"

text \<open>A router at the fixed rate of sixteen to one, between tokens outside the deployment.\<close>

definition swapExample :: "swapArgs \<Rightarrow> tokens \<Rightarrow> (nat \<times> tokens) option" where
  "swapExample a T = (let out = amountIn a div 16; e = fst T in
     if tokenIn a \<noteq> tokenOut a \<and> snd T (tokenIn a) = None \<and> snd T (tokenOut a) = None
       \<and> amountIn a \<le> e (tokenIn a) (payer a) \<and> amountOutMinimum a \<le> out then
       Some (out, (e(tokenIn a := (e (tokenIn a))(payer a := e (tokenIn a) (payer a) - amountIn a),
           tokenOut a := (e (tokenOut a))(recipient a := e (tokenOut a) (recipient a) + out)), snd T))
     else None)"

definition outsideExample :: outside where
  "outsideExample = \<lparr>swapExact = (\<lambda>_. swapExample), approved = (\<lambda>_ _ _ _. True)\<rparr>"

lemma routerLaw_example: "routerLaw outsideExample"
  by (auto simp: routerLaw_def outsideExample_def swapExample_def Let_def heldIn_def split: if_splits option.splits)

lemma routerLawD:
  assumes "routerLaw W" and "swapExact W r a T = Some (out, T')"
  shows "tokenIn a \<noteq> tokenOut a" "amountOutMinimum a \<le> out"
    "heldIn T (tokenIn a) (payer a) = heldIn T' (tokenIn a) (payer a) + amountIn a"
    "heldIn T' (tokenOut a) (recipient a) = heldIn T (tokenOut a) (recipient a) + out"
    "t \<noteq> tokenIn a \<Longrightarrow> t \<noteq> tokenOut a \<Longrightarrow> heldIn T' t (payer a) = heldIn T t (payer a)"
    "(\<And>x t. snd T x = Some t \<Longrightarrow> frozenHeld t) \<Longrightarrow> snd T' y = Some u \<Longrightarrow> frozenHeld u"
  using assms unfolding routerLaw_def by blast+

definition swapTokens :: "outside \<Rightarrow> swapArgs \<Rightarrow> 'r chain_scheme \<Rightarrow> revert + nat \<times> 'r chain_scheme" where
  "swapTokens W a s = (case swapExact W (swapRouter (vault s)) a (erc s, tts s) of
      None \<Rightarrow> Inl ERC20Failed
    | Some (out, T) \<Rightarrow> Inr (out, s\<lparr>erc := fst T, tts := snd T\<rparr>))"

definition depositFromExternal ::
  "env \<Rightarrow> outside \<Rightarrow> address \<Rightarrow> address \<Rightarrow> address \<Rightarrow> address \<Rightarrow> address \<Rightarrow> nat \<Rightarrow> 'r chain_scheme \<Rightarrow> revert + 'r chain_scheme" where
  "depositFromExternal E W this sender depositor beneficiary token amount s =
    sbind (guard (\<not> vaultPaused (vault s)) EnforcedPause) (\<lambda>_.
    sbind (guard (depositor \<noteq> 0) ZeroAddress) (\<lambda>_.
    sbind (guard (beneficiary \<noteq> 0) ZeroAddress) (\<lambda>_.
    sbind (guard (token \<noteq> 0) ZeroAddress) (\<lambda>_.
    sbind (guard (amount \<noteq> 0) ZeroAmount) (\<lambda>_.
    let c = tokenCurrency (vault s) token in
    sbind (guard (c \<noteq> 0) (TokenNotSupported token)) (\<lambda>_.
    let balBefore = tokenBalance s token this in
    sbind (guard (approved W token depositor this amount) ERC20Failed) (\<lambda>_.
    sbind (tokenTransfer E token depositor this amount s) (\<lambda>s1.
    sbind (sub256 (tokenBalance s1 token this) balBefore) (\<lambda>received.
      onVault (creditAssets beneficiary c received) s1)))))))))"

text \<open>The burn that \<open>payRemittance\<close> and \<open>purchaseUsd\<close> make when the currency has a treasury token.\<close>

definition burnBacking :: "env \<Rightarrow> address \<Rightarrow> bytes32 \<Rightarrow> address \<Rightarrow> nat \<Rightarrow> 'r chain_scheme \<Rightarrow> revert + 'r chain_scheme" where
  "burnBacking E this c holder amount s =
    (let tt = currencyTreasuryToken (vault s) c in
     if tt = 0 then Inr s else onTT tt (ttBurn (oz E) this holder amount) s)"

definition firstToken :: "vault \<Rightarrow> bytes32 \<Rightarrow> address" where
  "firstToken v c = (case currencyTokens v c of [] \<Rightarrow> 0 | t # _ \<Rightarrow> t)"

definition purchaseUsd ::
  "env \<Rightarrow> outside \<Rightarrow> address \<Rightarrow> address \<Rightarrow> address \<Rightarrow> nat \<Rightarrow> bytes32 \<Rightarrow> nat \<Rightarrow> nat \<Rightarrow> 'r chain_scheme \<Rightarrow> revert + 'r chain_scheme" where
  "purchaseUsd E W this sender buyer localAmount c fee minUsdcOut s =
    sbind (guard (isExecutor (vault s) sender) NotAuthorized) (\<lambda>_.
    sbind (guard (buyer \<noteq> 0) ZeroAddress) (\<lambda>_.
    sbind (guard (localAmount \<noteq> 0) ZeroAmount) (\<lambda>_.
    sbind (guard (c \<noteq> 0) InvalidCurrency) (\<lambda>_.
    let localToken = firstToken (vault s) c in
    sbind (guard (localToken \<noteq> 0) InvalidCurrency) (\<lambda>_.
    let vaultTokenBal = tokenBalance s localToken this in
    sbind (guard (localAmount \<le> vaultTokenBal) (InsufficientVaultTokenBalance vaultTokenBal localAmount)) (\<lambda>_.
    sbind (onVault (debitAssets buyer c localAmount) s) (\<lambda>s1.
    sbind (burnBacking E this c buyer localAmount s1) (\<lambda>s2.
    sbind (swapTokens W \<lparr>tokenIn = localToken, tokenOut = usdcToken (vault s2), poolFee = fee, payer = this,
        recipient = this, amountIn = localAmount, amountOutMinimum = minUsdcOut\<rparr> s2) (\<lambda>(usdcReceived, s3).
      onVault (creditAssets buyer (idHash E ''USDC'') usdcReceived) s3)))))))))"

section \<open>The rest of the treasury token\<close>

definition emptyToken :: ttoken where
  "emptyToken = \<lparr>bal = (\<lambda>_. 0), frozenTokens = (\<lambda>_. 0), blacklisted = (\<lambda>_. False), whitelisted = (\<lambda>_. False),
     whitelistEnabled = False, complianceEnabled = False, hasConsumer = False, ttPaused = False,
     isMinter = (\<lambda>_. False), isCompliance = (\<lambda>_. False), isPauser = (\<lambda>_. False), isTokenAdmin = (\<lambda>_. False)\<rparr>"

definition initializeToken :: "ozUpdate \<Rightarrow> address \<Rightarrow> nat \<Rightarrow> ttoken \<Rightarrow> revert + ttoken" where
  "initializeToken upd admin initialSupply t =
    sbind (guard (admin \<noteq> 0) ZeroAddress) (\<lambda>_.
    let t1 = t\<lparr>isTokenAdmin := (isTokenAdmin t)(admin := True), isMinter := (isMinter t)(admin := True),
               isPauser := (isPauser t)(admin := True), isCompliance := (isCompliance t)(admin := True)\<rparr> in
    if 0 < initialSupply then tokenUpdate upd (\<lambda>_. False) (\<lambda>_. 0) False 0 admin initialSupply t1 else Inr t1)"

definition ttBurnOwn :: "ozUpdate \<Rightarrow> address \<Rightarrow> nat \<Rightarrow> ttoken \<Rightarrow> revert + ttoken" where
  "ttBurnOwn upd sender a t =
    sbind (guard (a \<noteq> 0) ZeroAmount) (\<lambda>_.
    sbind (guard (\<not> blacklisted t sender) (AccountBlacklisted sender)) (\<lambda>_.
    sbind (guard (sender \<noteq> 0) ERC20Failed) (\<lambda>_.
      tokenUpdate upd (\<lambda>_. False) (\<lambda>_. 0) False sender 0 a t)))"

definition ttPause :: "address \<Rightarrow> ttoken \<Rightarrow> revert + ttoken" where
  "ttPause sender t =
    sbind (guard (isPauser t sender) NotAuthorized) (\<lambda>_.
    sbind (guard (\<not> ttPaused t) EnforcedPause) (\<lambda>_. Inr (t\<lparr>ttPaused := True\<rparr>)))"

definition ttUnpause :: "address \<Rightarrow> ttoken \<Rightarrow> revert + ttoken" where
  "ttUnpause sender t =
    sbind (guard (isPauser t sender) NotAuthorized) (\<lambda>_.
    sbind (guard (ttPaused t) ExpectedPause) (\<lambda>_. Inr (t\<lparr>ttPaused := False\<rparr>)))"

definition addToBlacklist :: "address \<Rightarrow> address \<Rightarrow> ttoken \<Rightarrow> revert + ttoken" where
  "addToBlacklist sender account t =
    sbind (guard (isTokenAdmin t sender) NotAuthorized) (\<lambda>_.
    sbind (guard (account \<noteq> 0) ZeroAddress) (\<lambda>_.
      Inr (t\<lparr>blacklisted := (blacklisted t)(account := True)\<rparr>)))"

definition removeFromBlacklist :: "address \<Rightarrow> address \<Rightarrow> ttoken \<Rightarrow> revert + ttoken" where
  "removeFromBlacklist sender account t =
    sbind (guard (isTokenAdmin t sender) NotAuthorized) (\<lambda>_.
    sbind (guard (account \<noteq> 0) ZeroAddress) (\<lambda>_.
      Inr (t\<lparr>blacklisted := (blacklisted t)(account := False)\<rparr>)))"

definition removeFromWhitelist :: "address \<Rightarrow> address \<Rightarrow> ttoken \<Rightarrow> revert + ttoken" where
  "removeFromWhitelist sender account t =
    sbind (guard (isCompliance t sender) NotAuthorized) (\<lambda>_.
    sbind (guard (account \<noteq> 0) ZeroAddress) (\<lambda>_.
      Inr (t\<lparr>whitelisted := (whitelisted t)(account := False)\<rparr>)))"

definition setWhitelistEnabled :: "address \<Rightarrow> bool \<Rightarrow> ttoken \<Rightarrow> revert + ttoken" where
  "setWhitelistEnabled sender enabled t =
    sbind (guard (isTokenAdmin t sender) NotAuthorized) (\<lambda>_. Inr (t\<lparr>whitelistEnabled := enabled\<rparr>))"

definition ttSetConsumerContract :: "address \<Rightarrow> address \<Rightarrow> ttoken \<Rightarrow> revert + ttoken" where
  "ttSetConsumerContract sender consumer t =
    sbind (guard (isTokenAdmin t sender) NotAuthorized) (\<lambda>_.
    sbind (guard (consumer \<noteq> 0) ZeroAddress) (\<lambda>_. Inr (t\<lparr>hasConsumer := True\<rparr>)))"

definition setComplianceEnabled :: "address \<Rightarrow> bool \<Rightarrow> ttoken \<Rightarrow> revert + ttoken" where
  "setComplianceEnabled sender enabled t =
    sbind (guard (isTokenAdmin t sender) NotAuthorized) (\<lambda>_. Inr (t\<lparr>complianceEnabled := enabled\<rparr>))"

section \<open>Messages to the contracts\<close>

datatype vaultMsg =
    AdminCredit address nat bytes32 | AdminDebit address nat bytes32 | Credit address nat bytes32
  | Transfer address nat bytes32 | StartRemittance address | PayRemittance address nat bytes32 bytes32
  | Deposit address address address nat | Withdraw address address address nat
  | PurchaseUsd address nat bytes32 nat nat | RecordReserve bytes32 nat | Harvest bytes32 address nat
  | Reconcile bytes32 nat | AddToken address bytes32 | SetTreasuryToken bytes32 address
  | SetConsumer address | SetTrusted address bool | AddDestination bytes32 | RemoveDestination bytes32
  | PauseVault | UnpauseVault

fun execVault :: "env \<Rightarrow> outside \<Rightarrow> address \<Rightarrow> address \<Rightarrow> vaultMsg \<Rightarrow> 'r chain_scheme \<Rightarrow> revert + 'r chain_scheme" where
  "execVault E W this sender (AdminCredit u a c) s = onVault (adminCredit sender u a c) s"
| "execVault E W this sender (AdminDebit u a c) s = onVault (adminDebit sender u a c) s"
| "execVault E W this sender (Credit u a c) s = onVault (credit sender u a c) s"
| "execVault E W this sender (Transfer to a c) s = onVault (transfer (isRegistered s) sender to a c) s"
| "execVault E W this sender (StartRemittance u) s = onVault (startRemittance (kycLevelOf s) sender u) s"
| "execVault E W this sender (PayRemittance u a c dest) s = payRemittance E this sender u a c dest s"
| "execVault E W this sender (Deposit d b token a) s = depositFromExternal E W this sender d b token a s"
| "execVault E W this sender (Withdraw u to token a) s = withdrawExternal E this sender u to token a s"
| "execVault E W this sender (PurchaseUsd u a c fee m) s = purchaseUsd E W this sender u a c fee m s"
| "execVault E W this sender (RecordReserve c a) s = onVault (recordPlatformReserve sender c a) s"
| "execVault E W this sender (Harvest c to bps) s = sbind (harvest E this sender c to bps s) (\<lambda>(_, t). Inr t)"
| "execVault E W this sender (Reconcile c n) s = onVault (reconcileTotalAssets sender c n) s"
| "execVault E W this sender (AddToken token c) s = onVault (addToken sender token c) s"
| "execVault E W this sender (SetTreasuryToken c tt) s = onVault (setCurrencyTreasuryToken sender c tt) s"
| "execVault E W this sender (SetConsumer a) s = onVault (setConsumerContract sender a) s"
| "execVault E W this sender (SetTrusted a b) s = onVault (setTrustedCounterparty sender a b) s"
| "execVault E W this sender (AddDestination c) s = onVault (addAllowedDestination sender c) s"
| "execVault E W this sender (RemoveDestination c) s = onVault (removeAllowedDestination sender c) s"
| "execVault E W this sender PauseVault s = onVault (pauseVault sender) s"
| "execVault E W this sender UnpauseVault s = onVault (unpauseVault sender) s"

datatype tokenMsg =
    Mint address nat | Burn address nat | BurnOwn nat | TransferToken address nat
  | ForcedTransfer address address nat | Freeze address nat | Unfreeze address nat
  | AddBlacklist address | RemoveBlacklist address | AddWhitelist address | RemoveWhitelist address
  | EnableWhitelist bool | SetTokenConsumer address | EnableCompliance bool | PauseToken | UnpauseToken

fun execToken ::
  "ozUpdate \<Rightarrow> (address \<Rightarrow> bool) \<Rightarrow> (address \<Rightarrow> bytes32) \<Rightarrow> address \<Rightarrow> tokenMsg \<Rightarrow> ttoken \<Rightarrow> revert + ttoken" where
  "execToken upd reg ctry sender (Mint to a) t = ttMint upd sender to a t"
| "execToken upd reg ctry sender (Burn u a) t = ttBurn upd sender u a t"
| "execToken upd reg ctry sender (BurnOwn a) t = ttBurnOwn upd sender a t"
| "execToken upd reg ctry sender (TransferToken to a) t = ttTransfer upd reg ctry sender to a t"
| "execToken upd reg ctry sender (ForcedTransfer u to a) t = ttForcedTransfer upd sender u to a t"
| "execToken upd reg ctry sender (Freeze u a) t = freezePartialTokens sender u a t"
| "execToken upd reg ctry sender (Unfreeze u a) t = unfreezePartialTokens sender u a t"
| "execToken upd reg ctry sender (AddBlacklist u) t = addToBlacklist sender u t"
| "execToken upd reg ctry sender (RemoveBlacklist u) t = removeFromBlacklist sender u t"
| "execToken upd reg ctry sender (AddWhitelist u) t = ttAddToWhitelist sender u t"
| "execToken upd reg ctry sender (RemoveWhitelist u) t = removeFromWhitelist sender u t"
| "execToken upd reg ctry sender (EnableWhitelist b) t = setWhitelistEnabled sender b t"
| "execToken upd reg ctry sender (SetTokenConsumer a) t = ttSetConsumerContract sender a t"
| "execToken upd reg ctry sender (EnableCompliance b) t = setComplianceEnabled sender b t"
| "execToken upd reg ctry sender PauseToken t = ttPause sender t"
| "execToken upd reg ctry sender UnpauseToken t = ttUnpause sender t"

end
