(* ===== verification/VaultBacking.thy ===== *)
theory VaultBacking
  imports VaultAdminProps
begin

text \<open>
  The tokens behind the Vault's ledger: deposits, withdrawals and purchases of USD move the recorded
  assets with the tokens, so that the yield \<open>harvest\<close> sees does not change, and the deposit pulls
  the tokens of any approved holder for whoever calls it. Then runs of the whole contract from
  \<open>initialize\<close> on.
\<close>

section \<open>Holdings and surplus\<close>

definition backing :: "'r chain_scheme \<Rightarrow> address \<Rightarrow> bytes32 \<Rightarrow> nat" where
  "backing s this c = (\<Sum>t\<leftarrow>currencyTokens (vault s) c. tokenBalance s t this)"

definition surplus :: "'r chain_scheme \<Rightarrow> address \<Rightarrow> bytes32 \<Rightarrow> int" where
  "surplus s this c = int (backing s this c) - int (totalAssets (vault s) c)"

lemma actualHoldings_sum: "actualHoldings s this ts n = Inr x \<Longrightarrow> x = n + (\<Sum>t\<leftarrow>ts. tokenBalance s t this)"
proof (induction ts arbitrary: n)
  case (Cons t ts)
  then show ?case by (auto simp: sbind_Inr_iff dest!: Cons.IH)
qed simp

text \<open>What \<open>harvestableYield\<close> returns is the surplus less the platform's reserve.\<close>

lemma harvestableYield_surplus:
  "harvestableYield this c s = Inr y \<Longrightarrow> int y = max 0 (surplus s this c - int (platformReserveAssets (vault s) c))"
  by (auto simp: harvestableYield_def surplus_def backing_def sbind_Inr_iff dest!: actualHoldings_sum split: if_splits)

lemma backing_move:
  assumes "registryOk (vault s)" and "currencyTokens (vault s') = currencyTokens (vault s)"
    and "\<And>x. x \<noteq> t \<Longrightarrow> tokenBalance s' x this = tokenBalance s x this"
  shows "int (backing s' this c) = int (backing s this c)
    + (if t \<in> set (currencyTokens (vault s) c) then int (tokenBalance s' t this) - int (tokenBalance s t this) else 0)"
proof -
  let ?ts = "currencyTokens (vault s) c"
  have d: "distinct ?ts" using assms(1) by (simp add: registryOk_def)
  have "(\<Sum>x\<in>set ?ts. tokenBalance s' x this) + (if t \<in> set ?ts then tokenBalance s t this else 0)
      = (\<Sum>x\<in>set ?ts. tokenBalance s x this) + (if t \<in> set ?ts then tokenBalance s' t this else 0)"
  proof (cases "t \<in> set ?ts")
    case True
    have "(\<Sum>x\<in>set ?ts - {t}. tokenBalance s' x this) = (\<Sum>x\<in>set ?ts - {t}. tokenBalance s x this)"
      by (rule sum.cong) (auto simp: assms(3))
    then show ?thesis using True by (simp add: sum.remove [of "set ?ts" t])
  next
    case False
    then have "(\<Sum>x\<in>set ?ts. tokenBalance s' x this) = (\<Sum>x\<in>set ?ts. tokenBalance s x this)"
      by (intro sum.cong refl assms(3)) auto
    then show ?thesis using False by simp
  qed
  then show ?thesis
    using d by (simp add: backing_def assms(2) sum_list_distinct_conv_sum_set del: of_nat_sum split: if_splits)
qed

lemma surplus_move:
  assumes "registryOk (vault s)" and "currencyTokens (vault s') = currencyTokens (vault s)"
    and "\<And>x. x \<noteq> t \<Longrightarrow> tokenBalance s' x this = tokenBalance s x this"
  shows "surplus s' this c = surplus s this c
    + (if t \<in> set (currencyTokens (vault s) c) then int (tokenBalance s' t this) - int (tokenBalance s t this) else 0)
    - (int (totalAssets (vault s') c) - int (totalAssets (vault s) c))"
  using backing_move [OF assms] by (simp add: surplus_def)

lemma heldIn_tokens [simp]: "heldIn (erc s, tts s) = tokenBalance s"
  by (simp add: heldIn_def tokenBalance_def fun_eq_iff split: option.split)

lemma tokenTransfer_other:
  "tokenTransfer E token f t a s = Inr s' \<Longrightarrow> x \<noteq> token \<Longrightarrow> tokenBalance s' x h = tokenBalance s x h"
  by (auto simp: tokenTransfer_def tokenBalance_def sbind_Inr_iff split: option.splits)

lemma tokenTransfer_out:
  assumes "tokenTransfer E token f t a s = Inr s'" and "deploymentOk s" and "ozLaw (oz E)" and "ozLaw (erc20 E token)"
    and "f \<noteq> 0" and "f \<noteq> t"
  shows "tokenBalance s' token f + a = tokenBalance s token f"
proof (cases "tts s token")
  case None
  then obtain b where b: "erc20 E token f t a (erc s token) = Some b" and s': "s' = s\<lparr>erc := (erc s)(token := b)\<rparr>"
    using assms(1) by (auto simp: tokenTransfer_def split: option.splits)
  show ?thesis
    using ozLaw_SomeD [OF assms(4) b] None assms(5,6) by (auto simp: s' tokenBalance_def moved_def Let_def)
next
  case (Some u)
  then obtain u' where u: "ttTransfer (oz E) (isRegistered s) (countryCodeOf s) f t a u = Inr u'"
    and s': "s' = s\<lparr>tts := (tts s)(token := Some u')\<rparr>"
    using assms(1) by (auto simp: tokenTransfer_def sbind_Inr_iff)
  have "frozenHeld u" using assms(2) Some by (auto simp: deploymentOk_def tokensOk_def)
  then show ?thesis
    using ttTransfer_InrD(1,2) [OF u assms(3)] Some assms(5,6) by (auto simp: s' tokenBalance_def moved_def Let_def)
qed

lemma burnBacking_other:
  assumes "burnBacking E this c u n s = Inr s'" and "deploymentOk s" and "ozLaw (oz E)" and "u \<noteq> h"
  shows "tokenBalance s' x h = tokenBalance s x h"
proof (cases "currencyTreasuryToken (vault s) c = 0")
  case True
  then show ?thesis using assms(1) by (simp add: burnBacking_def)
next
  case False
  let ?tt = "currencyTreasuryToken (vault s) c"
  obtain t t' where t: "tts s ?tt = Some t" and b: "ttBurn (oz E) this u n t = Inr t'"
    and s': "s' = s\<lparr>tts := (tts s)(?tt := Some t')\<rparr>"
    using assms(1) False by (auto simp: burnBacking_def onTT_Inr_iff)
  have "frozenHeld t" using assms(2) t by (auto simp: deploymentOk_def tokensOk_def)
  moreover have "tokenUpdate (oz E) (\<lambda>_. False) (\<lambda>_. 0) False u 0 n t = Inr t'"
    using b by (auto simp: ttBurn_def sbind_guard_Inr_iff)
  ultimately have "bal t' = moved u 0 n (bal t)"
    using tokenUpdate_bal(1) [OF _ assms(3)] by blast
  then show ?thesis using t assms(4) by (auto simp: s' tokenBalance_def moved_def Let_def split: option.split)
qed

section \<open>Entry points that move tokens\<close>

text \<open>
  \<open>movesTokens\<close>: the messages that bring backing tokens in or send them out for an account, other than
  sends of the Vault to itself; a purchase needs the token the router pays to be registered for
  USDC.
\<close>

definition movesTokens :: "env \<Rightarrow> vault \<Rightarrow> address \<Rightarrow> vaultMsg \<Rightarrow> bool" where
  "movesTokens E v this m \<longleftrightarrow> (case m of
      Deposit _ _ _ _ \<Rightarrow> True
    | Withdraw _ to _ _ \<Rightarrow> to \<noteq> this
    | PurchaseUsd u _ _ _ _ \<Rightarrow> u \<noteq> this \<and> usdcToken v \<in> set (currencyTokens v (idHash E ''USDC''))
    | _ \<Rightarrow> False)"

lemma registered_unique: "registryOk v \<Longrightarrow> t \<in> set (currencyTokens v c) \<Longrightarrow> t \<in> set (currencyTokens v d) \<longleftrightarrow> d = c"
  by (auto simp: registryOk_def)

lemma registered_iff: "registryOk v \<Longrightarrow> tokenCurrency v t \<noteq> 0 \<Longrightarrow> t \<in> set (currencyTokens v c) \<longleftrightarrow> c = tokenCurrency v t"
  by (auto simp: registryOk_def)

lemma okRegistry: "deploymentOk s \<Longrightarrow> registryOk (vault s)"
  by (simp add: deploymentOk_def vaultOk_def)

lemma credit_config: "creditAssets u c a v = Inr w \<Longrightarrow> sameConfig v w \<and> usdcToken w = usdcToken v"
  by (drule creditAssets_InrD) (simp add: setPool_def setShares_def sameConfig_def)

lemma debit_config: "debitAssets u c a v = Inr w \<Longrightarrow> sameConfig v w \<and> usdcToken w = usdcToken v"
  by (erule debitAssets_InrD) (simp add: setPool_def setShares_def sameConfig_def)

lemma deposit_surplus:
  assumes "depositFromExternal E W this sender d b token a s = Inr s'" and "deploymentOk s"
  shows "surplus s' this c = surplus s this c"
  using assms(1)
proof (rule deposit_InrD)
  let ?c = "tokenCurrency (vault s) token"
  fix s1 assume t: "tokenTransfer E token d this a s = Inr s1" and c: "?c \<noteq> 0"
    and up: "tokenBalance s token this \<le> tokenBalance s1 token this"
    and k: "onVault (creditAssets b ?c (tokenBalance s1 token this - tokenBalance s token this)) s1 = Inr s'"
  have v1: "vault s1 = vault s" by (rule tokenTransfer_vault [OF t])
  obtain w where w: "creditAssets b ?c (tokenBalance s1 token this - tokenBalance s token this) (vault s) = Inr w"
    and s': "s' = s1\<lparr>vault := w\<rparr>"
    using k v1 by (auto simp: onVault_Inr_iff)
  have "surplus s' this c = surplus s this c
      + (if token \<in> set (currencyTokens (vault s) c) then int (tokenBalance s' token this) - int (tokenBalance s token this) else 0)
      - (int (totalAssets (vault s') c) - int (totalAssets (vault s) c))"
    by (rule surplus_move [OF okRegistry [OF assms(2)]])
      (use credit_config [OF w] tokenTransfer_other [OF t] in \<open>simp_all add: s' sameConfig_def\<close>)
  then show ?thesis
    using registered_iff [OF okRegistry [OF assms(2)] c, of c] creditAssets_totalAssets [OF w, of c] up by (simp add: s')
qed

lemma withdraw_surplus:
  assumes "withdrawExternal E this sender u to token a s = Inr s'" and "deploymentOk s" and "ozLaw (oz E)"
    and "ozLaw (erc20 E token)" and "this \<noteq> 0" and "to \<noteq> this"
  shows "surplus s' this c = surplus s this c"
  using assms(1)
proof (rule withdraw_InrD)
  let ?c = "tokenCurrency (vault s) token"
  fix v assume d: "debitAssets u ?c a (vault s) = Inr v" and c: "?c \<noteq> 0"
    and t: "tokenTransfer E token this to a (s\<lparr>vault := v\<rparr>) = Inr s'"
  have ok: "deploymentOk (s\<lparr>vault := v\<rparr>)"
    using assms(2) debitAssets_vaultOk [OF d] by (simp add: deploymentOk_def)
  have v: "vault s' = v" using tokenTransfer_vault [OF t] by simp
  have out: "tokenBalance s' token this + a = tokenBalance s token this"
    using tokenTransfer_out [OF t ok assms(3,4,5)] assms(6) by simp
  have "surplus s' this c = surplus s this c
      + (if token \<in> set (currencyTokens (vault s) c) then int (tokenBalance s' token this) - int (tokenBalance s token this) else 0)
      - (int (totalAssets (vault s') c) - int (totalAssets (vault s) c))"
    by (rule surplus_move [OF okRegistry [OF assms(2)]])
      (use debit_config [OF d] tokenTransfer_other [OF t] in \<open>simp_all add: v sameConfig_def\<close>)
  then show ?thesis
    using registered_iff [OF okRegistry [OF assms(2)] c, of c] debitAssets_totalAssets [OF d, of c] out by (simp add: v)
qed

lemma sum_list_two:
  fixes f g :: "'a \<Rightarrow> int"
  assumes "distinct ts" and "p \<noteq> q" and "\<And>x. x \<noteq> p \<Longrightarrow> x \<noteq> q \<Longrightarrow> f x = g x"
  shows "(\<Sum>x\<leftarrow>ts. f x) = (\<Sum>x\<leftarrow>ts. g x) + (if p \<in> set ts then f p - g p else 0) + (if q \<in> set ts then f q - g q else 0)"
  using assms(1)
proof (induction ts)
  case (Cons x ts)
  then show ?case
    using assms(2) assms(3) [of x] by (cases "x = p"; cases "x = q") auto
qed simp

lemma purchase_surplus:
  assumes "purchaseUsd E W this sender u n c fee m s = Inr s'" and "deploymentOk s" and "ozLaw (oz E)" and "routerLaw W"
    and "u \<noteq> this" and "usdcToken (vault s) \<in> set (currencyTokens (vault s) (idHash E ''USDC''))"
  shows "surplus s' this d = surplus s this d"
proof -
  let ?in = "firstToken (vault s) c" and ?out = "usdcToken (vault s)" and ?u = "idHash E ''USDC''"
  obtain v s2 out s3 where f: "?in \<noteq> 0" and deb: "debitAssets u c n (vault s) = Inr v"
    and b: "burnBacking E this c u n (s\<lparr>vault := v\<rparr>) = Inr s2"
    and w: "swapTokens W \<lparr>tokenIn = ?in, tokenOut = usdcToken (vault s2), poolFee = fee, payer = this,
        recipient = this, amountIn = n, amountOutMinimum = m\<rparr> s2 = Inr (out, s3)"
    and k: "onVault (creditAssets u ?u out) s3 = Inr s'"
    using assms(1) by (rule purchase_InrD)
  have v: "vault s2 = v" "vault s3 = v"
    using burnBacking_vault [OF b] swapTokens_vault [OF w] by simp_all
  have ok: "deploymentOk (s\<lparr>vault := v\<rparr>)"
    using assms(2) debitAssets_vaultOk [OF deb] by (simp add: deploymentOk_def)
  have keep: "tokenBalance s2 x this = tokenBalance s x this" for x
    using burnBacking_other [OF b ok assms(3,5)] by simp
  obtain k' where k': "creditAssets u ?u out v = Inr k'" and s': "s' = s3\<lparr>vault := k'\<rparr>"
    using k v by (auto simp: onVault_Inr_iff)
  have conf: "currencyTokens k' = currencyTokens (vault s)" "usdcToken v = ?out"
    using debit_config [OF deb] credit_config [OF k'] by (auto simp: sameConfig_def)
  obtain T where x: "swapExact W (swapRouter v) \<lparr>tokenIn = ?in, tokenOut = ?out, poolFee = fee, payer = this,
        recipient = this, amountIn = n, amountOutMinimum = m\<rparr> (erc s2, tts s2) = Some (out, T)"
    and s3: "s3 = s2\<lparr>erc := fst T, tts := snd T\<rparr>"
    using w v conf by (auto simp: swapTokens_def split: option.splits)
  have held: "tokenBalance s' t this = heldIn T t this" for t
    by (simp add: s' s3 tokenBalance_def heldIn_def split: option.split)
  note law = routerLawD [OF assms(4) x, simplified, unfolded keep]
  have r: "registryOk (vault s)" by (rule okRegistry [OF assms(2)])
  have mem: "?in \<in> set (currencyTokens (vault s) d) \<longleftrightarrow> d = c" "?out \<in> set (currencyTokens (vault s) d) \<longleftrightarrow> d = ?u"
    using registered_unique [OF r, of ?in c d] registered_unique [OF r assms(6), of d] f
    by (auto simp: firstToken_def split: list.splits)
  have cs: "currencyTokens (vault s') = currencyTokens (vault s)" by (simp add: s' conf)
  have push: "int (\<Sum>t\<leftarrow>ts. h t) = (\<Sum>t\<leftarrow>ts. int (h t))" for ts :: "address list" and h
    by (induction ts) simp_all
  have "int (backing s' this d) = int (backing s this d)
      + (if d = c then int (tokenBalance s' ?in this) - int (tokenBalance s ?in this) else 0)
      + (if d = ?u then int (tokenBalance s' ?out this) - int (tokenBalance s ?out this) else 0)"
    unfolding backing_def cs push mem(1) [symmetric] mem(2) [symmetric]
    by (rule sum_list_two) (use r law(1,5) in \<open>simp_all add: registryOk_def held\<close>)
  moreover have "int (totalAssets (vault s') d) = int (totalAssets (vault s) d) - (if d = c then int n else 0) + (if d = ?u then int out else 0)"
    using debitAssets_totalAssets [OF deb, of d] creditAssets_totalAssets [OF k', of d] by (auto simp: s')
  ultimately show ?thesis
    using law(3,4) by (auto simp: surplus_def held)
qed

text \<open>
  C5. A deposit, a withdrawal to another address than the Vault itself, and a purchase of USD for another
  account than the Vault, when the Vault's \<open>usdcToken\<close> is registered as a backing token of USDC, change the
  recorded assets of each currency by exactly what the Vault's holding of its backing tokens changes, also
  for tokens that charge a fee on a transfer in, provided the tokens keep the ERC-20 accounts and the router
  pays into the Vault (\<open>ozLaw\<close>, \<open>routerLaw\<close>): what \<open>harvest\<close> may distribute as yield is the same before and
  after, in every currency, whatever rate the router gave. The three conditions are needed: a withdrawal to the
  Vault debits its payer and moves no token, a purchase for the Vault itself burns tokens the Vault holds, and the router's payment
  in a token that is not registered backs nothing.
\<close>

theorem tokens_move_with_ledger:
  assumes "execVault E W this sender m s = Inr s'" and "movesTokens E (vault s) this m" and "deploymentOk s"
    and "ozLaw (oz E)" and "\<And>t. ozLaw (erc20 E t)" and "routerLaw W" and "this \<noteq> 0"
  shows "surplus s' this c = surplus s this c"
  using assms(1,2) deposit_surplus [OF _ assms(3)] withdraw_surplus [OF _ assms(3,4,5,7)]
    purchase_surplus [OF _ assms(3,4,6)]
  by (cases m) (simp_all add: movesTokens_def)

section \<open>Every call of every sender\<close>

text \<open>
  C3. In every state that a deployment of the contracts can reach by any calls of any senders, the
  shares of the holders of each currency add up to its \<open>totalShares\<close>, so that the balances never
  exceed the recorded assets; every backing token stands once in the list of the one currency it
  backs; the list of destinations holds the allowed ones once each; and no treasury token has more
  of a balance frozen than is held.
\<close>

theorem deployment_in_order:
  assumes "deployed E this s" and "ozLaw (oz E)"
  shows "vaultOk (vault s) \<and> tokensOk (tts s) \<and> (\<forall>c. (\<Sum>u\<in>UNIV. balanceOf (vault s) u c) \<le> totalAssets (vault s) c)"
proof -
  from assms have "deploymentOk s"
  proof (induction rule: deployed.induct)
    case (start admin router usdc s)
    then show ?case by (simp add: deploymentOk_def initializeVault_ok tokensOk_def)
  next
    case (call s W sender m s')
    then show ?case by (blast intro: execVault_ok)
  next
    case (new_token s a admin issue t)
    then show ?case by (simp add: deploymentOk_def tokensOk_upd initializeToken_frozenHeld)
  next
    case (token_call s a sender m s')
    then show ?case by (blast intro: onTT_ok execToken_frozenHeld)
  next
    case (token_from s a f to n s')
    then show ?case by (blast intro: onTT_ok ttTransfer_InrD(3))
  next
    case (vault_roles s)
    then show ?case by (simp add: deploymentOk_def roles_ok)
  next
    case (token_roles s a t)
    then show ?case
      by (simp add: deploymentOk_def tokensOk_upd token_roles_ok tokensOkD [of "tts s" a])
  next
    case (outside s s')
    then show ?case by (simp add: deploymentOk_def)
  qed
  then show ?thesis
    unfolding deploymentOk_def by (auto intro!: solvency simp: vaultOk_def)
qed

text \<open>
  C4. A call of the Vault, whoever sends it, lowers a consumer's or merchant's balance only when it names that
  account as the payer: its own transfer, or an executor's debit, withdrawal, purchase or (while the
  account is locked for it) remittance; besides these only the administrator's
  \<open>reconcileTotalAssets\<close> of the currency does. Deposits, credits, harvests and every other call leave
  every balance of every currency where it was or raise it.
\<close>

theorem balance_lowered_only_by_payer:
  assumes "execVault E W this sender m s = Inr s'" and "vaultOk (vault s)"
    and "balanceOf (vault s') u c < balanceOf (vault s) u c"
  shows "takesFrom (vault s) sender m u c"
proof (rule ccontr)
  assume n: "\<not> takesFrom (vault s) sender m u c"
  have "neverLower (vault s) (vault s') u c"
  proof (cases m)
    case (Transfer to a d)
    then show ?thesis
      using assms(1) n by (auto simp: takesFrom_def onVault_Inr_iff intro: neverLower_transfer [OF _ assms(2)])
  next
    case (AdminDebit w a d)
    then show ?thesis
      using assms(1) n by (auto simp: takesFrom_def onVault_Inr_iff intro: adminDebit_lower [OF _ assms(2)])
  next
    case (PayRemittance w a d dest)
    then show ?thesis
      using assms(1) n payRemittance_lower [OF _ assms(2)] by (simp add: takesFrom_def)
  next
    case (Withdraw w to token a)
    then show ?thesis
      using assms(1) n withdraw_lower [OF _ assms(2)] by (simp add: takesFrom_def)
  next
    case (PurchaseUsd w a d fee k)
    then show ?thesis
      using assms(1) n purchase_lower [OF _ assms(2)] by (simp add: takesFrom_def)
  next
    case (Reconcile d k)
    then show ?thesis
      using assms(1) n by (auto simp: takesFrom_def onVault_Inr_iff intro: reconcile_lower)
  next
    case (Harvest d to bps)
    then show ?thesis
      using assms(1) harvest_balance(1) by (auto simp: sbind_Inr_iff neverLower_def)
  next
    case (Deposit d b token a)
    then show ?thesis using assms(1) by (simp add: deposit_lower)
  qed (insert assms(1), simp only: execVault.simps, erule onVault_lower, erule all_lower)+
  then show False using assms(3) by (simp add: neverLower_def)
qed

section \<open>Anyone can deposit approved tokens for themselves\<close>

lemma moved_self: "f \<noteq> 0 \<Longrightarrow> f \<noteq> t \<Longrightarrow> moved f t a b f = b f - a"
  by (simp add: moved_def Let_def)

text \<open>
  C40. Tokens whose holder has approved the Vault can be deposited by any other account to its own credit:
  while the Vault is not paused, the call succeeds for every caller, takes the holder's tokens and raises
  the caller's balance by their full amount. This is for a plain ERC-20 backing token (no treasury token), a currency
  where a share is worth one unit, amounts that do not overflow 256 bits, and a holder other than the Vault.
\<close>

theorem deposit_takes_approved_tokens:
  assumes "cashSound (vault s) c" and "c = tokenCurrency (vault s) token" and "c \<noteq> 0" and "token \<noteq> 0"
    and "\<not> vaultPaused (vault s)" and "tts s token = None" and "ozLaw (erc20 E token)"
    and "approved W token holder this a" and "a \<le> erc s token holder"
    and "holder \<noteq> 0" and "holder \<noteq> this" and "this \<noteq> 0" and "a \<noteq> 0" and "caller \<noteq> 0"
    and "(totalAssets (vault s) c + a) * (totalAssets (vault s) c + a) < uintLimit"
  shows "\<exists>s'. execVault E W this caller (Deposit holder caller token a) s = Inr s'
    \<and> balanceOf (vault s') caller c = balanceOf (vault s) caller c + a
    \<and> tokenBalance s' token holder + a = tokenBalance s token holder"
proof -
  let ?v = "vault s" and ?b = "moved holder this a (erc s token)"
  let ?s1 = "s\<lparr>erc := (erc s)(token := ?b)\<rparr>" and ?A = "totalAssets (vault s) c + a"
  have t: "tokenTransfer E token holder this a s = Inr ?s1"
    using assms(6) ozLaw_ok [OF assms(7,10), of a "erc s token" this] assms(9) by (simp add: tokenTransfer_def)
  have got: "tokenBalance ?s1 token this = tokenBalance s token this + a"
    using assms(6) moved_ge [OF assms(12,11)] by (simp add: tokenBalance_def)
  have left: "tokenBalance ?s1 token holder + a = tokenBalance s token holder"
    using assms(6,9) moved_self [OF assms(10,11)] by (simp add: tokenBalance_def)
  have pool: "poolOk ?v c" "totalShares ?v c = totalAssets ?v c"
    using assms(1) by (auto simp: cashSound_def parity_def)
  have "?A \<le> ?A * ?A" by (rule le_square)
  moreover have "a * totalAssets ?v c \<le> ?A * ?A" by (intro mult_le_mono; simp)
  ultimately have room: "?A < uintLimit" "a * totalAssets ?v c < uintLimit"
    using assms(15) by linarith+
  have m: "mintedShares ?v c a = a" using pool(2) by (simp add: mintedShares_def)
  obtain w where w: "creditAssets caller c a ?v = Inr w"
    using creditAssets_ok [of ?v caller c a] m room pool poolOk_le [OF pool(1), of caller] by auto
  have "balanceOf w caller c = balanceOf ?v caller c + a"
    using cash.cred_exact [OF w assms(1), of caller] by simp
  moreover have "execVault E W this caller (Deposit holder caller token a) s = Inr (?s1\<lparr>vault := w\<rparr>)"
    using assms(2-5,8,10,13,14) t got w by (simp add: depositFromExternal_def sub256_def onVault_def)
  ultimately show ?thesis using left by auto
qed

section \<open>A run of the contract\<close>

definition deploy0 :: "unit chain_scheme" where
  "deploy0 = \<lparr>net = [], clock = 0,
     vault = emptyVault\<lparr>isAdmin := (\<lambda>_. False)(2 := True), isExecutor := (\<lambda>_. False)(2 := True),
       isSettlement := (\<lambda>_. False)(2 := True), swapRouter := 9, usdcToken := 4,
       isAllowedDestination := (\<lambda>_. False)(idExample ''ZW'' := True), allowedDestinations := [idExample ''ZW'']\<rparr>,
     erc = (\<lambda>t u. if t = 8 \<and> u = 10 then 1600 else 0), tts = (\<lambda>_. None), isRegistered = (\<lambda>_. False),
     countryCodeOf = (\<lambda>_. 0), kycLevelOf = (\<lambda>_. 0), txCount = 0\<rparr>"

lemma deploy0_reached: "deployed demoEnv 1 deploy0"
  by (rule deployed.start [of demoEnv 2 9 4])
    (simp_all add: deploy0_def initializeVault_def addDestination_def emptyVault_def idExample_def)

definition withTokens :: "unit chain_scheme" where
  "withTokens = deploy0\<lparr>vault := (vault deploy0)\<lparr>tokenCurrency := (\<lambda>_. 0)(4 := usdcHash, 8 := zarHash),
     currencyTokens := (\<lambda>_. [])(usdcHash := [4], zarHash := [8])\<rparr>\<rparr>"

lemma withTokens_reached: "deployed demoEnv 1 withTokens"
proof -
  let ?s = "deploy0\<lparr>vault := (vault deploy0)\<lparr>tokenCurrency := (\<lambda>_. 0)(4 := usdcHash), currencyTokens := (\<lambda>_. [])(usdcHash := [4])\<rparr>\<rparr>"
  have "execVault demoEnv outsideExample 1 2 (AddToken 4 usdcHash) deploy0 = Inr ?s"
    by (simp add: onVault_def addToken_def deploy0_def emptyVault_def)
  from deployed.call [OF deploy0_reached routerLaw_example this] have s: "deployed demoEnv 1 ?s" .
  have "execVault demoEnv outsideExample 1 2 (AddToken 8 zarHash) ?s = Inr withTokens"
    by (simp add: onVault_def addToken_def deploy0_def emptyVault_def withTokens_def)
  from deployed.call [OF s routerLaw_example this] show ?thesis .
qed

lemma withTokens_sel [simp]:
  "vaultPaused (vault withTokens) = False" "shares (vault withTokens) u c = 0" "totalShares (vault withTokens) c = 0"
  "totalAssets (vault withTokens) c = 0" "tokenCurrency (vault withTokens) 8 = zarHash" "tts withTokens = (\<lambda>_. None)"
  "tokenCurrency (vault withTokens) 4 = usdcHash"
  "currencyTokens (vault withTokens) zarHash = [8]" "currencyTokens (vault withTokens) usdcHash = [4]"
  "erc withTokens t u = (if t = 8 \<and> u = 10 then 1600 else 0)" "swapRouter (vault withTokens) = 9"
  "usdcToken (vault withTokens) = 4" "isExecutor (vault withTokens) 2" "isAdmin (vault withTokens) 2"
  "currencyTreasuryToken (vault withTokens) c = 0"
  by (simp_all add: withTokens_def deploy0_def emptyVault_def)

definition deposited :: "unit chain_scheme" where
  "deposited = withTokens\<lparr>erc := (erc withTokens)(8 := moved 10 1 1600 (erc withTokens 8)),
     vault := setPool zarHash 1600 1600 (setShares 10 zarHash 1600 (vault withTokens))\<rparr>"

lemma deposit_run: "execVault demoEnv outsideExample 1 77 (Deposit 10 10 8 1600) withTokens = Inr deposited"
  by (simp add: depositFromExternal_def deposited_def tokenTransfer_def ozExample_def tokenBalance_def moved_def
      outsideExample_def onVault_def creditAssets_def convertToShares_def add256_def sub256_def uintLimit_def)

lemma deposited_sel [simp]:
  "shares (vault deposited) u c = (if u = 10 \<and> c = zarHash then 1600 else 0)"
  "totalShares (vault deposited) c = (if c = zarHash then 1600 else 0)"
  "totalAssets (vault deposited) c = (if c = zarHash then 1600 else 0)"
  "currencyTokens (vault deposited) zarHash = [8]" "currencyTokens (vault deposited) usdcHash = [4]"
  "erc deposited t u = (if t = 8 \<and> u = 1 then 1600 else 0)" "swapRouter (vault deposited) = 9"
  "usdcToken (vault deposited) = 4" "isExecutor (vault deposited) 2" "tts deposited = (\<lambda>_. None)"
  "currencyTreasuryToken (vault deposited) c = 0"
  by (simp_all add: deposited_def setPool_def setShares_def withTokens_def deploy0_def emptyVault_def moved_def)

lemmas deposited_tokens [simp] = deposited_sel(4,5) [unfolded hash_values]

definition bought :: "unit chain_scheme" where
  "bought = deposited\<lparr>erc := (erc deposited)(8 := (erc deposited 8)(1 := 800), 4 := (erc deposited 4)(1 := 50)),
     vault := setPool usdcHash 50 50 (setShares 10 usdcHash 50
       (setPool zarHash 800 800 (setShares 10 zarHash 800 (vault deposited))))\<rparr>"

lemma purchase_run: "execVault demoEnv outsideExample 1 2 (PurchaseUsd 10 800 zarHash 3000 50) deposited = Inr bought"
proof -
  have d: "debitAssets 10 zarHash 800 (vault deposited) = Inr (setPool zarHash 800 800 (setShares 10 zarHash 800 (vault deposited)))"
    by (simp add: debitAssets_def convertToAssets_def convertToShares_def mul256_def sub256_def uintLimit_def)
  let ?v = "setPool zarHash 800 800 (setShares 10 zarHash 800 (vault deposited))"
  have v: "currencyTreasuryToken ?v zarHash = 0" "usdcToken ?v = 4" "swapRouter ?v = 9"
    by (simp_all add: setPool_def setShares_def del: hash_values)
  have k: "creditAssets 10 usdcHash 50 ?v = Inr (setPool usdcHash 50 50 (setShares 10 usdcHash 50 ?v))"
    by (simp add: creditAssets_def convertToShares_def add256_def uintLimit_def)
  have u: "idHash demoEnv ''USDC'' = usdcHash" by (simp add: idExample_def)
  show ?thesis
    using d v k u by (simp add: purchaseUsd_def firstToken_def onVault_def burnBacking_def swapTokens_def outsideExample_def
        swapExample_def bought_def tokenBalance_def Let_def)
qed

lemma run_reached: "deployed demoEnv 1 deposited" "deployed demoEnv 1 bought"
proof -
  show d: "deployed demoEnv 1 deposited"
    by (rule deployed.call [OF withTokens_reached routerLaw_example deposit_run])
  show "deployed demoEnv 1 bought"
    by (rule deployed.call [OF d routerLaw_example purchase_run])
qed

lemma deposited_ok: "vaultOk (vault deposited)" "deploymentOk deposited"
proof -
  have w: "vaultOk (vault withTokens)"
    by (auto simp: vaultOk_def poolOk_def registryOk_def destinationsOk_def withTokens_def deploy0_def emptyVault_def
        idExample_def)
  then have "deploymentOk withTokens" by (simp add: deploymentOk_def tokensOk_def)
  from execVault_ok [OF deposit_run this ozLaw_demo(1) routerLaw_example] show "deploymentOk deposited" .
  then show "vaultOk (vault deposited)" by (simp add: deploymentOk_def)
qed

lemma bought_balance: "balanceOf (vault bought) 10 zarHash = 800" "balanceOf (vault deposited) 10 zarHash = 1600"
  by (simp_all add: bought_def balanceOf_def assetsOf_def)

theorem balance_lowered_only_by_payer_witness:
  "balanceOf (vault bought) 10 zarHash < balanceOf (vault deposited) 10 zarHash \<and>
   takesFrom (vault deposited) 2 (PurchaseUsd 10 800 zarHash 3000 50) 10 zarHash"
proof -
  have "balanceOf (vault bought) 10 zarHash < balanceOf (vault deposited) 10 zarHash"
    unfolding bought_balance by simp
  then show ?thesis
    using balance_lowered_only_by_payer [OF purchase_run deposited_ok(1)] by blast
qed

theorem tokens_move_with_ledger_witness:
  "surplus bought 1 zarHash = surplus deposited 1 zarHash \<and> surplus bought 1 usdcHash = surplus deposited 1 usdcHash
   \<and> totalAssets (vault bought) usdcHash = 50 \<and> totalAssets (vault deposited) usdcHash = 0"
proof -
  have "surplus bought 1 c = surplus deposited 1 c" for c
    by (rule tokens_move_with_ledger [OF purchase_run _ deposited_ok(2) _ _ routerLaw_example])
      (simp_all add: movesTokens_def idExample_def ozLaw_example)
  then show ?thesis by (simp add: bought_def)
qed

theorem deployment_in_order_witness:
  "deployed demoEnv 1 bought \<and> vaultOk (vault bought) \<and> (\<Sum>u\<in>UNIV. balanceOf (vault bought) u zarHash) \<le> 800"
proof -
  have "totalAssets (vault bought) zarHash = 800" by (simp add: bought_def)
  then show ?thesis
    using deployment_in_order [OF run_reached(2) ozLaw_demo(1)] run_reached(2) by metis
qed

theorem deposit_takes_approved_tokens_witness:
  "\<exists>s'. execVault demoEnv outsideExample 1 77 (Deposit 10 77 8 1600) withTokens = Inr s'
    \<and> balanceOf (vault s') 77 zarHash = balanceOf (vault withTokens) 77 zarHash + 1600
    \<and> tokenBalance s' 8 10 + 1600 = tokenBalance withTokens 8 10"
  by (rule deposit_takes_approved_tokens)
    (simp_all add: cashSound_def poolOk_def parity_def ozLaw_example outsideExample_def uintLimit_def)

end
