(* ===== verification/Json.thy ===== *)
theory Json
  imports JsText
begin

text \<open>
  JSON values as \<open>JSON.parse\<close> builds them, and what the services do with a value of unknown shape:
  property access, \<open>??\<close>, truth, \<open>Number(v)\<close> and \<open>String(v)\<close>, with the text of a double
  (\<open>Number.prototype.toString\<close>: the shortest digits that read back as the same number).
\<close>

datatype json = JsNull | JsBool bool | JsNum rat | JsStr string | JsArr "json list" | JsObj "(string \<times> json) list"

section \<open>The text of a number\<close>

text \<open>The position of the decimal point: \<open>10 ^ (n - 1) \<le> x < 10 ^ n\<close> for \<open>0 < x\<close>.\<close>

definition decPoint :: "rat \<Rightarrow> int" where
  "decPoint x = (if 1 \<le> x then int (length (showNat (nat \<lfloor>x\<rfloor>)))
     else 1 - int (length (showNat (nat (\<lceil>1 / x\<rceil> - 1)))))"

definition scale10 :: "int \<Rightarrow> rat" where
  "scale10 n = (if 0 \<le> n then 10 ^ nat n else 1 / 10 ^ nat (- n))"

text \<open>The nearest number of \<open>k\<close> significant digits, and the fewest digits that read back as \<open>x\<close>.\<close>

definition nearestDigits :: "rat \<Rightarrow> nat \<Rightarrow> int" where
  "nearestDigits x k = rne (x * scale10 (int k - decPoint x))"

definition readsBack :: "rat \<Rightarrow> nat \<Rightarrow> bool" where
  "readsBack x k \<longleftrightarrow> fl (of_int (nearestDigits x k) * scale10 (decPoint x - int k)) = x"

definition shortestLength :: "rat \<Rightarrow> nat" where
  "shortestLength x = orElse (find (readsBack x) [1..<17]) 17"

definition dropZeros :: "string \<Rightarrow> string" where
  "dropZeros s = rev (dropWhile (\<lambda>c. c = CHR ''0'') (rev s))"

definition positiveText :: "rat \<Rightarrow> string" where
  "positiveText x =
    (let k0 = shortestLength x; all = showNat (nat (nearestDigits x k0)); d = dropZeros all;
         n = decPoint x + int (length all) - int k0; k = int (length d) in
     if k \<le> n \<and> n \<le> 21 then d @ replicate (nat (n - k)) CHR ''0''
     else if 0 < n \<and> n \<le> 21 then take (nat n) d @ ''.'' @ drop (nat n) d
     else if - 6 < n \<and> n \<le> 0 then ''0.'' @ replicate (nat (- n)) CHR ''0'' @ d
     else take 1 d @ (if k = 1 then [] else ''.'' @ drop 1 d) @ ''e'' @ (if 0 < n then ''+'' else ''-'') @ showInt \<bar>n - 1\<bar>)"

definition numberText :: "rat \<Rightarrow> string" where
  "numberText x = (if x = 0 then ''0'' else if x < 0 then ''-'' @ positiveText (- x) else positiveText x)"

section \<open>Values of unknown shape\<close>

text \<open>\<open>String(v)\<close>; an array is its elements joined by commas, null elements as empty text.\<close>

fun jsString :: "json \<Rightarrow> string" where
  "jsString JsNull = ''null''"
| "jsString (JsBool b) = (if b then ''true'' else ''false'')"
| "jsString (JsNum x) = numberText x"
| "jsString (JsStr s) = s"
| "jsString (JsArr xs) = (case map (\<lambda>x. if x = JsNull then [] else jsString x) xs of
     [] \<Rightarrow> [] | y # ys \<Rightarrow> y @ concat (map (\<lambda>t. '','' @ t) ys))"
| "jsString (JsObj _) = ''[object Object]''"

text \<open>\<open>Number(v)\<close>; \<open>None\<close> is NaN.\<close>

definition jsNumber :: "json \<Rightarrow> rat option" where
  "jsNumber v = (case v of JsNull \<Rightarrow> Some 0 | JsBool b \<Rightarrow> Some (if b then 1 else 0) | JsNum x \<Rightarrow> Some x
     | JsStr s \<Rightarrow> jsNumberOf s | JsArr _ \<Rightarrow> jsNumberOf (jsString v) | JsObj _ \<Rightarrow> None)"

definition truthy :: "json option \<Rightarrow> bool" where
  "truthy v = (case v of None \<Rightarrow> False | Some JsNull \<Rightarrow> False | Some (JsBool b) \<Rightarrow> b | Some (JsNum x) \<Rightarrow> x \<noteq> 0
     | Some (JsStr s) \<Rightarrow> s \<noteq> [] | _ \<Rightarrow> True)"

text \<open>
  \<open>o.k\<close>, \<open>None\<close> when undefined: of two properties of one name the last counts. The services access
  properties of null only behind \<open>?.\<close> or \<open>?? {}\<close>.
\<close>

definition field :: "json option \<Rightarrow> string \<Rightarrow> json option" where
  "field v k = (case v of Some (JsObj kvs) \<Rightarrow> map_of (rev kvs) k | _ \<Rightarrow> None)"

text \<open>The left operand of \<open>??\<close>: undefined and null count as absent.\<close>

definition present :: "json option \<Rightarrow> json option" where
  "present v = (case v of Some JsNull \<Rightarrow> None | _ \<Rightarrow> v)"

lemma present_simps [simp]: "present None = None" "present (Some JsNull) = None" "present (Some (JsStr s)) = Some (JsStr s)"
  "present (Some (JsNum x)) = Some (JsNum x)" "present (Some (JsObj kvs)) = Some (JsObj kvs)"
  "present (Some (JsArr xs)) = Some (JsArr xs)" "present (Some (JsBool b)) = Some (JsBool b)"
  by (simp_all add: present_def)

lemma field_obj [simp]: "field (Some (JsObj kvs)) k = map_of (rev kvs) k" "field None k = None"
  by (simp_all add: field_def)

end
