(* ===== verification/Catalogue.thy ===== *)
theory Catalogue
  imports AuthRoutes Json
begin

text \<open>
  \<open>productCatalogService.ts\<close> and the product routes of \<open>merchantSelf.routes.ts\<close>: a merchant's catalogue read
  from an external listing (the Flash PIM adapter), its upsert into \<open>products\<close>, and the products a
  merchant keeps by hand. The state adds the catalogue columns of \<open>merchants\<close>, what each URL answers,
  and the listing bundled with the server. A row's identifier (\<open>gen_random_uuid()\<close>) is an argument,
  and an identifier in a path is taken to be well formed.
\<close>

section \<open>The data\<close>

record catalogConfig =
  cgUrl :: "string option"
  cgAdapter :: "string option"
  cgSynced :: "int option"

text \<open>What a URL answers: JSON, a status that is not ok, or an exception (network, timeout, malformed JSON).\<close>

datatype feedReply = FeedJson json | FeedStatus nat | FeedError string

record catalogDb = authDb +
  catalogs :: "string \<Rightarrow> catalogConfig"
  feeds :: "string \<Rightarrow> feedReply"
  bundledListing :: json
  validityDays :: "string \<Rightarrow> int option"

record mappedProduct =
  mpExternal :: string
  mpName :: string
  mpDescription :: "string option"
  mpDelivery :: string
  mpCountry :: string
  mpCurrency :: string
  mpFixed :: bool
  mpPrice :: "int option"
  mpMin :: "int option"
  mpMax :: "int option"
  mpCategory :: "string option"
  mpBrand :: "string option"
  mpBarcode :: "string option"
  mpSupplier :: "string option"
  mpActive :: bool

section \<open>Reading the listing\<close>

definition countryCurrencyTable :: "(string \<times> string) list" where
  "countryCurrencyTable = [(''ZA'', ''ZAR''), (''MW'', ''MWK''), (''ZW'', ''ZWG''), (''US'', ''USD''), (''GB'', ''GBP'')]"

definition deliveryFromCategory :: "string option \<Rightarrow> string" where
  "deliveryFromCategory category = (let c = toLower (orElse category []) in
     if hasText c ''voucher'' \<or> hasText c ''evoucher'' then ''VIRTUAL''
     else if hasText c ''airtime'' \<or> hasText c ''data'' \<or> hasText c ''electric'' then ''VIRTUAL'' else ''VIRTUAL'')"

text \<open>
  The callback of \<open>ids.find\<close>: it throws on a null entry and on a \<open>type\<close> that is not a string.
\<close>

definition idMatches :: "string \<Rightarrow> json \<Rightarrow> failure + bool" where
  "idMatches prefer i =
    (if i = JsNull then Inl (plainErr ''Cannot read properties of null (reading type)'')
     else case orElse (present (field (Some i) ''type'')) (JsStr []) of
       JsStr t \<Rightarrow> Inr (hasText (toLower t) (toLower prefer))
     | _ \<Rightarrow> Inl (plainErr ''(intermediate value).toLowerCase is not a function''))"

fun findId :: "string \<Rightarrow> json list \<Rightarrow> failure + json option" where
  "findId prefer [] = Inr None"
| "findId prefer (i # is) = sbind (idMatches prefer i) (\<lambda>b. if b then Inr (Some i) else findId prefer is)"

definition pickIdentifier :: "json option \<Rightarrow> string \<Rightarrow> failure + string option" where
  "pickIdentifier ids prefer = (case ids of
      Some (JsArr xs) \<Rightarrow> sbind (findId prefer xs) (\<lambda>hit.
        let v = (case hit of None \<Rightarrow> None | Some h \<Rightarrow> field (Some h) ''value'') in
        if truthy v then Inr (map_option jsString v)
        else (let w = field (headOpt xs) ''value'' in Inr (if truthy w then map_option jsString w else None)))
    | _ \<Rightarrow> Inr None)"

definition parseMajor :: "json option \<Rightarrow> rat option" where
  "parseMajor v = (case present v of None \<Rightarrow> None | Some j \<Rightarrow>
     if j = JsStr [] then None
     else case jsNumber j of None \<Rightarrow> None | Some n \<Rightarrow> if 0 < n then Some n else None)"

definition firstSome :: "'a option \<Rightarrow> 'a option \<Rightarrow> 'a option" where
  "firstSome a b = (case a of None \<Rightarrow> b | Some _ \<Rightarrow> a)"

text \<open>The price of an item: fixed or not, with the price and the bounds in minor units; \<open>None\<close> when it has none.\<close>

definition itemPrice :: "json option \<Rightarrow> json option \<Rightarrow> (bool \<times> int option \<times> int option \<times> int option) option" where
  "itemPrice supplier base =
    (let supplierFixed = parseMajor (field supplier ''fixedValue'');
         fixedMajor = firstSome supplierFixed (parseMajor (field base ''fixedValue''));
         rangeMin = firstSome (parseMajor (field supplier ''rangeMinimumValue'')) (parseMajor (field base ''rangeMinimumValue''));
         rangeMax = firstSome (parseMajor (field supplier ''rangeMaximumValue'')) (parseMajor (field base ''rangeMaximumValue''));
         fixedAt = (\<lambda>n. let m = Some (toMinorUnits n) in Some (True, m, m, m)) in
     case supplierFixed of Some n \<Rightarrow> fixedAt n
     | None \<Rightarrow> (case (rangeMin, rangeMax) of
         (Some lo, Some hi) \<Rightarrow> Some (False, None, Some (toMinorUnits lo), Some (toMinorUnits hi))
       | _ \<Rightarrow> (case fixedMajor of Some n \<Rightarrow> fixedAt n | None \<Rightarrow> None)))"

definition orObject :: "json option \<Rightarrow> json option" where
  "orObject v = (case present v of None \<Rightarrow> Some (JsObj []) | Some j \<Rightarrow> Some j)"

definition mapFlashPimItem :: "json \<Rightarrow> failure + mappedProduct option" where
  "mapFlashPimItem item =
    (case present (field (Some item) ''pimId'') of None \<Rightarrow> Inr None
     | Some pimId \<Rightarrow>
       let base = orObject (field (Some item) ''baseProduct'');
           supplier = orObject (field (Some item) ''supplierProduct'');
           cty = orObject (field supplier ''country'');
           code = take 3 (toUpper (jsString (orElse (present (field cty ''code'')) (JsStr ''ZA''))));
           fixedMajor = firstSome (parseMajor (field supplier ''fixedValue'')) (parseMajor (field base ''fixedValue''));
           category = map_option jsString (present (field base ''productCategory''));
           brand = map_option jsString (present (field base ''brand''));
           name0 = trim (jsString (orElse (present (field base ''name'')) (JsStr ''Product'')));
           baseName = (if name0 = [] then ''Product'' else name0);
           ids = field supplier ''productIdentifiers'';
           sup = field supplier ''supplier'';
           parts = (if truthy sup then [jsString (the sup)] else [])
             @ (case category of Some c \<Rightarrow> if c = [] then [] else [c] | None \<Rightarrow> []);
           desc = (case parts of [] \<Rightarrow> [] | x # xs \<Rightarrow> x @ concat (map (\<lambda>y. [CHR '' '', CHR 0xB7, CHR '' ''] @ y) xs)) in
       case itemPrice supplier base of None \<Rightarrow> Inr None
       | Some (isFixed, price, lo, hi) \<Rightarrow>
         sbind (pickIdentifier ids ''Barcode'') (\<lambda>barcode.
         sbind (pickIdentifier ids ''Supplier Product Code'') (\<lambda>code2.
         Inr (Some \<lparr>mpExternal = jsString pimId,
           mpName = (case fixedMajor of Some n \<Rightarrow> if isFixed then baseName @ '' '' @ numberText n else baseName | None \<Rightarrow> baseName),
           mpDescription = (if desc = [] then None else Some desc), mpDelivery = deliveryFromCategory category,
           mpCountry = code, mpCurrency = orElse (map_of countryCurrencyTable code) ''ZAR'',
           mpFixed = isFixed, mpPrice = price, mpMin = lo, mpMax = hi, mpCategory = category, mpBrand = brand,
           mpBarcode = barcode, mpSupplier = code2,
           mpActive = (field (Some item) ''isActive'' \<noteq> Some (JsBool False) \<and> field (Some item) ''isDeleted'' \<noteq> Some (JsBool True))\<rparr>))))"

fun mapItems :: "json list \<Rightarrow> failure + mappedProduct list" where
  "mapItems [] = Inr []"
| "mapItems (raw # rest) = (case raw of
     JsObj _ \<Rightarrow> sbind (mapFlashPimItem raw) (\<lambda>m. sbind (mapItems rest) (\<lambda>ms.
       Inr (case m of None \<Rightarrow> ms | Some p \<Rightarrow> p # ms)))
   | _ \<Rightarrow> mapItems rest)"

definition parseFlashPimPayload :: "json \<Rightarrow> failure + mappedProduct list" where
  "parseFlashPimPayload payload =
    (let root = Some payload;
         items = orElse (present (field (field root ''data'') ''items''))
           (orElse (present (field root ''items'')) (case payload of JsArr _ \<Rightarrow> payload | _ \<Rightarrow> JsArr [])) in
     case items of JsArr xs \<Rightarrow> mapItems xs | _ \<Rightarrow> Inr [])"

section \<open>The catalogue settings of a merchant\<close>

definition getCatalogConfig :: "string \<Rightarrow> ('r catalogDb_scheme, catalogConfig) prog" where
  "getCatalogConfig m =
    andThen (readIO (\<lambda>s. if findMerchant m s = None then None else Some (catalogs s m))) (\<lambda>row.
    ofOption row (statusErr ''Merchant not found'' 404))"

text \<open>A field of the body: absent, or null, or a text; a text that is empty counts as null.\<close>

definition clearText :: "string option \<Rightarrow> string option" where
  "clearText t = (case t of None \<Rightarrow> None | Some s \<Rightarrow> if s = [] then None else Some (trim s))"

definition saveCatalogConfig ::
  "string \<Rightarrow> string option option \<Rightarrow> string option option \<Rightarrow> ('r catalogDb_scheme, catalogConfig) prog" where
  "saveCatalogConfig m url adapter =
    andThen (case adapter of None \<Rightarrow> ret ()
      | Some a \<Rightarrow> require (case clearText a of None \<Rightarrow> True | Some x \<Rightarrow> x = [] \<or> x = ''flash_pim'')
          (statusErr ''adapter must be flash_pim (only adapter available)'' 400)) (\<lambda>_.
    andThen (require (url \<noteq> None \<or> adapter \<noteq> None) (statusErr ''Nothing to update'' 400)) (\<lambda>_.
    andThen (writeIO (\<lambda>s. if findMerchant m s = None then s else
      s\<lparr>catalogs := (catalogs s)(m := (catalogs s m)\<lparr>
        cgUrl := (case url of None \<Rightarrow> cgUrl (catalogs s m) | Some u \<Rightarrow> clearText u),
        cgAdapter := (case adapter of None \<Rightarrow> cgAdapter (catalogs s m) | Some a \<Rightarrow> clearText a)\<rparr>)\<rparr>)) (\<lambda>_.
    getCatalogConfig m)))"

section \<open>The sync\<close>

text \<open>
  A URL of the form \<open>file://\<close> names a file of the server; it is one of the places of \<open>feeds\<close>. A call may
  also fail on the network.
\<close>

definition fetchCatalogJson :: "string \<Rightarrow> ('r catalogDb_scheme, json) prog" where
  "fetchCatalogJson url = io (\<lambda>s. case feeds s url of
      FeedJson j \<Rightarrow> Inr (j, s)
    | FeedStatus n \<Rightarrow> Inl (plainErr (''Catalog API returned '' @ showNat n))
    | FeedError e \<Rightarrow> Inl (plainErr e))"

text \<open>
  The constraints of \<open>products\<close>: the country and the currency are rows of their tables, texts and numbers fit
  their columns.
\<close>

definition fits :: "nat \<Rightarrow> string option \<Rightarrow> bool" where
  "fits n t = (case t of None \<Rightarrow> True | Some s \<Rightarrow> length s \<le> n)"

definition fitsNumeric :: "int option \<Rightarrow> bool" where
  "fitsNumeric x = (case x of None \<Rightarrow> True | Some n \<Rightarrow> \<bar>n\<bar> < 10 ^ 12)"

definition productAccepted :: "'r catalogDb_scheme \<Rightarrow> mappedProduct \<Rightarrow> bool" where
  "productAccepted s p \<longleftrightarrow>
     (\<exists>c\<in>set (countries s). countryCode c = mpCountry p) \<and> (\<exists>c\<in>set (currencies s). currencyCode c = mpCurrency p)
     \<and> length (mpName p) \<le> 200 \<and> length (mpExternal p) \<le> 100 \<and> fits 100 (mpCategory p) \<and> fits 100 (mpBrand p)
     \<and> fits 64 (mpBarcode p) \<and> fits 100 (mpSupplier p) \<and> fitsNumeric (mpPrice p) \<and> fitsNumeric (mpMin p) \<and> fitsNumeric (mpMax p)"

definition rejectedRow :: failure where
  "rejectedRow = plainErr ''insert or update on table products violates a constraint''"

definition mappedRow :: "string \<Rightarrow> string \<Rightarrow> string \<Rightarrow> int \<Rightarrow> mappedProduct \<Rightarrow> productRow" where
  "mappedRow newId m url now p = \<lparr>prId = newId, prMerchant = m, prCountry = mpCountry p, prCurrency = mpCurrency p,
     prName = mpName p, prDescription = mpDescription p, prDelivery = mpDelivery p, prFixed = mpFixed p,
     prPrice = mpPrice p, prMin = mpMin p, prMax = mpMax p, prVat = False, prExternal = Some (mpExternal p),
     prSupplier = mpSupplier p, prCategory = mpCategory p, prBrand = mpBrand p, prBarcode = mpBarcode p,
     prFulfil = Some url, prSource = ''api'', prActive = mpActive p, prUpdated = now\<rparr>"

definition refreshRow :: "string \<Rightarrow> int \<Rightarrow> mappedProduct \<Rightarrow> productRow \<Rightarrow> productRow" where
  "refreshRow url now p r = (mappedRow (prId r) (prMerchant r) url now p)\<lparr>prVat := prVat r, prExternal := prExternal r,
     prFulfil := Some (orElse (prFulfil r) url)\<rparr>"

definition insertMapped :: "string \<Rightarrow> string \<Rightarrow> string \<Rightarrow> mappedProduct \<Rightarrow> ('r catalogDb_scheme, unit) prog" where
  "insertMapped newId m url p = io (\<lambda>s. if productAccepted s p
     then Inr ((), s\<lparr>products := products s @ [mappedRow newId m url (clock s) p]\<rparr>) else Inl rejectedRow)"

definition updateMapped :: "string \<Rightarrow> string \<Rightarrow> string \<Rightarrow> mappedProduct \<Rightarrow> ('r catalogDb_scheme, unit) prog" where
  "updateMapped rowId m url p = io (\<lambda>s. if productAccepted s p
     then Inr ((), s\<lparr>products := updWhere (\<lambda>r. prId r = rowId \<and> prMerchant r = m) (refreshRow url (clock s) p) (products s)\<rparr>)
     else Inl rejectedRow)"

definition unpriced :: "mappedProduct \<Rightarrow> bool" where
  "unpriced p \<longleftrightarrow> (mpMin p = None \<or> mpMax p = None) \<and> (\<not> mpFixed p \<or> mpPrice p = None)"

text \<open>One item of the listing: \<open>True\<close> when it was written, \<open>False\<close> when it was skipped.\<close>

definition syncItem :: "string \<Rightarrow> string \<Rightarrow> string \<Rightarrow> mappedProduct \<Rightarrow> ('r catalogDb_scheme, bool) prog" where
  "syncItem newId m url p =
    (if unpriced p then ret False else
     andThen (readIO (\<lambda>s. find (\<lambda>r. prMerchant r = m \<and> prExternal r = Some (mpExternal p)) (products s))) (\<lambda>existing.
     case existing of
       None \<Rightarrow> andThen (insertMapped newId m url p) (\<lambda>_. ret True)
     | Some r \<Rightarrow> if prSource r = ''manual'' then ret False
         else andThen (updateMapped (prId r) m url p) (\<lambda>_. ret True)))"

fun syncItems :: "(nat \<Rightarrow> string) \<Rightarrow> string \<Rightarrow> string \<Rightarrow> mappedProduct list \<Rightarrow> ('r catalogDb_scheme, nat \<times> nat) prog" where
  "syncItems ids m url [] = ret (0, 0)"
| "syncItems ids m url (p # ps) =
    andThen (syncItem (ids (length ps)) m url p) (\<lambda>written.
    andThen (syncItems ids m url ps) (\<lambda>(u, k). ret (if written then (u + 1, k) else (u, k + 1))))"

definition retired :: "string \<Rightarrow> string list \<Rightarrow> productRow \<Rightarrow> bool" where
  "retired m seen r \<longleftrightarrow> prMerchant r = m \<and> prSource r = ''api'' \<and> prActive r
     \<and> (case prExternal r of None \<Rightarrow> True | Some x \<Rightarrow> x \<notin> set seen)"

definition deactivateMissing :: "string \<Rightarrow> string list \<Rightarrow> ('r catalogDb_scheme, nat) prog" where
  "deactivateMissing m seen = (if seen = [] then ret 0 else
     io (\<lambda>s. Inr (length (filter (retired m seen) (products s)),
       s\<lparr>products := updWhere (retired m seen) (\<lambda>r. r\<lparr>prActive := False, prUpdated := clock s\<rparr>) (products s)\<rparr>)))"

record syncResult =
  srUpserted :: nat
  srDeactivated :: nat
  srSkipped :: nat
  srTotal :: nat

definition syncPayload :: "string \<Rightarrow> ('r catalogDb_scheme, json) prog" where
  "syncPayload url = tryCatch (fetchCatalogJson url) (\<lambda>e.
     if hasText url ''flash.co.za'' \<or> hasText url ''/api/mock/catalog/flash-pim'' then gets bundledListing
     else raise (statusErr (''Could not fetch catalogue: '' @ fmsg e) 502))"

definition syncMerchantCatalog :: "(nat \<Rightarrow> string) \<Rightarrow> string \<Rightarrow> string \<Rightarrow> ('r catalogDb_scheme, syncResult) prog" where
  "syncMerchantCatalog ids fulfilUrl m =
    andThen (getCatalogConfig m) (\<lambda>cfg.
    andThen (ofOption (case cgUrl cfg of None \<Rightarrow> None | Some u \<Rightarrow> if u = [] then None else Some u)
      (statusErr ''Set a catalogue API URL before syncing'' 400)) (\<lambda>url.
    let adapter = orElse (cgAdapter cfg) ''flash_pim'' in
    andThen (require (adapter = ''flash_pim'') (statusErr (''Unsupported adapter: '' @ adapter) 400)) (\<lambda>_.
    andThen (syncPayload url) (\<lambda>payload.
    andThen (case parseFlashPimPayload payload of Inl e \<Rightarrow> raise e | Inr ps \<Rightarrow> ret ps) (\<lambda>mapped.
    andThen (syncItems ids m fulfilUrl mapped) (\<lambda>(upserted, skipped).
    andThen (deactivateMissing m (map mpExternal mapped)) (\<lambda>deactivated.
    andThen (writeIO (\<lambda>s. if findMerchant m s = None then s
      else s\<lparr>catalogs := (catalogs s)(m := (catalogs s m)\<lparr>cgSynced := Some (clock s)\<rparr>)\<rparr>)) (\<lambda>_.
    ret \<lparr>srUpserted = upserted, srDeactivated = deactivated, srSkipped = skipped, srTotal = length mapped\<rparr>))))))))"

section \<open>Products kept by hand\<close>

text \<open>
  The routes behind \<open>requireOrgAdmin\<close>: the merchant is the one named in the operator's token. A token
  without a merchant stands for no merchant (the empty identifier).
\<close>

definition asOrgAdmin ::
  "waEnv \<Rightarrow> string option \<Rightarrow> (string \<Rightarrow> ('s, 'a reply) prog) \<Rightarrow> ('s, 'a reply) prog" where
  "asOrgAdmin W header k = (case requireOrgAdmin W header of
      Inl (code, msg) \<Rightarrow> ret (ReplyErr code msg None)
    | Inr me \<Rightarrow> k (orElse (meMerchant me) []))"

definition orError :: "nat \<Rightarrow> failure \<Rightarrow> ('s, 'a reply) prog" where
  "orError code e = ret (ReplyErr (orElse (fstatus e) code) (fmsg e) None)"

definition newProduct :: "string \<Rightarrow> string \<Rightarrow> string \<Rightarrow> (string \<times> string) \<Rightarrow> int \<Rightarrow> productFields \<Rightarrow> productRow" where
  "newProduct newId m fulfilUrl cor now f = \<lparr>prId = newId, prMerchant = m, prCountry = fst cor, prCurrency = snd cor,
     prName = orElse (pfName f) [], prDescription = orElse (pfDescription f) None, prDelivery = orElse (pfDelivery f) ''DIRECT'',
     prFixed = orElse (pfFixed f) True, prPrice = orElse (pfPrice f) None, prMin = orElse (pfMin f) None,
     prMax = orElse (pfMax f) None, prVat = orElse (pfVat f) True, prExternal = None, prSupplier = None, prCategory = None,
     prBrand = None, prBarcode = orElse (pfBarcode f) None, prFulfil = orElse (pfFulfil f) (Some fulfilUrl),
     prSource = ''manual'', prActive = True, prUpdated = now\<rparr>"

definition rowAccepted :: "'r catalogDb_scheme \<Rightarrow> productRow \<Rightarrow> bool" where
  "rowAccepted s r \<longleftrightarrow>
     (\<exists>c\<in>set (countries s). countryCode c = prCountry r) \<and> (\<exists>c\<in>set (currencies s). currencyCode c = prCurrency r)
     \<and> length (prName r) \<le> 200 \<and> fits 64 (prBarcode r) \<and> fitsNumeric (prPrice r) \<and> fitsNumeric (prMin r) \<and> fitsNumeric (prMax r)"

text \<open>The column list ends with \<open>is_active\<close>: when the body sets it too, the statement names it twice and fails.\<close>

definition insertProduct :: "productRow \<Rightarrow> productFields \<Rightarrow> ('r catalogDb_scheme, productRow) prog" where
  "insertProduct r f = io (\<lambda>s.
     if pfActive f \<noteq> None then Inl (plainErr ''column is_active specified more than once'')
     else if \<not> rowAccepted s r then Inl rejectedRow
     else Inr (r, s\<lparr>products := products s @ [r],
       validityDays := (case pfValidity f of Some d \<Rightarrow> (validityDays s)(prId r := d) | None \<Rightarrow> validityDays s)\<rparr>))"

definition createProductRoute ::
  "waEnv \<Rightarrow> string option \<Rightarrow> string \<Rightarrow> string \<Rightarrow> string \<Rightarrow> productBody \<Rightarrow> string option \<Rightarrow> string option \<Rightarrow>
   ('r catalogDb_scheme, productRow reply) prog" where
  "createProductRoute W header storeId newId fulfilUrl b cur country = asOrgAdmin W header (\<lambda>m. tryCatch
    (case parseProductBody b False of
       Inl msg \<Rightarrow> ret (ReplyErr 400 msg None)
     | Inr f \<Rightarrow>
        andThen (listProductCorridors storeId m) (\<lambda>corridors.
        andThen (case cur of Some c \<Rightarrow> ret c | None \<Rightarrow> ofOption (map_option snd (headOpt corridors))
          (plainErr ''Cannot read properties of undefined (reading currencyCode)'')) (\<lambda>c.
        andThen (resolveProductCorridor storeId m c country) (\<lambda>cor.
        andThen (gets clock) (\<lambda>now.
        andThen (insertProduct (newProduct newId m fulfilUrl cor now f) f) (\<lambda>r. ret (Reply r)))))))
    (orError 400))"

definition applyFields :: "productFields \<Rightarrow> (string \<times> string) option \<Rightarrow> int \<Rightarrow> productRow \<Rightarrow> productRow" where
  "applyFields f cor now r = r\<lparr>
     prCountry := (case cor of None \<Rightarrow> prCountry r | Some c \<Rightarrow> fst c),
     prCurrency := (case cor of None \<Rightarrow> prCurrency r | Some c \<Rightarrow> snd c),
     prName := orElse (pfName f) (prName r), prDescription := orElse (pfDescription f) (prDescription r),
     prDelivery := orElse (pfDelivery f) (prDelivery r), prFixed := orElse (pfFixed f) (prFixed r),
     prPrice := orElse (pfPrice f) (prPrice r), prMin := orElse (pfMin f) (prMin r), prMax := orElse (pfMax f) (prMax r),
     prVat := orElse (pfVat f) (prVat r), prBarcode := orElse (pfBarcode f) (prBarcode r),
     prFulfil := orElse (pfFulfil f) (prFulfil r), prActive := orElse (pfActive f) (prActive r), prUpdated := now\<rparr>"

definition updateProduct ::
  "string \<Rightarrow> string \<Rightarrow> productFields \<Rightarrow> (string \<times> string) option \<Rightarrow> ('r catalogDb_scheme, productRow option) prog" where
  "updateProduct i m f cor = io (\<lambda>s.
     case find (\<lambda>r. prId r = i \<and> prMerchant r = m) (products s) of
       None \<Rightarrow> Inr (None, s)
     | Some r \<Rightarrow> if \<not> rowAccepted s (applyFields f cor (clock s) r) then Inl rejectedRow
         else Inr (Some (applyFields f cor (clock s) r),
           s\<lparr>products := updWhere (\<lambda>r. prId r = i \<and> prMerchant r = m) (applyFields f cor (clock s)) (products s),
             validityDays := (case pfValidity f of Some d \<Rightarrow> (validityDays s)(i := d) | None \<Rightarrow> validityDays s)\<rparr>))"

definition updateProductRoute ::
  "waEnv \<Rightarrow> string option \<Rightarrow> string \<Rightarrow> string \<Rightarrow> productBody \<Rightarrow> string option \<Rightarrow> string option \<Rightarrow>
   ('r catalogDb_scheme, productRow reply) prog" where
  "updateProductRoute W header storeId i b cur country = asOrgAdmin W header (\<lambda>m. tryCatch
    (case parseProductBody b True of
       Inl msg \<Rightarrow> ret (ReplyErr 400 msg None)
     | Inr f \<Rightarrow>
        andThen (case orEmpty cur [] of
            [] \<Rightarrow> ret None
          | c \<Rightarrow> andThen (resolveProductCorridor storeId m c country) (\<lambda>x. ret (Some x))) (\<lambda>cor.
        if f = noFields \<and> cor = None then ret (ReplyErr 400 ''Nothing to update'' None)
        else andThen (updateProduct i m f cor) (\<lambda>r. case r of
          None \<Rightarrow> ret (ReplyErr 404 ''Product not found in your catalog'' None)
        | Some x \<Rightarrow> ret (Reply x))))
    (orError 400))"

text \<open>The catalogue settings and the sync, as routes.\<close>

definition catalogConfigRoute :: "waEnv \<Rightarrow> string option \<Rightarrow> ('r catalogDb_scheme, catalogConfig reply) prog" where
  "catalogConfigRoute W header = asOrgAdmin W header (\<lambda>m. tryCatch
    (andThen (getCatalogConfig m) (\<lambda>c. ret (Reply c))) (orError 500))"

definition saveCatalogRoute ::
  "waEnv \<Rightarrow> string option \<Rightarrow> string option option \<Rightarrow> string option option \<Rightarrow> ('r catalogDb_scheme, catalogConfig reply) prog" where
  "saveCatalogRoute W header url adapter = asOrgAdmin W header (\<lambda>m. tryCatch
    (andThen (saveCatalogConfig m url (case adapter of Some a \<Rightarrow> Some a
       | None \<Rightarrow> Some (case url of Some (Some u) \<Rightarrow> if u = [] then None else Some ''flash_pim'' | _ \<Rightarrow> None))) (\<lambda>c. ret (Reply c)))
    (orError 500))"

definition syncRoute ::
  "waEnv \<Rightarrow> string option \<Rightarrow> (nat \<Rightarrow> string) \<Rightarrow> string \<Rightarrow> ('r catalogDb_scheme, (syncResult \<times> int option) reply) prog" where
  "syncRoute W header ids fulfilUrl = asOrgAdmin W header (\<lambda>m. tryCatch
    (andThen (syncMerchantCatalog ids fulfilUrl m) (\<lambda>r.
     andThen (getCatalogConfig m) (\<lambda>c. ret (Reply (r, cgSynced c)))))
    (orError 500))"

definition defaultFulfilmentUrl :: "string \<Rightarrow> string" where
  "defaultFulfilmentUrl base =
    (if base \<noteq> [] \<and> last base = CHR ''/'' then butlast base else base) @ ''/api/mock/fulfil''"

end
