(* ===== verification/CatalogueProps.thy ===== *)
theory CatalogueProps
  imports Catalogue AuthProps
begin

text \<open>
  A sync that returns leaves the merchant's synced products as the listing has them and every other row
  alone; what a hand edit of a synced product, an item with an unknown country and the
  creation of an inactive product come to.
\<close>

section \<open>What one item does to the table\<close>

definition itemStep :: "string \<Rightarrow> string \<Rightarrow> string \<Rightarrow> int \<Rightarrow> mappedProduct \<Rightarrow> productRow list \<Rightarrow> productRow list" where
  "itemStep newId m url now p rows =
    (case find (\<lambda>r. prMerchant r = m \<and> prExternal r = Some (mpExternal p)) rows of
       None \<Rightarrow> rows @ [mappedRow newId m url now p]
     | Some r \<Rightarrow> if prSource r = ''manual'' then rows
         else updWhere (\<lambda>x. prId x = prId r \<and> prMerchant x = m) (refreshRow url now p) rows)"

fun itemSteps :: "(nat \<Rightarrow> string) \<Rightarrow> string \<Rightarrow> string \<Rightarrow> int \<Rightarrow> mappedProduct list \<Rightarrow> productRow list \<Rightarrow> productRow list" where
  "itemSteps ids m url now [] rows = rows"
| "itemSteps ids m url now (p # ps) rows = itemSteps ids m url now ps (itemStep (ids (length ps)) m url now p rows)"

lemma syncItem_InrD:
  assumes "syncItem newId m url p s = (Inr w, t)" and "\<not> unpriced p"
  shows "\<exists>rest. t = s\<lparr>net := rest, products := itemStep newId m url (clock s) p (products s)\<rparr>"
proof -
  let ?f = "\<lambda>s. find (\<lambda>r. prMerchant r = m \<and> prExternal r = Some (mpExternal p)) (products s)"
  from assms obtain x s1 where r: "readIO ?f s = (Inr x, s1)"
    and k: "(case x of None \<Rightarrow> andThen (insertMapped newId m url p) (\<lambda>_. ret True)
     | Some r \<Rightarrow> if prSource r = ''manual'' then ret False else andThen (updateMapped (prId r) m url p) (\<lambda>_. ret True)) s1
      = (Inr w, t)"
    by (auto simp: syncItem_def elim!: andThen_InrE)
  from readIO_InrD [OF r] obtain ns where s1: "s1 = s\<lparr>net := ns\<rparr>" and x: "x = ?f s" by auto
  show ?thesis
  proof (cases x)
    case None
    then have "insertMapped newId m url p s1 = (Inr (), t)"
      using k by (auto elim!: andThen_InrE)
    then show ?thesis
      using None x unfolding insertMapped_def
      by (auto dest!: io_InrD simp: s1 itemStep_def split: if_splits)
  next
    case (Some r)
    show ?thesis
    proof (cases "prSource r = ''manual''")
      case True
      then show ?thesis using k Some x by (auto simp: s1 itemStep_def)
    next
      case False
      then have "updateMapped (prId r) m url p s1 = (Inr (), t)"
        using k Some by (auto elim!: andThen_InrE)
      then show ?thesis
        using Some x False unfolding updateMapped_def
        by (auto dest!: io_InrD simp: s1 itemStep_def split: if_splits)
    qed
  qed
qed

lemma syncItems_InrD:
  assumes "syncItems ids m url ps s = (Inr w, t)" and "\<forall>p\<in>set ps. \<not> unpriced p"
  shows "\<exists>rest. t = s\<lparr>net := rest, products := itemSteps ids m url (clock s) ps (products s)\<rparr>"
  using assms
proof (induction ps arbitrary: s w)
  case Nil
  then show ?case by (auto intro: exI [of _ "net s"])
next
  case (Cons p ps)
  obtain b s1 w1 where 1: "syncItem (ids (length ps)) m url p s = (Inr b, s1)"
    and 2: "syncItems ids m url ps s1 = (Inr w1, t)"
    using Cons.prems(1) by (auto elim!: andThen_InrE split: prod.splits if_splits)
  obtain r1 where s1: "s1 = s\<lparr>net := r1, products := itemStep (ids (length ps)) m url (clock s) p (products s)\<rparr>"
    using syncItem_InrD [OF 1] Cons.prems(2) by auto
  from Cons.IH [OF 2] Cons.prems(2) show ?case by (auto simp: s1)
qed

text \<open>The adapter gives every item it keeps a price or both bounds: no item is skipped for the want of one.\<close>

lemma itemPrice_priced: "itemPrice a b = Some (fx, pr, lo, hi) \<Longrightarrow> lo \<noteq> None \<and> hi \<noteq> None"
  by (auto simp: itemPrice_def Let_def split: option.splits)

lemma mapFlashPimItem_priced: "mapFlashPimItem j = Inr (Some p) \<Longrightarrow> \<not> unpriced p"
  by (auto simp: mapFlashPimItem_def Let_def sbind_Inr_iff unpriced_def split: option.splits prod.splits dest!: itemPrice_priced)

lemma mapItems_priced: "mapItems xs = Inr ps \<Longrightarrow> p \<in> set ps \<Longrightarrow> \<not> unpriced p"
proof (induction xs arbitrary: ps)
  case (Cons raw rest)
  show ?case
  proof (cases raw)
    case (JsObj kvs)
    then obtain q qs where "mapFlashPimItem raw = Inr q" and "mapItems rest = Inr qs"
      and "ps = (case q of None \<Rightarrow> qs | Some x \<Rightarrow> x # qs)"
      using Cons.prems(1) by (auto simp: sbind_Inr_iff)
    then show ?thesis
      using Cons.IH [of qs] Cons.prems(2) mapFlashPimItem_priced by (auto split: option.splits)
  qed (use Cons in auto)
qed simp

lemma parse_priced: "parseFlashPimPayload j = Inr ps \<Longrightarrow> p \<in> set ps \<Longrightarrow> \<not> unpriced p"
  by (auto simp: parseFlashPimPayload_def Let_def mapItems_priced split: json.splits)

section \<open>The table follows the listing\<close>

text \<open>
  \<open>keyed\<close>: identifiers are unique, and so are a merchant's external identifiers. \<open>lastWith\<close>: the last item of the
  listing with an identifier. \<open>shows r p\<close>: the row has what the item says.
\<close>

definition keyed :: "string \<Rightarrow> productRow list \<Rightarrow> bool" where
  "keyed m rows \<longleftrightarrow> distinct (map prId rows)
     \<and> (\<forall>r\<in>set rows. \<forall>q\<in>set rows. prMerchant r = m \<longrightarrow> prMerchant q = m \<longrightarrow> prExternal r \<noteq> None \<longrightarrow>
          prExternal r = prExternal q \<longrightarrow> r = q)"

definition lastWith :: "string \<Rightarrow> mappedProduct list \<Rightarrow> mappedProduct option" where
  "lastWith x ps = find (\<lambda>p. mpExternal p = x) (rev ps)"

definition showsItem :: "productRow \<Rightarrow> mappedProduct \<Rightarrow> bool" where
  "showsItem r p \<longleftrightarrow> prName r = mpName p \<and> prDescription r = mpDescription p \<and> prDelivery r = mpDelivery p
     \<and> prCountry r = mpCountry p \<and> prCurrency r = mpCurrency p \<and> prFixed r = mpFixed p \<and> prPrice r = mpPrice p
     \<and> prMin r = mpMin p \<and> prMax r = mpMax p \<and> prCategory r = mpCategory p \<and> prBrand r = mpBrand p
     \<and> prBarcode r = mpBarcode p \<and> prSupplier r = mpSupplier p \<and> prActive r = mpActive p"

definition byHand :: "string \<Rightarrow> productRow \<Rightarrow> bool" where
  "byHand m r \<longleftrightarrow> prMerchant r \<noteq> m \<or> prSource r = ''manual''"

definition follows :: "string \<Rightarrow> mappedProduct list \<Rightarrow> productRow list \<Rightarrow> bool" where
  "follows m ps rows \<longleftrightarrow>
     (\<forall>r\<in>set rows. \<not> byHand m r \<longrightarrow> (\<forall>x p. prExternal r = Some x \<longrightarrow> lastWith x ps = Some p \<longrightarrow> showsItem r p))
     \<and> (\<forall>p\<in>set ps. \<exists>r\<in>set rows. prMerchant r = m \<and> prExternal r = Some (mpExternal p))"

lemma mappedRow_sel [simp]:
  "prId (mappedRow i m u n p) = i" "prMerchant (mappedRow i m u n p) = m" "prExternal (mappedRow i m u n p) = Some (mpExternal p)"
  "prSource (mappedRow i m u n p) = ''api''" "showsItem (mappedRow i m u n p) p"
  by (simp_all add: mappedRow_def showsItem_def)

lemma refreshRow_sel [simp]:
  "prId (refreshRow u n p r) = prId r" "prMerchant (refreshRow u n p r) = prMerchant r"
  "prExternal (refreshRow u n p r) = prExternal r" "prSource (refreshRow u n p r) = ''api''" "showsItem (refreshRow u n p r) p"
  by (simp_all add: refreshRow_def mappedRow_def showsItem_def)

lemma lastWith_snoc [simp]: "lastWith x (ps @ [p]) = (if mpExternal p = x then Some p else lastWith x ps)"
  by (simp add: lastWith_def)

lemma keyed_id: "keyed m rows \<Longrightarrow> r \<in> set rows \<Longrightarrow> q \<in> set rows \<Longrightarrow> prId r = prId q \<Longrightarrow> r = q"
  unfolding keyed_def by (metis distinct_map inj_onD)

lemma keyed_ext: "keyed m rows \<Longrightarrow> r \<in> set rows \<Longrightarrow> q \<in> set rows \<Longrightarrow> prMerchant r = m \<Longrightarrow> prMerchant q = m \<Longrightarrow>
    prExternal r \<noteq> None \<Longrightarrow> prExternal r = prExternal q \<Longrightarrow> r = q"
  unfolding keyed_def by blast

text \<open>One step replaces exactly the row under the item's identifier, or appends one.\<close>

lemma itemStep_cases:
  assumes "keyed m rows"
  obtains (new) "\<And>r. r \<in> set rows \<Longrightarrow> prMerchant r = m \<Longrightarrow> prExternal r \<noteq> Some (mpExternal p)"
      and "itemStep i m u n p rows = rows @ [mappedRow i m u n p]"
  | (manual) r where "r \<in> set rows" and "prMerchant r = m" and "prExternal r = Some (mpExternal p)" and "prSource r = ''manual''"
      and "itemStep i m u n p rows = rows"
  | (old) r where "r \<in> set rows" and "prMerchant r = m" and "prExternal r = Some (mpExternal p)" and "prSource r \<noteq> ''manual''"
      and "itemStep i m u n p rows = map (\<lambda>x. if x = r then refreshRow u n p r else x) rows"
proof (cases "find (\<lambda>r. prMerchant r = m \<and> prExternal r = Some (mpExternal p)) rows")
  case None
  then have "\<And>r. r \<in> set rows \<Longrightarrow> prMerchant r = m \<Longrightarrow> prExternal r \<noteq> Some (mpExternal p)"
    by (auto simp: find_None_iff)
  then show thesis using new None by (simp add: itemStep_def)
next
  case (Some r)
  then have r: "r \<in> set rows" "prMerchant r = m" "prExternal r = Some (mpExternal p)"
    by (auto dest: find_SomeD)
  show thesis
  proof (cases "prSource r = ''manual''")
    case True
    then show thesis using manual r Some by (simp add: itemStep_def)
  next
    case False
    have "updWhere (\<lambda>x. prId x = prId r \<and> prMerchant x = m) (refreshRow u n p) rows
        = map (\<lambda>x. if x = r then refreshRow u n p r else x) rows"
      unfolding updWhere_def by (rule map_cong [OF refl]) (use keyed_id [OF assms _ r(1)] r(2) in auto)
    then show thesis using old r False Some by (simp add: itemStep_def)
  qed
qed

lemma map_ids: "prId (f r) = prId r \<Longrightarrow> map prId (map (\<lambda>x. if x = r then f r else x) rows) = map prId rows"
  by (induction rows) auto

lemma itemStep_keyed:
  assumes "keyed m rows" and "i \<notin> prId ` set rows"
  shows "keyed m (itemStep i m u n p rows)"
  using assms(1)
proof (cases rule: itemStep_cases [where p = p and i = i and u = u and n = n])
  case new
  then have "\<And>q. q \<in> set rows \<Longrightarrow> prMerchant q = m \<Longrightarrow> (Some (mpExternal p) = prExternal q) = False" by force
  then show ?thesis using new assms by (auto simp: keyed_def)
next
  case (old r)
  have ids: "distinct (map prId (map (\<lambda>x. if x = r then refreshRow u n p r else x) rows))"
    using assms(1) by (simp add: keyed_def map_ids del: map_map)
  have "a = b" if h: "a \<in> set (itemStep i m u n p rows)" "b \<in> set (itemStep i m u n p rows)" "prMerchant a = m"
    "prMerchant b = m" "prExternal a \<noteq> None" "prExternal a = prExternal b" for a b
  proof -
    obtain a' where a: "a' \<in> set rows" "a = (if a' = r then refreshRow u n p r else a')" using h(1) old(5) by auto
    obtain b' where b: "b' \<in> set rows" "b = (if b' = r then refreshRow u n p r else b')" using h(2) old(5) by auto
    have e: "prMerchant a = prMerchant a'" "prExternal a = prExternal a'" "prMerchant b = prMerchant b'" "prExternal b = prExternal b'"
      by (simp_all add: a(2) b(2))
    have "a' = b'"
      using keyed_ext [OF assms(1) a(1) b(1)] h(3-6) unfolding e by blast
    then show ?thesis by (simp add: a(2) b(2))
  qed
  moreover have "distinct (map prId (itemStep i m u n p rows))" unfolding old(5) by (rule ids)
  ultimately show ?thesis unfolding keyed_def by blast
qed (use assms in simp)

lemma itemStep_byHand:
  assumes "keyed m rows"
  shows "filter (byHand m) (itemStep i m u n p rows) = filter (byHand m) rows"
  using assms
proof (cases rule: itemStep_cases [where p = p and i = i and u = u and n = n])
  case (old r)
  have "\<not> byHand m r" "\<not> byHand m (refreshRow u n p r)" using old by (auto simp: byHand_def)
  then have "filter (byHand m) (map (\<lambda>x. if x = r then refreshRow u n p r else x) rows) = filter (byHand m) rows" for rows
    by (induction rows) auto
  then show ?thesis using old(5) by simp
qed (auto simp: byHand_def)

lemma itemStep_follows:
  assumes "keyed m rows" and "follows m ps rows"
  shows "follows m (ps @ [p]) (itemStep i m u n p rows)"
  using assms(1)
proof (cases rule: itemStep_cases [where p = p and i = i and u = u and n = n])
  case new
  then show ?thesis using assms(2) by (auto simp: follows_def byHand_def split: if_splits)
next
  case (manual r)
  have "\<not> byHand m q \<longrightarrow> prExternal q \<noteq> Some (mpExternal p)" if "q \<in> set rows" for q
    using that manual assms(1) unfolding keyed_def byHand_def by (metis option.discI)
  then show ?thesis using assms(2) manual unfolding follows_def by fastforce
next
  case (old r)
  let ?g = "\<lambda>x. if x = r then refreshRow u n p r else x"
  have 1: "showsItem (?g q) p'" if "q \<in> set rows" "\<not> byHand m (?g q)" "prExternal (?g q) = Some x" "lastWith x (ps @ [p]) = Some p'" for q x p'
  proof (cases "q = r")
    case True
    then show ?thesis using that old(3) by simp
  next
    case False
    then have "x \<noteq> mpExternal p"
      using that(1-3) old(1-3) assms(1) unfolding keyed_def byHand_def by (metis option.discI)
    then show ?thesis using that False assms(2) by (auto simp: follows_def)
  qed
  have 2: "\<exists>q\<in>set rows. prMerchant (?g q) = m \<and> prExternal (?g q) = Some (mpExternal p')" if "p' \<in> set (ps @ [p])" for p'
  proof (cases "p' = p")
    case True
    then show ?thesis using old(1-3) by (intro bexI [of _ r]) auto
  next
    case False
    then have "p' \<in> set ps" using that by simp
    then obtain q where "q \<in> set rows" "prMerchant q = m" "prExternal q = Some (mpExternal p')"
      using assms(2) unfolding follows_def by blast
    then show ?thesis using old(2) by (intro bexI [of _ q]) auto
  qed
  show ?thesis unfolding follows_def
  proof (intro conjI ballI impI allI)
    fix q' x p' assume h: "q' \<in> set (itemStep i m u n p rows)" "\<not> byHand m q'" "prExternal q' = Some x" "lastWith x (ps @ [p]) = Some p'"
    then obtain q where "q \<in> set rows" and "q' = ?g q" using old(5) by auto
    then show "showsItem q' p'" using 1 [of q x p'] h(2-4) by simp
  next
    fix p' assume "p' \<in> set (ps @ [p])"
    then obtain q where "q \<in> set rows" "prMerchant (?g q) = m" "prExternal (?g q) = Some (mpExternal p')" using 2 by blast
    then show "\<exists>q\<in>set (itemStep i m u n p rows). prMerchant q = m \<and> prExternal q = Some (mpExternal p')"
      unfolding old(5) by (intro bexI [of _ "?g q"]) auto
  qed
qed

lemma itemStep_ids: "keyed m rows \<Longrightarrow> prId ` set (itemStep i m u n p rows) \<subseteq> insert i (prId ` set rows)"
  by (erule itemStep_cases [where p = p and i = i and u = u and n = n]) (auto split: if_splits)

lemma itemSteps_all:
  assumes "keyed m rows" and "follows m seen rows" and "inj ids" and "\<And>k. k < length ps \<Longrightarrow> ids k \<notin> prId ` set rows"
  shows "keyed m (itemSteps ids m u n ps rows)"
    and "filter (byHand m) (itemSteps ids m u n ps rows) = filter (byHand m) rows"
    and "follows m (seen @ ps) (itemSteps ids m u n ps rows)"
proof -
  have "keyed m (itemSteps ids m u n ps rows) \<and> filter (byHand m) (itemSteps ids m u n ps rows) = filter (byHand m) rows
      \<and> follows m (seen @ ps) (itemSteps ids m u n ps rows)"
    using assms(1,2,4)
  proof (induction ps arbitrary: rows seen)
    case (Cons p ps)
    let ?i = "ids (length ps)" and ?rows = "itemStep (ids (length ps)) m u n p rows"
    have k: "keyed m ?rows" using Cons.prems(1,3) by (intro itemStep_keyed) auto
    have fresh: "ids j \<notin> prId ` set ?rows" if "j < length ps" for j
    proof -
      have "ids j \<noteq> ?i" using that assms(3) by (auto dest: injD)
      moreover have "ids j \<notin> prId ` set rows" using that Cons.prems(3) by simp
      ultimately show ?thesis using itemStep_ids [OF Cons.prems(1), of ?i u n p] by blast
    qed
    show ?case
      using Cons.IH [OF k itemStep_follows [OF Cons.prems(1,2)] fresh] itemStep_byHand [OF Cons.prems(1)] by simp
  qed simp
  then show "keyed m (itemSteps ids m u n ps rows)"
    and "filter (byHand m) (itemSteps ids m u n ps rows) = filter (byHand m) rows"
    and "follows m (seen @ ps) (itemSteps ids m u n ps rows)" by blast+
qed

text \<open>The constraint on \<open>source\<close>.\<close>

definition sourced :: "productRow list \<Rightarrow> bool" where
  "sourced rows \<longleftrightarrow> (\<forall>r\<in>set rows. prSource r = ''manual'' \<or> prSource r = ''api'')"

lemma itemStep_sourced: "keyed m rows \<Longrightarrow> sourced rows \<Longrightarrow> sourced (itemStep i m u n p rows)"
  by (erule itemStep_cases [where p = p and i = i and u = u and n = n]) (auto simp: sourced_def)

lemma itemSteps_sourced:
  assumes "keyed m rows" and "sourced rows" and "inj ids" and "\<And>k. k < length ps \<Longrightarrow> ids k \<notin> prId ` set rows"
  shows "sourced (itemSteps ids m u n ps rows)"
  using assms(1,2,4)
proof (induction ps arbitrary: rows)
  case (Cons p ps)
  let ?i = "ids (length ps)"
  have fresh: "ids j \<notin> prId ` set (itemStep ?i m u n p rows)" if "j < length ps" for j
  proof -
    have "ids j \<noteq> ?i" using that assms(3) by (auto dest: injD)
    moreover have "ids j \<notin> prId ` set rows" using that Cons.prems(3) by simp
    ultimately show ?thesis using itemStep_ids [OF Cons.prems(1), of ?i u n p] by blast
  qed
  have "?i \<notin> prId ` set rows" using Cons.prems(3) by simp
  from Cons.IH [OF itemStep_keyed [OF Cons.prems(1) this] itemStep_sourced [OF Cons.prems(1,2)] fresh] show ?case by simp
qed simp

text \<open>The rows that the listing no longer has are switched off.\<close>

definition switchOff :: "string \<Rightarrow> string list \<Rightarrow> int \<Rightarrow> productRow list \<Rightarrow> productRow list" where
  "switchOff m seen n rows = (if seen = [] then rows
     else updWhere (retired m seen) (\<lambda>r. r\<lparr>prActive := False, prUpdated := n\<rparr>) rows)"

lemma deactivateMissing_InrD:
  "deactivateMissing m seen s = (Inr k, t) \<Longrightarrow> \<exists>rest. t = s\<lparr>net := rest, products := switchOff m seen (clock s) (products s)\<rparr>"
  unfolding deactivateMissing_def switchOff_def
  by (auto dest!: io_InrD split: if_splits intro: exI [of _ "net s"])

lemma switchOff_keys:
  "map prId (switchOff m seen n rows) = map prId rows"
  "filter (byHand m) (switchOff m seen n rows) = filter (byHand m) rows"
  "sourced rows \<Longrightarrow> sourced (switchOff m seen n rows)"
proof -
  show "map prId (switchOff m seen n rows) = map prId rows"
    by (induction rows) (auto simp: switchOff_def updWhere_def)
  have 1: "\<not> retired m seen r" if "byHand m r" for r
    using that by (auto simp: byHand_def retired_def)
  have 2: "byHand m (r\<lparr>prActive := False, prUpdated := n\<rparr>) = byHand m r" for r
    by (simp add: byHand_def)
  have "filter (byHand m) (updWhere (retired m seen) (\<lambda>r. r\<lparr>prActive := False, prUpdated := n\<rparr>) rows) = filter (byHand m) rows"
    by (induction rows) (simp_all add: 1 2)
  then show "filter (byHand m) (switchOff m seen n rows) = filter (byHand m) rows"
    by (simp add: switchOff_def)
  show "sourced rows \<Longrightarrow> sourced (switchOff m seen n rows)"
    by (auto simp: switchOff_def updWhere_def sourced_def)
qed

lemma set_switchOff:
  "r \<in> set (switchOff m seen n rows) \<Longrightarrow> \<exists>q\<in>set rows.
     r = (if seen \<noteq> [] \<and> retired m seen q then q\<lparr>prActive := False, prUpdated := n\<rparr> else q)"
  by (auto simp: switchOff_def updWhere_def split: if_splits)

lemma switchOff_keyed:
  assumes "keyed m rows"
  shows "keyed m (switchOff m seen n rows)"
proof -
  have "a = b" if h: "a \<in> set (switchOff m seen n rows)" "b \<in> set (switchOff m seen n rows)" "prMerchant a = m"
    "prMerchant b = m" "prExternal a \<noteq> None" "prExternal a = prExternal b" for a b
  proof -
    let ?g = "\<lambda>q. if seen \<noteq> [] \<and> retired m seen q then q\<lparr>prActive := False, prUpdated := n\<rparr> else q"
    obtain a' where a: "a' \<in> set rows" "a = ?g a'" using set_switchOff [OF h(1)] by blast
    obtain b' where b: "b' \<in> set rows" "b = ?g b'" using set_switchOff [OF h(2)] by blast
    have e: "prMerchant (?g q) = prMerchant q" "prExternal (?g q) = prExternal q" for q by simp_all
    have "a' = b'"
      using keyed_ext [OF assms a(1) b(1)] h(3-6) unfolding a(2) b(2) e by blast
    then show ?thesis by (simp add: a(2) b(2))
  qed
  moreover have "distinct (map prId (switchOff m seen n rows))"
    using assms by (simp add: switchOff_keys keyed_def)
  ultimately show ?thesis unfolding keyed_def by blast
qed

lemma syncPayload_InrD:
  "syncPayload url s = (Inr j, t) \<Longrightarrow> \<exists>rest. t = s\<lparr>net := rest\<rparr> \<and> (feeds s url = FeedJson j \<or> j = bundledListing s)"
proof -
  assume h: "syncPayload url s = (Inr j, t)"
  obtain r u where f: "fetchCatalogJson url s = (r, u)" by fastforce
  show ?thesis
  proof (cases r)
    case (Inr x)
    then show ?thesis
      using h f unfolding syncPayload_def fetchCatalogJson_def by (auto dest!: io_InrD split: feedReply.splits)
  next
    case (Inl e)
    have "\<exists>rest. u = s\<lparr>net := rest\<rparr>"
      using f unfolding fetchCatalogJson_def io_def Let_def
      by (auto split: prod.splits net.splits sum.splits feedReply.splits)
    then show ?thesis
      using h f Inl by (auto simp: syncPayload_def split: if_splits)
  qed
qed

definition listedAs :: "productRow \<Rightarrow> mappedProduct list \<Rightarrow> mappedProduct option" where
  "listedAs r ps = (case prExternal r of None \<Rightarrow> None | Some x \<Rightarrow> lastWith x ps)"

definition mirrors :: "string \<Rightarrow> mappedProduct list \<Rightarrow> productRow list \<Rightarrow> bool" where
  "mirrors m ps rows \<longleftrightarrow>
     (\<forall>p\<in>set ps. \<exists>r\<in>set rows. prMerchant r = m \<and> prExternal r = Some (mpExternal p))
     \<and> (ps \<noteq> [] \<longrightarrow> (\<forall>r\<in>set rows. \<not> byHand m r \<longrightarrow>
          (case listedAs r ps of Some p \<Rightarrow> showsItem r p | None \<Rightarrow> \<not> prActive r)))"

lemma lastWith_None: "lastWith x ps = None \<longleftrightarrow> x \<notin> mpExternal ` set ps"
  by (auto simp: lastWith_def find_None_iff)

lemma switchOff_mirrors:
  assumes "follows m ps rows" and "sourced rows"
  shows "mirrors m ps (switchOff m (map mpExternal ps) n rows)"
proof -
  let ?g = "\<lambda>q. if map mpExternal ps \<noteq> [] \<and> retired m (map mpExternal ps) q then q\<lparr>prActive := False, prUpdated := n\<rparr> else q"
  have gen: "set (switchOff m (map mpExternal ps) n rows) = ?g ` set rows"
    by (auto simp: switchOff_def updWhere_def)
  have 1: "case listedAs (?g q) ps of Some p \<Rightarrow> showsItem (?g q) p | None \<Rightarrow> \<not> prActive (?g q)"
    if q: "q \<in> set rows" "\<not> byHand m (?g q)" "ps \<noteq> []" for q
  proof (cases "listedAs q ps")
    case None
    have "prSource q = ''api''" "prMerchant q = m" using q(1,2) assms(2) by (auto simp: byHand_def sourced_def split: if_splits)
    then have "retired m (map mpExternal ps) q \<or> \<not> prActive q"
      using None by (auto simp: retired_def listedAs_def lastWith_None split: option.splits)
    then show ?thesis using None q(3) by (auto simp: listedAs_def)
  next
    case (Some p)
    then obtain x where x: "prExternal q = Some x" "lastWith x ps = Some p" by (auto simp: listedAs_def split: option.splits)
    then have "x \<in> mpExternal ` set ps" using lastWith_None [of x ps] by auto
    then have "?g q = q" using x by (auto simp: retired_def)
    moreover have "showsItem q p" using assms(1) q(1,2) x calculation by (auto simp: follows_def)
    ultimately show ?thesis using Some by simp
  qed
  have 2: "\<exists>q\<in>set rows. prMerchant (?g q) = m \<and> prExternal (?g q) = Some (mpExternal p)" if h: "p \<in> set ps" for p
  proof -
    obtain q where "q \<in> set rows" "prMerchant q = m" "prExternal q = Some (mpExternal p)"
      using assms(1) [unfolded follows_def, THEN conjunct2] h by blast
    moreover have "prMerchant (?g q) = prMerchant q" "prExternal (?g q) = prExternal q" by simp_all
    ultimately show ?thesis by (intro bexI [of _ q]) (simp_all only:)
  qed
  show ?thesis unfolding mirrors_def gen using 1 2 by blast
qed

text \<open>
  C22. A sync of a merchant's catalogue that returns, on any network, from a table in which no two synced rows of
  the merchant share an external identifier (\<open>keyed\<close>; the index of migration 040 does not enforce it), leaves
  the rows of other merchants and the products kept by hand exactly as they were and in their order, and keeps
  the identifiers unique. When the listing has items, each of their identifiers has a row of the merchant, each
  synced row of the merchant whose identifier is in the listing shows the last item with that identifier, and each
  one whose identifier is not is switched off. When the listing is empty nothing is switched off. An unreachable
  listing is replaced by the bundled one.
\<close>

theorem sync_mirrors_listing:
  assumes "syncMerchantCatalog ids u m s = (Inr res, t)" and "keyed m (products s)" and "sourced (products s)"
    and "inj ids" and "\<And>k. ids k \<notin> prId ` set (products s)"
  shows "\<exists>url listing ps. cgUrl (catalogs s m) = Some url \<and> (feeds s url = FeedJson listing \<or> listing = bundledListing s)
    \<and> parseFlashPimPayload listing = Inr ps \<and> srTotal res = length ps
    \<and> filter (byHand m) (products t) = filter (byHand m) (products s)
    \<and> keyed m (products t) \<and> sourced (products t) \<and> mirrors m ps (products t)"
proof -
  obtain cfg s1 url listing s2 ps uk s3 k s4 where c: "getCatalogConfig m s = (Inr cfg, s1)"
    and url: "(case cgUrl cfg of None \<Rightarrow> None | Some u \<Rightarrow> if u = [] then None else Some u) = Some url"
    and l: "syncPayload url s1 = (Inr listing, s2)" and ps: "parseFlashPimPayload listing = Inr ps"
    and it: "syncItems ids m u ps s2 = (Inr uk, s3)" and d: "deactivateMissing m (map mpExternal ps) s3 = (Inr k, s4)"
    and w: "writeIO (\<lambda>s. if findMerchant m s = None then s
      else s\<lparr>catalogs := (catalogs s)(m := (catalogs s m)\<lparr>cgSynced := Some (clock s)\<rparr>)\<rparr>) s4 = (Inr (), t)"
    and res: "srTotal res = length ps"
    using assms(1) unfolding syncMerchantCatalog_def Let_def
    by (elim andThen_InrE) (auto split: sum.splits prod.splits elim!: andThen_InrE)
  obtain r1 where s1: "s1 = s\<lparr>net := r1\<rparr>" and cfg: "cfg = catalogs s m"
    using c unfolding getCatalogConfig_def by (auto elim!: andThen_InrE dest!: readIO_InrD split: if_splits)
  obtain r2 where s2: "s2 = s1\<lparr>net := r2\<rparr>" and src: "feeds s1 url = FeedJson listing \<or> listing = bundledListing s1"
    using syncPayload_InrD [OF l] by blast
  have ok: "\<forall>p\<in>set ps. \<not> unpriced p" using parse_priced [OF ps] by blast
  obtain r3 where s3: "s3 = s2\<lparr>net := r3, products := itemSteps ids m u (clock s2) ps (products s2)\<rparr>"
    using syncItems_InrD [OF it ok] by blast
  obtain r4 where s4: "s4 = s3\<lparr>net := r4, products := switchOff m (map mpExternal ps) (clock s3) (products s3)\<rparr>"
    using deactivateMissing_InrD [OF d] by blast
  have t: "products t = products s4" using writeIO_InrD [OF w] by auto
  let ?rows = "itemSteps ids m u (clock s) ps (products s)"
  have f0: "follows m [] (products s)" by (simp add: follows_def lastWith_def)
  note all = itemSteps_all [OF assms(2) f0 assms(4), of ps u "clock s", OF assms(5)]
  have so: "sourced ?rows" by (rule itemSteps_sourced [OF assms(2,3,4)]) (rule assms(5))
  have pt: "products t = switchOff m (map mpExternal ps) (clock s) ?rows"
    by (simp add: t s4 s3 s2 s1)
  have "cgUrl (catalogs s m) = Some url" using url by (simp add: cfg split: option.splits if_splits)
  moreover have "feeds s url = FeedJson listing \<or> listing = bundledListing s" using src by (simp add: s1)
  moreover have "filter (byHand m) (products t) = filter (byHand m) (products s)"
    using all(2) by (simp add: pt switchOff_keys)
  moreover have "keyed m (products t)" unfolding pt by (rule switchOff_keyed [OF all(1)])
  moreover have "sourced (products t)" unfolding pt by (rule switchOff_keys(3) [OF so])
  moreover have "mirrors m ps (products t)" unfolding pt using switchOff_mirrors [OF all(3) so] by simp
  ultimately show ?thesis using ps res by blast
qed

section \<open>A catalogue\<close>

definition demoItem :: "string \<Rightarrow> rat \<Rightarrow> string \<Rightarrow> json" where
  "demoItem name price country = JsObj [(''pimId'', JsNum 7), (''baseProduct'', JsObj [(''name'', JsStr name)]),
     (''supplierProduct'', JsObj [(''fixedValue'', JsNum price), (''country'', JsObj [(''code'', JsStr country)])])]"

definition demoCatalogDb :: catalogDb where
  "demoCatalogDb = authDb.extend demoAuthDb (catalogDb.fields (\<lambda>_. \<lparr>cgUrl = Some ''http://x'', cgAdapter = None, cgSynced = None\<rparr>)
     (\<lambda>_. FeedJson (JsArr [demoItem ''Card'' 5 ''za''])) JsNull (\<lambda>_. None))"

lemma demoCatalog_sel [simp]:
  "net demoCatalogDb = []" "catalogs demoCatalogDb m = \<lparr>cgUrl = Some ''http://x'', cgAdapter = None, cgSynced = None\<rparr>"
  "feeds demoCatalogDb u = FeedJson (JsArr [demoItem ''Card'' 5 ''za''])" "products demoCatalogDb = []"
  "findMerchant ''m1'' demoCatalogDb \<noteq> None"
  by (simp_all add: demoCatalogDb_def demoAuthDb_def authDb.defs demoSalesDb_def salesDb.defs demoVoucherDb_def voucherDb.defs demo_state catalogDb.defs findMerchant_def)

lemma demoCatalog_tables [simp]:
  "countries demoCatalogDb = countries demoPlatform" "currencies demoCatalogDb = currencies demoPlatform"
  "clock demoCatalogDb = 1700000000000" "bundledListing demoCatalogDb = JsNull"
  by (simp_all add: demoCatalogDb_def demoAuthDb_def authDb.defs demoSalesDb_def salesDb.defs demoVoucherDb_def voucherDb.defs demo_state catalogDb.defs)

lemma demo_listing: "parseFlashPimPayload (JsArr [demoItem ''Card'' 5 ''za'']) =
    Inr [\<lparr>mpExternal = ''7'', mpName = ''Card 5'', mpDescription = None, mpDelivery = ''VIRTUAL'', mpCountry = ''ZA'',
      mpCurrency = ''ZAR'', mpFixed = True, mpPrice = Some 500, mpMin = Some 500, mpMax = Some 500, mpCategory = None,
      mpBrand = None, mpBarcode = None, mpSupplier = None, mpActive = True\<rparr>]"
  by code_simp

lemma demo_sync: "\<exists>t res. syncMerchantCatalog (\<lambda>k. replicate k CHR ''p'') ''u'' ''m1'' demoCatalogDb = (Inr res, t)
    \<and> srUpserted res = 1 \<and> srTotal res = 1 \<and> map prName (products t) = [''Card 5'']"
  using demoCatalog_sel(5)
  by (simp add: syncMerchantCatalog_def getCatalogConfig_def syncPayload_def fetchCatalogJson_def demo_listing Let_def findMerchant_def
      syncItem_def unpriced_def insertMapped_def productAccepted_def fits_def fitsNumeric_def demo_tables deactivateMissing_def
      mappedRow_def retired_def updWhere_def io_calm tryCatch_def)

lemma sync_mirrors_listing_witness:
  "\<exists>t ps. parseFlashPimPayload (JsArr [demoItem ''Card'' 5 ''za'']) = Inr ps \<and> map prName (products t) = [''Card 5'']
     \<and> keyed ''m1'' (products t) \<and> mirrors ''m1'' ps (products t)
     \<and> (\<exists>res. syncMerchantCatalog (\<lambda>k. replicate k CHR ''p'') ''u'' ''m1'' demoCatalogDb = (Inr res, t))"
proof -
  obtain t res where run: "syncMerchantCatalog (\<lambda>k. replicate k CHR ''p'') ''u'' ''m1'' demoCatalogDb = (Inr res, t)"
    and t: "map prName (products t) = [''Card 5'']" "srTotal res = 1"
    using demo_sync by auto
  have inj: "inj (\<lambda>k. replicate k CHR ''p'')" by (rule injI) (metis length_replicate)
  obtain url listing ps where f: "feeds demoCatalogDb url = FeedJson listing \<or> listing = bundledListing demoCatalogDb"
    and p: "parseFlashPimPayload listing = Inr ps" "srTotal res = length ps" and k: "keyed ''m1'' (products t)" "mirrors ''m1'' ps (products t)"
    using sync_mirrors_listing [OF run _ _ inj] by (auto simp: keyed_def sourced_def)
  have "listing = JsArr [demoItem ''Card'' 5 ''za'']"
    using f p t(2) by (auto simp: parseFlashPimPayload_def Let_def field_def orElse_def)
  then show ?thesis using p k t(1) run by (intro exI [of _ t] exI [of _ ps] conjI exI [of _ res]) simp_all
qed

section \<open>Products kept by hand\<close>

lemma corridor_products [keeps_intro]:
  "keeps (\<lambda>s. products s = ps) (listProductCorridors newId m)"
  "keeps (\<lambda>s. products s = ps) (resolveProductCorridor newId m cur country)"
  unfolding resolveProductCorridor_def Let_def listProductCorridors_def ensureHeadOfficeStore_def insertStore_def
  by (intro keeps_intro keeps_io; auto simp: net_free_def split: if_splits option.splits)+

lemma corridor_same: "resolveProductCorridor newId m cur country s = (r, t) \<Longrightarrow> products t = products s"
  "listProductCorridors newId m s = (r', t) \<Longrightarrow> products t = products s"
  using keepsD [OF corridor_products(2), of s "products s" newId m cur country]
    keepsD [OF corridor_products(1), of s "products s" newId m] by simp_all

text \<open>An edit keeps what says where a row comes from.\<close>

definition sameOrigin :: "productRow \<Rightarrow> productRow \<Rightarrow> bool" where
  "sameOrigin r q \<longleftrightarrow> prId q = prId r \<and> prMerchant q = prMerchant r \<and> prSource q = prSource r \<and> prExternal q = prExternal r
     \<and> prSupplier q = prSupplier r \<and> prCategory q = prCategory r \<and> prBrand q = prBrand r"

lemma sameOrigin_refl [simp]: "sameOrigin r r" "sameOrigin r (applyFields f cor n r)"
  by (simp_all add: sameOrigin_def applyFields_def)

lemma updateProduct_rows:
  assumes "updateProduct i m f cor s = (x, t)"
  shows "list_all2 (\<lambda>r q. sameOrigin r q \<and> (q = r \<or> prId r = i \<and> prMerchant r = m)) (products s) (products t)"
proof -
  have "products t = products s \<or> products t = updWhere (\<lambda>r. prId r = i \<and> prMerchant r = m) (applyFields f cor (clock s)) (products s)"
    using assms by (auto simp: updateProduct_def io_def Let_def split: net.splits prod.splits option.splits if_splits sum.splits)
  then show ?thesis
    by (elim disjE) (auto simp: updWhere_def list_all2_map2 list.rel_refl list_all2_same)
qed

lemma tryCatch_orError: "tryCatch m (orError c) s = (r, t) \<Longrightarrow> t = snd (m s)"
  by (auto simp: tryCatch_def orError_def split: prod.splits sum.splits)

text \<open>The part of the edit after the body is read.\<close>

lemma edit_rows:
  assumes "\<And>r u. c s = (r, u) \<Longrightarrow> products u = products s"
  shows "list_all2 (\<lambda>p q. sameOrigin p q \<and> (q = p \<or> prId p = i \<and> prMerchant p = m)) (products s)
    (products (snd (andThen c (\<lambda>cor. if f = noFields \<and> cor = None then ret (ReplyErr 400 msg None)
      else andThen (updateProduct i m f cor) (\<lambda>r. case r of None \<Rightarrow> ret (ReplyErr 404 msg' None) | Some x \<Rightarrow> ret (Reply x))) s)))"
proof -
  have same: "list_all2 (\<lambda>p q. sameOrigin p q \<and> (q = p \<or> prId p = i \<and> prMerchant p = m)) ps ps" for ps
    by (rule list.rel_refl) simp
  obtain r u where c: "c s = (r, u)" by fastforce
  show ?thesis
  proof (cases r)
    case (Inr cor)
    obtain y v where v: "updateProduct i m f cor u = (y, v)" by fastforce
    have "products (snd (andThen (updateProduct i m f cor) (\<lambda>r. case r of None \<Rightarrow> ret (ReplyErr 404 msg' None) | Some x \<Rightarrow> ret (Reply x)) u)) = products v"
      by (auto simp: andThen_def v split: sum.splits option.splits)
    then show ?thesis using updateProduct_rows [OF v] assms [OF c] same c Inr by simp
  qed (use c assms [OF c] same in simp)
qed

text \<open>
  C23. A product edit, whatever its body, its reply and the network, changes at most the product named in the path, and
  that only for the merchant of the organisation admin's token; no edit changes where a product came from.
\<close>

theorem product_edit_isolated:
  "list_all2 (\<lambda>p q. sameOrigin p q \<and> (q = p \<or> prId p = i \<and>
      (\<exists>me. requireOrgAdmin W header = Inr me \<and> prMerchant p = orElse (meMerchant me) [])))
    (products s) (products (snd (updateProductRoute W header newId i b cur country s)))"
proof -
  obtain r t where assms: "updateProductRoute W header newId i b cur country s = (r, t)" by fastforce
  have same: ?thesis if "products t = products s"
    using that by (simp add: assms list.rel_refl)
  have "list_all2 (\<lambda>p q. sameOrigin p q \<and> (q = p \<or> prId p = i \<and>
      (\<exists>me. requireOrgAdmin W header = Inr me \<and> prMerchant p = orElse (meMerchant me) []))) (products s) (products t)"
  proof (cases "requireOrgAdmin W header")
    case (Inl e)
    then have "products t = products s" using assms by (cases e) (simp add: updateProductRoute_def asOrgAdmin_def)
    then show ?thesis using same assms by simp
  next
    case (Inr me)
    let ?m = "orElse (meMerchant me) []"
    have "list_all2 (\<lambda>p q. sameOrigin p q \<and> (q = p \<or> prId p = i \<and> prMerchant p = ?m)) (products s) (products t)"
    proof (cases "parseProductBody b True")
      case (Inl msg)
      then show ?thesis using assms \<open>requireOrgAdmin W header = Inr me\<close>
        by (auto simp: updateProductRoute_def asOrgAdmin_def intro: list.rel_refl)
    next
      case (Inr f)
      have t: "t = snd (andThen (case orEmpty cur [] of [] \<Rightarrow> ret None
          | c # cs \<Rightarrow> andThen (resolveProductCorridor newId ?m (c # cs) country) (\<lambda>x. ret (Some x)))
        (\<lambda>cor. if f = noFields \<and> cor = None then ret (ReplyErr 400 ''Nothing to update'' None)
          else andThen (updateProduct i ?m f cor) (\<lambda>r. case r of
            None \<Rightarrow> ret (ReplyErr 404 ''Product not found in your catalog'' None) | Some x \<Rightarrow> ret (Reply x))) s)"
        by (rule tryCatch_orError) (use assms Inr \<open>requireOrgAdmin W header = Inr me\<close> in \<open>simp add: updateProductRoute_def asOrgAdmin_def\<close>)
      show ?thesis unfolding t
        by (rule edit_rows) (auto simp: andThen_def split: list.splits prod.splits sum.splits dest: corridor_same)
    qed
    then show ?thesis by (rule list.rel_mono_strong) (use \<open>requireOrgAdmin W header = Inr me\<close> in auto)
  qed
  then show ?thesis by (simp add: assms)
qed

text \<open>A product cannot be created with \<open>isActive\<close> in the body, whatever its value.\<close>

lemma parseProductBody_active: "parseProductBody b p = Inr f \<Longrightarrow> pfActive f = pbActive b"
  by (auto simp: parseProductBody_def Let_def sbind_Inr_iff)

lemma insertProduct_active: "pfActive f \<noteq> None \<Longrightarrow> fst (insertProduct r f s) \<noteq> Inr x"
  by (auto simp: insertProduct_def io_def Let_def split: prod.splits net.splits)

lemma create_with_isActive_fails:
  assumes "pbActive b \<noteq> None"
  shows "fst (createProductRoute W header storeId newId url b cur country s) \<noteq> Inr (Reply r)"
proof
  assume "fst (createProductRoute W header storeId newId url b cur country s) = Inr (Reply r)"
  then obtain t where "createProductRoute W header storeId newId url b cur country s = (Inr (Reply r), t)"
    by (metis prod.collapse)
  then show False
    using assms unfolding createProductRoute_def asOrgAdmin_def tryCatch_def orError_def
    by (auto split: sum.splits prod.splits elim!: andThen_InrE dest!: parseProductBody_active)
      (metis insertProduct_active fst_conv option.discI)
qed

text \<open>One item of an unknown country ends the sync: the rows before it are written, the reply is 500.\<close>

definition demoBroken :: catalogDb where
  "demoBroken = demoCatalogDb\<lparr>feeds := \<lambda>_. FeedJson (JsArr [demoItem ''Card'' 5 ''za'', (demoItem ''Card'' 9 ''zz'')])\<rparr>"

lemma broken_listing: "parseFlashPimPayload (JsArr [demoItem ''Card'' 5 ''za'', demoItem ''Card'' 9 ''zz'']) =
    Inr [\<lparr>mpExternal = ''7'', mpName = ''Card 5'', mpDescription = None, mpDelivery = ''VIRTUAL'', mpCountry = ''ZA'',
      mpCurrency = ''ZAR'', mpFixed = True, mpPrice = Some 500, mpMin = Some 500, mpMax = Some 500, mpCategory = None,
      mpBrand = None, mpBarcode = None, mpSupplier = None, mpActive = True\<rparr>,
      \<lparr>mpExternal = ''7'', mpName = ''Card 9'', mpDescription = None, mpDelivery = ''VIRTUAL'', mpCountry = ''ZZ'',
      mpCurrency = ''ZAR'', mpFixed = True, mpPrice = Some 900, mpMin = Some 900, mpMax = Some 900, mpCategory = None,
      mpBrand = None, mpBarcode = None, mpSupplier = None, mpActive = True\<rparr>]"
  by code_simp

lemma unknown_country_ends_sync:
  "case syncMerchantCatalog (\<lambda>k. replicate k CHR ''p'') ''u'' ''m1'' demoBroken of (r, t) \<Rightarrow>
     r = Inl rejectedRow \<and> map prName (products t) = [''Card 5''] \<and> cgSynced (catalogs t ''m1'') = None"
  using demoCatalog_sel(5)
  by (simp add: demoBroken_def syncMerchantCatalog_def getCatalogConfig_def syncPayload_def fetchCatalogJson_def broken_listing Let_def findMerchant_def
      syncItem_def unpriced_def insertMapped_def updateMapped_def productAccepted_def fits_def fitsNumeric_def demo_tables deactivateMissing_def
      mappedRow_def retired_def updWhere_def io_calm tryCatch_def)

end
