(* ===== verification/Spec2Isabelle.thy ===== *)
theory Spec2Isabelle
  imports TreasuryProps AuthProps SalesProps TransferProps IndexerProps ConsumerRegistry GasProps RegistrationProps VaultBacking CatalogueProps
begin

text \<open>
  The money path of a payment platform: smart contracts that hold the consumers' value
  (\<open>src/src/*.sol\<close>) and the server that moves it on their behalf (\<open>src/server/src/*.ts\<close>).

  \<^bold>\<open>How the program is modelled.\<close> A handler or service function is a program of the theory \<^emph>\<open>Prelude\<close>, a
  function from a state to a result (a failure with its message, HTTP status and code, or a value) and the
  state afterwards: as in JavaScript, a throw keeps what was changed before it, and \<open>tryCatch\<close> is
  \<open>try/catch\<close>. The state is one record that each component extends: the chain (\<^emph>\<open>Chain\<close>), the tables
  and caches of the platform (\<^emph>\<open>Platform\<close>), then the tables of the component.

  Every access to the chain, the database or an external service can fail. The field \<open>net\<close> of the state is
  the network's behaviour in the order of the accesses: \<open>Delivered\<close>; \<open>Lost\<close>, nothing happened and the
  caller sees an error; \<open>Unacked\<close>, it took effect and the caller sees an error. An empty list is a network
  without faults. A property \<open>on any network\<close> holds for every such list. Time is the field \<open>clock\<close>.

  \<^bold>\<open>Parameters.\<close> What is not in the repository is a parameter: \<open>env\<close> (configuration, \<open>keccak256\<close>,
  \<open>sha256\<close>, ERC-20 tokens, \<open>ethers\<close>' reading of addresses and amounts), \<open>waEnv\<close> (WebAuthn and token
  signatures), \<open>sessionEnv\<close> (EIP-712 digests and signature recovery), \<open>safeApi\<close> (the Safe contract),
  \<open>indexEnv\<close> (event decoding). Replies of HTTP services are fields of the state; random values are arguments.
  The theory \<^emph>\<open>Fixtures\<close> instantiates them with concrete functions, on which the witnesses are evaluated.

  \<^bold>\<open>Contracts.\<close>
    \<^item> \<^emph>\<open>Solidity\<close>, \<^emph>\<open>Vault\<close>: \<open>Vault.sol\<close>, a share ledger per currency with checked 256-bit arithmetic. The
      lemmas show what a credit, a debit and a transfer do to every balance and that shares add up; they make
      the Vault an instance of the ledger interfaces of \<^emph>\<open>Ledger\<close> (\<open>pool\<close>: every currency; \<open>cash\<close>: the
      currencies whose share is worth one unit, where moves are exact).
    \<^item> \<^emph>\<open>TreasuryToken\<close>: \<open>TreasuryToken.sol\<close>, minting, transfers and their compliance gates. \<^emph>\<open>Chain\<close>
      joins the contracts and sends transactions.
    \<^item> \<^emph>\<open>VaultAdmin\<close>, \<^emph>\<open>VaultAdminProps\<close>, \<^emph>\<open>VaultBacking\<close>: the configuration of both contracts, deposits, purchases of
      USD, every entry point as a message, and the states any calls of any senders can reach; the DEX
      router is a parameter with its documented behaviour (\<open>routerLaw\<close>).
    \<^item> \<^emph>\<open>SessionModule\<close>: \<open>SessionTransferModule.sol\<close>, as a refinement of a ledger of accepted payments.
    \<^item> \<^emph>\<open>ConsumerRegistry\<close>: \<open>Consumer.sol\<close>, the registry of accounts, their recovery and the log of
      remittances, as a step relation over all callers; the deployment of a Safe is a parameter.

  \<^bold>\<open>Services and routes.\<close>
    \<^item> \<^emph>\<open>JsNumber\<close>, \<^emph>\<open>JsError\<close>, \<^emph>\<open>JsText\<close>, \<^emph>\<open>JsDate\<close>: binary64 arithmetic as rounded rationals, the
      relative error of a chain of operations, numbers as text, dates.
    \<^item> \<^emph>\<open>Revenue\<close>, \<^emph>\<open>Fx\<close>, \<^emph>\<open>KycSpend\<close>: \<open>revenueConfig.ts\<close>, \<open>fxService.ts\<close>, \<open>kycSpendService.ts\<close>.
    \<^item> \<^emph>\<open>Treasury\<close>, \<^emph>\<open>TreasuryProps\<close>: \<open>treasuryService.ts\<close>; backing of credits, harvest, registration.
    \<^item> \<^emph>\<open>CashIn\<close>, \<^emph>\<open>Conversion\<close>, \<^emph>\<open>Escrow\<close>: \<open>cashInService.ts\<close>, \<open>conversionService.ts\<close>,
      \<open>escrowService.ts\<close> and \<open>claim.routes.ts\<close>, with their properties. The interface \<open>one_shot\<close> of
      \<^emph>\<open>OneShot\<close> (of the requests that share a key, whatever else they ask, at most one succeeds) serves
      deposit references, challenges and nonces. Exactness of moves is stated for a currency at parity (a share
      is worth one unit) and over every account and every currency.
    \<^item> \<^emph>\<open>Retail\<close>, \<^emph>\<open>ChangeVoucher\<close>, \<^emph>\<open>Sales\<close>, \<^emph>\<open>SalesProps\<close>: products, stores, destinations, change
      vouchers, quotes, sales and their fulfilment as a state machine over all interleavings.
    \<^item> \<^emph>\<open>Json\<close>, \<^emph>\<open>Catalogue\<close>, \<^emph>\<open>CatalogueProps\<close>: \<open>productCatalogService.ts\<close> and the product routes of
      \<open>merchantSelf.routes.ts\<close>: a sync of the products with an external listing, and their edits by hand.
    \<^item> \<^emph>\<open>WebAuthn\<close>, \<^emph>\<open>Auth\<close>, \<^emph>\<open>AuthRoutes\<close>, \<^emph>\<open>AuthProps\<close>: passkeys, nonces, guards and logins.
    \<^item> \<^emph>\<open>Withdrawal\<close>, \<^emph>\<open>WithdrawalProps\<close>: \<open>withdrawalService.ts\<close>.
    \<^item> \<^emph>\<open>Settlement\<close>, \<^emph>\<open>SettlementProps\<close>: \<open>settlement.routes.ts\<close> and the execution route of
      \<open>admin.routes.ts\<close>, as a state machine over all interleavings.
    \<^item> \<^emph>\<open>Session\<close>, \<^emph>\<open>Transfers\<close>, \<^emph>\<open>TransferProps\<close>: \<open>safeRelayService.ts\<close>, \<open>sessionService.ts\<close>,
      \<open>appFeatures.ts\<close>, and the payment routes of \<open>consumer.routes.ts\<close>.
    \<^item> \<^emph>\<open>Indexer\<close>, \<^emph>\<open>IndexerProps\<close>: \<open>indexerService.ts\<close>. Its loop is a partial function into an option, and
      it is proved to return for every configuration.
    \<^item> \<^emph>\<open>GasCost\<close>, \<^emph>\<open>GasReport\<close>, \<^emph>\<open>GasProps\<close>: \<open>gasCostService.ts\<close> and the price look-up of
      \<open>dexQuoteService.ts\<close>: one row per transaction paid by the platform, and the report of the totals,
      whose break-downs are compared row by row with the table.
    \<^item> \<^emph>\<open>Registration\<close>, \<^emph>\<open>RegistrationProps\<close>: \<open>registrationService.ts\<close>, \<open>registration.routes.ts\<close> and the
      services they call (\<open>ensService.ts\<close>, \<open>idosService.ts\<close>, \<open>pimlicoService.ts\<close>): sign-up and recovery.

  \<^bold>\<open>Bounds.\<close> \<open>uint256\<close> values are naturals with the overflow checks written out; amounts of the server are
  integers, as \<open>bigint\<close>. No model runs on fuel: loops are structural or, in the indexer, proved to end.

  \<^bold>\<open>Not modelled.\<close> The web front ends, the other reports and statistics (queries shaped into JSON), administration of
  reference data, and the proxies and role administration of the contracts.
  Log output, locale formatting of figures and images are left out throughout.
\<close>

end
